(* ===== verification/Prelude.thy ===== *)
theory Prelude
  imports Complex_Main "HOL-Library.Sublist"
begin

text \<open>
  Shared vocabulary of the development: the JavaScript built-ins the sources call
  (insertion-ordered \<open>Map\<close>, \<open>Array.prototype.slice\<close> with a negative
  argument, \<open>findIndex\<close>-based deduplication, nullish coalescing, string
  search) and the list facts the components share.

  Text is a \<open>string\<close>, read as the UTF-8 bytes of the JavaScript string; the
  case mapping \<open>js_lower\<close> and the white space of \<open>js_trim\<close> cover the ASCII
  range. Identifiers and counters are \<open>int\<close>: the values stay far below
  \<open>2 ^ 53\<close>, where a double is exact.
\<close>

section \<open>Collections of simplification rules\<close>

named_theorems js_array \<open>array and Map built-ins\<close>
named_theorems js_text \<open>string built-ins\<close>

section \<open>Optional values\<close>

definition nullish :: "'a option \<Rightarrow> 'a \<Rightarrow> 'a" where
  "nullish v d = (case v of None \<Rightarrow> d | Some x \<Rightarrow> x)"

lemma nullish_simps [simp]: "nullish None d = d" "nullish (Some x) d = x"
  by (simp_all add: nullish_def)

definition or_string :: "string option \<Rightarrow> string \<Rightarrow> string" where
  "or_string v d = (case v of None \<Rightarrow> d | Some x \<Rightarrow> if x = [] then d else x)"

lemma or_string_simps [simp]:
  "or_string None d = d" "or_string (Some []) d = d" "x \<noteq> [] \<Longrightarrow> or_string (Some x) d = x"
  by (simp_all add: or_string_def)

lemma or_string_empty [simp]: "or_string (Some x) [] = x"
  by (simp add: or_string_def)

definition truthy_string :: "string option \<Rightarrow> bool" where
  "truthy_string v \<longleftrightarrow> (case v of None \<Rightarrow> False | Some x \<Rightarrow> x \<noteq> [])"

lemma truthy_string_simps [simp]:
  "truthy_string None \<longleftrightarrow> False" "truthy_string (Some x) \<longleftrightarrow> x \<noteq> []"
  by (simp_all add: truthy_string_def)

section \<open>Insertion-ordered maps\<close>

text \<open>\<open>map.set(k, v)\<close> overwrites in place or appends: the order of first insertion stays.\<close>

fun map_set :: "'k \<Rightarrow> 'v \<Rightarrow> ('k \<times> 'v) list \<Rightarrow> ('k \<times> 'v) list" where
  "map_set k v [] = [(k, v)]"
| "map_set k v ((k', v') # m) = (if k' = k then (k, v) # m else (k', v') # map_set k v m)"

definition map_set_all :: "('v \<Rightarrow> 'k) \<Rightarrow> 'v list \<Rightarrow> ('k \<times> 'v) list \<Rightarrow> ('k \<times> 'v) list" where
  "map_set_all key xs m = fold (\<lambda>x. map_set (key x) x) xs m"

lemma map_of_map_set [js_array]: "map_of (map_set k v m) = (map_of m)(k \<mapsto> v)"
  by (induction k v m rule: map_set.induct) (auto simp: fun_eq_iff)

lemma keys_map_set [js_array]: "fst ` set (map_set k v m) = insert k (fst ` set m)"
  by (induction k v m rule: map_set.induct) auto

lemma distinct_map_set [js_array]: "distinct (map fst m) \<Longrightarrow> distinct (map fst (map_set k v m))"
proof (induction k v m rule: map_set.induct)
  case (2 k v k' v' m)
  have "k' \<notin> fst ` set (map_set k v m)" if "k' \<noteq> k"
    using that 2(2) by (simp add: keys_map_set)
  with 2 show ?case by auto
qed simp

lemma map_set_new [js_array]: "k \<notin> fst ` set m \<Longrightarrow> map_set k v m = m @ [(k, v)]"
  by (induction k v m rule: map_set.induct) auto

lemma map_set_all_Nil [simp]: "map_set_all key [] m = m"
  by (simp add: map_set_all_def)

lemma map_set_all_Cons [simp]:
  "map_set_all key (x # xs) m = map_set_all key xs (map_set (key x) x m)"
  by (simp add: map_set_all_def)

lemma keys_map_set_all [js_array]:
  "fst ` set (map_set_all key xs m) = fst ` set m \<union> key ` set xs"
  by (induction xs arbitrary: m) (auto simp: keys_map_set)

lemma distinct_map_set_all [js_array]:
  "distinct (map fst m) \<Longrightarrow> distinct (map fst (map_set_all key xs m))"
  by (induction xs arbitrary: m) (auto simp: distinct_map_set)

text \<open>A map whose values are stored under their own key.\<close>

definition keyed :: "('v \<Rightarrow> 'k) \<Rightarrow> ('k \<times> 'v) list \<Rightarrow> bool" where
  "keyed key m \<longleftrightarrow> (\<forall>(k, v) \<in> set m. k = key v)"

lemma keyed_Nil [simp]: "keyed key []"
  by (simp add: keyed_def)

lemma keyed_map_set [js_array]: "keyed key m \<Longrightarrow> keyed key (map_set (key v) v m)"
proof -
  have "set (map_set k v m) \<subseteq> insert (k, v) (set m)" for k
    by (induction k v m rule: map_set.induct) auto
  then show "keyed key m \<Longrightarrow> keyed key (map_set (key v) v m)"
    by (fastforce simp: keyed_def)
qed

lemma keyed_map_set_all [js_array]: "keyed key m \<Longrightarrow> keyed key (map_set_all key xs m)"
  by (induction xs arbitrary: m) (auto simp: keyed_map_set)

lemma keyed_map_fst: "keyed key m \<Longrightarrow> map fst m = map key (map snd m)"
  by (induction m) (auto simp: keyed_def)

lemma keyed_values:
  assumes "keyed key m" "distinct (map fst m)"
  shows "v \<in> set (map snd m) \<longleftrightarrow> map_of m (key v) = Some v"
proof -
  have "v \<in> set (map snd m) \<longleftrightarrow> (key v, v) \<in> set m"
    using assms(1) by (force simp: keyed_def)
  then show ?thesis using assms(2) by (simp add: map_of_eq_Some_iff)
qed

lemma map_set_all_fresh [js_array]:
  assumes "distinct (map key xs)" "key ` set xs \<inter> fst ` set m = {}"
  shows "map_set_all key xs m = m @ map (\<lambda>x. (key x, x)) xs"
  using assms
proof (induction xs arbitrary: m)
  case (Cons x xs)
  then have "map_set_all key xs (m @ [(key x, x)]) = (m @ [(key x, x)]) @ map (\<lambda>x. (key x, x)) xs"
    by (intro Cons.IH) auto
  with Cons.prems show ?case by (simp add: map_set_new)
qed simp

section \<open>Arrays\<close>

text \<open>\<open>xs.slice(-n)\<close>: the last \<open>n\<close> elements, and the whole array when \<open>n\<close> is zero.\<close>

definition slice_last :: "nat \<Rightarrow> 'a list \<Rightarrow> 'a list" where
  "slice_last n xs = (if n = 0 then xs else drop (length xs - n) xs)"

lemma length_slice_last [js_array]: "0 < n \<Longrightarrow> length (slice_last n xs) = min n (length xs)"
  by (simp add: slice_last_def)

lemma set_slice_last: "set (slice_last n xs) \<subseteq> set xs"
  by (simp add: slice_last_def set_drop_subset)

lemma slice_last_short [js_array]: "length xs \<le> n \<Longrightarrow> slice_last n xs = xs"
  by (simp add: slice_last_def)

lemma slice_last_append:
  "0 < n \<Longrightarrow> n \<le> length ys \<Longrightarrow> slice_last n (xs @ ys) = slice_last n ys"
  by (simp add: slice_last_def)

lemma slice_last_suffix: "suffix (slice_last n xs) xs"
  by (simp add: slice_last_def suffix_drop)

text \<open>\<open>xs.filter((x, i, all) => all.findIndex((y) => key(y) === key(x)) === i)\<close>.\<close>

fun first_by :: "('a \<Rightarrow> 'k) \<Rightarrow> 'a list \<Rightarrow> 'a list" where
  "first_by key [] = []"
| "first_by key (x # xs) = x # filter (\<lambda>y. key y \<noteq> key x) (first_by key xs)"

lemma set_first_by_subset: "set (first_by key xs) \<subseteq> set xs"
  by (induction xs) auto

lemma keys_first_by: "key ` set (first_by key xs) = key ` set xs"
proof (induction xs)
  case (Cons x xs)
  have "key ` set (first_by key (x # xs)) = insert (key x) (key ` set (first_by key xs))"
    by auto
  with Cons show ?case by simp
qed simp

lemma distinct_first_by: "distinct (map key (first_by key xs))"
proof (induction xs)
  case (Cons x xs)
  then have "distinct (map key (filter (\<lambda>y. key y \<noteq> key x) (first_by key xs)))"
    by (simp add: distinct_map_filter)
  then show ?case by auto
qed simp

lemma first_by_id: "distinct (map key xs) \<Longrightarrow> first_by key xs = xs"
proof (induction xs)
  case (Cons x xs)
  then show ?case by (auto simp: filter_id_conv rev_image_eqI)
qed simp

section \<open>Strings\<close>

definition lower_char :: "char \<Rightarrow> char" where
  "lower_char c =
     (if 65 \<le> (of_char c :: nat) \<and> (of_char c :: nat) \<le> 90
      then char_of ((of_char c :: nat) + 32) else c)"

definition js_lower :: "string \<Rightarrow> string" where
  "js_lower = map lower_char"

definition is_space :: "char \<Rightarrow> bool" where
  "is_space c \<longleftrightarrow> (of_char c :: nat) \<in> {9, 10, 11, 12, 13, 32}"

definition js_trim :: "string \<Rightarrow> string" where
  "js_trim s = rev (dropWhile is_space (rev (dropWhile is_space s)))"

definition js_includes :: "string \<Rightarrow> string \<Rightarrow> bool" where
  "js_includes s needle \<longleftrightarrow> sublist needle s"

definition js_starts_with :: "string \<Rightarrow> string \<Rightarrow> bool" where
  "js_starts_with s p \<longleftrightarrow> prefix p s"

text \<open>The part before the first separator and, when there is one, the part after it.\<close>

fun split_at :: "char \<Rightarrow> string \<Rightarrow> string \<times> string option" where
  "split_at c [] = ([], None)"
| "split_at c (x # xs) =
     (if x = c then ([], Some xs)
      else (case split_at c xs of (a, b) \<Rightarrow> (x # a, b)))"

lemma split_at_absent [js_text]: "c \<notin> set s \<Longrightarrow> split_at c s = (s, None)"
  by (induction s) auto

lemma split_at_append [js_text]: "c \<notin> set a \<Longrightarrow> split_at c (a @ c # b) = (a, Some b)"
  by (induction a) auto

fun split_all :: "char \<Rightarrow> string \<Rightarrow> string list" where
  "split_all c [] = [[]]"
| "split_all c (x # xs) =
     (if x = c then [] # split_all c xs
      else (case split_all c xs of [] \<Rightarrow> [[x]] | p # ps \<Rightarrow> (x # p) # ps))"

lemma split_all_not_Nil [simp]: "split_all c s \<noteq> []"
  by (cases s) (auto split: list.splits)

lemma split_all_absent [js_text]: "c \<notin> set s \<Longrightarrow> split_all c s = [s]"
  by (induction s) auto

lemma split_all_append [js_text]: "c \<notin> set a \<Longrightarrow> split_all c (a @ c # b) = a # split_all c b"
  by (induction a) auto

fun join_with :: "string \<Rightarrow> string list \<Rightarrow> string" where
  "join_with sep [] = []"
| "join_with sep [x] = x"
| "join_with sep (x # y # xs) = x @ sep @ join_with sep (y # xs)"

lemma split_all_join [js_text]:
  "xs \<noteq> [] \<Longrightarrow> \<forall>x \<in> set xs. c \<notin> set x \<Longrightarrow> split_all c (join_with [c] xs) = xs"
  by (induction "[c]" xs rule: join_with.induct) (auto simp: split_all_absent split_all_append)

section \<open>Decimal numerals\<close>

definition digit_char :: "nat \<Rightarrow> char" where
  "digit_char d = char_of (48 + d)"

definition digit_of :: "char \<Rightarrow> nat option" where
  "digit_of c =
     (let n = (of_char c :: nat) in if 48 \<le> n \<and> n \<le> 57 then Some (n - 48) else None)"

lemma digit_of_digit_char [simp]: "d < 10 \<Longrightarrow> digit_of (digit_char d) = Some d"
  by (simp add: digit_of_def digit_char_def Let_def)

fun nat_string :: "nat \<Rightarrow> string" where
  "nat_string n = (if n < 10 then [digit_char n] else nat_string (n div 10) @ [digit_char (n mod 10)])"

declare nat_string.simps [simp del]

lemma nat_string_not_Nil [simp]: "nat_string n \<noteq> []"
  by (subst nat_string.simps) simp

fun digits_value :: "nat \<Rightarrow> string \<Rightarrow> nat option" where
  "digits_value acc [] = Some acc"
| "digits_value acc (c # cs) =
     (case digit_of c of None \<Rightarrow> None | Some d \<Rightarrow> digits_value (10 * acc + d) cs)"

lemma digits_value_append:
  "digits_value acc (xs @ ys) =
     (case digits_value acc xs of None \<Rightarrow> None | Some a \<Rightarrow> digits_value a ys)"
  by (induction acc xs rule: digits_value.induct) (auto split: option.splits)

lemma digits_value_nat_string [js_text]: "digits_value 0 (nat_string n) = Some n"
proof (induction n rule: nat_string.induct)
  case (1 n)
  show ?case
  proof (cases "n < 10")
    case True
    then show ?thesis by (simp add: nat_string.simps [of n])
  next
    case False
    with 1 have "digits_value 0 (nat_string (n div 10)) = Some (n div 10)" by simp
    moreover have "10 * (n div 10) + n mod 10 = n" by simp
    ultimately show ?thesis
      using False by (simp add: nat_string.simps [of n] digits_value_append)
  qed
qed

lemma nat_string_digits: "c \<in> set (nat_string n) \<Longrightarrow> digit_of c \<noteq> None"
proof (induction n rule: nat_string.induct)
  case (1 n)
  then show ?case
    by (cases "n < 10") (auto simp: nat_string.simps [of n])
qed

lemma nat_string_inj: "nat_string m = nat_string n \<longleftrightarrow> m = n"
  by (metis digits_value_nat_string option.inject)

definition int_string :: "int \<Rightarrow> string" where
  "int_string i = (if i < 0 then CHR ''-'' # nat_string (nat (- i)) else nat_string (nat i))"

end
