(* ===== verification/Json.thy ===== *)
theory Json
  imports Prelude
begin

text \<open>
  Untyped response payloads. A value of TypeScript type \<open>unknown\<close> that comes out
  of \<open>response.json()\<close> is a \<open>json\<close> tree; \<open>undefined\<close>, which a missing
  property reads as, is \<open>None\<close> of \<open>json option\<close>. Numbers are exact rationals.
  An object is its list of own properties in key order, without duplicates.
\<close>

datatype json =
    JNull
  | JBool bool
  | JNum rat
  | JStr string
  | JArr "json list"
  | JObj "(string \<times> json) list"

type_synonym json_object = "(string \<times> json) list"

text \<open>\<open>object[field]\<close> and the update \<open>{ ...object, [field]: value }\<close>.\<close>

definition prop_of :: "json_object \<Rightarrow> string \<Rightarrow> json option" where
  "prop_of obj field = map_of obj field"

definition prop_set :: "json_object \<Rightarrow> string \<Rightarrow> json \<Rightarrow> json_object" where
  "prop_set obj field v = map_set field v obj"

lemma prop_of_prop_set [simp]:
  "prop_of (prop_set obj f v) g = (if f = g then Some v else prop_of obj g)"
  by (auto simp: prop_of_def prop_set_def map_of_map_set)

lemma prop_set_same [simp]: "prop_of obj f = Some v \<Longrightarrow> prop_set obj f v = obj"
  unfolding prop_of_def prop_set_def
  by (induction f v obj rule: map_set.induct) (auto split: if_splits)

text \<open>\<open>v ?? d\<close> on a property: \<open>undefined\<close> and \<open>null\<close> take the default.\<close>

definition json_nullish :: "json option \<Rightarrow> json \<Rightarrow> json" where
  "json_nullish v d = (case v of None \<Rightarrow> d | Some JNull \<Rightarrow> d | Some x \<Rightarrow> x)"

lemma json_nullish_not_null [simp]: "d \<noteq> JNull \<Longrightarrow> json_nullish v d \<noteq> JNull"
  by (auto simp: json_nullish_def split: option.splits json.splits)

lemma json_nullish_idem [simp]: "json_nullish (Some (json_nullish v d)) d = json_nullish v d"
  by (auto simp: json_nullish_def split: option.splits json.splits)

text \<open>The string a property holds, when it holds a non-empty one (\<open>payload.code || d\<close>).\<close>

definition json_string_or :: "json option \<Rightarrow> string \<Rightarrow> string" where
  "json_string_or v d = (case v of Some (JStr s) \<Rightarrow> if s = [] then d else s | _ \<Rightarrow> d)"

end
