(* ===== verification/ApiContracts.thy ===== *)
theory ApiContracts
  imports Json
begin

text \<open>
  Errors and response validation of web/src/api.ts: \<open>ApiError\<close>,
  \<open>errorMessage\<close>, the \<open>expect*\<close> guards that every endpoint applies to the
  payload it receives, and \<open>normalizeConfigCollections\<close>. A thrown error is
  \<open>Inl\<close>. Translations come from i18next, a package outside the repository:
  the function \<open>t\<close> is a parameter (\<open>t key\<close> for \<open>i18n.t(key)\<close>, and \<open>[]\<close> for a
  key it has no text for when the caller passes an empty default).
\<close>

section \<open>Errors\<close>

record ApiError =
  ae_code :: string
  ae_message :: string
  ae_details :: "json option"

datatype js_error = ApiFailure ApiError | PlainError string | OtherReason

type_synonym 'a js_result = "js_error + 'a"

definition invalid_response :: "string \<Rightarrow> js_error" where
  "invalid_response message =
     ApiFailure \<lparr>ae_code = ''INVALID_API_RESPONSE'', ae_message = message, ae_details = None\<rparr>"

fun error_text :: "js_error \<Rightarrow> string" where
  "error_text (ApiFailure e) = ae_message e"
| "error_text (PlainError m) = m"
| "error_text OtherReason = []"

definition errorMessage :: "(string \<Rightarrow> string) \<Rightarrow> js_error \<Rightarrow> string \<Rightarrow> string" where
  "errorMessage t reason fallbackKey =
     (let translated = (case reason of ApiFailure e \<Rightarrow> t (''errors:api.'' @ ae_code e) | _ \<Rightarrow> [])
      in if translated \<noteq> [] then translated
         else if error_text reason \<noteq> [] then error_text reason
         else t (''errors:'' @ fallbackKey))"

section \<open>Guards\<close>

fun expectObject :: "json option \<Rightarrow> string \<Rightarrow> json_object js_result" where
  "expectObject (Some (JObj obj)) label = Inr obj"
| "expectObject v label = Inl (invalid_response (label @ '': expected object''))"

fun expectArray :: "json option \<Rightarrow> string \<Rightarrow> json list js_result" where
  "expectArray (Some (JArr xs)) label = Inr xs"
| "expectArray v label = Inl (invalid_response (label @ '': expected array''))"

text \<open>\<open>fields.forEach\<close>: the first field that is not an array throws.\<close>

fun expectFields :: "json_object \<Rightarrow> string \<Rightarrow> string list \<Rightarrow> unit js_result" where
  "expectFields obj label [] = Inr ()"
| "expectFields obj label (f # fs) =
     (case expectArray (prop_of obj f) (label @ ''.'' @ f) of
        Inl e \<Rightarrow> Inl e
      | Inr _ \<Rightarrow> expectFields obj label fs)"

definition expectObjectArrays :: "json option \<Rightarrow> string \<Rightarrow> string list \<Rightarrow> json_object js_result" where
  "expectObjectArrays v label names =
     (case expectObject v label of
        Inl e \<Rightarrow> Inl e
      | Inr obj \<Rightarrow>
          (case expectFields obj label names of Inl e \<Rightarrow> Inl e | Inr _ \<Rightarrow> Inr obj))"

definition expectCaptureRecord :: "json option \<Rightarrow> string \<Rightarrow> json_object js_result" where
  "expectCaptureRecord v label =
     (case expectObject v label of
        Inl e \<Rightarrow> Inl e
      | Inr obj \<Rightarrow>
          (case expectArray (prop_of obj ''attempts'') (label @ ''.attempts'') of
             Inl e \<Rightarrow> Inl e | Inr _ \<Rightarrow> Inr obj))"

definition is_token :: "json option \<Rightarrow> bool" where
  "is_token v \<longleftrightarrow> (case v of Some (JStr s) \<Rightarrow> s \<noteq> [] | _ \<Rightarrow> False)"

definition is_text :: "json option \<Rightarrow> bool" where
  "is_text v \<longleftrightarrow> (case v of Some (JStr s) \<Rightarrow> True | _ \<Rightarrow> False)"

definition expectUncertainPreview :: "json option \<Rightarrow> string \<Rightarrow> json_object js_result" where
  "expectUncertainPreview v label =
     (case expectObject v label of
        Inl e \<Rightarrow> Inl e
      | Inr preview \<Rightarrow>
          if \<not> is_token (prop_of preview ''confirmationToken'')
          then Inl (invalid_response (label @ ''.confirmationToken: expected token''))
          else if \<not> is_text (prop_of preview ''expiresAt'')
          then Inl (invalid_response (label @ ''.expiresAt: expected timestamp''))
          else (case expectObject (prop_of preview ''evidence'') (label @ ''.evidence'') of
                  Inl e \<Rightarrow> Inl e
                | Inr evidence \<Rightarrow>
                    (case expectArray (prop_of evidence ''attempts'') (label @ ''.evidence.attempts'') of
                       Inl e \<Rightarrow> Inl e | Inr _ \<Rightarrow> Inr preview)))"

section \<open>Configuration collections\<close>

text \<open>
  \<open>config.upstreams\<close> and the other sections are read without a guard: a
  section that is missing or \<open>null\<close> makes the property access throw. Any
  other value is spread: an array or a string by its indices, a number or a boolean
  to nothing.
\<close>

definition indexed_props :: "json list \<Rightarrow> json_object" where
  "indexed_props xs = zip (map nat_string [0..<length xs]) xs"

definition section_of :: "json_object \<Rightarrow> string \<Rightarrow> json_object js_result" where
  "section_of obj name =
     (case prop_of obj name of
        None \<Rightarrow> Inl (PlainError ''TypeError'')
      | Some JNull \<Rightarrow> Inl (PlainError ''TypeError'')
      | Some (JObj sec) \<Rightarrow> Inr sec
      | Some (JArr xs) \<Rightarrow> Inr (indexed_props xs)
      | Some (JStr s) \<Rightarrow> Inr (indexed_props (map (\<lambda>c. JStr [c]) s))
      | Some _ \<Rightarrow> Inr [])"

definition fill_arrays :: "string list \<Rightarrow> json_object \<Rightarrow> json_object" where
  "fill_arrays names sec =
     fold (\<lambda>f s. prop_set s f (json_nullish (prop_of sec f) (JArr []))) names sec"

definition normalize_section :: "string \<Rightarrow> string list \<Rightarrow> json_object \<Rightarrow> json_object js_result" where
  "normalize_section name names config =
     (case section_of config name of
        Inl e \<Rightarrow> Inl e
      | Inr sec \<Rightarrow> Inr (prop_set config name (JObj (fill_arrays names sec))))"

definition normalize_oidc :: "json_object \<Rightarrow> json_object js_result" where
  "normalize_oidc config =
     (case section_of config ''managementSecurity'' of
        Inl e \<Rightarrow> Inl e
      | Inr sec \<Rightarrow>
          (case section_of sec ''oidc'' of
             Inl e \<Rightarrow> Inl e
           | Inr oidc \<Rightarrow>
               Inr (prop_set config ''managementSecurity''
                 (JObj (prop_set sec ''oidc'' (JObj (fill_arrays
                   [''scopes'', ''signingAlgorithms'', ''viewerValues'', ''operatorValues'',
                    ''sensitiveValues''] oidc)))))))"

definition bind_result :: "'a js_result \<Rightarrow> ('a \<Rightarrow> 'b js_result) \<Rightarrow> 'b js_result" where
  "bind_result r f = (case r of Inl e \<Rightarrow> Inl e | Inr x \<Rightarrow> f x)"

definition normalizeConfigCollections :: "json_object \<Rightarrow> json_object js_result" where
  "normalizeConfigCollections config =
     bind_result (normalize_section ''upstreams'' [''targets''] config) (\<lambda>c1.
     bind_result (normalize_section ''egress'' [''allowedHosts''] c1) (\<lambda>c2.
     bind_result (normalize_section ''notifications'' [''eventTypes''] c2) (\<lambda>c3.
     bind_result (normalize_section ''governance'' [''budgets'', ''prices''] c3) (\<lambda>c4.
     bind_result (normalize_oidc c4) (\<lambda>c5.
     normalize_section ''trafficPolicy'' [''rules''] c5)))))"

section \<open>What the guards promise\<close>

lemma bind_result_simps [simp]: "bind_result (Inl e) f = Inl e" "bind_result (Inr x) f = f x"
  by (simp_all add: bind_result_def)

lemma bind_result_Inr: "bind_result r f = Inr y \<longleftrightarrow> (\<exists>x. r = Inr x \<and> f x = Inr y)"
  by (cases r) auto

lemma expectObject_Inr [simp]: "expectObject v label = Inr obj \<longleftrightarrow> v = Some (JObj obj)"
  by (cases "(v, label)" rule: expectObject.cases) auto

lemma expectArray_Inr [simp]: "expectArray v label = Inr xs \<longleftrightarrow> v = Some (JArr xs)"
  by (cases "(v, label)" rule: expectArray.cases) auto

lemma expectObject_Inl: "expectObject v label = Inl e \<Longrightarrow> e = invalid_response (label @ '': expected object'')"
  by (cases "(v, label)" rule: expectObject.cases) auto

lemma expectArray_Inl: "expectArray v label = Inl e \<Longrightarrow> e = invalid_response (label @ '': expected array'')"
  by (cases "(v, label)" rule: expectArray.cases) auto

definition array_field :: "json_object \<Rightarrow> string \<Rightarrow> bool" where
  "array_field obj f \<longleftrightarrow> (case prop_of obj f of Some (JArr _) \<Rightarrow> True | _ \<Rightarrow> False)"

lemma array_field_expectArray: "array_field obj f \<longleftrightarrow> (\<exists>xs. expectArray (prop_of obj f) label = Inr xs)"
  by (auto simp: array_field_def split: option.splits json.splits)

lemma expectFields_Inr: "expectFields obj label fs = Inr () \<longleftrightarrow> (\<forall>f \<in> set fs. array_field obj f)"
  by (induction fs)
     (auto simp: array_field_def split: sum.splits option.splits json.splits dest: expectArray_Inl)

lemma expectFields_Inl:
  "expectFields obj label fs = Inl e \<Longrightarrow>
     \<exists>f \<in> set fs. \<not> array_field obj f \<and> e = invalid_response (label @ ''.'' @ f @ '': expected array'')"
proof (induction fs)
  case (Cons f fs)
  show ?case
  proof (cases "expectArray (prop_of obj f) (label @ ''.'' @ f)")
    case (Inl e')
    then have "\<not> array_field obj f"
      using array_field_expectArray [of obj f "label @ ''.'' @ f"] by auto
    moreover have "e = invalid_response (label @ ''.'' @ f @ '': expected array'')"
      using Inl Cons.prems by (auto dest: expectArray_Inl)
    ultimately show ?thesis by auto
  next
    case (Inr xs)
    with Cons show ?thesis by auto
  qed
qed simp

lemma fill_arrays_prop:
  "prop_of (fill_arrays names sec) g =
     (if g \<in> set names then Some (json_nullish (prop_of sec g) (JArr [])) else prop_of sec g)"
proof -
  have "prop_of (fold (\<lambda>f s. prop_set s f (json_nullish (prop_of sec f) (JArr []))) fs s) g =
      (if g \<in> set fs then Some (json_nullish (prop_of sec g) (JArr [])) else prop_of s g)" for fs s
    by (induction fs arbitrary: s) auto
  then show ?thesis by (simp add: fill_arrays_def)
qed

lemma fill_arrays_idem: "fill_arrays names (fill_arrays names sec) = fill_arrays names sec"
proof -
  let ?s = "fill_arrays names sec"
  have val: "json_nullish (prop_of ?s f) (JArr []) = json_nullish (prop_of sec f) (JArr [])"
    if "f \<in> set names" for f
    using that by (simp add: fill_arrays_prop)
  have "fold (\<lambda>f s. prop_set s f (json_nullish (prop_of ?s f) (JArr []))) fs ?s = ?s"
    if "set fs \<subseteq> set names" for fs
    using that by (induction fs) (auto simp: val fill_arrays_prop)
  then show ?thesis by (simp add: fill_arrays_def [of names ?s])
qed

lemma normalize_section_Inr:
  "normalize_section name names config = Inr c \<longleftrightarrow>
     (\<exists>sec. section_of config name = Inr sec \<and>
        c = prop_set config name (JObj (fill_arrays names sec)))"
  by (auto simp: normalize_section_def split: sum.splits)

lemma section_of_prop_set [simp]:
  "section_of (prop_set config name (JObj sec)) other =
     (if name = other then Inr sec else section_of config other)"
  by (simp add: section_of_def)

lemma indexed_props_text:
  assumes "digit_of c = None"
  shows "prop_of (indexed_props xs) (c # cs) = None"
proof -
  have "c # cs \<notin> set (map nat_string [0..<length xs])"
    using assms nat_string_digits [of c] by (metis ex_map_conv list.set_intros(1))
  then show ?thesis
    by (simp add: prop_of_def indexed_props_def)
qed

text \<open>The value at a path of property names; only objects are walked through.\<close>

fun path_value :: "json_object \<Rightarrow> string list \<Rightarrow> json option" where
  "path_value obj [] = Some (JObj obj)"
| "path_value obj [f] = prop_of obj f"
| "path_value obj (f # fs) =
     (case prop_of obj f of Some (JObj sub) \<Rightarrow> path_value sub fs | _ \<Rightarrow> None)"

definition collection_paths :: "string list list" where
  "collection_paths =
     [[''upstreams'', ''targets''], [''egress'', ''allowedHosts''], [''notifications'', ''eventTypes''],
      [''governance'', ''budgets''], [''governance'', ''prices''],
      [''managementSecurity'', ''oidc'', ''scopes''],
      [''managementSecurity'', ''oidc'', ''signingAlgorithms''],
      [''managementSecurity'', ''oidc'', ''viewerValues''],
      [''managementSecurity'', ''oidc'', ''operatorValues''],
      [''managementSecurity'', ''oidc'', ''sensitiveValues''],
      [''trafficPolicy'', ''rules'']]"

definition config_sections :: "string list" where
  "config_sections =
     [''upstreams'', ''egress'', ''notifications'', ''governance'', ''managementSecurity'', ''trafficPolicy'']"

lemma prop_of_Nil [simp]: "prop_of [] f = None"
  by (simp add: prop_of_def)

lemma section_of_path:
  assumes "section_of config name = Inr sec" "digit_of c = None"
  shows "path_value config [name, c # cs] = prop_of sec (c # cs)"
  using assms
  by (auto simp: section_of_def indexed_props_text split: option.splits json.splits)

lemma section_of_path3:
  assumes "section_of config name = Inr sec" "section_of sec (d # ds) = Inr sub"
    "digit_of d = None" "digit_of c = None"
  shows "path_value config [name, d # ds, c # cs] = prop_of sub (c # cs)"
proof -
  have "prop_of (indexed_props xs) (d # ds) = None" for xs
    using assms(3) by (rule indexed_props_text)
  then have "prop_of config name = Some (JObj sec)"
    using assms(1,2)
    by (auto simp: section_of_def split: option.splits json.splits)
  with section_of_path [OF assms(2) assms(4)] show ?thesis by simp
qed

lemma normalize_oidc_Inr:
  "normalize_oidc config = Inr c \<longleftrightarrow>
     (\<exists>sec oidc. section_of config ''managementSecurity'' = Inr sec \<and>
        section_of sec ''oidc'' = Inr oidc \<and>
        c = prop_set config ''managementSecurity'' (JObj (prop_set sec ''oidc'' (JObj (fill_arrays
              [''scopes'', ''signingAlgorithms'', ''viewerValues'', ''operatorValues'',
               ''sensitiveValues''] oidc)))))"
  by (auto simp: normalize_oidc_def split: sum.splits)

lemmas normalize_Inr =
  normalizeConfigCollections_def bind_result_Inr normalize_section_Inr normalize_oidc_Inr

lemmas json_eval =
  prop_of_prop_set list.inject char.inject HOL.simp_thms if_False if_True option.case json.case
  list.set insert_iff

lemma normalize_cases:
  assumes "normalizeConfigCollections config = Inr c"
  obtains u e n g m q t where
    "section_of config ''upstreams'' = Inr u" "section_of config ''egress'' = Inr e"
    "section_of config ''notifications'' = Inr n" "section_of config ''governance'' = Inr g"
    "section_of config ''managementSecurity'' = Inr m" "section_of m ''oidc'' = Inr q"
    "section_of config ''trafficPolicy'' = Inr t"
    "c = prop_set (prop_set (prop_set (prop_set (prop_set (prop_set config
      ''upstreams'' (JObj (fill_arrays [''targets''] u)))
      ''egress'' (JObj (fill_arrays [''allowedHosts''] e)))
      ''notifications'' (JObj (fill_arrays [''eventTypes''] n)))
      ''governance'' (JObj (fill_arrays [''budgets'', ''prices''] g)))
      ''managementSecurity'' (JObj (prop_set m ''oidc'' (JObj (fill_arrays
         [''scopes'', ''signingAlgorithms'', ''viewerValues'', ''operatorValues'',
          ''sensitiveValues''] q)))))
      ''trafficPolicy'' (JObj (fill_arrays [''rules''] t))"
  using assms unfolding normalize_Inr
  by (elim exE conjE) (simp only: section_of_prop_set json_eval)

lemma letters:
  "digit_of CHR ''t'' = None" "digit_of CHR ''a'' = None" "digit_of CHR ''e'' = None"
  "digit_of CHR ''b'' = None" "digit_of CHR ''p'' = None" "digit_of CHR ''s'' = None"
  "digit_of CHR ''v'' = None" "digit_of CHR ''o'' = None" "digit_of CHR ''r'' = None"
  by (simp_all add: digit_of_def)

lemma normalize_paths:
  assumes "normalizeConfigCollections config = Inr c" "p \<in> set collection_paths"
  shows "path_value c p = Some (json_nullish (path_value config p) (JArr []))"
  using assms(1)
proof (cases rule: normalize_cases)
  case (1 u e n g m q t)
  note old = section_of_path [OF 1(1)] section_of_path [OF 1(2)] section_of_path [OF 1(3)]
    section_of_path [OF 1(4)] section_of_path [OF 1(7)] section_of_path3 [OF 1(5,6)]
  show ?thesis
    using assms(2) unfolding collection_paths_def list.set
    by (elim insertE emptyE; hypsubst; simp only: old letters;
        simp only: 1(8) path_value.simps fill_arrays_prop json_eval)
qed

lemma section_of_object: "prop_of config name = Some (JObj sec) \<Longrightarrow> section_of config name = Inr sec"
  by (simp add: section_of_def)

lemma normalize_section_filled:
  "prop_of c name = Some (JObj (fill_arrays names sec)) \<Longrightarrow> normalize_section name names c = Inr c"
  by (simp add: normalize_section_def section_of_object fill_arrays_idem)

lemma normalize_idem:
  assumes "normalizeConfigCollections config = Inr c"
  shows "normalizeConfigCollections c = Inr c"
  using assms
proof (cases rule: normalize_cases)
  case (1 u e n g m q t)
  let ?oidc = "fill_arrays [''scopes'', ''signingAlgorithms'', ''viewerValues'', ''operatorValues'',
    ''sensitiveValues''] q"
  have props: "prop_of c ''upstreams'' = Some (JObj (fill_arrays [''targets''] u))"
    "prop_of c ''egress'' = Some (JObj (fill_arrays [''allowedHosts''] e))"
    "prop_of c ''notifications'' = Some (JObj (fill_arrays [''eventTypes''] n))"
    "prop_of c ''governance'' = Some (JObj (fill_arrays [''budgets'', ''prices''] g))"
    "prop_of c ''trafficPolicy'' = Some (JObj (fill_arrays [''rules''] t))"
    "prop_of c ''managementSecurity'' = Some (JObj (prop_set m ''oidc'' (JObj ?oidc)))"
    by (simp_all only: 1(8) json_eval)
  have "normalize_oidc c = Inr c"
    unfolding normalize_oidc_def
    by (simp add: section_of_object [OF props(6)] fill_arrays_idem prop_set_same [OF props(6)])
  then show ?thesis
    unfolding normalizeConfigCollections_def
    by (simp only: props(1-5) [THEN normalize_section_filled] bind_result_simps)
qed

lemma normalize_frame:
  assumes "normalizeConfigCollections config = Inr c" "f \<notin> set config_sections"
  shows "prop_of c f = prop_of config f"
  using assms(1)
proof (cases rule: normalize_cases)
  case (1 u e n g m q t)
  from assms(2) show ?thesis
    unfolding 1(8) config_sections_def by (simp only: prop_of_prop_set list.set insert_iff) auto
qed

section \<open>Properties\<close>

text \<open>
  \<open>expectObjectArrays\<close> hands back the very object it received exactly when
  the payload is an object whose listed fields are all arrays; otherwise it throws an
  INVALID_API_RESPONSE error that names the payload, or the first listed field that is
  not an array.
\<close>

theorem expectObjectArrays_spec:
  "expectObjectArrays v label names =
     (case v of
        Some (JObj obj) \<Rightarrow>
          (case filter (\<lambda>f. \<not> array_field obj f) names of
             [] \<Rightarrow> Inr obj
           | f # _ \<Rightarrow> Inl (invalid_response (label @ ''.'' @ f @ '': expected array'')))
      | _ \<Rightarrow> Inl (invalid_response (label @ '': expected object'')))"
proof -
  have "(case expectFields obj label names of Inl e \<Rightarrow> Inl e | Inr _ \<Rightarrow> Inr obj) =
      (case filter (\<lambda>f. \<not> array_field obj f) names of
             [] \<Rightarrow> Inr obj
           | f # _ \<Rightarrow> Inl (invalid_response (label @ ''.'' @ f @ '': expected array'')))" for obj
    by (induction names) (auto simp: array_field_def split: option.splits json.splits)
  then show ?thesis
    by (auto simp: expectObjectArrays_def split: option.splits json.splits)
qed


definition sample_config :: json_object where
  "sample_config =
     [(''server'', JObj []), (''upstreams'', JObj [(''targets'', JNull)]), (''egress'', JObj []),
      (''notifications'', JObj [(''eventTypes'', JArr [JStr ''incident.opened''])]),
      (''governance'', JObj [(''budgets'', JNull)]),
      (''managementSecurity'', JObj [(''oidc'', JObj [(''scopes'', JArr [])])]),
      (''trafficPolicy'', JObj [(''rules'', JNull)])]"

lemma sample_config_normalizes: "normalizeConfigCollections sample_config \<noteq> Inl e"
  by (simp add: normalizeConfigCollections_def normalize_section_def normalize_oidc_def
      sample_config_def section_of_def prop_of_def prop_set_def)


end
