(* ===== verification/MonitorTypes.thy ===== *)
theory MonitorTypes
  imports Json
begin

text \<open>
  Health, timelines, history, alerts, incidents, diagnostics, runtime logs,
  metrics and the monitoring event feed (web/src/types.ts).
\<close>

record HealthComponent =
  hc_name :: "string"
  hc_state :: "string"
  hc_healthy :: "bool"
  hc_details :: "((string \<times> json) list) option"

record HealthSummary =
  hs_generatedAt :: "string"
  hs_overall :: "string"
  hs_components :: "HealthComponent list"
  hs_actions :: "(string list) option"

record SLOSnapshot =
  slosnap_window :: "string"
  slosnap_availability :: "rat"
  slosnap_availabilityTarget :: "rat"
  slosnap_recoveryLatencyMilliseconds :: "int"
  slosnap_recoveryLatencyTargetMilliseconds :: "int"
  slosnap_errorBudget :: "rat"
  slosnap_errorBudgetRemaining :: "rat"
  slosnap_burnRate :: "rat"
  slosnap_healthy :: "bool"

record ErrorDetail =
  ed_message :: "string option"
  ed_type :: "string option"
  ed_code :: "string option"
  ed_upstreamRequestId :: "string option"
  ed_retryAfter :: "string option"
  ed_responseBytes :: "int option"
  ed_parsed :: "bool"

record TimelineEvent =
  te_time :: "string"
  te_type :: "string"
  te_attempt :: "int option"
  te_statusCode :: "int option"
  te_category :: "string option"
  te_message :: "string"
  te_messageCode :: "string option"
  te_messageDetails :: "((string \<times> json) list) option"
  te_errorDetail :: "ErrorDetail option"
  te_waitMilliseconds :: "int option"
  te_attemptPhase :: "string option"

record HistoryRecord =
  hr_id :: "string"
  hr_clientId :: "string option"
  hr_taskId :: "string option"
  hr_method :: "string"
  hr_path :: "string"
  hr_state :: "string"
  hr_attempt :: "int"
  hr_startedAt :: "string"
  hr_completedAt :: "string option"
  hr_lastError :: "string option"
  hr_lastErrorCode :: "string option"
  hr_lastErrorDetails :: "((string \<times> json) list) option"
  hr_lastErrorDetail :: "ErrorDetail option"
  hr_events :: "TimelineEvent list"
  hr_eventsTruncated :: "bool option"
  hr_droppedEvents :: "int option"

record Alert =
  alert_id :: "string"
  alert_type :: "string"
  alert_severity :: "string"
  alert_requestId :: "string option"
  alert_message :: "string"
  alert_messageCode :: "string option"
  alert_messageDetails :: "((string \<times> json) list) option"
  alert_createdAt :: "string"
  alert_resolvedAt :: "string option"

datatype Incident_state =
    Incident_state_Open
  | Incident_state_Recovering
  | Incident_state_Resolved

record Incident =
  inc_id :: "string"
  inc_state :: "Incident_state"
  inc_startedAt :: "string"
  inc_lastFailureAt :: "string"
  inc_recoveryStartedAt :: "string option"
  inc_resolvedAt :: "string option"
  inc_affectedRequests :: "string list"
  inc_failedAttempts :: "int"
  inc_categories :: "((string \<times> int) list)"
  inc_statusCodes :: "((string \<times> int) list)"

record HistoryPage =
  hp_items :: "HistoryRecord list"
  hp_nextCursor :: "string option"
  hp_hasMore :: "bool"

record ListFilters =
  lf_q :: "string"
  lf_state :: "string"
  lf_from :: "string"
  lf_to :: "string"

record IncidentPage =
  ip_items :: "Incident list"
  ip_nextCursor :: "string option"
  ip_hasMore :: "bool"

record IncidentDetail_timeline =
  idet_timeline_time :: "string"
  idet_timeline_type :: "string"
  idet_timeline_requestId :: "string option"
  idet_timeline_attempt :: "int option"
  idet_timeline_statusCode :: "int option"
  idet_timeline_category :: "string option"
  idet_timeline_message :: "string"
  idet_timeline_waitMilliseconds :: "int option"
  idet_timeline_attemptPhase :: "string option"

record IncidentDetail =
  idet_incident :: "Incident"
  idet_requests :: "HistoryRecord list"
  idet_timeline :: "IncidentDetail_timeline list"
  idet_affectedRequestsTruncated :: "bool"

datatype MetricsWindow =
    MetricsWindow_15m
  | MetricsWindow_1h
  | MetricsWindow_6h
  | MetricsWindow_24h

record MetricsSnapshot_totals =
  msnap_totals_requests :: "int"
  msnap_totals_successful :: "int"
  msnap_totals_failed :: "int"
  msnap_totals_canceled :: "int"
  msnap_totals_rejected :: "int"
  msnap_totals_attempts :: "int"
  msnap_totals_failedAttempts :: "int"
  msnap_totals_recovered :: "int"
  msnap_totals_failovers :: "int"
  msnap_totals_uncertain :: "int"
  msnap_totals_persistenceFailures :: "int"
  msnap_totals_captureFailures :: "int"
  msnap_totals_successRate :: "rat"
  msnap_totals_averageRecoveryMilliseconds :: "rat"

record MetricsSnapshot_load =
  msnap_load_active :: "int"
  msnap_load_queued :: "int"
  msnap_load_waiting :: "int"
  msnap_load_requesting :: "int"

record MetricsPoint =
  mpt_time :: "string"
  mpt_requests :: "int"
  mpt_successful :: "int"
  mpt_failed :: "int"
  mpt_canceled :: "int"
  mpt_rejected :: "int"
  mpt_attempts :: "int"
  mpt_failedAttempts :: "int"
  mpt_recovered :: "int"
  mpt_failovers :: "int"
  mpt_uncertain :: "int"
  mpt_persistenceFailures :: "int"
  mpt_captureFailures :: "int"
  mpt_active :: "int"
  mpt_queued :: "int"
  mpt_waiting :: "int"
  mpt_requesting :: "int"

record MetricBucket =
  mb_bucket :: "string"
  mb_count :: "int"

record MetricsSnapshot_recovery =
  msnap_recovery_durationBuckets :: "MetricBucket list"
  msnap_recovery_attemptBuckets :: "MetricBucket list"

record MetricsSnapshot =
  msnap_generatedAt :: "string"
  msnap_dataSince :: "string"
  msnap_complete :: "bool"
  msnap_window :: "MetricsWindow"
  msnap_from :: "string"
  msnap_to :: "string"
  msnap_totals :: "MetricsSnapshot_totals"
  msnap_load :: "MetricsSnapshot_load"
  msnap_series :: "MetricsPoint list"
  msnap_recovery :: "MetricsSnapshot_recovery"

datatype DiagnosticCheck_status =
    DiagnosticCheck_status_Pass
  | DiagnosticCheck_status_Warn
  | DiagnosticCheck_status_Fail

record DiagnosticCheck =
  dc_id :: "string"
  dc_name :: "string"
  dc_status :: "DiagnosticCheck_status"
  dc_message :: "string"
  dc_nameCode :: "string option"
  dc_messageCode :: "string option"
  dc_messageDetails :: "((string \<times> json) list) option"

record DiagnosticReport =
  dr_generatedAt :: "string"
  dr_version :: "string"
  dr_uptime :: "string"
  dr_uptimeSeconds :: "int"
  dr_healthy :: "bool"
  dr_checks :: "DiagnosticCheck list"

record RuntimeLogEntry =
  rle_id :: "int"
  rle_time :: "string"
  rle_level :: "string"
  rle_event :: "string"
  rle_message :: "string"
  rle_requestId :: "string option"
  rle_clientId :: "string option"
  rle_taskId :: "string option"
  rle_attempt :: "int option"
  rle_statusCode :: "int option"
  rle_fields :: "((string \<times> json) list) option"

record RuntimeLogPage =
  rlp_entries :: "RuntimeLogEntry list"
  rlp_nextAfter :: "int"
  rlp_oldestAfter :: "int"
  rlp_hasMore :: "bool"
  rlp_hasGap :: "bool"

record MetricsErrors_categories =
  merr_categories_code :: "string"
  merr_categories_count :: "int"

record MetricsErrors =
  merr_generatedAt :: "string option"
  merr_window :: "MetricsWindow"
  merr_from :: "string"
  merr_to :: "string"
  merr_categories :: "MetricsErrors_categories list"

record MonitoringEvent =
  mev_id :: "int"
  mev_time :: "string"
  mev_code :: "string"
  mev_category :: "string option"
  mev_requestId :: "string option"
  mev_statusCode :: "int option"
  mev_attempt :: "int option"

record MonitoringEvents =
  mes_events :: "MonitoringEvent list"
  mes_nextAfter :: "int"
  mes_oldestAfter :: "int option"
  mes_hasMore :: "bool"
  mes_hasGap :: "bool option"

end
