(* ===== verification/MonitoringRing.thy ===== *)
theory MonitoringRing
  imports MonitorTypes
begin

text \<open>
  The provider of the console's event feed: the bounded event ring of
  internal/monitoring/events.go and the HTTP handler \<open>securityEvents\<close> of
  internal/admin/operations_api.go that serves pages of it. Every operation runs under
  the mutex of the store, so operations are atomic functions on the ring. The
  identifiers are \<open>uint64\<close>: natural numbers with the wrap-around written out. A
  \<open>time.Time\<close> is its instant (nanoseconds since the zero time) and its zone
  offset; the clock \<open>s.now()\<close> is an argument.
\<close>

section \<open>Data\<close>

definition securityEventCapacity :: nat where
  "securityEventCapacity = 1000"

lemma capacity_pos [simp]: "0 < securityEventCapacity" "securityEventCapacity \<noteq> 0"
  "Suc 0 - securityEventCapacity = 0"
  by (simp_all add: securityEventCapacity_def)

record go_time =
  gt_instant :: int
  gt_offset :: int

definition IsZero :: "go_time \<Rightarrow> bool" where
  "IsZero t \<longleftrightarrow> gt_instant t = 0"

definition UTC :: "go_time \<Rightarrow> go_time" where
  "UTC t = t\<lparr>gt_offset := 0\<rparr>"

record Event =
  ge_ID :: nat
  ge_Time :: go_time
  ge_Code :: string
  ge_Category :: string
  ge_RequestID :: string
  ge_StatusCode :: int
  ge_Attempt :: int
  ge_Outcome :: string
  ge_Details :: json_object
  ge_Changed :: "bool option"
  ge_RestartRequired :: "bool option"

definition zero_event :: Event where
  "zero_event = \<lparr>ge_ID = 0, ge_Time = \<lparr>gt_instant = 0, gt_offset = 0\<rparr>, ge_Code = [], ge_Category = [],
     ge_RequestID = [], ge_StatusCode = 0, ge_Attempt = 0, ge_Outcome = [], ge_Details = [],
     ge_Changed = None, ge_RestartRequired = None\<rparr>"

record EventPage =
  ep_Events :: "Event list"
  ep_NextAfter :: nat
  ep_OldestAfter :: nat
  ep_HasMore :: bool
  ep_HasGap :: bool

record eventRing =
  er_items :: "Event list"
  er_start :: nat
  er_length :: nat
  er_nextID :: nat

definition newEventRing :: eventRing where
  "newEventRing = \<lparr>er_items = replicate securityEventCapacity zero_event,
     er_start = 0, er_length = 0, er_nextID = 0\<rparr>"

section \<open>Operations\<close>

definition stamp :: "go_time \<Rightarrow> nat \<Rightarrow> Event \<Rightarrow> Event" where
  "stamp now i event = event\<lparr>ge_Time := (if IsZero (ge_Time event) then UTC now else UTC (ge_Time event)),
     ge_ID := i\<rparr>"

definition RecordEvent :: "go_time \<Rightarrow> Event \<Rightarrow> eventRing \<Rightarrow> eventRing" where
  "RecordEvent now event r =
     (let i = (er_nextID r + 1) mod 2 ^ 64;
          stamped = stamp now i event
      in if er_length r < securityEventCapacity
         then r\<lparr>er_nextID := i,
                er_items := (er_items r)[(er_start r + er_length r) mod securityEventCapacity := stamped],
                er_length := er_length r + 1\<rparr>
         else r\<lparr>er_nextID := i,
                er_items := (er_items r)[er_start r := stamped],
                er_start := (er_start r + 1) mod securityEventCapacity\<rparr>)"

definition ring_at :: "eventRing \<Rightarrow> nat \<Rightarrow> Event" where
  "ring_at r offset = er_items r ! ((er_start r + offset) mod securityEventCapacity)"

text \<open>The loop of \<open>Events\<close> over the offsets, with its \<open>continue\<close> and \<open>break\<close>.\<close>

fun events_loop :: "eventRing \<Rightarrow> nat \<Rightarrow> int \<Rightarrow> nat list \<Rightarrow> EventPage \<Rightarrow> EventPage" where
  "events_loop r after limit [] page = page"
| "events_loop r after limit (offset # offsets) page =
     (let event = ring_at r offset in
      if ge_ID event \<le> after then events_loop r after limit offsets page
      else if int (length (ep_Events page)) = limit then page\<lparr>ep_HasMore := True\<rparr>
      else events_loop r after limit offsets
             (page\<lparr>ep_Events := ep_Events page @ [event], ep_NextAfter := ge_ID event\<rparr>))"

definition Events :: "nat \<Rightarrow> int \<Rightarrow> eventRing \<Rightarrow> EventPage" where
  "Events after limit0 r =
     (let limit = (if limit0 < 1 then 100 else limit0);
          page = \<lparr>ep_Events = [], ep_NextAfter = after, ep_OldestAfter = 0, ep_HasMore = False, ep_HasGap = False\<rparr>
      in if er_length r = 0 then page\<lparr>ep_OldestAfter := er_nextID r\<rparr>
         else let oldestAfter = (ge_ID (er_items r ! er_start r) + (2 ^ 64 - 1)) mod 2 ^ 64
              in events_loop r after limit [0..<er_length r]
                   (page\<lparr>ep_OldestAfter := oldestAfter, ep_HasGap := after < oldestAfter\<rparr>))"

section \<open>The handler\<close>

text \<open>\<open>strconv.ParseUint(raw, 10, 64)\<close> and \<open>strconv.Atoi(raw)\<close>; an error is \<open>None\<close>.\<close>

definition ParseUint64 :: "string \<Rightarrow> nat option" where
  "ParseUint64 raw =
     (if raw = [] then None
      else case digits_value 0 raw of None \<Rightarrow> None | Some n \<Rightarrow> if n < 2 ^ 64 then Some n else None)"

definition Atoi :: "string \<Rightarrow> int option" where
  "Atoi raw =
     (let neg = (raw \<noteq> [] \<and> hd raw = CHR ''-'');
          body = (if raw \<noteq> [] \<and> hd raw \<in> {CHR ''-'', CHR ''+''} then tl raw else raw)
      in if body = [] then None
         else case digits_value 0 body of
                None \<Rightarrow> None
              | Some n \<Rightarrow> (let i = (if neg then - int n else int n)
                           in if - (2 ^ 63) \<le> i \<and> i < 2 ^ 63 then Some i else None))"

datatype http_reply = HttpPage EventPage | HttpError int string

text \<open>The arguments are the raw query values, empty when the parameter is absent.\<close>

definition securityEvents :: "eventRing option \<Rightarrow> string \<Rightarrow> string \<Rightarrow> http_reply" where
  "securityEvents monitor rawAfter rawLimit =
     (case monitor of
        None \<Rightarrow> HttpError 503 ''MONITORING_UNAVAILABLE''
      | Some r \<Rightarrow>
          (case (if rawAfter = [] then Some 0 else ParseUint64 rawAfter) of
             None \<Rightarrow> HttpError 400 ''INVALID_EVENT_CURSOR''
           | Some after \<Rightarrow>
               (case (if rawLimit = [] then Some 100 else Atoi rawLimit) of
                  None \<Rightarrow> HttpError 400 ''INVALID_EVENT_LIMIT''
                | Some limit \<Rightarrow>
                    if rawLimit \<noteq> [] \<and> (limit < 1 \<or> limit > 200)
                    then HttpError 400 ''INVALID_EVENT_LIMIT''
                    else HttpPage (Events after limit r))))"

text \<open>
  What the console reads back: \<open>encoding/json\<close> drops an empty \<open>omitempty\<close> field.
  \<open>fmt\<close> is \<open>Time.MarshalJSON\<close>.
\<close>

definition omit_text :: "string \<Rightarrow> string option" where
  "omit_text s = (if s = [] then None else Some s)"

definition omit_int :: "int \<Rightarrow> int option" where
  "omit_int i = (if i = 0 then None else Some i)"

definition wire_event :: "(go_time \<Rightarrow> string) \<Rightarrow> Event \<Rightarrow> MonitoringEvent" where
  "wire_event fmt e = \<lparr>mev_id = int (ge_ID e), mev_time = fmt (ge_Time e), mev_code = ge_Code e,
     mev_category = omit_text (ge_Category e), mev_requestId = omit_text (ge_RequestID e),
     mev_statusCode = omit_int (ge_StatusCode e), mev_attempt = omit_int (ge_Attempt e)\<rparr>"

definition wire_page :: "(go_time \<Rightarrow> string) \<Rightarrow> EventPage \<Rightarrow> MonitoringEvents" where
  "wire_page fmt p = \<lparr>mes_events = map (wire_event fmt) (ep_Events p), mes_nextAfter = int (ep_NextAfter p),
     mes_oldestAfter = Some (int (ep_OldestAfter p)), mes_hasMore = ep_HasMore p,
     mes_hasGap = Some (ep_HasGap p)\<rparr>"

section \<open>The ring as a list\<close>

definition ring_list :: "eventRing \<Rightarrow> Event list" where
  "ring_list r = map (ring_at r) [0..<er_length r]"

definition ring_ok :: "eventRing \<Rightarrow> bool" where
  "ring_ok r \<longleftrightarrow>
     length (er_items r) = securityEventCapacity \<and> er_start r < securityEventCapacity \<and>
     er_length r = min (er_nextID r) securityEventCapacity \<and>
     (er_length r < securityEventCapacity \<longrightarrow> er_start r = 0) \<and>
     er_nextID r < 2 ^ 64 \<and>
     map ge_ID (ring_list r) = [Suc (er_nextID r) - er_length r..<Suc (er_nextID r)]"

lemma length_ring_list [simp]: "length (ring_list r) = er_length r"
  by (simp add: ring_list_def)

lemma newEventRing_ok:
  "ring_ok newEventRing" "ring_list newEventRing = []" "er_nextID newEventRing = 0"
  by (simp_all add: ring_ok_def newEventRing_def ring_list_def)

lemma mod_offset_inj:
  fixes n :: nat
  assumes "a < n" "b < n" "(s + a) mod n = (s + b) mod n"
  shows "a = b"
proof -
  have "int n dvd (int a - int b)"
    using assms(3) by (metis add_diff_cancel_left mod_eq_dvd_iff of_nat_add of_nat_mod)
  moreover have "\<bar>int a - int b\<bar> < int n" using assms(1,2) by linarith
  ultimately show ?thesis using dvd_imp_le_int [of "int a - int b" "int n"] by force
qed

lemma stamp_ID [simp]: "ge_ID (stamp now i e) = i"
  by (simp add: stamp_def)

lemma ring_list_room:
  assumes "ring_ok r" "er_length r < securityEventCapacity"
  shows "ring_list (RecordEvent now e r) =
     ring_list r @ [stamp now ((er_nextID r + 1) mod 2 ^ 64) e]"
proof (rule nth_equalityI)
  from assms have ring: "er_start r = 0" "length (er_items r) = securityEventCapacity"
    by (simp_all add: ring_ok_def)
  fix k assume "k < length (ring_list (RecordEvent now e r))"
  then have k: "k \<le> er_length r" using assms by (simp add: RecordEvent_def Let_def)
  then show "ring_list (RecordEvent now e r) ! k =
      (ring_list r @ [stamp now ((er_nextID r + 1) mod 2 ^ 64) e]) ! k"
    using assms ring
    by (cases "k = er_length r") (simp_all add: RecordEvent_def Let_def ring_list_def ring_at_def nth_append)
qed (use assms in \<open>simp add: RecordEvent_def Let_def\<close>)

lemma ring_list_full:
  assumes "ring_ok r" "er_length r = securityEventCapacity"
  shows "ring_list (RecordEvent now e r) =
     tl (ring_list r) @ [stamp now ((er_nextID r + 1) mod 2 ^ 64) e]"
proof (rule nth_equalityI)
  let ?n = securityEventCapacity and ?s = "er_start r"
  let ?r = "RecordEvent now e r"
  from assms have ring: "?s < ?n" "length (er_items r) = ?n"
    by (simp_all add: ring_ok_def)
  have next_ring: "er_items ?r = (er_items r)[?s := stamp now ((er_nextID r + 1) mod 2 ^ 64) e]"
    "er_start ?r = (?s + 1) mod ?n" "er_length ?r = ?n"
    using assms by (simp_all add: RecordEvent_def Let_def)
  fix k assume "k < length (ring_list ?r)"
  then have k: "k < ?n" by (simp add: next_ring)
  show "ring_list ?r ! k = (tl (ring_list r) @ [stamp now ((er_nextID r + 1) mod 2 ^ 64) e]) ! k"
  proof (cases "Suc k = ?n")
    case True
    then have "((?s + 1) mod ?n + k) mod ?n = ?s"
      using ring(1) by (metis add.assoc mod_add_left_eq mod_add_self2 mod_less plus_1_eq_Suc)
    then show ?thesis
      using True ring k assms(2)
      by (simp add: ring_list_def ring_at_def next_ring nth_append)
  next
    case False
    with k have "Suc k < ?n" by simp
    then have "(?s + Suc k) mod ?n \<noteq> ?s"
      using mod_offset_inj [of "Suc k" ?n 0 ?s] ring(1) by auto
    moreover have "((?s + 1) mod ?n + k) mod ?n = (?s + Suc k) mod ?n"
      by (simp add: mod_add_left_eq)
    ultimately show ?thesis
      using \<open>Suc k < ?n\<close> assms(2)
      by (simp add: ring_list_def ring_at_def next_ring nth_append nth_tl)
  qed
qed (use assms in \<open>simp add: RecordEvent_def Let_def\<close>)

lemma ring_list_RecordEvent:
  assumes "ring_ok r"
  shows "ring_list (RecordEvent now e r) =
     slice_last securityEventCapacity (ring_list r @ [stamp now ((er_nextID r + 1) mod 2 ^ 64) e])"
proof (cases "er_length r < securityEventCapacity")
  case True
  then show ?thesis
    using ring_list_room [OF assms True] by (simp add: slice_last_short)
next
  case False
  then have full: "er_length r = securityEventCapacity"
    using assms by (simp add: ring_ok_def)
  then have "ring_list r \<noteq> []" by (metis capacity_pos(2) length_ring_list list.size(3))
  then show ?thesis
    using ring_list_full [OF assms full] full by (simp add: slice_last_def drop_Suc)
qed

lemma RecordEvent_ok:
  assumes "ring_ok r" "er_nextID r + 1 < 2 ^ 64"
  shows "ring_ok (RecordEvent now e r)"
proof (cases "er_length r < securityEventCapacity")
  case True
  then have "er_length r = er_nextID r" using assms by (simp add: ring_ok_def)
  with True assms ring_list_room [OF assms(1) True] show ?thesis
    by (simp add: ring_ok_def RecordEvent_def Let_def)
next
  case False
  then have full: "er_length r = securityEventCapacity" "securityEventCapacity \<le> er_nextID r"
    using assms by (simp_all add: ring_ok_def)
  then have "map ge_ID (tl (ring_list r)) = [Suc (Suc (er_nextID r) - securityEventCapacity)..<Suc (er_nextID r)]"
    using assms(1) by (simp add: ring_ok_def map_tl Suc_diff_le)
  moreover have "Suc (er_nextID r - securityEventCapacity) \<le> er_nextID r"
    using full(2) capacity_pos(1) by linarith
  ultimately show ?thesis
    using full assms ring_list_full [OF assms(1) full(1)]
    by (simp add: ring_ok_def RecordEvent_def Let_def Suc_diff_le)
qed

section \<open>Pages\<close>

text \<open>The abstract page: the first \<open>limit\<close> retained events after the cursor.\<close>

definition page_of :: "nat \<Rightarrow> nat \<Rightarrow> nat \<Rightarrow> Event list \<Rightarrow> EventPage" where
  "page_of nextID after limit xs =
     (let fresh = filter (\<lambda>e. after < ge_ID e) xs;
          shown = take limit fresh
      in \<lparr>ep_Events = shown,
          ep_NextAfter = (if shown = [] then after else ge_ID (last shown)),
          ep_OldestAfter = (if xs = [] then nextID else ge_ID (hd xs) - 1),
          ep_HasMore = limit < length fresh,
          ep_HasGap = (xs \<noteq> [] \<and> after < ge_ID (hd xs) - 1)\<rparr>)"

lemma events_loop_page:
  assumes "length (ep_Events page) \<le> limit"
  shows "events_loop r after (int limit) offsets page =
     (let fresh = filter (\<lambda>e. after < ge_ID e) (map (ring_at r) offsets);
          shown = take (limit - length (ep_Events page)) fresh
      in page\<lparr>ep_Events := ep_Events page @ shown,
              ep_NextAfter := (if shown = [] then ep_NextAfter page else ge_ID (last shown)),
              ep_HasMore := (if limit < length (ep_Events page) + length fresh then True else ep_HasMore page)\<rparr>)"
  using assms
proof (induction r after "int limit" offsets page rule: events_loop.induct)
  case (2 r after offset offsets page)
  show ?case
  proof (cases "ge_ID (ring_at r offset) \<le> after")
    case True
    then show ?thesis using 2 by (simp add: Let_def)
  next
    case False
    show ?thesis
    proof (cases "length (ep_Events page) = limit")
      case True
      then show ?thesis using False by (simp add: Let_def)
    next
      case short: False
      with 2(3) have "length (ep_Events page) < limit" by simp
      then obtain m where m: "limit - length (ep_Events page) = Suc m"
        by (metis Suc_diff_Suc)
      with \<open>length (ep_Events page) < limit\<close> have m': "limit - Suc (length (ep_Events page)) = m" by simp
      show ?thesis
        using False short m m' 2(2) [OF refl False] \<open>length (ep_Events page) < limit\<close>
        by (simp add: Let_def)
    qed
  qed
qed simp

lemma ring_ok_oldest:
  assumes "ring_ok r" "er_length r \<noteq> 0"
  shows "ring_list r \<noteq> []" "ge_ID (hd (ring_list r)) = Suc (er_nextID r) - er_length r"
    "hd (ring_list r) = er_items r ! er_start r"
proof -
  show ne: "ring_list r \<noteq> []" using assms(2) by (metis length_ring_list list.size(3))
  show "hd (ring_list r) = er_items r ! er_start r"
    using assms ne by (simp add: hd_conv_nth ring_list_def ring_at_def ring_ok_def)
  have "ge_ID (hd (ring_list r)) = hd (map ge_ID (ring_list r))"
    using ne by (simp add: hd_map)
  then show "ge_ID (hd (ring_list r)) = Suc (er_nextID r) - er_length r"
    using assms by (simp add: ring_ok_def del: upt_Suc)
qed

lemma Events_page:
  assumes "ring_ok r" "0 < limit"
  shows "Events after (int limit) r = page_of (er_nextID r) after limit (ring_list r)"
proof (cases "er_length r = 0")
  case True
  then show ?thesis
    using assms by (simp add: Events_def page_of_def ring_list_def Let_def)
next
  case False
  note old = ring_ok_oldest [OF assms(1) False]
  have len: "er_length r \<le> er_nextID r" "er_nextID r < 2 ^ 64" using assms by (simp_all add: ring_ok_def)
  then have "(ge_ID (hd (ring_list r)) + (2 ^ 64 - 1)) mod 2 ^ 64 = ge_ID (hd (ring_list r)) - 1"
    using False by (simp add: old(2) Suc_diff_le mod_if) arith
  then show ?thesis
    using False assms old
    by (simp add: Events_def page_of_def Let_def events_loop_page flip: ring_list_def)
qed

section \<open>Properties\<close>

text \<open>
  Claim C4: recording an event keeps the ring well formed, and the retained events are
  the last \<open>securityEventCapacity\<close> of the old ones followed by the new event, stamped
  with the next identifier and a UTC time.
\<close>

theorem RecordEvent_refines:
  assumes "ring_ok r" "er_nextID r + 1 < 2 ^ 64"
  shows "ring_ok (RecordEvent now e r) \<and>
         ring_list (RecordEvent now e r) =
           slice_last securityEventCapacity (ring_list r @ [stamp now (er_nextID r + 1) e])"
  using RecordEvent_ok [OF assms] ring_list_RecordEvent [OF assms(1)] assms(2) by simp

definition noon :: go_time where
  "noon = \<lparr>gt_instant = 43200, gt_offset = 3600\<rparr>"

theorem RecordEvent_refines_witness:
  "ring_ok (RecordEvent noon zero_event newEventRing) \<and>
   ring_list (RecordEvent noon zero_event newEventRing) =
     [zero_event\<lparr>ge_ID := 1, ge_Time := \<lparr>gt_instant = 43200, gt_offset = 0\<rparr>\<rparr>]"
proof -
  have "er_nextID newEventRing + 1 < 2 ^ 64" by (simp add: newEventRing_ok(3))
  note RecordEvent_refines [OF newEventRing_ok(1) this, of noon zero_event]
  then show ?thesis
    by (simp add: newEventRing_ok(2,3) stamp_def noon_def zero_event_def IsZero_def UTC_def slice_last_def)
qed

text \<open>
  Claim C24: the handler rejects a cursor that is not an unsigned 64-bit decimal and a
  limit outside 1..200, and otherwise serves the page of the abstract log: the first
  \<open>limit\<close> retained events after the cursor, the identifier of the last one as the
  next cursor, and the gap flag exactly when an event after the cursor was evicted.
\<close>

theorem securityEvents_spec:
  assumes "ring_ok r"
  shows "securityEvents (Some r) rawAfter rawLimit =
     (let after = (if rawAfter = [] then Some 0 else ParseUint64 rawAfter);
          limit = (if rawLimit = [] then Some 100 else Atoi rawLimit)
      in if after = None then HttpError 400 ''INVALID_EVENT_CURSOR''
         else if limit = None \<or> the limit < 1 \<or> 200 < the limit then HttpError 400 ''INVALID_EVENT_LIMIT''
         else HttpPage (page_of (er_nextID r) (the after) (nat (the limit)) (ring_list r)))"
proof -
  have "Events after i r = page_of (er_nextID r) after (nat i) (ring_list r)" if "1 \<le> i" for after i
    using Events_page [OF assms, of "nat i" after] that by simp
  then show ?thesis
    by (auto simp: securityEvents_def Let_def split: option.splits)
qed

theorem securityEvents_spec_witness:
  "securityEvents (Some newEventRing) ''7'' ''201'' = HttpError 400 ''INVALID_EVENT_LIMIT'' \<and>
   securityEvents (Some newEventRing) ''-7'' ''20'' = HttpError 400 ''INVALID_EVENT_CURSOR'' \<and>
   securityEvents (Some newEventRing) ''7'' ''20'' = HttpPage (page_of 0 7 20 [])"
  unfolding securityEvents_spec [OF newEventRing_ok(1)]
  by (simp add: newEventRing_ok(2,3) ParseUint64_def Atoi_def digit_of_def Let_def)

end
