(* ===== verification/EventFeed.thy ===== *)
theory EventFeed
  imports ApiContracts MonitoringRing "HOL-Library.Monad_Syntax"
begin

text \<open>
  The event feed of the console (web/src/eventFeed.ts): the paged reader
  \<open>readMonitoringEvents\<close> and \<open>mergeMonitoringEvents\<close>, which folds a batch into the
  retained window. Successive calls of \<open>fetchPage\<close> may see different server states,
  so the page source takes the number of the call. The reader is a loop that ends only
  when a page says there is no more: it is a partial function, and that it returns is
  proved under a bound on what the server records.
\<close>

section \<open>Definitions\<close>

definition monitoringEventCapacity :: nat where
  "monitoringEventCapacity = 1000"

record MonitoringEventBatch =
  meb_events :: "MonitoringEvent list"
  meb_nextAfter :: int
  meb_reset :: bool

type_synonym page_source = "nat \<Rightarrow> int \<Rightarrow> int \<Rightarrow> MonitoringEvents js_result"

text \<open>The inner loop: push the events whose identifier has not been seen.\<close>

fun push_unseen :: "MonitoringEvent list \<Rightarrow> MonitoringEvent list \<times> int list \<Rightarrow> MonitoringEvent list \<times> int list" where
  "push_unseen [] (events, seen) = (events, seen)"
| "push_unseen (e # es) (events, seen) =
     (if mev_id e \<in> set seen then push_unseen es (events, seen)
      else push_unseen es (events @ [e], mev_id e # seen))"

partial_function (option) read_loop ::
  "page_source \<Rightarrow> int \<Rightarrow> nat \<Rightarrow> int \<Rightarrow> bool \<Rightarrow> MonitoringEvent list \<Rightarrow> int list \<Rightarrow>
     (MonitoringEventBatch js_result \<times> nat) option" where
  "read_loop fetchPage limit k cursor reset events seen =
     (case fetchPage k cursor limit of
        Inl e \<Rightarrow> Some (Inl e, Suc k)
      | Inr page \<Rightarrow>
          (let gap = (mes_hasGap page = Some True);
               reset1 = (if gap then True else reset);
               filled = push_unseen (mes_events page) (if gap then ([], []) else (events, seen))
           in if mes_nextAfter page \<le> cursor \<and> mes_hasMore page
              then Some (Inl (PlainError ''monitoring event cursor did not advance''), Suc k)
              else if \<not> mes_hasMore page
              then Some (Inr \<lparr>meb_events = fst filled, meb_nextAfter = mes_nextAfter page, meb_reset = reset1\<rparr>, Suc k)
              else read_loop fetchPage limit (Suc k) (mes_nextAfter page) reset1 (fst filled) (snd filled)))"

definition readMonitoringEvents ::
  "page_source \<Rightarrow> nat \<Rightarrow> int \<Rightarrow> int \<Rightarrow> (MonitoringEventBatch js_result \<times> nat) option" where
  "readMonitoringEvents fetchPage k after limit = read_loop fetchPage limit k after False [] []"

definition mergeMonitoringEvents ::
  "MonitoringEvent list \<Rightarrow> MonitoringEvent list \<Rightarrow> bool \<Rightarrow> nat \<Rightarrow> MonitoringEvent list" where
  "mergeMonitoringEvents current incoming reset capacity =
     (let byID = map_set_all mev_id incoming (if reset then [] else map_set_all mev_id current [])
      in slice_last capacity (sort_key mev_id (map snd byID)))"

text \<open>
  \<open>refreshEvents\<close> of App.tsx, the body of its task: read from the cursor, store the
  new cursor, merge the batch. A failed read leaves both alone.
\<close>

record event_feed =
  feed_events :: "MonitoringEvent list"
  feed_cursor :: int

definition refreshEvents :: "page_source \<Rightarrow> nat \<Rightarrow> event_feed \<Rightarrow> (event_feed js_result \<times> nat) option" where
  "refreshEvents fetchPage k feed =
     (case readMonitoringEvents fetchPage k (feed_cursor feed) 200 of
        None \<Rightarrow> None
      | Some (Inl e, k') \<Rightarrow> Some (Inl e, k')
      | Some (Inr batch, k') \<Rightarrow>
          Some (Inr (feed\<lparr>feed_cursor := meb_nextAfter batch,
            feed_events := mergeMonitoringEvents (feed_events feed) (meb_events batch) (meb_reset batch)
              monitoringEventCapacity\<rparr>), k'))"

section \<open>The reader\<close>

lemma push_unseen_fresh:
  assumes "distinct (map mev_id es)" "mev_id ` set es \<inter> set seen = {}"
  shows "push_unseen es (events, seen) = (events @ es, rev (map mev_id es) @ seen)"
  using assms by (induction es arbitrary: events seen) auto

lemma push_unseen_seen:
  "set seen = mev_id ` set events \<Longrightarrow>
     set (snd (push_unseen es (events, seen))) = mev_id ` set (fst (push_unseen es (events, seen)))"
  by (induction es arbitrary: events seen) simp_all

section \<open>The merge\<close>

lemma merge_append:
  assumes "sorted_wrt (<) (map mev_id (kept @ incoming))" "kept = (if reset then [] else current)"
  shows "mergeMonitoringEvents current incoming reset capacity = slice_last capacity (kept @ incoming)"
proof -
  have d: "distinct (map mev_id kept)" "distinct (map mev_id incoming)"
    "mev_id ` set incoming \<inter> mev_id ` set kept = {}"
    using assms(1) by (auto simp: strict_sorted_iff)
  have "map_set_all mev_id kept [] = map (\<lambda>x. (mev_id x, x)) kept"
    using map_set_all_fresh [of mev_id kept "[]"] d(1) by simp
  moreover have "map_set_all mev_id incoming (map (\<lambda>x. (mev_id x, x)) kept) =
      map (\<lambda>x. (mev_id x, x)) kept @ map (\<lambda>x. (mev_id x, x)) incoming"
    using map_set_all_fresh [OF d(2)] d(3) by (simp add: image_image)
  ultimately have "map snd (map_set_all mev_id incoming (if reset then [] else map_set_all mev_id current [])) =
      kept @ incoming"
    using assms(2) by (auto simp: comp_def)
  moreover have "sort_key mev_id (kept @ incoming) = kept @ incoming"
    using assms(1) by (simp add: strict_sorted_iff sort_key_id_if_sorted)
  ultimately show ?thesis
    by (simp add: mergeMonitoringEvents_def)
qed

lemma find_append:
  "find P (xs @ ys) = (case find P xs of None \<Rightarrow> find P ys | Some x \<Rightarrow> Some x)"
  by (induction xs) auto

lemma map_of_map_set_all:
  "map_of (map_set_all key xs m) k =
     (case find (\<lambda>x. key x = k) (rev xs) of None \<Rightarrow> map_of m k | Some x \<Rightarrow> Some x)"
proof (induction xs arbitrary: m)
  case (Cons x xs)
  then show ?case
    by (auto simp: map_of_map_set find_append split: option.splits)
qed simp

lemma slice_last_drop:
  "0 < n \<Longrightarrow> m \<le> length xs - n \<Longrightarrow> slice_last n (drop m xs) = slice_last n xs"
  by (cases "n \<le> length xs") (simp_all add: slice_last_def)

section \<open>The interface of the event source\<close>

text \<open>
  What the reader relies on: a source whose \<open>k\<close>-th call sees the log
  \<open>recorded k\<close> of everything recorded so far, of which the last \<open>capacity\<close> events
  are still retained. The log only grows, and identifiers count from one.
\<close>

definition served_page :: "nat \<Rightarrow> MonitoringEvent list \<Rightarrow> nat \<Rightarrow> nat \<Rightarrow> MonitoringEvents \<Rightarrow> bool" where
  "served_page capacity logged after limit page \<longleftrightarrow>
     (let from = max after (length logged - capacity) in
      mes_events page = take limit (drop from logged) \<and>
      mes_nextAfter page = (if from < length logged then int (min (from + limit) (length logged)) else int after) \<and>
      mes_hasMore page = (from + limit < length logged) \<and>
      mes_hasGap page = Some (after < length logged - capacity))"

text \<open>A client in step with a log: the retained window and the cursor at its end.\<close>

definition synced :: "nat \<Rightarrow> MonitoringEvent list \<Rightarrow> MonitoringEvent list \<Rightarrow> int \<Rightarrow> bool" where
  "synced capacity logged events cursor \<longleftrightarrow>
     events = slice_last capacity logged \<and> cursor = int (length logged)"

lemma drop_take_drop:
  assumes "a \<le> b"
  shows "drop a (take b xs) @ drop b xs = drop a xs"
proof -
  have "drop a xs = take (b - a) (drop a xs) @ drop (b - a) (drop a xs)"
    by (rule append_take_drop_id [symmetric])
  with assms show ?thesis by (simp add: drop_take)
qed

lemma last_take: "0 < m \<Longrightarrow> m \<le> length xs \<Longrightarrow> last (take m xs) = xs ! (m - 1)"
  by (cases m) (simp_all add: take_Suc_conv_app_nth)

lemma sorted_wrt_drop: "sorted_wrt P xs \<Longrightarrow> sorted_wrt P (drop n xs)"
  by (metis append_take_drop_id sorted_wrt_append)

locale event_source =
  fixes fetchPage :: page_source
    and recorded :: "nat \<Rightarrow> MonitoringEvent list"
    and capacity :: nat
  assumes capacity_pos: "0 < capacity"
    and recorded_grows: "prefix (recorded k) (recorded (Suc k))"
    and recorded_ids: "i < length (recorded k) \<Longrightarrow> mev_id (recorded k ! i) = int i + 1"
    and page_served: "after \<le> length (recorded k) \<Longrightarrow> 1 \<le> limit \<Longrightarrow> limit \<le> 200 \<Longrightarrow>
      \<exists>page. fetchPage k (int after) (int limit) = Inr page \<and> served_page capacity (recorded k) after limit page"
begin

lemma recorded_prefix: "j \<le> k \<Longrightarrow> prefix (recorded j) (recorded k)"
  by (induction k) (use recorded_grows prefix_order.trans le_Suc_eq in auto)

lemma recorded_mono: "j \<le> k \<Longrightarrow> length (recorded j) \<le> length (recorded k)"
  using recorded_prefix prefix_length_le by blast

lemma recorded_take: "j \<le> k \<Longrightarrow> n \<le> length (recorded j) \<Longrightarrow> take n (recorded k) = take n (recorded j)"
  using recorded_prefix [of j k] by (auto simp: prefix_def)

lemma map_ids: "map mev_id (recorded k) = map (\<lambda>i. int i + 1) [0..<length (recorded k)]"
  by (rule nth_equalityI) (simp_all add: recorded_ids)

lemma sorted_ids: "sorted_wrt (<) (map mev_id (recorded k))"
  by (simp add: sorted_wrt_iff_nth_less recorded_ids)

lemma distinct_drop_take: "distinct (map mev_id (drop a (take b (recorded k))))"
  using sorted_ids [of k]
  by (simp add: strict_sorted_iff take_map [symmetric] drop_map [symmetric])

lemma ids_below: "e \<in> set (take n (recorded k)) \<Longrightarrow> mev_id e \<le> int n"
  by (auto simp: in_set_conv_nth recorded_ids)

lemma ids_above: "e \<in> set (drop n (recorded k)) \<Longrightarrow> int n < mev_id e"
  by (auto simp: in_set_conv_nth recorded_ids)

text \<open>The state of the loop before call \<open>k\<close>: what was read since \<open>origin\<close>.\<close>

definition reading :: "nat \<Rightarrow> nat \<Rightarrow> nat \<Rightarrow> nat \<Rightarrow> bool \<Rightarrow> MonitoringEvent list \<Rightarrow> bool" where
  "reading start k origin cursor reset events \<longleftrightarrow>
     origin \<le> cursor \<and> cursor \<le> length (recorded k) \<and> events = drop origin (take cursor (recorded k)) \<and>
     (if reset then origin + capacity \<le> length (recorded k) else origin = start)"

lemma reading_next_call:
  assumes "reading start k origin cursor reset events"
  shows "reading start (Suc k) origin cursor reset events"
  using assms recorded_mono [of k "Suc k"] recorded_take [of k "Suc k" cursor]
  by (auto simp: reading_def split: if_splits)

lemma push_page:
  assumes "reading start k origin cursor reset events" "set seen = mev_id ` set events"
  shows "fst (push_unseen (take limit (drop cursor (recorded k))) (events, seen)) =
     drop origin (take (min (cursor + limit) (length (recorded k))) (recorded k))"
proof -
  have fresh: "distinct (map mev_id (take limit (drop cursor (recorded k))))"
    using distinct_drop_take [of cursor "limit + cursor" k] by (simp add: take_drop add.commute)
  have "mev_id x \<noteq> mev_id y"
    if "x \<in> set (take limit (drop cursor (recorded k)))" "y \<in> set events" for x y
  proof -
    have "int cursor < mev_id x" using that(1) ids_above in_set_takeD by metis
    moreover have "mev_id y \<le> int cursor"
      using that(2) assms(1) ids_below in_set_dropD unfolding reading_def by metis
    ultimately show ?thesis by simp
  qed
  then have "mev_id ` set (take limit (drop cursor (recorded k))) \<inter> set seen = {}"
    using assms(2) by fastforce
  with fresh have "fst (push_unseen (take limit (drop cursor (recorded k))) (events, seen)) =
      events @ take limit (drop cursor (recorded k))"
    by (simp add: push_unseen_fresh)
  also have "\<dots> = drop origin (take (cursor + limit) (recorded k))"
    using assms(1) by (auto simp: reading_def take_add)
  finally show ?thesis by (simp add: min_def)
qed

lemma read_step:
  assumes "reading start k origin cursor reset events" "set seen = mev_id ` set events"
    "1 \<le> limit" "limit \<le> 200"
  obtains page origin1 where
    "fetchPage k (int cursor) (int limit) = Inr page"
    "mes_hasMore page \<longleftrightarrow> max cursor (length (recorded k) - capacity) + limit < length (recorded k)"
    "mes_nextAfter page =
       int (min (max cursor (length (recorded k) - capacity) + limit) (length (recorded k)))"
    "reading start k origin1 (nat (mes_nextAfter page)) (if mes_hasGap page = Some True then True else reset)
       (fst (push_unseen (mes_events page) (if mes_hasGap page = Some True then ([], []) else (events, seen))))"
proof -
  let ?n = "length (recorded k)"
  let ?base = "max cursor (?n - capacity)"
  have cursor: "cursor \<le> ?n" using assms(1) by (simp add: reading_def)
  from page_served [OF this assms(3,4)] obtain page where
    page: "fetchPage k (int cursor) (int limit) = Inr page" "served_page capacity (recorded k) cursor limit page"
    by auto
  have flags: "mes_hasMore page \<longleftrightarrow> ?base + limit < ?n"
    "mes_nextAfter page = int (min (?base + limit) ?n)"
    "mes_events page = take limit (drop ?base (recorded k))"
    "mes_hasGap page = Some (cursor < ?n - capacity)"
    using page(2) cursor capacity_pos by (auto simp: served_page_def Let_def split: if_splits)
  define gap where "gap \<longleftrightarrow> cursor < ?n - capacity"
  define origin1 where "origin1 = (if gap then ?n - capacity else origin)"
  have base: "reading start k origin1 ?base (gap \<or> reset) (if gap then [] else events)"
    using assms(1) cursor by (auto simp: reading_def gap_def origin1_def max_def)
  have pair: "(if gap then ([], []) else (events, seen)) =
      (if gap then [] else events, if gap then [] else seen)" by simp
  have "fst (push_unseen (mes_events page) (if gap then ([], []) else (events, seen))) =
      drop origin1 (take (min (?base + limit) ?n) (recorded k))"
    using push_page [OF base, of "if gap then [] else seen" limit] assms(2) unfolding pair flags(3) by simp
  then have "reading start k origin1 (min (?base + limit) ?n) (gap \<or> reset)
      (fst (push_unseen (mes_events page) (if gap then ([], []) else (events, seen))))"
    using base by (auto simp: reading_def split: if_splits)
  then show thesis
    using that [OF page(1) flags(1,2), of origin1] flags(2,4)
    by (cases "cursor < ?n - capacity") (simp_all add: gap_def)
qed

lemma read_returns:
  assumes "\<And>k. length (recorded k) \<le> bound" "1 \<le> limit" "limit \<le> 200"
    "reading start k origin cursor reset events" "set seen = mev_id ` set events"
  shows "\<exists>k' origin' batch. k \<le> k' \<and>
     read_loop fetchPage (int limit) k (int cursor) reset events seen = Some (Inr batch, Suc k') \<and>
     reading start k' origin' (length (recorded k')) (meb_reset batch) (meb_events batch) \<and>
     meb_nextAfter batch = int (length (recorded k'))"
  using assms(4,5)
proof (induction "bound - cursor" arbitrary: k origin cursor reset events seen rule: less_induct)
  case less
  let ?n = "length (recorded k)"
  obtain page origin1 where step:
    "fetchPage k (int cursor) (int limit) = Inr page"
    "mes_hasMore page \<longleftrightarrow> max cursor (?n - capacity) + limit < ?n"
    "mes_nextAfter page = int (min (max cursor (?n - capacity) + limit) ?n)"
    "reading start k origin1 (nat (mes_nextAfter page)) (if mes_hasGap page = Some True then True else reset)
       (fst (push_unseen (mes_events page) (if mes_hasGap page = Some True then ([], []) else (events, seen))))"
    using read_step [OF less(2,3) assms(2,3)] by blast
  let ?filled = "push_unseen (mes_events page) (if mes_hasGap page = Some True then ([], []) else (events, seen))"
  show ?case
  proof (cases "mes_hasMore page")
    case False
    then have "mes_nextAfter page = int ?n" using step(2,3) by simp
    with False step have "read_loop fetchPage (int limit) k (int cursor) reset events seen =
        Some (Inr \<lparr>meb_events = fst ?filled, meb_nextAfter = int ?n,
          meb_reset = (if mes_hasGap page = Some True then True else reset)\<rparr>, Suc k)"
      by (subst read_loop.simps) (auto simp: Let_def)
    with step(4) \<open>mes_nextAfter page = int ?n\<close> show ?thesis by force
  next
    case True
    then have adv: "int cursor < mes_nextAfter page" "nat (mes_nextAfter page) \<le> ?n"
      using step(2,3) assms(2) by auto
    have seen: "set (snd ?filled) = mev_id ` set (fst ?filled)"
      using push_unseen_seen [of "[]" "[]"] push_unseen_seen [OF less(3)] by (cases "mes_hasGap page = Some True") simp_all
    have "bound - nat (mes_nextAfter page) < bound - cursor"
      using adv assms(1) [of k] by linarith
    from less(1) [OF this reading_next_call [OF step(4)] seen] True step(1) adv show ?thesis
      by (subst read_loop.simps) (force simp: Let_def not_le [symmetric] dest: Suc_leD)
  qed
qed

lemma refresh_syncs:
  assumes "\<And>k. length (recorded k) \<le> bound" "1 \<le> limit" "limit \<le> 200"
    "prefix old (recorded k)" "synced capacity old current (int cursor)"
  shows "\<exists>k' batch. k \<le> k' \<and>
     readMonitoringEvents fetchPage k (int cursor) (int limit) = Some (Inr batch, Suc k') \<and>
     synced capacity (recorded k')
       (mergeMonitoringEvents current (meb_events batch) (meb_reset batch) capacity) (meb_nextAfter batch)"
proof -
  have old: "cursor = length old" "current = slice_last capacity old" "old = take cursor (recorded k)"
    using assms(4,5) by (auto simp: synced_def prefix_def)
  have "reading cursor k cursor cursor False []"
    using old assms(4) by (simp add: reading_def prefix_length_le)
  then obtain k' origin batch where k': "k \<le> k'"
    "readMonitoringEvents fetchPage k (int cursor) (int limit) = Some (Inr batch, Suc k')"
    "reading cursor k' origin (length (recorded k')) (meb_reset batch) (meb_events batch)"
    "meb_nextAfter batch = int (length (recorded k'))"
    using read_returns [OF assms(1-3), of cursor k cursor cursor False "[]" "[]"]
    unfolding readMonitoringEvents_def by auto
  let ?log = "recorded k'"
  define kept where "kept = (if meb_reset batch then [] else current)"
  have start: "old = take cursor ?log" "cursor \<le> length ?log"
    using old recorded_take [OF k'(1), of cursor] recorded_mono [OF k'(1)] assms(4)
    by (auto simp: prefix_length_le intro: order_trans)
  have ev: "meb_events batch = drop origin ?log"
    and origin: "if meb_reset batch then origin + capacity \<le> length ?log else origin = cursor"
    using k'(3) by (auto simp: reading_def)
  have "current = drop (cursor - capacity) (take cursor ?log)"
    using old(1,2) start capacity_pos by (simp add: slice_last_def)
  then have "kept @ meb_events batch = drop (if meb_reset batch then origin else cursor - capacity) ?log"
    using ev origin by (simp add: kept_def drop_take_drop split: if_splits)
  moreover have "(if meb_reset batch then origin else cursor - capacity) \<le> length ?log - capacity"
    using origin start(2) by (auto split: if_splits)
  ultimately obtain m where m: "m \<le> length ?log - capacity" "kept @ meb_events batch = drop m ?log"
    by blast
  have "sorted_wrt (<) (map mev_id (kept @ meb_events batch))"
    unfolding m(2) using sorted_ids [of k'] by (simp add: sorted_wrt_drop flip: drop_map)
  from merge_append [OF this kept_def] m capacity_pos
  have "mergeMonitoringEvents current (meb_events batch) (meb_reset batch) capacity = slice_last capacity ?log"
    by (simp add: slice_last_drop)
  with k' show ?thesis by (auto simp: synced_def)
qed

end

section \<open>The ring behind the handler as event source\<close>

text \<open>
  A schedule lists the events the server records before each call. The console keeps
  identifiers as doubles, exact up to \<open>2 ^ 53\<close>: the schedule is cut there.
\<close>

type_synonym schedule = "nat \<Rightarrow> (go_time \<times> Event) list"

definition id_horizon :: nat where
  "id_horizon = 2 ^ 53"

definition arrivals :: "schedule \<Rightarrow> nat \<Rightarrow> (go_time \<times> Event) list" where
  "arrivals sched k = take id_horizon (concat (map sched [0..<Suc k]))"

definition ring_after :: "(go_time \<times> Event) list \<Rightarrow> eventRing" where
  "ring_after xs = fold (\<lambda>(now, e). RecordEvent now e) xs newEventRing"

definition stamped_log :: "(go_time \<times> Event) list \<Rightarrow> Event list" where
  "stamped_log xs = map (\<lambda>(i, now, e). stamp now (i + 1) e) (enumerate 0 xs)"

definition server_log :: "(go_time \<Rightarrow> string) \<Rightarrow> schedule \<Rightarrow> nat \<Rightarrow> MonitoringEvent list" where
  "server_log fmt sched k = map (wire_event fmt) (stamped_log (arrivals sched k))"

definition server_fetch :: "(go_time \<Rightarrow> string) \<Rightarrow> schedule \<Rightarrow> page_source" where
  "server_fetch fmt sched k after limit =
     (case securityEvents (Some (ring_after (arrivals sched k))) (int_string after) (int_string limit) of
        HttpPage p \<Rightarrow> Inr (wire_page fmt p)
      | HttpError status code \<Rightarrow> Inl (ApiFailure \<lparr>ae_code = code, ae_message = [], ae_details = None\<rparr>))"

lemma length_stamped_log [simp]: "length (stamped_log xs) = length xs"
  by (simp add: stamped_log_def)

lemma stamped_log_snoc: "stamped_log (xs @ [(now, e)]) = stamped_log xs @ [stamp now (length xs + 1) e]"
  by (simp add: stamped_log_def enumerate_append_eq)

lemma stamped_log_ID: "i < length xs \<Longrightarrow> ge_ID (stamped_log xs ! i) = Suc i"
  by (simp add: stamped_log_def nth_enumerate_eq split: prod.splits)

lemma slice_last_snoc:
  "0 < n \<Longrightarrow> slice_last n (slice_last n xs @ [x]) = slice_last n (xs @ [x])"
  by (cases "n \<le> length xs") (simp_all add: slice_last_def Suc_diff_le)

lemma ring_after_log:
  assumes "length xs < 2 ^ 64"
  shows "ring_ok (ring_after xs) \<and> er_nextID (ring_after xs) = length xs \<and>
     ring_list (ring_after xs) = slice_last securityEventCapacity (stamped_log xs)"
  using assms
proof (induction xs rule: rev_induct)
  case Nil
  then show ?case
    using newEventRing_ok by (simp add: ring_after_def stamped_log_def slice_last_def)
next
  case (snoc x xs)
  obtain now e where x: "x = (now, e)" by (cases x)
  have IH: "ring_ok (ring_after xs)" "er_nextID (ring_after xs) = length xs"
    "ring_list (ring_after xs) = slice_last securityEventCapacity (stamped_log xs)"
    using snoc by simp_all
  have step: "ring_after (xs @ [(now, e)]) = RecordEvent now e (ring_after xs)"
    by (simp add: ring_after_def)
  have room: "er_nextID (ring_after xs) + 1 < 2 ^ 64" using snoc(2) IH(2) by simp
  have "er_nextID (RecordEvent now e (ring_after xs)) = length xs + 1"
    using room IH(2) by (simp add: RecordEvent_def Let_def)
  then show ?case
    using RecordEvent_ok [OF IH(1) room] ring_list_RecordEvent [OF IH(1), of now e] room IH(2,3)
    unfolding x step stamped_log_snoc by (simp add: slice_last_snoc)
qed

lemma filter_after_log:
  assumes "after \<le> length xs"
  shows "filter (\<lambda>e. after < ge_ID e) (drop d (stamped_log xs)) = drop (max after d) (stamped_log xs)"
proof -
  let ?L = "stamped_log xs"
  have above: "filter (\<lambda>e. after < ge_ID e) (drop m ?L) = drop m ?L" if "after \<le> m" for m
    using that by (auto simp: filter_id_conv in_set_conv_nth stamped_log_ID)
  have below: "filter (\<lambda>e. after < ge_ID e) (drop d (take after ?L)) = []"
    using assms by (auto simp: filter_empty_conv in_set_conv_nth stamped_log_ID)
  show ?thesis
  proof (cases "d \<le> after")
    case True
    then have "drop d ?L = drop d (take after ?L) @ drop after ?L"
      by (simp add: drop_take_drop)
    with True above [of after] below show ?thesis by (simp add: max_def)
  next
    case False
    with above [of d] show ?thesis by (simp add: max_def)
  qed
qed

lemma ring_page_served:
  assumes "length xs < 2 ^ 64" "after \<le> length xs" "0 < limit"
  shows "served_page securityEventCapacity (map (wire_event fmt) (stamped_log xs)) after limit
     (wire_page fmt (page_of (length xs) after limit (ring_list (ring_after xs))))"
proof -
  let ?L = "stamped_log xs" and ?n = "length xs" and ?c = securityEventCapacity
  let ?base = "max after (?n - ?c)"
  have ring: "ring_list (ring_after xs) = drop (?n - ?c) ?L"
    using ring_after_log [OF assms(1)] by (simp add: slice_last_def)
  then have fresh: "filter (\<lambda>e. after < ge_ID e) (ring_list (ring_after xs)) = drop ?base ?L"
    using filter_after_log [OF assms(2)] by simp
  have last: "ge_ID (last (take limit (drop ?base ?L))) = min (?base + limit) ?n" if "?base < ?n"
  proof -
    let ?m = "min (?base + limit) ?n"
    have "take limit (drop ?base ?L) = drop ?base (take ?m ?L)"
      by (simp add: take_drop add.commute min_def)
    moreover have "?base < length (take ?m ?L)" using that assms(3) by simp
    ultimately have "last (take limit (drop ?base ?L)) = last (take ?m ?L)"
      by (simp only: last_drop)
    also have "\<dots> = ?L ! (?m - 1)"
      using that assms(3) by (intro last_take) auto
    finally show ?thesis
      using that assms(3) stamped_log_ID [of "?m - 1" xs] by (simp add: min_def split: if_splits)
  qed
  have oldest: "ge_ID (hd (ring_list (ring_after xs))) = Suc (?n - ?c)" if "?n \<noteq> 0"
    using that by (simp add: ring hd_drop_conv_nth stamped_log_ID)
  let ?page = "page_of ?n after limit (ring_list (ring_after xs))"
  have "ep_Events ?page = take limit (drop ?base ?L)" "ep_HasMore ?page = (?base + limit < ?n)"
    by (auto simp: page_of_def Let_def fresh)
  moreover have "ep_NextAfter ?page = (if ?base < ?n then min (?base + limit) ?n else after)"
    using assms(3) last
    by (cases "?base < ?n") (simp_all add: page_of_def Let_def fresh not_less del: max_less_iff_conj)
  moreover have "ep_HasGap ?page = (after < ?n - ?c)"
  proof (cases "?n = 0")
    case True
    then have "ring_list (ring_after xs) = []" using ring by (simp add: stamped_log_def)
    then show ?thesis using True by (simp add: page_of_def Let_def)
  next
    case False
    then have "?n - ?c < ?n" by simp
    then have "ring_list (ring_after xs) \<noteq> []" by (simp add: ring)
    then show ?thesis using oldest [OF False] by (simp add: page_of_def Let_def)
  qed
  ultimately show ?thesis
    by (simp add: served_page_def wire_page_def Let_def take_map drop_map)
qed

lemma int_string_parse:
  "n < 2 ^ 64 \<Longrightarrow> ParseUint64 (int_string (int n)) = Some n"
  "n < 2 ^ 63 \<Longrightarrow> Atoi (int_string (int n)) = Some (int n)"
proof -
  have "hd (nat_string n) \<notin> {CHR ''-'', CHR ''+''}"
    using nat_string_digits [of "hd (nat_string n)" n] by (auto simp: digit_of_def)
  then show "n < 2 ^ 64 \<Longrightarrow> ParseUint64 (int_string (int n)) = Some n"
    "n < 2 ^ 63 \<Longrightarrow> Atoi (int_string (int n)) = Some (int n)"
    by (auto simp: ParseUint64_def Atoi_def int_string_def Let_def digits_value_nat_string)
qed

lemma prefix_take_mono: "prefix xs ys \<Longrightarrow> prefix (take n xs) (take n ys)"
  by (auto simp: prefix_def)

lemma arrivals_bound: "length (arrivals sched k) \<le> id_horizon" "length (arrivals sched k) < 2 ^ 64"
proof -
  show "length (arrivals sched k) \<le> id_horizon" by (simp add: arrivals_def del: upt_Suc)
  also have "id_horizon < 2 ^ 64" by (simp add: id_horizon_def)
  finally show "length (arrivals sched k) < 2 ^ 64" .
qed

interpretation ring: event_source "server_fetch fmt sched" "server_log fmt sched" securityEventCapacity
  for fmt sched
proof
  show "0 < securityEventCapacity" by simp
next
  fix k
  have "prefix (arrivals sched k) (arrivals sched (Suc k))"
    unfolding arrivals_def by (rule prefix_take_mono) simp
  then obtain ys where "arrivals sched (Suc k) = arrivals sched k @ ys" by (auto simp: prefix_def)
  then show "prefix (server_log fmt sched k) (server_log fmt sched (Suc k))"
    by (simp add: server_log_def stamped_log_def enumerate_append_eq)
next
  fix i k assume "i < length (server_log fmt sched k)"
  then show "mev_id (server_log fmt sched k ! i) = int i + 1"
    by (simp add: server_log_def wire_event_def stamped_log_ID)
next
  fix after k limit :: nat
  let ?xs = "arrivals sched k"
  assume "after \<le> length (server_log fmt sched k)" "1 \<le> limit" "limit \<le> 200"
  then have le: "after \<le> length ?xs" "0 < limit" "limit \<le> 200" by (simp_all add: server_log_def)
  note ring = ring_after_log [OF arrivals_bound(2), of sched k]
  have "after < 2 ^ 64" using le(1) arrivals_bound(2) by (rule le_less_trans)
  then have parse: "ParseUint64 (int_string (int after)) = Some after"
    "Atoi (int_string (int limit)) = Some (int limit)" "int_string (int after) \<noteq> []" "int_string (int limit) \<noteq> []"
    using le(3) by (simp_all add: int_string_parse) (simp_all add: int_string_def)
  have "Events after (int limit) (ring_after ?xs) = page_of (length ?xs) after limit (ring_list (ring_after ?xs))"
    using Events_page [of "ring_after ?xs" limit after] ring le(2) by simp
  then have "server_fetch fmt sched k (int after) (int limit) =
      Inr (wire_page fmt (page_of (length ?xs) after limit (ring_list (ring_after ?xs))))"
    using parse le by (simp add: server_fetch_def securityEvents_def)
  then show "\<exists>page. server_fetch fmt sched k (int after) (int limit) = Inr page \<and>
      served_page securityEventCapacity (server_log fmt sched k) after limit page"
    using ring_page_served [OF arrivals_bound(2) le(1,2)] unfolding server_log_def by blast
qed

lemma server_log_bound: "length (server_log fmt sched k) \<le> id_horizon"
  by (simp add: server_log_def arrivals_bound)

lemma capacities_agree: "monitoringEventCapacity = securityEventCapacity"
  by (simp add: monitoringEventCapacity_def securityEventCapacity_def)

text \<open>The reader against an arbitrary source: a batch never repeats an identifier.\<close>

lemma push_unseen_distinct:
  "set seen = mev_id ` set events \<Longrightarrow> distinct (map mev_id events) \<Longrightarrow>
     distinct (map mev_id (fst (push_unseen es (events, seen))))"
  by (induction es arbitrary: events seen) auto

definition batch_distinct :: "MonitoringEvent list \<Rightarrow> int list \<Rightarrow> MonitoringEventBatch js_result \<times> nat \<Rightarrow> bool" where
  "batch_distinct events seen r \<longleftrightarrow>
     (set seen = mev_id ` set events \<longrightarrow> distinct (map mev_id events) \<longrightarrow>
       (case fst r of Inl _ \<Rightarrow> True | Inr batch \<Rightarrow> distinct (map mev_id (meb_events batch))))"

lemma read_loop_distinct:
  assumes "read_loop fetchPage limit k cursor reset events seen = Some r"
  shows "batch_distinct events seen r"
proof (rule read_loop.raw_induct [where P = "\<lambda>_ _ _ _ _ events seen r. batch_distinct events seen r",
    OF _ assms])
  fix rec fetchPage limit k cursor reset events seen r
  assume IH: "\<And>fetchPage limit k cursor reset events seen r.
      rec fetchPage limit k cursor reset events seen = Some r \<Longrightarrow> batch_distinct events seen r"
    and body: "(case fetchPage k cursor limit of
        Inl e \<Rightarrow> Some (Inl e, Suc k)
      | Inr page \<Rightarrow>
          (let gap = (mes_hasGap page = Some True);
               reset1 = (if gap then True else reset);
               filled = push_unseen (mes_events page) (if gap then ([], []) else (events, seen))
           in if mes_nextAfter page \<le> cursor \<and> mes_hasMore page
              then Some (Inl (PlainError ''monitoring event cursor did not advance''), Suc k)
              else if \<not> mes_hasMore page
              then Some (Inr \<lparr>meb_events = fst filled, meb_nextAfter = mes_nextAfter page, meb_reset = reset1\<rparr>, Suc k)
              else rec fetchPage limit (Suc k) (mes_nextAfter page) reset1 (fst filled) (snd filled))) = Some r"
  show "batch_distinct events seen r"
  proof (cases "fetchPage k cursor limit")
    case (Inl e)
    with body show ?thesis by (auto simp: batch_distinct_def)
  next
    case (Inr page)
    let ?base = "if mes_hasGap page = Some True then ([], []) else (events, seen)"
    let ?filled = "push_unseen (mes_events page) ?base"
    have filled: "set (snd ?filled) = mev_id ` set (fst ?filled) \<and> distinct (map mev_id (fst ?filled))"
      if "set seen = mev_id ` set events" "distinct (map mev_id events)"
      using that push_unseen_seen [of "[]" "[]"] push_unseen_seen [OF that(1)]
        push_unseen_distinct [of "[]" "[]"] push_unseen_distinct [OF that] by simp
    consider "mes_nextAfter page \<le> cursor \<and> mes_hasMore page" | "\<not> mes_hasMore page"
      | "\<not> (mes_nextAfter page \<le> cursor \<and> mes_hasMore page)" "mes_hasMore page" by blast
    then show ?thesis
    proof cases
      case 1
      with body Inr show ?thesis by (auto simp: batch_distinct_def)
    next
      case 2
      with body Inr filled show ?thesis by (auto simp: batch_distinct_def Let_def)
    next
      case 3
      with body Inr have "batch_distinct (fst ?filled) (snd ?filled) r"
        by (intro IH [of fetchPage limit "Suc k" "mes_nextAfter page"
              "if mes_hasGap page = Some True then True else reset"]) (simp add: Let_def)
      with filled show ?thesis by (simp add: batch_distinct_def)
    qed
  qed
qed

section \<open>Properties\<close>

text \<open>
  Claim C1: against the Go event ring behind its handler, whatever is recorded while the
  pages are being read, a refresh of a console that is in step with an earlier log
  returns, and leaves the console in step with the whole log at the last page: it holds
  exactly the last 1000 events recorded, in order, and its cursor is at their end. This
  covers the reset after a gap.
\<close>

theorem refreshEvents_synced:
  assumes "synced monitoringEventCapacity old (feed_events feed) (feed_cursor feed)"
    "prefix old (server_log fmt sched k)"
  shows "\<exists>k' feed'. k \<le> k' \<and>
     refreshEvents (server_fetch fmt sched) k feed = Some (Inr feed', Suc k') \<and>
     synced monitoringEventCapacity (server_log fmt sched k') (feed_events feed') (feed_cursor feed')"
proof -
  have cursor: "feed_cursor feed = int (length old)" using assms(1) by (simp add: synced_def)
  have "synced securityEventCapacity old (feed_events feed) (int (length old))"
    using assms(1) cursor capacities_agree by simp
  from ring.refresh_syncs [OF server_log_bound _ _ assms(2) this, where limit = 200]
  show ?thesis
    by (auto simp: refreshEvents_def cursor capacities_agree)
qed

definition one_arrival :: schedule where
  "one_arrival k = (if k = 0 then [(noon, zero_event\<lparr>ge_Code := ''auth.failed''\<rparr>)] else [])"

lemma one_arrival_log: "server_log (\<lambda>t. ''12:00'') one_arrival k =
  [\<lparr>mev_id = 1, mev_time = ''12:00'', mev_code = ''auth.failed'', mev_category = None, mev_requestId = None,
    mev_statusCode = None, mev_attempt = None\<rparr>]"
proof -
  have "concat (map one_arrival [0..<Suc k]) = one_arrival 0"
    by (induction k) (simp_all add: one_arrival_def)
  then show ?thesis
    by (simp add: server_log_def arrivals_def one_arrival_def stamped_log_def wire_event_def stamp_def
        zero_event_def noon_def omit_text_def omit_int_def id_horizon_def take_Cons')
qed

theorem refreshEvents_synced_witness:
  "\<exists>k' feed'. refreshEvents (server_fetch (\<lambda>t. ''12:00'') one_arrival) 0
       \<lparr>feed_events = [], feed_cursor = 0\<rparr> = Some (Inr feed', Suc k') \<and>
     map mev_code (feed_events feed') = [''auth.failed''] \<and> feed_cursor feed' = 1"
proof -
  have "synced monitoringEventCapacity [] (feed_events \<lparr>feed_events = [], feed_cursor = 0\<rparr>)
      (feed_cursor \<lparr>feed_events = [], feed_cursor = 0\<rparr>)"
    by (simp add: synced_def slice_last_def)
  from refreshEvents_synced [OF this, of "\<lambda>t. ''12:00''" one_arrival 0] show ?thesis
    by (auto simp: synced_def one_arrival_log slice_last_def)
qed

text \<open>
  Whatever pages the server sends, a batch that \<open>readMonitoringEvents\<close> returns
  holds no identifier twice.
\<close>

theorem readMonitoringEvents_distinct:
  assumes "readMonitoringEvents fetchPage k after limit = Some (Inr batch, k')"
  shows "distinct (map mev_id (meb_events batch))"
  using read_loop_distinct [OF assms [unfolded readMonitoringEvents_def]]
  by (simp add: batch_distinct_def)

definition sample_event :: "int \<Rightarrow> string \<Rightarrow> MonitoringEvent" where
  "sample_event i code = \<lparr>mev_id = i, mev_time = ''t'', mev_code = code, mev_category = None,
     mev_requestId = None, mev_statusCode = None, mev_attempt = None\<rparr>"

definition repeating_source :: page_source where
  "repeating_source k after limit = Inr \<lparr>mes_events = [sample_event 4 ''a'', sample_event 5 ''b'', sample_event 4 ''a''],
     mes_nextAfter = 5, mes_oldestAfter = None, mes_hasMore = (k = 0), mes_hasGap = None\<rparr>"

lemma repeating_read:
  "readMonitoringEvents repeating_source 0 3 200 =
     Some (Inr \<lparr>meb_events = [sample_event 4 ''a'', sample_event 5 ''b''], meb_nextAfter = 5, meb_reset = False\<rparr>, 2)"
  unfolding readMonitoringEvents_def
  by (subst read_loop.simps, subst read_loop.simps) (simp add: repeating_source_def sample_event_def)

theorem readMonitoringEvents_distinct_witness:
  "distinct (map mev_id [sample_event 4 ''a'', sample_event 5 ''b''])"
  using readMonitoringEvents_distinct [OF repeating_read] by simp

lemma read_loop_returns:
  assumes "\<And>j c p. fetchPage j c limit = Inr p \<Longrightarrow> mes_nextAfter p \<le> bound"
  shows "\<exists>r k'. read_loop fetchPage limit k cursor reset events seen = Some (r, k') \<and> k' \<le> k + nat (bound - cursor) + 1"
proof (induction "nat (bound - cursor)" arbitrary: k cursor reset events seen rule: less_induct)
  case less
  show ?case
  proof (cases "fetchPage k cursor limit")
    case (Inl e)
    then show ?thesis by (subst read_loop.simps) simp
  next
    case (Inr page)
    let ?more = "mes_hasMore page \<and> cursor < mes_nextAfter page"
    show ?thesis
    proof (cases ?more)
      case True
      have "mes_nextAfter page \<le> bound" by (rule assms [OF Inr])
      with True have smaller: "nat (bound - mes_nextAfter page) < nat (bound - cursor)" by simp
      let ?gap = "mes_hasGap page = Some True"
      let ?filled = "push_unseen (mes_events page) (if ?gap then ([], []) else (events, seen))"
      from less [OF smaller, of "Suc k" "if ?gap then True else reset" "fst ?filled" "snd ?filled"] obtain r k' where
        rec: "read_loop fetchPage limit (Suc k) (mes_nextAfter page) (if ?gap then True else reset) (fst ?filled) (snd ?filled) = Some (r, k')"
        and k': "k' \<le> Suc k + nat (bound - mes_nextAfter page) + 1" by blast
      have "read_loop fetchPage limit k cursor reset events seen = Some (r, k')"
        using True Inr rec by (subst read_loop.simps) (simp add: Let_def)
      moreover have "k' \<le> k + nat (bound - cursor) + 1" using k' smaller by linarith
      ultimately show ?thesis by blast
    next
      case False
      then show ?thesis using Inr by (subst read_loop.simps) (auto simp: Let_def)
    qed
  qed
qed

text \<open>
  Claim C32: the paged reader returns against any server, also one that does not keep to the
  protocol: as long as the cursors it sends stay below some bound, the reader gives a batch
  or an error after at most as many calls as there are cursors left up to that bound, and
  one more, since a page that does not move the cursor on is an error.
\<close>

theorem readMonitoringEvents_returns:
  assumes "\<And>j c p. fetchPage j c limit = Inr p \<Longrightarrow> mes_nextAfter p \<le> bound"
  shows "\<exists>r k'. readMonitoringEvents fetchPage k after limit = Some (r, k') \<and> k' \<le> k + nat (bound - after) + 1"
  unfolding readMonitoringEvents_def by (rule read_loop_returns [OF assms])

theorem readMonitoringEvents_returns_witness:
  "\<exists>r k'. readMonitoringEvents (\<lambda>j c l. Inr \<lparr>mes_events = [], mes_nextAfter = min 5 (c + 2), mes_oldestAfter = None, mes_hasMore = True,
      mes_hasGap = None\<rparr>) 0 0 200 = Some (r, k') \<and> k' \<le> 6"
  using readMonitoringEvents_returns [of "\<lambda>j c l. Inr \<lparr>mes_events = [], mes_nextAfter = min 5 (c + 2), mes_oldestAfter = None,
      mes_hasMore = True, mes_hasGap = None\<rparr>" 200 5 0 0] by simp

text \<open>
  \<open>mergeMonitoringEvents\<close> keeps the \<open>capacity\<close> largest identifiers, in strictly
  increasing order, of the events it is given; for an identifier given several times the
  last event wins, the incoming batch after the current window, and the current window
  is ignored on a reset.
\<close>

theorem mergeMonitoringEvents_spec:
  "\<exists>all. mergeMonitoringEvents current incoming reset capacity = slice_last capacity all \<and>
     sorted_wrt (<) (map mev_id all) \<and>
     (\<forall>e. e \<in> set all \<longleftrightarrow>
        find (\<lambda>x. mev_id x = mev_id e) (rev ((if reset then [] else current) @ incoming)) = Some e)"
proof -
  let ?given = "(if reset then [] else current) @ incoming"
  let ?m = "map_set_all mev_id ?given []"
  have m: "?m = map_set_all mev_id incoming (if reset then [] else map_set_all mev_id current [])"
    by (simp add: map_set_all_def)
  have dist: "distinct (map fst ?m)" "keyed mev_id ?m"
    by (simp_all add: distinct_map_set_all keyed_map_set_all)
  let ?all = "sort_key mev_id (map snd ?m)"
  have "distinct (map mev_id (map snd ?m))"
    using dist keyed_map_fst by metis
  then have "distinct (map mev_id ?all)"
    by (metis distinct_map set_sort distinct_sort)
  then have sorted: "sorted_wrt (<) (map mev_id ?all)"
    by (simp add: strict_sorted_iff)
  have mem: "e \<in> set ?all \<longleftrightarrow> find (\<lambda>x. mev_id x = mev_id e) (rev ?given) = Some e" for e
  proof -
    have "e \<in> set ?all \<longleftrightarrow> map_of ?m (mev_id e) = Some e"
      using keyed_values [OF dist(2,1), of e] by simp
    then show ?thesis
      unfolding map_of_map_set_all by (simp split: option.splits)
  qed
  have "mergeMonitoringEvents current incoming reset capacity = slice_last capacity ?all"
    unfolding mergeMonitoringEvents_def Let_def m by simp
  with sorted mem show ?thesis by blast
qed

end
