(* ===== verification/ConfigTypes.thy ===== *)
theory ConfigTypes
  imports Json
begin

text \<open>
  The configuration document of the gateway as the console edits it: the
  interface \<open>Config\<close> of web/src/types.ts, one record per section, with the
  literal unions as datatypes. A record field carries its section's name first.
  Durations and byte sizes stay the strings the server sends.
\<close>

datatype Locale = Locale_ZhCN | Locale_EnUS

type_synonym Duration = string

record Config_server =
  server_listen :: "string"
  server_adminEnabled :: "bool"
  server_configBackupDir :: "string"
  server_readHeaderTimeout :: "Duration"
  server_readBodyTimeout :: "Duration"
  server_idleTimeout :: "Duration"
  server_downstreamWriteIdleTimeout :: "Duration"
  server_shutdownTimeout :: "Duration"
  server_maxHeaderBytes :: "int"
  server_maxRequestBody :: "string"

record Config_upstream =
  upstream_baseUrl :: "string"
  upstream_connectTimeout :: "Duration"
  upstream_responseHeaderTimeout :: "Duration"
  upstream_responseBodyIdleTimeout :: "Duration"

datatype Config_upstreams_strategy =
    Config_upstreams_strategy_PrimaryOnly
  | Config_upstreams_strategy_WeightedPriority

record Config_upstreams_targets =
  upstreams_targets_id :: "string"
  upstreams_targets_baseUrl :: "string"
  upstreams_targets_priority :: "int"
  upstreams_targets_weight :: "int"
  upstreams_targets_maxActive :: "int"
  upstreams_targets_idempotencyDomain :: "string"
  upstreams_targets_costMicrosPer1K :: "int"
  upstreams_targets_capabilityScore :: "rat"

datatype Config_upstreams_health_mode =
    Config_upstreams_health_mode_Empty
  | Config_upstreams_health_mode_Passive

record Config_upstreams_health =
  upstreams_health_mode :: "Config_upstreams_health_mode"

record Config_upstreams_circuit =
  upstreams_circuit_enabled :: "bool"
  upstreams_circuit_minimumRequests :: "int"
  upstreams_circuit_failurePercent :: "int"
  upstreams_circuit_openDuration :: "Duration"
  upstreams_circuit_halfOpenMax :: "int"

record Config_upstreams =
  upstreams_strategy :: "Config_upstreams_strategy"
  upstreams_targets :: "Config_upstreams_targets list"
  upstreams_health :: "Config_upstreams_health"
  upstreams_circuit :: "Config_upstreams_circuit"

record Config_egress =
  egress_denyPrivateNetworks :: "bool"
  egress_allowedHosts :: "string list"

datatype Config_retry_mode =
    Config_retry_mode_AllErrors
  | Config_retry_mode_TransientErrors

record Config_retry =
  retry_enabled :: "bool"
  retry_mode :: "Config_retry_mode"
  retry_minInterval :: "Duration"
  retry_maxInterval :: "Duration"
  retry_maxAttempts :: "int"
  retry_maxElapsed :: "Duration"
  retry_retryAfterCap :: "Duration"
  retry_honorRetryAfter :: "bool"

record Config_stream =
  stream_heartbeatInterval :: "Duration"
  stream_memoryLimit :: "string"
  stream_maxResponseBody :: "string"
  stream_maxTotalCache :: "string"
  stream_tempDir :: "string"

record Config_queue =
  queue_maxActive :: "int"
  queue_maxWaiting :: "int"
  queue_recoverySpacing :: "Duration"

record Config_history =
  history_maxItems :: "int"
  history_retention :: "Duration"

datatype Config_observability_errorDetails =
    Config_observability_errorDetails_Off
  | Config_observability_errorDetails_Safe

datatype Config_observability_telemetry_protocol =
    Config_observability_telemetry_protocol_Grpc
  | Config_observability_telemetry_protocol_HttpProtobuf
  | Config_observability_telemetry_protocol_Stdout

record Config_observability_telemetry =
  observability_telemetry_enabled :: "bool"
  observability_telemetry_protocol :: "Config_observability_telemetry_protocol"
  observability_telemetry_endpoint :: "string"
  observability_telemetry_insecure :: "bool"
  observability_telemetry_sampleRatio :: "rat"
  observability_telemetry_serviceName :: "string"
  observability_telemetry_environment :: "string"
  observability_telemetry_exportTimeout :: "Duration"
  observability_telemetry_metricInterval :: "Duration"

record Config_observability =
  observability_errorDetails :: "Config_observability_errorDetails"
  observability_maxErrorDetail :: "string"
  observability_telemetry :: "Config_observability_telemetry"

record Config_capture =
  capture_enabled :: "bool"
  capture_storageDir :: "string"
  capture_retention :: "Duration"
  capture_defaultRequestLimit :: "int"
  capture_activationTimeout :: "Duration"
  capture_maxBodySize :: "string"
  capture_maxTotalSize :: "string"
  capture_maxAttemptsPerRequest :: "int"
  capture_minimumFreeDisk :: "string"
  capture_logMaxItems :: "int"
  capture_logRetention :: "Duration"

record Config_localization =
  localization_defaultLocale :: "Locale"
  localization_fallbackLocale :: "Locale"

record Config_risk =
  risk_warningAfter :: "Duration"
  risk_warningAttempts :: "int"
  risk_authErrorAttempts :: "int"
  risk_queueWarningPercent :: "int"
  risk_minimumFreeDisk :: "string"

record Config_notifications =
  notifications_stalledAfter :: "Duration"
  notifications_notifyOnRecovery :: "bool"
  notifications_webhookUrl :: "string"
  notifications_deliveryAttempts :: "int"
  notifications_deliveryBackoff :: "Duration"
  notifications_eventTypes :: "string list"
  notifications_locale :: "Locale"

record Config_logging =
  logging_level :: "string"
  logging_locale :: "Locale"
  logging_logRequestBody :: "bool"
  logging_logResponseBody :: "bool"
  logging_logAuthorization :: "bool"

record Config_persistence =
  persistence_enabled :: "bool"
  persistence_directory :: "string"
  persistence_retention :: "Duration"
  persistence_syncWrites :: "bool"

record Config_incidents =
  incidents_enabled :: "bool"
  incidents_correlationWindow :: "Duration"
  incidents_recoveryStableWindow :: "Duration"
  incidents_retention :: "Duration"
  incidents_maxItems :: "int"

datatype Config_lifecycle_clientDisconnectPolicy =
    Config_lifecycle_clientDisconnectPolicy_Cancel
  | Config_lifecycle_clientDisconnectPolicy_FinishAttempt

record Config_lifecycle =
  lifecycle_trackUncertainDelivery :: "bool"
  lifecycle_preserveIdempotencyKey :: "bool"
  lifecycle_generateIdempotencyKey :: "bool"
  lifecycle_allowUncertainRetry :: "bool"
  lifecycle_allowCrossDomainFailover :: "bool"
  lifecycle_uncertainResolutionTarget :: "Duration"
  lifecycle_maxRequestDuration :: "Duration"
  lifecycle_clientDisconnectPolicy :: "Config_lifecycle_clientDisconnectPolicy"

record Config_managementSecurity_oidc =
  managementSecurity_oidc_enabled :: "bool"
  managementSecurity_oidc_issuerUrl :: "string"
  managementSecurity_oidc_clientId :: "string"
  managementSecurity_oidc_redirectUrl :: "string"
  managementSecurity_oidc_scopes :: "string list"
  managementSecurity_oidc_signingAlgorithms :: "string list"
  managementSecurity_oidc_roleClaim :: "string"
  managementSecurity_oidc_viewerValues :: "string list"
  managementSecurity_oidc_operatorValues :: "string list"
  managementSecurity_oidc_sensitiveValues :: "string list"

record Config_managementSecurity =
  managementSecurity_localAccessEnabled :: "bool"
  managementSecurity_loginFailuresPerMinute :: "int"
  managementSecurity_loginCooldown :: "Duration"
  managementSecurity_sessionIdleTimeout :: "Duration"
  managementSecurity_sessionMaxLifetime :: "Duration"
  managementSecurity_oidc :: "Config_managementSecurity_oidc"

record Config_metricsExport =
  metricsExport_enabled :: "bool"
  metricsExport_path :: "string"

datatype Config_governance_mode =
    Config_governance_mode_Observe
  | Config_governance_mode_Enforce

datatype Config_governance_unknownUsagePolicy =
    Config_governance_unknownUsagePolicy_Observe
  | Config_governance_unknownUsagePolicy_Deny

record Config_governance_prices =
  governance_prices_model :: "string"
  governance_prices_inputMicrosPerToken :: "int"
  governance_prices_outputMicrosPerToken :: "int"

record GovernanceBudgetConfig =
  gbc_scope :: "string"
  gbc_key :: "string"
  gbc_maxConcurrent :: "int"
  gbc_requestsPerMinute :: "int"
  gbc_tokenLimit :: "int"
  gbc_costLimitMicros :: "int"

record Config_governance =
  governance_mode :: "Config_governance_mode"
  governance_unknownUsagePolicy :: "Config_governance_unknownUsagePolicy"
  governance_maxConcurrent :: "int"
  governance_requestsPerMinute :: "int"
  governance_tokenLimit :: "int"
  governance_costLimitMicros :: "int"
  governance_tokenReservation :: "int"
  governance_costReservationMicros :: "int"
  governance_reservationMinTokens :: "int"
  governance_reservationMaxTokens :: "int"
  governance_reservationMinCostMicros :: "int"
  governance_reservationMaxCostMicros :: "int"
  governance_softThresholdPercent :: "int"
  governance_forecastWindow :: "Duration"
  governance_budgets :: "GovernanceBudgetConfig list"
  governance_prices :: "Config_governance_prices list"

record Config_slo =
  slo_enabled :: "bool"
  slo_availabilityTarget :: "rat"
  slo_recoveryLatencyTarget :: "Duration"
  slo_window :: "Duration"

datatype Config_trafficPolicy_mode =
    Config_trafficPolicy_mode_Observe
  | Config_trafficPolicy_mode_Enforce

datatype Config_trafficPolicy_releaseStage =
    Config_trafficPolicy_releaseStage_Draft
  | Config_trafficPolicy_releaseStage_Shadow
  | Config_trafficPolicy_releaseStage_Canary
  | Config_trafficPolicy_releaseStage_Full

record Config_trafficPolicy_shadow =
  trafficPolicy_shadow_enabled :: "bool"
  trafficPolicy_shadow_targetId :: "string"
  trafficPolicy_shadow_samplePercent :: "int"
  trafficPolicy_shadow_maxConcurrent :: "int"
  trafficPolicy_shadow_maxRequestBody :: "string"
  trafficPolicy_shadow_requestBudgetPerHour :: "int"
  trafficPolicy_shadow_costBudgetMicrosPerHour :: "int"
  trafficPolicy_shadow_costReservationMicros :: "int"
  trafficPolicy_shadow_requireIdempotency :: "bool"

record Config_trafficPolicy_adaptive =
  trafficPolicy_adaptive_enabled :: "bool"
  trafficPolicy_adaptive_errorBudgetFloor :: "rat"
  trafficPolicy_adaptive_minimumObservations :: "int"
  trafficPolicy_adaptive_maximumLatencyMilliseconds :: "int"
  trafficPolicy_adaptive_latencyWeight :: "rat"
  trafficPolicy_adaptive_errorRateWeight :: "rat"
  trafficPolicy_adaptive_costWeight :: "rat"
  trafficPolicy_adaptive_capabilityWeight :: "rat"
  trafficPolicy_adaptive_switchCooldown :: "Duration"
  trafficPolicy_adaptive_fallbackTargetId :: "string"
  trafficPolicy_adaptive_autoStopBurnRate :: "rat"
  trafficPolicy_adaptive_autoStopFailureRate :: "rat"

datatype TrafficPolicyRule_action =
    TrafficPolicyRule_action_Route
  | TrafficPolicyRule_action_Deny

record TrafficPolicyRule =
  tpr_id :: "string"
  tpr_enabled :: "bool"
  tpr_priority :: "int"
  tpr_method :: "string"
  tpr_pathPrefix :: "string"
  tpr_model :: "string"
  tpr_principalPrefix :: "string"
  tpr_action :: "TrafficPolicyRule_action"
  tpr_targetId :: "string"

record Config_trafficPolicy =
  trafficPolicy_enabled :: "bool"
  trafficPolicy_mode :: "Config_trafficPolicy_mode"
  trafficPolicy_releaseStage :: "Config_trafficPolicy_releaseStage"
  trafficPolicy_canaryPercent :: "int"
  trafficPolicy_revision :: "string option"
  trafficPolicy_rules :: "TrafficPolicyRule list"
  trafficPolicy_shadow :: "Config_trafficPolicy_shadow"
  trafficPolicy_adaptive :: "Config_trafficPolicy_adaptive"

record Config =
  cfg_schemaVersion :: "int"
  cfg_server :: "Config_server"
  cfg_upstream :: "Config_upstream"
  cfg_upstreams :: "Config_upstreams"
  cfg_egress :: "Config_egress"
  cfg_retry :: "Config_retry"
  cfg_stream :: "Config_stream"
  cfg_queue :: "Config_queue"
  cfg_history :: "Config_history"
  cfg_observability :: "Config_observability"
  cfg_capture :: "Config_capture"
  cfg_localization :: "Config_localization"
  cfg_risk :: "Config_risk"
  cfg_notifications :: "Config_notifications"
  cfg_logging :: "Config_logging"
  cfg_persistence :: "Config_persistence"
  cfg_incidents :: "Config_incidents"
  cfg_lifecycle :: "Config_lifecycle"
  cfg_managementSecurity :: "Config_managementSecurity"
  cfg_metricsExport :: "Config_metricsExport"
  cfg_governance :: "Config_governance"
  cfg_slo :: "Config_slo"
  cfg_trafficPolicy :: "Config_trafficPolicy"

end
