(* ===== verification/PolicyTypes.thy ===== *)
theory PolicyTypes
  imports ConfigTypes
begin

text \<open>
  Traffic-policy simulation, status and releases, configuration change plans,
  versions and runtime state, and the upstream pool (web/src/types.ts).
\<close>

record PolicyInput_targets =
  pin_targets_id :: "string"
  pin_targets_circuitState :: "string"
  pin_targets_observations :: "int"
  pin_targets_latencyMilliseconds :: "int"
  pin_targets_errorRate :: "rat option"
  pin_targets_rateLimitRate :: "rat option"
  pin_targets_costMicrosPer1K :: "int option"
  pin_targets_capabilityScore :: "rat option"

record PolicyInput =
  pin_method :: "string"
  pin_path :: "string"
  pin_model :: "string"
  pin_principal :: "string"
  pin_requestId :: "string option"
  pin_idempotencyKey :: "string option"
  pin_bodyBytes :: "int option"
  pin_sloHealthy :: "bool option"
  pin_errorBudgetRemaining :: "rat option"
  pin_errorBudgetBurnRate :: "rat option"
  pin_targets :: "(PolicyInput_targets list) option"

record PolicyDecision =
  pd_id :: "int"
  pd_evaluatedAt :: "string"
  pd_dryRun :: "bool"
  pd_enabled :: "bool"
  pd_mode :: "string"
  pd_matchedRuleId :: "string option"
  pd_action :: "string"
  pd_targetId :: "string option"
  pd_denied :: "bool"
  pd_enforced :: "bool"
  pd_reason :: "string"
  pd_adaptive :: "bool"
  pd_shadowTargetId :: "string option"
  pd_shadowEligible :: "bool"
  pd_canarySelected :: "bool"
  pd_fallback :: "bool"
  pd_adaptiveScore :: "rat option"
  pd_explanation :: "(string list) option"

record PolicyStatus =
  pst_enabled :: "bool"
  pst_mode :: "string"
  pst_rules :: "int"
  pst_decisions :: "int"
  pst_denied :: "int"
  pst_routed :: "int"
  pst_adaptive :: "int"
  pst_shadowPlanned :: "int"
  pst_shadowActive :: "int"
  pst_shadowSent :: "int"
  pst_shadowSkipped :: "int"
  pst_shadowFailed :: "int"
  pst_shadowReservedCostMicros :: "int"
  pst_adaptiveStopped :: "bool"
  pst_adaptiveStopReason :: "string option"
  pst_adaptiveSwitches :: "int"
  pst_adaptiveLastTargetId :: "string option"
  pst_adaptiveLastScore :: "rat option"
  pst_recent :: "PolicyDecision list"

datatype PolicyReleaseRecord_stage =
    PolicyReleaseRecord_stage_Shadow
  | PolicyReleaseRecord_stage_Canary
  | PolicyReleaseRecord_stage_Full

record PolicyReleaseRecord =
  prr_revision :: "string"
  prr_stage :: "PolicyReleaseRecord_stage"
  prr_canaryPercent :: "int"
  prr_createdAt :: "string"
  prr_actor :: "string option"
  prr_policy :: "Config_trafficPolicy"

record PolicyReleaseStatus =
  prs_currentRevision :: "string"
  prs_currentStage :: "string"
  prs_draftRevision :: "string option"
  prs_draft :: "Config_trafficPolicy option"
  prs_history :: "PolicyReleaseRecord list"

datatype ConfigChangePlan_fields_applyMode =
    ConfigChangePlan_fields_applyMode_Hot
  | ConfigChangePlan_fields_applyMode_Restart

record ConfigChangePlan_fields =
  ccp_fields_path :: "string"
  ccp_fields_applyMode :: "ConfigChangePlan_fields_applyMode"

record ConfigChangePlan =
  ccp_schemaVersion :: "int"
  ccp_changedSections :: "string list"
  ccp_hotReloadSections :: "string list"
  ccp_restartSections :: "string list"
  ccp_restartRequired :: "bool"
  ccp_fields :: "(ConfigChangePlan_fields list) option"

record ConfigSaveResult = ConfigChangePlan +
  csr_saved :: "bool"
  csr_backupPath :: "string option"
  csr_activeRevision :: "string"
  csr_desiredRevision :: "string"

record ConfigRuntimeState =
  crs_active :: "Config"
  crs_desired :: "Config"
  crs_activeRevision :: "string"
  crs_desiredRevision :: "string"
  crs_pendingRestart :: "ConfigChangePlan"

record ConfigVersion =
  cver_name :: "string"
  cver_modifiedAt :: "string"
  cver_sizeBytes :: "int"
  cver_sha256 :: "string option"
  cver_schemaVersion :: "int option"
  cver_valid :: "bool"
  cver_error :: "string option"
  cver_diff :: "ConfigChangePlan"
  cver_applyPlan :: "ConfigChangePlan"

datatype UpstreamPoolStatus_targets_circuitState =
    UpstreamPoolStatus_targets_circuitState_Closed
  | UpstreamPoolStatus_targets_circuitState_Open
  | UpstreamPoolStatus_targets_circuitState_HalfOpen

record UpstreamPoolStatus_targets =
  ups_targets_target :: "Config_upstreams_targets"
  ups_targets_circuitState :: "UpstreamPoolStatus_targets_circuitState"
  ups_targets_active :: "int"
  ups_targets_failureCount :: "int"
  ups_targets_successCount :: "int"
  ups_targets_lastFailureAt :: "string option"
  ups_targets_lastSuccessAt :: "string option"
  ups_targets_lastLatencyMilliseconds :: "int option"
  ups_targets_lastErrorClass :: "string option"
  ups_targets_halfOpenLeases :: "int option"
  ups_targets_errorRate :: "rat"
  ups_targets_rateLimitRate :: "rat"

record UpstreamPoolStatus =
  ups_strategy :: "string"
  ups_targets :: "UpstreamPoolStatus_targets list"

end
