(* ===== verification/RequestTypes.thy ===== *)
theory RequestTypes
  imports Json
begin

text \<open>
  Requests in flight: retry policies, uncertain deliveries and their resolution,
  batch results, repeat tasks and the gateway status (web/src/types.ts).
\<close>

datatype RetryPolicyInfo_state =
    RetryPolicyInfo_state_Pending
  | RetryPolicyInfo_state_Active

datatype RetryScheduleMode =
    RetryScheduleMode_Inherit
  | RetryScheduleMode_Immediate
  | RetryScheduleMode_Fixed
  | RetryScheduleMode_Random
  | RetryScheduleMode_Exponential

record RetryScheduleInfo =
  rsi_mode :: "RetryScheduleMode"
  rsi_intervalMilliseconds :: "int option"
  rsi_minimumIntervalMilliseconds :: "int option"
  rsi_maximumIntervalMilliseconds :: "int option"
  rsi_baseIntervalMilliseconds :: "int option"

record RetryPolicyInfo =
  rpi_state :: "RetryPolicyInfo_state"
  rpi_durationMilliseconds :: "int"
  rpi_schedule :: "RetryScheduleInfo"
  rpi_maxAdditionalAttempts :: "int option"
  rpi_additionalAttemptsUsed :: "int"
  rpi_remainingAdditionalAttempts :: "int option"
  rpi_honorRetryAfter :: "bool"
  rpi_appliedAt :: "string"
  rpi_activatedAt :: "string option"
  rpi_deadline :: "string option"

record RequestActions =
  ra_canRetryNow :: "bool"
  ra_canSetRetryPolicy :: "bool"
  ra_retryRequiresConfirmation :: "bool"
  ra_canCancel :: "bool"
  ra_canRepeat :: "bool"

record RequestInfo =
  req_id :: "string"
  req_clientId :: "string option"
  req_taskId :: "string option"
  req_method :: "string"
  req_path :: "string"
  req_state :: "string"
  req_attempt :: "int"
  req_startedAt :: "string"
  req_updatedAt :: "string"
  req_nextRetryAt :: "string option"
  req_lastError :: "string option"
  req_lastErrorCode :: "string option"
  req_lastErrorDetails :: "((string \<times> json) list) option"
  req_retryDeadline :: "string option"
  req_retryIntervalMilliseconds :: "int option"
  req_retryPolicy :: "RetryPolicyInfo option"
  req_actions :: "RequestActions option"
  req_persistenceDegraded :: "bool option"
  req_persistencePending :: "bool option"
  req_uncertainSince :: "string option"
  req_uncertainResolution :: "string option"
  req_uncertainResolvedAt :: "string option"

datatype UncertainResolutionAction =
    UncertainResolutionAction_ConfirmSuccess
  | UncertainResolutionAction_Abandon
  | UncertainResolutionAction_RequestCompensation

record UncertainAttemptEvidence =
  uae_attempt :: "int"
  uae_targetId :: "string option"
  uae_targetDomain :: "string option"
  uae_statusCode :: "int option"
  uae_category :: "string option"
  uae_attemptPhase :: "string option"
  uae_wroteRequest :: "bool"
  uae_idempotencyKeyHash :: "string option"
  uae_requestBytes :: "int option"
  uae_latencyMilliseconds :: "int option"
  uae_upstreamRequestId :: "string option"

record UncertainEvidence =
  ue_requestId :: "string"
  ue_method :: "string"
  ue_path :: "string"
  ue_state :: "string"
  ue_attempt :: "int"
  ue_startedAt :: "string"
  ue_uncertainSince :: "string"
  ue_attempts :: "UncertainAttemptEvidence list"

record UncertainPreview =
  upv_confirmationToken :: "string"
  upv_expiresAt :: "string"
  upv_evidence :: "UncertainEvidence"

record UncertainResolutionInput =
  uri_action :: "UncertainResolutionAction"
  uri_confirmationToken :: "string"
  uri_reason :: "string"

record UncertainResolutionResponse_result =
  urr_result_id :: "string option"
  urr_result_outcome :: "string option"
  urr_result_reason :: "string option"
  urr_result_state :: "string option"

record UncertainResolutionResponse =
  urr_accepted :: "bool"
  urr_action :: "UncertainResolutionAction"
  urr_result :: "UncertainResolutionResponse_result option"

record RetryPolicyInput_schedule =
  rpin_schedule_mode :: "RetryScheduleMode"
  rpin_schedule_intervalMilliseconds :: "int option"
  rpin_schedule_minimumIntervalMilliseconds :: "int option"
  rpin_schedule_maximumIntervalMilliseconds :: "int option"
  rpin_schedule_baseIntervalMilliseconds :: "int option"

record RetryPolicyInput =
  rpin_durationMilliseconds :: "int"
  rpin_schedule :: "RetryPolicyInput_schedule"
  rpin_maxAdditionalAttempts :: "int option"
  rpin_honorRetryAfter :: "bool"

datatype BatchActionItem_outcome =
    BatchActionItem_outcome_Accepted
  | BatchActionItem_outcome_Skipped

record BatchActionItem =
  bai_id :: "string"
  bai_outcome :: "BatchActionItem_outcome"
  bai_reason :: "string option"
  bai_state :: "string option"

record BatchActionResponse =
  bar_operationId :: "string"
  bar_requested :: "int"
  bar_accepted :: "int"
  bar_skipped :: "int"
  bar_triggered :: "int option"
  bar_results :: "BatchActionItem list"

datatype RepeatTaskState =
    RepeatTaskState_Running
  | RepeatTaskState_Paused
  | RepeatTaskState_Stopped
  | RepeatTaskState_Expired
  | RepeatTaskState_Interrupted

datatype RepeatTask_idempotency =
    RepeatTask_idempotency_Preserve
  | RepeatTask_idempotency_Regenerate

datatype RepeatTask_lastOutcome =
    RepeatTask_lastOutcome_Successful
  | RepeatTask_lastOutcome_Failed

record RepeatTask_executionAudit =
  rtask_executionAudit_id :: "string"
  rtask_executionAudit_startedAt :: "string"
  rtask_executionAudit_completedAt :: "string"
  rtask_executionAudit_success :: "bool"
  rtask_executionAudit_statusCode :: "int option"
  rtask_executionAudit_errorCode :: "string option"
  rtask_executionAudit_durationMilliseconds :: "int"
  rtask_executionAudit_usageTokens :: "int option"
  rtask_executionAudit_usageAvailable :: "bool"

record RepeatTask =
  rtask_id :: "string"
  rtask_sourceRequestId :: "string"
  rtask_method :: "string"
  rtask_path :: "string"
  rtask_state :: "RepeatTaskState"
  rtask_idempotency :: "RepeatTask_idempotency"
  rtask_intervalMilliseconds :: "int"
  rtask_durationMilliseconds :: "int"
  rtask_startedAt :: "string"
  rtask_deadline :: "string option"
  rtask_nextRunAt :: "string option"
  rtask_lastRunAt :: "string option"
  rtask_stoppedAt :: "string option"
  rtask_executions :: "int"
  rtask_successes :: "int"
  rtask_failures :: "int"
  rtask_lastOutcome :: "RepeatTask_lastOutcome option"
  rtask_lastStatusCode :: "int option"
  rtask_lastErrorCode :: "string option"
  rtask_lastExecutionId :: "string option"
  rtask_inFlight :: "bool"
  rtask_maxExecutions :: "int option"
  rtask_maxFailures :: "int option"
  rtask_failureThreshold :: "int option"
  rtask_consecutiveFailures :: "int option"
  rtask_circuitOpen :: "bool option"
  rtask_maxTokens :: "int option"
  rtask_tokensUsed :: "int option"
  rtask_lastUsageTokens :: "int option"
  rtask_tokenUsageMissing :: "bool option"
  rtask_stopReason :: "string option"
  rtask_executionAudit :: "(RepeatTask_executionAudit list) option"

datatype Status_upstream_state =
    Status_upstream_state_Unknown
  | Status_upstream_state_Healthy
  | Status_upstream_state_Degraded

record Status_upstream =
  stat_upstream_state :: "Status_upstream_state"
  stat_upstream_lastChecked :: "string option"
  stat_upstream_lastError :: "string option"

record Status =
  stat_paused :: "bool"
  stat_mode :: "string"
  stat_active :: "int"
  stat_queued :: "int"
  stat_waiting :: "int"
  stat_requesting :: "int"
  stat_totalRequests :: "int"
  stat_successful :: "int"
  stat_failedAttempts :: "int"
  stat_persistenceDegraded :: "bool option"
  stat_persistencePending :: "int option"
  stat_upstream :: "Status_upstream"
  stat_requests :: "RequestInfo list"

end
