(* ===== verification/OperationsTypes.thy ===== *)
theory OperationsTypes
  imports Json
begin

text \<open>
  Sessions, process information, governance, telemetry, captures and
  notifications (web/src/types.ts).
\<close>

record RuntimeInfo_process =
  rinfo_process_pid :: "int"
  rinfo_process_parentPid :: "int"
  rinfo_process_goroutines :: "int"
  rinfo_process_cpuCount :: "int"
  rinfo_process_gomaxprocs :: "int"
  rinfo_process_heapAllocBytes :: "int"
  rinfo_process_heapInuseBytes :: "int"
  rinfo_process_stackInuseBytes :: "int"
  rinfo_process_systemMemoryBytes :: "int"
  rinfo_process_gcCycles :: "int"
  rinfo_process_sampledAt :: "string"

record RuntimeInfo =
  rinfo_version :: "string"
  rinfo_revision :: "string"
  rinfo_builtAt :: "string"
  rinfo_goVersion :: "string"
  rinfo_platform :: "string"
  rinfo_imageRef :: "string option"
  rinfo_startedAt :: "string"
  rinfo_uptimeSeconds :: "int"
  rinfo_adminApiVersion :: "string"
  rinfo_configSchemaVersion :: "int"
  rinfo_process :: "RuntimeInfo_process"

datatype SessionInfo_role =
    SessionInfo_role_Viewer
  | SessionInfo_role_Operator
  | SessionInfo_role_Sensitive

datatype SessionInfo_capabilities =
    SessionInfo_capabilities_View
  | SessionInfo_capabilities_Operate
  | SessionInfo_capabilities_Sensitive

datatype SessionInfo_authMethod =
    SessionInfo_authMethod_Local
  | SessionInfo_authMethod_Oidc
  | SessionInfo_authMethod_Bearer

record SessionInfo =
  si_authenticated :: "bool"
  si_role :: "SessionInfo_role"
  si_capabilities :: "SessionInfo_capabilities list"
  si_csrfToken :: "string option"
  si_authMethod :: "SessionInfo_authMethod option"

record LoginOptions_oidc =
  lo_oidc_enabled :: "bool"
  lo_oidc_available :: "bool"

record LoginOptions =
  lo_localEnabled :: "bool"
  lo_oidc :: "LoginOptions_oidc"

record GovernanceStatus_entries =
  gov_entries_scope :: "string"
  gov_entries_key :: "string"
  gov_entries_principal :: "string"
  gov_entries_windowStarted :: "string"
  gov_entries_requests :: "int"
  gov_entries_active :: "int"
  gov_entries_tokens :: "int"
  gov_entries_costMicros :: "int"
  gov_entries_reservedTokens :: "int"
  gov_entries_reservedCostMicros :: "int"
  gov_entries_unknownUsage :: "int"

record GovernanceStatus_counters =
  gov_counters_admitted :: "int"
  gov_counters_rejected :: "((string \<times> int) list)"
  gov_counters_settlements :: "int"
  gov_counters_knownSettlements :: "int"
  gov_counters_unknownSettlements :: "int"
  gov_counters_reconciled :: "int"
  gov_counters_persistenceFailures :: "int"

record GovernanceStatus_ledger =
  gov_ledger_enabled :: "bool"
  gov_ledger_healthy :: "bool"
  gov_ledger_state :: "string option"
  gov_ledger_failedAt :: "string option"
  gov_ledger_failedStage :: "string option"
  gov_ledger_failureCount :: "int option"

record GovernanceStatus =
  gov_mode :: "string"
  gov_unknownUsagePolicy :: "string"
  gov_principals :: "int"
  gov_reservations :: "int"
  gov_entries :: "GovernanceStatus_entries list"
  gov_softThreshold :: "bool"
  gov_estimatedExhaustionMinutes :: "rat option"
  gov_counters :: "GovernanceStatus_counters"
  gov_ledger :: "GovernanceStatus_ledger"

record TelemetryStatus =
  tel_enabled :: "bool"
  tel_protocol :: "string option"
  tel_healthy :: "bool"
  tel_traceHealthy :: "bool"
  tel_metricHealthy :: "bool"
  tel_traceExportFailures :: "int"
  tel_metricExportFailures :: "int"
  tel_lastSuccessAt :: "string option"
  tel_lastFailureAt :: "string option"

record CaptureStatus =
  cst_available :: "bool"
  cst_unavailableReason :: "string option"
  cst_active :: "bool"
  cst_remainingRequests :: "int"
  cst_deadline :: "string option"
  cst_storageBytes :: "int"
  cst_maxTotalBytes :: "int"
  cst_captureCount :: "int"
  cst_persistenceHealthy :: "bool"
  cst_failureCount :: "int option"
  cst_failedStage :: "string option"
  cst_lastFailureAt :: "string option"

record CaptureKeyStatus =
  cks_activeId :: "string"
  cks_configured :: "string list"
  cks_recordsById :: "((string \<times> int) list)"
  cks_unresolved :: "int"

record CaptureKeyRewrapResult =
  ckrr_activeId :: "string"
  ckrr_updated :: "int"
  ckrr_unchanged :: "int"

record CaptureBodyPart =
  cbp_headers :: "((string \<times> (string list)) list) option"
  cbp_contentType :: "string option"
  cbp_originalBytes :: "int"
  cbp_storedBytes :: "int"
  cbp_truncated :: "bool"

record CaptureAttempt =
  ca_number :: "int"
  ca_startedAt :: "string"
  ca_finishedAt :: "string"
  ca_statusCode :: "int option"
  ca_error :: "string option"
  ca_response :: "CaptureBodyPart option"

record CaptureRecord =
  cr_id :: "string"
  cr_requestId :: "string"
  cr_method :: "string"
  cr_path :: "string"
  cr_state :: "string"
  cr_startedAt :: "string"
  cr_completedAt :: "string option"
  cr_expiresAt :: "string"
  cr_request :: "CaptureBodyPart"
  cr_attempts :: "CaptureAttempt list"
  cr_final :: "CaptureBodyPart option"
  cr_capturedBytes :: "int"
  cr_warnings :: "(string list) option"

datatype CapturePreviewPart_name =
    CapturePreviewPart_name_Request
  | CapturePreviewPart_name_Attempt
  | CapturePreviewPart_name_Final

record CapturePreviewPart =
  cpp_name :: "CapturePreviewPart_name"
  cpp_attempt :: "int option"
  cpp_statusCode :: "int option"
  cpp_headers :: "((string \<times> (string list)) list) option"
  cpp_contentType :: "string option"
  cpp_body :: "string"
  cpp_originalBytes :: "int"
  cpp_truncated :: "bool"

record CapturePreview =
  cpv_record :: "CaptureRecord"
  cpv_parts :: "CapturePreviewPart list"

record NotificationStatus =
  nst_configured :: "bool"
  nst_signingConfigured :: "bool"
  nst_signingKeyId :: "string option"
  nst_queueDepth :: "int"
  nst_queueCapacity :: "int"
  nst_enqueued :: "int"
  nst_delivered :: "int"
  nst_failed :: "int"
  nst_dropped :: "int"
  nst_lastAttemptAt :: "string option"
  nst_lastSuccessAt :: "string option"
  nst_lastFailureAt :: "string option"

datatype NotificationDelivery_outcome =
    NotificationDelivery_outcome_Delivered
  | NotificationDelivery_outcome_Failed
  | NotificationDelivery_outcome_Dropped

record NotificationDelivery =
  ndel_id :: "int"
  ndel_eventType :: "string"
  ndel_requestId :: "string option"
  ndel_outcome :: "NotificationDelivery_outcome"
  ndel_attempts :: "int"
  ndel_statusCode :: "int option"
  ndel_completedAt :: "string"

end
