(* ===== verification/AdminTypes.thy ===== *)
theory AdminTypes
  imports PolicyTypes RequestTypes OperationsTypes MonitorTypes
begin

text \<open>
  The payloads of the admin API: every interface of web/src/types.ts. An optional
  property is an \<open>option\<close>, a \<open>Record<string, _>\<close> an association list in key
  order, \<open>unknown\<close> a \<open>json\<close> value. This theory adds the realtime stream's
  snapshot and event, which refer to all the others.
\<close>

record RealtimeSnapshot =
  rsnap_status :: "Status"
  rsnap_alerts :: "Alert list"
  rsnap_incidents :: "Incident list"
  rsnap_metrics :: "MetricsSnapshot option"
  rsnap_repeatTasks :: "RepeatTask list"

datatype RealtimeEvent_type =
    RealtimeEvent_type_Sync
  | RealtimeEvent_type_Reset
  | RealtimeEvent_type_Status
  | RealtimeEvent_type_Alerts
  | RealtimeEvent_type_Incidents
  | RealtimeEvent_type_Metrics
  | RealtimeEvent_type_RepeatTasks

record RealtimeEvent =
  rev_version :: "int"
  rev_sequence :: "int"
  rev_type :: "RealtimeEvent_type"
  rev_generatedAt :: "string"
  rev_data :: "json"

end
