(* ===== verification/UrlCodec.thy ===== *)
theory UrlCodec
  imports Prelude
begin

text \<open>
  The URL built-ins the console uses: \<open>encodeURIComponent\<close> for path segments and
  \<open>URLSearchParams\<close> (\<open>set\<close>, \<open>get\<close>, \<open>toString\<close> and the parsing constructor) for
  queries. They work on the UTF-8 bytes of the text.
\<close>

section \<open>Percent encoding\<close>

definition hex_char :: "nat \<Rightarrow> char" where
  "hex_char d = char_of (if d < 10 then 48 + d else 55 + d)"

definition hex_of :: "char \<Rightarrow> nat option" where
  "hex_of c =
     (let n = (of_char c :: nat) in
      if 48 \<le> n \<and> n \<le> 57 then Some (n - 48)
      else if 65 \<le> n \<and> n \<le> 70 then Some (n - 55)
      else if 97 \<le> n \<and> n \<le> 102 then Some (n - 87) else None)"

definition is_alnum :: "char \<Rightarrow> bool" where
  "is_alnum c \<longleftrightarrow>
     (let n = (of_char c :: nat) in 48 \<le> n \<and> n \<le> 57 \<or> 65 \<le> n \<and> n \<le> 90 \<or> 97 \<le> n \<and> n \<le> 122)"

definition pct :: "char \<Rightarrow> string" where
  "pct c = [CHR ''%'', hex_char (of_char c div 16), hex_char (of_char c mod 16)]"

definition percent_encode :: "(char \<Rightarrow> bool) \<Rightarrow> string \<Rightarrow> string" where
  "percent_encode keep s = concat (map (\<lambda>c. if keep c then [c] else pct c) s)"

fun percent_decode :: "string \<Rightarrow> string" where
  "percent_decode [] = []"
| "percent_decode [c] = [c]"
| "percent_decode [c, d] = [c, d]"
| "percent_decode (c # h # l # rest) =
     (if c = CHR ''%''
      then (case (hex_of h, hex_of l) of
              (Some a, Some b) \<Rightarrow> char_of (16 * a + b) # percent_decode rest
            | _ \<Rightarrow> c # percent_decode (h # l # rest))
      else c # percent_decode (h # l # rest))"

definition uri_keep :: "char \<Rightarrow> bool" where
  "uri_keep c \<longleftrightarrow> is_alnum c \<or> c \<in> set (''-_.!~*()'' @ [CHR 0x27])"

definition encodeURIComponent :: "string \<Rightarrow> string" where
  "encodeURIComponent = percent_encode uri_keep"

definition form_keep :: "char \<Rightarrow> bool" where
  "form_keep c \<longleftrightarrow> is_alnum c \<or> c \<in> set ''*-._''"

definition form_encode :: "string \<Rightarrow> string" where
  "form_encode s = concat (map (\<lambda>c. if c = CHR '' '' then ''+'' else if form_keep c then [c] else pct c) s)"

definition form_decode :: "string \<Rightarrow> string" where
  "form_decode s = percent_decode (map (\<lambda>c. if c = CHR ''+'' then CHR '' '' else c) s)"

section \<open>URLSearchParams\<close>

type_synonym search_params = "(string \<times> string) list"

fun params_set :: "string \<Rightarrow> string \<Rightarrow> search_params \<Rightarrow> search_params" where
  "params_set k v [] = [(k, v)]"
| "params_set k v ((k', v') # ps) =
     (if k' = k then (k, v) # filter (\<lambda>p. fst p \<noteq> k) ps else (k', v') # params_set k v ps)"

definition params_get :: "search_params \<Rightarrow> string \<Rightarrow> string option" where
  "params_get ps k = map_of ps k"

definition params_string :: "search_params \<Rightarrow> string" where
  "params_string ps = join_with ''&'' (map (\<lambda>(k, v). form_encode k @ ''='' @ form_encode v) ps)"

definition params_parse :: "string \<Rightarrow> search_params" where
  "params_parse query =
     (let q = (if query \<noteq> [] \<and> hd query = CHR ''?'' then tl query else query)
      in map (\<lambda>piece. case split_at CHR ''='' piece of
                 (k, v) \<Rightarrow> (form_decode k, form_decode (nullish v [])))
           (filter (\<lambda>piece. piece \<noteq> []) (split_all CHR ''&'' q)))"

section \<open>Round trips\<close>

lemma of_char_less: "(of_char c :: nat) < 256"
  by (metis char_of_char mod_less_divisor of_char_of zero_less_numeral)

lemma char_nibbles: "(of_char c :: nat) div 16 < 16" "(of_char c :: nat) mod 16 < 16"
  using of_char_less [of c] by (auto intro: less_mult_imp_div_less)

lemma hex_char_nat: "d < 16 \<Longrightarrow> (of_char (hex_char d) :: nat) = (if d < 10 then 48 + d else 55 + d)"
  by (simp add: hex_char_def)

lemma hex_of_hex_char: "d < 16 \<Longrightarrow> hex_of (hex_char d) = Some d"
  by (auto simp: hex_of_def Let_def hex_char_nat)

lemma hex_char_keep: "d < 16 \<Longrightarrow> is_alnum (hex_char d)"
  by (auto simp: is_alnum_def Let_def hex_char_nat)

lemma pct_decode: "percent_decode (pct c @ s) = c # percent_decode s"
  by (simp add: pct_def hex_of_hex_char char_nibbles)

lemma percent_decode_other: "c \<noteq> CHR ''%'' \<Longrightarrow> percent_decode (c # s) = c # percent_decode s"
proof (cases s)
  case (Cons h t)
  then show "c \<noteq> CHR ''%'' \<Longrightarrow> ?thesis" by (cases t) auto
qed simp

lemma percent_decode_encode:
  assumes "\<not> keep CHR ''%''"
  shows "percent_decode (percent_encode keep s) = s"
proof (induction s)
  case (Cons c s)
  show ?case
  proof (cases "keep c")
    case True
    with assms have "c \<noteq> CHR ''%''" by auto
    with True Cons show ?thesis by (simp add: percent_encode_def percent_decode_other)
  next
    case False
    with Cons show ?thesis by (simp add: percent_encode_def pct_decode)
  qed
qed (simp add: percent_encode_def)

lemma set_pct: "x \<in> set (pct c) \<Longrightarrow> x = CHR ''%'' \<or> is_alnum x"
  by (auto simp: pct_def hex_char_keep char_nibbles)

lemma set_percent_encode: "x \<in> set (percent_encode keep s) \<Longrightarrow> keep x \<or> x = CHR ''%'' \<or> is_alnum x"
  by (auto simp: percent_encode_def dest: set_pct split: if_splits)

lemma percent_not_alnum [simp]:
  "\<not> is_alnum CHR ''%''" "\<not> is_alnum CHR ''&''" "\<not> is_alnum CHR ''=''" "\<not> is_alnum CHR ''+''"
  "\<not> is_alnum CHR ''/''" "\<not> is_alnum CHR ''?''" "\<not> is_alnum CHR ''#''" "\<not> is_alnum CHR '' ''"
  by (simp_all add: is_alnum_def)

lemma form_encode_percent:
  "map (\<lambda>c. if c = CHR ''+'' then CHR '' '' else c) (form_encode s) =
     percent_encode (\<lambda>c. form_keep c \<or> c = CHR '' '') s"
proof -
  have id: "map (\<lambda>c. if c = CHR ''+'' then CHR '' '' else c) xs = xs" if "CHR ''+'' \<notin> set xs" for xs
    using that by (induction xs) auto
  have "CHR ''+'' \<notin> set (pct c)" for c using set_pct [of "CHR ''+''" c] by auto
  then show ?thesis
    by (induction s) (auto simp: form_encode_def percent_encode_def form_keep_def id)
qed

lemma form_decode_encode [simp]: "form_decode (form_encode s) = s"
  unfolding form_decode_def form_encode_percent
  by (rule percent_decode_encode) (simp add: form_keep_def)

lemma set_form_encode:
  "x \<in> set (form_encode s) \<Longrightarrow> is_alnum x \<or> x \<in> set ''*-._+%''"
  by (auto simp: form_encode_def form_keep_def dest: set_pct split: if_splits)

lemma form_encode_clean:
  "CHR ''&'' \<notin> set (form_encode s)" "CHR ''='' \<notin> set (form_encode s)" "CHR ''?'' \<notin> set (form_encode s)"
  "CHR ''#'' \<notin> set (form_encode s)"
  by (auto dest: set_form_encode)

lemma encodeURIComponent_clean:
  "CHR ''/'' \<notin> set (encodeURIComponent s)" "CHR ''?'' \<notin> set (encodeURIComponent s)"
  "CHR ''#'' \<notin> set (encodeURIComponent s)"
  by (auto simp: encodeURIComponent_def uri_keep_def dest!: set_percent_encode)

lemma decode_encodeURIComponent: "percent_decode (encodeURIComponent s) = s"
  unfolding encodeURIComponent_def by (rule percent_decode_encode) (simp add: uri_keep_def)

lemma encodeURIComponent_inj [simp]: "encodeURIComponent s = encodeURIComponent t \<longleftrightarrow> s = t"
  by (metis decode_encodeURIComponent)

lemma split_at_param: "split_at CHR ''='' (form_encode k @ ''='' @ form_encode v) = (form_encode k, Some (form_encode v))"
  by (simp add: split_at_append form_encode_clean)

lemma params_string_head: "params_string ps \<noteq> [] \<Longrightarrow> hd (params_string ps) \<noteq> CHR ''?''"
proof (cases ps)
  case (Cons p qs)
  obtain k v where p: "p = (k, v)" by (cases p)
  have "hd (form_encode k @ CHR ''='' # rest) \<noteq> CHR ''?''" for rest
    using form_encode_clean(3) [of k] by (cases "form_encode k") auto
  then show ?thesis
    by (cases qs) (auto simp: params_string_def Cons p)
qed (simp add: params_string_def)

lemma params_parse_string: "params_parse (params_string ps) = ps"
proof -
  let ?piece = "\<lambda>(k, v). form_encode k @ ''='' @ form_encode v"
  have parts: "split_all CHR ''&'' (params_string ps) = map ?piece ps" if "ps \<noteq> []"
    unfolding params_string_def using that
    by (intro split_all_join) (auto simp: form_encode_clean)
  have "filter (\<lambda>piece. piece \<noteq> []) (split_all CHR ''&'' (params_string ps)) = map ?piece ps"
    using parts by (cases "ps = []") (auto simp: params_string_def filter_id_conv)
  then show ?thesis
    using params_string_head [of ps]
    by (auto simp: params_parse_def Let_def comp_def split_beta split_at_param [simplified] intro!: map_idI)
qed

lemma params_string_Nil_iff [simp]: "params_string ps = [] \<longleftrightarrow> ps = []"
proof
  assume "params_string ps = []"
  then have "params_parse (params_string ps) = params_parse []" by simp
  then show "ps = []" by (simp add: params_parse_string) (simp add: params_parse_def)
qed (simp add: params_string_def)

lemma params_set_new: "k \<notin> fst ` set ps \<Longrightarrow> params_set k v ps = ps @ [(k, v)]"
  by (induction ps rule: params_set.induct) auto

lemma fold_params_set:
  assumes "distinct (map fst ps)" "fst ` set ps \<inter> fst ` set acc = {}"
  shows "fold (\<lambda>(k, v) ps. if v \<noteq> [] then params_set k v ps else ps) ps acc = acc @ filter (\<lambda>(k, v). v \<noteq> []) ps"
  using assms
proof (induction ps arbitrary: acc)
  case (Cons p ps)
  obtain k v where p: "p = (k, v)" by (cases p)
  have "fold (\<lambda>(k, v) ps. if v \<noteq> [] then params_set k v ps else ps) ps (if v \<noteq> [] then acc @ [(k, v)] else acc) =
      (if v \<noteq> [] then acc @ [(k, v)] else acc) @ filter (\<lambda>(k, v). v \<noteq> []) ps"
    using Cons.prems p by (intro Cons.IH) auto
  with Cons.prems p show ?case by (auto simp: params_set_new)
qed simp

lemma params_get_filled:
  assumes "distinct (map fst ps)" "(k, v) \<in> set ps"
  shows "params_get (filter (\<lambda>(k, v). v \<noteq> []) ps) k = (if v = [] then None else Some v)"
proof (cases "v = []")
  case True
  with assms have "k \<notin> fst ` set (filter (\<lambda>(k, v). v \<noteq> []) ps)" by (force dest: eq_key_imp_eq_value)
  with True show ?thesis unfolding params_get_def by (simp add: map_of_eq_None_iff)
next
  case False
  have "distinct (map fst (filter (\<lambda>(k, v). v \<noteq> []) ps))" using assms(1) by (simp add: distinct_map_filter)
  then show ?thesis using assms(2) False unfolding params_get_def by (simp add: map_of_is_SomeI)
qed
lemma params_get_set: "params_get (params_set k v ps) k' = (if k = k' then Some v else params_get ps k')"
proof -
  have "map_of (filter (\<lambda>p. fst p \<noteq> k) qs) k' = map_of qs k'" if "k \<noteq> k'" for qs :: search_params
    using that by (induction qs) auto
  then show ?thesis
    unfolding params_get_def by (induction k v ps rule: params_set.induct) auto
qed

lemma set_params_string: "x \<in> set (params_string ps) \<Longrightarrow> is_alnum x \<or> x \<in> set ''*-._+%&=''"
proof -
  have "set (join_with sep xs) \<subseteq> set sep \<union> \<Union> (set ` set xs)" for sep xs
    by (induction sep xs rule: join_with.induct) auto
  then show "x \<in> set (params_string ps) \<Longrightarrow> is_alnum x \<or> x \<in> set ''*-._+%&=''"
    unfolding params_string_def by (fastforce dest: set_form_encode)
qed

end
