(* ===== verification/ApiClient.thy ===== *)
theory ApiClient
  imports ApiContracts AdminTypes UrlCodec
begin

text \<open>
  The HTTP client of web/src/api.ts: its state (locale, CSRF token, the flag that an
  expired session was reported), the private \<open>request\<close>, the downloads, the realtime
  subscription, and every endpoint as the call it makes. A call is a path, the
  \<open>RequestInit\<close> passed to \<open>request\<close> and the validator of the payload; bodies are
  the JSON values that \<open>JSON.stringify\<close> prints. The network is the response that a
  completed \<open>fetch\<close> yields. Texts from i18next are the parameter \<open>httpError\<close>, and
  \<open>Number.prototype.toString\<close> on fractions is \<open>num_text\<close>. A \<open>code\<close> or \<open>error\<close>
  property that is not a string counts as absent, as its declared type says.
\<close>

section \<open>Requests and responses\<close>

record init_options =
  init_method :: "string option"
  init_headers :: "(string \<times> string) list"
  init_body :: "json option"

definition no_init :: init_options where
  "no_init = \<lparr>init_method = None, init_headers = [], init_body = None\<rparr>"

record api_call =
  call_path :: string
  call_init :: init_options
  call_validate :: "json \<Rightarrow> json js_result"

record http_request =
  hreq_url :: string
  hreq_method :: "string option"
  hreq_headers :: "(string \<times> string) list"
  hreq_body :: "json option"

record http_response =
  resp_status :: int
  resp_json :: "json option"

definition resp_ok :: "http_response \<Rightarrow> bool" where
  "resp_ok r \<longleftrightarrow> 200 \<le> resp_status r \<and> resp_status r \<le> 299"

record client =
  cl_locale :: Locale
  cl_unauthorizedNotified :: bool
  cl_csrfToken :: string

definition locale_string :: "Locale \<Rightarrow> string" where
  "locale_string l = (case l of Locale_ZhCN \<Rightarrow> ''zh-CN'' | Locale_EnUS \<Rightarrow> ''en-US'')"

definition new_client :: "Locale \<Rightarrow> client" where
  "new_client l = \<lparr>cl_locale = l, cl_unauthorizedNotified = False, cl_csrfToken = []\<rparr>"

definition csrf_header :: string where
  "csrf_header = ''X-CSRF-Token''"

definition confirm_header :: string where
  "confirm_header = ''X-Relay-Lifeline-Confirm''"

text \<open>Object spread of header records: a later key overwrites an earlier one.\<close>

definition headers_set :: "(string \<times> string) list \<Rightarrow> (string \<times> string) list \<Rightarrow> (string \<times> string) list" where
  "headers_set hs extra = fold (\<lambda>(k, v). map_set k v) extra hs"

definition mutates :: "init_options \<Rightarrow> bool" where
  "mutates init \<longleftrightarrow> init_method init \<noteq> None \<and> init_method init \<noteq> Some [] \<and> init_method init \<noteq> Some ''GET''"

definition build_request :: "client \<Rightarrow> api_call \<Rightarrow> http_request" where
  "build_request cl call =
     \<lparr>hreq_url = ''/admin/api'' @ call_path call,
      hreq_method = init_method (call_init call),
      hreq_headers = headers_set
        (headers_set [(''Accept-Language'', locale_string (cl_locale cl)), (''Content-Type'', ''application/json'')]
          (if mutates (call_init call) then [(csrf_header, cl_csrfToken cl)] else []))
        (init_headers (call_init call)),
      hreq_body = init_body (call_init call)\<rparr>"

section \<open>Completion\<close>

definition notifyUnauthorized :: "client \<Rightarrow> int \<Rightarrow> string \<Rightarrow> client \<times> string option" where
  "notifyUnauthorized cl status code =
     (if status \<noteq> 401 \<or> cl_unauthorizedNotified cl then (cl, None)
      else (cl\<lparr>cl_unauthorizedNotified := True\<rparr>, Some code))"

text \<open>Reading a property of the payload throws on \<open>null\<close> and gives \<open>undefined\<close> off an object.\<close>

definition payload_of :: "http_response \<Rightarrow> json" where
  "payload_of r = nullish (resp_json r) (JObj [])"

definition payload_prop :: "json \<Rightarrow> string \<Rightarrow> json option" where
  "payload_prop payload f = (case payload of JObj obj \<Rightarrow> prop_of obj f | _ \<Rightarrow> None)"

definition failure_code :: "http_response \<Rightarrow> string" where
  "failure_code r = json_string_or (payload_prop (payload_of r) ''code'') (''HTTP_'' @ int_string (resp_status r))"

definition failure_error :: "(int \<Rightarrow> string) \<Rightarrow> http_response \<Rightarrow> js_error" where
  "failure_error httpError r =
     ApiFailure \<lparr>ae_code = failure_code r,
       ae_message = json_string_or (payload_prop (payload_of r) ''error'') (httpError (resp_status r)),
       ae_details = payload_prop (payload_of r) ''details''\<rparr>"

text \<open>
  The failure branch shared by \<open>request\<close> and \<open>throwDownloadError\<close>: the new client, the
  code handed to \<open>onUnauthorized\<close> if it is called, and the error thrown.
\<close>

definition throwDownloadError ::
  "(int \<Rightarrow> string) \<Rightarrow> client \<Rightarrow> http_response \<Rightarrow> client \<times> string option \<times> js_error" where
  "throwDownloadError httpError cl r =
     (if payload_of r = JNull then (cl, None, PlainError ''TypeError'')
      else case notifyUnauthorized cl (resp_status r) (failure_code r) of
             (cl', note) \<Rightarrow> (cl', note, failure_error httpError r))"

definition request ::
  "(int \<Rightarrow> string) \<Rightarrow> client \<Rightarrow> api_call \<Rightarrow> http_response \<Rightarrow> client \<times> string option \<times> json js_result" where
  "request httpError cl call r =
     (if resp_ok r then (cl, None, call_validate call (payload_of r))
      else case throwDownloadError httpError cl r of (cl', note, e) \<Rightarrow> (cl', note, Inl e))"

section \<open>Validators\<close>

definition v_object :: "string \<Rightarrow> json \<Rightarrow> json js_result" where
  "v_object label v = map_sum id JObj (expectObject (Some v) label)"

definition v_array :: "string \<Rightarrow> json \<Rightarrow> json js_result" where
  "v_array label v = map_sum id JArr (expectArray (Some v) label)"

definition v_arrays :: "string \<Rightarrow> string list \<Rightarrow> json \<Rightarrow> json js_result" where
  "v_arrays label names v = map_sum id JObj (expectObjectArrays (Some v) label names)"

definition v_uncertain_preview :: "json \<Rightarrow> json js_result" where
  "v_uncertain_preview v = map_sum id JObj (expectUncertainPreview (Some v) ''uncertainPreview'')"

fun check_captures :: "nat \<Rightarrow> json list \<Rightarrow> json list js_result" where
  "check_captures i [] = Inr []"
| "check_captures i (v # vs) =
     bind_result (expectCaptureRecord (Some v) (''captures['' @ nat_string i @ '']'')) (\<lambda>obj.
     bind_result (check_captures (Suc i) vs) (\<lambda>rest. Inr (JObj obj # rest)))"

definition v_captures :: "json \<Rightarrow> json js_result" where
  "v_captures v = bind_result (expectArray (Some v) ''captures'') (\<lambda>xs. map_sum id JArr (check_captures 0 xs))"

definition v_capture_preview :: "json \<Rightarrow> json js_result" where
  "v_capture_preview v =
     bind_result (expectObject (Some v) ''capturePreview'') (\<lambda>preview.
     bind_result (expectCaptureRecord (prop_of preview ''record'') ''capturePreview.record'') (\<lambda>_.
     bind_result (expectArray (prop_of preview ''parts'') ''capturePreview.parts'') (\<lambda>_. Inr (JObj preview))))"

text \<open>\<open>${value}\<close> in a template string.\<close>

fun js_to_string :: "(rat \<Rightarrow> string) \<Rightarrow> json \<Rightarrow> string" where
  "js_to_string num_text JNull = ''null''"
| "js_to_string num_text (JBool b) = (if b then ''true'' else ''false'')"
| "js_to_string num_text (JNum r) = (if r = of_int \<lfloor>r\<rfloor> then int_string \<lfloor>r\<rfloor> else num_text r)"
| "js_to_string num_text (JStr s) = s"
| "js_to_string num_text (JArr xs) =
     join_with '','' (map (\<lambda>x. if x = JNull then [] else js_to_string num_text x) xs)"
| "js_to_string num_text (JObj obj) = ''[object Object]''"

definition v_config :: "(rat \<Rightarrow> string) \<Rightarrow> json \<Rightarrow> json js_result" where
  "v_config num_text v =
     bind_result (expectObject (Some v) ''config'') (\<lambda>config.
       if prop_of config ''schemaVersion'' \<noteq> Some (JNum 5)
       then Inl (ApiFailure \<lparr>ae_code = ''UNSUPPORTED_CONFIG_SCHEMA'',
              ae_message = ''Unsupported config schema '' @
                (case prop_of config ''schemaVersion'' of
                   None \<Rightarrow> ''undefined'' | Some x \<Rightarrow> js_to_string num_text x),
              ae_details = None\<rparr>)
       else map_sum id JObj (normalizeConfigCollections config))"

section \<open>Arguments\<close>

text \<open>\<open>Object.entries\<close> of a filter object; \<open>undefined\<close> is \<open>None\<close> and numbers are printed.\<close>

type_synonym filter_entries = "(string \<times> string option) list"

definition list_query :: "filter_entries \<Rightarrow> search_params" where
  "list_query filters =
     fold (\<lambda>(key, value) query.
       case value of None \<Rightarrow> query | Some v \<Rightarrow> if v = [] then query else params_set key v query) filters []"

definition window_string :: "MetricsWindow \<Rightarrow> string" where
  "window_string w = (case w of MetricsWindow_15m \<Rightarrow> ''15m'' | MetricsWindow_1h \<Rightarrow> ''1h''
     | MetricsWindow_6h \<Rightarrow> ''6h'' | MetricsWindow_24h \<Rightarrow> ''24h'')"

definition uncertain_action_string :: "UncertainResolutionAction \<Rightarrow> string" where
  "uncertain_action_string a = (case a of UncertainResolutionAction_ConfirmSuccess \<Rightarrow> ''confirm_success''
     | UncertainResolutionAction_Abandon \<Rightarrow> ''abandon''
     | UncertainResolutionAction_RequestCompensation \<Rightarrow> ''request_compensation'')"

definition uncertain_input_json :: "UncertainResolutionInput \<Rightarrow> json" where
  "uncertain_input_json input =
     JObj [(''action'', JStr (uncertain_action_string (uri_action input))),
           (''confirmationToken'', JStr (uri_confirmationToken input)),
           (''reason'', JStr (uri_reason input))]"

datatype repeat_action = Repeat_Pause | Repeat_Resume | Repeat_Run

definition repeat_action_string :: "repeat_action \<Rightarrow> string" where
  "repeat_action_string a =
     (case a of Repeat_Pause \<Rightarrow> ''pause'' | Repeat_Resume \<Rightarrow> ''resume'' | Repeat_Run \<Rightarrow> ''run'')"

definition props_set :: "json_object \<Rightarrow> json_object \<Rightarrow> json_object" where
  "props_set obj extra = fold (\<lambda>(k, v) o1. prop_set o1 k v) extra obj"

section \<open>Endpoints\<close>

definition api_session :: "api_call" where
  "api_session =
     \<lparr>call_path = ''/session'',
      call_init = no_init,
      call_validate = v_arrays ''session'' [''capabilities'']\<rparr>"

definition api_login :: "string \<Rightarrow> api_call" where
  "api_login key =
     \<lparr>call_path = ''/session/login'',
      call_init = \<lparr>init_method = Some ''POST'', init_headers = [],
        init_body = Some (JObj [(''key'', JStr key)])\<rparr>,
      call_validate = v_arrays ''session'' [''capabilities'']\<rparr>"

definition api_logout :: "api_call" where
  "api_logout =
     \<lparr>call_path = ''/session/logout'',
      call_init = \<lparr>init_method = Some ''POST'', init_headers = [],
        init_body = None\<rparr>,
      call_validate = Inr\<rparr>"

definition api_runtimeInfo :: "api_call" where
  "api_runtimeInfo =
     \<lparr>call_path = ''/meta'',
      call_init = no_init,
      call_validate = v_object ''meta''\<rparr>"

definition api_status :: "api_call" where
  "api_status =
     \<lparr>call_path = ''/status'',
      call_init = no_init,
      call_validate = v_arrays ''status'' [''requests'']\<rparr>"

definition api_healthSummary :: "api_call" where
  "api_healthSummary =
     \<lparr>call_path = ''/health/summary'',
      call_init = no_init,
      call_validate = v_arrays ''healthSummary'' [''components'']\<rparr>"

definition api_slo :: "api_call" where
  "api_slo =
     \<lparr>call_path = ''/slo'',
      call_init = no_init,
      call_validate = v_object ''slo''\<rparr>"

definition api_config :: "(rat \<Rightarrow> string) \<Rightarrow> api_call" where
  "api_config num_text =
     \<lparr>call_path = ''/config'',
      call_init = no_init,
      call_validate = v_config num_text\<rparr>"

definition api_loginOptions :: "api_call" where
  "api_loginOptions =
     \<lparr>call_path = ''/session/login-options'',
      call_init = no_init,
      call_validate = v_object ''loginOptions''\<rparr>"

definition api_alerts :: "api_call" where
  "api_alerts =
     \<lparr>call_path = ''/alerts'',
      call_init = no_init,
      call_validate = v_array ''alerts''\<rparr>"

definition api_notificationStatus :: "api_call" where
  "api_notificationStatus =
     \<lparr>call_path = ''/notifications/status'',
      call_init = no_init,
      call_validate = v_object ''notificationStatus''\<rparr>"

definition api_notificationDeliveries :: "int \<Rightarrow> api_call" where
  "api_notificationDeliveries limit =
     \<lparr>call_path = ''/notifications/deliveries?limit='' @ int_string limit,
      call_init = no_init,
      call_validate = v_array ''notificationDeliveries''\<rparr>"

definition api_testNotification :: "api_call" where
  "api_testNotification =
     \<lparr>call_path = ''/notifications/test'',
      call_init = \<lparr>init_method = Some ''POST'', init_headers = [],
        init_body = None\<rparr>,
      call_validate = v_object ''notificationTest''\<rparr>"

definition api_incidents :: "filter_entries \<Rightarrow> api_call" where
  "api_incidents filters =
     \<lparr>call_path = ''/incidents?'' @ params_string (list_query filters),
      call_init = no_init,
      call_validate = v_arrays ''incidents'' [''items'']\<rparr>"

definition api_incident :: "string \<Rightarrow> api_call" where
  "api_incident ident =
     \<lparr>call_path = ''/incidents/'' @ encodeURIComponent ident,
      call_init = no_init,
      call_validate = v_arrays ''incidentDetail'' [''requests'', ''timeline'']\<rparr>"

definition api_history :: "filter_entries \<Rightarrow> api_call" where
  "api_history filters =
     \<lparr>call_path = ''/history?'' @ params_string (list_query filters),
      call_init = no_init,
      call_validate = v_arrays ''history'' [''items'']\<rparr>"

definition api_metrics :: "MetricsWindow \<Rightarrow> api_call" where
  "api_metrics window =
     \<lparr>call_path = ''/metrics?window='' @ window_string window,
      call_init = no_init,
      call_validate = v_arrays ''metrics'' [''series'']\<rparr>"

definition api_metricErrors :: "MetricsWindow \<Rightarrow> api_call" where
  "api_metricErrors window =
     \<lparr>call_path = ''/metrics/errors?window='' @ window_string window,
      call_init = no_init,
      call_validate = v_arrays ''metricErrors'' [''categories'']\<rparr>"

definition api_events :: "int \<Rightarrow> int \<Rightarrow> api_call" where
  "api_events after limit =
     \<lparr>call_path = ''/events?after='' @ int_string after @ ''&limit='' @ int_string limit,
      call_init = no_init,
      call_validate = v_arrays ''events'' [''events'']\<rparr>"

definition api_runtimeLogs :: "filter_entries \<Rightarrow> api_call" where
  "api_runtimeLogs filters =
     \<lparr>call_path = ''/runtime-logs?'' @ params_string (list_query filters),
      call_init = no_init,
      call_validate = v_arrays ''runtimeLogs'' [''entries'']\<rparr>"

definition api_captureStatus :: "api_call" where
  "api_captureStatus =
     \<lparr>call_path = ''/capture/status'',
      call_init = no_init,
      call_validate = v_object ''captureStatus''\<rparr>"

definition api_captureKeyStatus :: "api_call" where
  "api_captureKeyStatus =
     \<lparr>call_path = ''/capture/keys'',
      call_init = no_init,
      call_validate = v_arrays ''captureKeys'' [''configured'']\<rparr>"

definition api_rewrapCaptureKeys :: "api_call" where
  "api_rewrapCaptureKeys =
     \<lparr>call_path = ''/capture/keys/rewrap'',
      call_init = \<lparr>init_method = Some ''POST'', init_headers = [],
        init_body = None\<rparr>,
      call_validate = v_object ''captureKeyRewrap''\<rparr>"

definition api_captures :: "api_call" where
  "api_captures =
     \<lparr>call_path = ''/captures'',
      call_init = no_init,
      call_validate = v_captures\<rparr>"

definition api_startCapture :: "int \<Rightarrow> string \<Rightarrow> api_call" where
  "api_startCapture requestLimit activationTimeout =
     \<lparr>call_path = ''/capture/start'',
      call_init = \<lparr>init_method = Some ''POST'', init_headers = [],
        init_body = Some (JObj [(''requestLimit'', JNum (of_int requestLimit)), (''activationTimeout'', JStr activationTimeout)])\<rparr>,
      call_validate = v_object ''captureStart''\<rparr>"

definition api_stopCapture :: "api_call" where
  "api_stopCapture =
     \<lparr>call_path = ''/capture/stop'',
      call_init = \<lparr>init_method = Some ''POST'', init_headers = [],
        init_body = None\<rparr>,
      call_validate = v_object ''captureStop''\<rparr>"

definition api_capturePreview :: "string \<Rightarrow> api_call" where
  "api_capturePreview ident =
     \<lparr>call_path = ''/captures/'' @ encodeURIComponent ident @ ''/preview'',
      call_init = no_init,
      call_validate = v_capture_preview\<rparr>"

definition api_deleteCapture :: "string \<Rightarrow> api_call" where
  "api_deleteCapture ident =
     \<lparr>call_path = ''/captures/'' @ encodeURIComponent ident,
      call_init = \<lparr>init_method = Some ''DELETE'', init_headers = [],
        init_body = None\<rparr>,
      call_validate = Inr\<rparr>"

definition api_deleteExpiredCaptures :: "api_call" where
  "api_deleteExpiredCaptures =
     \<lparr>call_path = ''/captures/expired'',
      call_init = \<lparr>init_method = Some ''DELETE'', init_headers = [],
        init_body = None\<rparr>,
      call_validate = Inr\<rparr>"

definition api_timeline :: "string \<Rightarrow> api_call" where
  "api_timeline ident =
     \<lparr>call_path = ''/requests/'' @ encodeURIComponent ident @ ''/timeline'',
      call_init = no_init,
      call_validate = Inr\<rparr>"

definition api_runDiagnostics :: "api_call" where
  "api_runDiagnostics =
     \<lparr>call_path = ''/diagnostics/run'',
      call_init = \<lparr>init_method = Some ''POST'', init_headers = [],
        init_body = None\<rparr>,
      call_validate = Inr\<rparr>"

definition api_validateConfig :: "json \<Rightarrow> api_call" where
  "api_validateConfig config =
     \<lparr>call_path = ''/config/validate'',
      call_init = \<lparr>init_method = Some ''POST'', init_headers = [],
        init_body = Some (config)\<rparr>,
      call_validate = v_arrays ''configPlan'' [''changedSections'', ''hotReloadSections'', ''restartSections'']\<rparr>"

definition api_configState :: "api_call" where
  "api_configState =
     \<lparr>call_path = ''/config/state'',
      call_init = no_init,
      call_validate = v_object ''configState''\<rparr>"

definition api_configVersions :: "api_call" where
  "api_configVersions =
     \<lparr>call_path = ''/config/backups'',
      call_init = no_init,
      call_validate = v_arrays ''configVersions'' [''items'']\<rparr>"

definition api_rollbackConfig :: "ConfigVersion \<Rightarrow> bool \<Rightarrow> api_call" where
  "api_rollbackConfig version authenticationChange =
     \<lparr>call_path = ''/config/backups/'' @ encodeURIComponent (cver_name version) @ ''/rollback'',
      call_init = \<lparr>init_method = Some ''POST'', init_headers = [(confirm_header, if authenticationChange then ''rollback-config-auth'' else ''rollback-config'')],
        init_body = Some (JObj (case cver_sha256 version of None \<Rightarrow> [] | Some s \<Rightarrow> [(''sha256'', JStr s)]))\<rparr>,
      call_validate = v_object ''configRollback''\<rparr>"

definition api_upstreamStatus :: "api_call" where
  "api_upstreamStatus =
     \<lparr>call_path = ''/upstreams/status'',
      call_init = no_init,
      call_validate = v_arrays ''upstreamStatus'' [''targets'']\<rparr>"

definition api_governanceStatus :: "api_call" where
  "api_governanceStatus =
     \<lparr>call_path = ''/governance/status'',
      call_init = no_init,
      call_validate = v_arrays ''governanceStatus'' [''entries'']\<rparr>"

definition api_telemetryStatus :: "api_call" where
  "api_telemetryStatus =
     \<lparr>call_path = ''/telemetry/status'',
      call_init = no_init,
      call_validate = v_object ''telemetryStatus''\<rparr>"

definition api_policyStatus :: "int \<Rightarrow> api_call" where
  "api_policyStatus limit =
     \<lparr>call_path = ''/policies/status?limit='' @ int_string limit,
      call_init = no_init,
      call_validate = v_arrays ''policyStatus'' [''recent'']\<rparr>"

definition api_policyReleases :: "api_call" where
  "api_policyReleases =
     \<lparr>call_path = ''/policies/releases'',
      call_init = no_init,
      call_validate = v_arrays ''policyReleases'' [''history'']\<rparr>"

definition api_savePolicyDraft :: "json \<Rightarrow> string \<Rightarrow> api_call" where
  "api_savePolicyDraft policy draftRevision =
     \<lparr>call_path = ''/policies/draft'',
      call_init = \<lparr>init_method = Some ''PUT'', init_headers = [],
        init_body = Some (JObj [(''policy'', policy), (''draftRevision'', JStr draftRevision)])\<rparr>,
      call_validate = v_object ''policyDraft''\<rparr>"

definition api_publishPolicy :: "json \<Rightarrow> api_call" where
  "api_publishPolicy input =
     \<lparr>call_path = ''/policies/publish'',
      call_init = \<lparr>init_method = Some ''POST'', init_headers = [],
        init_body = Some (input)\<rparr>,
      call_validate = v_object ''policyPublish''\<rparr>"

definition api_rollbackPolicy :: "string \<Rightarrow> string \<Rightarrow> api_call" where
  "api_rollbackPolicy configRevision policyRevision =
     \<lparr>call_path = ''/policies/rollback'',
      call_init = \<lparr>init_method = Some ''POST'', init_headers = [],
        init_body = Some (JObj [(''configRevision'', JStr configRevision), (''policyRevision'', JStr policyRevision)])\<rparr>,
      call_validate = v_object ''policyRollback''\<rparr>"

definition api_simulatePolicy :: "json \<Rightarrow> bool \<Rightarrow> api_call" where
  "api_simulatePolicy input draft =
     \<lparr>call_path = ''/policies/simulate'' @ (if draft then ''?source=draft'' else []),
      call_init = \<lparr>init_method = Some ''POST'', init_headers = [],
        init_body = Some (input)\<rparr>,
      call_validate = v_object ''policyDecision''\<rparr>"

definition api_replayPolicy :: "json \<Rightarrow> api_call" where
  "api_replayPolicy input =
     \<lparr>call_path = ''/policies/replay'',
      call_init = \<lparr>init_method = Some ''POST'', init_headers = [],
        init_body = Some (input)\<rparr>,
      call_validate = v_object ''policyReplay''\<rparr>"

definition api_saveConfig :: "json \<Rightarrow> bool \<Rightarrow> api_call" where
  "api_saveConfig config confirmAuthentication =
     \<lparr>call_path = ''/config'',
      call_init = \<lparr>init_method = Some ''PUT'', init_headers = (if confirmAuthentication then [(confirm_header, ''change-management-auth'')] else []),
        init_body = Some (config)\<rparr>,
      call_validate = v_arrays ''configSave'' [''changedSections'', ''hotReloadSections'', ''restartSections'']\<rparr>"

definition api_reloadConfig :: "api_call" where
  "api_reloadConfig =
     \<lparr>call_path = ''/config/reload'',
      call_init = \<lparr>init_method = Some ''POST'', init_headers = [],
        init_body = None\<rparr>,
      call_validate = Inr\<rparr>"

definition api_pause :: "api_call" where
  "api_pause =
     \<lparr>call_path = ''/control/pause'',
      call_init = \<lparr>init_method = Some ''POST'', init_headers = [],
        init_body = None\<rparr>,
      call_validate = Inr\<rparr>"

definition api_resume :: "api_call" where
  "api_resume =
     \<lparr>call_path = ''/control/resume'',
      call_init = \<lparr>init_method = Some ''POST'', init_headers = [],
        init_body = None\<rparr>,
      call_validate = Inr\<rparr>"

definition api_drain :: "api_call" where
  "api_drain =
     \<lparr>call_path = ''/control/drain'',
      call_init = \<lparr>init_method = Some ''POST'', init_headers = [],
        init_body = None\<rparr>,
      call_validate = Inr\<rparr>"

definition api_maintenance :: "api_call" where
  "api_maintenance =
     \<lparr>call_path = ''/control/maintenance'',
      call_init = \<lparr>init_method = Some ''POST'', init_headers = [],
        init_body = None\<rparr>,
      call_validate = Inr\<rparr>"

definition api_previewUncertainResolution :: "string \<Rightarrow> UncertainResolutionAction \<Rightarrow> api_call" where
  "api_previewUncertainResolution ident action =
     \<lparr>call_path = ''/requests/'' @ encodeURIComponent ident @ ''/uncertain/preview'',
      call_init = \<lparr>init_method = Some ''POST'', init_headers = [],
        init_body = Some (JObj [(''action'', JStr (uncertain_action_string action))])\<rparr>,
      call_validate = v_uncertain_preview\<rparr>"

definition api_resolveUncertain :: "string \<Rightarrow> UncertainResolutionInput \<Rightarrow> api_call" where
  "api_resolveUncertain ident input =
     \<lparr>call_path = ''/requests/'' @ encodeURIComponent ident @ ''/uncertain/resolve'',
      call_init = \<lparr>init_method = Some ''POST'', init_headers = [],
        init_body = Some (uncertain_input_json input)\<rparr>,
      call_validate = v_object ''uncertainResolution''\<rparr>"

definition api_retry :: "string \<Rightarrow> bool \<Rightarrow> api_call" where
  "api_retry ident allowUncertain =
     \<lparr>call_path = ''/requests/'' @ encodeURIComponent ident @ ''/retry'',
      call_init = \<lparr>init_method = Some ''POST'', init_headers = [],
        init_body = if allowUncertain then Some (JObj [(''allowUncertain'', JBool True)]) else None\<rparr>,
      call_validate = Inr\<rparr>"

definition api_batchRetry :: "string list \<Rightarrow> bool \<Rightarrow> api_call" where
  "api_batchRetry requestIds allowUncertain =
     \<lparr>call_path = ''/requests/batch/retry'',
      call_init = \<lparr>init_method = Some ''POST'', init_headers = [],
        init_body = Some (JObj [(''requestIds'', JArr (map JStr requestIds)), (''allowUncertain'', JBool allowUncertain)])\<rparr>,
      call_validate = v_arrays ''batchRetry'' [''results'']\<rparr>"

definition api_setRetryPolicy :: "string \<Rightarrow> json_object \<Rightarrow> bool \<Rightarrow> api_call" where
  "api_setRetryPolicy ident policy overwrite =
     \<lparr>call_path = ''/requests/'' @ encodeURIComponent ident @ ''/retry-policy'',
      call_init = \<lparr>init_method = Some ''POST'', init_headers = [],
        init_body = Some (JObj (prop_set policy ''overwrite'' (JBool overwrite)))\<rparr>,
      call_validate = Inr\<rparr>"

definition api_clearRetryPolicy :: "string \<Rightarrow> api_call" where
  "api_clearRetryPolicy ident =
     \<lparr>call_path = ''/requests/'' @ encodeURIComponent ident @ ''/retry-policy'',
      call_init = \<lparr>init_method = Some ''DELETE'', init_headers = [],
        init_body = None\<rparr>,
      call_validate = Inr\<rparr>"

definition api_batchRetryPolicy :: "string list \<Rightarrow> json_object \<Rightarrow> api_call" where
  "api_batchRetryPolicy requestIds input =
     \<lparr>call_path = ''/requests/batch/retry-policy'',
      call_init = \<lparr>init_method = Some ''POST'', init_headers = [],
        init_body = Some (JObj (props_set [(''requestIds'', JArr (map JStr requestIds))] input))\<rparr>,
      call_validate = v_arrays ''batchRetryPolicy'' [''results'']\<rparr>"

definition api_repeatTasks :: "api_call" where
  "api_repeatTasks =
     \<lparr>call_path = ''/repeat-tasks'',
      call_init = no_init,
      call_validate = v_array ''repeatTasks''\<rparr>"

definition api_createRepeatTask :: "string \<Rightarrow> json \<Rightarrow> api_call" where
  "api_createRepeatTask ident input =
     \<lparr>call_path = ''/requests/'' @ encodeURIComponent ident @ ''/repeat'',
      call_init = \<lparr>init_method = Some ''POST'', init_headers = [],
        init_body = Some (input)\<rparr>,
      call_validate = v_object ''repeatTask''\<rparr>"

definition api_repeatTaskAction :: "string \<Rightarrow> repeat_action \<Rightarrow> api_call" where
  "api_repeatTaskAction ident action =
     \<lparr>call_path = ''/repeat-tasks/'' @ encodeURIComponent ident @ ''/'' @ repeat_action_string action,
      call_init = \<lparr>init_method = Some ''POST'', init_headers = [],
        init_body = None\<rparr>,
      call_validate = v_object ''repeatTask''\<rparr>"

definition api_stopRepeatTask :: "string \<Rightarrow> api_call" where
  "api_stopRepeatTask ident =
     \<lparr>call_path = ''/repeat-tasks/'' @ encodeURIComponent ident,
      call_init = \<lparr>init_method = Some ''DELETE'', init_headers = [],
        init_body = None\<rparr>,
      call_validate = v_object ''repeatTask''\<rparr>"

definition api_cancel :: "string \<Rightarrow> api_call" where
  "api_cancel ident =
     \<lparr>call_path = ''/requests/'' @ encodeURIComponent ident,
      call_init = \<lparr>init_method = Some ''DELETE'', init_headers = [],
        init_body = None\<rparr>,
      call_validate = Inr\<rparr>"

text \<open>The overloads and aliases of the uncertain-delivery calls.\<close>

definition api_resolveUncertain_args ::
  "string \<Rightarrow> UncertainResolutionAction \<Rightarrow> string option \<Rightarrow> string option \<Rightarrow> api_call" where
  "api_resolveUncertain_args ident action confirmationToken reason =
     api_resolveUncertain ident \<lparr>uri_action = action, uri_confirmationToken = or_string confirmationToken [],
       uri_reason = or_string reason []\<rparr>"

definition api_resolveUncertainDelivery :: "string \<Rightarrow> UncertainResolutionInput \<Rightarrow> api_call" where
  "api_resolveUncertainDelivery ident input = api_resolveUncertain ident input"

definition api_previewUncertain :: "string \<Rightarrow> UncertainResolutionAction \<Rightarrow> api_call" where
  "api_previewUncertain ident action = api_previewUncertainResolution ident action"

definition api_previewUncertainDelivery :: "string \<Rightarrow> UncertainResolutionAction \<Rightarrow> api_call" where
  "api_previewUncertainDelivery ident action = api_previewUncertainResolution ident action"

section \<open>Sessions, downloads and the realtime stream\<close>

text \<open>\<open>session()\<close> stores the token of a valid payload; \<open>login\<close> also re-arms the notification.\<close>

definition token_of :: "json \<Rightarrow> string" where
  "token_of v = json_string_or (payload_prop v ''csrfToken'') []"

definition session_done ::
  "(int \<Rightarrow> string) \<Rightarrow> client \<Rightarrow> http_response \<Rightarrow> client \<times> string option \<times> json js_result" where
  "session_done httpError cl r =
     (case request httpError cl api_session r of
        (cl', note, Inr v) \<Rightarrow> (cl'\<lparr>cl_csrfToken := token_of v\<rparr>, note, Inr v)
      | (cl', note, Inl e) \<Rightarrow> (cl', note, Inl e))"

definition login_done ::
  "(int \<Rightarrow> string) \<Rightarrow> client \<Rightarrow> string \<Rightarrow> http_response \<Rightarrow> client \<times> string option \<times> json js_result" where
  "login_done httpError cl key r =
     (case request httpError cl (api_login key) r of
        (cl', note, Inr v) \<Rightarrow> (cl'\<lparr>cl_csrfToken := token_of v, cl_unauthorizedNotified := False\<rparr>, note, Inr v)
      | (cl', note, Inl e) \<Rightarrow> (cl', note, Inl e))"

record download_request =
  dl_url :: string
  dl_headers :: "(string \<times> string) list"
  dl_filename :: string

definition download :: "client \<Rightarrow> string \<Rightarrow> string \<Rightarrow> (string \<times> string) list \<Rightarrow> download_request" where
  "download cl path filename extraHeaders =
     \<lparr>dl_url = ''/admin/api'' @ path,
      dl_headers = headers_set [(''Accept-Language'', locale_string (cl_locale cl))] extraHeaders,
      dl_filename = filename\<rparr>"

definition download_done ::
  "(int \<Rightarrow> string) \<Rightarrow> client \<Rightarrow> download_request \<Rightarrow> http_response \<Rightarrow> client \<times> string option \<times> string js_result" where
  "download_done httpError cl d r =
     (if resp_ok r then (cl, None, Inr (dl_filename d))
      else case throwDownloadError httpError cl r of (cl', note, e) \<Rightarrow> (cl', note, Inl e))"

definition downloadDiagnostics :: "client \<Rightarrow> download_request" where
  "downloadDiagnostics cl =
     \<lparr>dl_url = ''/admin/api/diagnostics/export'',
      dl_headers = [(''Accept-Language'', locale_string (cl_locale cl))],
      dl_filename = ''relay-lifeline-diagnostics.zip''\<rparr>"

definition downloadRuntimeLogs :: "client \<Rightarrow> download_request" where
  "downloadRuntimeLogs cl = download cl ''/runtime-logs/export'' ''relay-lifeline-runtime-logs.json'' []"

definition downloadCapture :: "client \<Rightarrow> string \<Rightarrow> bool \<Rightarrow> download_request" where
  "downloadCapture cl ident raw =
     (let mode = (if raw then ''raw'' else ''filtered'') in
      download cl (''/captures/'' @ encodeURIComponent ident @ ''/download?mode='' @ mode)
        (''relay-lifeline-capture-'' @ ident @ ''-'' @ mode @ ''.zip'')
        (if raw then [(confirm_header, ''download-sensitive'')] else []))"

definition oidcLogin :: string where
  "oidcLogin = ''/admin/api/session/oidc/start''"

definition subscribe_url :: "client \<Rightarrow> string" where
  "subscribe_url cl = ''/admin/api/stream?locale='' @ encodeURIComponent (locale_string (cl_locale cl))"

text \<open>
  \<open>receive\<close>: the message data parsed by \<open>JSON.parse\<close> (\<open>None\<close> when it throws); the event is
  delivered, or \<open>onError\<close> is called.
\<close>

datatype delivery = Deliver json_object | StreamError

definition is_safe_integer :: "json option \<Rightarrow> bool" where
  "is_safe_integer v \<longleftrightarrow>
     (case v of Some (JNum r) \<Rightarrow> r = of_int \<lfloor>r\<rfloor> \<and> \<bar>\<lfloor>r\<rfloor>\<bar> \<le> 2 ^ 53 - 1 | _ \<Rightarrow> False)"

definition receive :: "json option \<Rightarrow> delivery" where
  "receive data =
     (case data of
        None \<Rightarrow> StreamError
      | Some v \<Rightarrow>
          (case expectObject (Some v) ''realtimeEvent'' of
             Inl _ \<Rightarrow> StreamError
           | Inr event \<Rightarrow>
               if prop_of event ''version'' \<noteq> Some (JNum 1) \<or> \<not> is_safe_integer (prop_of event ''sequence'') \<or>
                  \<not> is_text (prop_of event ''type'')
               then StreamError else Deliver event))"

section \<open>The calls of the client\<close>

inductive client_call :: "api_call \<Rightarrow> bool" where
  api_session_call: "client_call api_session"
| api_login_call: "client_call (api_login a0)"
| api_logout_call: "client_call api_logout"
| api_runtimeInfo_call: "client_call api_runtimeInfo"
| api_status_call: "client_call api_status"
| api_healthSummary_call: "client_call api_healthSummary"
| api_slo_call: "client_call api_slo"
| api_config_call: "client_call (api_config a0)"
| api_loginOptions_call: "client_call api_loginOptions"
| api_alerts_call: "client_call api_alerts"
| api_notificationStatus_call: "client_call api_notificationStatus"
| api_notificationDeliveries_call: "client_call (api_notificationDeliveries a0)"
| api_testNotification_call: "client_call api_testNotification"
| api_incidents_call: "client_call (api_incidents a0)"
| api_incident_call: "client_call (api_incident a0)"
| api_history_call: "client_call (api_history a0)"
| api_metrics_call: "client_call (api_metrics a0)"
| api_metricErrors_call: "client_call (api_metricErrors a0)"
| api_events_call: "client_call (api_events a0 b1)"
| api_runtimeLogs_call: "client_call (api_runtimeLogs a0)"
| api_captureStatus_call: "client_call api_captureStatus"
| api_captureKeyStatus_call: "client_call api_captureKeyStatus"
| api_rewrapCaptureKeys_call: "client_call api_rewrapCaptureKeys"
| api_captures_call: "client_call api_captures"
| api_startCapture_call: "client_call (api_startCapture a0 b1)"
| api_stopCapture_call: "client_call api_stopCapture"
| api_capturePreview_call: "client_call (api_capturePreview a0)"
| api_deleteCapture_call: "client_call (api_deleteCapture a0)"
| api_deleteExpiredCaptures_call: "client_call api_deleteExpiredCaptures"
| api_timeline_call: "client_call (api_timeline a0)"
| api_runDiagnostics_call: "client_call api_runDiagnostics"
| api_validateConfig_call: "client_call (api_validateConfig a0)"
| api_configState_call: "client_call api_configState"
| api_configVersions_call: "client_call api_configVersions"
| api_rollbackConfig_call: "client_call (api_rollbackConfig a0 b1)"
| api_upstreamStatus_call: "client_call api_upstreamStatus"
| api_governanceStatus_call: "client_call api_governanceStatus"
| api_telemetryStatus_call: "client_call api_telemetryStatus"
| api_policyStatus_call: "client_call (api_policyStatus a0)"
| api_policyReleases_call: "client_call api_policyReleases"
| api_savePolicyDraft_call: "client_call (api_savePolicyDraft a0 b1)"
| api_publishPolicy_call: "client_call (api_publishPolicy a0)"
| api_rollbackPolicy_call: "client_call (api_rollbackPolicy a0 b1)"
| api_simulatePolicy_call: "client_call (api_simulatePolicy a0 b1)"
| api_replayPolicy_call: "client_call (api_replayPolicy a0)"
| api_saveConfig_call: "client_call (api_saveConfig a0 b1)"
| api_reloadConfig_call: "client_call api_reloadConfig"
| api_pause_call: "client_call api_pause"
| api_resume_call: "client_call api_resume"
| api_drain_call: "client_call api_drain"
| api_maintenance_call: "client_call api_maintenance"
| api_previewUncertainResolution_call: "client_call (api_previewUncertainResolution a0 b1)"
| api_resolveUncertain_call: "client_call (api_resolveUncertain a0 b1)"
| api_retry_call: "client_call (api_retry a0 b1)"
| api_batchRetry_call: "client_call (api_batchRetry a0 b1)"
| api_setRetryPolicy_call: "client_call (api_setRetryPolicy a0 b1 c2)"
| api_clearRetryPolicy_call: "client_call (api_clearRetryPolicy a0)"
| api_batchRetryPolicy_call: "client_call (api_batchRetryPolicy a0 b1)"
| api_repeatTasks_call: "client_call api_repeatTasks"
| api_createRepeatTask_call: "client_call (api_createRepeatTask a0 b1)"
| api_repeatTaskAction_call: "client_call (api_repeatTaskAction a0 b1)"
| api_stopRepeatTask_call: "client_call (api_stopRepeatTask a0)"
| api_cancel_call: "client_call (api_cancel a0)"

lemmas api_defs =
  api_session_def api_login_def api_logout_def api_runtimeInfo_def api_status_def
  api_healthSummary_def api_slo_def api_config_def api_loginOptions_def api_alerts_def
  api_notificationStatus_def api_notificationDeliveries_def api_testNotification_def
  api_incidents_def api_incident_def api_history_def api_metrics_def api_metricErrors_def
  api_events_def api_runtimeLogs_def api_captureStatus_def api_captureKeyStatus_def
  api_rewrapCaptureKeys_def api_captures_def api_startCapture_def api_stopCapture_def
  api_capturePreview_def api_deleteCapture_def api_deleteExpiredCaptures_def api_timeline_def
  api_runDiagnostics_def api_validateConfig_def api_configState_def api_configVersions_def
  api_rollbackConfig_def api_upstreamStatus_def api_governanceStatus_def api_telemetryStatus_def
  api_policyStatus_def api_policyReleases_def api_savePolicyDraft_def api_publishPolicy_def
  api_rollbackPolicy_def api_simulatePolicy_def api_replayPolicy_def api_saveConfig_def
  api_reloadConfig_def api_pause_def api_resume_def api_drain_def api_maintenance_def
  api_previewUncertainResolution_def api_resolveUncertain_def api_retry_def api_batchRetry_def
  api_setRetryPolicy_def api_clearRetryPolicy_def api_batchRetryPolicy_def api_repeatTasks_def
  api_createRepeatTask_def api_repeatTaskAction_def api_stopRepeatTask_def api_cancel_def

lemma map_of_headers_set:
  "k \<notin> fst ` set extra \<Longrightarrow> map_of (headers_set hs extra) k = map_of hs k"
proof -
  have "k \<notin> fst ` set extra \<Longrightarrow> map_of (fold (\<lambda>(k, v). map_set k v) extra hs) k = map_of hs k"
    by (induction extra arbitrary: hs) (auto simp: map_of_map_set)
  then show "k \<notin> fst ` set extra \<Longrightarrow> map_of (headers_set hs extra) k = map_of hs k"
    by (simp add: headers_set_def)
qed

lemma client_call_init:
  assumes "client_call c"
  shows "csrf_header \<notin> fst ` set (init_headers (call_init c)) \<and>
    ''Accept-Language'' \<notin> fst ` set (init_headers (call_init c)) \<and>
    (init_method (call_init c) = None \<or> init_method (call_init c) = Some ''POST'' \<or>
     init_method (call_init c) = Some ''PUT'' \<or> init_method (call_init c) = Some ''DELETE'')"
  using assms
proof cases
  case (api_saveConfig_call config confirm)
  then show ?thesis
    by (cases confirm) (simp_all add: api_saveConfig_def csrf_header_def confirm_header_def)
qed (simp_all add: api_defs no_init_def csrf_header_def confirm_header_def)

lemma map_sum_Inr: "map_sum f g s = Inr y \<longleftrightarrow> (\<exists>x. s = Inr x \<and> y = g x)"
  by (cases s) auto

lemma v_object_same: "v_object label v = Inr w \<Longrightarrow> w = v"
  by (auto simp: v_object_def map_sum_Inr)

lemma v_array_same: "v_array label v = Inr w \<Longrightarrow> w = v"
  by (auto simp: v_array_def map_sum_Inr)

lemma v_arrays_same: "v_arrays label names v = Inr w \<Longrightarrow> w = v"
  by (auto simp: v_arrays_def map_sum_Inr expectObjectArrays_def split: sum.splits)

lemma v_uncertain_preview_same: "v_uncertain_preview v = Inr w \<Longrightarrow> w = v"
  by (auto simp: v_uncertain_preview_def map_sum_Inr expectUncertainPreview_def split: sum.splits if_splits)

lemma expectCaptureRecord_Inr: "expectCaptureRecord v label = Inr obj \<Longrightarrow> v = Some (JObj obj)"
  by (auto simp: expectCaptureRecord_def split: sum.splits)

lemma check_captures_same: "check_captures i vs = Inr ws \<Longrightarrow> ws = vs"
  by (induction i vs arbitrary: ws rule: check_captures.induct)
     (auto simp: bind_result_Inr dest: expectCaptureRecord_Inr)

lemma v_captures_same: "v_captures v = Inr w \<Longrightarrow> w = v"
  by (auto simp: v_captures_def bind_result_Inr map_sum_Inr dest: check_captures_same)

lemma v_capture_preview_same: "v_capture_preview v = Inr w \<Longrightarrow> w = v"
  by (auto simp: v_capture_preview_def bind_result_Inr)

lemmas validators_same =
  v_object_same v_array_same v_arrays_same v_uncertain_preview_same v_captures_same v_capture_preview_same

lemma split_segments:
  "CHR ''/'' \<notin> set a \<Longrightarrow> split_all CHR ''/'' (a @ CHR ''/'' # b) = a # split_all CHR ''/'' b"
  by (rule split_all_append)

lemmas segment_simps = split_segments split_all_absent encodeURIComponent_clean

lemma list_query_entries:
  assumes "distinct (map fst filters)"
  shows "list_query filters = [(k, v). (k, Some v) \<leftarrow> filters, v \<noteq> []]"
proof -
  let ?add = "\<lambda>(key, value) query.
       case value of None \<Rightarrow> query | Some v \<Rightarrow> if v = [] then query else params_set key v query"
  have "fold ?add fs ps = ps @ [(k, v). (k, Some v) \<leftarrow> fs, v \<noteq> []]"
    if "distinct (map fst fs)" "fst ` set fs \<inter> fst ` set ps = {}" for fs :: filter_entries and ps
    using that
  proof (induction fs arbitrary: ps)
    case (Cons f fs)
    obtain k v where f: "f = (k, v)" by (cases f)
    have add: "?add f ps = ps @ (case v of None \<Rightarrow> [] | Some x \<Rightarrow> if x = [] then [] else [(k, x)])"
      using Cons.prems(2) by (auto simp: f params_set_new split: option.splits)
    have "fold ?add (f # fs) ps = fold ?add fs (?add f ps)" by simp
    also have "\<dots> = ?add f ps @ [(k, v). (k, Some v) \<leftarrow> fs, v \<noteq> []]"
      unfolding add using Cons.prems by (intro Cons.IH) (auto simp: f rev_image_eqI split: option.splits if_splits)
    also note add
    finally show ?case by (simp add: f split: option.splits)
  qed simp
  from this [of filters "[]"] assms show ?thesis by (simp add: list_query_def)
qed

section \<open>Sequences of completed calls\<close>

datatype client_event =
    Completed api_call http_response
  | SessionRead http_response
  | LoginTried string http_response
  | DownloadTried download_request http_response

fun client_step :: "(int \<Rightarrow> string) \<Rightarrow> client \<Rightarrow> client_event \<Rightarrow> client \<times> string option" where
  "client_step he cl (Completed call r) = (case request he cl call r of (cl', note, _) \<Rightarrow> (cl', note))"
| "client_step he cl (SessionRead r) = (case session_done he cl r of (cl', note, _) \<Rightarrow> (cl', note))"
| "client_step he cl (LoginTried key r) = (case login_done he cl key r of (cl', note, _) \<Rightarrow> (cl', note))"
| "client_step he cl (DownloadTried d r) = (case download_done he cl d r of (cl', note, _) \<Rightarrow> (cl', note))"

text \<open>The client after the events and the codes passed to \<open>onUnauthorized\<close> on the way.\<close>

fun client_run :: "(int \<Rightarrow> string) \<Rightarrow> client \<Rightarrow> client_event list \<Rightarrow> client \<times> string list" where
  "client_run he cl [] = (cl, [])"
| "client_run he cl (ev # evs) =
     (case client_step he cl ev of (cl', note) \<Rightarrow>
        (case client_run he cl' evs of (cl'', notes) \<Rightarrow>
           (cl'', (case note of None \<Rightarrow> notes | Some c \<Rightarrow> c # notes))))"

fun event_response :: "client_event \<Rightarrow> http_response" where
  "event_response (Completed call r) = r"
| "event_response (SessionRead r) = r"
| "event_response (LoginTried key r) = r"
| "event_response (DownloadTried d r) = r"

definition login_succeeds :: "client_event \<Rightarrow> bool" where
  "login_succeeds ev \<longleftrightarrow>
     (case ev of
        LoginTried key r \<Rightarrow> resp_ok r \<and> isl (v_arrays ''session'' [''capabilities''] (payload_of r)) = False
      | _ \<Rightarrow> False)"

definition denied :: "http_response \<Rightarrow> bool" where
  "denied r \<longleftrightarrow> resp_status r = 401 \<and> payload_of r \<noteq> JNull"

definition unauthorized_codes :: "client_event list \<Rightarrow> string list" where
  "unauthorized_codes evs =
     map (\<lambda>ev. failure_code (event_response ev)) (filter (\<lambda>ev. denied (event_response ev)) evs)"

lemma throw_flags:
  "cl_unauthorizedNotified (fst (throwDownloadError he cl r)) = (cl_unauthorizedNotified cl \<or> denied r)"
  "fst (snd (throwDownloadError he cl r)) =
     (if denied r \<and> \<not> cl_unauthorizedNotified cl then Some (failure_code r) else None)"
  by (auto simp: throwDownloadError_def notifyUnauthorized_def denied_def)

lemma ok_not_denied: "resp_ok r \<Longrightarrow> \<not> denied r"
  by (simp add: resp_ok_def denied_def)

lemma request_flags:
  "cl_unauthorizedNotified (fst (request he cl call r)) = (cl_unauthorizedNotified cl \<or> denied r)"
  "fst (snd (request he cl call r)) =
     (if denied r \<and> \<not> cl_unauthorizedNotified cl then Some (failure_code r) else None)"
  using throw_flags [of he cl r] ok_not_denied [of r] by (auto simp: request_def split: prod.splits)

lemma request_result:
  "snd (snd (request he cl call r)) =
     (if resp_ok r then call_validate call (payload_of r) else Inl (snd (snd (throwDownloadError he cl r))))"
  by (simp add: request_def split: prod.splits)

lemma session_flags:
  "cl_unauthorizedNotified (fst (session_done he cl r)) = (cl_unauthorizedNotified cl \<or> denied r)"
  "fst (snd (session_done he cl r)) =
     (if denied r \<and> \<not> cl_unauthorizedNotified cl then Some (failure_code r) else None)"
  using request_flags [of he cl api_session r]
  by (simp_all add: session_done_def split_beta split: sum.split)

lemma failed_login_flags:
  assumes "isl (snd (snd (request he cl (api_login key) r)))"
  shows "cl_unauthorizedNotified (fst (login_done he cl key r)) = (cl_unauthorizedNotified cl \<or> denied r)"
    "fst (snd (login_done he cl key r)) =
       (if denied r \<and> \<not> cl_unauthorizedNotified cl then Some (failure_code r) else None)"
  using assms request_flags [of he cl "api_login key" r]
  by (auto simp: login_done_def split_beta isl_def)

lemma download_flags:
  "cl_unauthorizedNotified (fst (download_done he cl d r)) = (cl_unauthorizedNotified cl \<or> denied r)"
  "fst (snd (download_done he cl d r)) =
     (if denied r \<and> \<not> cl_unauthorizedNotified cl then Some (failure_code r) else None)"
  using throw_flags [of he cl r] ok_not_denied [of r] by (auto simp: download_done_def split: prod.splits)

lemma step_no_login:
  assumes "\<not> login_succeeds ev"
  shows "cl_unauthorizedNotified (fst (client_step he cl ev)) =
      (cl_unauthorizedNotified cl \<or> denied (event_response ev))"
    "snd (client_step he cl ev) =
      (if denied (event_response ev) \<and> \<not> cl_unauthorizedNotified cl
       then Some (failure_code (event_response ev)) else None)"
proof -
  have login: "isl (snd (snd (request he cl (api_login key) r)))" if "ev = LoginTried key r" for key r
    using assms that by (simp add: request_result login_succeeds_def api_login_def)
  show "cl_unauthorizedNotified (fst (client_step he cl ev)) =
      (cl_unauthorizedNotified cl \<or> denied (event_response ev))"
    using login by (cases ev) (simp_all add: split_beta request_flags session_flags failed_login_flags download_flags)
  show "snd (client_step he cl ev) =
      (if denied (event_response ev) \<and> \<not> cl_unauthorizedNotified cl
       then Some (failure_code (event_response ev)) else None)"
    using login by (cases ev) (simp_all add: split_beta request_flags session_flags failed_login_flags download_flags)
qed

lemma step_login:
  assumes "login_succeeds ev"
  shows "\<not> cl_unauthorizedNotified (fst (client_step he cl ev)) \<and> snd (client_step he cl ev) = None"
proof -
  obtain key r where ev: "ev = LoginTried key r" "resp_ok r"
      "\<not> isl (v_arrays ''session'' [''capabilities''] (payload_of r))"
    using assms by (auto simp: login_succeeds_def split: client_event.splits)
  then show ?thesis
    by (auto simp: login_done_def request_def api_login_def split: sum.splits)
qed

lemma client_run_Cons:
  "snd (client_run he cl (ev # evs)) =
     (case snd (client_step he cl ev) of None \<Rightarrow> [] | Some c \<Rightarrow> [c]) @
     snd (client_run he (fst (client_step he cl ev)) evs)"
  by (simp add: split_beta split: option.split)

lemma client_run_notes:
  assumes "\<forall>ev \<in> set evs. \<not> login_succeeds ev"
  shows "snd (client_run he cl evs) = (if cl_unauthorizedNotified cl then [] else take 1 (unauthorized_codes evs))"
  using assms
proof (induction evs arbitrary: cl)
  case (Cons ev evs)
  then have "\<not> login_succeeds ev" "\<forall>ev \<in> set evs. \<not> login_succeeds ev" by simp_all
  note step = step_no_login [OF this(1), of he cl] and IH = Cons.IH [OF this(2)]
  show ?case
    unfolding client_run_Cons IH step by (simp add: unauthorized_codes_def)
qed (simp add: unauthorized_codes_def)

lemma client_run_append:
  "client_run he cl (xs @ ys) =
     (case client_run he cl xs of (cl', notes) \<Rightarrow>
        (case client_run he cl' ys of (cl'', notes') \<Rightarrow> (cl'', notes @ notes')))"
  by (induction xs arbitrary: cl) (auto split: prod.splits option.splits)

section \<open>Properties\<close>

text \<open>
  Claim C25: every call of the client that names a method carries the CSRF token of the
  session, no read carries it, and all of them carry the locale.
\<close>

theorem client_calls_csrf:
  assumes "client_call c"
  shows "map_of (hreq_headers (build_request cl c)) csrf_header =
      (if init_method (call_init c) = None then None else Some (cl_csrfToken cl)) \<and>
    map_of (hreq_headers (build_request cl c)) ''Accept-Language'' = Some (locale_string (cl_locale cl))"
proof -
  note shape = client_call_init [OF assms]
  let ?base = "[(''Accept-Language'', locale_string (cl_locale cl)), (''Content-Type'', ''application/json'')]"
  have base: "map_of (headers_set ?base (if m then [(csrf_header, cl_csrfToken cl)] else [])) csrf_header =
        (if m then Some (cl_csrfToken cl) else None)"
    "map_of (headers_set ?base (if m then [(csrf_header, cl_csrfToken cl)] else [])) ''Accept-Language'' =
        Some (locale_string (cl_locale cl))" for m
    by (simp_all add: headers_set_def csrf_header_def)
  have "mutates (call_init c) \<longleftrightarrow> init_method (call_init c) \<noteq> None"
    using shape by (auto simp: mutates_def)
  then show ?thesis
    using shape by (simp add: build_request_def map_of_headers_set base)
qed

theorem client_calls_csrf_witness:
  "map_of (hreq_headers (build_request \<lparr>cl_locale = Locale_EnUS, cl_unauthorizedNotified = False,
       cl_csrfToken = ''tok''\<rparr> (api_cancel ''r/1''))) csrf_header = Some ''tok''"
  using client_calls_csrf [OF api_cancel_call [of "''r/1''"]] by (simp add: api_cancel_def)

text \<open>
  Claim C26: the console is told of an unauthorized response once per login: after a
  successful login and whatever happened before it, the first 401 reply (with a body that
  is not \<open>null\<close>) reports its code and every later one stays silent.
\<close>

theorem unauthorized_once_per_login:
  assumes "login_succeeds login" "\<forall>ev \<in> set later. \<not> login_succeeds ev"
  shows "snd (client_run he cl (earlier @ login # later)) =
     snd (client_run he cl earlier) @ take 1 (unauthorized_codes later)"
proof -
  have "snd (client_run he cl' (login # later)) = take 1 (unauthorized_codes later)" for cl'
    unfolding client_run_Cons client_run_notes [OF assms(2)] using step_login [OF assms(1), of he cl'] by simp
  then show ?thesis
    unfolding client_run_append by (simp add: split_beta del: client_run.simps)
qed

definition good_login :: client_event where
  "good_login = LoginTried ''key'' \<lparr>resp_status = 200, resp_json = Some (JObj [(''capabilities'', JArr [])])\<rparr>"

definition expired :: "string \<Rightarrow> client_event" where
  "expired code = Completed api_status \<lparr>resp_status = 401, resp_json = Some (JObj [(''code'', JStr code)])\<rparr>"

theorem unauthorized_once_per_login_witness:
  "snd (client_run (\<lambda>s. ''error'') (new_client Locale_EnUS)
     ([expired ''a''] @ good_login # [expired ''SESSION_EXPIRED'', expired ''b''])) = [''a'', ''SESSION_EXPIRED'']"
proof -
  have "login_succeeds good_login"
    by (simp add: login_succeeds_def good_login_def resp_ok_def v_arrays_def payload_of_def
        expectObjectArrays_def prop_of_def)
  moreover have "\<forall>ev \<in> set [expired ''SESSION_EXPIRED'', expired ''b'']. \<not> login_succeeds ev"
    by (simp add: login_succeeds_def expired_def)
  moreover have "snd (client_run (\<lambda>s. ''error'') (new_client Locale_EnUS) [expired ''a'']) = [''a'']"
    by (simp add: expired_def request_def resp_ok_def throwDownloadError_def payload_of_def
        notifyUnauthorized_def new_client_def failure_code_def payload_prop_def prop_of_def json_string_or_def)
  moreover have "unauthorized_codes [expired ''SESSION_EXPIRED'', expired ''b''] = [''SESSION_EXPIRED'', ''b'']"
    by (simp add: unauthorized_codes_def expired_def payload_of_def failure_code_def payload_prop_def
        denied_def prop_of_def json_string_or_def)
  ultimately show ?thesis
    by (simp only: unauthorized_once_per_login) simp
qed

text \<open>
  An identifier never changes the shape of the path it is put in: it is one
  segment of it, opens no query and no fragment, and decodes to itself. Stated for every
  endpoint that changes a request, a repeat task or a capture.
\<close>

theorem identifiers_stay_segments:
  "split_all CHR ''/'' (call_path (api_retry ident b)) = [[], ''requests'', encodeURIComponent ident, ''retry''] \<and>
   split_all CHR ''/'' (call_path (api_cancel ident)) = [[], ''requests'', encodeURIComponent ident] \<and>
   split_all CHR ''/'' (call_path (api_setRetryPolicy ident p b)) =
     [[], ''requests'', encodeURIComponent ident, ''retry-policy''] \<and>
   split_all CHR ''/'' (call_path (api_clearRetryPolicy ident)) =
     [[], ''requests'', encodeURIComponent ident, ''retry-policy''] \<and>
   split_all CHR ''/'' (call_path (api_resolveUncertain ident input)) =
     [[], ''requests'', encodeURIComponent ident, ''uncertain'', ''resolve''] \<and>
   split_all CHR ''/'' (call_path (api_createRepeatTask ident j)) =
     [[], ''requests'', encodeURIComponent ident, ''repeat''] \<and>
   split_all CHR ''/'' (call_path (api_stopRepeatTask ident)) = [[], ''repeat-tasks'', encodeURIComponent ident] \<and>
   split_all CHR ''/'' (call_path (api_deleteCapture ident)) = [[], ''captures'', encodeURIComponent ident] \<and>
   CHR ''?'' \<notin> set (encodeURIComponent ident) \<and> CHR ''#'' \<notin> set (encodeURIComponent ident) \<and>
   percent_decode (encodeURIComponent ident) = ident"
  by (simp add: api_retry_def api_cancel_def api_setRetryPolicy_def api_clearRetryPolicy_def
      api_resolveUncertain_def api_createRepeatTask_def api_stopRepeatTask_def api_deleteCapture_def
      segment_simps decode_encodeURIComponent)

text \<open>
  The query of a list call parses back to exactly the filters that are set,
  in order, whatever characters their values hold.
\<close>

theorem list_query_roundtrip:
  assumes "distinct (map fst filters)"
  shows "params_parse (params_string (list_query filters)) = [(k, v). (k, Some v) \<leftarrow> filters, v \<noteq> []]"
  by (simp add: params_parse_string list_query_entries [OF assms])

theorem list_query_roundtrip_witness:
  "params_parse (params_string (list_query
     [(''q'', Some ''a&b=c d''), (''state'', Some []), (''cursor'', None), (''limit'', Some ''100'')])) =
   [(''q'', ''a&b=c d''), (''limit'', ''100'')]"
  using list_query_roundtrip [of "[(''q'', Some ''a&b=c d''), (''state'', Some []), (''cursor'', None), (''limit'', Some ''100'')]"]
  by simp

text \<open>
  Validation never alters a payload. What any call but \<open>config()\<close> resolves to
  is the JSON value the server sent, and \<open>config()\<close> resolves to its normalized form.
\<close>

theorem validation_transparent:
  assumes "client_call c" "resp_ok r" "request he cl c r = (cl', note, Inr w)"
  shows "w = payload_of r \<or>
     (\<exists>num_text config. c = api_config num_text \<and> payload_of r = JObj config \<and>
        map_sum id JObj (normalizeConfigCollections config) = Inr w)"
proof -
  have "call_validate c (payload_of r) = Inr w"
    using assms(2,3) by (simp add: request_def)
  with assms(1) show ?thesis
    by cases (auto simp: api_defs v_config_def bind_result_Inr split: if_splits dest: validators_same)
qed

theorem validation_transparent_witness:
  "client_call api_status \<and>
   request (\<lambda>s. []) (new_client Locale_EnUS) api_status \<lparr>resp_status = 200, resp_json = Some (JObj [(''requests'', JArr [])])\<rparr>
     = (new_client Locale_EnUS, None, Inr (JObj [(''requests'', JArr [])]))"
proof -
  let ?r = "\<lparr>resp_status = 200, resp_json = Some (JObj [(''requests'', JArr [])])\<rparr>"
  have call: "client_call api_status" by (rule client_call.intros)
  obtain w where run: "request (\<lambda>s. []) (new_client Locale_EnUS) api_status ?r = (new_client Locale_EnUS, None, Inr w)"
    by (simp add: request_def resp_ok_def api_status_def v_arrays_def payload_of_def expectObjectArrays_def prop_of_def)
  have "resp_ok ?r" by (simp add: resp_ok_def)
  from validation_transparent [OF call this run] have "w = payload_of ?r"
    by (auto simp: api_status_def api_config_def)
  with call run show ?thesis by (simp add: payload_of_def)
qed

end
