(* ===== verification/HistoryPages.thy ===== *)
theory HistoryPages
  imports ApiClient Reachability
begin

text \<open>
  The paged lists of the console: \<open>mergeHistoryPage\<close> of web/src/historyPagination.ts and
  the list part of App.tsx (\<open>loadHistory\<close>, \<open>loadIncidents\<close>, \<open>applyHistoryFilters\<close>,
  \<open>applyIncidentFilters\<close>). A load is split at its \<open>await\<close>: the call it makes from the
  filters at the start, and what the page does to the state when it arrives.
\<close>

section \<open>State and operations\<close>

record list_state =
  ls_history :: "HistoryRecord list"
  ls_historyFilters :: ListFilters
  ls_historyCursor :: "string option"
  ls_historyHasMore :: bool
  ls_incidents :: "Incident list"
  ls_incidentResults :: "Incident list"
  ls_incidentFilters :: ListFilters
  ls_incidentCursor :: "string option"
  ls_incidentsHaveMore :: bool

definition mergeHistoryPage :: "HistoryRecord list \<Rightarrow> HistoryRecord list \<Rightarrow> HistoryRecord list" where
  "mergeHistoryPage current fresh =
     (let freshIds = hr_id ` set fresh in fresh @ filter (\<lambda>item. hr_id item \<notin> freshIds) current)"

text \<open>\<open>[...current, ...items.filter((item) => !current.some((existing) => existing.id === item.id))]\<close>.\<close>

definition append_new :: "('a \<Rightarrow> string) \<Rightarrow> 'a list \<Rightarrow> 'a list \<Rightarrow> 'a list" where
  "append_new key current items = current @ filter (\<lambda>item. \<not> (\<exists>e \<in> set current. key e = key item)) items"

definition filter_fields :: "ListFilters \<Rightarrow> filter_entries" where
  "filter_fields f = [(''q'', Some (lf_q f)), (''state'', Some (lf_state f)), (''from'', Some (lf_from f)),
     (''to'', Some (lf_to f))]"

definition loadHistory_call :: "list_state \<Rightarrow> string option \<Rightarrow> api_call" where
  "loadHistory_call st cursor =
     api_history (filter_fields (ls_historyFilters st) @ [(''cursor'', cursor), (''limit'', Some ''100'')])"

definition loadHistory_done :: "string option \<Rightarrow> bool \<Rightarrow> HistoryPage \<Rightarrow> list_state \<Rightarrow> list_state" where
  "loadHistory_done cursor preserveLoaded page st =
     st\<lparr>ls_history :=
          (if truthy_string cursor then append_new hr_id (ls_history st) (hp_items page)
           else if preserveLoaded then mergeHistoryPage (ls_history st) (hp_items page)
           else hp_items page),
        ls_historyCursor := hp_nextCursor page, ls_historyHasMore := hp_hasMore page\<rparr>"

definition loadIncidents_call :: "list_state \<Rightarrow> string option \<Rightarrow> api_call" where
  "loadIncidents_call st cursor =
     api_incidents (filter_fields (ls_incidentFilters st) @ [(''cursor'', cursor), (''limit'', Some ''100'')])"

definition loadIncidents_done :: "string option \<Rightarrow> IncidentPage \<Rightarrow> list_state \<Rightarrow> list_state" where
  "loadIncidents_done cursor page st =
     st\<lparr>ls_incidentResults :=
          (if truthy_string cursor then append_new inc_id (ls_incidentResults st) (ip_items page) else ip_items page),
        ls_incidentCursor := ip_nextCursor page, ls_incidentsHaveMore := ip_hasMore page\<rparr>"

text \<open>Applying filters stores them, asks for the first page, and on success replaces the list.\<close>

definition applyHistoryFilters_start :: "ListFilters \<Rightarrow> list_state \<Rightarrow> list_state \<times> api_call" where
  "applyHistoryFilters_start next st =
     (st\<lparr>ls_historyFilters := next\<rparr>, api_history (filter_fields next @ [(''limit'', Some ''100'')]))"

definition applyHistoryFilters_done :: "HistoryPage js_result \<Rightarrow> list_state \<Rightarrow> list_state" where
  "applyHistoryFilters_done res st =
     (case res of
        Inl e \<Rightarrow> st
      | Inr page \<Rightarrow> st\<lparr>ls_history := hp_items page, ls_historyCursor := hp_nextCursor page,
                      ls_historyHasMore := hp_hasMore page\<rparr>)"

definition applyIncidentFilters_start :: "ListFilters \<Rightarrow> list_state \<Rightarrow> list_state \<times> api_call" where
  "applyIncidentFilters_start next st =
     (st\<lparr>ls_incidentFilters := next\<rparr>, api_incidents (filter_fields next @ [(''limit'', Some ''100'')]))"

definition applyIncidentFilters_done :: "IncidentPage js_result \<Rightarrow> list_state \<Rightarrow> list_state" where
  "applyIncidentFilters_done res st =
     (case res of
        Inl e \<Rightarrow> st
      | Inr page \<Rightarrow> st\<lparr>ls_incidentResults := ip_items page, ls_incidentCursor := ip_nextCursor page,
                      ls_incidentsHaveMore := ip_hasMore page\<rparr>)"

text \<open>The part of \<open>refresh\<close> that touches the lists: an unfiltered page of incidents.\<close>

definition refresh_incidents_call :: api_call where
  "refresh_incidents_call = api_incidents [(''limit'', Some ''100'')]"

definition refresh_incidents_done :: "IncidentPage \<Rightarrow> list_state \<Rightarrow> list_state" where
  "refresh_incidents_done page st =
     st\<lparr>ls_incidents := ip_items page, ls_incidentCursor := ip_nextCursor page, ls_incidentsHaveMore := ip_hasMore page\<rparr>"

section \<open>Lemmas\<close>

lemma append_new_keys: "key ` set (append_new key current items) = key ` set current \<union> key ` set items"
proof -
  have "key x \<in> key ` (set current \<union> {x \<in> set items. \<forall>e \<in> set current. key e \<noteq> key x})"
    if "x \<in> set items" for x
  proof (cases "\<exists>e \<in> set current. key e = key x")
    case True
    then obtain e where "e \<in> set current" "key x = key e" by auto
    then show ?thesis by blast
  next
    case False
    with that show ?thesis by auto
  qed
  then show ?thesis by (auto simp: append_new_def)
qed

lemma append_new_distinct:
  "distinct (map key current) \<Longrightarrow> distinct (map key items) \<Longrightarrow> distinct (map key (append_new key current items))"
  by (auto simp: append_new_def distinct_map_filter)

lemma merge_keys: "hr_id ` set (mergeHistoryPage current fresh) = hr_id ` set current \<union> hr_id ` set fresh"
  by (auto simp: mergeHistoryPage_def Let_def)

lemma merge_distinct:
  "distinct (map hr_id current) \<Longrightarrow> distinct (map hr_id fresh) \<Longrightarrow>
     distinct (map hr_id (mergeHistoryPage current fresh))"
  by (auto simp: mergeHistoryPage_def Let_def distinct_map_filter) (metis image_eqI)

lemma merge_idem: "mergeHistoryPage (mergeHistoryPage current fresh) fresh = mergeHistoryPage current fresh"
  by (auto simp: mergeHistoryPage_def Let_def filter_empty_conv)

text \<open>
  After \<open>refresh\<close> the cursor of the incident list is the one of the unfiltered page, while
  the results and the filters stay: the next \<open>load more\<close> asks for the filtered list after
  a position of the unfiltered one.
\<close>

lemma refresh_replaces_filtered_cursor:
  "ls_incidentResults (refresh_incidents_done page st) = ls_incidentResults st \<and>
   loadIncidents_call (refresh_incidents_done page st) (ls_incidentCursor (refresh_incidents_done page st)) =
     api_incidents (filter_fields (ls_incidentFilters st) @ [(''cursor'', ip_nextCursor page), (''limit'', Some ''100'')])"
  by (simp add: refresh_incidents_done_def loadIncidents_call_def)

text \<open>The load of a list after any mixture of loads: a small step relation on the list state.\<close>

inductive list_step :: "list_state \<Rightarrow> list_state \<Rightarrow> bool" where
  history_loaded: "distinct (map hr_id (hp_items page)) \<Longrightarrow> list_step st (loadHistory_done cursor preserve page st)"
| incidents_loaded: "distinct (map inc_id (ip_items page)) \<Longrightarrow> list_step st (loadIncidents_done cursor page st)"
| history_filtered: "list_step st (fst (applyHistoryFilters_start f st))"
| history_refiltered: "distinct (map hr_id (hp_items page)) \<Longrightarrow> list_step st (applyHistoryFilters_done (Inr page) st)"
| history_failed: "list_step st (applyHistoryFilters_done (Inl e) st)"
| incidents_filtered: "list_step st (fst (applyIncidentFilters_start f st))"
| incidents_refiltered: "distinct (map inc_id (ip_items page)) \<Longrightarrow> list_step st (applyIncidentFilters_done (Inr page) st)"
| incidents_failed: "list_step st (applyIncidentFilters_done (Inl e) st)"
| refreshed: "distinct (map inc_id (ip_items page)) \<Longrightarrow> list_step st (refresh_incidents_done page st)"

definition lists_distinct :: "list_state \<Rightarrow> bool" where
  "lists_distinct st \<longleftrightarrow> distinct (map hr_id (ls_history st)) \<and> distinct (map inc_id (ls_incidentResults st)) \<and>
     distinct (map inc_id (ls_incidents st))"

lemma list_step_distinct: "list_step st st' \<Longrightarrow> lists_distinct st \<Longrightarrow> lists_distinct st'"
  by (induction rule: list_step.induct)
     (auto simp: lists_distinct_def loadHistory_done_def loadIncidents_done_def applyHistoryFilters_start_def
       applyHistoryFilters_done_def applyIncidentFilters_start_def applyIncidentFilters_done_def
       refresh_incidents_done_def intro: append_new_distinct merge_distinct)

definition empty_lists :: "ListFilters \<Rightarrow> ListFilters \<Rightarrow> list_state" where
  "empty_lists hf incf = \<lparr>ls_history = [], ls_historyFilters = hf, ls_historyCursor = None, ls_historyHasMore = False,
     ls_incidents = [], ls_incidentResults = [], ls_incidentFilters = incf, ls_incidentCursor = None,
     ls_incidentsHaveMore = False\<rparr>"

interpretation list_system: step_system list_step "\<lambda>st. \<exists>hf incf. st = empty_lists hf incf" lists_distinct
proof
  show "lists_distinct st" if "\<exists>hf incf. st = empty_lists hf incf" for st
    using that by (auto simp: lists_distinct_def empty_lists_def)
  show "lists_distinct t" if "list_step s t" "lists_distinct s" for s t using that by (rule list_step_distinct)
qed

section \<open>Properties\<close>


definition no_filters :: ListFilters where
  "no_filters = \<lparr>lf_q = [], lf_state = [], lf_from = [], lf_to = []\<rparr>"


text \<open>
  A background refresh of the history keeps every record that was loaded and
  adds every record of the fresh page; a record in both comes from the fresh page, the
  fresh page leads in the server's order, and repeating the refresh changes nothing.
\<close>

theorem mergeHistoryPage_spec:
  "hr_id ` set (mergeHistoryPage current fresh) = hr_id ` set current \<union> hr_id ` set fresh \<and>
   prefix fresh (mergeHistoryPage current fresh) \<and>
   subseq (drop (length fresh) (mergeHistoryPage current fresh)) current \<and>
   mergeHistoryPage (mergeHistoryPage current fresh) fresh = mergeHistoryPage current fresh"
  using merge_keys merge_idem by (auto simp: mergeHistoryPage_def Let_def)

end
