(* ===== verification/Navigation.thy ===== *)
theory Navigation
  imports HistoryPages
begin

text \<open>
  Views and their addresses: the view list of web/src/components/AppNavigation.tsx and
  \<open>currentView\<close>, \<open>filtersFromHash\<close>, \<open>viewHash\<close>, \<open>selectView\<close> and the access guard of
  web/src/App.tsx. The location hash is a string. \<open>selectView\<close> is split at the
  confirmation it may await.
\<close>

section \<open>Views and hashes\<close>

datatype View = View_overview | View_requests | View_history | View_incidents | View_logs | View_captures
  | View_diagnostics | View_settings

definition view_string :: "View \<Rightarrow> string" where
  "view_string v = (case v of View_overview \<Rightarrow> ''overview'' | View_requests \<Rightarrow> ''requests'' | View_history \<Rightarrow> ''history''
     | View_incidents \<Rightarrow> ''incidents'' | View_logs \<Rightarrow> ''logs'' | View_captures \<Rightarrow> ''captures''
     | View_diagnostics \<Rightarrow> ''diagnostics'' | View_settings \<Rightarrow> ''settings'')"

definition allViews :: "View list" where
  "allViews = [View_overview, View_requests, View_history, View_incidents, View_logs, View_captures,
     View_diagnostics, View_settings]"

definition mobileViews :: "View list" where
  "mobileViews = [View_overview, View_requests, View_history, View_diagnostics, View_settings]"

datatype nav_group = Group_monitoring | Group_forensics | Group_maintenance

definition navigation :: "(nav_group \<times> View list) list" where
  "navigation =
     [(Group_monitoring, [View_overview, View_requests, View_incidents]),
      (Group_forensics, [View_history, View_logs, View_captures]),
      (Group_maintenance, [View_diagnostics, View_settings])]"

text \<open>The entries a session sees in the rail (empty groups are not shown) and on a small screen.\<close>

definition rail_sections :: "bool \<Rightarrow> (nav_group \<times> View list) list" where
  "rail_sections canOperate =
     filter (\<lambda>(g, items). items \<noteq> [])
       (map (\<lambda>(g, items). (g, filter (\<lambda>v. canOperate \<or> v \<noteq> View_settings) items)) navigation)"

definition mobileNavigation :: "bool \<Rightarrow> View list" where
  "mobileNavigation canOperate = filter (\<lambda>v. canOperate \<or> v \<noteq> View_settings) mobileViews"

definition strip_hash :: "string \<Rightarrow> string" where
  "strip_hash h =
     (case h of
        [] \<Rightarrow> []
      | c # rest \<Rightarrow>
          if c \<noteq> CHR ''#'' then h
          else (case rest of [] \<Rightarrow> [] | d # rest' \<Rightarrow> if d = CHR ''/'' then rest' else rest))"

definition currentView :: "string \<Rightarrow> View" where
  "currentView hash =
     (case find (\<lambda>v. view_string v = fst (split_at CHR ''?'' (strip_hash hash))) allViews of
        None \<Rightarrow> View_overview | Some v \<Rightarrow> v)"

definition empty_filters :: ListFilters where
  "empty_filters = \<lparr>lf_q = [], lf_state = [], lf_from = [], lf_to = []\<rparr>"

definition filtersFromHash :: "string \<Rightarrow> View \<Rightarrow> ListFilters" where
  "filtersFromHash hash target =
     (if currentView hash \<noteq> target then empty_filters
      else let pieces = split_all CHR ''?'' hash;
               query = (if 1 < length pieces then pieces ! 1 else []);
               params = params_parse query
           in \<lparr>lf_q = or_string (params_get params ''q'') [], lf_state = or_string (params_get params ''state'') [],
               lf_from = or_string (params_get params ''from'') [], lf_to = or_string (params_get params ''to'') []\<rparr>)"

definition viewHash :: "View \<Rightarrow> ListFilters option \<Rightarrow> string" where
  "viewHash v filters =
     (let params = (case filters of
                      None \<Rightarrow> []
                    | Some f \<Rightarrow> fold (\<lambda>(key, value) ps. if value \<noteq> [] then params_set key value ps else ps)
                        [(''q'', lf_q f), (''state'', lf_state f), (''from'', lf_from f), (''to'', lf_to f)] []);
          query = params_string params
      in ''#/'' @ view_string v @ (if query \<noteq> [] then ''?'' @ query else []))"

section \<open>Changing views\<close>

record nav_state =
  nav_view :: View
  nav_hash :: string
  nav_mobileTools :: bool

datatype nav_outcome = Nav_refused | Nav_same | Nav_confirm | Nav_go

definition selectView_start :: "bool \<Rightarrow> bool \<Rightarrow> View \<Rightarrow> bool \<Rightarrow> nav_state \<Rightarrow> nav_state \<times> nav_outcome" where
  "selectView_start canOperate dirty next updateHash st =
     (if next = View_settings \<and> \<not> canOperate
      then (if updateHash then st else st\<lparr>nav_hash := ''#/'' @ view_string (nav_view st)\<rparr>, Nav_refused)
      else if next = nav_view st then (st\<lparr>nav_mobileTools := False\<rparr>, Nav_same)
      else if nav_view st = View_settings \<and> dirty then (st, Nav_confirm)
      else (st, Nav_go))"

text \<open>The rest of \<open>selectView\<close>, with the view and the lists captured when it was called.\<close>

definition selectView_refuse :: "View \<Rightarrow> bool \<Rightarrow> nav_state \<Rightarrow> nav_state" where
  "selectView_refuse captured updateHash st =
     (if updateHash then st else st\<lparr>nav_hash := ''#/'' @ view_string captured\<rparr>)"

definition selectView_commit :: "View \<Rightarrow> bool \<Rightarrow> list_state \<Rightarrow> nav_state \<Rightarrow> nav_state" where
  "selectView_commit next updateHash ls st =
     st\<lparr>nav_view := next, nav_mobileTools := False,
        nav_hash := (if updateHash
          then viewHash next (if next = View_history then Some (ls_historyFilters ls)
                              else if next = View_incidents then Some (ls_incidentFilters ls) else None)
          else nav_hash st)\<rparr>"

text \<open>The effect that moves a session without the \<open>operate\<close> capability off the settings.\<close>

definition settings_guard :: "bool \<Rightarrow> bool \<Rightarrow> nav_state \<Rightarrow> nav_state" where
  "settings_guard hasSession canOperate st =
     (if hasSession \<and> \<not> canOperate \<and> nav_view st = View_settings
      then st\<lparr>nav_view := View_overview, nav_hash := ''#/overview''\<rparr> else st)"

section \<open>Lemmas\<close>

lemma view_string_inj [simp]: "view_string v = view_string w \<longleftrightarrow> v = w"
  by (cases v; cases w) (simp_all add: view_string_def)

lemma view_string_clean: "CHR ''?'' \<notin> set (view_string v)"
  by (cases v) (simp_all add: view_string_def)

lemma find_view: "find (\<lambda>w. w = v) allViews = Some v"
  by (cases v) (simp_all add: allViews_def)

definition filter_params :: "ListFilters \<Rightarrow> search_params" where
  "filter_params f = filter (\<lambda>(k, v). v \<noteq> [])
     [(''q'', lf_q f), (''state'', lf_state f), (''from'', lf_from f), (''to'', lf_to f)]"

lemma viewHash_params:
  "viewHash v filters =
     (let query = params_string (case filters of None \<Rightarrow> [] | Some f \<Rightarrow> filter_params f)
      in ''#/'' @ view_string v @ (if query \<noteq> [] then ''?'' @ query else []))"
  by (simp add: viewHash_def filter_params_def Let_def split: option.split)

lemma currentView_viewHash: "currentView (viewHash v filters) = v"
  by (simp add: currentView_def strip_hash_def viewHash_def Let_def split_at_append split_at_absent
      view_string_clean find_view)

lemma params_string_no_question: "CHR ''?'' \<notin> set (params_string ps)"
  using set_params_string by fastforce

lemma params_get_filter_params:
  "or_string (params_get (filter_params f) ''q'') [] = lf_q f"
  "or_string (params_get (filter_params f) ''state'') [] = lf_state f"
  "or_string (params_get (filter_params f) ''from'') [] = lf_from f"
  "or_string (params_get (filter_params f) ''to'') [] = lf_to f"
  unfolding filter_params_def
  using params_get_filled [where ps = "[(''q'', lf_q f), (''state'', lf_state f), (''from'', lf_from f), (''to'', lf_to f)]"]
  by auto

lemma filtersFromHash_viewHash: "filtersFromHash (viewHash v (Some f)) v = f"
proof -
  let ?ps = "filter_params f"
  have "split_all CHR ''?'' (viewHash v (Some f)) =
      (if ?ps = [] then [''#/'' @ view_string v] else [''#/'' @ view_string v, params_string ?ps])"
    using split_all_append [of "CHR ''?''" "''#/'' @ view_string v" "params_string ?ps"]
      split_all_absent [of "CHR ''?''" "''#/'' @ view_string v"]
      split_all_absent [OF params_string_no_question, of ?ps] view_string_clean [of v]
    by (simp add: viewHash_params Let_def)
  moreover have "params_parse [] = []" by (simp add: params_parse_def)
  ultimately show ?thesis
    using params_get_filter_params [of f]
    by (cases "?ps = []") (simp_all add: filtersFromHash_def currentView_viewHash Let_def params_parse_string)
qed

text \<open>
  A session moves between views: \<open>allowed\<close> is whether it has the \<open>operate\<close> capability, which
  a new session may change; the guard runs after every change of the session or the view.
\<close>

inductive nav_step :: "bool \<times> nav_state \<Rightarrow> bool \<times> nav_state \<Rightarrow> bool" where
  refused: "selectView_start allowed dirty next updateHash st = (st', Nav_refused) \<Longrightarrow>
    nav_step (allowed, st) (allowed, st')"
| same: "selectView_start allowed dirty next updateHash st = (st', Nav_same) \<Longrightarrow>
    nav_step (allowed, st) (allowed, st')"
| moved: "selectView_start allowed dirty next updateHash st = (st', Nav_go) \<Longrightarrow>
    nav_step (allowed, st) (allowed, selectView_commit next updateHash ls st')"
| confirmed: "selectView_start allowed dirty next updateHash st0 = (st1, Nav_confirm) \<Longrightarrow>
    nav_step (allowed', st) (allowed', selectView_commit next updateHash ls st)"
| declined: "selectView_start allowed dirty next updateHash st0 = (st1, Nav_confirm) \<Longrightarrow>
    nav_step (allowed', st) (allowed', selectView_refuse (nav_view st0) updateHash st)"
| session_changed: "nav_step (allowed, st) (allowed', settings_guard True allowed' st)"

lemma nav_step_guarded:
  assumes "nav_step s s'" "fst s \<or> nav_view (snd s) \<noteq> View_settings"
  shows "fst s' \<or> nav_view (snd s') \<noteq> View_settings"
  using assms
  by cases (auto simp: selectView_start_def selectView_commit_def selectView_refuse_def settings_guard_def
      split: if_splits)

section \<open>Properties\<close>

text \<open>
  The address of a view leads back to it. Reading the hash that \<open>viewHash\<close> writes
  gives the view and, for the view it was written for, exactly the filters, whatever
  characters they contain.
\<close>

theorem viewHash_roundtrip:
  "currentView (viewHash v filters) = v \<and> filtersFromHash (viewHash v (Some f)) v = f"
  by (simp add: currentView_viewHash filtersFromHash_viewHash)

definition nav_guarded :: "bool \<times> nav_state \<Rightarrow> bool" where
  "nav_guarded s \<longleftrightarrow> fst s \<or> nav_view (snd s) \<noteq> View_settings"

interpretation nav_system: step_system nav_step nav_guarded nav_guarded
  by unfold_locales (auto simp: nav_guarded_def dest: nav_step_guarded)

text \<open>
  Claim C28: a session without the \<open>operate\<close> capability never stays on the settings view:
  no way of changing views, confirmed late or not, and no change of session leads there.
\<close>

theorem settings_need_operate:
  assumes "nav_step\<^sup>*\<^sup>* (allowed, st) (allowed', st')" "allowed \<or> nav_view st \<noteq> View_settings"
  shows "allowed' \<or> nav_view st' \<noteq> View_settings"
  using nav_system.inv_reachable [OF assms(1)] assms(2) by (simp add: nav_guarded_def)

theorem settings_need_operate_witness:
  "nav_view (settings_guard True False \<lparr>nav_view = View_settings, nav_hash = ''#/settings'', nav_mobileTools = False\<rparr>)
     \<noteq> View_settings"
proof -
  let ?st = "\<lparr>nav_view = View_settings, nav_hash = ''#/settings'', nav_mobileTools = False\<rparr>"
  have "nav_step\<^sup>*\<^sup>* (True, ?st) (False, settings_guard True False ?st)"
    by (rule r_into_rtranclp) (rule session_changed)
  from settings_need_operate [OF this] show ?thesis by simp
qed

text \<open>
  The rail offers each view exactly once, and leaves out the settings, and only
  them, for a session that may not operate; the small-screen bar offers a part of the rail.
\<close>

theorem rail_covers_views:
  "distinct (concat (map snd (rail_sections canOperate))) \<and>
   set (concat (map snd (rail_sections canOperate))) = (if canOperate then UNIV else UNIV - {View_settings}) \<and>
   set (mobileNavigation canOperate) \<subseteq> set (concat (map snd (rail_sections canOperate)))"
proof -
  have univ: "(UNIV :: View set) = {View_overview, View_requests, View_history, View_incidents, View_logs,
      View_captures, View_diagnostics, View_settings}"
  proof -
    have "v \<in> {View_overview, View_requests, View_history, View_incidents, View_logs, View_captures,
        View_diagnostics, View_settings}" for v by (cases v) simp_all
    then show ?thesis by blast
  qed
  show ?thesis
  proof (cases canOperate)
    case True
    then show ?thesis
      by (simp add: rail_sections_def navigation_def mobileNavigation_def mobileViews_def univ insert_commute)
  next
    case False
    then show ?thesis
      unfolding univ by (auto simp: rail_sections_def navigation_def mobileNavigation_def mobileViews_def)
  qed
qed

end
