(* ===== verification/Confirmation.thy ===== *)
theory Confirmation
  imports Reachability
begin

text \<open>
  The confirmation dialog of web/src/App.tsx (\<open>requestConfirmation\<close>, \<open>finishConfirmation\<close>
  and the part of \<open>resetAuthentication\<close> that closes it) with \<open>ConfirmDialogState\<close> of
  web/src/components/ConfirmDialog.tsx. A promise is a number; settling it appends the
  answer to \<open>cf_settled\<close>.
\<close>

section \<open>State and operations\<close>

datatype dialog_tone = Tone_default | Tone_danger

record ConfirmDialogState =
  cd_title :: string
  cd_description :: string
  cd_confirmLabel :: "string option"
  cd_tone :: "dialog_tone option"

record confirm_state =
  cf_pending :: bool
  cf_dialog :: "(ConfirmDialogState \<times> nat) option"
  cf_settled :: "(nat \<times> bool) list"
  cf_next :: nat

definition initial_confirm :: confirm_state where
  "initial_confirm = \<lparr>cf_pending = False, cf_dialog = None, cf_settled = [], cf_next = 0\<rparr>"

definition requestConfirmation :: "ConfirmDialogState \<Rightarrow> confirm_state \<Rightarrow> nat \<times> confirm_state" where
  "requestConfirmation options st =
     (let p = cf_next st in
      if cf_pending st then (p, st\<lparr>cf_settled := cf_settled st @ [(p, False)], cf_next := p + 1\<rparr>)
      else (p, st\<lparr>cf_pending := True, cf_dialog := Some (options, p), cf_next := p + 1\<rparr>))"

text \<open>\<open>setConfirmation((current) => { current?.resolve(result); return null; })\<close>.\<close>

definition close_dialog :: "bool \<Rightarrow> confirm_state \<Rightarrow> confirm_state" where
  "close_dialog result st =
     (case cf_dialog st of
        None \<Rightarrow> st
      | Some (_, p) \<Rightarrow> st\<lparr>cf_settled := cf_settled st @ [(p, result)], cf_dialog := None\<rparr>)"

definition finishConfirmation :: "bool \<Rightarrow> confirm_state \<Rightarrow> confirm_state" where
  "finishConfirmation result st = close_dialog result (st\<lparr>cf_pending := False\<rparr>)"

definition reset_confirmation :: "confirm_state \<Rightarrow> confirm_state" where
  "reset_confirmation st = close_dialog False (st\<lparr>cf_pending := False\<rparr>)"

text \<open>The dialog closes itself: Escape and a click beside it cancel.\<close>

datatype dialog_input = Press_confirm | Press_cancel | Press_escape | Click_backdrop

definition dialog_answer :: "dialog_input \<Rightarrow> bool" where
  "dialog_answer i \<longleftrightarrow> i = Press_confirm"

section \<open>Invariant\<close>

inductive confirm_step :: "confirm_state \<Rightarrow> confirm_state \<Rightarrow> bool" where
  requested: "confirm_step st (snd (requestConfirmation options st))"
| answered: "cf_dialog st \<noteq> None \<Longrightarrow> confirm_step st (finishConfirmation (dialog_answer i) st)"
| signed_out: "confirm_step st (reset_confirmation st)"

definition open_promises :: "confirm_state \<Rightarrow> nat set" where
  "open_promises st = (case cf_dialog st of None \<Rightarrow> {} | Some (_, p) \<Rightarrow> {p})"

definition confirm_ok :: "confirm_state \<Rightarrow> bool" where
  "confirm_ok st \<longleftrightarrow>
     cf_pending st = (cf_dialog st \<noteq> None) \<and> distinct (map fst (cf_settled st)) \<and>
     fst ` set (cf_settled st) \<union> open_promises st = {..<cf_next st} \<and>
     fst ` set (cf_settled st) \<inter> open_promises st = {}"

lemma confirm_ok_initial: "confirm_ok initial_confirm"
  by (simp add: confirm_ok_def initial_confirm_def open_promises_def)

lemma close_dialog_ok:
  assumes "confirm_ok st"
  shows "confirm_ok (close_dialog result (st\<lparr>cf_pending := False\<rparr>))"
  using assms by (auto simp: confirm_ok_def close_dialog_def open_promises_def split: option.splits)

lemma confirm_ok_below: "confirm_ok st \<Longrightarrow> p \<in> fst ` set (cf_settled st) \<union> open_promises st \<Longrightarrow> p < cf_next st"
  by (auto simp: confirm_ok_def)

lemma requestConfirmation_ok:
  assumes "confirm_ok st"
  shows "confirm_ok (snd (requestConfirmation options st))"
proof -
  have below: "cf_next st \<notin> fst ` set (cf_settled st)" "cf_next st \<notin> open_promises st"
    using confirm_ok_below [OF assms, of "cf_next st"] by auto
  have next_set: "{..<Suc (cf_next st)} = insert (cf_next st) {..<cf_next st}" by auto
  show ?thesis
  proof (cases "cf_pending st")
    case True
    with assms below show ?thesis
      by (auto simp: confirm_ok_def requestConfirmation_def Let_def open_promises_def next_set)
  next
    case False
    with assms have "cf_dialog st = None" by (cases "cf_dialog st") (auto simp: confirm_ok_def)
    with False assms below show ?thesis
      by (auto simp: confirm_ok_def requestConfirmation_def Let_def open_promises_def next_set)
  qed
qed

lemma confirm_step_ok: "confirm_step st st' \<Longrightarrow> confirm_ok st \<Longrightarrow> confirm_ok st'"
  by (induction rule: confirm_step.induct)
     (simp_all add: requestConfirmation_ok finishConfirmation_def reset_confirmation_def close_dialog_ok)

interpretation confirm_system: step_system confirm_step "\<lambda>st. st = initial_confirm" confirm_ok
  by unfold_locales (simp_all add: confirm_ok_initial confirm_step_ok)

section \<open>Properties\<close>

text \<open>
  Claim C15: in every reachable state each confirmation that was ever asked for has been
  answered exactly once, except the one whose dialog is open; a second request while a
  dialog is open is answered \<open>false\<close> at once and leaves the dialog alone; signing out
  answers the open one with \<open>false\<close>, so nothing is left waiting.
\<close>

theorem confirmations_settle:
  assumes "confirm_step\<^sup>*\<^sup>* initial_confirm st"
  shows "distinct (map fst (cf_settled st)) \<and>
     (\<forall>p < cf_next st. (p \<in> fst ` set (cf_settled st)) \<noteq> (p \<in> open_promises st)) \<and>
     (cf_dialog st \<noteq> None \<longrightarrow>
        (cf_next st, False) \<in> set (cf_settled (snd (requestConfirmation options st))) \<and>
        cf_dialog (snd (requestConfirmation options st)) = cf_dialog st) \<and>
     open_promises (reset_confirmation st) = {} \<and>
     (\<forall>p \<in> open_promises st. (p, False) \<in> set (cf_settled (reset_confirmation st)))"
proof -
  have ok: "confirm_ok st" using confirm_system.inv_reachable [OF assms refl] .
  then have "fst ` set (cf_settled st) \<union> open_promises st = {..<cf_next st}"
    "fst ` set (cf_settled st) \<inter> open_promises st = {}" by (simp_all add: confirm_ok_def)
  then have "\<forall>p < cf_next st. (p \<in> fst ` set (cf_settled st)) \<noteq> (p \<in> open_promises st)" by blast
  with ok show ?thesis
    by (auto simp: confirm_ok_def requestConfirmation_def Let_def reset_confirmation_def close_dialog_def
        open_promises_def split: option.splits)
qed

definition sample_dialog :: ConfirmDialogState where
  "sample_dialog = \<lparr>cd_title = ''Drain'', cd_description = ''Stop new work'', cd_confirmLabel = None,
     cd_tone = Some Tone_danger\<rparr>"

theorem confirmations_settle_witness:
  "open_promises (reset_confirmation (snd (requestConfirmation sample_dialog initial_confirm))) = {}"
proof -
  have "confirm_step\<^sup>*\<^sup>* initial_confirm (snd (requestConfirmation sample_dialog initial_confirm))"
    by (rule r_into_rtranclp) (rule requested)
  from confirmations_settle [OF this] show ?thesis by blast
qed

end
