(* ===== verification/Format.thy ===== *)
theory Format
  imports Prelude
begin

text \<open>
  The display helpers of web/src/format.ts. \<open>tr\<close> is the translation function (a key and
  its interpolations); \<open>ms_of\<close> is \<open>new Date(text).getTime()\<close>, \<open>None\<close> for an invalid date,
  \<open>now\<close> is \<open>Date.now()\<close>, and \<open>clock\<close> is \<open>toLocaleTimeString\<close> for a locale.
\<close>

type_synonym translate = "string \<Rightarrow> (string \<times> string) list \<Rightarrow> string"

definition formatSeconds :: "translate \<Rightarrow> int \<Rightarrow> string" where
  "formatSeconds tr seconds =
     (if seconds < 60 then tr ''common:time.seconds'' [(''count'', int_string seconds)]
      else let minutes = seconds div 60 in
           if minutes < 60 then tr ''common:time.minutes'' [(''count'', int_string minutes)]
           else tr ''common:time.hoursMinutes'' [(''hours'', int_string (minutes div 60)), (''minutes'', int_string (minutes mod 60))])"

text \<open>\<open>NaN\<close> falls through both comparisons.\<close>

definition format_elapsed :: "translate \<Rightarrow> int option \<Rightarrow> string" where
  "format_elapsed tr ms =
     (case ms of
        None \<Rightarrow> tr ''common:time.hoursMinutes'' [(''hours'', ''NaN''), (''minutes'', ''NaN'')]
      | Some d \<Rightarrow> formatSeconds tr (max 0 (d div 1000)))"

definition formatAge :: "translate \<Rightarrow> (string \<Rightarrow> int option) \<Rightarrow> int \<Rightarrow> string \<Rightarrow> string" where
  "formatAge tr ms_of now v =
     tr ''common:time.ago'' [(''value'', format_elapsed tr (map_option (\<lambda>s. now - s) (ms_of v)))]"

definition formatDuration :: "translate \<Rightarrow> (string \<Rightarrow> int option) \<Rightarrow> int \<Rightarrow> string \<Rightarrow> string option \<Rightarrow> string" where
  "formatDuration tr ms_of now start finish =
     (let stop = (if truthy_string finish then ms_of (nullish finish []) else Some now)
      in format_elapsed tr (case (stop, ms_of start) of (Some e, Some s) \<Rightarrow> Some (e - s) | _ \<Rightarrow> None))"

definition formatTime :: "(string \<Rightarrow> int option \<Rightarrow> string) \<Rightarrow> (string \<Rightarrow> int option) \<Rightarrow> string \<Rightarrow> string \<Rightarrow> string" where
  "formatTime clock ms_of loc v = clock loc (ms_of v)"

text \<open>The Go zero time is the first instant of the year 1, which is shown as missing.\<close>

definition formatOptionalTime ::
  "(string \<Rightarrow> int option \<Rightarrow> string) \<Rightarrow> (string \<Rightarrow> int option) \<Rightarrow> (int \<Rightarrow> int) \<Rightarrow> string option \<Rightarrow> string \<Rightarrow> string \<Rightarrow> string" where
  "formatOptionalTime clock ms_of utc_year v loc fallback =
     (if \<not> truthy_string v then fallback
      else case ms_of (nullish v []) of
             None \<Rightarrow> fallback
           | Some ms \<Rightarrow> if utc_year ms \<le> 1 then fallback else clock loc (Some ms))"

text \<open>\<open>x.toFixed(d)\<close> of a number that is not negative: the nearest multiple, ties upwards.\<close>

definition fixed_digits :: "nat \<Rightarrow> rat \<Rightarrow> nat" where
  "fixed_digits d x = nat \<lfloor>x * 10 ^ d + 1 / 2\<rfloor>"

definition pad_zeros :: "nat \<Rightarrow> string \<Rightarrow> string" where
  "pad_zeros d s = replicate (d - length s) CHR ''0'' @ s"

definition to_fixed :: "nat \<Rightarrow> rat \<Rightarrow> string" where
  "to_fixed d x =
     (let n = fixed_digits d x in
      if d = 0 then nat_string n
      else nat_string (n div 10 ^ d) @ ''.'' @ pad_zeros d (nat_string (n mod 10 ^ d)))"

definition formatBytes :: "int \<Rightarrow> string" where
  "formatBytes v =
     (if v < 1024 then int_string v @ '' B''
      else if v < 1024 ^ 2 then to_fixed 1 (of_int v / 1024) @ '' KiB''
      else if v < 1024 ^ 3 then to_fixed 1 (of_int v / 1024 ^ 2) @ '' MiB''
      else to_fixed 2 (of_int v / 1024 ^ 3) @ '' GiB'')"

section \<open>Lemmas\<close>

lemma fixed_digits_error:
  assumes "0 \<le> x"
  shows "\<bar>of_nat (fixed_digits d x) / 10 ^ d - x\<bar> \<le> 1 / (2 * 10 ^ d)"
proof -
  let ?y = "x * 10 ^ d"
  have "0 \<le> ?y + 1 / 2" using assms by simp
  then have n: "of_nat (fixed_digits d x) = (of_int \<lfloor>?y + 1 / 2\<rfloor> :: rat)"
    by (simp add: fixed_digits_def)
  have "\<bar>of_nat (fixed_digits d x) - ?y\<bar> \<le> 1 / 2"
    unfolding n using floor_correct [of "?y + 1 / 2"] by linarith
  then have "\<bar>of_nat (fixed_digits d x) - ?y\<bar> / 10 ^ d \<le> 1 / 2 / 10 ^ d"
    by (intro divide_right_mono) simp_all
  moreover have "of_nat (fixed_digits d x) / 10 ^ d - x = (of_nat (fixed_digits d x) - ?y) / 10 ^ d"
    by (simp add: diff_divide_distrib)
  then have "\<bar>of_nat (fixed_digits d x) / 10 ^ d - x\<bar> = \<bar>of_nat (fixed_digits d x) - ?y\<bar> / 10 ^ d"
    by (simp add: abs_divide)
  ultimately show ?thesis by simp
qed

end
