(* ===== verification/ConfigEditing.thy ===== *)
theory ConfigEditing
  imports ApiClient Confirmation Format
begin

text \<open>
  Editing the configuration in web/src/App.tsx: \<open>dirty\<close>, \<open>save\<close>, \<open>reload\<close>,
  \<open>confirmSettingsLeave\<close> and discarding. \<open>save\<close> is a script of awaited calls: the answers
  it gets are an argument, and the outcome lists the calls it makes and the state it
  sets. \<open>JSON.stringify\<close> is the argument \<open>to_json\<close>, and \<open>tr\<close> is the translation
  function, applied to a key and its interpolations.
\<close>

section \<open>State\<close>

record edit_state =
  ed_config :: "Config option"
  ed_savedConfig :: "Config option"
  ed_configState :: "ConfigRuntimeState option"
  ed_saving :: bool

definition dirty :: "edit_state \<Rightarrow> bool" where
  "dirty st \<longleftrightarrow>
     (case (ed_config st, ed_savedConfig st) of (Some c, Some s) \<Rightarrow> c \<noteq> s | _ \<Rightarrow> False)"

text \<open>Some section other than \<open>trafficPolicy\<close> differs.\<close>

definition ordinaryDirty :: "Config \<Rightarrow> Config option \<Rightarrow> bool" where
  "ordinaryDirty config saved =
     (case saved of
        None \<Rightarrow> False
      | Some s \<Rightarrow>
          cfg_schemaVersion config \<noteq> cfg_schemaVersion s \<or> cfg_server config \<noteq> cfg_server s \<or>
          cfg_upstream config \<noteq> cfg_upstream s \<or> cfg_upstreams config \<noteq> cfg_upstreams s \<or>
          cfg_egress config \<noteq> cfg_egress s \<or> cfg_retry config \<noteq> cfg_retry s \<or>
          cfg_stream config \<noteq> cfg_stream s \<or> cfg_queue config \<noteq> cfg_queue s \<or>
          cfg_history config \<noteq> cfg_history s \<or> cfg_observability config \<noteq> cfg_observability s \<or>
          cfg_capture config \<noteq> cfg_capture s \<or> cfg_localization config \<noteq> cfg_localization s \<or>
          cfg_risk config \<noteq> cfg_risk s \<or> cfg_notifications config \<noteq> cfg_notifications s \<or>
          cfg_logging config \<noteq> cfg_logging s \<or> cfg_persistence config \<noteq> cfg_persistence s \<or>
          cfg_incidents config \<noteq> cfg_incidents s \<or> cfg_lifecycle config \<noteq> cfg_lifecycle s \<or>
          cfg_managementSecurity config \<noteq> cfg_managementSecurity s \<or>
          cfg_metricsExport config \<noteq> cfg_metricsExport s \<or> cfg_governance config \<noteq> cfg_governance s \<or>
          cfg_slo config \<noteq> cfg_slo s)"

section \<open>The review dialog\<close>

definition configSectionLabelKeys :: "(string \<times> string) list" where
  "configSectionLabelKeys =
     [(''server'', ''service''), (''upstream'', ''service''), (''retry'', ''retry''), (''stream'', ''stream''),
      (''queue'', ''traffic''), (''history'', ''traffic''), (''observability'', ''observability''),
      (''capture'', ''capture''), (''risk'', ''risk''), (''localization'', ''localization''),
      (''notifications'', ''notifications''), (''logging'', ''logging''), (''persistence'', ''persistence''),
      (''incidents'', ''incidents''), (''lifecycle'', ''lifecycle''), (''governance'', ''governance''), (''slo'', ''slo''),
      (''traffic-policy'', ''policy''), (''upstreams'', ''upstreamPool''), (''egress'', ''egress''),
      (''management-security'', ''managementSecurity''), (''metrics-export'', ''metrics'')]"

definition sectionNames :: "translate \<Rightarrow> string list \<Rightarrow> string" where
  "sectionNames tr sections =
     (let names = first_by id (map (\<lambda>sec. case map_of configSectionLabelKeys sec of
            None \<Rightarrow> sec | Some key \<Rightarrow> tr (''settings:sections.'' @ key @ ''.title'') []) sections);
          joined = join_with '', '' names
      in if joined = [] then tr ''common:notAvailable'' [] else joined)"

definition save_dialog :: "translate \<Rightarrow> ConfigChangePlan \<Rightarrow> ConfirmDialogState" where
  "save_dialog tr plan =
     \<lparr>cd_title = tr ''settings:restartConfirmTitle'' [],
      cd_description =
        (if ccp_restartRequired plan
         then tr ''settings:restartConfirm'' [(''count'', nat_string (length (ccp_restartSections plan)))]
         else tr ''settings:reviewConfirm'' [(''count'', nat_string (length (ccp_changedSections plan)))]) @
        [CHR 0x0A] @
        tr ''settings:reviewPlan''
          [(''changed'', sectionNames tr (ccp_changedSections plan)),
           (''hot'', sectionNames tr (ccp_hotReloadSections plan)),
           (''restart'', sectionNames tr (ccp_restartSections plan))],
      cd_confirmLabel = Some (tr ''common:actions.save'' []), cd_tone = None\<rparr>"

section \<open>Saving\<close>

datatype toast = Toast_success string | Toast_error string | Toast_failure js_error string

record save_answers =
  an_validate :: "ConfigChangePlan js_result"
  an_confirm :: bool
  an_save :: "ConfigSaveResult js_result"
  an_state :: "ConfigRuntimeState js_result"
  an_monitor :: "unit js_result"

record save_outcome =
  so_calls :: "api_call list"
  so_dialog :: "ConfirmDialogState option"
  so_savedConfig :: "Config option"
  so_configState :: "ConfigRuntimeState option"
  so_toasts :: "toast list"

definition nothing_done :: save_outcome where
  "nothing_done = \<lparr>so_calls = [], so_dialog = None, so_savedConfig = None, so_configState = None, so_toasts = []\<rparr>"

definition configForGlobalSave :: "Config \<Rightarrow> Config option \<Rightarrow> Config" where
  "configForGlobalSave config saved =
     config\<lparr>cfg_trafficPolicy := (case saved of Some s \<Rightarrow> cfg_trafficPolicy s | None \<Rightarrow> cfg_trafficPolicy config)\<rparr>"

definition authenticationChanged :: "ConfigChangePlan \<Rightarrow> bool" where
  "authenticationChanged plan =
     (case ccp_fields plan of
        None \<Rightarrow> False
      | Some fs \<Rightarrow> (\<exists>f \<in> set fs. ccp_fields_path f = ''management-security.authentication''))"

definition saved_toast :: "translate \<Rightarrow> ConfigSaveResult \<Rightarrow> toast" where
  "saved_toast tr result =
     (if truthy_string (csr_backupPath result)
      then Toast_success (tr ''settings:savedBackup'' [(''path'', nullish (csr_backupPath result) [])])
      else if ccp_restartRequired (ConfigChangePlan.truncate result) then Toast_success (tr ''settings:savedRestart'' [])
      else Toast_success (tr ''settings:saved'' []))"

definition save :: "(Config \<Rightarrow> json) \<Rightarrow> translate \<Rightarrow> save_answers \<Rightarrow> edit_state \<Rightarrow> save_outcome" where
  "save to_json tr an st =
     (case ed_config st of
        None \<Rightarrow> nothing_done
      | Some config \<Rightarrow>
          if ed_saving st then nothing_done
          else if \<not> ordinaryDirty config (ed_savedConfig st)
          then nothing_done\<lparr>so_toasts := [Toast_error (tr ''settings:policy.unsavedHint'' [])]\<rparr>
          else
            let payload = configForGlobalSave config (ed_savedConfig st);
                o1 = nothing_done\<lparr>so_calls := [api_validateConfig (to_json payload)]\<rparr>
            in case an_validate an of
                 Inl e \<Rightarrow> o1\<lparr>so_toasts := [Toast_failure e ''save'']\<rparr>
               | Inr plan \<Rightarrow>
                   let o2 = o1\<lparr>so_dialog := Some (save_dialog tr plan)\<rparr>
                   in if \<not> an_confirm an then o2
                      else
                        let o3 = o2\<lparr>so_calls := so_calls o2 @ [api_saveConfig (to_json payload) (authenticationChanged plan)]\<rparr>
                        in case an_save an of
                             Inl e \<Rightarrow> o3\<lparr>so_toasts := [Toast_failure e ''save'']\<rparr>
                           | Inr result \<Rightarrow>
                               let o4 = o3\<lparr>so_savedConfig := Some payload, so_calls := so_calls o3 @ [api_configState]\<rparr>
                               in case an_state an of
                                    Inl e \<Rightarrow> o4\<lparr>so_toasts := [Toast_failure e ''save'']\<rparr>
                                  | Inr cs \<Rightarrow>
                                      let o5 = o4\<lparr>so_configState := Some cs, so_toasts := [saved_toast tr result]\<rparr>
                                      in case an_monitor an of
                                           Inl e \<Rightarrow> o5\<lparr>so_toasts := so_toasts o5 @ [Toast_failure e ''save'']\<rparr>
                                         | Inr _ \<Rightarrow> o5)"

text \<open>The state when \<open>save\<close> has ended: \<open>config\<close> is whatever the editor holds by then.\<close>

definition save_end :: "save_outcome \<Rightarrow> edit_state \<Rightarrow> edit_state" where
  "save_end out st =
     st\<lparr>ed_savedConfig := (case so_savedConfig out of None \<Rightarrow> ed_savedConfig st | Some c \<Rightarrow> Some c),
        ed_configState := (case so_configState out of None \<Rightarrow> ed_configState st | Some c \<Rightarrow> Some c),
        ed_saving := False\<rparr>"

section \<open>Reloading, leaving, discarding\<close>

definition reload_done :: "unit js_result \<Rightarrow> (Config \<times> ConfigRuntimeState) js_result \<Rightarrow> edit_state \<Rightarrow> edit_state" where
  "reload_done reloaded read st =
     (case reloaded of
        Inl _ \<Rightarrow> st
      | Inr _ \<Rightarrow>
          (case read of
             Inl _ \<Rightarrow> st
           | Inr (value, cs) \<Rightarrow> st\<lparr>ed_config := Some value, ed_savedConfig := Some value, ed_configState := Some cs\<rparr>))"

definition discard :: "edit_state \<Rightarrow> edit_state" where
  "discard st = st\<lparr>ed_config := ed_savedConfig st\<rparr>"

definition leave_dialog :: "translate \<Rightarrow> ConfirmDialogState" where
  "leave_dialog tr =
     \<lparr>cd_title = tr ''settings:leaveConfirmTitle'' [], cd_description = tr ''settings:leaveConfirm'' [],
      cd_confirmLabel = Some (tr ''settings:leaveConfirmAction'' []), cd_tone = Some Tone_danger\<rparr>"

text \<open>The answer of \<open>confirmSettingsLeave\<close> and the state after it.\<close>

definition confirmSettingsLeave :: "bool \<Rightarrow> edit_state \<Rightarrow> bool \<times> edit_state" where
  "confirmSettingsLeave confirmed st =
     (if \<not> dirty st then (True, st)
      else if confirmed \<and> ed_savedConfig st \<noteq> None then (confirmed, st\<lparr>ed_config := ed_savedConfig st\<rparr>)
      else (confirmed, st))"

definition warn_unload :: "edit_state \<Rightarrow> bool" where
  "warn_unload st = dirty st"

section \<open>Lemmas\<close>

lemma config_eqI: "\<not> ordinaryDirty c (Some s) \<Longrightarrow> cfg_trafficPolicy c = cfg_trafficPolicy s \<Longrightarrow> c = s"
  by (cases c; cases s) (simp add: ordinaryDirty_def)

lemma ordinaryDirty_global:
  "ordinaryDirty config (Some s) \<longleftrightarrow> configForGlobalSave config (Some s) \<noteq> s"
proof -
  have same: "ordinaryDirty (configForGlobalSave config (Some s)) (Some s) = ordinaryDirty config (Some s)"
    by (simp add: ordinaryDirty_def configForGlobalSave_def)
  have "\<not> ordinaryDirty s (Some s)" by (simp add: ordinaryDirty_def)
  moreover have "\<not> ordinaryDirty config (Some s) \<Longrightarrow> configForGlobalSave config (Some s) = s"
    using config_eqI [of "configForGlobalSave config (Some s)" s] same by (simp add: configForGlobalSave_def)
  ultimately show ?thesis using same by metis
qed

lemma global_save_policy: "cfg_trafficPolicy (configForGlobalSave config (Some s)) = cfg_trafficPolicy s"
  by (simp add: configForGlobalSave_def)

lemma save_calls:
  assumes "call \<in> set (so_calls (save to_json tr an st))"
  obtains config s where "ed_config st = Some config" "\<not> ed_saving st" "ed_savedConfig st = Some s"
    "ordinaryDirty config (Some s)"
    "call = api_validateConfig (to_json (configForGlobalSave config (Some s))) \<or> call = api_configState \<or>
     (\<exists>plan. an_validate an = Inr plan \<and> an_confirm an \<and>
        so_dialog (save to_json tr an st) = Some (save_dialog tr plan) \<and>
        call = api_saveConfig (to_json (configForGlobalSave config (Some s))) (authenticationChanged plan))"
proof (cases "ed_config st")
  case None
  with assms show ?thesis by (simp add: save_def nothing_done_def)
next
  case (Some config)
  with assms have busy: "\<not> ed_saving st" and od: "ordinaryDirty config (ed_savedConfig st)"
    by (auto simp: save_def nothing_done_def split: if_splits)
  then obtain s where s: "ed_savedConfig st = Some s"
    by (cases "ed_savedConfig st") (simp_all add: ordinaryDirty_def)
  show ?thesis
    using assms Some busy od s
    by (intro that [OF Some busy s]) (auto simp: save_def nothing_done_def Let_def split: sum.splits if_splits)
qed

lemma global_save_dirty:
  "c \<noteq> configForGlobalSave c (Some s) \<longleftrightarrow> cfg_trafficPolicy c \<noteq> cfg_trafficPolicy s"
proof
  assume "cfg_trafficPolicy c \<noteq> cfg_trafficPolicy s"
  then show "c \<noteq> configForGlobalSave c (Some s)" by (metis global_save_policy)
next
  assume "c \<noteq> configForGlobalSave c (Some s)"
  then show "cfg_trafficPolicy c \<noteq> cfg_trafficPolicy s" by (cases c) (auto simp: configForGlobalSave_def)
qed

section \<open>Properties\<close>

text \<open>
  Claim C14: a global save never carries an edited traffic policy. Every payload it sends,
  to validate or to save, has the policy of the saved configuration, and the save itself
  is sent only after the plan was validated and the review dialog confirmed, with the
  authentication confirmation exactly when the plan lists that field.
\<close>

theorem save_keeps_policy_out:
  assumes "call \<in> set (so_calls (save to_json tr an st))"
  shows "\<exists>config s. ed_config st = Some config \<and> ed_savedConfig st = Some s \<and> \<not> ed_saving st \<and>
     (call = api_configState \<or>
      (\<exists>payload. cfg_trafficPolicy payload = cfg_trafficPolicy s \<and>
         (call = api_validateConfig (to_json payload) \<or>
          (\<exists>plan. an_validate an = Inr plan \<and> an_confirm an \<and>
             so_dialog (save to_json tr an st) = Some (save_dialog tr plan) \<and>
             call = api_saveConfig (to_json payload) (authenticationChanged plan)))))"
  using assms by (rule save_calls) (use global_save_policy in blast)

definition rejecting_answers :: save_answers where
  "rejecting_answers = \<lparr>an_validate = Inl OtherReason, an_confirm = False, an_save = Inl OtherReason,
     an_state = Inl OtherReason, an_monitor = Inl OtherReason\<rparr>"

definition bumped :: "Config \<Rightarrow> edit_state" where
  "bumped s = \<lparr>ed_config = Some (s\<lparr>cfg_schemaVersion := cfg_schemaVersion s + 1\<rparr>), ed_savedConfig = Some s,
     ed_configState = None, ed_saving = False\<rparr>"

lemma bumped_calls: "so_calls (save (\<lambda>c. JNum (of_int (cfg_schemaVersion c))) (\<lambda>k xs. k) rejecting_answers (bumped s)) =
   [api_validateConfig (JNum (of_int (cfg_schemaVersion s + 1)))]"
  by (simp add: save_def rejecting_answers_def bumped_def ordinaryDirty_def nothing_done_def Let_def
      configForGlobalSave_def)

theorem save_keeps_policy_out_witness:
  "\<forall>s. \<exists>payload :: Config. cfg_trafficPolicy payload = cfg_trafficPolicy s \<and>
     so_calls (save (\<lambda>c. JNum (of_int (cfg_schemaVersion c))) (\<lambda>k xs. k) rejecting_answers (bumped s)) =
       [api_validateConfig (JNum (of_int (cfg_schemaVersion payload)))]"
proof
  fix s :: Config
  let ?call = "api_validateConfig (JNum (of_int (cfg_schemaVersion s + 1)))"
  have "?call \<in> set (so_calls (save (\<lambda>c. JNum (of_int (cfg_schemaVersion c))) (\<lambda>k xs. k) rejecting_answers (bumped s)))"
    by (simp only: bumped_calls list.set_intros)
  from save_keeps_policy_out [OF this] obtain payload :: Config where
    "cfg_trafficPolicy payload = cfg_trafficPolicy s" "?call = api_validateConfig (JNum (of_int (cfg_schemaVersion payload)))"
    by (auto simp: bumped_def rejecting_answers_def api_validateConfig_def api_configState_def no_init_def)
  then show "\<exists>payload :: Config. cfg_trafficPolicy payload = cfg_trafficPolicy s \<and>
     so_calls (save (\<lambda>c. JNum (of_int (cfg_schemaVersion c))) (\<lambda>k xs. k) rejecting_answers (bumped s)) =
       [api_validateConfig (JNum (of_int (cfg_schemaVersion payload)))]"
    unfolding bumped_calls by auto
qed

text \<open>
  After a successful save with no further edit the editor is dirty exactly when
  the traffic policy had been edited: that edit is kept in the editor, everything else is
  saved, and the editor is ready to save again.
\<close>

theorem save_leaves_only_policy_dirty:
  assumes "ed_config st = Some c" "ed_savedConfig st = Some s" "\<not> ed_saving st" "ordinaryDirty c (Some s)"
    "an_validate an = Inr plan" "an_confirm an" "an_save an = Inr result"
  shows "let st' = save_end (save to_json tr an st) st
     in ed_config st' = Some c \<and> (dirty st' \<longleftrightarrow> cfg_trafficPolicy c \<noteq> cfg_trafficPolicy s) \<and>
        \<not> ed_saving st' \<and>
        (\<exists>s'. ed_savedConfig st' = Some s' \<and> \<not> ordinaryDirty c (Some s') \<and> cfg_trafficPolicy s' = cfg_trafficPolicy s)"
proof -
  have saved: "so_savedConfig (save to_json tr an st) = Some (configForGlobalSave c (Some s))"
    using assms by (simp add: save_def Let_def nothing_done_def split: sum.splits)
  have "\<not> ordinaryDirty c (Some (configForGlobalSave c (Some s)))"
    by (simp add: ordinaryDirty_def configForGlobalSave_def)
  with saved assms(1) show ?thesis
    using global_save_dirty [of c s]
    by (simp add: save_end_def Let_def dirty_def global_save_policy)
qed

definition accepting_answers :: "ConfigSaveResult \<Rightarrow> save_answers" where
  "accepting_answers r = \<lparr>an_validate = Inr (ConfigChangePlan.truncate r), an_confirm = True, an_save = Inr r,
     an_state = Inl OtherReason, an_monitor = Inl OtherReason\<rparr>"

theorem save_leaves_only_policy_dirty_witness:
  "\<forall>s r. \<not> dirty (save_end (save (\<lambda>c. JNull) (\<lambda>k xs. k) (accepting_answers r) (bumped s)) (bumped s))"
proof (intro allI)
  fix s :: Config and r
  have "ordinaryDirty (s\<lparr>cfg_schemaVersion := cfg_schemaVersion s + 1\<rparr>) (Some s)" by (simp add: ordinaryDirty_def)
  from save_leaves_only_policy_dirty [OF _ _ _ this, of "bumped s" "accepting_answers r" "ConfigChangePlan.truncate r" r
      "\<lambda>c. JNull" "\<lambda>k xs. k"]
  show "\<not> dirty (save_end (save (\<lambda>c. JNull) (\<lambda>k xs. k) (accepting_answers r) (bumped s)) (bumped s))"
    by (simp add: bumped_def accepting_answers_def Let_def)
qed

text \<open>
  Leaving the settings is allowed only without losing edits silently: when
  \<open>confirmSettingsLeave\<close> allows it nothing unsaved is left, it is allowed unasked exactly
  when nothing was unsaved, and a refusal changes nothing.
\<close>

theorem leaving_settings_spec:
  "(fst (confirmSettingsLeave confirmed st) \<longrightarrow> \<not> dirty (snd (confirmSettingsLeave confirmed st))) \<and>
   fst (confirmSettingsLeave confirmed st) = (\<not> dirty st \<or> confirmed) \<and>
   (\<not> fst (confirmSettingsLeave confirmed st) \<longrightarrow> snd (confirmSettingsLeave confirmed st) = st)"
  by (auto simp: confirmSettingsLeave_def dirty_def split: option.splits)

theorem leaving_settings_spec_witness:
  "\<forall>s. fst (confirmSettingsLeave True (bumped s)) \<and> \<not> dirty (snd (confirmSettingsLeave True (bumped s)))"
  using leaving_settings_spec [of True] by (simp add: bumped_def)

end
