(* ===== verification/AppState.thy ===== *)
theory AppState
  imports EventFeed Navigation ConfigEditing
begin

text \<open>
  The root component of the console (web/src/App.tsx): its state, signing in and out, the
  refreshes, the realtime stream and the control actions. The state of the lists, the
  editor, the dialog, the views and the event feed is that of the theories that model
  them. Every asynchronous operation is split at its awaits; the data of a realtime event
  has the type its \<open>type\<close> announces, as the casts of the source assume.
\<close>

section \<open>State\<close>

datatype auth_reason = Auth_required | Auth_expired

record app =
  app_authenticated :: bool
  app_authReason :: "auth_reason option"
  app_session :: "SessionInfo option"
  app_status :: "Status option"
  app_healthSummary :: "HealthSummary option"
  app_edit :: edit_state
  app_loginOptions :: "LoginOptions option"
  app_upstreamStatus :: "UpstreamPoolStatus option"
  app_governanceStatus :: "GovernanceStatus option"
  app_policyStatus :: "PolicyStatus option"
  app_telemetryStatus :: "TelemetryStatus option"
  app_runtimeInfo :: "RuntimeInfo option"
  app_alerts :: "Alert list"
  app_lists :: list_state
  app_repeatTasks :: "RepeatTask list"
  app_timeline :: "HistoryRecord option"
  app_diagnostics :: "DiagnosticReport option"
  app_metrics :: "MetricsSnapshot option"
  app_metricErrors :: "MetricsErrors option"
  app_feed :: event_feed
  app_nav :: nav_state
  app_message :: string
  app_bootstrapError :: string
  app_confirm :: confirm_state

text \<open>The initial values of the state hooks; the view and the filters come from the location hash.\<close>

definition initial_app :: "string \<Rightarrow> app" where
  "initial_app hash =
     \<lparr>app_authenticated = True, app_authReason = None, app_session = None, app_status = None,
      app_healthSummary = None,
      app_edit = \<lparr>ed_config = None, ed_savedConfig = None, ed_configState = None, ed_saving = False\<rparr>,
      app_loginOptions = None, app_upstreamStatus = None, app_governanceStatus = None, app_policyStatus = None,
      app_telemetryStatus = None, app_runtimeInfo = None, app_alerts = [],
      app_lists = empty_lists (filtersFromHash hash View_history) (filtersFromHash hash View_incidents),
      app_repeatTasks = [], app_timeline = None, app_diagnostics = None, app_metrics = None, app_metricErrors = None,
      app_feed = \<lparr>feed_events = [], feed_cursor = 0\<rparr>,
      app_nav = \<lparr>nav_view = currentView hash, nav_hash = hash, nav_mobileTools = False\<rparr>,
      app_message = [], app_bootstrapError = [], app_confirm = initial_confirm\<rparr>"

definition has_capability :: "app \<Rightarrow> SessionInfo_capabilities \<Rightarrow> bool" where
  "has_capability st c = (case app_session st of None \<Rightarrow> False | Some s \<Rightarrow> c \<in> set (si_capabilities s))"

definition canOperate :: "app \<Rightarrow> bool" where
  "canOperate st = has_capability st SessionInfo_capabilities_Operate"

definition canSensitive :: "app \<Rightarrow> bool" where
  "canSensitive st = has_capability st SessionInfo_capabilities_Sensitive"

section \<open>Signing in and out\<close>

definition reset_lists :: "list_state \<Rightarrow> list_state" where
  "reset_lists ls = ls\<lparr>ls_history := [], ls_historyCursor := None, ls_historyHasMore := False, ls_incidents := [],
     ls_incidentResults := [], ls_incidentCursor := None, ls_incidentsHaveMore := False\<rparr>"

definition resetAuthentication :: "auth_reason option \<Rightarrow> app \<Rightarrow> app" where
  "resetAuthentication reason st =
     st\<lparr>app_authenticated := False, app_authReason := reason, app_session := None, app_status := None,
        app_healthSummary := None,
        app_edit := (app_edit st)\<lparr>ed_config := None, ed_savedConfig := None, ed_configState := None\<rparr>,
        app_upstreamStatus := None, app_governanceStatus := None, app_policyStatus := None,
        app_telemetryStatus := None, app_runtimeInfo := None, app_alerts := [],
        app_lists := reset_lists (app_lists st), app_repeatTasks := [], app_timeline := None,
        app_diagnostics := None, app_metrics := None, app_metricErrors := None,
        app_feed := \<lparr>feed_events = [], feed_cursor = 0\<rparr>,
        app_nav := (app_nav st)\<lparr>nav_mobileTools := False\<rparr>,
        app_message := [], app_bootstrapError := [],
        app_confirm := reset_confirmation (app_confirm st)\<rparr>"

text \<open>The callback given to the API client, and the three ends of a session.\<close>

definition onUnauthorized :: "string \<Rightarrow> app \<Rightarrow> app" where
  "onUnauthorized code st =
     resetAuthentication (Some (if code = ''SESSION_EXPIRED'' then Auth_expired else Auth_required)) st"

definition app_login :: "SessionInfo \<Rightarrow> app \<Rightarrow> app" where
  "app_login s st = st\<lparr>app_authReason := None, app_session := Some s, app_authenticated := True\<rparr>"

definition app_logout :: "app \<Rightarrow> app" where
  "app_logout st = resetAuthentication None st"

definition local_only :: LoginOptions where
  "local_only = \<lparr>lo_localEnabled = True, lo_oidc = \<lparr>lo_oidc_enabled = False, lo_oidc_available = False\<rparr>\<rparr>"

definition loginOptions_done :: "LoginOptions js_result \<Rightarrow> app \<Rightarrow> app" where
  "loginOptions_done res st =
     st\<lparr>app_loginOptions := Some (case res of Inl _ \<Rightarrow> local_only | Inr o1 \<Rightarrow> o1)\<rparr>"

section \<open>Loading\<close>

record refresh_data =
  rd_status :: Status
  rd_health :: HealthSummary
  rd_alerts :: "Alert list"
  rd_incidents :: IncidentPage
  rd_repeats :: "RepeatTask list"
  rd_upstreams :: UpstreamPoolStatus
  rd_governance :: GovernanceStatus
  rd_telemetry :: TelemetryStatus

definition refresh_calls :: "api_call list" where
  "refresh_calls = [api_status, api_healthSummary, api_alerts, refresh_incidents_call, api_repeatTasks,
     api_upstreamStatus, api_governanceStatus, api_telemetryStatus]"

definition refresh_done :: "refresh_data js_result \<Rightarrow> app \<Rightarrow> app" where
  "refresh_done res st =
     (case res of
        Inl e \<Rightarrow> st
      | Inr d \<Rightarrow> st\<lparr>app_status := Some (rd_status d), app_alerts := rd_alerts d,
                   app_lists := refresh_incidents_done (rd_incidents d) (app_lists st),
                   app_repeatTasks := rd_repeats d, app_healthSummary := Some (rd_health d),
                   app_upstreamStatus := Some (rd_upstreams d), app_governanceStatus := Some (rd_governance d),
                   app_telemetryStatus := Some (rd_telemetry d)\<rparr>)"

text \<open>\<open>policyStatus\<close> is the one call of \<open>refreshMonitoring\<close> whose failure is tolerated.\<close>

definition refreshMonitoring_done ::
  "(MetricsSnapshot \<times> MetricsErrors \<times> RuntimeInfo) js_result \<Rightarrow> PolicyStatus js_result \<Rightarrow> app \<Rightarrow> app" where
  "refreshMonitoring_done res pol st =
     (case res of
        Inl e \<Rightarrow> st
      | Inr (m, me, ri) \<Rightarrow>
          st\<lparr>app_metrics := Some m, app_metricErrors := Some me, app_runtimeInfo := Some ri,
             app_policyStatus := (case pol of Inl _ \<Rightarrow> None | Inr p \<Rightarrow> Some p)\<rparr>)"

definition bootstrap_session :: "SessionInfo js_result \<Rightarrow> bool \<Rightarrow> app \<Rightarrow> app" where
  "bootstrap_session res disposed st =
     (case res of Inl e \<Rightarrow> st | Inr s \<Rightarrow> if disposed then st else st\<lparr>app_session := Some s\<rparr>)"

definition config_loaded :: "Config \<Rightarrow> app \<Rightarrow> app" where
  "config_loaded c st = st\<lparr>app_edit := (app_edit st)\<lparr>ed_config := Some c, ed_savedConfig := Some c\<rparr>\<rparr>"

definition feed_loaded :: "MonitoringEventBatch \<Rightarrow> app \<Rightarrow> app" where
  "feed_loaded batch st =
     st\<lparr>app_feed := (app_feed st)\<lparr>feed_cursor := meb_nextAfter batch,
        feed_events := mergeMonitoringEvents (feed_events (app_feed st)) (meb_events batch) (meb_reset batch)
          monitoringEventCapacity\<rparr>\<rparr>"

section \<open>The realtime stream\<close>

datatype realtime =
    Rt_snapshot RealtimeSnapshot
  | Rt_status Status
  | Rt_alerts "Alert list"
  | Rt_incidents "Incident list"
  | Rt_metrics MetricsSnapshot
  | Rt_repeat_tasks "RepeatTask list"

fun realtime_event :: "realtime \<Rightarrow> app \<Rightarrow> app" where
  "realtime_event (Rt_snapshot s) st =
     (let st1 = st\<lparr>app_status := Some (rsnap_status s), app_alerts := rsnap_alerts s,
                   app_lists := (app_lists st)\<lparr>ls_incidents := rsnap_incidents s\<rparr>,
                   app_repeatTasks := rsnap_repeatTasks s\<rparr>
      in case rsnap_metrics s of None \<Rightarrow> st1 | Some m \<Rightarrow> st1\<lparr>app_metrics := Some m\<rparr>)"
| "realtime_event (Rt_status s) st = st\<lparr>app_status := Some s\<rparr>"
| "realtime_event (Rt_alerts a) st = st\<lparr>app_alerts := a\<rparr>"
| "realtime_event (Rt_incidents i) st = st\<lparr>app_lists := (app_lists st)\<lparr>ls_incidents := i\<rparr>\<rparr>"
| "realtime_event (Rt_metrics m) st = st\<lparr>app_metrics := Some m\<rparr>"
| "realtime_event (Rt_repeat_tasks r) st = st\<lparr>app_repeatTasks := r\<rparr>"

section \<open>Control\<close>

definition togglePause :: "Status option \<Rightarrow> api_call" where
  "togglePause status =
     (case status of
        None \<Rightarrow> api_pause
      | Some s \<Rightarrow>
          if stat_mode s = ''draining'' \<or> stat_mode s = ''maintenance'' \<or> stat_paused s then api_resume else api_pause)"

datatype control_mode = Mode_drain | Mode_maintenance

definition control_string :: "control_mode \<Rightarrow> string" where
  "control_string m = (case m of Mode_drain \<Rightarrow> ''drain'' | Mode_maintenance \<Rightarrow> ''maintenance'')"

definition control_dialog :: "translate \<Rightarrow> control_mode \<Rightarrow> ConfirmDialogState" where
  "control_dialog tr m =
     \<lparr>cd_title = tr (''common:control.'' @ control_string m @ ''.title'') [],
      cd_description = tr (''common:control.'' @ control_string m @ ''.description'') [],
      cd_confirmLabel = Some (tr (''common:control.'' @ control_string m @ ''.confirm'') []), cd_tone = Some Tone_danger\<rparr>"

definition setControlMode :: "control_mode \<Rightarrow> bool \<Rightarrow> api_call option" where
  "setControlMode m accepted =
     (if \<not> accepted then None else Some (case m of Mode_drain \<Rightarrow> api_drain | Mode_maintenance \<Rightarrow> api_maintenance))"

definition openTimeline_done :: "HistoryRecord js_result \<Rightarrow> app \<Rightarrow> app" where
  "openTimeline_done res st = (case res of Inl _ \<Rightarrow> st | Inr r \<Rightarrow> st\<lparr>app_timeline := Some r\<rparr>)"

definition runDiagnostics_done :: "DiagnosticReport js_result \<Rightarrow> app \<Rightarrow> app" where
  "runDiagnostics_done res st = (case res of Inl _ \<Rightarrow> st | Inr r \<Rightarrow> st\<lparr>app_diagnostics := Some r\<rparr>)"

text \<open>What is on the screen: the login, an error, the loading screen or the console.\<close>

datatype screen = Screen_login | Screen_error | Screen_loading | Screen_console

definition app_screen :: "app \<Rightarrow> screen" where
  "app_screen st =
     (if \<not> app_authenticated st then Screen_login
      else if app_bootstrapError st \<noteq> [] then Screen_error
      else if app_status st = None \<or> ed_config (app_edit st) = None \<or> ed_savedConfig (app_edit st) = None \<or>
              app_session st = None then Screen_loading
      else Screen_console)"

definition incident_mode :: "(string \<Rightarrow> int option) \<Rightarrow> int \<Rightarrow> Status \<Rightarrow> bool" where
  "incident_mode ms_of now s =
     (stat_upstream_state (stat_upstream s) = Status_upstream_state_Degraded \<and>
      (0 < stat_waiting s + stat_queued s \<or>
       (case stat_upstream_lastChecked (stat_upstream s) of
          None \<Rightarrow> False
        | Some t \<Rightarrow> t \<noteq> [] \<and> (case ms_of t of None \<Rightarrow> False | Some ms \<Rightarrow> 10000 \<le> now - ms))))"

section \<open>Late answers\<close>

text \<open>Everything that may still arrive after the session has ended.\<close>

inductive late_step :: "app \<Rightarrow> app \<Rightarrow> bool" where
  late_refresh: "late_step st (refresh_done r st)"
| late_monitoring: "late_step st (refreshMonitoring_done m p st)"
| late_session: "late_step st (bootstrap_session s disposed st)"
| late_config: "late_step st (config_loaded c st)"
| late_feed: "late_step st (feed_loaded batch st)"
| late_realtime: "late_step st (realtime_event ev st)"
| late_timeline: "late_step st (openTimeline_done t st)"
| late_diagnostics: "late_step st (runDiagnostics_done d st)"
| late_options: "late_step st (loginOptions_done o1 st)"
| late_unauthorized: "late_step st (onUnauthorized code st)"
| late_history: "late_step st (st\<lparr>app_lists := loadHistory_done cursor preserve page (app_lists st)\<rparr>)"
| late_incidents: "late_step st (st\<lparr>app_lists := loadIncidents_done cursor ipage (app_lists st)\<rparr>)"

lemma late_step_signed_out: "late_step st st' \<Longrightarrow> \<not> app_authenticated st \<Longrightarrow> \<not> app_authenticated st'"
proof (induction rule: late_step.induct)
  case (late_realtime st ev)
  then show ?case by (cases ev) (auto simp: Let_def split: option.splits)
qed (auto simp: refresh_done_def refreshMonitoring_done_def bootstrap_session_def config_loaded_def feed_loaded_def
    openTimeline_done_def runDiagnostics_done_def loginOptions_done_def onUnauthorized_def resetAuthentication_def
    split: sum.splits prod.splits)

interpretation late_system: step_system late_step "\<lambda>st. \<not> app_authenticated st" "\<lambda>st. \<not> app_authenticated st"
  by unfold_locales (simp_all add: late_step_signed_out)

section \<open>Properties\<close>



text \<open>
  A load of the event feed that is in flight when the session ends breaks the
  feed of the next session: its batch and cursor are stored over the reset ones, and the
  console then holds one event less than any log its cursor can stand for, although the
  same batch without the sign-out would have left it in step.
\<close>

theorem late_feed_breaks_sync:
  "\<exists>fetch batch st. let first = [sample_event 1 ''a'']; both = [sample_event 1 ''a'', sample_event 2 ''b''] in
     synced monitoringEventCapacity first (feed_events (app_feed st)) (feed_cursor (app_feed st)) \<and>
     readMonitoringEvents fetch 0 (feed_cursor (app_feed st)) 200 = Some (Inr batch, 1) \<and>
     synced monitoringEventCapacity both
       (feed_events (app_feed (feed_loaded batch st))) (feed_cursor (app_feed (feed_loaded batch st))) \<and>
     (\<forall>l. \<not> synced monitoringEventCapacity l
       (feed_events (app_feed (feed_loaded batch (resetAuthentication None st))))
       (feed_cursor (app_feed (feed_loaded batch (resetAuthentication None st)))))"
proof -
  let ?a = "sample_event 1 ''a''" and ?b = "sample_event 2 ''b''"
  let ?fetch = "\<lambda>k after limit. Inr \<lparr>mes_events = [?b], mes_nextAfter = 2, mes_oldestAfter = None, mes_hasMore = False,
    mes_hasGap = Some False\<rparr> :: MonitoringEvents js_result"
  let ?batch = "\<lparr>meb_events = [?b], meb_nextAfter = 2, meb_reset = False\<rparr>"
  let ?st = "(initial_app [])\<lparr>app_feed := \<lparr>feed_events = [?a], feed_cursor = 1\<rparr>\<rparr>"
  have read: "readMonitoringEvents ?fetch 0 1 200 = Some (Inr ?batch, 1)"
    unfolding readMonitoringEvents_def by (subst read_loop.simps) (simp add: sample_event_def)
  have merged: "mergeMonitoringEvents [?a] [?b] False monitoringEventCapacity = [?a, ?b]"
    by (simp add: mergeMonitoringEvents_def sample_event_def slice_last_def monitoringEventCapacity_def)
  have lone: "mergeMonitoringEvents [] [?b] False monitoringEventCapacity = [?b]"
    by (simp add: mergeMonitoringEvents_def sample_event_def slice_last_def monitoringEventCapacity_def)
  have "\<not> synced monitoringEventCapacity l [?b] 2" for l
  proof
    assume "synced monitoringEventCapacity l [?b] 2"
    then have "length l = 2" "[?b] = slice_last monitoringEventCapacity l" by (simp_all add: synced_def)
    then have "length [?b] = 2" by (simp add: slice_last_short monitoringEventCapacity_def)
    then show False by simp
  qed
  then show ?thesis
    using read merged lone
    by (intro exI [of _ ?fetch] exI [of _ ?batch] exI [of _ ?st])
       (simp add: Let_def synced_def feed_loaded_def resetAuthentication_def slice_last_def monitoringEventCapacity_def)
qed

text \<open>
  The pause button resumes whenever the gateway is held in any way, paused,
  draining or in maintenance, and pauses only a gateway that is running; draining and
  maintenance are requested only after a confirmation.
\<close>

theorem control_buttons:
  "(togglePause (Some s) = api_resume \<longleftrightarrow>
      stat_paused s \<or> stat_mode s = ''draining'' \<or> stat_mode s = ''maintenance'') \<and>
   togglePause (Some s) \<in> {api_resume, api_pause} \<and>
   (setControlMode m accepted = None \<longleftrightarrow> \<not> accepted)"
proof -
  have "api_pause \<noteq> api_resume"
    by (simp add: api_pause_def api_resume_def)
  then show ?thesis by (auto simp: togglePause_def setControlMode_def)
qed

end
