(* ===== verification/RetryPolicy.thy ===== *)
theory RetryPolicy
  imports ApiClient Confirmation
begin

text \<open>
  The retry-policy dialog of web/src/components/RetryPolicyDialog.tsx and the quick
  policies of web/src/views/RequestsView.tsx. A choice of a select is \<open>Custom\<close> or the
  milliseconds (or the pair) its option value spells. The text of a number input is either
  typed, and then read by \<open>js_number\<close>, or printed by the dialog from a number, and then
  read back as that number (\<open>Number(String(x)) = x\<close>). Arithmetic is exact.
\<close>

section \<open>Numbers\<close>

definition SECOND :: int where "SECOND = 1000"
definition MINUTE :: int where "MINUTE = 60 * SECOND"
definition HOUR :: int where "HOUR = 60 * MINUTE"
definition DAY :: int where "DAY = 24 * HOUR"

lemmas time_units = SECOND_def MINUTE_def HOUR_def DAY_def

text \<open>\<open>Number(text)\<close> on what a number input holds: a decimal literal or nothing; \<open>None\<close> is NaN.\<close>

definition scale10 :: "rat \<Rightarrow> int \<Rightarrow> rat" where
  "scale10 r e = (if 0 \<le> e then r * 10 ^ nat e else r / 10 ^ nat (- e))"

definition signed :: "string \<Rightarrow> bool \<times> string" where
  "signed s = (case s of
      [] \<Rightarrow> (False, [])
    | c # cs \<Rightarrow> if c = CHR ''-'' then (True, cs) else if c = CHR ''+'' then (False, cs) else (False, s))"

definition mantissa :: "string \<Rightarrow> rat option" where
  "mantissa s =
     (case split_at CHR ''.'' s of
        (whole, None) \<Rightarrow> if whole = [] then None else map_option of_nat (digits_value 0 whole)
      | (whole, Some decimals) \<Rightarrow>
          if whole = [] \<and> decimals = [] then None
          else map_option (\<lambda>n. scale10 (of_nat n) (- int (length decimals))) (digits_value 0 (whole @ decimals)))"

definition exponent :: "string option \<Rightarrow> int option" where
  "exponent e =
     (case e of
        None \<Rightarrow> Some 0
      | Some s \<Rightarrow>
          (case signed s of (neg, ds) \<Rightarrow>
             if ds = [] then None
             else map_option (\<lambda>n. if neg then - int n else int n) (digits_value 0 ds)))"

definition js_number :: "string \<Rightarrow> rat option" where
  "js_number s =
     (let t = js_trim s in
      if t = [] then Some 0
      else case signed t of (neg, body) \<Rightarrow>
        (case split_at CHR ''e'' (map (\<lambda>c. if c = CHR ''E'' then CHR ''e'' else c) body) of (m, e) \<Rightarrow>
          (case (mantissa m, exponent e) of
             (Some r, Some k) \<Rightarrow> Some (if neg then - scale10 r k else scale10 r k)
           | _ \<Rightarrow> None)))"

datatype field_text = Typed string | Printed rat

fun number_of :: "field_text \<Rightarrow> rat option" where
  "number_of (Typed s) = js_number s"
| "number_of (Printed r) = Some r"

definition js_round :: "rat \<Rightarrow> int" where
  "js_round r = \<lfloor>r + 1 / 2\<rfloor>"

section \<open>The form\<close>

datatype Preset = Preset_standard | Preset_fast | Preset_conservative | Preset_custom

datatype 'a choice = Custom | Chosen 'a

record FormState =
  fs_preset :: Preset
  fs_durationChoice :: "int choice"
  fs_customDurationValue :: field_text
  fs_customDurationUnit :: int
  fs_mode :: RetryScheduleMode
  fs_fixedChoice :: "int choice"
  fs_customFixedValue :: field_text
  fs_customFixedUnit :: int
  fs_randomChoice :: "(int \<times> int) choice"
  fs_customRandomMin :: field_text
  fs_customRandomMax :: field_text
  fs_customRandomUnit :: int
  fs_exponentialChoice :: "(int \<times> int) choice"
  fs_customExponentialBase :: field_text
  fs_customExponentialMax :: field_text
  fs_customExponentialUnit :: int
  fs_maxAttemptsChoice :: "int choice"
  fs_customMaxAttempts :: field_text
  fs_honorRetryAfter :: bool
  fs_overwrite :: bool
  fs_retryWaitingNow :: bool

definition fixedChoices :: "int list" where
  "fixedChoices = [5000, 15000, 30000, 60000, 300000, 900000]"

definition randomChoices :: "(int \<times> int) list" where
  "randomChoices = [(5000, 15000), (15000, 60000), (60000, 120000), (60000, 300000)]"

definition exponentialChoices :: "(int \<times> int) list" where
  "exponentialChoices = [(5000, 60000), (15000, 300000), (60000, 900000)]"

definition durationValue :: "field_text \<Rightarrow> int \<Rightarrow> int" where
  "durationValue v unit =
     (case number_of v of
        None \<Rightarrow> 0
      | Some parsed \<Rightarrow> if parsed \<le> 0 then 0 else js_round (parsed * of_int unit))"

definition fromMilliseconds :: "int \<Rightarrow> int \<Rightarrow> field_text \<times> int" where
  "fromMilliseconds milliseconds fallbackUnit =
     (let unit = (case find (\<lambda>candidate. candidate dvd milliseconds) [HOUR, MINUTE, SECOND] of
                    None \<Rightarrow> fallbackUnit | Some u \<Rightarrow> u)
      in (Printed (of_int milliseconds / of_int unit), unit))"

definition choiceFor :: "'a \<Rightarrow> 'a list \<Rightarrow> 'a choice" where
  "choiceFor v choices = (if v \<in> set choices then Chosen v else Custom)"

definition rangeFromMilliseconds :: "int \<Rightarrow> int \<Rightarrow> field_text \<times> field_text \<times> int" where
  "rangeFromMilliseconds minimum maximum =
     (let unit = (case find (\<lambda>candidate. candidate dvd minimum \<and> candidate dvd maximum) [HOUR, MINUTE, SECOND] of
                    None \<Rightarrow> SECOND | Some u \<Rightarrow> u)
      in (Printed (of_int minimum / of_int unit), Printed (of_int maximum / of_int unit), unit))"

text \<open>\<open>v || d\<close> on an optional number.\<close>

definition or_int :: "int option \<Rightarrow> int \<Rightarrow> int" where
  "or_int v d = (case v of None \<Rightarrow> d | Some x \<Rightarrow> if x = 0 then d else x)"

definition policyDefaults :: "RetryPolicyInfo option \<Rightarrow> FormState" where
  "policyDefaults policy =
     (let schedule = map_option rpi_schedule policy;
          duration = or_int (map_option rpi_durationMilliseconds policy) HOUR;
          durationCustom = fromMilliseconds duration MINUTE;
          mode = (case schedule of None \<Rightarrow> RetryScheduleMode_Random | Some s \<Rightarrow> rsi_mode s);
          fixed = or_int (Option.bind schedule rsi_intervalMilliseconds) 15000;
          randomMin = or_int (Option.bind schedule rsi_minimumIntervalMilliseconds) MINUTE;
          randomMax = or_int (Option.bind schedule rsi_maximumIntervalMilliseconds) (2 * MINUTE);
          exponentialBase = or_int (Option.bind schedule rsi_baseIntervalMilliseconds) MINUTE;
          exponentialMax = or_int (Option.bind schedule rsi_maximumIntervalMilliseconds) (15 * MINUTE);
          randomCustom = rangeFromMilliseconds randomMin randomMax;
          exponentialCustom = rangeFromMilliseconds exponentialBase exponentialMax;
          attempts = or_int (Option.bind policy rpi_maxAdditionalAttempts) 0
      in \<lparr>fs_preset = (if policy = None then Preset_standard else Preset_custom),
          fs_durationChoice = choiceFor duration [300000, 900000, 1800000, HOUR, 6 * HOUR, DAY],
          fs_customDurationValue = fst durationCustom,
          fs_customDurationUnit = snd durationCustom,
          fs_mode = mode,
          fs_fixedChoice = choiceFor fixed fixedChoices,
          fs_customFixedValue = fst (fromMilliseconds fixed SECOND),
          fs_customFixedUnit = snd (fromMilliseconds fixed SECOND),
          fs_randomChoice = choiceFor (randomMin, randomMax) randomChoices,
          fs_customRandomMin = fst randomCustom,
          fs_customRandomMax = fst (snd randomCustom),
          fs_customRandomUnit = snd (snd randomCustom),
          fs_exponentialChoice = choiceFor (exponentialBase, exponentialMax) exponentialChoices,
          fs_customExponentialBase = fst exponentialCustom,
          fs_customExponentialMax = fst (snd exponentialCustom),
          fs_customExponentialUnit = snd (snd exponentialCustom),
          fs_maxAttemptsChoice = (if attempts \<in> {3, 5, 10, 20} then Chosen attempts
                                  else if 0 < attempts then Custom else Chosen 0),
          fs_customMaxAttempts = Printed (of_int (if attempts = 0 then 3 else attempts)),
          fs_honorRetryAfter = (case policy of None \<Rightarrow> True | Some p \<Rightarrow> rpi_honorRetryAfter p),
          fs_overwrite = True,
          fs_retryWaitingNow = False\<rparr>)"

section \<open>Targets\<close>

definition actionFor :: "RequestInfo \<Rightarrow> bool \<Rightarrow> bool" where
  "actionFor req isRetry =
     (case req_actions req of
        Some a \<Rightarrow> if isRetry then ra_canRetryNow a else ra_canSetRetryPolicy a
      | None \<Rightarrow> if isRetry then req_state req = ''waiting'' \<or> req_state req = ''uncertain''
                else req_state req \<in> {''queued'', ''requesting'', ''waiting'', ''uncertain''})"

text \<open>\<open>year s\<close> is the UTC year of \<open>new Date(s)\<close>, \<open>None\<close> for an invalid date.\<close>

definition hasRetryPolicy :: "(string \<Rightarrow> int option) \<Rightarrow> RequestInfo \<Rightarrow> bool" where
  "hasRetryPolicy year req =
     (if req_retryPolicy req \<noteq> None \<or> 0 < or_int (req_retryIntervalMilliseconds req) 0 then True
      else if \<not> truthy_string (req_retryDeadline req) then False
      else case year (nullish (req_retryDeadline req) []) of None \<Rightarrow> False | Some y \<Rightarrow> 1 < y)"

section \<open>Building the policy\<close>

definition plain_schedule :: "RetryScheduleMode \<Rightarrow> RetryPolicyInput_schedule" where
  "plain_schedule m = \<lparr>rpin_schedule_mode = m, rpin_schedule_intervalMilliseconds = None,
     rpin_schedule_minimumIntervalMilliseconds = None, rpin_schedule_maximumIntervalMilliseconds = None,
     rpin_schedule_baseIntervalMilliseconds = None\<rparr>"

definition build_schedule :: "FormState \<Rightarrow> int \<Rightarrow> string + RetryPolicyInput_schedule" where
  "build_schedule form duration =
     (case fs_mode form of
        RetryScheduleMode_Fixed \<Rightarrow>
          (let interval = (case fs_fixedChoice form of
                 Custom \<Rightarrow> durationValue (fs_customFixedValue form) (fs_customFixedUnit form) | Chosen v \<Rightarrow> v)
           in if interval < 5 * SECOND \<or> interval \<ge> duration \<or> interval > DAY then Inl ''interval''
              else Inr ((plain_schedule RetryScheduleMode_Fixed)\<lparr>rpin_schedule_intervalMilliseconds := Some interval\<rparr>))
      | RetryScheduleMode_Random \<Rightarrow>
          (let (minimum, maximum) = (case fs_randomChoice form of
                 Custom \<Rightarrow> (durationValue (fs_customRandomMin form) (fs_customRandomUnit form),
                            durationValue (fs_customRandomMax form) (fs_customRandomUnit form))
               | Chosen p \<Rightarrow> p)
           in if minimum < 5 * SECOND \<or> maximum < minimum \<or> maximum \<ge> duration \<or> maximum > DAY then Inl ''interval''
              else Inr ((plain_schedule RetryScheduleMode_Random)
                     \<lparr>rpin_schedule_minimumIntervalMilliseconds := Some minimum,
                      rpin_schedule_maximumIntervalMilliseconds := Some maximum\<rparr>))
      | RetryScheduleMode_Exponential \<Rightarrow>
          (let (base, maximum) = (case fs_exponentialChoice form of
                 Custom \<Rightarrow> (durationValue (fs_customExponentialBase form) (fs_customExponentialUnit form),
                            durationValue (fs_customExponentialMax form) (fs_customExponentialUnit form))
               | Chosen p \<Rightarrow> p)
           in if base < 5 * SECOND \<or> maximum < base \<or> maximum \<ge> duration \<or> maximum > DAY then Inl ''interval''
              else Inr ((plain_schedule RetryScheduleMode_Exponential)
                     \<lparr>rpin_schedule_baseIntervalMilliseconds := Some base,
                      rpin_schedule_maximumIntervalMilliseconds := Some maximum\<rparr>))
      | m \<Rightarrow> Inr (plain_schedule m))"

text \<open>The attempts the form asks for; \<open>None\<close> when \<open>Number.isInteger\<close> fails.\<close>

definition form_attempts :: "FormState \<Rightarrow> int option" where
  "form_attempts form =
     (case fs_maxAttemptsChoice form of
        Chosen n \<Rightarrow> Some n
      | Custom \<Rightarrow>
          (case number_of (fs_customMaxAttempts form) of
             None \<Rightarrow> None
           | Some r \<Rightarrow> if r = of_int \<lfloor>r\<rfloor> then Some \<lfloor>r\<rfloor> else None))"

definition buildPolicy :: "FormState \<Rightarrow> string + RetryPolicyInput" where
  "buildPolicy form =
     (let duration = (case fs_durationChoice form of
            Custom \<Rightarrow> durationValue (fs_customDurationValue form) (fs_customDurationUnit form) | Chosen v \<Rightarrow> v)
      in if duration < 5 * SECOND \<or> duration > DAY then Inl ''duration''
         else case build_schedule form duration of
                Inl e \<Rightarrow> Inl e
              | Inr schedule \<Rightarrow>
                  (case form_attempts form of
                     None \<Rightarrow> Inl ''attempts''
                   | Some maxAttempts \<Rightarrow>
                       if maxAttempts < 0 \<or> maxAttempts > 1000 then Inl ''attempts''
                       else if fs_mode form = RetryScheduleMode_Immediate \<and> (maxAttempts < 1 \<or> maxAttempts > 20)
                       then Inl ''attempts''
                       else Inr \<lparr>rpin_durationMilliseconds = duration, rpin_schedule = schedule,
                                 rpin_maxAdditionalAttempts = (if maxAttempts = 0 then None else Some maxAttempts),
                                 rpin_honorRetryAfter = fs_honorRetryAfter form\<rparr>))"

definition estimate_by :: "int \<Rightarrow> int option \<Rightarrow> int option" where
  "estimate_by duration interval =
     (case interval of None \<Rightarrow> None | Some i \<Rightarrow> if i = 0 then None else Some (duration div i))"

definition estimateAttempts :: "RetryPolicyInput \<Rightarrow> int" where
  "estimateAttempts policy =
     (let s = rpin_schedule policy; d = rpin_durationMilliseconds policy
      in if or_int (rpin_maxAdditionalAttempts policy) 0 \<noteq> 0 then or_int (rpin_maxAdditionalAttempts policy) 0
         else (case rpin_schedule_mode s of
                 RetryScheduleMode_Fixed \<Rightarrow> nullish (estimate_by d (rpin_schedule_intervalMilliseconds s)) 0
               | RetryScheduleMode_Random \<Rightarrow> nullish (estimate_by d (rpin_schedule_minimumIntervalMilliseconds s)) 0
               | RetryScheduleMode_Exponential \<Rightarrow> nullish (estimate_by d (rpin_schedule_baseIntervalMilliseconds s)) 0
               | _ \<Rightarrow> 0))"

section \<open>Editing the form\<close>

definition applyPreset :: "Preset \<Rightarrow> FormState \<Rightarrow> FormState" where
  "applyPreset preset form =
     (case preset of
        Preset_standard \<Rightarrow> form\<lparr>fs_preset := Preset_standard, fs_durationChoice := Chosen HOUR,
          fs_mode := RetryScheduleMode_Random, fs_randomChoice := Chosen (60000, 120000),
          fs_maxAttemptsChoice := Chosen 0, fs_honorRetryAfter := True\<rparr>
      | Preset_fast \<Rightarrow> form\<lparr>fs_preset := Preset_fast, fs_durationChoice := Chosen (15 * MINUTE),
          fs_mode := RetryScheduleMode_Fixed, fs_fixedChoice := Chosen 15000,
          fs_maxAttemptsChoice := Chosen 20, fs_honorRetryAfter := True\<rparr>
      | Preset_conservative \<Rightarrow> form\<lparr>fs_preset := Preset_conservative, fs_durationChoice := Chosen (6 * HOUR),
          fs_mode := RetryScheduleMode_Exponential, fs_exponentialChoice := Chosen (60000, 900000),
          fs_maxAttemptsChoice := Chosen 0, fs_honorRetryAfter := True\<rparr>
      | Preset_custom \<Rightarrow> form)"

definition update_form :: "(FormState \<Rightarrow> FormState) \<Rightarrow> FormState \<Rightarrow> FormState" where
  "update_form changes form = (changes form)\<lparr>fs_preset := Preset_custom\<rparr>"

text \<open>The mode select: immediate retries need a limit, so a missing one becomes three.\<close>

definition choose_mode :: "RetryScheduleMode \<Rightarrow> FormState \<Rightarrow> FormState" where
  "choose_mode m form =
     update_form (\<lambda>f. if m = RetryScheduleMode_Immediate \<and> fs_maxAttemptsChoice form = Chosen 0
       then f\<lparr>fs_mode := m, fs_maxAttemptsChoice := Chosen 3\<rparr> else f\<lparr>fs_mode := m\<rparr>) form"

section \<open>Submitting\<close>

definition mode_string :: "RetryScheduleMode \<Rightarrow> string" where
  "mode_string m = (case m of RetryScheduleMode_Inherit \<Rightarrow> ''inherit'' | RetryScheduleMode_Immediate \<Rightarrow> ''immediate''
     | RetryScheduleMode_Fixed \<Rightarrow> ''fixed'' | RetryScheduleMode_Random \<Rightarrow> ''random''
     | RetryScheduleMode_Exponential \<Rightarrow> ''exponential'')"

definition number_prop :: "string \<Rightarrow> int option \<Rightarrow> json_object" where
  "number_prop name v = (case v of None \<Rightarrow> [] | Some n \<Rightarrow> [(name, JNum (of_int n))])"

definition policy_json :: "RetryPolicyInput \<Rightarrow> json_object" where
  "policy_json p =
     (let s = rpin_schedule p in
      [(''durationMilliseconds'', JNum (of_int (rpin_durationMilliseconds p))),
       (''schedule'', JObj ([(''mode'', JStr (mode_string (rpin_schedule_mode s)))] @
          number_prop ''intervalMilliseconds'' (rpin_schedule_intervalMilliseconds s) @
          number_prop ''minimumIntervalMilliseconds'' (rpin_schedule_minimumIntervalMilliseconds s) @
          number_prop ''baseIntervalMilliseconds'' (rpin_schedule_baseIntervalMilliseconds s) @
          number_prop ''maximumIntervalMilliseconds'' (rpin_schedule_maximumIntervalMilliseconds s)))] @
      number_prop ''maxAdditionalAttempts'' (rpin_maxAdditionalAttempts p) @
      [(''honorRetryAfter'', JBool (rpin_honorRetryAfter p))])"

datatype submit_step =
    Submit_invalid string
  | Submit_noEligible
  | Submit_ask int int RetryPolicyInput
  | Submit_send api_call

definition eligibleTargets :: "RequestInfo list \<Rightarrow> RequestInfo list" where
  "eligibleTargets targets = filter (\<lambda>r. actionFor r False) targets"

definition waitingTargets :: "RequestInfo list \<Rightarrow> RequestInfo list" where
  "waitingTargets targets = filter (\<lambda>r. req_state r = ''waiting'') (eligibleTargets targets)"

definition policy_call :: "RequestInfo list \<Rightarrow> RetryPolicyInput \<Rightarrow> FormState \<Rightarrow> api_call" where
  "policy_call eligible policy form =
     (let ids = map req_id eligible in
      if length ids = 1 then api_setRetryPolicy (hd ids) (policy_json policy) (fs_overwrite form)
      else api_batchRetryPolicy ids [(''policy'', JObj (policy_json policy)),
             (''overwrite'', JBool (fs_overwrite form)), (''retryWaitingNow'', JBool (fs_retryWaitingNow form))])"

text \<open>\<open>submit\<close> up to the first await: an error, the confirmation it asks for, or the call.\<close>

definition submit :: "RequestInfo list \<Rightarrow> FormState \<Rightarrow> submit_step" where
  "submit targets form =
     (case buildPolicy form of
        Inl e \<Rightarrow> Submit_invalid e
      | Inr policy \<Rightarrow>
          if eligibleTargets targets = [] then Submit_noEligible
          else let estimate = estimateAttempts policy * int (length (eligibleTargets targets))
               in if rpin_schedule_mode (rpin_schedule policy) = RetryScheduleMode_Immediate \<or> estimate > 100
                  then Submit_ask (int (length (eligibleTargets targets))) estimate policy
                  else Submit_send (policy_call (eligibleTargets targets) policy form))"

definition submit_confirmed :: "RequestInfo list \<Rightarrow> FormState \<Rightarrow> RetryPolicyInput \<Rightarrow> bool \<Rightarrow> api_call option" where
  "submit_confirmed targets form policy confirmed =
     (if confirmed then Some (policy_call (eligibleTargets targets) policy form) else None)"

definition reset_policy :: "RequestInfo list \<Rightarrow> api_call option" where
  "reset_policy targets =
     (let ids = map req_id (eligibleTargets targets) in
      if ids = [] then None
      else if length ids = 1 then Some (api_clearRetryPolicy (hd ids))
      else Some (api_batchRetryPolicy ids [(''reset'', JBool True)]))"

section \<open>Quick policies\<close>

definition quickPolicies :: "Preset \<Rightarrow> RetryPolicyInput option" where
  "quickPolicies name =
     (case name of
        Preset_standard \<Rightarrow> Some \<lparr>rpin_durationMilliseconds = HOUR,
          rpin_schedule = (plain_schedule RetryScheduleMode_Random)
            \<lparr>rpin_schedule_minimumIntervalMilliseconds := Some MINUTE,
             rpin_schedule_maximumIntervalMilliseconds := Some (2 * MINUTE)\<rparr>,
          rpin_maxAdditionalAttempts = None, rpin_honorRetryAfter = True\<rparr>
      | Preset_fast \<Rightarrow> Some \<lparr>rpin_durationMilliseconds = 15 * MINUTE,
          rpin_schedule = (plain_schedule RetryScheduleMode_Fixed)\<lparr>rpin_schedule_intervalMilliseconds := Some 15000\<rparr>,
          rpin_maxAdditionalAttempts = Some 20, rpin_honorRetryAfter = True\<rparr>
      | Preset_conservative \<Rightarrow> Some \<lparr>rpin_durationMilliseconds = 6 * HOUR,
          rpin_schedule = (plain_schedule RetryScheduleMode_Exponential)
            \<lparr>rpin_schedule_baseIntervalMilliseconds := Some MINUTE,
             rpin_schedule_maximumIntervalMilliseconds := Some (15 * MINUTE)\<rparr>,
          rpin_maxAdditionalAttempts = None, rpin_honorRetryAfter = True\<rparr>
      | Preset_custom \<Rightarrow> None)"

section \<open>Lemmas\<close>

lemma js_round_int [simp]: "js_round (of_int n) = n"
  by (simp add: js_round_def floor_unique)

lemma fromMilliseconds_value:
  assumes "0 < ms" "0 < fallback"
  shows "durationValue (fst (fromMilliseconds ms fallback)) (snd (fromMilliseconds ms fallback)) = ms"
proof -
  define unit where "unit = snd (fromMilliseconds ms fallback)"
  have "unit \<in> {HOUR, MINUTE, SECOND, fallback}"
    by (auto simp: unit_def fromMilliseconds_def Let_def find_Some_iff split: option.splits)
  then have unit: "0 < unit" using assms by (auto simp: time_units)
  have "fst (fromMilliseconds ms fallback) = Printed (of_int ms / of_int unit)"
    by (simp add: unit_def fromMilliseconds_def Let_def)
  then show ?thesis
    using unit assms unfolding unit_def [symmetric]
    by (simp add: durationValue_def zero_less_divide_iff not_le)
qed

lemma rangeFromMilliseconds_value:
  assumes "0 < a" "0 < b"
  shows "durationValue (fst (rangeFromMilliseconds a b)) (snd (snd (rangeFromMilliseconds a b))) = a"
    "durationValue (fst (snd (rangeFromMilliseconds a b))) (snd (snd (rangeFromMilliseconds a b))) = b"
proof -
  define unit where "unit = snd (snd (rangeFromMilliseconds a b))"
  have "unit \<in> {HOUR, MINUTE, SECOND}"
    by (auto simp: unit_def rangeFromMilliseconds_def Let_def split: option.splits dest!: find_Some_iff [THEN iffD1])
  then have unit: "0 < unit" by (auto simp: time_units)
  have "fst (rangeFromMilliseconds a b) = Printed (of_int a / of_int unit)"
    "fst (snd (rangeFromMilliseconds a b)) = Printed (of_int b / of_int unit)"
    by (simp_all add: unit_def rangeFromMilliseconds_def Let_def)
  then show "durationValue (fst (rangeFromMilliseconds a b)) (snd (snd (rangeFromMilliseconds a b))) = a"
    "durationValue (fst (snd (rangeFromMilliseconds a b))) (snd (snd (rangeFromMilliseconds a b))) = b"
    using unit assms unfolding unit_def [symmetric]
    by (simp_all add: durationValue_def zero_less_divide_iff not_le)
qed

text \<open>What the server accepts as a retry policy.\<close>

definition interval_ok :: "int \<Rightarrow> int \<Rightarrow> bool" where
  "interval_ok duration i \<longleftrightarrow> 5 * SECOND \<le> i \<and> i < duration \<and> i \<le> DAY"

definition schedule_ok :: "int \<Rightarrow> RetryPolicyInput_schedule \<Rightarrow> bool" where
  "schedule_ok duration s =
     (case rpin_schedule_mode s of
        RetryScheduleMode_Fixed \<Rightarrow>
          (case rpin_schedule_intervalMilliseconds s of
             Some i \<Rightarrow> s = (plain_schedule RetryScheduleMode_Fixed)\<lparr>rpin_schedule_intervalMilliseconds := Some i\<rparr> \<and>
               interval_ok duration i
           | None \<Rightarrow> False)
      | RetryScheduleMode_Random \<Rightarrow>
          (case (rpin_schedule_minimumIntervalMilliseconds s, rpin_schedule_maximumIntervalMilliseconds s) of
             (Some i, Some j) \<Rightarrow> s = (plain_schedule RetryScheduleMode_Random)
               \<lparr>rpin_schedule_minimumIntervalMilliseconds := Some i, rpin_schedule_maximumIntervalMilliseconds := Some j\<rparr> \<and>
               i \<le> j \<and> interval_ok duration i \<and> interval_ok duration j
           | _ \<Rightarrow> False)
      | RetryScheduleMode_Exponential \<Rightarrow>
          (case (rpin_schedule_baseIntervalMilliseconds s, rpin_schedule_maximumIntervalMilliseconds s) of
             (Some i, Some j) \<Rightarrow> s = (plain_schedule RetryScheduleMode_Exponential)
               \<lparr>rpin_schedule_baseIntervalMilliseconds := Some i, rpin_schedule_maximumIntervalMilliseconds := Some j\<rparr> \<and>
               i \<le> j \<and> interval_ok duration i \<and> interval_ok duration j
           | _ \<Rightarrow> False)
      | m \<Rightarrow> s = plain_schedule m)"

definition attempts_ok :: "RetryScheduleMode \<Rightarrow> int option \<Rightarrow> bool" where
  "attempts_ok m a =
     (case a of
        None \<Rightarrow> m \<noteq> RetryScheduleMode_Immediate
      | Some n \<Rightarrow> 1 \<le> n \<and> n \<le> (if m = RetryScheduleMode_Immediate then 20 else 1000))"

definition valid_policy :: "RetryPolicyInput \<Rightarrow> bool" where
  "valid_policy p \<longleftrightarrow>
     5 * SECOND \<le> rpin_durationMilliseconds p \<and> rpin_durationMilliseconds p \<le> DAY \<and>
     schedule_ok (rpin_durationMilliseconds p) (rpin_schedule p) \<and>
     attempts_ok (rpin_schedule_mode (rpin_schedule p)) (rpin_maxAdditionalAttempts p)"

lemma plain_schedule_mode [simp]: "rpin_schedule_mode (plain_schedule m) = m"
  by (simp add: plain_schedule_def)

lemma build_schedule_ok:
  assumes "build_schedule form duration = Inr s"
  shows "rpin_schedule_mode s = fs_mode form \<and> schedule_ok duration s"
  using assms
  by (cases "fs_mode form")
     (auto simp: build_schedule_def schedule_ok_def interval_ok_def Let_def split: if_splits prod.splits)

text \<open>The parameters of a policy the server reports.\<close>

definition input_of :: "RetryPolicyInfo \<Rightarrow> RetryPolicyInput" where
  "input_of info =
     \<lparr>rpin_durationMilliseconds = rpi_durationMilliseconds info,
      rpin_schedule =
        \<lparr>rpin_schedule_mode = rsi_mode (rpi_schedule info),
         rpin_schedule_intervalMilliseconds = rsi_intervalMilliseconds (rpi_schedule info),
         rpin_schedule_minimumIntervalMilliseconds = rsi_minimumIntervalMilliseconds (rpi_schedule info),
         rpin_schedule_maximumIntervalMilliseconds = rsi_maximumIntervalMilliseconds (rpi_schedule info),
         rpin_schedule_baseIntervalMilliseconds = rsi_baseIntervalMilliseconds (rpi_schedule info)\<rparr>,
      rpin_maxAdditionalAttempts = rpi_maxAdditionalAttempts info,
      rpin_honorRetryAfter = rpi_honorRetryAfter info\<rparr>"

lemma choice_value: "(case choiceFor v choices of Custom \<Rightarrow> d | Chosen x \<Rightarrow> x) = (if v \<in> set choices then v else d)"
  by (simp add: choiceFor_def)

lemma defaults_duration:
  assumes "0 < rpi_durationMilliseconds info"
  shows "(case fs_durationChoice (policyDefaults (Some info)) of
      Custom \<Rightarrow> durationValue (fs_customDurationValue (policyDefaults (Some info)))
        (fs_customDurationUnit (policyDefaults (Some info)))
    | Chosen v \<Rightarrow> v) = rpi_durationMilliseconds info"
  using fromMilliseconds_value [OF assms, of MINUTE] assms
  by (simp add: policyDefaults_def Let_def choice_value or_int_def time_units)

lemma defaults_attempts:
  assumes "attempts_ok m (rpi_maxAdditionalAttempts info)"
  shows "form_attempts (policyDefaults (Some info)) = Some (nullish (rpi_maxAdditionalAttempts info) 0)"
  using assms
  by (cases "rpi_maxAdditionalAttempts info")
     (auto simp: form_attempts_def policyDefaults_def Let_def or_int_def attempts_ok_def)

lemma defaults_schedule:
  assumes "schedule_ok duration (rpin_schedule (input_of info))"
  shows "build_schedule (policyDefaults (Some info)) duration = Inr (rpin_schedule (input_of info))"
proof -
  let ?s = "rpi_schedule info" and ?f = "policyDefaults (Some info)"
  have pos: "0 < i" if "interval_ok duration i" for i
    using that by (simp add: interval_ok_def time_units)
  have mode: "fs_mode ?f = rsi_mode ?s" by (simp add: policyDefaults_def Let_def)
  show ?thesis
  proof (cases "rsi_mode ?s")
    case RetryScheduleMode_Fixed
    with assms obtain i where i: "rsi_intervalMilliseconds ?s = Some i" "interval_ok duration i"
      "rsi_minimumIntervalMilliseconds ?s = None" "rsi_maximumIntervalMilliseconds ?s = None"
      "rsi_baseIntervalMilliseconds ?s = None"
      by (auto simp: schedule_ok_def input_of_def plain_schedule_def split: option.splits)
    have "(case fs_fixedChoice ?f of Custom \<Rightarrow> durationValue (fs_customFixedValue ?f) (fs_customFixedUnit ?f)
        | Chosen v \<Rightarrow> v) = i"
      using fromMilliseconds_value [OF pos [OF i(2)], of SECOND] pos [OF i(2)] i(1)
      by (simp add: policyDefaults_def Let_def choice_value or_int_def time_units)
    with RetryScheduleMode_Fixed mode i show ?thesis
      by (auto simp: build_schedule_def Let_def input_of_def plain_schedule_def interval_ok_def)
  next
    case RetryScheduleMode_Random
    with assms obtain i j where i: "rsi_minimumIntervalMilliseconds ?s = Some i"
      "rsi_maximumIntervalMilliseconds ?s = Some j" "rsi_intervalMilliseconds ?s = None"
      "rsi_baseIntervalMilliseconds ?s = None" "i \<le> j" "interval_ok duration i" "interval_ok duration j"
      by (auto simp: schedule_ok_def input_of_def plain_schedule_def split: option.splits)
    have "(case fs_randomChoice ?f of Custom \<Rightarrow> (durationValue (fs_customRandomMin ?f) (fs_customRandomUnit ?f),
          durationValue (fs_customRandomMax ?f) (fs_customRandomUnit ?f)) | Chosen v \<Rightarrow> v) = (i, j)"
      using rangeFromMilliseconds_value [OF pos [OF i(6)] pos [OF i(7)]] pos [OF i(6)] pos [OF i(7)] i(1,2)
      by (simp add: policyDefaults_def Let_def choice_value or_int_def time_units)
    with RetryScheduleMode_Random mode i show ?thesis
      by (auto simp: build_schedule_def Let_def input_of_def plain_schedule_def interval_ok_def)
  next
    case RetryScheduleMode_Exponential
    with assms obtain i j where i: "rsi_baseIntervalMilliseconds ?s = Some i"
      "rsi_maximumIntervalMilliseconds ?s = Some j" "rsi_intervalMilliseconds ?s = None"
      "rsi_minimumIntervalMilliseconds ?s = None" "i \<le> j" "interval_ok duration i" "interval_ok duration j"
      by (auto simp: schedule_ok_def input_of_def plain_schedule_def split: option.splits)
    have "(case fs_exponentialChoice ?f of Custom \<Rightarrow>
          (durationValue (fs_customExponentialBase ?f) (fs_customExponentialUnit ?f),
           durationValue (fs_customExponentialMax ?f) (fs_customExponentialUnit ?f)) | Chosen v \<Rightarrow> v) = (i, j)"
      using rangeFromMilliseconds_value [OF pos [OF i(6)] pos [OF i(7)]] pos [OF i(6)] pos [OF i(7)] i(1,2)
      by (simp add: policyDefaults_def Let_def choice_value or_int_def time_units)
    with RetryScheduleMode_Exponential mode i show ?thesis
      by (auto simp: build_schedule_def Let_def input_of_def plain_schedule_def interval_ok_def)
  qed (use assms mode in \<open>simp_all add: build_schedule_def schedule_ok_def input_of_def\<close>)
qed

text \<open>The shortest wait of a schedule, when it has one.\<close>

definition shortest :: "RetryPolicyInput_schedule \<Rightarrow> int option" where
  "shortest s =
     (case rpin_schedule_mode s of
        RetryScheduleMode_Fixed \<Rightarrow> rpin_schedule_intervalMilliseconds s
      | RetryScheduleMode_Random \<Rightarrow> rpin_schedule_minimumIntervalMilliseconds s
      | RetryScheduleMode_Exponential \<Rightarrow> rpin_schedule_baseIntervalMilliseconds s
      | _ \<Rightarrow> None)"

lemma shortest_ok: "schedule_ok d s \<Longrightarrow> shortest s = Some i \<Longrightarrow> interval_ok d i"
  by (auto simp: schedule_ok_def shortest_def split: RetryScheduleMode.splits option.splits)

lemma estimate_unlimited:
  "rpin_maxAdditionalAttempts p = None \<Longrightarrow>
     estimateAttempts p = nullish (estimate_by (rpin_durationMilliseconds p) (shortest (rpin_schedule p))) 0"
  by (simp add: estimateAttempts_def shortest_def or_int_def Let_def estimate_by_def split: RetryScheduleMode.split)

lemma form_keeps_policy:
  assumes "valid_policy (input_of info)"
  shows "buildPolicy (policyDefaults (Some info)) = Inr (input_of info)"
proof -
  have dur: "5 * SECOND \<le> rpi_durationMilliseconds info" "rpi_durationMilliseconds info \<le> DAY"
    and sched: "schedule_ok (rpi_durationMilliseconds info) (rpin_schedule (input_of info))"
    and att: "attempts_ok (rsi_mode (rpi_schedule info)) (rpi_maxAdditionalAttempts info)"
    using assms by (simp_all add: valid_policy_def input_of_def)
  have "0 < rpi_durationMilliseconds info" using dur(1) by (simp add: time_units)
  note parts = defaults_duration [OF this] defaults_schedule [OF sched] defaults_attempts [OF att]
  have mode: "fs_mode (policyDefaults (Some info)) = rsi_mode (rpi_schedule info)"
    and honor: "fs_honorRetryAfter (policyDefaults (Some info)) = rpi_honorRetryAfter info"
    by (simp_all add: policyDefaults_def Let_def)
  have "input_of info = \<lparr>rpin_durationMilliseconds = rpi_durationMilliseconds info,
      rpin_schedule = rpin_schedule (input_of info), rpin_maxAdditionalAttempts = rpi_maxAdditionalAttempts info,
      rpin_honorRetryAfter = rpi_honorRetryAfter info\<rparr>" by (simp add: input_of_def)
  then show ?thesis
    using dur att
    by (cases "rpi_maxAdditionalAttempts info")
       (auto simp: buildPolicy_def Let_def parts mode honor attempts_ok_def split: if_splits)
qed

section \<open>Properties\<close>

text \<open>
  Every policy the dialog builds is valid: it lasts between five seconds and a
  day, its intervals are at least five seconds, ordered and shorter than it, its schedule
  has exactly the fields of the chosen mode, and its attempts are limited to 1000, or to
  between 1 and 20 for immediate retries.
\<close>

theorem buildPolicy_valid:
  assumes "buildPolicy form = Inr p"
  shows "valid_policy p \<and> rpin_schedule_mode (rpin_schedule p) = fs_mode form \<and>
     rpin_honorRetryAfter p = fs_honorRetryAfter form"
  using assms
  by (auto simp: buildPolicy_def Let_def valid_policy_def attempts_ok_def dest!: build_schedule_ok
      split: if_splits sum.splits option.splits)

theorem buildPolicy_valid_witness:
  "\<exists>p. buildPolicy (applyPreset Preset_fast (policyDefaults None)) = Inr p \<and> valid_policy p"
proof -
  obtain p where p: "buildPolicy (applyPreset Preset_fast (policyDefaults None)) = Inr p"
    by (simp add: buildPolicy_def applyPreset_def build_schedule_def form_attempts_def time_units Let_def)
  with buildPolicy_valid [OF p] show ?thesis by blast
qed

text \<open>
  Opening the dialog on a request and submitting it unchanged sends the policy
  the request already has, for every valid policy, whatever its intervals.
\<close>

theorem policy_form_roundtrip:
  assumes "valid_policy (input_of info)"
  shows "buildPolicy (policyDefaults (Some info)) = Inr (input_of info)"
  using assms by (rule form_keeps_policy)

definition odd_policy :: RetryPolicyInfo where
  "odd_policy = \<lparr>rpi_state = RetryPolicyInfo_state_Active, rpi_durationMilliseconds = 61500,
     rpi_schedule = \<lparr>rsi_mode = RetryScheduleMode_Random, rsi_intervalMilliseconds = None,
       rsi_minimumIntervalMilliseconds = Some 5250, rsi_maximumIntervalMilliseconds = Some 60000,
       rsi_baseIntervalMilliseconds = None\<rparr>,
     rpi_maxAdditionalAttempts = Some 7, rpi_additionalAttemptsUsed = 0, rpi_remainingAdditionalAttempts = None,
     rpi_honorRetryAfter = False, rpi_appliedAt = [], rpi_activatedAt = None, rpi_deadline = None\<rparr>"

theorem policy_form_roundtrip_witness:
  "buildPolicy (policyDefaults (Some odd_policy)) = Inr (input_of odd_policy)"
proof -
  have "valid_policy (input_of odd_policy)"
    by (simp add: valid_policy_def input_of_def odd_policy_def schedule_ok_def attempts_ok_def interval_ok_def
        plain_schedule_def time_units)
  then show ?thesis by (rule policy_form_roundtrip)
qed

text \<open>
  The presets of the dialog are the quick policies of the request list: applying
  a preset to any form builds exactly the policy that the quick menu sends.
\<close>

theorem presets_are_quick_policies:
  "preset \<noteq> Preset_custom \<longrightarrow> map_option Inr (quickPolicies preset) = Some (buildPolicy (applyPreset preset form))"
  by (cases preset)
     (simp_all add: quickPolicies_def buildPolicy_def applyPreset_def build_schedule_def form_attempts_def time_units)

theorem presets_are_quick_policies_witness:
  "map_option Inr (quickPolicies Preset_standard) = Some (buildPolicy (applyPreset Preset_standard (policyDefaults None)))"
  using presets_are_quick_policies [of Preset_standard "policyDefaults None"] by simp

text \<open>
  For a valid policy the estimate is its limit when it has one; otherwise, with a
  shortest wait of \<open>i\<close>, it is the number of whole waits that fit into the duration, at
  least one and never more than 17280.
\<close>

theorem estimateAttempts_spec:
  assumes "valid_policy p" "shortest (rpin_schedule p) = Some i"
  shows "case rpin_maxAdditionalAttempts p of
      Some n \<Rightarrow> estimateAttempts p = n
    | None \<Rightarrow> estimateAttempts p * i \<le> rpin_durationMilliseconds p \<and>
              rpin_durationMilliseconds p < (estimateAttempts p + 1) * i \<and>
              1 \<le> estimateAttempts p \<and> estimateAttempts p \<le> 17280"
proof (cases "rpin_maxAdditionalAttempts p")
  case (Some n)
  with assms(1) have "n \<noteq> 0" by (auto simp: valid_policy_def attempts_ok_def)
  with Some show ?thesis by (simp add: estimateAttempts_def or_int_def)
next
  case None
  let ?d = "rpin_durationMilliseconds p"
  have i: "5000 \<le> i" "i < ?d" "?d \<le> 86400000"
    using assms shortest_ok [of ?d "rpin_schedule p" i] by (auto simp: valid_policy_def interval_ok_def time_units)
  have est: "estimateAttempts p = ?d div i"
    using None assms(2) i by (simp add: estimate_unlimited estimate_by_def)
  have split: "?d div i * i + ?d mod i = ?d" by simp
  have rem: "0 \<le> ?d mod i" "?d mod i < i" using i by simp_all
  have one: "1 \<le> ?d div i" using i zdiv_mono1 [of i ?d i] by simp
  have "?d div i \<le> ?d div 5000" using i by (intro zdiv_mono2) simp_all
  also have "\<dots> \<le> 86400000 div 5000" using i by (intro zdiv_mono1) simp_all
  finally have "?d div i \<le> 17280" by simp
  moreover have "?d div i * i \<le> ?d" "?d < (?d div i + 1) * i"
    using split rem unfolding distrib_right by linarith+
  ultimately show ?thesis using None one by (simp add: est)
qed

theorem estimateAttempts_spec_witness:
  "\<exists>p. quickPolicies Preset_standard = Some p \<and> estimateAttempts p = 60 \<and> estimateAttempts p \<le> 17280"
proof -
  obtain p where p: "quickPolicies Preset_standard = Some p" by (simp add: quickPolicies_def)
  have "valid_policy p" "shortest (rpin_schedule p) = Some MINUTE"
    using p by (auto simp: quickPolicies_def valid_policy_def schedule_ok_def attempts_ok_def interval_ok_def
        plain_schedule_def time_units shortest_def)
  from estimateAttempts_spec [OF this] p show ?thesis
    by (auto simp: quickPolicies_def estimateAttempts_def or_int_def plain_schedule_def estimate_by_def time_units)
qed

text \<open>
  A policy goes out unconfirmed only when it is valid, not immediate, and
  estimated at no more than 100 attempts over all its targets; it is then addressed to
  one or more targets, each of which may have a policy set.
\<close>

theorem submit_without_confirmation:
  assumes "submit targets form = Submit_send c"
  shows "\<exists>p rs. valid_policy p \<and> rpin_schedule_mode (rpin_schedule p) \<noteq> RetryScheduleMode_Immediate \<and>
     rs \<noteq> [] \<and> subseq rs targets \<and> (\<forall>r \<in> set rs. actionFor r False) \<and>
     estimateAttempts p * int (length rs) \<le> 100 \<and> c = policy_call rs p form"
proof -
  from assms obtain p where p: "buildPolicy form = Inr p" "eligibleTargets targets \<noteq> []"
    "rpin_schedule_mode (rpin_schedule p) \<noteq> RetryScheduleMode_Immediate"
    "estimateAttempts p * int (length (eligibleTargets targets)) \<le> 100"
    "c = policy_call (eligibleTargets targets) p form"
    by (auto simp: submit_def Let_def split: sum.splits if_splits)
  have "valid_policy p"
    using p(1) by (auto simp: buildPolicy_def Let_def valid_policy_def attempts_ok_def dest!: build_schedule_ok
        split: if_splits sum.splits option.splits)
  with p show ?thesis
    by (intro exI [of _ p] exI [of _ "eligibleTargets targets"]) (auto simp: eligibleTargets_def)
qed

definition waiting_request :: RequestInfo where
  "waiting_request = \<lparr>req_id = ''r1'', req_clientId = None, req_taskId = None, req_method = ''POST'', req_path = ''/v1'',
     req_state = ''waiting'', req_attempt = 1, req_startedAt = [], req_updatedAt = [], req_nextRetryAt = None,
     req_lastError = None, req_lastErrorCode = None, req_lastErrorDetails = None, req_retryDeadline = None,
     req_retryIntervalMilliseconds = None, req_retryPolicy = None, req_actions = None, req_persistenceDegraded = None,
     req_persistencePending = None, req_uncertainSince = None, req_uncertainResolution = None,
     req_uncertainResolvedAt = None\<rparr>"

theorem submit_without_confirmation_witness:
  "\<exists>c p. submit [waiting_request] (policyDefaults None) = Submit_send c \<and> valid_policy p"
proof -
  obtain c where c: "submit [waiting_request] (policyDefaults None) = Submit_send c"
    by (simp add: submit_def buildPolicy_def policyDefaults_def Let_def or_int_def choiceFor_def build_schedule_def
        form_attempts_def randomChoices_def time_units eligibleTargets_def actionFor_def waiting_request_def
        estimateAttempts_def plain_schedule_def estimate_by_def)
  from submit_without_confirmation [OF c] c show ?thesis by blast
qed

end
