(* ===== verification/Requests.thy ===== *)
theory Requests
  imports RetryPolicy Format
begin

text \<open>
  The request list: web/src/views/RequestsView.tsx and
  web/src/components/RequestsTable.tsx. Filtering, the selection, the scope of the batch
  actions, the guards of every action and the calls they make. A selection is the list of
  selected identifiers in insertion order, as a JavaScript \<open>Set\<close> keeps them.
\<close>

section \<open>Guards\<close>

definition isUncertain :: "RequestInfo \<Rightarrow> bool" where
  "isUncertain r \<longleftrightarrow> req_state r = ''uncertain''"

definition canRetry :: "RequestInfo \<Rightarrow> bool" where
  "canRetry r \<longleftrightarrow> \<not> isUncertain r \<and>
     (case req_actions r of Some a \<Rightarrow> ra_canRetryNow a | None \<Rightarrow> req_state r = ''waiting'')"

definition canSetPolicy :: "RequestInfo \<Rightarrow> bool" where
  "canSetPolicy r \<longleftrightarrow> \<not> isUncertain r \<and>
     (case req_actions r of Some a \<Rightarrow> ra_canSetRetryPolicy a
      | None \<Rightarrow> req_state r \<in> {''queued'', ''requesting'', ''waiting''})"

definition canRepeat :: "RequestInfo \<Rightarrow> bool" where
  "canRepeat r \<longleftrightarrow> \<not> isUncertain r \<and>
     (case req_actions r of Some a \<Rightarrow> ra_canRepeat a | None \<Rightarrow> req_state r \<noteq> ''uncertain'')"

definition canCancel :: "RequestInfo \<Rightarrow> bool" where
  "canCancel r \<longleftrightarrow> \<not> (isUncertain r \<or> (case req_actions r of Some a \<Rightarrow> \<not> ra_canCancel a | None \<Rightarrow> False))"

section \<open>Policy summary\<close>

definition hasLegacyPolicy :: "(string \<Rightarrow> int option) \<Rightarrow> RequestInfo \<Rightarrow> bool" where
  "hasLegacyPolicy year r =
     (if 0 < or_int (req_retryIntervalMilliseconds r) 0 then True
      else if \<not> truthy_string (req_retryDeadline r) then False
      else case year (nullish (req_retryDeadline r) []) of None \<Rightarrow> False | Some y \<Rightarrow> 1 < y)"

text \<open>\<open>ms_of\<close> is the time of a date text; an invalid date compares false and counts as zero time left.\<close>

definition policyFor ::
  "(string \<Rightarrow> int option) \<Rightarrow> (string \<Rightarrow> int option) \<Rightarrow> int \<Rightarrow> RequestInfo \<Rightarrow> RetryPolicyInfo option" where
  "policyFor year ms_of now r =
     (case req_retryPolicy r of
        Some p \<Rightarrow> Some p
      | None \<Rightarrow>
          if \<not> hasLegacyPolicy year r then None
          else let deadline = req_retryDeadline r;
                   due = (if truthy_string deadline then ms_of (nullish deadline []) else None)
               in Some \<lparr>rpi_state = (case due of Some d \<Rightarrow> if d > now then RetryPolicyInfo_state_Active else RetryPolicyInfo_state_Pending
                                     | None \<Rightarrow> RetryPolicyInfo_state_Pending),
                        rpi_durationMilliseconds = (case due of Some d \<Rightarrow> max 0 (d - now) | None \<Rightarrow> 0),
                        rpi_schedule = \<lparr>rsi_mode = RetryScheduleMode_Fixed,
                          rsi_intervalMilliseconds = (if or_int (req_retryIntervalMilliseconds r) 0 = 0 then None
                                                      else req_retryIntervalMilliseconds r),
                          rsi_minimumIntervalMilliseconds = None, rsi_maximumIntervalMilliseconds = None,
                          rsi_baseIntervalMilliseconds = None\<rparr>,
                        rpi_maxAdditionalAttempts = None, rpi_additionalAttemptsUsed = 0,
                        rpi_remainingAdditionalAttempts = None, rpi_honorRetryAfter = True,
                        rpi_appliedAt = req_startedAt r, rpi_activatedAt = None, rpi_deadline = deadline\<rparr>)"

definition intervalLabel :: "translate \<Rightarrow> RetryPolicyInfo \<Rightarrow> string" where
  "intervalLabel tr policy =
     (let s = rpi_schedule policy;
          seconds = (\<lambda>v. formatSeconds tr (max 0 (js_round (of_int (nullish v 0) / 1000))))
      in case rsi_mode s of
           RetryScheduleMode_Fixed \<Rightarrow> tr ''requests:retryPolicy.summary.fixed'' [(''interval'', seconds (rsi_intervalMilliseconds s))]
         | RetryScheduleMode_Random \<Rightarrow> tr ''requests:retryPolicy.summary.random''
             [(''minimum'', seconds (rsi_minimumIntervalMilliseconds s)), (''maximum'', seconds (rsi_maximumIntervalMilliseconds s))]
         | RetryScheduleMode_Exponential \<Rightarrow> tr ''requests:retryPolicy.summary.exponential''
             [(''base'', seconds (rsi_baseIntervalMilliseconds s)), (''maximum'', seconds (rsi_maximumIntervalMilliseconds s))]
         | m \<Rightarrow> tr (''requests:retryPolicy.summary.'' @ mode_string m) [])"

section \<open>Filtering and selecting\<close>

definition visible_requests :: "string \<Rightarrow> string \<Rightarrow> RequestInfo list \<Rightarrow> RequestInfo list" where
  "visible_requests query state all_requests =
     filter (\<lambda>r. (state = ''all'' \<or> req_state r = state) \<and>
       (let needle = js_lower (js_trim query) in
        needle = [] \<or> (\<exists>v \<in> set [Some (req_id r), Some (req_path r), req_clientId r, req_taskId r].
          case v of None \<Rightarrow> False | Some x \<Rightarrow> js_includes (js_lower x) needle))) all_requests"

definition selectedRequests :: "string list \<Rightarrow> RequestInfo list \<Rightarrow> RequestInfo list" where
  "selectedRequests selected all_requests = filter (\<lambda>r. req_id r \<in> set selected) all_requests"

definition visibleSelectedRequests :: "string list \<Rightarrow> RequestInfo list \<Rightarrow> RequestInfo list \<Rightarrow> RequestInfo list" where
  "visibleSelectedRequests selected visible all_requests =
     filter (\<lambda>r. \<exists>v \<in> set visible. req_id v = req_id r) (selectedRequests selected all_requests)"

definition scopeRequests :: "string list \<Rightarrow> RequestInfo list \<Rightarrow> RequestInfo list \<Rightarrow> RequestInfo list" where
  "scopeRequests selected visible all_requests =
     (let vs = visibleSelectedRequests selected visible all_requests in if vs \<noteq> [] then vs else visible)"

definition toggle :: "string \<Rightarrow> string list \<Rightarrow> string list" where
  "toggle ident selected = (if ident \<in> set selected then removeAll ident selected else selected @ [ident])"

definition set_add :: "string list \<Rightarrow> string \<Rightarrow> string list" where
  "set_add selected ident = (if ident \<in> set selected then selected else selected @ [ident])"

definition toggleAll :: "RequestInfo list \<Rightarrow> string list \<Rightarrow> string list" where
  "toggleAll visible selected =
     (if \<forall>r \<in> set visible. req_id r \<in> set selected
      then fold (\<lambda>r s. removeAll (req_id r) s) visible selected
      else fold (\<lambda>r s. set_add s (req_id r)) visible selected)"

text \<open>The effect on a new status: drop what is no longer live.\<close>

definition prune_selection :: "RequestInfo list \<Rightarrow> string list \<Rightarrow> string list" where
  "prune_selection live selected = filter (\<lambda>i. i \<in> req_id ` set live) selected"

definition live_request :: "RequestInfo list \<Rightarrow> RequestInfo \<Rightarrow> RequestInfo" where
  "live_request all_requests target =
     (case find (\<lambda>r. req_id r = req_id target) all_requests of None \<Rightarrow> target | Some r \<Rightarrow> r)"

definition livePolicyTargets :: "RequestInfo list \<Rightarrow> RequestInfo list option \<Rightarrow> RequestInfo list option" where
  "livePolicyTargets all_requests targets = map_option (map (live_request all_requests)) targets"

definition liveRepeatRequest :: "RequestInfo list \<Rightarrow> RequestInfo option \<Rightarrow> RequestInfo option" where
  "liveRepeatRequest all_requests target = map_option (live_request all_requests) target"

definition liveUncertainRequest :: "RequestInfo list \<Rightarrow> RequestInfo option \<Rightarrow> RequestInfo option" where
  "liveUncertainRequest all_requests target =
     (case target of
        None \<Rightarrow> None
      | Some u \<Rightarrow>
          (case find (\<lambda>r. req_id r = req_id u) all_requests of
             None \<Rightarrow> None
           | Some live \<Rightarrow> if req_state live = ''uncertain'' then Some live else None))"

section \<open>Actions\<close>

datatype list_action = Act_none | Act_confirm nat | Act_call api_call

definition retry_call :: "RequestInfo list \<Rightarrow> api_call" where
  "retry_call eligible =
     (if length eligible = 1 then api_retry (req_id (hd eligible)) False
      else api_batchRetry (map req_id eligible) False)"

definition retryTargets :: "bool \<Rightarrow> RequestInfo list \<Rightarrow> list_action" where
  "retryTargets busy targets =
     (let eligible = filter canRetry targets in
      if eligible = [] \<or> busy then Act_none
      else if length eligible > 20 then Act_confirm (length eligible)
      else Act_call (retry_call eligible))"

definition retry_result :: "(bool + int \<times> int) \<Rightarrow> int \<times> int" where
  "retry_result r = (case r of Inl accepted \<Rightarrow> if accepted then (1, 0) else (0, 1) | Inr p \<Rightarrow> p)"

definition applyQuickPolicy :: "bool \<Rightarrow> RequestInfo list \<Rightarrow> list_action" where
  "applyQuickPolicy busy policyCapable =
     (if policyCapable = [] \<or> busy then Act_none else Act_confirm (length policyCapable))"

definition quick_call :: "RetryPolicyInput \<Rightarrow> RequestInfo list \<Rightarrow> api_call" where
  "quick_call policy policyCapable =
     (if length policyCapable = 1 then api_setRetryPolicy (req_id (hd policyCapable)) (policy_json policy) True
      else api_batchRetryPolicy (map req_id policyCapable)
             [(''policy'', JObj (policy_json policy)), (''overwrite'', JBool True)])"

definition resetPolicies :: "(string \<Rightarrow> int option) \<Rightarrow> bool \<Rightarrow> RequestInfo list \<Rightarrow> list_action" where
  "resetPolicies year busy policyCapable =
     (let targets = filter (hasRetryPolicy year) policyCapable in
      if targets = [] \<or> busy then Act_none
      else if length targets = 1 then Act_call (api_clearRetryPolicy (req_id (hd targets)))
      else Act_call (api_batchRetryPolicy (map req_id targets) [(''reset'', JBool True)]))"

definition cancelRequest :: "bool \<Rightarrow> RequestInfo \<Rightarrow> list_action" where
  "cancelRequest busy r = (if busy \<or> req_state r = ''uncertain'' then Act_none else Act_call (api_cancel (req_id r)))"

definition sparkline_points :: "rat list \<Rightarrow> (rat \<times> rat) list" where
  "sparkline_points values =
     (let maximum = Max (set (1 # values)) in
      map (\<lambda>(i, v). (if length values \<le> 1 then 0 else of_nat i / of_nat (length values - 1) * 120, 28 - v / maximum * 24))
        (enumerate 0 values))"

section \<open>Lemmas\<close>

lemma fold_remove: "set (fold (\<lambda>r s. removeAll (req_id r) s) rs sel) = set sel - req_id ` set rs"
  by (induction rs arbitrary: sel) auto

lemma fold_add: "set (fold (\<lambda>r s. set_add s (req_id r)) rs sel) = set sel \<union> req_id ` set rs"
  by (induction rs arbitrary: sel) (auto simp: set_add_def)

lemma scope_visible:
  assumes "set visible \<subseteq> set all_requests" "distinct (map req_id all_requests)"
  shows "set (scopeRequests selected visible all_requests) \<subseteq> set visible"
proof -
  have "r \<in> set visible" if "r \<in> set all_requests" "v \<in> set visible" "req_id v = req_id r" for r v
    using that assms by (metis distinct_map inj_onD subsetD)
  then show ?thesis
    by (auto simp: scopeRequests_def visibleSelectedRequests_def selectedRequests_def Let_def)
qed

section \<open>Properties\<close>

text \<open>
  Toggling works on what is visible. \<open>toggleAll\<close> selects every visible request,
  or deselects them when all were selected, and never touches the selection of a request
  that the filters hide; toggling one request changes that one only.
\<close>

theorem toggleAll_spec:
  "(if \<forall>r \<in> set visible. req_id r \<in> set selected
    then set (toggleAll visible selected) = set selected - req_id ` set visible
    else set (toggleAll visible selected) = set selected \<union> req_id ` set visible) \<and>
   set (toggle ident selected) = (if ident \<in> set selected then set selected - {ident} else insert ident (set selected))"
  by (simp add: toggleAll_def fold_remove fold_add toggle_def)

theorem toggleAll_spec_witness:
  "set (toggleAll [waiting_request] [''r9'']) = {''r9'', ''r1''}"
  using toggleAll_spec [of "[waiting_request]" "[''r9'']" "''r9''"] by (auto simp: waiting_request_def)

text \<open>
  A batch action reaches only requests that are on the screen, whatever is
  selected: its scope is the selected visible requests, or all visible ones when none of
  them is selected, and a request of uncertain delivery is never retried, cancelled or
  given a policy from the list.
\<close>

theorem batch_scope_visible:
  assumes "distinct (map req_id all_requests)"
  shows "set (scopeRequests selected (visible_requests query state all_requests) all_requests) \<subseteq>
      set (visible_requests query state all_requests) \<and>
    (\<forall>r. canRetry r \<or> canSetPolicy r \<or> canRepeat r \<or> canCancel r \<longrightarrow> req_state r \<noteq> ''uncertain'') \<and>
    (\<forall>busy r. cancelRequest busy r \<noteq> Act_none \<longrightarrow> req_state r \<noteq> ''uncertain'')"
proof -
  have "set (visible_requests query state all_requests) \<subseteq> set all_requests"
    by (auto simp: visible_requests_def)
  from scope_visible [OF this assms] show ?thesis
    by (auto simp: canRetry_def canSetPolicy_def canRepeat_def canCancel_def isUncertain_def cancelRequest_def)
qed

theorem batch_scope_visible_witness:
  "set (scopeRequests [''r1''] (visible_requests '' R1 '' ''all'' [waiting_request]) [waiting_request]) \<subseteq>
     set (visible_requests '' R1 '' ''all'' [waiting_request])"
  using batch_scope_visible [of "[waiting_request]" "[''r1'']" "'' R1 ''" "''all''"] by simp

text \<open>
  Retrying a set of requests makes at most one call: none when none may be
  retried or the view is busy, a confirmation first for more than twenty, and otherwise a
  call addressed to exactly the requests that may be retried, in their order.
\<close>

theorem retryTargets_spec:
  "(retryTargets busy targets = Act_none \<longleftrightarrow> busy \<or> filter canRetry targets = []) \<and>
   (\<forall>n. retryTargets busy targets = Act_confirm n \<longrightarrow> n = length (filter canRetry targets) \<and> 20 < n) \<and>
   (\<forall>c. retryTargets busy targets = Act_call c \<longrightarrow>
      length (filter canRetry targets) \<le> 20 \<and>
      (case filter canRetry targets of
         [r] \<Rightarrow> c = api_retry (req_id r) False
       | rs \<Rightarrow> c = api_batchRetry (map req_id rs) False))"
proof -
  have "case rs of [r] \<Rightarrow> retry_call rs = api_retry (req_id r) False
      | _ \<Rightarrow> retry_call rs = api_batchRetry (map req_id rs) False" for rs
    by (auto simp: retry_call_def split: list.split)
  from this [of "filter canRetry targets"] show ?thesis
    by (auto simp: retryTargets_def Let_def split: list.splits if_splits)
qed

theorem retryTargets_spec_witness:
  "retryTargets False [waiting_request, waiting_request] = Act_call (api_batchRetry [''r1'', ''r1''] False)"
proof -
  have f: "filter canRetry [waiting_request, waiting_request] = [waiting_request, waiting_request]"
    by (simp add: canRetry_def isUncertain_def waiting_request_def)
  obtain c where c: "retryTargets False [waiting_request, waiting_request] = Act_call c"
    by (simp add: retryTargets_def f del: filter.simps)
  have "c = api_batchRetry [''r1'', ''r1''] False"
    using retryTargets_spec [of False "[waiting_request, waiting_request]"] c unfolding f
    by (auto simp: waiting_request_def)
  with c show ?thesis by simp
qed

end
