(* ===== verification/Lifecycle.thy ===== *)
theory Lifecycle
  imports RequestTypes Prelude
begin

text \<open>
  The life of a proxied request as the gateway keeps it (internal/lifecycle/state.go): the
  states, the transitions between them and which states are final; and the actions that
  the admin API offers in each state (internal/state/retry_policy.go). The offered actions
  travel to the console as the record \<open>RequestActions\<close> of its wire types.
\<close>

section \<open>States and transitions\<close>

datatype State =
    StateReceived | StateQueued | StateForwarding | StateUncertain | StateWaiting | StateBuffering | StateDelivering
  | StateCompleted | StateSuccessful | StateFailed | StateCanceled | StateRejected | StateExpired | StateOrphaned
  | StateConfirmedSuccess | StateAbandoned

fun state_text :: "State \<Rightarrow> string" where
  "state_text StateReceived = ''received''"
| "state_text StateQueued = ''queued''"
| "state_text StateForwarding = ''requesting''"
| "state_text StateUncertain = ''uncertain''"
| "state_text StateWaiting = ''waiting''"
| "state_text StateBuffering = ''buffering''"
| "state_text StateDelivering = ''delivering''"
| "state_text StateCompleted = ''completed''"
| "state_text StateSuccessful = ''successful''"
| "state_text StateFailed = ''failed''"
| "state_text StateCanceled = ''canceled''"
| "state_text StateRejected = ''rejected''"
| "state_text StateExpired = ''expired''"
| "state_text StateOrphaned = ''orphaned''"
| "state_text StateConfirmedSuccess = ''confirmed_success''"
| "state_text StateAbandoned = ''abandoned''"

fun transitions :: "State \<Rightarrow> State list" where
  "transitions StateReceived = [StateQueued, StateRejected, StateCanceled, StateExpired]"
| "transitions StateQueued = [StateForwarding, StateRejected, StateCanceled, StateExpired]"
| "transitions StateForwarding = [StateBuffering, StateUncertain, StateWaiting, StateCanceled, StateFailed, StateExpired]"
| "transitions StateUncertain =
     [StateWaiting, StateCanceled, StateFailed, StateExpired, StateConfirmedSuccess, StateAbandoned]"
| "transitions StateWaiting = [StateForwarding, StateCanceled, StateFailed, StateExpired]"
| "transitions StateBuffering = [StateDelivering, StateWaiting, StateCanceled, StateFailed, StateExpired]"
| "transitions StateDelivering = [StateCompleted, StateCanceled, StateFailed, StateExpired]"
| "transitions StateCompleted = [StateSuccessful]"
| "transitions _ = []"

definition ValidateTransition :: "State \<Rightarrow> State \<Rightarrow> bool" where
  "ValidateTransition a b \<longleftrightarrow> a = b \<or> b \<in> set (transitions a)"

fun IsTerminal :: "State \<Rightarrow> bool" where
  "IsTerminal StateSuccessful = True"
| "IsTerminal StateFailed = True"
| "IsTerminal StateCanceled = True"
| "IsTerminal StateRejected = True"
| "IsTerminal StateExpired = True"
| "IsTerminal StateOrphaned = True"
| "IsTerminal StateConfirmedSuccess = True"
| "IsTerminal StateAbandoned = True"
| "IsTerminal _ = False"

section \<open>Actions\<close>

definition actionsForState :: "State \<Rightarrow> RequestActions" where
  "actionsForState s =
     (let base = \<lparr>ra_canRetryNow = False, ra_canSetRetryPolicy = False, ra_retryRequiresConfirmation = False,
                  ra_canCancel = \<not> IsTerminal s, ra_canRepeat = \<not> IsTerminal s\<rparr>
      in case s of
           StateWaiting \<Rightarrow> base\<lparr>ra_canRetryNow := True, ra_canSetRetryPolicy := True\<rparr>
         | StateUncertain \<Rightarrow>
             base\<lparr>ra_canRetryNow := False, ra_canSetRetryPolicy := False, ra_canCancel := False, ra_canRepeat := False,
                  ra_retryRequiresConfirmation := True\<rparr>
         | StateQueued \<Rightarrow> base\<lparr>ra_canSetRetryPolicy := True\<rparr>
         | StateForwarding \<Rightarrow> base\<lparr>ra_canSetRetryPolicy := True\<rparr>
         | _ \<Rightarrow> base)"

section \<open>Facts\<close>

lemma validate_refl [simp]: "ValidateTransition s s"
  by (simp add: ValidateTransition_def)

lemma terminal_transitions: "IsTerminal s \<Longrightarrow> transitions s = []"
  by (cases s) simp_all

lemma terminal_final: "IsTerminal a \<Longrightarrow> ValidateTransition a b \<Longrightarrow> b = a"
  by (simp add: ValidateTransition_def terminal_transitions)

lemma stuck_terminal: "transitions s = [] \<longleftrightarrow> IsTerminal s"
  by (cases s) simp_all

lemma state_text_inj: "state_text a = state_text b \<longleftrightarrow> a = b"
  by (cases a; cases b) simp_all

lemma actions_simps [simp]:
  "ra_canRetryNow (actionsForState s) \<longleftrightarrow> s = StateWaiting"
  "ra_canSetRetryPolicy (actionsForState s) \<longleftrightarrow> s \<in> {StateWaiting, StateQueued, StateForwarding}"
  "ra_retryRequiresConfirmation (actionsForState s) \<longleftrightarrow> s = StateUncertain"
  "ra_canCancel (actionsForState s) \<longleftrightarrow> \<not> IsTerminal s \<and> s \<noteq> StateUncertain"
  "ra_canRepeat (actionsForState s) \<longleftrightarrow> \<not> IsTerminal s \<and> s \<noteq> StateUncertain"
  by (cases s; simp add: actionsForState_def)+


lemma waiting_only_source_of_retry:
  "ValidateTransition a StateForwarding \<longleftrightarrow> a \<in> {StateForwarding, StateQueued, StateWaiting}"
  by (cases a) (simp_all add: ValidateTransition_def)

lemma uncertain_source: "ValidateTransition a StateUncertain \<longleftrightarrow> a \<in> {StateUncertain, StateForwarding}"
  by (cases a) (simp_all add: ValidateTransition_def)

lemma rejected_source: "ValidateTransition a StateRejected \<longleftrightarrow> a \<in> {StateRejected, StateReceived, StateQueued}"
  by (cases a) (simp_all add: ValidateTransition_def)

end
