(* ===== verification/RetrySpec.thy ===== *)
theory RetrySpec
  imports Lifecycle Format
begin

text \<open>
  Retry policies on the gateway's side (internal/state/retry_policy.go): the specification
  of a policy and its validation, the policy a request carries once it has been applied,
  and what the admin API reports of it; and the waits the proxy draws from it
  (internal/proxy/retry_schedule.go). A \<open>time.Duration\<close> is an \<open>int\<close> of nanoseconds: every
  duration that passes the validation is at most a day, far inside 64 bits. A \<open>time.Time\<close>
  is an \<open>int option\<close> of nanoseconds, \<open>None\<close> for the zero time. The scheduling mode is the
  string the payload carries, since the code validates it.
\<close>

section \<open>Specifications\<close>

definition Millisecond :: int where "Millisecond = 1000000"
definition Second :: int where "Second = 1000 * Millisecond"
definition Hour :: int where "Hour = 3600 * Second"

definition MinimumRetryPolicyDuration :: int where "MinimumRetryPolicyDuration = 5 * Second"
definition MaximumRetryPolicyDuration :: int where "MaximumRetryPolicyDuration = 24 * Hour"
definition MaximumPolicyAttempts :: int where "MaximumPolicyAttempts = 1000"
definition MaximumImmediateAttempts :: int where "MaximumImmediateAttempts = 20"

lemmas go_units = Millisecond_def Second_def Hour_def MinimumRetryPolicyDuration_def MaximumRetryPolicyDuration_def
  MaximumPolicyAttempts_def MaximumImmediateAttempts_def

type_synonym time = "int option"

record RetrySchedule =
  rs_Mode :: string
  rs_Interval :: int
  rs_Minimum :: int
  rs_Maximum :: int
  rs_Base :: int

record RetryPolicySpec =
  sp_Duration :: int
  sp_Schedule :: RetrySchedule
  sp_MaxAdditionalAttempts :: int
  sp_HonorRetryAfter :: bool

definition validPolicyInterval :: "int \<Rightarrow> int \<Rightarrow> bool" where
  "validPolicyInterval interval duration \<longleftrightarrow>
     interval \<ge> MinimumRetryPolicyDuration \<and> interval \<le> MaximumRetryPolicyDuration \<and> interval < duration"

text \<open>\<open>True\<close> when \<open>Validate\<close> returns no error.\<close>

definition Validate :: "RetryPolicySpec \<Rightarrow> bool" where
  "Validate s =
     (let d = sp_Duration s; sch = sp_Schedule s; mode = rs_Mode sch
      in if d < MinimumRetryPolicyDuration \<or> d > MaximumRetryPolicyDuration then False
         else if sp_MaxAdditionalAttempts s < 0 \<or> sp_MaxAdditionalAttempts s > MaximumPolicyAttempts then False
         else if mode = ''inherit'' then True
         else if mode = ''immediate'' then
           \<not> (sp_MaxAdditionalAttempts s < 1 \<or> sp_MaxAdditionalAttempts s > MaximumImmediateAttempts)
         else if mode = ''fixed'' then validPolicyInterval (rs_Interval sch) d
         else if mode = ''random'' then
           \<not> (\<not> validPolicyInterval (rs_Minimum sch) d \<or> rs_Maximum sch < rs_Minimum sch \<or> rs_Maximum sch \<ge> d \<or>
              rs_Maximum sch > MaximumRetryPolicyDuration)
         else if mode = ''exponential'' then
           \<not> (\<not> validPolicyInterval (rs_Base sch) d \<or> rs_Maximum sch < rs_Base sch \<or> rs_Maximum sch \<ge> d \<or>
              rs_Maximum sch > MaximumRetryPolicyDuration)
         else False)"

section \<open>Applied policies\<close>

record RetryPolicy =
  rp_Duration :: int
  rp_Schedule :: RetrySchedule
  rp_MaxAdditionalAttempts :: int
  rp_HonorRetryAfter :: bool
  rp_AppliedAt :: time
  rp_ActivatedAt :: time
  rp_Deadline :: time
  rp_BaselineAttempt :: int
  rp_Interval :: int

definition NewRetryPolicy :: "RetryPolicySpec \<Rightarrow> time \<Rightarrow> RetryPolicy" where
  "NewRetryPolicy spec appliedAt =
     \<lparr>rp_Duration = sp_Duration spec, rp_Schedule = sp_Schedule spec,
      rp_MaxAdditionalAttempts = sp_MaxAdditionalAttempts spec, rp_HonorRetryAfter = sp_HonorRetryAfter spec,
      rp_AppliedAt = appliedAt, rp_ActivatedAt = None, rp_Deadline = None, rp_BaselineAttempt = 0,
      rp_Interval = rs_Interval (sp_Schedule spec)\<rparr>"

definition Active :: "RetryPolicy \<Rightarrow> bool" where
  "Active p \<longleftrightarrow> rp_ActivatedAt p \<noteq> None"

definition Exhausted :: "RetryPolicy \<Rightarrow> int \<Rightarrow> bool" where
  "Exhausted p attempt \<longleftrightarrow>
     rp_MaxAdditionalAttempts p > 0 \<and> attempt - rp_BaselineAttempt p \<ge> rp_MaxAdditionalAttempts p"

definition activatePolicy :: "RetryPolicy \<Rightarrow> int \<Rightarrow> int \<Rightarrow> RetryPolicy" where
  "activatePolicy p attempt now =
     p\<lparr>rp_ActivatedAt := Some now, rp_Deadline := Some (now + rp_Duration p), rp_BaselineAttempt := attempt\<rparr>"

definition policyPrimaryInterval :: "RetryPolicy \<Rightarrow> int" where
  "policyPrimaryInterval p =
     (let sch = rp_Schedule p; mode = rs_Mode sch
      in if mode = ''fixed'' then rs_Interval sch
         else if mode = ''random'' then rs_Minimum sch
         else if mode = ''exponential'' then rs_Base sch
         else 0)"

text \<open>Go's \<open>Duration.Milliseconds\<close> truncates towards zero.\<close>

definition Milliseconds :: "int \<Rightarrow> int" where
  "Milliseconds d = (if 0 \<le> d then d div Millisecond else - ((- d) div Millisecond))"

text \<open>What the admin API reports; the zero values that \<open>omitempty\<close> drops are kept as zeros here.\<close>

record go_policy_info =
  pi_State :: string
  pi_DurationMilliseconds :: int
  pi_Mode :: string
  pi_IntervalMilliseconds :: int
  pi_MinimumIntervalMilliseconds :: int
  pi_MaximumIntervalMilliseconds :: int
  pi_BaseIntervalMilliseconds :: int
  pi_MaxAdditionalAttempts :: int
  pi_AdditionalAttemptsUsed :: int
  pi_RemainingAdditionalAttempts :: int
  pi_HonorRetryAfter :: bool
  pi_AppliedAt :: time
  pi_ActivatedAt :: "time option"
  pi_Deadline :: "time option"

definition policy_Info :: "RetryPolicy \<Rightarrow> int \<Rightarrow> go_policy_info" where
  "policy_Info p attempt =
     (let used = (if Active p then max (attempt - rp_BaselineAttempt p) 0 else 0);
          remaining = (if rp_MaxAdditionalAttempts p > 0 then max (rp_MaxAdditionalAttempts p - used) 0 else 0);
          sch = rp_Schedule p
      in \<lparr>pi_State = (if Active p then ''active'' else ''pending''),
          pi_DurationMilliseconds = Milliseconds (rp_Duration p),
          pi_Mode = rs_Mode sch,
          pi_IntervalMilliseconds = Milliseconds (rs_Interval sch),
          pi_MinimumIntervalMilliseconds = Milliseconds (rs_Minimum sch),
          pi_MaximumIntervalMilliseconds = Milliseconds (rs_Maximum sch),
          pi_BaseIntervalMilliseconds = Milliseconds (rs_Base sch),
          pi_MaxAdditionalAttempts = rp_MaxAdditionalAttempts p,
          pi_AdditionalAttemptsUsed = used,
          pi_RemainingAdditionalAttempts = remaining,
          pi_HonorRetryAfter = rp_HonorRetryAfter p,
          pi_AppliedAt = rp_AppliedAt p,
          pi_ActivatedAt = (if Active p then Some (rp_ActivatedAt p) else None),
          pi_Deadline = (if Active p then Some (rp_Deadline p) else None)\<rparr>)"

section \<open>Waits\<close>

text \<open>
  The loop of \<open>exponentialDelay\<close> by its remaining steps. \<open>maximum/2\<close> truncates, which on
  the positive durations of a valid policy is \<open>div\<close>.
\<close>

fun exponential_steps :: "nat \<Rightarrow> int \<Rightarrow> int \<Rightarrow> int" where
  "exponential_steps 0 delay maximum = min delay maximum"
| "exponential_steps (Suc n) delay maximum =
     (if \<not> delay < maximum then min delay maximum
      else if delay > maximum div 2 then maximum
      else exponential_steps n (delay * 2) maximum)"

definition exponentialDelay :: "int \<Rightarrow> int \<Rightarrow> int \<Rightarrow> int" where
  "exponentialDelay base maximum index = exponential_steps (nat index) base maximum"

text \<open>\<open>draw n\<close> stands for \<open>random.Int63n(n)\<close>, a number from 0 to \<open>n - 1\<close>.\<close>

definition randomDelay :: "(int \<Rightarrow> int) \<Rightarrow> int \<Rightarrow> int \<Rightarrow> int" where
  "randomDelay draw minimum maximum =
     (if maximum \<le> minimum then minimum else minimum + draw (maximum - minimum + 1))"

text \<open>
  \<open>inheritMin\<close> and \<open>inheritMax\<close> are the intervals of the configuration, and \<open>after\<close> is the
  wait that the response's \<open>Retry-After\<close> header asks for, capped by the configuration.
\<close>

definition policyDelay :: "(int \<Rightarrow> int) \<Rightarrow> RetryPolicy \<Rightarrow> int \<Rightarrow> int \<Rightarrow> int \<Rightarrow> int \<Rightarrow> int" where
  "policyDelay draw p inheritMin inheritMax after attempt =
     (let sch = rp_Schedule p; mode = rs_Mode sch;
          delay = (if mode = ''immediate'' then 0
                   else if mode = ''fixed'' then rs_Interval sch
                   else if mode = ''random'' then randomDelay draw (rs_Minimum sch) (rs_Maximum sch)
                   else if mode = ''exponential'' then
                     (let d = exponentialDelay (rs_Base sch) (rs_Maximum sch) (max (attempt - rp_BaselineAttempt p) 0)
                      in randomDelay draw (max (rs_Base sch) (d div 2)) d)
                   else randomDelay draw inheritMin inheritMax)
      in if rp_HonorRetryAfter p then max delay after else delay)"

definition retryDelay :: "(int \<Rightarrow> int) \<Rightarrow> int \<Rightarrow> int \<Rightarrow> bool \<Rightarrow> int \<Rightarrow> int" where
  "retryDelay draw inheritMin inheritMax honor after =
     (let delay = randomDelay draw inheritMin inheritMax in if honor then max delay after else delay)"

datatype retryStopReason = retryStopNone | retryStopDenied | retryStopExpired | retryStopAttemptsExhausted

text \<open>\<open>retryable\<close> is \<open>shouldRetry(cfg, result)\<close>, \<open>maxAttempts\<close> the limit of the configuration.\<close>

definition retryPolicyStop ::
  "bool \<Rightarrow> int \<Rightarrow> bool \<Rightarrow> int \<Rightarrow> RetryPolicy option \<Rightarrow> int \<Rightarrow> retryStopReason" where
  "retryPolicyStop retryable maxAttempts permanent attempt policy now =
     (if permanent then retryStopDenied
      else case policy of
        Some p \<Rightarrow>
          if (case rp_Deadline p of None \<Rightarrow> True | Some t \<Rightarrow> \<not> now < t) then retryStopExpired
          else if Exhausted p attempt then retryStopAttemptsExhausted
          else retryStopNone
      | None \<Rightarrow>
          if \<not> retryable \<or> maxAttempts > 0 \<and> attempt \<ge> maxAttempts then retryStopDenied
          else retryStopNone)"

section \<open>Facts\<close>

lemma policy_Info_zero: "\<not> Active p \<Longrightarrow> pi_AdditionalAttemptsUsed (policy_Info p attempt) = 0"
  by (simp add: policy_Info_def Let_def)

lemma activatePolicy_simps [simp]:
  "Active (activatePolicy p a now)" "rp_Deadline (activatePolicy p a now) = Some (now + rp_Duration p)"
  "rp_ActivatedAt (activatePolicy p a now) = Some now" "rp_BaselineAttempt (activatePolicy p a now) = a"
  "rp_Duration (activatePolicy p a now) = rp_Duration p" "rp_Schedule (activatePolicy p a now) = rp_Schedule p"
  "rp_MaxAdditionalAttempts (activatePolicy p a now) = rp_MaxAdditionalAttempts p"
  "rp_HonorRetryAfter (activatePolicy p a now) = rp_HonorRetryAfter p"
  by (simp_all add: activatePolicy_def Active_def)

lemma exponential_steps_eq:
  "0 < delay \<Longrightarrow> exponential_steps n delay maximum = min maximum (delay * 2 ^ n)"
proof (induction n delay maximum rule: exponential_steps.induct)
  case (1 delay maximum)
  then show ?case by simp
next
  case (2 n delay maximum)
  have big: "delay \<le> delay * 2 ^ k" for k :: nat
    using 2(2) mult_left_mono [of 1 "2 ^ k :: int" delay] by simp
  consider "\<not> delay < maximum" | "delay < maximum" "delay > maximum div 2" | "delay < maximum" "\<not> delay > maximum div 2"
    by blast
  then show ?case
  proof cases
    case 1
    then show ?thesis using big [of "Suc n"] by simp
  next
    case 2
    then have "maximum \<le> delay * 2" by simp
    also have "\<dots> \<le> delay * 2 * 2 ^ n" using 2(1) \<open>0 < delay\<close> mult_left_mono [of 1 "2 ^ n :: int" "delay * 2"] by simp
    finally show ?thesis using 2 by (simp add: mult.assoc)
  next
    case 3
    with 2 show ?thesis by (simp add: mult.assoc)
  qed
qed

text \<open>The laws of \<open>Int63n\<close> that the waits rely on.\<close>

definition int63n_ok :: "(int \<Rightarrow> int) \<Rightarrow> bool" where
  "int63n_ok draw \<longleftrightarrow> (\<forall>n > 0. 0 \<le> draw n \<and> draw n < n)"

lemma randomDelay_range:
  assumes "int63n_ok draw"
  shows "minimum \<le> randomDelay draw minimum maximum \<and> randomDelay draw minimum maximum \<le> max minimum maximum"
proof (cases "maximum \<le> minimum")
  case False
  then have "0 < maximum - minimum + 1" by simp
  with assms have "0 \<le> draw (maximum - minimum + 1)" "draw (maximum - minimum + 1) < maximum - minimum + 1"
    unfolding int63n_ok_def by blast+
  with False show ?thesis by (simp add: randomDelay_def)
qed (simp add: randomDelay_def)

end
