(* ===== verification/Registry.thy ===== *)
theory Registry
  imports RetrySpec Reachability
begin

text \<open>
  The registry of the requests in flight and the admission controller of the gateway
  (internal/state/registry.go). A tracked request has its two signal channels of capacity
  one as flags (\<open>True\<close>: a signal is waiting) and its context as the flag \<open>tr_canceled\<close>. The
  map of requests is an association list in some iteration order. The clock \<open>now\<close>, the new
  identifier and the outcome \<open>err\<close> of each write to the timeline (\<open>None\<close>: written) are
  arguments; the counters never wrap.
\<close>

section \<open>State\<close>

type_synonym details = "(string \<times> json) list option"

record tracked_info =
  ti_ID :: string
  ti_ClientID :: string
  ti_TaskID :: string
  ti_Method :: string
  ti_Path :: string
  ti_State :: State
  ti_Attempt :: int
  ti_StartedAt :: time
  ti_UpdatedAt :: time
  ti_NextRetryAt :: time
  ti_LastError :: string
  ti_LastErrorCode :: string
  ti_LastErrorDetails :: details
  ti_RetryDeadline :: time
  ti_RetryIntervalMs :: int
  ti_RetryPolicy :: "go_policy_info option"
  ti_PersistenceDegraded :: bool
  ti_PersistencePending :: bool
  ti_UncertainSince :: time
  ti_UncertainResolution :: string
  ti_UncertainResolvedAt :: time

record trackedRequest =
  tr_info :: tracked_info
  tr_cancel :: bool
  tr_canceled :: bool
  tr_retryNow :: bool
  tr_policyChanged :: bool
  tr_policy :: "RetryPolicy option"
  tr_notified :: bool
  tr_successCounted :: bool

record UpstreamInfo =
  ui_State :: string
  ui_LastChecked :: time
  ui_LastError :: string
  ui_LastErrorCode :: string
  ui_LastErrorDetails :: details

record registry =
  rg_requests :: "(string \<times> trackedRequest) list"
  rg_total :: nat
  rg_success :: nat
  rg_failures :: nat
  rg_upstream :: UpstreamInfo
  rg_persistErr :: "string option"

definition NewRegistry :: registry where
  "NewRegistry = \<lparr>rg_requests = [], rg_total = 0, rg_success = 0, rg_failures = 0,
     rg_upstream = \<lparr>ui_State = [], ui_LastChecked = None, ui_LastError = [], ui_LastErrorCode = [], ui_LastErrorDetails = None\<rparr>,
     rg_persistErr = None\<rparr>"

datatype RequestActionReason =
    NotFound | StateNotRetryable | StateNotPolicyCapable | ConfirmationRequired | AlreadyRequested | PolicyExists
  | NoPolicy | PersistenceUnavailable | UncertainResolutionRequired

text \<open>An accepted action reports the state it was taken in, a skipped one also its reason; no state is \<open>None\<close>.\<close>

datatype RequestActionResult =
    acceptedAction string State
  | skippedAction string "State option" RequestActionReason

fun accepted :: "RequestActionResult \<Rightarrow> bool" where
  "accepted (acceptedAction ident s) = True"
| "accepted (skippedAction ident s r) = False"

fun result_state :: "RequestActionResult \<Rightarrow> State option" where
  "result_state (acceptedAction ident s) = Some s"
| "result_state (skippedAction ident s r) = s"

section \<open>Access\<close>

definition lookup :: "registry \<Rightarrow> string \<Rightarrow> trackedRequest option" where
  "lookup r ident = map_of (rg_requests r) ident"

definition put :: "string \<Rightarrow> trackedRequest \<Rightarrow> registry \<Rightarrow> registry" where
  "put ident t r = r\<lparr>rg_requests := map_set ident t (rg_requests r)\<rparr>"

definition drop_request :: "string \<Rightarrow> registry \<Rightarrow> registry" where
  "drop_request ident r = r\<lparr>rg_requests := filter (\<lambda>(k, t). k \<noteq> ident) (rg_requests r)\<rparr>"

definition map_info :: "(tracked_info \<Rightarrow> tracked_info) \<Rightarrow> trackedRequest \<Rightarrow> trackedRequest" where
  "map_info f t = t\<lparr>tr_info := f (tr_info t)\<rparr>"

text \<open>A send on a channel of capacity one that gives up when it is full.\<close>

definition signal_policy :: "trackedRequest \<Rightarrow> trackedRequest" where
  "signal_policy t = t\<lparr>tr_policyChanged := True\<rparr>"

definition signal_retry :: "trackedRequest \<Rightarrow> trackedRequest" where
  "signal_retry t = t\<lparr>tr_retryNow := True\<rparr>"

definition call_cancel :: "trackedRequest \<Rightarrow> trackedRequest" where
  "call_cancel t = (if tr_cancel t then t\<lparr>tr_canceled := True\<rparr> else t)"

section \<open>Persistence errors\<close>

definition recordPersistenceErrorLocked :: "string \<Rightarrow> string \<Rightarrow> int \<Rightarrow> registry \<Rightarrow> registry" where
  "recordPersistenceErrorLocked ident err now r =
     (let r1 = (case rg_persistErr r of None \<Rightarrow> r\<lparr>rg_persistErr := Some err\<rparr> | Some _ \<Rightarrow> r)
      in case lookup r1 ident of
           None \<Rightarrow> r1
         | Some t \<Rightarrow> put ident (map_info (\<lambda>i. i\<lparr>ti_PersistenceDegraded := True, ti_UpdatedAt := Some now\<rparr>) t) r1)"

definition recordPersistenceErrorFor :: "string \<Rightarrow> string option \<Rightarrow> int \<Rightarrow> registry \<Rightarrow> registry" where
  "recordPersistenceErrorFor ident err now r =
     (case err of None \<Rightarrow> r | Some e \<Rightarrow> recordPersistenceErrorLocked ident e now r)"

definition recordPersistenceError :: "string option \<Rightarrow> int \<Rightarrow> registry \<Rightarrow> registry" where
  "recordPersistenceError err now r = recordPersistenceErrorFor [] err now r"

definition RecordEvent :: "string \<Rightarrow> string option \<Rightarrow> int \<Rightarrow> registry \<Rightarrow> registry" where
  "RecordEvent ident err now r = recordPersistenceErrorFor ident err now r"

section \<open>Requests\<close>

definition new_request :: "string \<Rightarrow> string \<Rightarrow> string \<Rightarrow> bool \<Rightarrow> string \<times> string \<Rightarrow> int \<Rightarrow> trackedRequest" where
  "new_request ident verb path cancel identity now =
     \<lparr>tr_info = \<lparr>ti_ID = ident, ti_ClientID = fst identity, ti_TaskID = snd identity, ti_Method = verb, ti_Path = path,
        ti_State = StateQueued, ti_Attempt = 0, ti_StartedAt = Some now, ti_UpdatedAt = Some now, ti_NextRetryAt = None,
        ti_LastError = [], ti_LastErrorCode = [], ti_LastErrorDetails = None, ti_RetryDeadline = None, ti_RetryIntervalMs = 0,
        ti_RetryPolicy = None, ti_PersistenceDegraded = False, ti_PersistencePending = False, ti_UncertainSince = None,
        ti_UncertainResolution = [], ti_UncertainResolvedAt = None\<rparr>,
      tr_cancel = cancel, tr_canceled = False, tr_retryNow = False, tr_policyChanged = False, tr_policy = None,
      tr_notified = False, tr_successCounted = False\<rparr>"

definition AddWithIdentityChecked ::
  "string \<Rightarrow> string \<Rightarrow> string \<Rightarrow> bool \<Rightarrow> string \<times> string \<Rightarrow> string option \<Rightarrow> int \<Rightarrow> registry \<Rightarrow> (string + string) \<times> registry" where
  "AddWithIdentityChecked ident verb path cancel identity err now r =
     (case err of
        Some e \<Rightarrow> (Inl e, recordPersistenceError err now r)
      | None \<Rightarrow> (Inr ident, (put ident (new_request ident verb path cancel identity now) r)\<lparr>rg_total := rg_total r + 1\<rparr>))"

definition RequestInfo_of :: "string \<Rightarrow> registry \<Rightarrow> (tracked_info \<times> RequestActions) option" where
  "RequestInfo_of ident r =
     (case lookup r ident of
        None \<Rightarrow> None
      | Some t \<Rightarrow>
          (let info = tr_info t
           in Some ((case tr_policy t of
                       None \<Rightarrow> info | Some p \<Rightarrow> info\<lparr>ti_RetryPolicy := Some (policy_Info p (ti_Attempt info))\<rparr>),
                    actionsForState (ti_State info))))"

definition clear_compensation :: "State \<Rightarrow> tracked_info \<Rightarrow> tracked_info" where
  "clear_compensation status i =
     (if status = StateForwarding \<and> ti_UncertainResolution i = ''request_compensation''
      then i\<lparr>ti_UncertainResolution := [], ti_UncertainSince := None, ti_UncertainResolvedAt := None\<rparr> else i)"

definition mark_uncertain :: "State \<Rightarrow> int \<Rightarrow> tracked_info \<Rightarrow> tracked_info" where
  "mark_uncertain status now i =
     (if status = StateUncertain \<and> ti_UncertainSince i = None then i\<lparr>ti_UncertainSince := Some now\<rparr> else i)"

definition UpdateMessage ::
  "string \<Rightarrow> State \<Rightarrow> int \<Rightarrow> string \<times> details \<Rightarrow> time \<Rightarrow> int \<Rightarrow> registry \<Rightarrow> registry" where
  "UpdateMessage ident status attempt message nextRetry now r =
     (case lookup r ident of
        None \<Rightarrow> r
      | Some t \<Rightarrow>
          if \<not> ValidateTransition (ti_State (tr_info t)) status then r
          else put ident (map_info (\<lambda>i. mark_uncertain status now
                 ((clear_compensation status (i\<lparr>ti_State := status\<rparr>))
                    \<lparr>ti_Attempt := attempt, ti_LastError := [], ti_LastErrorCode := fst message,
                     ti_LastErrorDetails := snd message, ti_NextRetryAt := nextRetry, ti_UpdatedAt := Some now\<rparr>)) t) r)"

definition Update :: "string \<Rightarrow> State \<Rightarrow> int \<Rightarrow> string \<Rightarrow> time \<Rightarrow> int \<Rightarrow> registry \<Rightarrow> registry" where
  "Update ident status attempt lastError nextRetry now r =
     (let r1 = UpdateMessage ident status attempt ([], None) nextRetry now r
      in if lastError = [] then r1
         else case lookup r1 ident of
                None \<Rightarrow> r1 | Some t \<Rightarrow> put ident (map_info (\<lambda>i. i\<lparr>ti_LastError := lastError\<rparr>) t) r1)"

definition uncertain_resolutions :: "string list" where
  "uncertain_resolutions = [''abandon'', ''confirm_success'', ''request_compensation'']"

definition ResolveUncertain ::
  "string \<Rightarrow> string \<Rightarrow> string option \<Rightarrow> int \<Rightarrow> registry \<Rightarrow> RequestActionResult \<times> registry" where
  "ResolveUncertain ident resolution err now r =
     (case lookup r ident of
        None \<Rightarrow> (skippedAction ident None NotFound, r)
      | Some t \<Rightarrow>
          (let s = ti_State (tr_info t)
           in if s \<noteq> StateUncertain then (skippedAction ident (Some s) StateNotRetryable, r)
              else if ti_UncertainResolution (tr_info t) \<noteq> [] then (skippedAction ident (Some s) AlreadyRequested, r)
              else if resolution \<notin> set uncertain_resolutions then (skippedAction ident (Some s) StateNotRetryable, r)
              else case err of
                     Some e \<Rightarrow> (skippedAction ident (Some s) PersistenceUnavailable, recordPersistenceErrorLocked ident e now r)
                   | None \<Rightarrow>
                       (let t1 = map_info (\<lambda>i. i\<lparr>ti_UncertainResolution := resolution, ti_UncertainResolvedAt := Some now,
                                               ti_UpdatedAt := Some now\<rparr>) t
                        in (acceptedAction ident s,
                            put ident (if resolution = ''request_compensation'' then signal_retry t1 else call_cancel t1) r))))"

definition UncertainResolution :: "string \<Rightarrow> registry \<Rightarrow> string" where
  "UncertainResolution ident r = (case lookup r ident of None \<Rightarrow> [] | Some t \<Rightarrow> ti_UncertainResolution (tr_info t))"

text \<open>
  \<open>timeline.Finish\<close> and what follows it; \<open>Remove\<close> returns the error of the timeline, and
  no error when it refuses the transition.
\<close>

definition finish_removal :: "string \<Rightarrow> string option \<Rightarrow> int \<Rightarrow> registry \<Rightarrow> string option \<times> registry" where
  "finish_removal ident err now r =
     (case err of
        None \<Rightarrow> (None, drop_request ident r)
      | Some e \<Rightarrow>
          (let r1 = recordPersistenceErrorLocked ident e now r
           in (err, case lookup r1 ident of
                      None \<Rightarrow> r1
                    | Some t \<Rightarrow> put ident (map_info (\<lambda>i. i\<lparr>ti_PersistencePending := True\<rparr>) t) r1)))"

definition Remove :: "string \<Rightarrow> State \<Rightarrow> string option \<Rightarrow> int \<Rightarrow> registry \<Rightarrow> string option \<times> registry" where
  "Remove ident outcome err now r =
     (case lookup r ident of
        None \<Rightarrow> finish_removal ident err now r
      | Some t \<Rightarrow>
          if \<not> ValidateTransition (ti_State (tr_info t)) outcome then (None, r)
          else finish_removal ident err now
                 (if outcome = StateSuccessful \<and> \<not> tr_successCounted t
                  then (put ident (t\<lparr>tr_successCounted := True\<rparr>) r)\<lparr>rg_success := rg_success r + 1\<rparr> else r))"

definition RecordFailure :: "registry \<Rightarrow> registry" where
  "RecordFailure r = r\<lparr>rg_failures := rg_failures r + 1\<rparr>"

definition SetUpstreamMessage :: "bool \<Rightarrow> string \<times> details \<Rightarrow> int \<Rightarrow> registry \<Rightarrow> registry" where
  "SetUpstreamMessage healthy message now r =
     r\<lparr>rg_upstream := \<lparr>ui_State = (if healthy then ''healthy'' else ''degraded''), ui_LastChecked = Some now, ui_LastError = [],
        ui_LastErrorCode = fst message, ui_LastErrorDetails = snd message\<rparr>\<rparr>"

definition SetUpstream :: "bool \<Rightarrow> string \<Rightarrow> int \<Rightarrow> registry \<Rightarrow> registry" where
  "SetUpstream healthy reason now r =
     (let r1 = SetUpstreamMessage healthy ([], None) now r
      in if reason = [] then r1 else r1\<lparr>rg_upstream := (rg_upstream r1)\<lparr>ui_LastError := reason\<rparr>\<rparr>)"

definition CancelChecked :: "string \<Rightarrow> string option \<Rightarrow> int \<Rightarrow> registry \<Rightarrow> RequestActionResult \<times> registry" where
  "CancelChecked ident err now r =
     (case lookup r ident of
        None \<Rightarrow> (skippedAction ident None NotFound, r)
      | Some t \<Rightarrow>
          (let s = ti_State (tr_info t)
           in if s = StateUncertain then (skippedAction ident (Some s) UncertainResolutionRequired, r)
              else if \<not> ra_canCancel (actionsForState s) then (skippedAction ident (Some s) StateNotRetryable, r)
              else case err of
                     Some e \<Rightarrow> (skippedAction ident (Some s) PersistenceUnavailable, recordPersistenceErrorLocked ident e now r)
                   | None \<Rightarrow> (acceptedAction ident s, put ident (call_cancel t) r)))"

text \<open>The unchecked variant, which only the repository's tests call.\<close>

definition RetryNow :: "string \<Rightarrow> registry \<Rightarrow> bool \<times> registry" where
  "RetryNow ident r =
     (case lookup r ident of None \<Rightarrow> (False, r) | Some t \<Rightarrow> (True, put ident (signal_retry t) r))"

definition RetryNowChecked :: "string \<Rightarrow> string option \<Rightarrow> int \<Rightarrow> registry \<Rightarrow> RequestActionResult \<times> registry" where
  "RetryNowChecked ident err now r =
     (case lookup r ident of
        None \<Rightarrow> (skippedAction ident None NotFound, r)
      | Some t \<Rightarrow>
          (let s = ti_State (tr_info t)
           in if s = StateUncertain then (skippedAction ident (Some s) UncertainResolutionRequired, r)
              else if s \<noteq> StateWaiting \<and> s \<noteq> StateUncertain then (skippedAction ident (Some s) StateNotRetryable, r)
              else if tr_retryNow t then (skippedAction ident (Some s) AlreadyRequested, r)
              else let r1 = put ident (signal_retry t) r
                   in case err of
                        Some e \<Rightarrow> (skippedAction ident (Some s) PersistenceUnavailable, recordPersistenceError err now r1)
                      | None \<Rightarrow> (acceptedAction ident s, r1)))"

definition RetryWaiting :: "(string \<Rightarrow> string option) \<Rightarrow> int \<Rightarrow> registry \<Rightarrow> nat \<times> registry" where
  "RetryWaiting errs now r =
     fold (\<lambda>ident (n, r'). case RetryNowChecked ident (errs ident) now r' of
                              (res, r'') \<Rightarrow> (if accepted res then n + 1 else n, r''))
       (map fst (filter (\<lambda>(k, t). ti_State (tr_info t) = StateWaiting) (rg_requests r))) (0, r)"

section \<open>Retry policies\<close>

definition RetryPolicy_of :: "string \<Rightarrow> registry \<Rightarrow> RetryPolicy option" where
  "RetryPolicy_of ident r = (case lookup r ident of None \<Rightarrow> None | Some t \<Rightarrow> tr_policy t)"

definition updatePolicyInfo :: "trackedRequest \<Rightarrow> trackedRequest" where
  "updatePolicyInfo t =
     map_info (\<lambda>i. case tr_policy t of
         None \<Rightarrow> i\<lparr>ti_RetryDeadline := None, ti_RetryIntervalMs := 0, ti_RetryPolicy := None\<rparr>
       | Some p \<Rightarrow> i\<lparr>ti_RetryDeadline := rp_Deadline p, ti_RetryIntervalMs := Milliseconds (policyPrimaryInterval p),
                    ti_RetryPolicy := Some (policy_Info p (ti_Attempt i))\<rparr>) t"

text \<open>\<open>stamp\<close> is the assignment of \<open>UpdatedAt\<close>.\<close>

definition stamp :: "int \<Rightarrow> trackedRequest \<Rightarrow> trackedRequest" where
  "stamp now = map_info (\<lambda>i. i\<lparr>ti_UpdatedAt := Some now\<rparr>)"

definition policy_written ::
  "string \<Rightarrow> State \<Rightarrow> string option \<Rightarrow> int \<Rightarrow> trackedRequest \<Rightarrow> registry \<Rightarrow> RequestActionResult \<times> registry" where
  "policy_written ident s err now t1 r =
     (case err of
        Some e \<Rightarrow> (skippedAction ident (Some s) PersistenceUnavailable, recordPersistenceError err now (put ident t1 r))
      | None \<Rightarrow> (acceptedAction ident s, put ident (if s = StateWaiting then signal_policy t1 else t1) r))"

definition applyRetryPolicy ::
  "string \<Rightarrow> RetryPolicySpec \<Rightarrow> bool \<Rightarrow> bool \<Rightarrow> string option \<Rightarrow> int \<Rightarrow> registry \<Rightarrow> RequestActionResult \<times> registry" where
  "applyRetryPolicy ident spec overwrite check err now r =
     (if check \<and> \<not> Validate spec then (skippedAction ident None StateNotPolicyCapable, r)
      else case lookup r ident of
        None \<Rightarrow> (skippedAction ident None NotFound, r)
      | Some t \<Rightarrow>
          (let s = ti_State (tr_info t)
           in if \<not> ra_canSetRetryPolicy (actionsForState s) then (skippedAction ident (Some s) StateNotPolicyCapable, r)
              else if tr_policy t \<noteq> None \<and> \<not> overwrite then (skippedAction ident (Some s) PolicyExists, r)
              else let fresh = NewRetryPolicy spec (Some now);
                       p = (if s = StateWaiting then activatePolicy fresh (ti_Attempt (tr_info t)) now else fresh)
                   in policy_written ident s err now (stamp now (updatePolicyInfo (t\<lparr>tr_policy := Some p\<rparr>))) r))"

definition ApplyRetryPolicy ::
  "string \<Rightarrow> RetryPolicySpec \<Rightarrow> bool \<Rightarrow> string option \<Rightarrow> int \<Rightarrow> registry \<Rightarrow> RequestActionResult \<times> registry" where
  "ApplyRetryPolicy ident spec overwrite err now r = applyRetryPolicy ident spec overwrite True err now r"

definition ClearRetryPolicy :: "string \<Rightarrow> string option \<Rightarrow> int \<Rightarrow> registry \<Rightarrow> RequestActionResult \<times> registry" where
  "ClearRetryPolicy ident err now r =
     (case lookup r ident of
        None \<Rightarrow> (skippedAction ident None NotFound, r)
      | Some t \<Rightarrow>
          (let s = ti_State (tr_info t)
           in if \<not> ra_canSetRetryPolicy (actionsForState s) then (skippedAction ident (Some s) StateNotPolicyCapable, r)
              else if tr_policy t = None then (skippedAction ident (Some s) NoPolicy, r)
              else policy_written ident s err now (stamp now (updatePolicyInfo (t\<lparr>tr_policy := None\<rparr>))) r))"

definition ActivateRetryPolicy ::
  "string \<Rightarrow> int \<Rightarrow> string option \<Rightarrow> int \<Rightarrow> registry \<Rightarrow> RetryPolicy option \<times> registry" where
  "ActivateRetryPolicy ident attempt err now r =
     (case lookup r ident of
        None \<Rightarrow> (None, r)
      | Some t \<Rightarrow>
          (case tr_policy t of
             None \<Rightarrow> (None, r)
           | Some p \<Rightarrow>
               if Active p then (Some p, r)
               else let p1 = activatePolicy p attempt now;
                        r1 = put ident (stamp now (updatePolicyInfo (t\<lparr>tr_policy := Some p1\<rparr>))) r
                    in (Some p1, if err \<noteq> None \<and> rg_persistErr r1 = None then r1\<lparr>rg_persistErr := err\<rparr> else r1)))"

section \<open>Notification marks and snapshots\<close>

definition MarkNotified :: "string \<Rightarrow> registry \<Rightarrow> bool \<times> registry" where
  "MarkNotified ident r =
     (case lookup r ident of
        None \<Rightarrow> (False, r)
      | Some t \<Rightarrow> if tr_notified t then (False, r) else (True, put ident (t\<lparr>tr_notified := True\<rparr>) r))"

definition WasNotified :: "string \<Rightarrow> registry \<Rightarrow> bool" where
  "WasNotified ident r = (case lookup r ident of None \<Rightarrow> False | Some t \<Rightarrow> tr_notified t)"

definition snapshot_info :: "trackedRequest \<Rightarrow> tracked_info \<times> RequestActions" where
  "snapshot_info t =
     (let info = tr_info t
      in (info\<lparr>ti_RetryPolicy := map_option (\<lambda>p. policy_Info p (ti_Attempt info)) (tr_policy t)\<rparr>,
          actionsForState (ti_State info)))"

definition in_state :: "State \<Rightarrow> registry \<Rightarrow> nat" where
  "in_state s r = length (filter (\<lambda>(k, t). ti_State (tr_info t) = s) (rg_requests r))"

definition pending_count :: "registry \<Rightarrow> nat" where
  "pending_count r = length (filter (\<lambda>(k, t). ti_PersistencePending (tr_info t)) (rg_requests r))"

definition uncertain_age :: "int \<Rightarrow> tracked_info \<Rightarrow> int" where
  "uncertain_age now i =
     now - nullish (case ti_UncertainSince i of None \<Rightarrow> ti_UpdatedAt i | Some t \<Rightarrow> Some t) 0"

definition oldest_uncertain :: "int \<Rightarrow> registry \<Rightarrow> int" where
  "oldest_uncertain now r =
     fold (\<lambda>(k, t) oldest. if ti_State (tr_info t) = StateUncertain \<and> uncertain_age now (tr_info t) > oldest
                            then uncertain_age now (tr_info t) else oldest) (rg_requests r) 0"

record go_snapshot =
  sn_Paused :: bool
  sn_Mode :: string
  sn_Active :: int
  sn_Queued :: nat
  sn_Waiting :: nat
  sn_Requesting :: nat
  sn_Uncertain :: nat
  sn_OldestUncertain :: int
  sn_TotalRequests :: nat
  sn_Successful :: nat
  sn_FailedAttempts :: nat
  sn_Upstream :: UpstreamInfo
  sn_Requests :: "(tracked_info \<times> RequestActions) list"
  sn_PersistenceDegraded :: bool
  sn_PersistencePending :: nat

definition Snapshot_of :: "bool \<Rightarrow> int \<Rightarrow> registry \<Rightarrow> go_snapshot" where
  "Snapshot_of paused now r =
     (let requests = map (snapshot_info \<circ> snd) (rg_requests r); up = rg_upstream r
      in \<lparr>sn_Paused = paused, sn_Mode = (if paused then ''paused'' else ''running''),
          sn_Active = int (length requests) - int (pending_count r),
          sn_Queued = in_state StateQueued r, sn_Waiting = in_state StateWaiting r,
          sn_Requesting = in_state StateForwarding r, sn_Uncertain = in_state StateUncertain r,
          sn_OldestUncertain = oldest_uncertain now r,
          sn_TotalRequests = rg_total r, sn_Successful = rg_success r, sn_FailedAttempts = rg_failures r,
          sn_Upstream = (if ui_State up = [] then up\<lparr>ui_State := ''unknown''\<rparr> else up),
          sn_Requests = sort_key (\<lambda>x. nullish (ti_StartedAt (fst x)) 0) requests,
          sn_PersistenceDegraded = (rg_persistErr r \<noteq> None), sn_PersistencePending = pending_count r\<rparr>)"

section \<open>The admission controller\<close>

text \<open>
  A pause opens a new channel that \<open>Wait\<close> blocks on; leaving the pause closes it. The
  record counts the channels made and keeps those that were closed.
\<close>

datatype control_mode = ControlRunning | ControlPaused | ControlDraining | ControlMaintenance

record controller =
  ct_mode :: control_mode
  ct_resumeCh :: nat
  ct_closed :: "nat set"

definition NewController :: controller where
  "NewController = \<lparr>ct_mode = ControlRunning, ct_resumeCh = 0, ct_closed = {}\<rparr>"

definition controller_Pause :: "controller \<Rightarrow> bool \<times> controller" where
  "controller_Pause c =
     (if ct_mode c \<noteq> ControlRunning then (False, c)
      else (True, c\<lparr>ct_mode := ControlPaused, ct_resumeCh := ct_resumeCh c + 1\<rparr>))"

definition controller_Resume :: "controller \<Rightarrow> bool \<times> controller" where
  "controller_Resume c =
     (if ct_mode c = ControlRunning then (False, c)
      else (True, if ct_mode c = ControlPaused
                  then c\<lparr>ct_mode := ControlRunning, ct_closed := insert (ct_resumeCh c) (ct_closed c)\<rparr>
                  else c\<lparr>ct_mode := ControlRunning\<rparr>))"

definition setNonAccepting :: "control_mode \<Rightarrow> controller \<Rightarrow> bool \<times> controller" where
  "setNonAccepting mode c =
     (if ct_mode c = mode then (False, c)
      else (True, if ct_mode c = ControlPaused
                  then c\<lparr>ct_mode := mode, ct_closed := insert (ct_resumeCh c) (ct_closed c)\<rparr>
                  else c\<lparr>ct_mode := mode\<rparr>))"

definition controller_Drain :: "controller \<Rightarrow> bool \<times> controller" where
  "controller_Drain = setNonAccepting ControlDraining"

definition controller_Maintenance :: "controller \<Rightarrow> bool \<times> controller" where
  "controller_Maintenance = setNonAccepting ControlMaintenance"

definition IsPaused :: "controller \<Rightarrow> bool" where
  "IsPaused c \<longleftrightarrow> ct_mode c = ControlPaused"

definition Accepting :: "controller \<Rightarrow> bool" where
  "Accepting c \<longleftrightarrow> ct_mode c = ControlRunning \<or> ct_mode c = ControlPaused"

section \<open>Steps\<close>

text \<open>
  What the admin API does to the registry, and what the proxy does: it also takes the
  signals off the channels (\<open>take_retry\<close>, \<open>take_policy\<close>), and a client that goes away
  cancels the context.
\<close>

inductive admin_step :: "registry \<Rightarrow> registry \<Rightarrow> bool" where
  retry: "admin_step r (snd (RetryNowChecked ident err now r))"
| cancel: "admin_step r (snd (CancelChecked ident err now r))"
| resolve: "admin_step r (snd (ResolveUncertain ident resolution err now r))"
| apply_policy: "admin_step r (snd (ApplyRetryPolicy ident spec overwrite err now r))"
| clear_policy: "admin_step r (snd (ClearRetryPolicy ident err now r))"

definition on_request :: "string \<Rightarrow> (trackedRequest \<Rightarrow> trackedRequest) \<Rightarrow> registry \<Rightarrow> registry" where
  "on_request ident f r = (case lookup r ident of None \<Rightarrow> r | Some t \<Rightarrow> put ident (f t) r)"

inductive proxy_step :: "registry \<Rightarrow> registry \<Rightarrow> bool" where
  add: "ident \<noteq> [] \<Longrightarrow> proxy_step r (snd (AddWithIdentityChecked ident verb path cancel identity err now r))"
| update: "proxy_step r (UpdateMessage ident status attempt message nextRetry now r)"
| remove: "proxy_step r (snd (Remove ident outcome err now r))"
| failure: "proxy_step r (RecordFailure r)"
| upstream: "proxy_step r (SetUpstreamMessage healthy message now r)"
| event: "proxy_step r (RecordEvent ident err now r)"
| activate: "proxy_step r (snd (ActivateRetryPolicy ident attempt err now r))"
| notified: "proxy_step r (snd (MarkNotified ident r))"
| take_retry: "proxy_step r (on_request ident (\<lambda>t. t\<lparr>tr_retryNow := False\<rparr>) r)"
| take_policy: "proxy_step r (on_request ident (\<lambda>t. t\<lparr>tr_policyChanged := False\<rparr>) r)"
| disconnect: "proxy_step r (on_request ident call_cancel r)"

inductive registry_step :: "registry \<Rightarrow> registry \<Rightarrow> bool" where
  admin: "admin_step r r' \<Longrightarrow> registry_step r r'"
| proxy: "proxy_step r r' \<Longrightarrow> registry_step r r'"

section \<open>Invariants\<close>

definition spec_of :: "RetryPolicy \<Rightarrow> RetryPolicySpec" where
  "spec_of p = \<lparr>sp_Duration = rp_Duration p, sp_Schedule = rp_Schedule p,
     sp_MaxAdditionalAttempts = rp_MaxAdditionalAttempts p, sp_HonorRetryAfter = rp_HonorRetryAfter p\<rparr>"

definition policy_ok :: "RetryPolicy \<Rightarrow> bool" where
  "policy_ok p \<longleftrightarrow> Validate (spec_of p) \<and> rp_Deadline p = map_option (\<lambda>t. t + rp_Duration p) (rp_ActivatedAt p)"

definition entry_ok :: "string \<Rightarrow> trackedRequest \<Rightarrow> bool" where
  "entry_ok ident t \<longleftrightarrow>
     ti_ID (tr_info t) = ident \<and>
     ti_State (tr_info t) \<noteq> StateReceived \<and> ti_State (tr_info t) \<noteq> StateOrphaned \<and>
     (ti_State (tr_info t) = StateUncertain \<longrightarrow> ti_UncertainSince (tr_info t) \<noteq> None) \<and>
     ti_UncertainResolution (tr_info t) \<in> set ([] # uncertain_resolutions) \<and>
     (case tr_policy t of
        None \<Rightarrow> ti_RetryDeadline (tr_info t) = None \<and> ti_RetryIntervalMs (tr_info t) = 0
      | Some p \<Rightarrow> policy_ok p \<and> ti_RetryDeadline (tr_info t) = rp_Deadline p \<and>
                  ti_RetryIntervalMs (tr_info t) = Milliseconds (policyPrimaryInterval p))"

definition uncounted :: "registry \<Rightarrow> nat" where
  "uncounted r = length (filter (\<lambda>(k, t). \<not> tr_successCounted t) (rg_requests r))"

definition registry_ok :: "registry \<Rightarrow> bool" where
  "registry_ok r \<longleftrightarrow> distinct (map fst (rg_requests r)) \<and> (\<forall>(k, t) \<in> set (rg_requests r). entry_ok k t) \<and>
     rg_success r + uncounted r \<le> rg_total r"

lemmas entry_updates = map_info_def stamp_def signal_policy_def signal_retry_def call_cancel_def

lemma map_info_simps [simp]:
  "tr_info (map_info f t) = f (tr_info t)" "tr_successCounted (map_info f t) = tr_successCounted t"
  "tr_policy (map_info f t) = tr_policy t" "tr_retryNow (map_info f t) = tr_retryNow t"
  "tr_canceled (map_info f t) = tr_canceled t" "tr_cancel (map_info f t) = tr_cancel t"
  "tr_policyChanged (map_info f t) = tr_policyChanged t" "tr_notified (map_info f t) = tr_notified t"
  by (simp_all add: map_info_def)

lemma lookup_put [simp]: "lookup (put ident t r) k = (if k = ident then Some t else lookup r k)"
  by (simp add: lookup_def put_def map_of_map_set)

lemma put_fields [simp]:
  "rg_total (put ident t r) = rg_total r" "rg_success (put ident t r) = rg_success r"
  "rg_failures (put ident t r) = rg_failures r" "rg_persistErr (put ident t r) = rg_persistErr r"
  "rg_upstream (put ident t r) = rg_upstream r"
  by (simp_all add: put_def)

lemma drop_fields [simp]:
  "rg_total (drop_request ident r) = rg_total r" "rg_success (drop_request ident r) = rg_success r"
  by (simp_all add: drop_request_def)

lemma lookup_more [simp]:
  "lookup (r\<lparr>rg_total := a\<rparr>) = lookup r" "lookup (r\<lparr>rg_success := b\<rparr>) = lookup r"
  "lookup (r\<lparr>rg_persistErr := e\<rparr>) = lookup r" "lookup (r\<lparr>rg_failures := f\<rparr>) = lookup r"
  "lookup (r\<lparr>rg_upstream := u\<rparr>) = lookup r"
  by (simp_all add: lookup_def fun_eq_iff)

lemma lookup_drop [simp]: "lookup (drop_request ident r) k = (if k = ident then None else lookup r k)"
proof -
  have "map_of (filter (\<lambda>(k, t). k \<noteq> ident) m) k = (if k = ident then None else map_of m k)" for m :: "(string \<times> trackedRequest) list"
    by (induction m) auto
  then show ?thesis by (simp add: lookup_def drop_request_def)
qed

lemma set_map_set: "set (map_set k v m) \<subseteq> insert (k, v) (set m)"
  by (induction k v m rule: map_set.induct) auto

lemma uncounted_map_set:
  assumes "distinct (map fst m)" "map_of m k = Some t" "P t' = P t"
  shows "length (filter (\<lambda>(k, t). P t) (map_set k t' m)) = length (filter (\<lambda>(k, t). P t) m)"
  using assms by (induction k t' m rule: map_set.induct) (auto split: if_splits)

lemma uncounted_map_set_le:
  "length (filter (\<lambda>(k, t). P t) (map_set k t' m)) \<le> Suc (length (filter (\<lambda>(k, t). P t) m))"
  by (induction k t' m rule: map_set.induct) auto

lemma entry_of: "registry_ok r \<Longrightarrow> lookup r ident = Some t \<Longrightarrow> entry_ok ident t"
  by (auto simp: registry_ok_def lookup_def dest: map_of_SomeD)

lemma registry_ok_put:
  assumes "registry_ok r" "lookup r ident = Some t" "entry_ok ident t'" "tr_successCounted t' = tr_successCounted t"
  shows "registry_ok (put ident t' r)"
  using assms set_map_set [of ident t' "rg_requests r"]
    uncounted_map_set [of "rg_requests r" ident t "\<lambda>t. \<not> tr_successCounted t" t']
  by (fastforce simp: registry_ok_def put_def uncounted_def lookup_def distinct_map_set)

lemma registry_ok_more [simp]:
  "registry_ok (r\<lparr>rg_persistErr := e\<rparr>) = registry_ok r"
  "registry_ok (r\<lparr>rg_failures := f\<rparr>) = registry_ok r"
  "registry_ok (r\<lparr>rg_upstream := u\<rparr>) = registry_ok r"
  by (simp_all add: registry_ok_def uncounted_def)

lemma registry_ok_drop: "registry_ok r \<Longrightarrow> registry_ok (drop_request ident r)"
proof -
  assume ok: "registry_ok r"
  have "length (filter P (filter Q xs)) \<le> length (filter P xs)" for P Q :: "string \<times> trackedRequest \<Rightarrow> bool" and xs
    by (induction xs) auto
  then have "uncounted (drop_request ident r) \<le> uncounted r"
    by (simp add: uncounted_def drop_request_def)
  with ok show ?thesis
    by (auto simp: registry_ok_def drop_request_def distinct_map_filter)
qed

lemma registry_ok_on_request:
  assumes "registry_ok r" "\<And>t. entry_ok ident t \<Longrightarrow> entry_ok ident (f t) \<and> tr_successCounted (f t) = tr_successCounted t"
  shows "registry_ok (on_request ident f r)"
  using assms entry_of [OF assms(1)] by (auto simp: on_request_def intro!: registry_ok_put split: option.split)

lemma entry_ok_signals:
  assumes "entry_ok ident t"
  shows "entry_ok ident (t\<lparr>tr_retryNow := b\<rparr>)" "entry_ok ident (t\<lparr>tr_policyChanged := b\<rparr>)" "entry_ok ident (t\<lparr>tr_notified := b\<rparr>)"
    "entry_ok ident (call_cancel t)" "entry_ok ident (signal_retry t)" "entry_ok ident (signal_policy t)"
  using assms by (simp_all add: entry_ok_def entry_updates split: option.splits)

lemma entry_ok_info:
  assumes "entry_ok ident t" "ti_ID (f (tr_info t)) = ti_ID (tr_info t)" "ti_State (f (tr_info t)) = ti_State (tr_info t)"
    "ti_UncertainSince (f (tr_info t)) = ti_UncertainSince (tr_info t)"
    "ti_UncertainResolution (f (tr_info t)) = ti_UncertainResolution (tr_info t)"
    "ti_RetryDeadline (f (tr_info t)) = ti_RetryDeadline (tr_info t)"
    "ti_RetryIntervalMs (f (tr_info t)) = ti_RetryIntervalMs (tr_info t)"
  shows "entry_ok ident (map_info f t)"
  using assms by (simp add: entry_ok_def map_info_def split: option.splits)

lemma ok_persist_locked: "registry_ok r \<Longrightarrow> registry_ok (recordPersistenceErrorLocked ident e now r)"
  unfolding recordPersistenceErrorLocked_def Let_def
  by (auto simp: entry_of map_info_def intro!: registry_ok_put entry_ok_info [unfolded map_info_def] split: option.split)

lemma ok_persist_for: "registry_ok r \<Longrightarrow> registry_ok (recordPersistenceErrorFor ident err now r)"
  by (simp add: recordPersistenceErrorFor_def ok_persist_locked split: option.split)

lemma ok_persist: "registry_ok r \<Longrightarrow> registry_ok (recordPersistenceError err now r)"
  by (simp add: recordPersistenceError_def ok_persist_for)

lemma entry_ok_policy:
  assumes "entry_ok ident t" "case q of None \<Rightarrow> True | Some p \<Rightarrow> policy_ok p"
  shows "entry_ok ident (stamp now (updatePolicyInfo (t\<lparr>tr_policy := q\<rparr>)))"
  using assms by (simp add: entry_ok_def updatePolicyInfo_def entry_updates split: option.splits)

lemma counted_policy: "tr_successCounted (stamp now (updatePolicyInfo (t\<lparr>tr_policy := q\<rparr>))) = tr_successCounted t"
  by (simp add: updatePolicyInfo_def entry_updates)

lemma ok_policy_written:
  assumes "registry_ok r" "lookup r ident = Some t" "entry_ok ident t1" "tr_successCounted t1 = tr_successCounted t"
  shows "registry_ok (snd (policy_written ident s err now t1 r))"
proof -
  have "registry_ok (put ident t1 r)" "registry_ok (put ident (signal_policy t1) r)"
    using assms registry_ok_put [OF assms(1,2)] entry_ok_signals(6) [OF assms(3)] by (simp_all add: signal_policy_def)
  then show ?thesis by (simp add: policy_written_def ok_persist split: option.split)
qed

lemma spec_of_simps [simp]:
  "spec_of (NewRetryPolicy spec a) = spec" "spec_of (activatePolicy p n now) = spec_of p"
  by (cases spec, simp add: spec_of_def NewRetryPolicy_def) (simp add: spec_of_def)

lemma policy_ok_new:
  "Validate spec \<Longrightarrow> policy_ok (NewRetryPolicy spec a)" "policy_ok p \<Longrightarrow> policy_ok (activatePolicy p n now)"
  by (simp_all add: policy_ok_def) (simp add: NewRetryPolicy_def)

section \<open>Every operation keeps the invariant\<close>

lemma ok_apply: "registry_ok r \<Longrightarrow> registry_ok (snd (ApplyRetryPolicy ident spec overwrite err now r))"
  by (auto simp: ApplyRetryPolicy_def applyRetryPolicy_def Let_def policy_ok_new counted_policy entry_of
      intro!: ok_policy_written entry_ok_policy split: option.split)

lemma ok_clear: "registry_ok r \<Longrightarrow> registry_ok (snd (ClearRetryPolicy ident err now r))"
  by (auto simp: ClearRetryPolicy_def Let_def counted_policy entry_of
      intro!: ok_policy_written entry_ok_policy split: option.split)

lemma ok_activate: "registry_ok r \<Longrightarrow> registry_ok (snd (ActivateRetryPolicy ident attempt err now r))"
proof -
  assume ok: "registry_ok r"
  have "registry_ok (put ident (stamp now (updatePolicyInfo (t\<lparr>tr_policy := Some (activatePolicy p attempt now)\<rparr>))) r)"
    if "lookup r ident = Some t" "tr_policy t = Some p" for t p
    using that ok entry_of [OF ok that(1)]
    by (intro registry_ok_put [OF ok that(1)] entry_ok_policy) (simp_all add: counted_policy entry_ok_def policy_ok_new)
  then show ?thesis
    using ok by (simp add: ActivateRetryPolicy_def Let_def split: option.split)
qed

lemma ok_retry: "registry_ok r \<Longrightarrow> registry_ok (snd (RetryNowChecked ident err now r))"
proof -
  assume ok: "registry_ok r"
  have "registry_ok (put ident (signal_retry t) r)" if "lookup r ident = Some t" for t
    using registry_ok_put [OF ok that entry_ok_signals(5) [OF entry_of [OF ok that]]] by (simp add: signal_retry_def)
  with ok show ?thesis by (simp add: RetryNowChecked_def Let_def ok_persist split: option.split)
qed

lemma counted_cancel [simp]: "tr_successCounted (call_cancel t) = tr_successCounted t"
  by (simp add: call_cancel_def)

lemma ok_cancel: "registry_ok r \<Longrightarrow> registry_ok (snd (CancelChecked ident err now r))"
proof -
  assume ok: "registry_ok r"
  have "registry_ok (put ident (call_cancel t) r)" if "lookup r ident = Some t" for t
    using registry_ok_put [OF ok that entry_ok_signals(4) [OF entry_of [OF ok that]]] by simp
  with ok show ?thesis by (simp add: CancelChecked_def Let_def ok_persist_locked split: option.split)
qed

lemma ok_resolve: "registry_ok r \<Longrightarrow> registry_ok (snd (ResolveUncertain ident resolution err now r))"
proof -
  assume ok: "registry_ok r"
  let ?res = "\<lambda>i. i\<lparr>ti_UncertainResolution := resolution, ti_UncertainResolvedAt := Some now, ti_UpdatedAt := Some now\<rparr>"
  have "registry_ok (put ident (signal_retry (map_info ?res t)) r)" "registry_ok (put ident (call_cancel (map_info ?res t)) r)"
    if t: "lookup r ident = Some t" "resolution \<in> set uncertain_resolutions" for t
  proof -
    have "entry_ok ident (map_info ?res t)"
      using entry_of [OF ok t(1)] t(2) by (simp add: entry_ok_def map_info_def split: option.splits)
    from entry_ok_signals(4,5) [OF this] show "registry_ok (put ident (signal_retry (map_info ?res t)) r)"
      "registry_ok (put ident (call_cancel (map_info ?res t)) r)"
      by (auto intro!: registry_ok_put [OF ok t(1)] simp: map_info_def signal_retry_def)
  qed
  with ok show ?thesis by (auto simp: ResolveUncertain_def Let_def ok_persist_locked split: option.split)
qed

lemma ok_add: "registry_ok r \<Longrightarrow> registry_ok (snd (AddWithIdentityChecked ident verb path cancel identity err now r))"
proof (cases err)
  case None
  assume ok: "registry_ok r"
  have "entry_ok ident (new_request ident verb path cancel identity now)"
    by (simp add: entry_ok_def new_request_def)
  then show ?thesis
    using ok None set_map_set uncounted_map_set_le
    by (fastforce simp: AddWithIdentityChecked_def registry_ok_def put_def uncounted_def distinct_map_set
        intro: le_trans [OF add_left_mono [OF uncounted_map_set_le]])
qed (simp add: AddWithIdentityChecked_def ok_persist)


lemma updated_state:
  assumes "ValidateTransition s status" "s \<noteq> StateReceived" "s \<noteq> StateOrphaned"
  shows "status \<noteq> StateReceived \<and> status \<noteq> StateOrphaned"
  using assms by (cases s) (auto simp: ValidateTransition_def)

lemma ok_update: "registry_ok r \<Longrightarrow> registry_ok (UpdateMessage ident status attempt message nextRetry now r)"
proof -
  assume ok: "registry_ok r"
  have "entry_ok ident (map_info (\<lambda>i. mark_uncertain status now
                 ((clear_compensation status (i\<lparr>ti_State := status\<rparr>))
                    \<lparr>ti_Attempt := attempt, ti_LastError := [], ti_LastErrorCode := fst message,
                     ti_LastErrorDetails := snd message, ti_NextRetryAt := nextRetry, ti_UpdatedAt := Some now\<rparr>)) t)"
    if "entry_ok ident t" "ValidateTransition (ti_State (tr_info t)) status" for t
    using that updated_state [OF that(2)]
    by (cases "tr_policy t") (auto simp: entry_ok_def map_info_def mark_uncertain_def clear_compensation_def)
  then show ?thesis
    using ok entry_of [OF ok]
    by (auto simp: UpdateMessage_def intro!: registry_ok_put [OF ok] split: option.split)
qed

lemma ok_counted:
  assumes ok: "registry_ok r" and t: "lookup r ident = Some t" "\<not> tr_successCounted t"
  shows "registry_ok ((put ident (t\<lparr>tr_successCounted := True\<rparr>) r)\<lparr>rg_success := rg_success r + 1\<rparr>)"
proof -
  have "Suc (length (filter (\<lambda>(k, t). \<not> tr_successCounted t) (map_set ident (t\<lparr>tr_successCounted := True\<rparr>) m)))
      = length (filter (\<lambda>(k, t). \<not> tr_successCounted t) m)"
    if "distinct (map fst m)" "map_of m ident = Some t" for m
    using that t(2) by (induction m) (auto split: if_splits)
  moreover have "entry_ok ident (t\<lparr>tr_successCounted := True\<rparr>)"
    using entry_of [OF ok t(1)] by (simp add: entry_ok_def split: option.splits)
  ultimately show ?thesis
    using ok t set_map_set [of ident "t\<lparr>tr_successCounted := True\<rparr>" "rg_requests r"]
    by (fastforce simp: registry_ok_def put_def uncounted_def lookup_def distinct_map_set)
qed

lemma ok_pending:
  "registry_ok r \<Longrightarrow> lookup r ident = Some t \<Longrightarrow>
     registry_ok (put ident (map_info (\<lambda>i. i\<lparr>ti_PersistencePending := True\<rparr>) t) r)"
  by (rule registry_ok_put, assumption, assumption) (auto intro!: entry_ok_info dest: entry_of)

lemma ok_finish: "registry_ok r \<Longrightarrow> registry_ok (snd (finish_removal ident err now r))"
  by (auto simp: finish_removal_def Let_def registry_ok_drop ok_persist_locked intro: ok_pending split: option.split)

lemma ok_remove: "registry_ok r \<Longrightarrow> registry_ok (snd (Remove ident outcome err now r))"
  using ok_counted by (simp add: Remove_def ok_finish split: option.split)

lemma ok_notified: "registry_ok r \<Longrightarrow> registry_ok (snd (MarkNotified ident r))"
  by (auto simp: MarkNotified_def entry_of intro!: registry_ok_put entry_ok_signals split: option.split)

lemma ok_admin: "admin_step r r' \<Longrightarrow> registry_ok r \<Longrightarrow> registry_ok r'"
  by (induction rule: admin_step.induct) (simp_all add: ok_retry ok_cancel ok_resolve ok_apply ok_clear)

lemma ok_proxy: "proxy_step r r' \<Longrightarrow> registry_ok r \<Longrightarrow> registry_ok r'"
  by (induction rule: proxy_step.induct)
     (simp_all add: ok_add ok_update ok_remove RecordFailure_def SetUpstreamMessage_def RecordEvent_def ok_persist_for
        ok_activate ok_notified registry_ok_on_request entry_ok_signals)

interpretation registry_system: step_system registry_step "\<lambda>r. r = NewRegistry" registry_ok
proof
  show "registry_ok r" if "r = NewRegistry" for r
    using that by (simp add: NewRegistry_def registry_ok_def uncounted_def)
  show "registry_ok r'" if "registry_step r r'" "registry_ok r" for r r'
    using that by cases (auto intro: ok_admin ok_proxy)
qed


section \<open>Uncertain requests\<close>

text \<open>What happens to a request of uncertain delivery in one step of the admin API.\<close>

definition untouched :: "trackedRequest \<Rightarrow> trackedRequest \<Rightarrow> bool" where
  "untouched t t' \<longleftrightarrow> tr_retryNow t' = tr_retryNow t \<and> tr_canceled t' = tr_canceled t \<and>
     ti_State (tr_info t') = ti_State (tr_info t) \<and>
     ti_UncertainResolution (tr_info t') = ti_UncertainResolution (tr_info t) \<and> tr_policy t' = tr_policy t"

lemma untouched_refl [simp]: "untouched t t"
  by (simp add: untouched_def)

lemma persist_locked_lookup:
  "lookup r k = Some t \<Longrightarrow> \<exists>t'. lookup (recordPersistenceErrorLocked ident e now r) k = Some t' \<and> untouched t t'"
  by (auto simp: recordPersistenceErrorLocked_def Let_def untouched_def split: option.splits)

lemma persist_lookup:
  "lookup r k = Some t \<Longrightarrow> \<exists>t'. lookup (recordPersistenceError err now r) k = Some t' \<and> untouched t t'"
  using persist_locked_lookup [of r k t]
  by (auto simp: recordPersistenceError_def recordPersistenceErrorFor_def split: option.split)

lemma persist_same:
  "map_option tr_retryNow (lookup (recordPersistenceError err now r) k) = map_option tr_retryNow (lookup r k)"
  "RetryPolicy_of k (recordPersistenceError err now r) = RetryPolicy_of k r"
  using persist_lookup [of r k]
  by (cases "lookup r k"; auto simp: untouched_def RetryPolicy_of_def recordPersistenceError_def
      recordPersistenceErrorFor_def recordPersistenceErrorLocked_def Let_def split: option.split)+

lemma policy_written_other:
  assumes "lookup r k = Some t" "k \<noteq> ident"
  shows "\<exists>t'. lookup (snd (policy_written ident s err now t1 r)) k = Some t' \<and> untouched t t'"
proof -
  have "lookup (put ident t1 r) k = Some t" using assms by simp
  from persist_lookup [OF this] assms show ?thesis by (simp add: policy_written_def split: option.split)
qed

lemma uncertain_retry:
  assumes "lookup r k = Some t" "ti_State (tr_info t) = StateUncertain"
  shows "\<exists>t'. lookup (snd (RetryNowChecked ident err now r)) k = Some t' \<and> untouched t t'"
proof (cases "k = ident")
  case False
  then have "lookup (put ident x r) k = Some t" for x using assms by simp
  from persist_lookup [OF this] False assms show ?thesis
    by (auto simp: RetryNowChecked_def Let_def split: option.split)
qed (use assms in \<open>simp add: RetryNowChecked_def\<close>)

lemma uncertain_cancel:
  assumes "lookup r k = Some t" "ti_State (tr_info t) = StateUncertain"
  shows "\<exists>t'. lookup (snd (CancelChecked ident err now r)) k = Some t' \<and> untouched t t'"
  using assms persist_locked_lookup [OF assms(1)]
  by (auto simp: CancelChecked_def Let_def split: option.split)

lemma uncertain_apply:
  assumes "lookup r k = Some t" "ti_State (tr_info t) = StateUncertain"
  shows "\<exists>t'. lookup (snd (ApplyRetryPolicy ident spec overwrite err now r)) k = Some t' \<and> untouched t t'"
  using assms policy_written_other [OF assms(1)]
  by (cases "k = ident") (auto simp: ApplyRetryPolicy_def applyRetryPolicy_def Let_def split: option.split)

lemma uncertain_clear:
  assumes "lookup r k = Some t" "ti_State (tr_info t) = StateUncertain"
  shows "\<exists>t'. lookup (snd (ClearRetryPolicy ident err now r)) k = Some t' \<and> untouched t t'"
  using assms policy_written_other [OF assms(1)]
  by (cases "k = ident") (auto simp: ClearRetryPolicy_def Let_def split: option.split)

lemma uncertain_resolve:
  assumes "lookup r k = Some t" "ti_State (tr_info t) = StateUncertain"
  shows "\<exists>t'. lookup (snd (ResolveUncertain ident resolution err now r)) k = Some t' \<and>
     (untouched t t' \<or> ident = k \<and> ti_UncertainResolution (tr_info t) = [] \<and> resolution \<in> set uncertain_resolutions \<and>
        ti_UncertainResolution (tr_info t') = resolution \<and> ti_State (tr_info t') = StateUncertain \<and>
        (tr_retryNow t' \<longrightarrow> tr_retryNow t \<or> resolution = ''request_compensation'') \<and>
        (tr_canceled t' \<longrightarrow> tr_canceled t \<or> resolution \<noteq> ''request_compensation''))"
proof (cases "k = ident \<and> err = None")
  case True
  with assms show ?thesis
    by (auto simp: ResolveUncertain_def Let_def signal_retry_def call_cancel_def)
next
  case False
  then have "\<exists>t'. lookup (snd (ResolveUncertain ident resolution err now r)) k = Some t' \<and> untouched t t'"
    using assms persist_locked_lookup [OF assms(1)] by (auto simp: ResolveUncertain_def Let_def split: option.split)
  then show ?thesis by blast
qed

section \<open>The controller's channels\<close>

definition channels_ok :: "controller \<Rightarrow> bool" where
  "channels_ok c \<longleftrightarrow> ct_closed c = (if IsPaused c then {1 ..< ct_resumeCh c} else {1 .. ct_resumeCh c}) \<and>
     (IsPaused c \<longrightarrow> 1 \<le> ct_resumeCh c)"

inductive control_step :: "controller \<Rightarrow> controller \<Rightarrow> bool" where
  pause: "control_step c (snd (controller_Pause c))"
| resume: "control_step c (snd (controller_Resume c))"
| drain: "control_step c (snd (controller_Drain c))"
| maintenance: "control_step c (snd (controller_Maintenance c))"

lemma interval_last: "Suc 0 \<le> n \<Longrightarrow> insert n {Suc 0 ..< n} = {Suc 0 .. n}"
  by auto

lemma channels_leave:
  "channels_ok c \<Longrightarrow> IsPaused c \<Longrightarrow> m \<noteq> ControlPaused \<Longrightarrow>
     channels_ok (c\<lparr>ct_mode := m, ct_closed := insert (ct_resumeCh c) (ct_closed c)\<rparr>)"
  by (simp add: channels_ok_def IsPaused_def interval_last)

lemma channels_enter: "channels_ok c \<Longrightarrow> \<not> IsPaused c \<Longrightarrow> m \<noteq> ControlPaused \<Longrightarrow> channels_ok (c\<lparr>ct_mode := m\<rparr>)"
  by (simp add: channels_ok_def IsPaused_def)

lemma channels_ok_step: "control_step c c' \<Longrightarrow> channels_ok c \<Longrightarrow> channels_ok c'"
proof (induction rule: control_step.induct)
  case (pause c)
  then show ?case by (simp add: controller_Pause_def channels_ok_def IsPaused_def atLeastLessThanSuc_atLeastAtMost)
next
  case (resume c)
  then show ?case by (simp add: controller_Resume_def channels_leave channels_enter IsPaused_def)
qed (simp_all add: controller_Drain_def controller_Maintenance_def setNonAccepting_def channels_leave channels_enter IsPaused_def)

interpretation control_system: step_system control_step "\<lambda>c. c = NewController" channels_ok
proof
  show "channels_ok c" if "c = NewController" for c
    using that by (simp add: channels_ok_def NewController_def IsPaused_def)
  show "channels_ok c'" if "control_step c c'" "channels_ok c" for c c'
    using that channels_ok_step by blast
qed

section \<open>Properties\<close>

text \<open>
  Claim C5: in every reachable registry a tracked request carries a policy that passed the
  validation, an active policy ends its duration after its activation, the deadline and
  the interval reported with the request are those of its policy, a request in state
  \<open>uncertain\<close> knows since when, and no more successes are counted than requests.
\<close>

theorem registry_invariant:
  assumes "registry_step\<^sup>*\<^sup>* NewRegistry r" "lookup r ident = Some t"
  shows "ti_ID (tr_info t) = ident \<and>
     (ti_State (tr_info t) = StateUncertain \<longrightarrow> ti_UncertainSince (tr_info t) \<noteq> None) \<and>
     ti_RetryDeadline (tr_info t) = Option.bind (tr_policy t) rp_Deadline \<and>
     (\<forall>p. tr_policy t = Some p \<longrightarrow> Validate (spec_of p) \<and> ti_RetryIntervalMs (tr_info t) = Milliseconds (policyPrimaryInterval p) \<and>
        rp_Deadline p = map_option (\<lambda>a. a + rp_Duration p) (rp_ActivatedAt p)) \<and>
     rg_success r \<le> rg_total r"
proof -
  have ok: "registry_ok r" using registry_system.inv_reachable assms(1) by blast
  from entry_of [OF this assms(2)] have "entry_ok ident t" .
  then show ?thesis
    using ok by (cases "tr_policy t") (auto simp: entry_ok_def policy_ok_def registry_ok_def)
qed

definition sample_spec :: RetryPolicySpec where
  "sample_spec = \<lparr>sp_Duration = 60 * Second, sp_Schedule = \<lparr>rs_Mode = ''fixed'', rs_Interval = 5 * Second, rs_Minimum = 0,
     rs_Maximum = 0, rs_Base = 0\<rparr>, sp_MaxAdditionalAttempts = 3, sp_HonorRetryAfter = True\<rparr>"

definition sample_added :: registry where
  "sample_added = snd (AddWithIdentityChecked ''r1'' ''POST'' ''/v1'' True ([], []) None 7 NewRegistry)"

definition sample_registry :: registry where
  "sample_registry = snd (ApplyRetryPolicy ''r1'' sample_spec True None 9 sample_added)"

lemma sample_reachable: "registry_step\<^sup>*\<^sup>* NewRegistry sample_registry"
proof -
  have a: "registry_step NewRegistry sample_added"
    unfolding sample_added_def by (intro registry_step.proxy proxy_step.add) simp
  have b: "registry_step sample_added sample_registry"
    unfolding sample_registry_def by (intro registry_step.admin admin_step.apply_policy)
  show ?thesis by (rule rtranclp.rtrancl_into_rtrancl [OF r_into_rtranclp [of registry_step, OF a] b])
qed

lemma sample_lookup:
  "\<exists>t. lookup sample_registry ''r1'' = Some t \<and> tr_policy t = Some (NewRetryPolicy sample_spec (Some 9)) \<and>
     ti_RetryIntervalMs (tr_info t) = 5000"
  by (simp add: sample_registry_def sample_added_def ApplyRetryPolicy_def applyRetryPolicy_def AddWithIdentityChecked_def
      policy_written_def new_request_def sample_spec_def Validate_def validPolicyInterval_def go_units Let_def
      updatePolicyInfo_def stamp_def NewRetryPolicy_def policyPrimaryInterval_def Milliseconds_def)

theorem registry_invariant_witness:
  "\<exists>t. lookup sample_registry ''r1'' = Some t \<and> tr_policy t = Some (NewRetryPolicy sample_spec (Some 9)) \<and>
     ti_RetryIntervalMs (tr_info t) = 5000 \<and> rg_success sample_registry \<le> rg_total sample_registry"
  using sample_lookup registry_invariant [OF sample_reachable] by blast

text \<open>
  Claim C11: no action of the admin API other than its resolution touches a request of
  uncertain delivery: a retry, a cancellation and a policy leave its signals, its context
  and its policy as they are. A resolution is recorded at most once; asking for
  compensation may wake the request for another attempt and never cancels it, and the
  other two may cancel it and never wake it.
\<close>

theorem uncertain_only_resolved:
  assumes "admin_step r r'" "lookup r ident = Some t" "ti_State (tr_info t) = StateUncertain"
  shows "\<exists>t'. lookup r' ident = Some t' \<and>
     (untouched t t' \<or>
      ti_UncertainResolution (tr_info t) = [] \<and> ti_UncertainResolution (tr_info t') \<in> set uncertain_resolutions \<and>
      (tr_retryNow t' \<longrightarrow> tr_retryNow t \<or> ti_UncertainResolution (tr_info t') = ''request_compensation'') \<and>
      (tr_canceled t' \<longrightarrow> tr_canceled t \<or> ti_UncertainResolution (tr_info t') \<noteq> ''request_compensation''))"
  using assms(1)
proof cases
  case (retry k err now)
  then show ?thesis using uncertain_retry [OF assms(2,3)] by blast
next
  case (cancel k err now)
  then show ?thesis using uncertain_cancel [OF assms(2,3)] by blast
next
  case (resolve k resolution err now)
  then show ?thesis using uncertain_resolve [OF assms(2,3), of k resolution err now] by auto
next
  case (apply_policy k spec overwrite err now)
  then show ?thesis using uncertain_apply [OF assms(2,3)] by blast
next
  case (clear_policy k err now)
  then show ?thesis using uncertain_clear [OF assms(2,3)] by blast
qed

definition sample_uncertain :: registry where
  "sample_uncertain = UpdateMessage ''r1'' StateUncertain 1 ([], None) None 12
     (UpdateMessage ''r1'' StateForwarding 1 ([], None) None 11 sample_added)"

lemma sample_uncertain_lookup:
  "\<exists>t. lookup sample_uncertain ''r1'' = Some t \<and> ti_State (tr_info t) = StateUncertain \<and> \<not> tr_retryNow t \<and> \<not> tr_canceled t \<and>
     ti_UncertainResolution (tr_info t) = []"
  by (simp add: sample_uncertain_def sample_added_def UpdateMessage_def AddWithIdentityChecked_def new_request_def
      ValidateTransition_def mark_uncertain_def clear_compensation_def)

theorem uncertain_only_resolved_witness:
  "\<exists>t'. lookup (snd (RetryNowChecked ''r1'' None 13 sample_uncertain)) ''r1'' = Some t' \<and>
     (\<not> tr_retryNow t' \<or> ti_UncertainResolution (tr_info t') = ''request_compensation'')"
proof -
  obtain t where t: "lookup sample_uncertain ''r1'' = Some t" "ti_State (tr_info t) = StateUncertain" "\<not> tr_retryNow t"
    using sample_uncertain_lookup by blast
  from uncertain_only_resolved [OF admin_step.retry t(1,2), of "''r1''" None 13] t(3) show ?thesis
    by (auto simp: untouched_def)
qed



text \<open>
  Claim C38: when the timeline cannot be written, an immediate retry of a waiting request is
  reported as skipped and nevertheless wakes the request, and a policy is reported as
  skipped and is nevertheless in force.
\<close>

theorem skipped_but_effective:
  assumes "lookup r ident = Some t" "ti_State (tr_info t) = StateWaiting" "\<not> tr_retryNow t" "Validate spec" "ident \<noteq> []"
  shows "\<not> accepted (fst (RetryNowChecked ident (Some e) now r)) \<and>
     map_option tr_retryNow (lookup (snd (RetryNowChecked ident (Some e) now r)) ident) = Some True \<and>
     \<not> accepted (fst (ApplyRetryPolicy ident spec True (Some e) now r)) \<and>
     map_option spec_of (RetryPolicy_of ident (snd (ApplyRetryPolicy ident spec True (Some e) now r))) = Some spec"
  using assms(1,2,3,4)
  by (simp add: RetryNowChecked_def ApplyRetryPolicy_def applyRetryPolicy_def policy_written_def persist_same Let_def)
     (simp add: RetryPolicy_of_def updatePolicyInfo_def stamp_def signal_retry_def)

definition sample_waiting :: registry where
  "sample_waiting = UpdateMessage ''r1'' StateWaiting 1 ([], None) None 12
     (UpdateMessage ''r1'' StateForwarding 1 ([], None) None 11 sample_added)"

lemma sample_waiting_lookup:
  "\<exists>t. lookup sample_waiting ''r1'' = Some t \<and> ti_State (tr_info t) = StateWaiting \<and> \<not> tr_retryNow t \<and> tr_cancel t"
  by (simp add: sample_waiting_def sample_added_def UpdateMessage_def AddWithIdentityChecked_def new_request_def
      ValidateTransition_def mark_uncertain_def clear_compensation_def)

theorem skipped_but_effective_witness:
  "\<not> accepted (fst (RetryNowChecked ''r1'' (Some ''ENOSPC'') 13 sample_waiting)) \<and>
   map_option tr_retryNow (lookup (snd (RetryNowChecked ''r1'' (Some ''ENOSPC'') 13 sample_waiting)) ''r1'') = Some True"
proof -
  obtain t where t: "lookup sample_waiting ''r1'' = Some t" "ti_State (tr_info t) = StateWaiting" "\<not> tr_retryNow t"
    using sample_waiting_lookup by blast
  have "Validate sample_spec"
    by (simp add: sample_spec_def Validate_def validPolicyInterval_def go_units)
  from skipped_but_effective [OF t this] show ?thesis by simp
qed

text \<open>
  Claim C23: the controller never closes a channel twice, which would panic, and nobody is
  left waiting: whenever the gateway is not paused, every channel that a waiting request
  may hold has been closed.
\<close>

theorem controller_channels:
  assumes "control_step\<^sup>*\<^sup>* NewController c"
  shows "(IsPaused c \<longrightarrow> ct_resumeCh c \<notin> ct_closed c) \<and> (\<not> IsPaused c \<longrightarrow> ct_closed c = {1 .. ct_resumeCh c}) \<and>
     (Accepting c \<longleftrightarrow> ct_mode c \<in> {ControlRunning, ControlPaused})"
  using control_system.inv_reachable [OF assms refl] by (simp add: channels_ok_def Accepting_def)

theorem controller_channels_witness:
  "ct_closed (snd (controller_Drain (snd (controller_Pause NewController)))) = {1}"
proof -
  let ?p = "snd (controller_Pause NewController)"
  let ?c = "snd (controller_Drain ?p)"
  have "control_step\<^sup>*\<^sup>* NewController ?c"
    by (rule converse_rtranclp_into_rtranclp, rule control_step.pause, rule r_into_rtranclp, rule control_step.drain)
  from controller_channels [OF this] show ?thesis
    by (simp add: controller_Drain_def setNonAccepting_def controller_Pause_def NewController_def IsPaused_def)
qed

end
