(* ===== verification/RetryServer.thy ===== *)
theory RetryServer
  imports Registry RetryPolicy
begin

text \<open>
  The admin API for retries and retry policies (internal/admin/retry_api.go) on top of the
  registry, and what the console's dialog and the gateway mean by the same policy. A body
  is the parsed \<open>json\<close>; the decoder refuses an unknown field and a value of the wrong
  kind, takes \<open>null\<close> as absent and matches field names exactly. Handlers return an HTTP
  status with an error code or the reply, and the registry.
\<close>

section \<open>Decoding bodies\<close>

definition int64_ok :: "int \<Rightarrow> bool" where
  "int64_ok n \<longleftrightarrow> - (2 ^ 63) \<le> n \<and> n < 2 ^ 63"

text \<open>A pointer field: \<open>None\<close> is a decoding error, \<open>Some None\<close> the nil pointer.\<close>

fun dec_int :: "json option \<Rightarrow> int option option" where
  "dec_int None = Some None"
| "dec_int (Some JNull) = Some None"
| "dec_int (Some (JNum r)) = (if r = of_int \<lfloor>r\<rfloor> \<and> int64_ok \<lfloor>r\<rfloor> then Some (Some \<lfloor>r\<rfloor>) else None)"
| "dec_int (Some _) = None"

fun dec_bool :: "json option \<Rightarrow> bool option option" where
  "dec_bool None = Some None"
| "dec_bool (Some JNull) = Some None"
| "dec_bool (Some (JBool b)) = Some (Some b)"
| "dec_bool (Some _) = None"

fun dec_string :: "json option \<Rightarrow> string option" where
  "dec_string None = Some []"
| "dec_string (Some JNull) = Some []"
| "dec_string (Some (JStr s)) = Some s"
| "dec_string (Some _) = None"

fun dec_strings :: "json list \<Rightarrow> string list option" where
  "dec_strings [] = Some []"
| "dec_strings (v # vs) =
     (case dec_string (Some v) of None \<Rightarrow> None | Some s \<Rightarrow> map_option (\<lambda>ss. s # ss) (dec_strings vs))"

fun dec_string_list :: "json option \<Rightarrow> string list option" where
  "dec_string_list None = Some []"
| "dec_string_list (Some JNull) = Some []"
| "dec_string_list (Some (JArr vs)) = dec_strings vs"
| "dec_string_list (Some _) = None"

definition known_fields :: "string list \<Rightarrow> json_object \<Rightarrow> bool" where
  "known_fields names obj \<longleftrightarrow> list_all (\<lambda>(k, v). k \<in> set names) obj"

record retrySchedulePayload =
  sl_Mode :: string
  sl_IntervalMilliseconds :: "int option"
  sl_MinimumIntervalMilliseconds :: "int option"
  sl_MaximumIntervalMilliseconds :: "int option"
  sl_BaseIntervalMilliseconds :: "int option"

record retryPolicyPayload =
  pl_DurationMilliseconds :: "int option"
  pl_Duration :: string
  pl_IntervalMilliseconds :: "int option"
  pl_Interval :: string
  pl_Schedule :: "retrySchedulePayload option"
  pl_MaxAdditionalAttempts :: "int option"
  pl_HonorRetryAfter :: "bool option"
  pl_Overwrite :: "bool option"

definition dec_schedule :: "json_object \<Rightarrow> retrySchedulePayload option" where
  "dec_schedule obj =
     (if \<not> known_fields [''mode'', ''intervalMilliseconds'', ''minimumIntervalMilliseconds'', ''maximumIntervalMilliseconds'',
            ''baseIntervalMilliseconds''] obj then None
      else case (dec_string (prop_of obj ''mode''), dec_int (prop_of obj ''intervalMilliseconds''),
                 dec_int (prop_of obj ''minimumIntervalMilliseconds''), dec_int (prop_of obj ''maximumIntervalMilliseconds''),
                 dec_int (prop_of obj ''baseIntervalMilliseconds'')) of
             (Some m, Some i, Some lo, Some hi, Some b) \<Rightarrow>
               Some \<lparr>sl_Mode = m, sl_IntervalMilliseconds = i, sl_MinimumIntervalMilliseconds = lo,
                     sl_MaximumIntervalMilliseconds = hi, sl_BaseIntervalMilliseconds = b\<rparr>
           | _ \<Rightarrow> None)"

fun dec_schedule_field :: "json option \<Rightarrow> retrySchedulePayload option option" where
  "dec_schedule_field None = Some None"
| "dec_schedule_field (Some JNull) = Some None"
| "dec_schedule_field (Some (JObj obj)) = map_option Some (dec_schedule obj)"
| "dec_schedule_field (Some _) = None"

definition dec_policy :: "json_object \<Rightarrow> retryPolicyPayload option" where
  "dec_policy obj =
     (if \<not> known_fields [''durationMilliseconds'', ''duration'', ''intervalMilliseconds'', ''interval'', ''schedule'',
            ''maxAdditionalAttempts'', ''honorRetryAfter'', ''overwrite''] obj then None
      else case (dec_int (prop_of obj ''durationMilliseconds''), dec_string (prop_of obj ''duration''),
                 dec_int (prop_of obj ''intervalMilliseconds''), dec_string (prop_of obj ''interval''),
                 dec_schedule_field (prop_of obj ''schedule''), dec_int (prop_of obj ''maxAdditionalAttempts''),
                 dec_bool (prop_of obj ''honorRetryAfter''), dec_bool (prop_of obj ''overwrite'')) of
             (Some d, Some dt, Some i, Some it, Some sch, Some m, Some h, Some w) \<Rightarrow>
               Some \<lparr>pl_DurationMilliseconds = d, pl_Duration = dt, pl_IntervalMilliseconds = i, pl_Interval = it,
                     pl_Schedule = sch, pl_MaxAdditionalAttempts = m, pl_HonorRetryAfter = h, pl_Overwrite = w\<rparr>
           | _ \<Rightarrow> None)"

section \<open>Durations as text\<close>

text \<open>
  \<open>time.ParseDuration\<close>: a signed sequence of decimal numbers with a unit, such as
  \<open>1h30m\<close> or \<open>1.5s\<close>. The fraction is cut to whole nanoseconds exactly.
\<close>

definition unit_of :: "string \<Rightarrow> int option" where
  "unit_of u = map_of
     [(''ns'', 1), (''us'', 1000), ([CHR 0xC2, CHR 0xB5, CHR ''s''], 1000), ([CHR 0xCE, CHR 0xBC, CHR ''s''], 1000),
      (''ms'', 1000000), (''s'', 1000000000), (''m'', 60000000000), (''h'', 3600000000000)] u"

definition is_digit :: "char \<Rightarrow> bool" where
  "is_digit c \<longleftrightarrow> 48 \<le> (of_char c :: nat) \<and> (of_char c :: nat) \<le> 57"

primrec duration_parts :: "nat \<Rightarrow> string \<Rightarrow> int \<Rightarrow> int option" where
  "duration_parts 0 s d = None"
| "duration_parts (Suc fuel) s d =
     (if s = [] then Some d
      else
        (let whole = takeWhile is_digit s; rest = dropWhile is_digit s;
             dotted = (case rest of c # _ \<Rightarrow> c = CHR ''.'' | [] \<Rightarrow> False);
             frac = (if dotted then takeWhile is_digit (drop 1 rest) else []);
             rest' = (if dotted then dropWhile is_digit (drop 1 rest) else rest);
             u = takeWhile (\<lambda>c. \<not> (c = CHR ''.'' \<or> is_digit c)) rest';
             rest'' = dropWhile (\<lambda>c. \<not> (c = CHR ''.'' \<or> is_digit c)) rest'
         in if whole = [] \<and> frac = [] then None
            else case (digits_value 0 whole, digits_value 0 frac, unit_of u) of
                   (Some v, Some f, Some factor) \<Rightarrow>
                     (let part = int v * factor + \<lfloor>of_nat f * of_int factor / (10 ^ length frac :: rat)\<rfloor>
                      in if 2 ^ 63 < int v * factor \<or> 2 ^ 63 < part \<or> 2 ^ 63 < d + part then None
                         else duration_parts fuel rest'' (d + part))
                 | _ \<Rightarrow> None))"

definition ParseDuration :: "string \<Rightarrow> int option" where
  "ParseDuration s =
     (case signed s of (neg, body) \<Rightarrow>
        if body = ''0'' then Some 0
        else if body = [] then None
        else case duration_parts (Suc (length body)) body 0 of
               None \<Rightarrow> None
             | Some d \<Rightarrow> if neg then Some (- d) else if 2 ^ 63 - 1 < d then None else Some d)"

section \<open>Payloads to specifications\<close>

definition parseDurationInput :: "int option \<Rightarrow> string \<Rightarrow> int option" where
  "parseDurationInput milliseconds text =
     (case milliseconds of
        Some ms \<Rightarrow>
          if ms \<le> 0 \<or> ms > Milliseconds MaximumRetryPolicyDuration then None else Some (ms * Millisecond)
      | None \<Rightarrow> if js_trim text = [] then None else ParseDuration (js_trim text))"

text \<open>The schedule's errors are dropped and leave a zero, which the validation judges.\<close>

definition schedule_duration :: "int option \<Rightarrow> int" where
  "schedule_duration ms = nullish (parseDurationInput ms []) 0"

definition payload_spec :: "retryPolicyPayload \<Rightarrow> RetryPolicySpec option" where
  "payload_spec p =
     (case parseDurationInput (pl_DurationMilliseconds p) (pl_Duration p) of
        None \<Rightarrow> None
      | Some duration \<Rightarrow>
          (let spec = (\<lambda>sch. \<lparr>sp_Duration = duration, sp_Schedule = sch,
                         sp_MaxAdditionalAttempts = nullish (pl_MaxAdditionalAttempts p) 0,
                         sp_HonorRetryAfter = nullish (pl_HonorRetryAfter p) True\<rparr>);
               checked = (\<lambda>s. if Validate s then Some s else None)
           in case pl_Schedule p of
                None \<Rightarrow>
                  (case parseDurationInput (pl_IntervalMilliseconds p) (pl_Interval p) of
                     None \<Rightarrow> None
                   | Some interval \<Rightarrow>
                       checked (spec \<lparr>rs_Mode = ''fixed'', rs_Interval = interval, rs_Minimum = 0, rs_Maximum = 0, rs_Base = 0\<rparr>))
              | Some sch \<Rightarrow>
                  checked (spec \<lparr>rs_Mode = sl_Mode sch, rs_Interval = schedule_duration (sl_IntervalMilliseconds sch),
                     rs_Minimum = schedule_duration (sl_MinimumIntervalMilliseconds sch),
                     rs_Maximum = schedule_duration (sl_MaximumIntervalMilliseconds sch),
                     rs_Base = schedule_duration (sl_BaseIntervalMilliseconds sch)\<rparr>)))"

section \<open>Handlers\<close>

datatype 'a reply =
    Rejected int string
  | Replied 'a

fun reason_error :: "RequestActionReason \<Rightarrow> int \<times> string" where
  "reason_error NotFound = (404, ''REQUEST_NOT_FOUND'')"
| "reason_error ConfirmationRequired = (428, ''RETRY_CONFIRMATION_REQUIRED'')"
| "reason_error PolicyExists = (409, ''RETRY_POLICY_EXISTS'')"
| "reason_error NoPolicy = (404, ''RETRY_POLICY_NOT_FOUND'')"
| "reason_error PersistenceUnavailable = (503, ''PERSISTENCE_UNAVAILABLE'')"
| "reason_error UncertainResolutionRequired = (428, ''UNCERTAIN_RESOLUTION_REQUIRED'')"
| "reason_error _ = (409, ''REQUEST_ACTION_UNAVAILABLE'')"

fun writeRequestActionError :: "RequestActionResult \<Rightarrow> 'a reply" where
  "writeRequestActionError (skippedAction _ _ reason) = (case reason_error reason of (status, code) \<Rightarrow> Rejected status code)"
| "writeRequestActionError (acceptedAction _ _) = Rejected 409 ''REQUEST_ACTION_UNAVAILABLE''"

fun already_requested :: "RequestActionResult \<Rightarrow> bool" where
  "already_requested (skippedAction _ _ reason) \<longleftrightarrow> reason = AlreadyRequested"
| "already_requested (acceptedAction _ _) \<longleftrightarrow> False"

text \<open>An empty body is accepted; \<open>allowUncertain\<close> is read and not used.\<close>

definition retry_body_ok :: "json option \<Rightarrow> bool" where
  "retry_body_ok body \<longleftrightarrow>
     (case body of
        None \<Rightarrow> True
      | Some (JObj obj) \<Rightarrow> known_fields [''allowUncertain''] obj \<and> dec_bool (prop_of obj ''allowUncertain'') \<noteq> None
      | Some JNull \<Rightarrow> True
      | Some _ \<Rightarrow> False)"

definition retryRequest ::
  "string \<Rightarrow> json option \<Rightarrow> string option \<Rightarrow> int \<Rightarrow> registry \<Rightarrow> (bool \<times> RequestActionResult) reply \<times> registry" where
  "retryRequest ident body err now r =
     (if \<not> retry_body_ok body then (Rejected 400 ''INVALID_RETRY_REQUEST'', r)
      else case RetryNowChecked ident err now r of (res, r') \<Rightarrow>
        if \<not> accepted res then
          (if already_requested res then (Replied (False, res), r') else (writeRequestActionError res, r'))
        else (Replied (True, res), r'))"

definition setRetryPolicy ::
  "string \<Rightarrow> json \<Rightarrow> string option \<Rightarrow> int \<Rightarrow> registry \<Rightarrow> (time \<times> int \<times> go_policy_info) reply \<times> registry" where
  "setRetryPolicy ident body err now r =
     (case (case body of JObj obj \<Rightarrow> dec_policy obj | _ \<Rightarrow> None) of
        None \<Rightarrow> (Rejected 400 ''INVALID_RETRY_POLICY'', r)
      | Some payload \<Rightarrow>
          (case payload_spec payload of
             None \<Rightarrow> (Rejected 400 ''INVALID_RETRY_POLICY'', r)
           | Some spec \<Rightarrow>
               (case ApplyRetryPolicy ident spec (nullish (pl_Overwrite payload) True) err now r of (res, r') \<Rightarrow>
                  if \<not> accepted res then (writeRequestActionError res, r')
                  else case RetryPolicy_of ident r' of
                         None \<Rightarrow> (Replied (None, 0, policy_Info (NewRetryPolicy spec None) 0), r')
                       | Some p \<Rightarrow> (Replied (rp_Deadline p, Milliseconds (rp_Interval p), policy_Info p 0), r'))))"

definition clearRetryPolicy :: "string \<Rightarrow> string option \<Rightarrow> int \<Rightarrow> registry \<Rightarrow> bool reply \<times> registry" where
  "clearRetryPolicy ident err now r =
     (case ClearRetryPolicy ident err now r of (res, r') \<Rightarrow>
        if \<not> accepted res then (writeRequestActionError res, r') else (Replied True, r'))"

section \<open>Batches\<close>

text \<open>The loop of \<open>normalizeRequestIDs\<close> over the identifiers that are left; \<open>acc\<close> is \<open>result\<close>, whose elements are \<open>seen\<close>.\<close>

fun normalize_loop :: "string list \<Rightarrow> string list \<Rightarrow> string list option" where
  "normalize_loop acc [] = Some acc"
| "normalize_loop acc (raw # rest) =
     (let ident = js_trim raw
      in if ident = [] then None
         else if ident \<in> set acc then normalize_loop acc rest
         else normalize_loop (acc @ [ident]) rest)"

definition normalizeRequestIDs :: "string list \<Rightarrow> string list option" where
  "normalizeRequestIDs ids =
     (if length ids = 0 \<or> length ids > 1000 then None
      else case normalize_loop [] ids of
             None \<Rightarrow> None | Some result \<Rightarrow> if length result > 0 then Some result else None)"

record batchActionResponse =
  ba_Requested :: nat
  ba_Accepted :: nat
  ba_Skipped :: nat
  ba_Triggered :: nat
  ba_Results :: "RequestActionResult list"

definition new_batch :: "string list \<Rightarrow> batchActionResponse" where
  "new_batch ids = \<lparr>ba_Requested = length ids, ba_Accepted = 0, ba_Skipped = 0, ba_Triggered = 0, ba_Results = []\<rparr>"

definition batch_result :: "RequestActionResult \<Rightarrow> batchActionResponse \<Rightarrow> batchActionResponse" where
  "batch_result res b =
     (let b1 = b\<lparr>ba_Results := ba_Results b @ [res]\<rparr>
      in if accepted res then b1\<lparr>ba_Accepted := ba_Accepted b1 + 1\<rparr> else b1\<lparr>ba_Skipped := ba_Skipped b1 + 1\<rparr>)"

fun batch_retry_loop ::
  "(string \<Rightarrow> string option) \<Rightarrow> int \<Rightarrow> string list \<Rightarrow> batchActionResponse \<times> registry \<Rightarrow> batchActionResponse \<times> registry" where
  "batch_retry_loop errs now [] br = br"
| "batch_retry_loop errs now (ident # ids) (b, r) =
     (case RetryNowChecked ident (errs ident) now r of (res, r') \<Rightarrow>
        batch_retry_loop errs now ids (batch_result res b, r'))"

definition batchRetry ::
  "json \<Rightarrow> (string \<Rightarrow> string option) \<Rightarrow> int \<Rightarrow> registry \<Rightarrow> batchActionResponse reply \<times> registry" where
  "batchRetry body errs now r =
     (case body of
        JObj obj \<Rightarrow>
          if \<not> known_fields [''requestIds'', ''allowUncertain''] obj \<or> dec_bool (prop_of obj ''allowUncertain'') = None
          then (Rejected 400 ''INVALID_BATCH_REQUEST'', r)
          else (case Option.bind (dec_string_list (prop_of obj ''requestIds'')) normalizeRequestIDs of
                  None \<Rightarrow> (Rejected 400 ''INVALID_BATCH_REQUEST'', r)
                | Some ids \<Rightarrow>
                    (case batch_retry_loop errs now ids (new_batch ids, r) of (b, r') \<Rightarrow> (Replied b, r')))
      | _ \<Rightarrow> (Rejected 400 ''INVALID_BATCH_REQUEST'', r))"

text \<open>One round of the loop: \<open>spec\<close> is \<open>None\<close> for a reset; \<open>errs\<close> and \<open>errs2\<close> are the outcomes of the writes for the policy and for the retry.\<close>

definition batch_policy_one ::
  "RetryPolicySpec option \<Rightarrow> bool \<Rightarrow> bool \<Rightarrow> (string \<Rightarrow> string option) \<Rightarrow> (string \<Rightarrow> string option) \<Rightarrow> int \<Rightarrow> string \<Rightarrow>
     batchActionResponse \<times> registry \<Rightarrow> batchActionResponse \<times> registry" where
  "batch_policy_one spec overwrite retryWaitingNow errs errs2 now ident br =
     (case br of (b, r) \<Rightarrow>
       (case (case spec of None \<Rightarrow> ClearRetryPolicy ident (errs ident) now r
                         | Some s \<Rightarrow> ApplyRetryPolicy ident s overwrite (errs ident) now r) of (res, r1) \<Rightarrow>
          (let b1 = batch_result res b
           in if accepted res \<and> retryWaitingNow \<and> result_state res = Some StateWaiting
              then (case RetryNowChecked ident (errs2 ident) now r1 of (res2, r2) \<Rightarrow>
                      (if accepted res2 then b1\<lparr>ba_Triggered := ba_Triggered b1 + 1\<rparr> else b1, r2))
              else (b1, r1))))"

definition batch_policy_loop ::
  "RetryPolicySpec option \<Rightarrow> bool \<Rightarrow> bool \<Rightarrow> (string \<Rightarrow> string option) \<Rightarrow> (string \<Rightarrow> string option) \<Rightarrow> int \<Rightarrow> string list \<Rightarrow>
     batchActionResponse \<times> registry \<Rightarrow> batchActionResponse \<times> registry" where
  "batch_policy_loop spec overwrite retryWaitingNow errs errs2 now = fold (batch_policy_one spec overwrite retryWaitingNow errs errs2 now)"

fun dec_policy_field :: "json option \<Rightarrow> retryPolicyPayload option option" where
  "dec_policy_field None = Some None"
| "dec_policy_field (Some JNull) = Some None"
| "dec_policy_field (Some (JObj obj)) = map_option Some (dec_policy obj)"
| "dec_policy_field (Some _) = None"

definition batchRetryPolicy ::
  "json \<Rightarrow> (string \<Rightarrow> string option) \<Rightarrow> (string \<Rightarrow> string option) \<Rightarrow> int \<Rightarrow> registry \<Rightarrow> batchActionResponse reply \<times> registry" where
  "batchRetryPolicy body errs errs2 now r =
     (case body of
        JObj obj \<Rightarrow>
          if \<not> known_fields [''requestIds'', ''policy'', ''reset'', ''overwrite'', ''retryWaitingNow''] obj
          then (Rejected 400 ''INVALID_BATCH_REQUEST'', r)
          else
            (case (dec_string_list (prop_of obj ''requestIds''), dec_policy_field (prop_of obj ''policy''),
                   dec_bool (prop_of obj ''reset''), dec_bool (prop_of obj ''overwrite''), dec_bool (prop_of obj ''retryWaitingNow'')) of
               (Some raw, Some policy, Some reset, Some overwrite, Some again) \<Rightarrow>
                 (case normalizeRequestIDs raw of
                    None \<Rightarrow> (Rejected 400 ''INVALID_BATCH_REQUEST'', r)
                  | Some ids \<Rightarrow>
                      (let run = (\<lambda>spec. case batch_policy_loop spec (nullish overwrite True) (nullish again False) errs errs2 now ids
                                     (new_batch ids, r) of (b, r') \<Rightarrow> (Replied b, r'))
                       in if nullish reset False
                          then (if policy \<noteq> None then (Rejected 400 ''INVALID_BATCH_REQUEST'', r) else run None)
                          else case policy of
                                 None \<Rightarrow> (Rejected 400 ''INVALID_BATCH_REQUEST'', r)
                               | Some pl \<Rightarrow>
                                   (case payload_spec pl of
                                      None \<Rightarrow> (Rejected 400 ''INVALID_RETRY_POLICY'', r) | Some spec \<Rightarrow> run (Some spec))))
             | _ \<Rightarrow> (Rejected 400 ''INVALID_BATCH_REQUEST'', r))
      | _ \<Rightarrow> (Rejected 400 ''INVALID_BATCH_REQUEST'', r))"

text \<open>The outcome that is audited.\<close>

definition batch_outcome :: "batchActionResponse \<Rightarrow> string" where
  "batch_outcome b =
     (if ba_Accepted b = ba_Requested b then ''succeeded'' else if ba_Accepted b > 0 then ''partial'' else ''skipped'')"

section \<open>What the console is told\<close>

text \<open>The JSON of \<open>go_policy_info\<close> as the console reads it; \<open>omitempty\<close> drops zeros; \<open>fmt\<close> prints a time.\<close>

definition omit_zero :: "int \<Rightarrow> int option" where
  "omit_zero n = (if n = 0 then None else Some n)"

definition mode_of :: "string \<Rightarrow> RetryScheduleMode" where
  "mode_of s =
     (if s = ''immediate'' then RetryScheduleMode_Immediate else if s = ''fixed'' then RetryScheduleMode_Fixed
      else if s = ''random'' then RetryScheduleMode_Random else if s = ''exponential'' then RetryScheduleMode_Exponential
      else RetryScheduleMode_Inherit)"

definition wire_policy :: "(time \<Rightarrow> string) \<Rightarrow> go_policy_info \<Rightarrow> RetryPolicyInfo" where
  "wire_policy fmt i =
     \<lparr>rpi_state = (if pi_State i = ''active'' then RetryPolicyInfo_state_Active else RetryPolicyInfo_state_Pending),
      rpi_durationMilliseconds = pi_DurationMilliseconds i,
      rpi_schedule = \<lparr>rsi_mode = mode_of (pi_Mode i), rsi_intervalMilliseconds = omit_zero (pi_IntervalMilliseconds i),
        rsi_minimumIntervalMilliseconds = omit_zero (pi_MinimumIntervalMilliseconds i),
        rsi_maximumIntervalMilliseconds = omit_zero (pi_MaximumIntervalMilliseconds i),
        rsi_baseIntervalMilliseconds = omit_zero (pi_BaseIntervalMilliseconds i)\<rparr>,
      rpi_maxAdditionalAttempts = omit_zero (pi_MaxAdditionalAttempts i),
      rpi_additionalAttemptsUsed = pi_AdditionalAttemptsUsed i,
      rpi_remainingAdditionalAttempts = omit_zero (pi_RemainingAdditionalAttempts i),
      rpi_honorRetryAfter = pi_HonorRetryAfter i,
      rpi_appliedAt = fmt (pi_AppliedAt i),
      rpi_activatedAt = map_option fmt (pi_ActivatedAt i),
      rpi_deadline = map_option fmt (pi_Deadline i)\<rparr>"

section \<open>The dialog's policies on the gateway\<close>

text \<open>The specification the gateway reads from a policy of the dialog.\<close>

definition input_spec :: "RetryPolicyInput \<Rightarrow> RetryPolicySpec" where
  "input_spec p =
     (let s = rpin_schedule p
      in \<lparr>sp_Duration = rpin_durationMilliseconds p * Millisecond,
          sp_Schedule = \<lparr>rs_Mode = mode_string (rpin_schedule_mode s),
            rs_Interval = nullish (rpin_schedule_intervalMilliseconds s) 0 * Millisecond,
            rs_Minimum = nullish (rpin_schedule_minimumIntervalMilliseconds s) 0 * Millisecond,
            rs_Maximum = nullish (rpin_schedule_maximumIntervalMilliseconds s) 0 * Millisecond,
            rs_Base = nullish (rpin_schedule_baseIntervalMilliseconds s) 0 * Millisecond\<rparr>,
          sp_MaxAdditionalAttempts = nullish (rpin_maxAdditionalAttempts p) 0,
          sp_HonorRetryAfter = rpin_honorRetryAfter p\<rparr>)"

definition input_payload :: "RetryPolicyInput \<Rightarrow> bool option \<Rightarrow> retryPolicyPayload" where
  "input_payload p overwrite =
     (let s = rpin_schedule p
      in \<lparr>pl_DurationMilliseconds = Some (rpin_durationMilliseconds p), pl_Duration = [], pl_IntervalMilliseconds = None,
          pl_Interval = [],
          pl_Schedule = Some \<lparr>sl_Mode = mode_string (rpin_schedule_mode s),
            sl_IntervalMilliseconds = rpin_schedule_intervalMilliseconds s,
            sl_MinimumIntervalMilliseconds = rpin_schedule_minimumIntervalMilliseconds s,
            sl_MaximumIntervalMilliseconds = rpin_schedule_maximumIntervalMilliseconds s,
            sl_BaseIntervalMilliseconds = rpin_schedule_baseIntervalMilliseconds s\<rparr>,
          pl_MaxAdditionalAttempts = rpin_maxAdditionalAttempts p, pl_HonorRetryAfter = Some (rpin_honorRetryAfter p),
          pl_Overwrite = overwrite\<rparr>)"

definition ms_ok :: "int option \<Rightarrow> bool" where
  "ms_ok v \<longleftrightarrow> (case v of None \<Rightarrow> True | Some n \<Rightarrow> 0 < n \<and> n \<le> DAY)"

lemma dec_int_num [simp]: "int64_ok n \<Longrightarrow> dec_int (Some (JNum (of_int n))) = Some (Some n)"
  by simp

lemma prop_number_prop:
  "f \<noteq> name \<Longrightarrow> prop_of (number_prop name v @ obj) f = prop_of obj f"
  "prop_of obj name = None \<Longrightarrow> prop_of (number_prop name v @ obj) name = map_option (\<lambda>n. JNum (of_int n)) v"
  "prop_of (number_prop name v) f = (if f = name then map_option (\<lambda>n. JNum (of_int n)) v else None)"
  by (auto simp: prop_of_def number_prop_def split: option.split)

lemma prop_Cons: "prop_of ((k, v) # obj) f = (if f = k then Some v else prop_of obj f)" "prop_of [] f = None"
  by (simp_all add: prop_of_def)

lemma known_append:
  "known_fields names (a @ b) \<longleftrightarrow> known_fields names a \<and> known_fields names b"
  "known_fields names ((k, v) # obj) \<longleftrightarrow> k \<in> set names \<and> known_fields names obj" "known_fields names []"
  by (simp_all add: known_fields_def)

lemma known_number_prop: "name \<in> set names \<Longrightarrow> known_fields names (number_prop name v)"
  by (auto simp: known_fields_def number_prop_def split: option.split)

lemmas json_fields = known_append known_number_prop prop_Cons prop_number_prop

lemma ms_ok_int64: "ms_ok v \<Longrightarrow> v = Some n \<Longrightarrow> int64_ok n"
  by (auto simp: ms_ok_def int64_ok_def time_units)

lemma dec_int_prop:
  "(\<And>n. v = Some n \<Longrightarrow> int64_ok n) \<Longrightarrow> dec_int (map_option (\<lambda>n. JNum (of_int n)) v) = Some v"
  by (cases v) auto

lemma valid_ms:
  assumes "valid_policy p"
  shows "ms_ok (Some (rpin_durationMilliseconds p))" "ms_ok (rpin_schedule_intervalMilliseconds (rpin_schedule p))"
    "ms_ok (rpin_schedule_minimumIntervalMilliseconds (rpin_schedule p))"
    "ms_ok (rpin_schedule_maximumIntervalMilliseconds (rpin_schedule p))"
    "ms_ok (rpin_schedule_baseIntervalMilliseconds (rpin_schedule p))"
    "rpin_maxAdditionalAttempts p = Some n \<Longrightarrow> 1 \<le> n \<and> n \<le> 1000"
proof -
  have s: "schedule_ok (rpin_durationMilliseconds p) (rpin_schedule p)" using assms by (simp add: valid_policy_def)
  show "ms_ok (Some (rpin_durationMilliseconds p))"
    using assms by (auto simp: valid_policy_def ms_ok_def time_units)
  show "rpin_maxAdditionalAttempts p = Some n \<Longrightarrow> 1 \<le> n \<and> n \<le> 1000"
    using assms by (auto simp: valid_policy_def attempts_ok_def split: if_splits)
  have "ms_ok (rpin_schedule_intervalMilliseconds (rpin_schedule p)) \<and>
    ms_ok (rpin_schedule_minimumIntervalMilliseconds (rpin_schedule p)) \<and>
    ms_ok (rpin_schedule_maximumIntervalMilliseconds (rpin_schedule p)) \<and>
    ms_ok (rpin_schedule_baseIntervalMilliseconds (rpin_schedule p))"
    using s
    by (cases "rpin_schedule_mode (rpin_schedule p)")
       (auto simp: schedule_ok_def interval_ok_def ms_ok_def plain_schedule_def time_units split: option.splits)
  then show "ms_ok (rpin_schedule_intervalMilliseconds (rpin_schedule p))"
    "ms_ok (rpin_schedule_minimumIntervalMilliseconds (rpin_schedule p))"
    "ms_ok (rpin_schedule_maximumIntervalMilliseconds (rpin_schedule p))"
    "ms_ok (rpin_schedule_baseIntervalMilliseconds (rpin_schedule p))" by blast+
qed

lemma prop_set_policy: "prop_set (policy_json p) ''overwrite'' v = policy_json p @ [(''overwrite'', v)]"
  unfolding prop_set_def by (rule map_set_new) (auto simp: policy_json_def number_prop_def Let_def split: option.splits)

lemma dec_schedule_json:
  assumes "valid_policy p"
  shows "dec_schedule ([(''mode'', JStr (mode_string (rpin_schedule_mode (rpin_schedule p))))] @
          number_prop ''intervalMilliseconds'' (rpin_schedule_intervalMilliseconds (rpin_schedule p)) @
          number_prop ''minimumIntervalMilliseconds'' (rpin_schedule_minimumIntervalMilliseconds (rpin_schedule p)) @
          number_prop ''baseIntervalMilliseconds'' (rpin_schedule_baseIntervalMilliseconds (rpin_schedule p)) @
          number_prop ''maximumIntervalMilliseconds'' (rpin_schedule_maximumIntervalMilliseconds (rpin_schedule p)))
     = pl_Schedule (input_payload p w)"
proof -
  note ms = valid_ms [OF assms]
  have ints: "dec_int (map_option (\<lambda>n. JNum (of_int n)) v) = Some v" if "ms_ok v" for v
    using ms_ok_int64 [OF that] by (rule dec_int_prop)
  show ?thesis
    unfolding dec_schedule_def
    by (simp add: json_fields input_payload_def Let_def ints ms(2-5))
qed

lemma int64_small: "0 \<le> n \<Longrightarrow> n \<le> 86400000 \<Longrightarrow> int64_ok n"
  by (simp add: int64_ok_def)

lemma dec_policy_json:
  assumes "valid_policy p"
  shows "dec_policy (policy_json p) = Some (input_payload p None)"
    "dec_policy (policy_json p @ [(''overwrite'', JBool b)]) = Some (input_payload p (Some b))"
proof -
  note ms = valid_ms [OF assms]
  have d: "int64_ok (rpin_durationMilliseconds p)" using ms(1) by (rule ms_ok_int64) simp
  have a: "dec_int (map_option (\<lambda>n. JNum (of_int n)) (rpin_maxAdditionalAttempts p)) = Some (rpin_maxAdditionalAttempts p)"
    by (rule dec_int_prop) (auto dest: ms(6) intro!: int64_small)
  note sch = dec_schedule_json [OF assms, of None, unfolded append_Cons append_Nil]
  show "dec_policy (policy_json p) = Some (input_payload p None)"
    "dec_policy (policy_json p @ [(''overwrite'', JBool b)]) = Some (input_payload p (Some b))"
    unfolding dec_policy_def policy_json_def Let_def
    by (simp_all add: json_fields a d dec_int_num sch del: dec_int.simps) (simp_all add: input_payload_def Let_def)
qed

lemma schedule_duration_ms: "ms_ok v \<Longrightarrow> schedule_duration v = nullish v 0 * Millisecond"
  by (cases v) (simp_all add: schedule_duration_def parseDurationInput_def js_trim_def ms_ok_def Milliseconds_def go_units time_units)

lemma valid_interval_ms: "interval_ok d i \<Longrightarrow> validPolicyInterval (i * Millisecond) (d * Millisecond)"
  by (simp add: interval_ok_def validPolicyInterval_def go_units time_units)

lemma input_spec_valid:
  assumes "valid_policy p"
  shows "Validate (input_spec p)"
proof -
  have d: "\<not> rpin_durationMilliseconds p * Millisecond < MinimumRetryPolicyDuration"
    "\<not> MaximumRetryPolicyDuration < rpin_durationMilliseconds p * Millisecond"
    using assms by (simp_all add: valid_policy_def go_units time_units)
  have s: "schedule_ok (rpin_durationMilliseconds p) (rpin_schedule p)"
    and a: "attempts_ok (rpin_schedule_mode (rpin_schedule p)) (rpin_maxAdditionalAttempts p)"
    using assms by (simp_all add: valid_policy_def)
  have n: "\<not> nullish (rpin_maxAdditionalAttempts p) 0 < 0" "\<not> MaximumPolicyAttempts < nullish (rpin_maxAdditionalAttempts p) 0"
    using a by (auto simp: attempts_ok_def MaximumPolicyAttempts_def split: option.splits if_splits)
  show ?thesis
    using s a d n
    by (cases "rpin_schedule_mode (rpin_schedule p)")
       (auto simp: Validate_def input_spec_def Let_def schedule_ok_def plain_schedule_def valid_interval_ms interval_ok_def
          attempts_ok_def mode_string_def go_units time_units validPolicyInterval_def split: option.splits)
qed

lemma payload_spec_input:
  assumes "valid_policy p"
  shows "payload_spec (input_payload p w) = Some (input_spec p)"
proof -
  note ms = valid_ms [OF assms]
  have "parseDurationInput (Some (rpin_durationMilliseconds p)) [] = Some (rpin_durationMilliseconds p * Millisecond)"
    using ms(1) by (simp add: parseDurationInput_def ms_ok_def Milliseconds_def go_units time_units)
  then show ?thesis
    using input_spec_valid [OF assms]
    by (simp add: payload_spec_def input_payload_def input_spec_def Let_def schedule_duration_ms ms(2-5))
qed

lemma milliseconds_ms [simp]: "0 \<le> n \<Longrightarrow> Milliseconds (n * Millisecond) = n"
  by (simp add: Milliseconds_def Millisecond_def)

lemma milliseconds_zero [simp]: "Milliseconds 0 = 0"
  by (simp add: Milliseconds_def)

lemma omit_zero_ms: "ms_ok v \<Longrightarrow> omit_zero (Milliseconds (nullish v 0 * Millisecond)) = v"
  by (cases v) (auto simp: omit_zero_def ms_ok_def)

lemma mode_of_string: "mode_of (mode_string m) = m"
  by (cases m) (simp_all add: mode_of_def mode_string_def)

lemma wire_policy_input:
  assumes "valid_policy p" "spec_of q = input_spec p"
  shows "input_of (wire_policy fmt (policy_Info q attempt)) = p"
proof -
  note ms = valid_ms [OF assms(1)]
  have q: "rp_Duration q = rpin_durationMilliseconds p * Millisecond" "rp_Schedule q = sp_Schedule (input_spec p)"
    "rp_MaxAdditionalAttempts q = nullish (rpin_maxAdditionalAttempts p) 0" "rp_HonorRetryAfter q = rpin_honorRetryAfter p"
    using assms(2) by (simp_all add: spec_of_def input_spec_def Let_def)
  have "omit_zero (nullish (rpin_maxAdditionalAttempts p) 0) = rpin_maxAdditionalAttempts p"
    using ms(6) by (cases "rpin_maxAdditionalAttempts p") (auto simp: omit_zero_def)
  moreover have "Milliseconds (rpin_durationMilliseconds p * Millisecond) = rpin_durationMilliseconds p"
    using ms(1) by (simp add: ms_ok_def)
  ultimately show ?thesis
    by (simp add: input_of_def wire_policy_def policy_Info_def q Let_def)
       (simp add: input_spec_def Let_def omit_zero_ms ms(2-5) mode_of_string)
qed

lemma dialog_builds_valid: "buildPolicy form = Inr p \<Longrightarrow> valid_policy p"
  by (auto simp: buildPolicy_def Let_def valid_policy_def attempts_ok_def dest!: build_schedule_ok
      split: if_splits sum.splits option.splits)


section \<open>Retries under a policy\<close>

text \<open>
  The retries a request makes by its timer under an active policy. One round is one call
  of \<open>awaitRetry\<close> after a failed attempt: the policy may stop it, it waits for the drawn
  delay, cut to what remains of the window, and retries unless the window is over when it
  wakes. \<open>draw\<close> and \<open>after\<close> are what the round draws and the \<open>Retry-After\<close> it sees, \<open>late\<close>
  is how late its timer fires and \<open>took\<close> how long the attempt after it runs.
\<close>

record round =
  ro_draw :: "int \<Rightarrow> int"
  ro_inheritMin :: int
  ro_inheritMax :: int
  ro_after :: int
  ro_late :: int
  ro_took :: int

fun policy_rounds :: "RetryPolicy \<Rightarrow> int \<Rightarrow> int \<Rightarrow> round list \<Rightarrow> nat" where
  "policy_rounds p attempt now [] = 0"
| "policy_rounds p attempt now (ro # rs) =
     (if retryPolicyStop True 0 False attempt (Some p) now \<noteq> retryStopNone then 0
      else case rp_Deadline p of
             None \<Rightarrow> 0
           | Some deadline \<Rightarrow>
               (let delay = min (policyDelay (ro_draw ro) p (ro_inheritMin ro) (ro_inheritMax ro) (ro_after ro) attempt) (deadline - now);
                    woken = now + delay + ro_late ro
                in if \<not> woken < deadline then 0
                   else Suc (policy_rounds p (attempt + 1) (woken + ro_took ro) rs)))"

definition round_ok :: "round \<Rightarrow> bool" where
  "round_ok ro \<longleftrightarrow> int63n_ok (ro_draw ro) \<and> 0 \<le> ro_late ro \<and> 0 \<le> ro_took ro"

text \<open>Every wait under a policy with a shortest interval lasts at least that long.\<close>

definition least_wait :: "RetryPolicy \<Rightarrow> int option" where
  "least_wait p =
     (let sch = rp_Schedule p; mode = rs_Mode sch
      in if mode = ''fixed'' then Some (rs_Interval sch)
         else if mode = ''random'' then Some (rs_Minimum sch)
         else if mode = ''exponential'' then Some (rs_Base sch)
         else None)"

lemma policyDelay_least:
  assumes "least_wait p = Some i" "int63n_ok draw"
  shows "i \<le> policyDelay draw p lo hi after attempt"
proof -
  have r: "m \<le> randomDelay draw m n" for m n using randomDelay_range [OF assms(2)] by blast
  have "i \<le> max i k" "i \<le> max k i" for k by simp_all
  then show ?thesis
    using assms(1) r [of i] order_trans [OF _ r [of "max i k" for k]]
    by (auto simp: least_wait_def policyDelay_def Let_def le_max_iff_disj split: if_splits)
qed

lemma rounds_limit:
  assumes "0 < rp_MaxAdditionalAttempts p" "rp_BaselineAttempt p \<le> attempt"
  shows "int (policy_rounds p attempt now rs) \<le> max 0 (rp_MaxAdditionalAttempts p - (attempt - rp_BaselineAttempt p))"
  using assms
proof (induction p attempt now rs rule: policy_rounds.induct)
  case (2 p attempt now ro rs)
  then show ?case
    by (fastforce simp: retryPolicyStop_def Exhausted_def Let_def split: option.splits if_splits)
qed simp

lemma rounds_window:
  assumes "least_wait p = Some i" "0 < i" "rp_Deadline p = Some deadline" "\<forall>ro \<in> set rs. round_ok ro"
  shows "int (policy_rounds p attempt now rs) * i \<le> max 0 (deadline - now)"
  using assms
proof (induction p attempt now rs rule: policy_rounds.induct)
  case (2 p attempt now ro rs)
  let ?d = "policyDelay (ro_draw ro) p (ro_inheritMin ro) (ro_inheritMax ro) (ro_after ro) attempt"
  let ?woken = "now + min ?d (deadline - now) + ro_late ro"
  show ?case
  proof (cases "retryPolicyStop True 0 False attempt (Some p) now = retryStopNone \<and> ?woken < deadline")
    case True
    have late: "0 \<le> ro_late ro" "0 \<le> ro_took ro" and d: "i \<le> ?d"
      using 2(5) policyDelay_least [OF 2(2)] by (auto simp: round_ok_def)
    have "int (policy_rounds p (attempt + 1) (?woken + ro_took ro) rs) * i \<le> max 0 (deadline - (?woken + ro_took ro))"
      using True 2(2-5) by (intro 2(1)) auto
    then show ?thesis
      using True late d 2(4) by (auto simp: Let_def algebra_simps)
  qed (use 2(4) in \<open>auto simp: Let_def\<close>)
qed simp

lemma least_wait_input:
  assumes "valid_policy p" "spec_of q = input_spec p"
  shows "least_wait q = map_option (\<lambda>i. i * Millisecond) (shortest (rpin_schedule p))"
proof -
  have s: "schedule_ok (rpin_durationMilliseconds p) (rpin_schedule p)" using assms by (simp add: valid_policy_def)
  have q: "rp_Schedule q = sp_Schedule (input_spec p)" using assms(2) by (simp add: spec_of_def input_spec_def Let_def)
  show ?thesis
    using s by (cases "rpin_schedule_mode (rpin_schedule p)")
      (auto simp: least_wait_def q input_spec_def Let_def shortest_def mode_string_def schedule_ok_def split: option.splits)
qed

section \<open>Batches count every identifier once\<close>

fun result_id :: "RequestActionResult \<Rightarrow> string" where
  "result_id (acceptedAction ident s) = ident"
| "result_id (skippedAction ident s r) = ident"

definition batch_ok :: "batchActionResponse \<Rightarrow> bool" where
  "batch_ok b \<longleftrightarrow> ba_Accepted b = length (filter accepted (ba_Results b)) \<and>
     ba_Skipped b = length (filter (\<lambda>x. \<not> accepted x) (ba_Results b)) \<and> ba_Triggered b \<le> ba_Accepted b"

lemma batch_ok_result:
  assumes "batch_ok b"
  shows "batch_ok (batch_result res b) \<and> ba_Results (batch_result res b) = ba_Results b @ [res] \<and>
     ba_Requested (batch_result res b) = ba_Requested b \<and> ba_Triggered (batch_result res b) = ba_Triggered b \<and>
     ba_Accepted (batch_result res b) = ba_Accepted b + (if accepted res then 1 else 0)"
  using assms by (auto simp: batch_ok_def batch_result_def Let_def)

lemma action_ids:
  "result_id (fst (RetryNowChecked ident err now r)) = ident"
  "result_id (fst (ClearRetryPolicy ident err now r)) = ident"
  "result_id (fst (ApplyRetryPolicy ident spec overwrite err now r)) = ident"
  by (auto simp: RetryNowChecked_def ClearRetryPolicy_def ApplyRetryPolicy_def applyRetryPolicy_def policy_written_def Let_def
      split: option.split)

lemma batch_retry_loop_ok:
  assumes "batch_ok b"
  shows "case batch_retry_loop errs now ids (b, r) of (b', r') \<Rightarrow>
     batch_ok b' \<and> ba_Requested b' = ba_Requested b \<and> map result_id (ba_Results b') = map result_id (ba_Results b) @ ids"
  using assms
proof (induction ids arbitrary: b r)
  case (Cons ident ids)
  obtain res r1 where one: "RetryNowChecked ident (errs ident) now r = (res, r1)" by force
  then have "result_id res = ident" using action_ids(1) by (metis fst_conv)
  with one Cons(1) [OF conjunct1 [OF batch_ok_result [OF Cons(2), of res]], of r1] batch_ok_result [OF Cons(2), of res]
  show ?case by (auto split: prod.splits)
qed simp

lemma batch_policy_one_ok:
  assumes "batch_ok b" "batch_policy_one spec overwrite again errs errs2 now ident (b, r) = (b', r')"
  shows "batch_ok b' \<and> ba_Requested b' = ba_Requested b \<and> map result_id (ba_Results b') = map result_id (ba_Results b) @ [ident]"
proof -
  obtain res r1 where one: "(case spec of None \<Rightarrow> ClearRetryPolicy ident (errs ident) now r
      | Some s \<Rightarrow> ApplyRetryPolicy ident s overwrite (errs ident) now r) = (res, r1)" by force
  then have "result_id res = ident" using action_ids(2,3) by (metis (mono_tags, lifting) fst_conv option.case_eq_if)
  moreover have "b' = batch_result res b \<or> accepted res \<and> b' = (batch_result res b)\<lparr>ba_Triggered := ba_Triggered b + 1\<rparr>"
    using assms(2) one batch_ok_result [OF assms(1), of res]
    by (auto simp: batch_policy_one_def Let_def split: prod.splits if_splits)
  ultimately show ?thesis
    using batch_ok_result [OF assms(1), of res] assms(1) by (auto simp: batch_ok_def split: if_splits)
qed

lemma batch_policy_loop_ok:
  assumes "batch_ok b"
  shows "case batch_policy_loop spec overwrite again errs errs2 now ids (b, r) of (b', r') \<Rightarrow>
     batch_ok b' \<and> ba_Requested b' = ba_Requested b \<and> map result_id (ba_Results b') = map result_id (ba_Results b) @ ids"
  using assms
proof (induction ids arbitrary: b r)
  case (Cons ident ids)
  obtain b1 r1 where one: "batch_policy_one spec overwrite again errs errs2 now ident (b, r) = (b1, r1)" by force
  from batch_policy_one_ok [OF Cons(2) this] Cons(1) [of b1 r1] one show ?case
    by (auto simp: batch_policy_loop_def split: prod.splits)
qed (simp add: batch_policy_loop_def)

lemma normalize_loop_spec:
  "normalize_loop acc raw = Some ids \<Longrightarrow> distinct acc \<Longrightarrow>
     distinct ids \<and> set ids = set acc \<union> js_trim ` set raw \<and> [] \<notin> js_trim ` set raw"
  by (induction acc raw rule: normalize_loop.induct) (auto simp: Let_def split: if_splits)

lemma normalize_spec:
  assumes "normalizeRequestIDs raw = Some ids"
  shows "distinct ids \<and> ids \<noteq> [] \<and> set ids = js_trim ` set raw \<and> [] \<notin> set ids \<and> length ids \<le> 1000"
proof -
  from assms have loop: "normalize_loop [] raw = Some ids" "ids \<noteq> []" "length raw \<le> 1000"
    by (auto simp: normalizeRequestIDs_def split: if_splits option.splits)
  from normalize_loop_spec [OF loop(1)] have spec: "distinct ids" "set ids = js_trim ` set raw" "[] \<notin> set ids" by auto
  have "length ids = card (set ids)" using spec(1) by (simp add: distinct_card)
  also have "\<dots> \<le> length raw" unfolding spec(2) using card_image_le [of "set raw" js_trim] card_length [of raw] by simp
  finally show ?thesis using spec loop by simp
qed

lemma new_batch_ok: "batch_ok (new_batch ids)" "ba_Requested (new_batch ids) = length ids" "ba_Results (new_batch ids) = []"
  by (simp_all add: new_batch_def batch_ok_def)

text \<open>What a reply of a batch promises.\<close>

definition batch_reply_ok :: "batchActionResponse \<Rightarrow> string list \<Rightarrow> bool" where
  "batch_reply_ok b raw \<longleftrightarrow>
     distinct (map result_id (ba_Results b)) \<and> set (map result_id (ba_Results b)) = js_trim ` set raw \<and>
     ba_Requested b = length (ba_Results b) \<and> ba_Accepted b + ba_Skipped b = ba_Requested b \<and>
     ba_Accepted b = length (filter accepted (ba_Results b)) \<and> ba_Triggered b \<le> ba_Accepted b"

lemma batch_reply:
  assumes "normalizeRequestIDs raw = Some ids" "batch_ok b" "ba_Requested b = length ids" "map result_id (ba_Results b) = ids"
  shows "batch_reply_ok b raw"
proof -
  have "length (ba_Results b) = length ids" using assms(4) by (metis length_map)
  moreover have "ba_Accepted b + ba_Skipped b = length (ba_Results b)"
    using assms(2) sum_length_filter_compl [of accepted "ba_Results b"] by (simp add: batch_ok_def)
  moreover have "ba_Accepted b = length (filter accepted (ba_Results b))" "ba_Triggered b \<le> ba_Accepted b"
    using assms(2) by (simp_all add: batch_ok_def)
  ultimately show ?thesis
    using normalize_spec [OF assms(1)] assms(3) unfolding batch_reply_ok_def assms(4) by simp
qed

section \<open>Properties\<close>

text \<open>
  Claim C3: a policy that the dialog builds survives the whole way through the gateway.
  The body the console sends is decoded and validated, the request it is offered for takes
  the policy, and what the gateway then reports of it reads as the same policy, so that
  opening the dialog again and submitting it unchanged sends it once more.
\<close>

theorem dialog_policy_through_gateway:
  assumes "buildPolicy form = Inr p" "lookup r ident = Some t" "ra_canSetRetryPolicy (actionsForState (ti_State (tr_info t)))"
    "fs_overwrite form \<or> tr_policy t = None"
    "init_body (call_init (api_setRetryPolicy ident (policy_json p) (fs_overwrite form))) = Some body"
  shows "\<exists>q r'. setRetryPolicy ident body None now r = (Replied (rp_Deadline q, Milliseconds (rp_Interval q), policy_Info q 0), r') \<and>
     RetryPolicy_of ident r' = Some q \<and> spec_of q = input_spec p \<and>
     buildPolicy (policyDefaults (Some (wire_policy fmt (policy_Info q attempt)))) = Inr p"
proof -
  have valid: "valid_policy p" using assms(1) by (rule dialog_builds_valid)
  have body: "body = JObj (policy_json p @ [(''overwrite'', JBool (fs_overwrite form))])"
    using assms(5) by (simp add: api_setRetryPolicy_def prop_set_policy)
  have spec: "payload_spec (input_payload p (Some (fs_overwrite form))) = Some (input_spec p)"
    using valid by (rule payload_spec_input)
  obtain q where q: "RetryPolicy_of ident (snd (ApplyRetryPolicy ident (input_spec p) (fs_overwrite form) None now r)) = Some q"
    "spec_of q = input_spec p" "accepted (fst (ApplyRetryPolicy ident (input_spec p) (fs_overwrite form) None now r))"
    using assms(2-4) input_spec_valid [OF valid]
    by (auto simp: ApplyRetryPolicy_def applyRetryPolicy_def Let_def policy_written_def RetryPolicy_of_def
        updatePolicyInfo_def stamp_def signal_policy_def)
  have wire: "input_of (wire_policy fmt (policy_Info q attempt)) = p" using valid q(2) by (rule wire_policy_input)
  then have "buildPolicy (policyDefaults (Some (wire_policy fmt (policy_Info q attempt)))) = Inr p"
    using form_keeps_policy [of "wire_policy fmt (policy_Info q attempt)"] valid by simp
  moreover have "setRetryPolicy ident body None now r =
      (Replied (rp_Deadline q, Milliseconds (rp_Interval q), policy_Info q 0),
       snd (ApplyRetryPolicy ident (input_spec p) (fs_overwrite form) None now r))"
    using q unfolding body
    by (simp add: setRetryPolicy_def dec_policy_json [OF valid] spec case_prod_unfold) (simp add: input_payload_def Let_def)
  ultimately show ?thesis using q by blast
qed

theorem dialog_policy_through_gateway_witness:
  "\<exists>p q r'. buildPolicy (applyPreset Preset_fast (policyDefaults None)) = Inr p \<and>
     RetryPolicy_of ''r1'' r' = Some q \<and> spec_of q = input_spec p"
proof -
  let ?form = "applyPreset Preset_fast (policyDefaults None)"
  obtain p where p: "buildPolicy ?form = Inr p"
    by (simp add: buildPolicy_def applyPreset_def build_schedule_def form_attempts_def time_units Let_def)
  let ?t = "new_request ''r1'' ''POST'' ''/v1'' True ([], []) 7"
  have "lookup sample_added ''r1'' = Some ?t"
    by (simp add: sample_added_def AddWithIdentityChecked_def)
  moreover have "ra_canSetRetryPolicy (actionsForState (ti_State (tr_info ?t)))" "tr_policy ?t = None"
    by (simp_all add: new_request_def)
  moreover obtain body where "init_body (call_init (api_setRetryPolicy ''r1'' (policy_json p) (fs_overwrite ?form))) = Some body"
    by (simp add: api_setRetryPolicy_def)
  ultimately show ?thesis
    using dialog_policy_through_gateway [OF p, of sample_added "''r1''" ?t _ 9 "\<lambda>_. []" 0] p by blast
qed


definition busy_round :: round where
  "busy_round = \<lparr>ro_draw = (\<lambda>_. 0), ro_inheritMin = 0, ro_inheritMax = 0, ro_after = 0, ro_late = 3, ro_took = 5\<rparr>"


text \<open>
  Claim C18: the doubling loop of the exponential schedule, which stops early so as not to
  overflow, computes the smaller of the maximum and the base times two to the power of the
  attempts made, and the wait drawn from it lies between the base and the maximum.
\<close>

theorem exponential_delay_closed_form:
  assumes "Validate (spec_of p)" "rs_Mode (rp_Schedule p) = ''exponential''" "int63n_ok draw" "\<not> rp_HonorRetryAfter p"
  shows "exponentialDelay (rs_Base (rp_Schedule p)) (rs_Maximum (rp_Schedule p)) index
       = min (rs_Maximum (rp_Schedule p)) (rs_Base (rp_Schedule p) * 2 ^ nat index) \<and>
     rs_Base (rp_Schedule p) \<le> policyDelay draw p lo hi after attempt \<and>
     policyDelay draw p lo hi after attempt \<le> rs_Maximum (rp_Schedule p)"
proof -
  let ?s = "rp_Schedule p"
  have base: "0 < rs_Base ?s" "rs_Base ?s \<le> rs_Maximum ?s"
    using assms(1,2) by (auto simp: Validate_def spec_of_def validPolicyInterval_def go_units Let_def split: if_splits)
  define k where "k = max (attempt - rp_BaselineAttempt p) 0"
  define d where "d = exponentialDelay (rs_Base ?s) (rs_Maximum ?s) k"
  have d: "d = min (rs_Maximum ?s) (rs_Base ?s * 2 ^ nat k)"
    unfolding d_def exponentialDelay_def using base(1) by (rule exponential_steps_eq)
  have "rs_Base ?s \<le> rs_Base ?s * 2 ^ nat k" using base(1) by simp
  with d base have "rs_Base ?s \<le> d" "d \<le> rs_Maximum ?s" by simp_all
  moreover have "policyDelay draw p lo hi after attempt = randomDelay draw (max (rs_Base ?s) (d div 2)) d"
    using assms(2,4) by (simp add: policyDelay_def Let_def d_def k_def)
  moreover have "d div 2 \<le> d" using \<open>rs_Base ?s \<le> d\<close> base(1) by simp
  ultimately show ?thesis
    using randomDelay_range [OF assms(3), of "max (rs_Base ?s) (d div 2)" d] base
    by (auto simp: exponentialDelay_def exponential_steps_eq)
qed

definition doubling_policy :: RetryPolicy where
  "doubling_policy = NewRetryPolicy \<lparr>sp_Duration = Hour, sp_Schedule = \<lparr>rs_Mode = ''exponential'', rs_Interval = 0,
     rs_Minimum = 0, rs_Maximum = 300 * Second, rs_Base = 5 * Second\<rparr>, sp_MaxAdditionalAttempts = 0,
     sp_HonorRetryAfter = False\<rparr> None"

theorem exponential_delay_closed_form_witness:
  "exponentialDelay (5 * Second) (300 * Second) 3 = 40 * Second \<and> policyDelay (\<lambda>_. 0) doubling_policy 0 0 0 3 \<le> 300 * Second"
proof -
  have "Validate (spec_of doubling_policy)" "rs_Mode (rp_Schedule doubling_policy) = ''exponential''"
    "int63n_ok (\<lambda>_. 0)" "\<not> rp_HonorRetryAfter doubling_policy"
    unfolding doubling_policy_def spec_of_simps
    by (simp_all add: Validate_def validPolicyInterval_def go_units NewRetryPolicy_def int63n_ok_def)
  from exponential_delay_closed_form [OF this, of 3 0 0 0 3] show ?thesis
    by (simp add: doubling_policy_def NewRetryPolicy_def go_units)
qed

text \<open>
  A batch reports each identifier of the request exactly once, trimmed and
  without duplicates: the accepted and the skipped ones add up to the number requested,
  and no more requests are triggered than were accepted.
\<close>

theorem batch_counts:
  assumes "fst (batchRetryPolicy body errs errs2 now r) = Replied b \<or> fst (batchRetry body errs now r) = Replied b"
  shows "\<exists>obj raw. body = JObj obj \<and> dec_string_list (prop_of obj ''requestIds'') = Some raw \<and> batch_reply_ok b raw"
  using assms
proof
  assume "fst (batchRetryPolicy body errs errs2 now r) = Replied b"
  then obtain obj raw ids spec overwrite again where b: "body = JObj obj" "dec_string_list (prop_of obj ''requestIds'') = Some raw"
    "normalizeRequestIDs raw = Some ids" "b = fst (batch_policy_loop spec overwrite again errs errs2 now ids (new_batch ids, r))"
    by (auto simp: batchRetryPolicy_def Let_def case_prod_unfold split: json.splits if_splits option.splits)
  with batch_policy_loop_ok [OF new_batch_ok(1) [of ids], of ids spec overwrite again errs errs2 now r] show ?thesis
    by (auto simp: case_prod_unfold new_batch_ok intro!: batch_reply)
next
  assume "fst (batchRetry body errs now r) = Replied b"
  then obtain obj raw ids where b: "body = JObj obj" "dec_string_list (prop_of obj ''requestIds'') = Some raw"
    "normalizeRequestIDs raw = Some ids" "b = fst (batch_retry_loop errs now ids (new_batch ids, r))"
    by (auto simp: batchRetry_def case_prod_unfold bind_eq_Some_conv split: json.splits if_splits option.splits)
  with batch_retry_loop_ok [OF new_batch_ok(1) [of ids], of ids errs now r] show ?thesis
    by (auto simp: case_prod_unfold new_batch_ok intro!: batch_reply)
qed

theorem batch_counts_witness:
  "\<exists>b raw. fst (batchRetry (JObj [(''requestIds'', JArr [JStr '' r1 '', JStr ''r1'', JStr ''r2''])]) (\<lambda>_. None) 13 sample_waiting) = Replied b \<and>
     batch_reply_ok b raw"
proof -
  let ?body = "JObj [(''requestIds'', JArr [JStr '' r1 '', JStr ''r1'', JStr ''r2''])]"
  obtain b where b: "fst (batchRetry ?body (\<lambda>_. None) 13 sample_waiting) = Replied b"
    by (simp add: batchRetry_def prop_of_def known_fields_def normalizeRequestIDs_def js_trim_def is_space_def case_prod_unfold)
  with batch_counts [of ?body "\<lambda>_. None" "\<lambda>_. None" 13 sample_waiting b] show ?thesis by blast
qed

end
