(* ===== verification/UncertainDialog.thy ===== *)
theory UncertainDialog
  imports ApiClient Format Reachability
begin

text \<open>
  The dialog that settles a request of uncertain delivery
  (web/src/components/UncertainResolutionDialog.tsx): a preview of the chosen action gives
  a confirmation token, and the resolution sends the action with that token. The dialog is
  a state machine on its React state; \<open>ud_flight\<close> is the call in flight and, as a ghost,
  \<open>ud_previewed\<close> is the action the current preview was made for. Which calls are sent is
  recorded in \<open>ud_sent\<close>.
\<close>

section \<open>State and operations\<close>

datatype dialog_stage = Stage_action | Stage_confirm

datatype flight = No_flight | Flight_preview UncertainResolutionAction | Flight_resolve

record uncertain_dialog =
  ud_stage :: dialog_stage
  ud_action :: UncertainResolutionAction
  ud_preview :: "UncertainPreview option"
  ud_reason :: string
  ud_busy :: bool
  ud_flight :: flight
  ud_previewed :: "UncertainResolutionAction option"
  ud_sent :: "(UncertainResolutionInput \<times> UncertainResolutionAction) list"
  ud_open :: bool

definition open_uncertain :: uncertain_dialog where
  "open_uncertain = \<lparr>ud_stage = Stage_action, ud_action = UncertainResolutionAction_ConfirmSuccess, ud_preview = None,
     ud_reason = [], ud_busy = False, ud_flight = No_flight, ud_previewed = None, ud_sent = [], ud_open = True\<rparr>"

definition previewAction :: "bool \<Rightarrow> uncertain_dialog \<Rightarrow> uncertain_dialog" where
  "previewAction canOperate d =
     (if \<not> canOperate \<or> ud_busy d then d
      else d\<lparr>ud_busy := True, ud_flight := Flight_preview (ud_action d)\<rparr>)"

definition preview_call :: "string \<Rightarrow> UncertainResolutionAction \<Rightarrow> api_call" where
  "preview_call ident a = api_previewUncertainResolution ident a"

definition preview_done :: "UncertainResolutionAction \<Rightarrow> UncertainPreview js_result \<Rightarrow> uncertain_dialog \<Rightarrow> uncertain_dialog" where
  "preview_done asked res d =
     (case res of
        Inl e \<Rightarrow> d\<lparr>ud_busy := False, ud_flight := No_flight\<rparr>
      | Inr p \<Rightarrow> d\<lparr>ud_preview := Some p, ud_stage := Stage_confirm, ud_busy := False, ud_flight := No_flight,
                  ud_previewed := Some asked\<rparr>)"

definition resolve_input :: "uncertain_dialog \<Rightarrow> UncertainResolutionInput option" where
  "resolve_input d =
     (case ud_preview d of
        None \<Rightarrow> None
      | Some p \<Rightarrow> Some \<lparr>uri_action = ud_action d, uri_confirmationToken = upv_confirmationToken p,
                    uri_reason = js_trim (ud_reason d)\<rparr>)"

definition resolve :: "bool \<Rightarrow> uncertain_dialog \<Rightarrow> uncertain_dialog" where
  "resolve canOperate d =
     (case resolve_input d of
        None \<Rightarrow> d
      | Some input \<Rightarrow>
          if js_trim (ud_reason d) = [] \<or> \<not> canOperate \<or> ud_busy d then d
          else d\<lparr>ud_busy := True, ud_flight := Flight_resolve,
                 ud_sent := ud_sent d @ [(input, nullish (ud_previewed d) (ud_action d))]\<rparr>)"

definition reason_missing :: "uncertain_dialog \<Rightarrow> bool" where
  "reason_missing d = (js_trim (ud_reason d) = [])"

definition resolve_done :: "unit js_result \<Rightarrow> uncertain_dialog \<Rightarrow> uncertain_dialog" where
  "resolve_done res d =
     (case res of
        Inl e \<Rightarrow> d\<lparr>ud_busy := False, ud_flight := No_flight\<rparr>
      | Inr _ \<Rightarrow> d\<lparr>ud_busy := False, ud_flight := No_flight, ud_open := False\<rparr>)"

text \<open>
  What the user and the network can do. The buttons of the action picker are on the
  screen in the action stage and stay enabled while a preview is in flight.
\<close>

inductive ud_step :: "bool \<Rightarrow> uncertain_dialog \<Rightarrow> uncertain_dialog \<Rightarrow> bool" for canOperate where
  pick: "ud_stage d = Stage_action \<Longrightarrow> canOperate \<Longrightarrow> ud_step canOperate d (d\<lparr>ud_action := a\<rparr>)"
| submit_preview: "ud_stage d = Stage_action \<Longrightarrow> ud_step canOperate d (previewAction canOperate d)"
| preview_answer: "ud_flight d = Flight_preview asked \<Longrightarrow> ud_step canOperate d (preview_done asked res d)"
| change_action: "ud_stage d = Stage_confirm \<Longrightarrow> ud_step canOperate d (d\<lparr>ud_stage := Stage_action\<rparr>)"
| type_reason: "ud_stage d = Stage_confirm \<Longrightarrow> ud_step canOperate d (d\<lparr>ud_reason := r\<rparr>)"
| submit_resolve: "ud_stage d = Stage_confirm \<Longrightarrow> ud_step canOperate d (resolve canOperate d)"
| resolve_answer: "ud_flight d = Flight_resolve \<Longrightarrow> ud_step canOperate d (resolve_done res d)"

text \<open>The same without a pick while the dialog waits for an answer.\<close>

inductive quiet_step :: "bool \<Rightarrow> uncertain_dialog \<Rightarrow> uncertain_dialog \<Rightarrow> bool" for canOperate where
  quiet: "ud_step canOperate d d' \<Longrightarrow> ud_busy d \<longrightarrow> ud_action d' = ud_action d \<Longrightarrow> quiet_step canOperate d d'"

section \<open>Invariants\<close>

definition sent_ok :: "uncertain_dialog \<Rightarrow> bool" where
  "sent_ok d \<longleftrightarrow> (\<forall>(input, asked) \<in> set (ud_sent d). uri_reason input \<noteq> [] \<and> js_trim (uri_reason input) = uri_reason input)"

definition flight_ok :: "uncertain_dialog \<Rightarrow> bool" where
  "flight_ok d \<longleftrightarrow> ud_busy d = (ud_flight d \<noteq> No_flight) \<and> (ud_preview d = None) = (ud_previewed d = None) \<and>
     (ud_stage d = Stage_confirm \<longrightarrow> ud_preview d \<noteq> None)"

definition quiet_ok :: "uncertain_dialog \<Rightarrow> bool" where
  "quiet_ok d \<longleftrightarrow> flight_ok d \<and>
     (ud_stage d = Stage_confirm \<longrightarrow> ud_previewed d = Some (ud_action d)) \<and>
     (\<forall>a. ud_flight d = Flight_preview a \<longrightarrow> ud_action d = a) \<and>
     (\<forall>(input, asked) \<in> set (ud_sent d). uri_action input = asked)"

lemmas dialog_defs = previewAction_def preview_done_def resolve_def resolve_input_def resolve_done_def

lemma trim_space: "js_trim (js_trim s) = js_trim s"
proof -
  have idem: "dropWhile P (dropWhile P xs) = dropWhile P xs" for P :: "char \<Rightarrow> bool" and xs
    by (induction xs) auto
  have suffix_drop: "dropWhile P (rev (dropWhile P (rev xs))) = rev (dropWhile P (rev xs))"
    if "dropWhile P xs = xs" for P :: "char \<Rightarrow> bool" and xs
  proof (cases "rev (dropWhile P (rev xs))")
    case (Cons y ys)
    have "suffix (dropWhile P (rev xs)) (rev xs)" by (rule suffix_dropWhile)
    then have "prefix (y # ys) xs" using Cons suffix_to_prefix by (metis rev_rev_ident)
    then obtain zs where "xs = y # zs" by (auto simp: prefix_def)
    with that have "\<not> P y" by (metis dropWhile_eq_Cons_conv)
    with Cons show ?thesis by simp
  next
    case Nil
    then show ?thesis by (simp only: Nil dropWhile.simps)
  qed
  show ?thesis
    unfolding js_trim_def
    by (simp add: suffix_drop [of is_space "dropWhile is_space s"] idem)
qed

lemma flight_ok_step: "ud_step canOperate d d' \<Longrightarrow> flight_ok d \<Longrightarrow> flight_ok d'"
  by (induction rule: ud_step.induct)
     (auto simp: flight_ok_def dialog_defs split: option.splits sum.splits)

lemma sent_ok_step: "ud_step canOperate d d' \<Longrightarrow> sent_ok d \<Longrightarrow> sent_ok d'"
  by (induction rule: ud_step.induct)
     (auto simp: sent_ok_def dialog_defs trim_space split: option.splits sum.splits)

lemma quiet_ok_step: "quiet_step canOperate d d' \<Longrightarrow> quiet_ok d \<Longrightarrow> quiet_ok d'"
proof (induction rule: quiet_step.induct)
  case (quiet d d')
  from quiet(1) quiet(3) flight_ok_step have "flight_ok d'" by (auto simp: quiet_ok_def)
  from quiet(1) quiet(2,3) this show ?case
    by cases (auto simp: quiet_ok_def flight_ok_def dialog_defs split: option.splits sum.splits)
qed

section \<open>The evidence table\<close>

definition valueOrFallback :: "string option \<Rightarrow> string \<Rightarrow> string" where
  "valueOrFallback v fallback = or_string v fallback"

definition formatRequestBytes :: "int option \<Rightarrow> string \<Rightarrow> string" where
  "formatRequestBytes v fallback = (case v of None \<Rightarrow> fallback | Some n \<Rightarrow> formatBytes (max 0 n))"

definition formatLatency :: "int option \<Rightarrow> string \<Rightarrow> string" where
  "formatLatency v fallback = (case v of None \<Rightarrow> fallback | Some n \<Rightarrow> int_string (max 0 n) @ '' ms'')"

definition evidence_row :: "translate \<Rightarrow> string \<Rightarrow> UncertainAttemptEvidence \<Rightarrow> (string \<times> string) list" where
  "evidence_row tr fallback a =
     [(''attempt'', int_string (uae_attempt a)),
      (''target'', valueOrFallback (uae_targetId a) fallback),
      (''domain'', valueOrFallback (uae_targetDomain a) fallback),
      (''wrote'', if uae_wroteRequest a then tr ''requests:uncertain.yes'' [] else tr ''requests:uncertain.no'' []),
      (''hash'', valueOrFallback (uae_idempotencyKeyHash a) fallback),
      (''bytes'', formatRequestBytes (uae_requestBytes a) fallback),
      (''latency'', formatLatency (uae_latencyMilliseconds a) fallback),
      (''statusCode'', valueOrFallback (map_option int_string (uae_statusCode a)) fallback),
      (''phase'', valueOrFallback (uae_attemptPhase a) fallback),
      (''category'', valueOrFallback (uae_category a) fallback),
      (''upstreamRequestId'', valueOrFallback (uae_upstreamRequestId a) fallback)]"

definition evidence_columns :: "string list" where
  "evidence_columns = [''attempt'', ''target'', ''domain'', ''wrote'', ''hash'', ''bytes'', ''latency'', ''statusCode'',
     ''phase'', ''category'', ''upstreamRequestId'']"

lemma evidence_row_columns: "map fst (evidence_row tr fallback a) = evidence_columns"
  by (simp add: evidence_row_def evidence_columns_def)

interpretation quiet_system: step_system "quiet_step canOperate" "\<lambda>d. d = open_uncertain" "\<lambda>d. quiet_ok d \<and> sent_ok d"
  for canOperate
proof
  show "quiet_ok d \<and> sent_ok d" if "d = open_uncertain" for d
    using that by (simp add: quiet_ok_def flight_ok_def sent_ok_def open_uncertain_def)
  show "quiet_ok z \<and> sent_ok z" if "quiet_step canOperate y z" "quiet_ok y \<and> sent_ok y" for y z
    using that quiet_ok_step sent_ok_step by (auto elim: quiet_step.cases)
qed

section \<open>Properties\<close>

text \<open>
  As long as the action is not changed while an answer is awaited, every
  resolution the dialog sends carries the action its confirmation token was issued for,
  and a reason that is not empty and has no white space around it.
\<close>

theorem quiet_resolutions_match:
  assumes "(quiet_step canOperate)\<^sup>*\<^sup>* open_uncertain d" "(input, asked) \<in> set (ud_sent d)"
  shows "uri_action input = asked \<and> uri_reason input \<noteq> [] \<and> js_trim (uri_reason input) = uri_reason input"
  using quiet_system.inv_reachable [OF assms(1) refl] assms(2) by (auto simp: quiet_ok_def sent_ok_def)

definition sample_preview :: UncertainPreview where
  "sample_preview = \<lparr>upv_confirmationToken = ''token'', upv_expiresAt = ''soon'',
     upv_evidence = \<lparr>ue_requestId = ''r1'', ue_method = ''POST'', ue_path = ''/v1'', ue_state = ''uncertain'', ue_attempt = 1,
       ue_startedAt = [], ue_uncertainSince = [], ue_attempts = []\<rparr>\<rparr>"

definition asked_dialog :: uncertain_dialog where
  "asked_dialog = previewAction True open_uncertain"

definition ready_dialog :: "uncertain_dialog \<Rightarrow> uncertain_dialog" where
  "ready_dialog d =
     (preview_done UncertainResolutionAction_ConfirmSuccess (Inr sample_preview) d)\<lparr>ud_reason := ''checked''\<rparr>"

lemma asked_dialog_simps:
  "ud_stage asked_dialog = Stage_action" "ud_busy asked_dialog"
  "ud_flight asked_dialog = Flight_preview UncertainResolutionAction_ConfirmSuccess"
  "ud_action asked_dialog = UncertainResolutionAction_ConfirmSuccess" "ud_sent asked_dialog = []"
  by (simp_all add: asked_dialog_def previewAction_def open_uncertain_def)

lemma ready_dialog_sent:
  "ud_sent (resolve True (ready_dialog d)) = ud_sent d @
     [(\<lparr>uri_action = ud_action d, uri_confirmationToken = ''token'', uri_reason = ''checked''\<rparr>,
       UncertainResolutionAction_ConfirmSuccess)]"
  by (simp add: ready_dialog_def preview_done_def resolve_def resolve_input_def sample_preview_def js_trim_def is_space_def)

lemma ready_steps:
  assumes "ud_flight d = Flight_preview UncertainResolutionAction_ConfirmSuccess"
  shows "(quiet_step True)\<^sup>*\<^sup>* d (resolve True (ready_dialog d))"
proof -
  let ?d1 = "preview_done UncertainResolutionAction_ConfirmSuccess (Inr sample_preview) d"
  have s1: "quiet_step True d ?d1"
    using assms by (intro quiet_step.quiet ud_step.preview_answer) (auto simp: preview_done_def)
  have s2: "quiet_step True ?d1 (ready_dialog d)"
    unfolding ready_dialog_def by (intro quiet_step.quiet ud_step.type_reason) (auto simp: preview_done_def)
  have s3: "quiet_step True (ready_dialog d) (resolve True (ready_dialog d))"
    by (intro quiet_step.quiet ud_step.submit_resolve)
       (auto simp: ready_dialog_def preview_done_def resolve_def split: option.splits)
  from s1 s2 s3 show ?thesis
    by (meson converse_rtranclp_into_rtranclp rtranclp.rtrancl_refl)
qed

lemma asked_step: "ud_step True open_uncertain asked_dialog"
  unfolding asked_dialog_def by (rule ud_step.submit_preview) (simp add: open_uncertain_def)

lemma quiet_is_step: "(quiet_step canOperate)\<^sup>*\<^sup>* d d' \<Longrightarrow> (ud_step canOperate)\<^sup>*\<^sup>* d d'"
  by (rule rtranclp_mono [THEN predicate2D, rotated]) (auto elim: quiet_step.cases)

theorem quiet_resolutions_match_witness:
  "\<exists>d input asked. (quiet_step True)\<^sup>*\<^sup>* open_uncertain d \<and> (input, asked) \<in> set (ud_sent d) \<and>
     uri_action input = asked \<and> uri_reason input = ''checked''"
proof -
  have "quiet_step True open_uncertain asked_dialog"
    using asked_step by (rule quiet_step.quiet) (simp add: open_uncertain_def)
  then have run: "(quiet_step True)\<^sup>*\<^sup>* open_uncertain (resolve True (ready_dialog asked_dialog))"
    using ready_steps [OF asked_dialog_simps(3)] by (rule converse_rtranclp_into_rtranclp)
  let ?input = "\<lparr>uri_action = UncertainResolutionAction_ConfirmSuccess, uri_confirmationToken = ''token'',
    uri_reason = ''checked''\<rparr>"
  have sent: "(?input, UncertainResolutionAction_ConfirmSuccess) \<in> set (ud_sent (resolve True (ready_dialog asked_dialog)))"
    by (simp add: ready_dialog_sent asked_dialog_simps)
  from quiet_resolutions_match [OF run sent] run sent show ?thesis by fastforce
qed

text \<open>
  The picker stays enabled while a preview is awaited, and picking another action
  then makes the dialog send an action with a token that was issued for a different one.
\<close>

theorem pick_during_preview_mismatch:
  "\<exists>d input asked. (ud_step True)\<^sup>*\<^sup>* open_uncertain d \<and> (input, asked) \<in> set (ud_sent d) \<and> uri_action input \<noteq> asked"
proof -
  let ?d = "asked_dialog\<lparr>ud_action := UncertainResolutionAction_Abandon\<rparr>"
  have "ud_step True asked_dialog ?d" by (rule ud_step.pick) (simp_all add: asked_dialog_simps)
  moreover have "(ud_step True)\<^sup>*\<^sup>* ?d (resolve True (ready_dialog ?d))"
    by (rule quiet_is_step, rule ready_steps) (simp add: asked_dialog_simps)
  ultimately have "(ud_step True)\<^sup>*\<^sup>* open_uncertain (resolve True (ready_dialog ?d))"
    using asked_step by (meson converse_rtranclp_into_rtranclp)
  moreover have "(\<lparr>uri_action = UncertainResolutionAction_Abandon, uri_confirmationToken = ''token'', uri_reason = ''checked''\<rparr>,
      UncertainResolutionAction_ConfirmSuccess) \<in> set (ud_sent (resolve True (ready_dialog ?d)))"
    by (simp add: ready_dialog_sent asked_dialog_simps)
  ultimately show ?thesis by fastforce
qed

end
