(* ===== verification/UncertainServer.thy ===== *)
theory UncertainServer
  imports RetryServer UncertainDialog
begin

text \<open>
  The gateway's side of the dialog for uncertain deliveries (internal/admin/uncertain_api.go):
  the store of confirmation tokens and the handlers that issue a token for an action and
  spend it on a resolution. A token comes from the random source as an argument; the theorems
  ask for one that was not issued before. The actor is the string that
  \<open>uncertainActor\<close> derives from the credentials.
\<close>

section \<open>Tokens that are spent once\<close>

text \<open>The contract of a store of one-use tokens, and what it gives over the history of issued and used tokens.\<close>

definition tokens_ok :: "('t \<Rightarrow> 'd option) \<Rightarrow> ('t \<times> 'd) list \<Rightarrow> ('t \<times> 'd) list \<Rightarrow> bool" where
  "tokens_ok live issued used \<longleftrightarrow>
     (\<forall>t d. live t = Some d \<longrightarrow> (t, d) \<in> set issued \<and> t \<notin> fst ` set used) \<and>
     set used \<subseteq> set issued \<and> distinct (map fst used) \<and> distinct (map fst issued)"

locale one_use_tokens =
  fixes live :: "'s \<Rightarrow> 't \<Rightarrow> 'd option"
    and issue :: "'n \<Rightarrow> 't \<Rightarrow> 'd \<Rightarrow> 's \<Rightarrow> 's"
    and spend :: "'n \<Rightarrow> 't \<Rightarrow> 'd \<Rightarrow> 's \<Rightarrow> bool \<times> 's"
  assumes issue_live: "live (issue n t d s) t = Some d"
    and issue_other: "u \<noteq> t \<Longrightarrow> live (issue n t d s) u = Some e \<Longrightarrow> live s u = Some e"
    and spend_live: "fst (spend n t d s) \<Longrightarrow> live s t = Some d"
    and spend_gone: "live (snd (spend n t d s)) t = None"
    and spend_other: "live (snd (spend n t d s)) u = Some e \<Longrightarrow> live s u = Some e"
begin

lemma issue_ok:
  assumes "tokens_ok (live s) issued used" "t \<notin> fst ` set issued"
  shows "tokens_ok (live (issue n t d s)) ((t, d) # issued) used"
proof -
  have "t \<notin> fst ` set used" using assms by (auto simp: tokens_ok_def)
  moreover have "(u, e) \<in> insert (t, d) (set issued) \<and> (u = t \<or> u \<notin> fst ` set used)" if "live (issue n t d s) u = Some e" for u e
    using assms(1) issue_other [OF _ that] that issue_live [of n t d s] by (cases "u = t") (auto simp: tokens_ok_def)
  ultimately show ?thesis
    using assms unfolding tokens_ok_def by (auto simp del: split_paired_All)
qed

lemma spend_ok:
  assumes "tokens_ok (live s) issued used"
  shows "tokens_ok (live (snd (spend n t d s))) issued (if fst (spend n t d s) then (t, d) # used else used)"
proof -
  have keep: "(u, e) \<in> set issued \<and> u \<notin> fst ` set used \<and> u \<noteq> t" if "live (snd (spend n t d s)) u = Some e" for u e
    using assms spend_other [OF that] that spend_gone [of n t d s] by (auto simp: tokens_ok_def)
  have "(t, d) \<in> set issued \<and> t \<notin> fst ` set used" if "fst (spend n t d s)"
    using assms spend_live [OF that] by (auto simp: tokens_ok_def)
  with keep show ?thesis
    using assms unfolding tokens_ok_def by (auto simp del: split_paired_All)
qed

end

section \<open>The store\<close>

definition uncertainConfirmationTTL :: int where "uncertainConfirmationTTL = 120 * Second"

record uncertainConfirmation =
  uc_RequestID :: string
  uc_Action :: string
  uc_Actor :: string
  uc_ExpiresAt :: int

type_synonym token_store = "string \<rightharpoonup> uncertainConfirmation"

definition Issue :: "string \<Rightarrow> string \<Rightarrow> string \<Rightarrow> string \<Rightarrow> int \<Rightarrow> token_store \<Rightarrow> int \<times> token_store" where
  "Issue token requestID action actor now st =
     (let expires = now + uncertainConfirmationTTL
      in (expires, (\<lambda>t. case st t of None \<Rightarrow> None | Some c \<Rightarrow> if uc_ExpiresAt c > now then Some c else None)
           (token \<mapsto> \<lparr>uc_RequestID = requestID, uc_Action = action, uc_Actor = actor, uc_ExpiresAt = expires\<rparr>)))"

datatype confirmation_error = ConfirmationInvalid | ConfirmationExpired

definition Consume ::
  "string \<Rightarrow> string \<Rightarrow> string \<Rightarrow> string \<Rightarrow> int \<Rightarrow> token_store \<Rightarrow> confirmation_error option \<times> token_store" where
  "Consume token requestID action actor now st =
     (let rest = st(token := None)
      in case st token of
           None \<Rightarrow> (Some ConfirmationInvalid, rest)
         | Some c \<Rightarrow>
             if token = [] \<or> uc_RequestID c \<noteq> requestID \<or> uc_Action c \<noteq> action \<or> uc_Actor c \<noteq> actor
             then (Some ConfirmationInvalid, rest)
             else if \<not> uc_ExpiresAt c > now then (Some ConfirmationExpired, rest)
             else (None, rest))"

text \<open>What a token stands for, and the store as an instance of the contract.\<close>

type_synonym grant = "string \<times> string \<times> string"

definition live_token :: "token_store \<Rightarrow> string \<Rightarrow> grant option" where
  "live_token st t = map_option (\<lambda>c. (uc_RequestID c, uc_Action c, uc_Actor c)) (st t)"

definition issue_token :: "int \<Rightarrow> string \<Rightarrow> grant \<Rightarrow> token_store \<Rightarrow> token_store" where
  "issue_token now t g st = (case g of (ident, action, actor) \<Rightarrow> snd (Issue t ident action actor now st))"

definition spend_token :: "int \<Rightarrow> string \<Rightarrow> grant \<Rightarrow> token_store \<Rightarrow> bool \<times> token_store" where
  "spend_token now t g st =
     (case g of (ident, action, actor) \<Rightarrow> (case Consume t ident action actor now st of (e, st') \<Rightarrow> (e = None, st')))"

interpretation confirmations: one_use_tokens live_token issue_token spend_token
proof
  show "live_token (issue_token n t d s) t = Some d" for n t d s
    by (cases d) (simp add: issue_token_def live_token_def Issue_def Let_def)
  show "live_token s u = Some e" if "u \<noteq> t" "live_token (issue_token n t d s) u = Some e" for n t d s u e
    using that by (cases d) (auto simp: issue_token_def live_token_def Issue_def Let_def split: option.splits if_splits)
  show "live_token s t = Some d" if "fst (spend_token n t d s)" for n t d s
    using that by (cases d) (auto simp: spend_token_def live_token_def Consume_def Let_def split: option.splits if_splits)
  show "live_token (snd (spend_token n t d s)) t = None" for n t d s
    by (cases d) (simp add: spend_token_def live_token_def Consume_def Let_def split: option.split)
  show "live_token s u = Some e" if "live_token (snd (spend_token n t d s)) u = Some e" for n t d s u e
    using that by (cases d) (auto simp: spend_token_def live_token_def Consume_def Let_def split: option.splits if_splits)
qed

section \<open>Handlers\<close>

record uncertainResolutionPayload =
  up_Action :: string
  up_ConfirmationToken :: string
  up_Reason :: string

definition decodeUncertainPayload :: "json \<Rightarrow> uncertainResolutionPayload option" where
  "decodeUncertainPayload body =
     (case body of
        JObj obj \<Rightarrow>
          if \<not> known_fields [''action'', ''confirmationToken'', ''reason''] obj then None
          else (case (dec_string (prop_of obj ''action''), dec_string (prop_of obj ''confirmationToken''),
                      dec_string (prop_of obj ''reason'')) of
                  (Some a, Some t, Some r) \<Rightarrow> Some \<lparr>up_Action = js_trim a, up_ConfirmationToken = t, up_Reason = r\<rparr>
                | _ \<Rightarrow> None)
      | JNull \<Rightarrow> Some \<lparr>up_Action = [], up_ConfirmationToken = [], up_Reason = []\<rparr>
      | _ \<Rightarrow> None)"

definition validUncertainAction :: "string \<Rightarrow> bool" where
  "validUncertainAction action \<longleftrightarrow> action = ''abandon'' \<or> action = ''confirm_success'' \<or> action = ''request_compensation''"

text \<open>\<open>utf8.RuneCountInString\<close> on valid UTF-8: every byte but the continuation bytes starts a rune.\<close>

definition rune_count :: "string \<Rightarrow> nat" where
  "rune_count s = length (filter (\<lambda>c. \<not> (128 \<le> (of_char c :: nat) \<and> (of_char c :: nat) < 192)) s)"

record uncertain_server =
  us_tokens :: token_store
  us_registry :: registry

text \<open>\<open>random\<close> is the fresh token, \<open>None\<close> when the random source fails.\<close>

definition previewUncertainResolution ::
  "string \<Rightarrow> string \<Rightarrow> json \<Rightarrow> string option \<Rightarrow> int \<Rightarrow> uncertain_server \<Rightarrow> (string \<times> int \<times> tracked_info) reply \<times> uncertain_server" where
  "previewUncertainResolution ident actor body random now s =
     (case decodeUncertainPayload body of
        None \<Rightarrow> (Rejected 400 ''INVALID_UNCERTAIN_ACTION'', s)
      | Some payload \<Rightarrow>
          if \<not> validUncertainAction (up_Action payload) then (Rejected 400 ''INVALID_UNCERTAIN_ACTION'', s)
          else case RequestInfo_of ident (us_registry s) of
                 None \<Rightarrow> (Rejected 404 ''REQUEST_NOT_FOUND'', s)
               | Some (info, actions) \<Rightarrow>
                   if ti_State info \<noteq> StateUncertain \<or> ti_UncertainResolution info \<noteq> []
                   then (Rejected 409 ''UNCERTAIN_STATE_CONFLICT'', s)
                   else case random of
                          None \<Rightarrow> (Rejected 500 ''CONFIRMATION_UNAVAILABLE'', s)
                        | Some token \<Rightarrow>
                            (case Issue token ident (up_Action payload) actor now (us_tokens s) of (expires, st) \<Rightarrow>
                               (Replied (token, expires, info), s\<lparr>us_tokens := st\<rparr>)))"

definition resolveUncertain ::
  "string \<Rightarrow> string \<Rightarrow> json \<Rightarrow> string option \<Rightarrow> int \<Rightarrow> uncertain_server \<Rightarrow> (string \<times> RequestActionResult) reply \<times> uncertain_server" where
  "resolveUncertain ident actor body err now s =
     (case decodeUncertainPayload body of
        None \<Rightarrow> (Rejected 400 ''INVALID_UNCERTAIN_ACTION'', s)
      | Some payload \<Rightarrow>
          if \<not> validUncertainAction (up_Action payload) \<or> rune_count (js_trim (up_Reason payload)) > 500 \<or>
             js_trim (up_Reason payload) = []
          then (Rejected 400 ''INVALID_UNCERTAIN_ACTION'', s)
          else case Consume (up_ConfirmationToken payload) ident (up_Action payload) actor now (us_tokens s) of
                 (Some ConfirmationExpired, st) \<Rightarrow> (Rejected 409 ''UNCERTAIN_CONFIRMATION_EXPIRED'', s\<lparr>us_tokens := st\<rparr>)
               | (Some ConfirmationInvalid, st) \<Rightarrow> (Rejected 409 ''UNCERTAIN_CONFIRMATION_INVALID'', s\<lparr>us_tokens := st\<rparr>)
               | (None, st) \<Rightarrow>
                   (case ResolveUncertain ident (up_Action payload) err now (us_registry s) of (res, r) \<Rightarrow>
                      if \<not> accepted res then (writeRequestActionError res, s\<lparr>us_tokens := st, us_registry := r\<rparr>)
                      else (Replied (up_Action payload, res), s\<lparr>us_tokens := st, us_registry := r\<rparr>)))"

section \<open>Runs\<close>

text \<open>
  The handlers in any order, with the tokens that were issued and the ones that were spent
  on a resolution as ghosts; \<open>other\<close> is everything else that happens to the registry.
\<close>

record uncertain_run =
  ur_server :: uncertain_server
  ur_issued :: "(string \<times> grant) list"
  ur_used :: "(string \<times> grant) list"

text \<open>The token and the grant with which a call of \<open>resolveUncertain\<close> reaches the registry.\<close>

definition reaches :: "string \<Rightarrow> string \<Rightarrow> json \<Rightarrow> int \<Rightarrow> uncertain_server \<Rightarrow> (string \<times> grant) option" where
  "reaches ident actor body now s =
     (case decodeUncertainPayload body of
        None \<Rightarrow> None
      | Some payload \<Rightarrow>
          if validUncertainAction (up_Action payload) \<and> rune_count (js_trim (up_Reason payload)) \<le> 500 \<and>
             js_trim (up_Reason payload) \<noteq> [] \<and>
             fst (spend_token now (up_ConfirmationToken payload) (ident, up_Action payload, actor) (us_tokens s))
          then Some (up_ConfirmationToken payload, (ident, up_Action payload, actor)) else None)"

inductive uncertain_step :: "uncertain_run \<Rightarrow> uncertain_run \<Rightarrow> bool" where
  previewed: "previewUncertainResolution ident actor body (Some token) now (ur_server s) = (Replied x, srv) \<Longrightarrow>
     decodeUncertainPayload body = Some payload \<Longrightarrow> token \<notin> fst ` set (ur_issued s) \<Longrightarrow>
     uncertain_step s (s\<lparr>ur_server := srv, ur_issued := (token, (ident, up_Action payload, actor)) # ur_issued s\<rparr>)"
| preview_refused: "previewUncertainResolution ident actor body random now (ur_server s) = (Rejected status code, srv) \<Longrightarrow>
     uncertain_step s (s\<lparr>ur_server := srv\<rparr>)"
| resolve: "uncertain_step s (s\<lparr>ur_server := snd (resolveUncertain ident actor body err now (ur_server s)),
     ur_used := (case reaches ident actor body now (ur_server s) of None \<Rightarrow> ur_used s | Some g \<Rightarrow> g # ur_used s)\<rparr>)"
| other: "uncertain_step s (s\<lparr>ur_server := (ur_server s)\<lparr>us_registry := r\<rparr>\<rparr>)"

lemma preview_refused_same:
  "previewUncertainResolution ident actor body random now s = (Rejected status code, srv) \<Longrightarrow> srv = s"
  by (auto simp: previewUncertainResolution_def split: option.splits if_splits prod.splits)

lemma previewed_tokens:
  assumes "previewUncertainResolution ident actor body (Some token) now s = (Replied x, srv)"
    "decodeUncertainPayload body = Some payload"
  shows "us_tokens srv = issue_token now token (ident, up_Action payload, actor) (us_tokens s)"
  using assms by (auto simp: previewUncertainResolution_def issue_token_def split: option.splits if_splits prod.splits)

lemma resolve_tokens:
  "us_tokens (snd (resolveUncertain ident actor body err now s)) =
     (case decodeUncertainPayload body of
        None \<Rightarrow> us_tokens s
      | Some payload \<Rightarrow>
          if validUncertainAction (up_Action payload) \<and> rune_count (js_trim (up_Reason payload)) \<le> 500 \<and> js_trim (up_Reason payload) \<noteq> []
          then snd (spend_token now (up_ConfirmationToken payload) (ident, up_Action payload, actor) (us_tokens s))
          else us_tokens s)"
  by (simp add: resolveUncertain_def spend_token_def case_prod_unfold linorder_not_less split: option.split confirmation_error.split)

lemma unspent_keeps_registry:
  "reaches ident actor body now s = None \<Longrightarrow> us_registry (snd (resolveUncertain ident actor body err now s)) = us_registry s"
  by (auto simp: resolveUncertain_def reaches_def spend_token_def case_prod_unfold linorder_not_less
      split: option.splits confirmation_error.split if_splits)

definition run_ok :: "uncertain_run \<Rightarrow> bool" where
  "run_ok s \<longleftrightarrow> tokens_ok (live_token (us_tokens (ur_server s))) (ur_issued s) (ur_used s)"

lemma run_ok_resolve:
  assumes "run_ok s"
  shows "run_ok (s\<lparr>ur_server := snd (resolveUncertain ident actor body err now (ur_server s)),
     ur_used := (case reaches ident actor body now (ur_server s) of None \<Rightarrow> ur_used s | Some g \<Rightarrow> g # ur_used s)\<rparr>)"
proof (cases "decodeUncertainPayload body")
  case None
  then show ?thesis using assms by (simp add: run_ok_def resolve_tokens reaches_def)
next
  case (Some payload)
  then show ?thesis
    using assms confirmations.spend_ok [of "us_tokens (ur_server s)" "ur_issued s" "ur_used s" now "up_ConfirmationToken payload"
        "(ident, up_Action payload, actor)"]
    by (auto simp: run_ok_def resolve_tokens reaches_def split: if_splits)
qed

lemma run_ok_step: "uncertain_step s s' \<Longrightarrow> run_ok s \<Longrightarrow> run_ok s'"
proof (induction rule: uncertain_step.induct)
  case (previewed ident actor body token now s x srv payload)
  then show ?case
    using confirmations.issue_ok by (simp add: run_ok_def previewed_tokens)
next
  case (preview_refused ident actor body random now s status code srv)
  from preview_refused(1) have "srv = ur_server s" by (rule preview_refused_same)
  with preview_refused show ?case by (simp add: run_ok_def)
qed (simp_all add: run_ok_resolve, simp add: run_ok_def)

definition run_start :: "uncertain_run \<Rightarrow> bool" where
  "run_start s \<longleftrightarrow> us_tokens (ur_server s) = (\<lambda>_. None) \<and> ur_issued s = [] \<and> ur_used s = []"

interpretation uncertain_system: step_system uncertain_step run_start run_ok
proof
  show "run_ok s" if "run_start s" for s
    using that by (simp add: run_start_def run_ok_def tokens_ok_def live_token_def)
  show "run_ok t" if "uncertain_step s t" "run_ok s" for s t
    using that run_ok_step by blast
qed

section \<open>The dialog's calls\<close>

lemma action_valid: "validUncertainAction (uncertain_action_string a)" "js_trim (uncertain_action_string a) = uncertain_action_string a"
  by (cases a; simp add: validUncertainAction_def uncertain_action_string_def js_trim_def is_space_def)+

lemma action_inj: "uncertain_action_string a = uncertain_action_string b \<longleftrightarrow> a = b"
  by (cases a; cases b) (simp_all add: uncertain_action_string_def)

lemma decode_resolve_body:
  "decodeUncertainPayload (uncertain_input_json input) =
     Some \<lparr>up_Action = uncertain_action_string (uri_action input), up_ConfirmationToken = uri_confirmationToken input,
           up_Reason = uri_reason input\<rparr>"
  by (simp add: decodeUncertainPayload_def uncertain_input_json_def known_fields_def prop_of_def action_valid)

lemma decode_preview_body:
  "decodeUncertainPayload (JObj [(''action'', JStr (uncertain_action_string a))]) =
     Some \<lparr>up_Action = uncertain_action_string a, up_ConfirmationToken = [], up_Reason = []\<rparr>"
  by (simp add: decodeUncertainPayload_def known_fields_def prop_of_def action_valid)

lemma resolution_listed: "uncertain_action_string a \<in> set uncertain_resolutions"
  by (cases a) (simp_all add: uncertain_action_string_def uncertain_resolutions_def)

section \<open>Properties\<close>


definition start_run :: uncertain_run where
  "start_run = \<lparr>ur_server = \<lparr>us_tokens = (\<lambda>_. None), us_registry = sample_uncertain\<rparr>, ur_issued = [], ur_used = []\<rparr>"

definition preview_body :: "UncertainResolutionAction \<Rightarrow> json" where
  "preview_body a = JObj [(''action'', JStr (uncertain_action_string a))]"

lemma previewed_reply:
  assumes "lookup r ident = Some t" "ti_State (tr_info t) = StateUncertain" "ti_UncertainResolution (tr_info t) = []"
  shows "\<exists>info. previewUncertainResolution ident actor (preview_body a) (Some token) now \<lparr>us_tokens = st, us_registry = r\<rparr> =
     (Replied (token, now + uncertainConfirmationTTL, info),
      \<lparr>us_tokens = issue_token now token (ident, uncertain_action_string a, actor) st, us_registry = r\<rparr>)"
  using assms
  by (auto simp: previewUncertainResolution_def preview_body_def decode_preview_body action_valid RequestInfo_of_def Let_def
      issue_token_def Issue_def split: option.split)


text \<open>
  Claim C21: a resolution that carries another action than the one its token was issued for
  is refused with a conflict, changes nothing in the registry and spends the token, so the
  operator has to preview again. This is what becomes of the resolutions that the dialog
  sends after its action was changed under a running preview.
\<close>

theorem mismatched_resolution_refused:
  assumes "live_token (us_tokens s) (uri_confirmationToken input) = Some (ident, uncertain_action_string asked, actor)"
    "uri_action input \<noteq> asked" "js_trim (uri_reason input) \<noteq> []" "rune_count (js_trim (uri_reason input)) \<le> 500"
  shows "\<exists>s'. resolveUncertain ident actor (uncertain_input_json input) err now s = (Rejected 409 ''UNCERTAIN_CONFIRMATION_INVALID'', s') \<and>
     us_registry s' = us_registry s \<and> live_token (us_tokens s') (uri_confirmationToken input) = None"
proof -
  obtain c where c: "us_tokens s (uri_confirmationToken input) = Some c" "uc_Action c = uncertain_action_string asked"
    using assms(1) by (auto simp: live_token_def)
  with assms(2-4) show ?thesis
    by (simp add: resolveUncertain_def decode_resolve_body action_valid Consume_def Let_def live_token_def action_inj)
qed

theorem mismatched_resolution_refused_witness:
  "\<exists>s'. resolveUncertain ''r1'' ''me''
     (uncertain_input_json \<lparr>uri_action = UncertainResolutionAction_Abandon, uri_confirmationToken = ''token'', uri_reason = ''checked''\<rparr>)
     None 6 \<lparr>us_tokens = issue_token 5 ''token'' (''r1'', ''confirm_success'', ''me'') (\<lambda>_. None), us_registry = sample_uncertain\<rparr>
     = (Rejected 409 ''UNCERTAIN_CONFIRMATION_INVALID'', s') \<and> us_registry s' = sample_uncertain"
proof -
  let ?in = "\<lparr>uri_action = UncertainResolutionAction_Abandon, uri_confirmationToken = ''token'', uri_reason = ''checked''\<rparr>"
  let ?s = "\<lparr>us_tokens = issue_token 5 ''token'' (''r1'', ''confirm_success'', ''me'') (\<lambda>_. None), us_registry = sample_uncertain\<rparr>"
  have "live_token (us_tokens ?s) (uri_confirmationToken ?in) =
      Some (''r1'', uncertain_action_string UncertainResolutionAction_ConfirmSuccess, ''me'')"
    by (simp add: confirmations.issue_live uncertain_action_string_def)
  from mismatched_resolution_refused [OF this, of None 6] show ?thesis
    by (auto simp: js_trim_def is_space_def rune_count_def)
qed

text \<open>
  Claim C20: the two calls of the dialog compose. For a request whose delivery is uncertain
  and not resolved, the preview replies with a token, and the resolution that the dialog
  then sends with it, for the previewed action, with a reason of at most 500 characters and
  within two minutes, is accepted and recorded.
\<close>

theorem preview_then_resolve:
  assumes "lookup r ident = Some t" "ti_State (tr_info t) = StateUncertain" "ti_UncertainResolution (tr_info t) = []"
    "previewUncertainResolution ident actor (preview_body a) (Some token) now \<lparr>us_tokens = st, us_registry = r\<rparr> = (reply, s1)"
    "token \<noteq> []" "js_trim reason \<noteq> []" "rune_count (js_trim reason) \<le> 500" "later < now + uncertainConfirmationTTL"
  shows "(\<exists>info. reply = Replied (token, now + uncertainConfirmationTTL, info)) \<and>
     (\<exists>s2. resolveUncertain ident actor
        (uncertain_input_json \<lparr>uri_action = a, uri_confirmationToken = token, uri_reason = js_trim reason\<rparr>) None later s1 =
        (Replied (uncertain_action_string a, acceptedAction ident StateUncertain), s2) \<and>
      UncertainResolution ident (us_registry s2) = uncertain_action_string a)"
proof -
  obtain info where pv: "reply = Replied (token, now + uncertainConfirmationTTL, info)"
    "s1 = \<lparr>us_tokens = issue_token now token (ident, uncertain_action_string a, actor) st, us_registry = r\<rparr>"
    using previewed_reply [OF assms(1-3), of actor a token now st] assms(4) by auto
  have "\<exists>st'. Consume token ident (uncertain_action_string a) actor later (us_tokens s1) = (None, st')"
    using assms(5,8) by (simp add: pv(2) issue_token_def Issue_def Consume_def Let_def)
  then obtain st' where "Consume token ident (uncertain_action_string a) actor later (us_tokens s1) = (None, st')" ..
  moreover have "js_trim (js_trim reason) = js_trim reason" by (rule trim_space)
  ultimately show ?thesis
    using assms(1-3,6,7) resolution_listed [of a]
    by (auto simp: pv resolveUncertain_def decode_resolve_body action_valid ResolveUncertain_def Let_def UncertainResolution_def
        signal_retry_def call_cancel_def)
qed

theorem preview_then_resolve_witness:
  "\<exists>s1 s2. resolveUncertain ''r1'' ''me''
     (uncertain_input_json \<lparr>uri_action = UncertainResolutionAction_Abandon, uri_confirmationToken = ''tok'', uri_reason = js_trim ''checked''\<rparr>)
     None 9 s1 = (Replied (''abandon'', acceptedAction ''r1'' StateUncertain), s2) \<and> UncertainResolution ''r1'' (us_registry s2) = ''abandon''"
proof -
  obtain t where t: "lookup sample_uncertain ''r1'' = Some t" "ti_State (tr_info t) = StateUncertain"
    "ti_UncertainResolution (tr_info t) = []" using sample_uncertain_lookup by blast
  obtain reply s1 where "previewUncertainResolution ''r1'' ''me'' (preview_body UncertainResolutionAction_Abandon) (Some ''tok'') 5
      \<lparr>us_tokens = (\<lambda>_. None), us_registry = sample_uncertain\<rparr> = (reply, s1)" by force
  from preview_then_resolve [OF t this, of "''checked''" 9] show ?thesis
    by (auto simp: js_trim_def is_space_def rune_count_def uncertain_action_string_def uncertainConfirmationTTL_def go_units)
qed

end
