(* ===== verification/GatewayLoop.thy ===== *)
theory GatewayLoop
  imports Registry
begin

text \<open>
  The life of one proxied request in the gateway: the attempt loop of
  internal/proxy/gateway.go and the wait between attempts of internal/proxy/retry_schedule.go,
  interleaved with the admin API and with everything that happens to other requests. The
  loop is a state machine on a program counter and the registry. What an attempt yields,
  the clock, the outcome of writes and which ready channel a \<open>select\<close> takes are chosen by
  the step; the two configuration switches for uncertain deliveries stay fixed. The ghost
  \<open>lp_unresolved\<close> records that an uncertain delivery was retried without a resolution
  that asks for it.
\<close>

section \<open>State\<close>

datatype loop_pc =
    L_acquire
  | L_control int
  | L_attempt int
  | L_await int
  | L_manual int
  | L_timer int
  | L_reacquire int
  | L_exit State bool
  | L_done

record attempt_result =
  ar_response :: bool
  ar_wroteRequest :: bool
  ar_permanent :: bool

record loop =
  lp_registry :: registry
  lp_pc :: loop_pc
  lp_result :: attempt_result
  lp_manual :: bool
  lp_unresolved :: bool

record lifecycle_cfg =
  lc_TrackUncertainDelivery :: bool
  lc_AllowUncertainRetry :: bool

definition no_message :: "string \<times> details" where
  "no_message = ([], None)"

section \<open>The parts of the loop\<close>

text \<open>The start of attempt \<open>n\<close>: the request is forwarded and the attempt is written to the timeline.\<close>

definition start_attempt :: "string \<Rightarrow> int \<Rightarrow> string option \<Rightarrow> int \<Rightarrow> loop \<Rightarrow> loop" where
  "start_attempt ident n err now s =
     (let r = RecordEvent ident err now (UpdateMessage ident StateForwarding n no_message None now (lp_registry s))
      in s\<lparr>lp_registry := r, lp_pc := (if err = None then L_attempt n else L_exit StateFailed False)\<rparr>)"

text \<open>A successful attempt is buffered and delivered; \<open>delivered\<close> is \<open>False\<close> when the client cannot be written to.\<close>

definition deliver :: "string \<Rightarrow> int \<Rightarrow> bool \<Rightarrow> string option \<Rightarrow> int \<Rightarrow> loop \<Rightarrow> loop" where
  "deliver ident n delivered err now s =
     (let r1 = SetUpstreamMessage True no_message now (lp_registry s);
          r2 = UpdateMessage ident StateBuffering n no_message None now r1;
          r3 = UpdateMessage ident StateDelivering n no_message None now r2
      in if \<not> delivered then s\<lparr>lp_registry := RecordEvent ident err now r3, lp_pc := L_exit StateFailed False\<rparr>
         else s\<lparr>lp_registry := RecordEvent ident err now (UpdateMessage ident StateCompleted n no_message None now r3),
                lp_pc := L_exit StateSuccessful False\<rparr>)"

text \<open>A failed attempt, up to the call of \<open>awaitRetry\<close>; \<open>reason\<close> is \<open>describeAttempt(result)\<close>
  and \<open>stalled\<close> that the request has taken longer than the configured time for a notification.\<close>

definition attempt_failed ::
  "lifecycle_cfg \<Rightarrow> string \<Rightarrow> int \<Rightarrow> attempt_result \<Rightarrow> string \<times> details \<Rightarrow> string option \<Rightarrow> string option \<Rightarrow> bool \<Rightarrow> int \<Rightarrow> loop \<Rightarrow> loop" where
  "attempt_failed cfg ident n res reason err1 err2 stalled now s =
     (let r = lp_registry s;
          r1 = (if ar_response res then UpdateMessage ident StateBuffering n no_message None now r
                else if ar_wroteRequest res \<and> lc_TrackUncertainDelivery cfg
                then RecordEvent ident err1 now (UpdateMessage ident StateUncertain n reason None now r)
                else r);
          r2 = RecordEvent ident err2 now (SetUpstreamMessage False reason now (RecordFailure r1));
          r3 = (if err2 = None \<and> stalled then snd (MarkNotified ident r2) else r2)
      in s\<lparr>lp_registry := r3, lp_result := res, lp_manual := False,
           lp_pc := (if err2 = None then L_await n else L_exit StateFailed False)\<rparr>)"

definition is_uncertain :: "lifecycle_cfg \<Rightarrow> attempt_result \<Rightarrow> bool" where
  "is_uncertain cfg res \<longleftrightarrow> \<not> ar_response res \<and> ar_wroteRequest res \<and> lc_TrackUncertainDelivery cfg"

text \<open>
  One pass of the loop of \<open>awaitRetry\<close> up to the point where it blocks. \<open>elapsed\<close> is that
  the configured time for the request is used up when the pass begins, \<open>over\<close> that it or
  the policy's window is found used up when the wait is computed, \<open>retryable\<close> and \<open>maxAttempts\<close> are as in
  \<open>retryPolicyStop\<close>, and \<open>delay\<close> is the drawn wait.
\<close>

record await_env =
  ae_elapsed :: bool
  ae_over :: bool
  ae_retryable :: bool
  ae_maxAttempts :: int
  ae_now :: int
  ae_err :: "string option"
  ae_err2 :: "string option"
  ae_delay :: int
  ae_reason :: "string \<times> details"

definition stop_overridden :: "lifecycle_cfg \<Rightarrow> loop \<Rightarrow> retryStopReason \<Rightarrow> bool" where
  "stop_overridden cfg s stop \<longleftrightarrow>
     lp_manual s \<and> is_uncertain cfg (lp_result s) \<and> \<not> ar_permanent (lp_result s) \<and> stop = retryStopDenied"

definition await_retry :: "lifecycle_cfg \<Rightarrow> string \<Rightarrow> int \<Rightarrow> await_env \<Rightarrow> loop \<Rightarrow> loop" where
  "await_retry cfg ident n env s =
     (if ae_elapsed env then
        s\<lparr>lp_registry := RecordEvent ident (ae_err2 env) (ae_now env) (lp_registry s), lp_pc := L_exit StateExpired False\<rparr>
      else case ActivateRetryPolicy ident n (ae_err env) (ae_now env) (lp_registry s) of (policy, r1) \<Rightarrow>
        if is_uncertain cfg (lp_result s) \<and> \<not> lc_AllowUncertainRetry cfg \<and> \<not> lp_manual s then
          s\<lparr>lp_registry := RecordEvent ident (ae_err2 env) (ae_now env)
               (UpdateMessage ident StateUncertain n (ae_reason env) None (ae_now env) r1), lp_pc := L_manual n\<rparr>
        else
          (let stop = retryPolicyStop (ae_retryable env) (ae_maxAttempts env) (ar_permanent (lp_result s)) n policy (ae_now env)
           in if stop \<noteq> retryStopNone \<and> \<not> stop_overridden cfg s stop
              then s\<lparr>lp_registry := (if stop = retryStopDenied then r1 else RecordEvent ident (ae_err2 env) (ae_now env) r1),
                     lp_pc := L_exit (if stop = retryStopExpired then StateExpired else StateFailed) False\<rparr>
              else if ae_over env then
                s\<lparr>lp_registry := RecordEvent ident (ae_err2 env) (ae_now env) r1, lp_pc := L_exit StateExpired False\<rparr>
              else s\<lparr>lp_registry := RecordEvent ident (ae_err2 env) (ae_now env)
                        (UpdateMessage ident StateWaiting n (ae_reason env) (Some (ae_now env + ae_delay env)) (ae_now env) r1),
                     lp_pc := L_timer n\<rparr>))"

text \<open>
  A manual retry out of \<open>waitForManualRetry\<close> goes on in the same pass of \<open>awaitRetry\<close>, past
  the block for uncertain deliveries; the policy it has activated by then is the one the
  registry still holds, since an uncertain request takes no other.
\<close>

definition take_signal :: "string \<Rightarrow> registry \<Rightarrow> registry" where
  "take_signal ident = on_request ident (\<lambda>t. t\<lparr>tr_retryNow := False\<rparr>)"

definition take_change :: "string \<Rightarrow> registry \<Rightarrow> registry" where
  "take_change ident = on_request ident (\<lambda>t. t\<lparr>tr_policyChanged := False\<rparr>)"

definition manual_retry :: "lifecycle_cfg \<Rightarrow> string \<Rightarrow> int \<Rightarrow> await_env \<Rightarrow> loop \<Rightarrow> loop" where
  "manual_retry cfg ident n env s =
     await_retry cfg ident n (env\<lparr>ae_elapsed := False\<rparr>)
       (s\<lparr>lp_registry := take_signal ident (lp_registry s), lp_manual := True,
          lp_unresolved := lp_unresolved s \<or> UncertainResolution ident (lp_registry s) \<noteq> ''request_compensation''\<rparr>)"

text \<open>The end of the wait: the policy's window may be over by now.\<close>

definition window_over :: "string \<Rightarrow> int \<Rightarrow> registry \<Rightarrow> bool" where
  "window_over ident now r \<longleftrightarrow>
     (case RetryPolicy_of ident r of
        None \<Rightarrow> False
      | Some p \<Rightarrow> Active p \<and> (case rp_Deadline p of None \<Rightarrow> True | Some d \<Rightarrow> \<not> now < d))"

definition wait_over :: "string \<Rightarrow> int \<Rightarrow> string option \<Rightarrow> int \<Rightarrow> registry \<Rightarrow> loop \<Rightarrow> loop" where
  "wait_over ident n err now r s =
     (if window_over ident now r
      then s\<lparr>lp_registry := RecordEvent ident err now r, lp_pc := L_exit StateExpired False\<rparr>
      else s\<lparr>lp_registry := r, lp_pc := L_reacquire n\<rparr>)"

text \<open>The deferred function: the outcome, and the removal from the registry. \<open>gone\<close> is that the context is done or the client left.\<close>

definition final_outcome :: "string \<Rightarrow> State \<Rightarrow> bool \<Rightarrow> bool \<Rightarrow> State" where
  "final_outcome resolution outcome gone deadline =
     (if resolution = ''confirm_success'' then StateConfirmedSuccess
      else if resolution = ''abandon'' then StateAbandoned
      else if outcome \<noteq> StateSuccessful \<and> outcome \<noteq> StateRejected \<and> gone
      then (if deadline then StateExpired else StateCanceled)
      else outcome)"

definition exit_request ::
  "string \<Rightarrow> State \<Rightarrow> bool \<Rightarrow> bool \<Rightarrow> string option \<Rightarrow> string option \<Rightarrow> int \<Rightarrow> registry \<Rightarrow> registry" where
  "exit_request ident outcome gone deadline err1 err2 now r =
     (let resolution = UncertainResolution ident r;
          r1 = (if resolution \<noteq> ''confirm_success'' \<and> resolution \<noteq> ''abandon'' \<and> outcome \<noteq> StateSuccessful \<and>
                   outcome \<noteq> StateRejected \<and> gone then RecordEvent ident err1 now r else r)
      in snd (Remove ident (final_outcome resolution outcome gone deadline) err2 now (on_request ident call_cancel r1)))"

section \<open>Steps\<close>

definition entry :: "string \<Rightarrow> loop \<Rightarrow> trackedRequest option" where
  "entry ident s = lookup (lp_registry s) ident"

definition has_token :: "string \<Rightarrow> loop \<Rightarrow> bool" where
  "has_token ident s \<longleftrightarrow> (case entry ident s of None \<Rightarrow> False | Some t \<Rightarrow> tr_retryNow t)"

definition has_change :: "string \<Rightarrow> loop \<Rightarrow> bool" where
  "has_change ident s \<longleftrightarrow> (case entry ident s of None \<Rightarrow> False | Some t \<Rightarrow> tr_policyChanged t)"

inductive loop_step :: "lifecycle_cfg \<Rightarrow> string \<Rightarrow> loop \<Rightarrow> loop \<Rightarrow> bool" for cfg ident where
  admin: "admin_step (lp_registry s) r \<Longrightarrow> loop_step cfg ident s (s\<lparr>lp_registry := r\<rparr>)"
| other: "lookup r ident = lookup (lp_registry s) ident \<Longrightarrow> loop_step cfg ident s (s\<lparr>lp_registry := r\<rparr>)"
| disconnect: "loop_step cfg ident s (s\<lparr>lp_registry := on_request ident call_cancel (lp_registry s)\<rparr>)"
| acquired: "lp_pc s = L_acquire \<Longrightarrow> loop_step cfg ident s (s\<lparr>lp_pc := L_control 1\<rparr>)"
| queue_full: "lp_pc s = L_acquire \<Longrightarrow> loop_step cfg ident s (s\<lparr>lp_pc := L_exit StateRejected False\<rparr>)"
| acquire_canceled: "lp_pc s = L_acquire \<Longrightarrow> loop_step cfg ident s (s\<lparr>lp_pc := L_exit StateFailed True\<rparr>)"
| control_canceled: "lp_pc s = L_control n \<Longrightarrow> loop_step cfg ident s (s\<lparr>lp_pc := L_exit StateFailed True\<rparr>)"
| attempt: "lp_pc s = L_control n \<Longrightarrow> loop_step cfg ident s (start_attempt ident n err now s)"
| attempt_aborted: "lp_pc s = L_attempt n \<Longrightarrow> loop_step cfg ident s (s\<lparr>lp_pc := L_exit StateFailed False\<rparr>)"
| succeeded: "lp_pc s = L_attempt n \<Longrightarrow> loop_step cfg ident s (deliver ident n delivered err now s)"
| failed: "lp_pc s = L_attempt n \<Longrightarrow> loop_step cfg ident s (attempt_failed cfg ident n res reason err1 err2 stalled now s)"
| await: "lp_pc s = L_await n \<Longrightarrow> loop_step cfg ident s (await_retry cfg ident n env s)"
| manual_canceled: "lp_pc s = L_manual n \<Longrightarrow> loop_step cfg ident s (s\<lparr>lp_pc := L_exit StateFailed True\<rparr>)"
| manual: "lp_pc s = L_manual n \<Longrightarrow> has_token ident s \<Longrightarrow> loop_step cfg ident s (manual_retry cfg ident n env s)"
| manual_policy: "lp_pc s = L_manual n \<Longrightarrow> has_change ident s \<Longrightarrow>
    loop_step cfg ident s (s\<lparr>lp_registry := take_change ident (lp_registry s), lp_pc := L_await n\<rparr>)"
| timer_canceled: "lp_pc s = L_timer n \<Longrightarrow> loop_step cfg ident s (s\<lparr>lp_pc := L_exit StateFailed True\<rparr>)"
| timer_manual: "lp_pc s = L_timer n \<Longrightarrow> has_token ident s \<Longrightarrow>
    loop_step cfg ident s (wait_over ident n err now (take_signal ident (lp_registry s)) s)"
| timer_policy: "lp_pc s = L_timer n \<Longrightarrow> has_change ident s \<Longrightarrow>
    loop_step cfg ident s (s\<lparr>lp_registry := take_change ident (lp_registry s), lp_pc := L_await n\<rparr>)"
| timer: "lp_pc s = L_timer n \<Longrightarrow> loop_step cfg ident s (wait_over ident n err now (lp_registry s) s)"
| reacquired: "lp_pc s = L_reacquire n \<Longrightarrow>
    loop_step cfg ident s (s\<lparr>lp_registry := RecordEvent ident err now (lp_registry s), lp_pc := L_control (n + 1)\<rparr>)"
| retry_rejected: "lp_pc s = L_reacquire n \<Longrightarrow> loop_step cfg ident s (s\<lparr>lp_pc := L_exit StateRejected False\<rparr>)"
| exit: "lp_pc s = L_exit outcome canceled \<Longrightarrow>
    loop_step cfg ident s
      (s\<lparr>lp_registry := exit_request ident outcome (gone \<or> canceled) deadline err1 err2 now (lp_registry s), lp_pc := L_done\<rparr>)"

definition loop_start :: "string \<Rightarrow> loop \<Rightarrow> bool" where
  "loop_start ident s \<longleftrightarrow> lp_pc s = L_acquire \<and> \<not> lp_unresolved s \<and> \<not> lp_manual s \<and>
     (\<exists>t. entry ident s = Some t \<and> ti_State (tr_info t) = StateQueued \<and> \<not> tr_retryNow t \<and> ti_UncertainResolution (tr_info t) = [])"


section \<open>What the loop reads of its request\<close>

text \<open>The state, the resolution and the pending retry signal of a request.\<close>

definition view :: "string \<Rightarrow> registry \<Rightarrow> (State \<times> string \<times> bool) option" where
  "view ident r = map_option (\<lambda>t. (ti_State (tr_info t), ti_UncertainResolution (tr_info t), tr_retryNow t)) (lookup r ident)"

named_theorems views \<open>how the operations of the loop change the view\<close>

lemma view_persist_locked [views]: "view ident (recordPersistenceErrorLocked k e now r) = view ident r"
  by (auto simp: view_def recordPersistenceErrorLocked_def Let_def split: option.split)

lemma view_event [views]: "view ident (RecordEvent k err now r) = view ident r"
  by (simp add: RecordEvent_def recordPersistenceErrorFor_def views split: option.split)

lemma view_counters [views]:
  "view ident (RecordFailure r) = view ident r" "view ident (SetUpstreamMessage healthy message now r) = view ident r"
  by (simp_all add: view_def RecordFailure_def SetUpstreamMessage_def)

lemma view_notified [views]: "view ident (snd (MarkNotified k r)) = view ident r"
  by (auto simp: view_def MarkNotified_def split: option.split)

lemma view_activate [views]: "view ident (snd (ActivateRetryPolicy k n err now r)) = view ident r"
  by (auto simp: view_def ActivateRetryPolicy_def Let_def stamp_def updatePolicyInfo_def split: option.split)

lemma view_update:
  assumes "view ident r = Some (st, res, tok)" "ValidateTransition st status"
  shows "view ident (UpdateMessage ident status n message next now r) =
     Some (status, if status = StateForwarding \<and> res = ''request_compensation'' then [] else res, tok)"
  using assms by (auto simp: view_def UpdateMessage_def mark_uncertain_def clear_compensation_def)

lemma view_on_request:
  "view ident (take_signal ident r) = map_option (\<lambda>(st, res, tok). (st, res, False)) (view ident r)"
  "view ident (take_change ident r) = view ident r"
  "view ident (on_request ident call_cancel r) = view ident r"
  by (auto simp: view_def take_signal_def take_change_def on_request_def call_cancel_def split: option.split)

lemma view_resolution: "view ident r = Some (st, res, tok) \<Longrightarrow> UncertainResolution ident r = res"
  by (auto simp: view_def UncertainResolution_def)

text \<open>What the admin API can do to the view of a request.\<close>

definition admin_view :: "State \<times> string \<times> bool \<Rightarrow> State \<times> string \<times> bool \<Rightarrow> bool" where
  "admin_view v v' \<longleftrightarrow>
     (case (v, v') of ((st, res, tok), (st', res', tok')) \<Rightarrow>
        st' = st \<and>
        (res' = res \<or> st = StateUncertain \<and> res = [] \<and> res' \<in> set uncertain_resolutions) \<and>
        (tok' = tok \<or> tok' \<and> (st = StateWaiting \<or> st = StateUncertain \<and> res' = ''request_compensation'')))"

lemma view_put: "view ident (put k t r) =
    (if ident = k then Some (ti_State (tr_info t), ti_UncertainResolution (tr_info t), tr_retryNow t) else view ident r)"
  by (simp add: view_def)

lemma view_lookup: "view ident r = Some v \<longleftrightarrow>
    (\<exists>t. lookup r ident = Some t \<and> v = (ti_State (tr_info t), ti_UncertainResolution (tr_info t), tr_retryNow t))"
  by (auto simp: view_def)

lemma view_persist [views]: "view ident (recordPersistenceError err now r) = view ident r"
  by (simp add: recordPersistenceError_def recordPersistenceErrorFor_def views split: option.split)

lemma view_policy_written:
  "view ident (snd (policy_written k s err now t1 r)) = view ident (put k t1 r)"
  by (simp add: policy_written_def views view_put signal_policy_def split: option.split)

lemma admin_view_refl: "admin_view v v"
  by (simp add: admin_view_def case_prod_unfold)

lemma view_other:
  assumes "k \<noteq> ident"
  shows "view ident (snd (RetryNowChecked k err now r)) = view ident r" "view ident (snd (CancelChecked k err now r)) = view ident r"
    "view ident (snd (ResolveUncertain k resolution err now r)) = view ident r"
    "view ident (snd (ApplyRetryPolicy k spec overwrite err now r)) = view ident r"
    "view ident (snd (ClearRetryPolicy k err now r)) = view ident r"
  using assms
  by (simp_all add: RetryNowChecked_def CancelChecked_def ResolveUncertain_def ApplyRetryPolicy_def applyRetryPolicy_def
      ClearRetryPolicy_def view_policy_written views view_put Let_def split: option.split)

lemma view_at: "lookup r k = Some t \<Longrightarrow> view k r = Some (ti_State (tr_info t), ti_UncertainResolution (tr_info t), tr_retryNow t)"
  by (simp add: view_def)

lemma view_retry:
  assumes "view k r = Some (st, res, tok)"
  shows "view k (snd (RetryNowChecked k err now r)) = Some (st, res, tok \<or> st = StateWaiting)"
proof -
  obtain t where t: "lookup r k = Some t" "st = ti_State (tr_info t)" "res = ti_UncertainResolution (tr_info t)" "tok = tr_retryNow t"
    using assms by (auto simp: view_lookup)
  then show ?thesis
    using view_at [OF t(1)] by (simp add: RetryNowChecked_def Let_def views view_put signal_retry_def split: option.split)
qed

lemma view_cancel: "view k (snd (CancelChecked k err now r)) = view k r"
  by (cases "lookup r k") (simp_all add: CancelChecked_def views view_put call_cancel_def Let_def view_at split: option.split)

lemma view_resolve:
  assumes "view k r = Some (st, res, tok)"
  shows "view k (snd (ResolveUncertain k resolution err now r)) = Some (st, res, tok) \<or>
     st = StateUncertain \<and> res = [] \<and> resolution \<in> set uncertain_resolutions \<and>
     view k (snd (ResolveUncertain k resolution err now r)) = Some (st, resolution, tok \<or> resolution = ''request_compensation'')"
proof -
  obtain t where t: "lookup r k = Some t" "st = ti_State (tr_info t)" "res = ti_UncertainResolution (tr_info t)" "tok = tr_retryNow t"
    using assms by (auto simp: view_lookup)
  show ?thesis
  proof (cases "st = StateUncertain \<and> res = [] \<and> resolution \<in> set uncertain_resolutions \<and> err = None")
    case True
    with t show ?thesis
      by (simp add: ResolveUncertain_def Let_def view_put signal_retry_def call_cancel_def)
  next
    case False
    then have "view k (snd (ResolveUncertain k resolution err now r)) = view k r"
      using t by (auto simp: ResolveUncertain_def Let_def views split: option.split)
    with assms show ?thesis by simp
  qed
qed

lemma view_policies:
  "view k (snd (ApplyRetryPolicy k spec overwrite err now r)) = view k r"
  "view k (snd (ClearRetryPolicy k err now r)) = view k r"
  by (cases "lookup r k"; simp add: ApplyRetryPolicy_def applyRetryPolicy_def ClearRetryPolicy_def view_policy_written view_put
      stamp_def updatePolicyInfo_def view_at Let_def split: option.split)+

lemma admin_step_view:
  assumes "admin_step r r'" "view ident r = Some v"
  shows "\<exists>v'. view ident r' = Some v' \<and> admin_view v v'"
proof -
  obtain st res tok where v: "v = (st, res, tok)" by (cases v)
  note w = assms(2) [unfolded v]
  from assms(1) show ?thesis
  proof cases
    case (retry k err now)
    then show ?thesis
      using w view_retry [of k r st res tok err now] view_other(1) [of k ident err now r]
      by (cases "k = ident") (auto simp: v admin_view_def)
  next
    case (cancel k err now)
    then show ?thesis
      using w view_cancel [of k err now r] view_other(2) [of k ident err now r]
      by (cases "k = ident") (auto simp: v admin_view_def)
  next
    case (resolve k resolution err now)
    then show ?thesis
      using w view_resolve [of k r st res tok resolution err now] view_other(3) [of k ident resolution err now r]
      by (cases "k = ident") (auto simp: v admin_view_def)
  next
    case (apply_policy k spec overwrite err now)
    then show ?thesis
      using w view_policies(1) [of k spec overwrite err now r] view_other(4) [of k ident spec overwrite err now r]
      by (cases "k = ident") (auto simp: v admin_view_def)
  next
    case (clear_policy k err now)
    then show ?thesis
      using w view_policies(2) [of k err now r] view_other(5) [of k ident err now r]
      by (cases "k = ident") (auto simp: v admin_view_def)
  qed
qed

section \<open>Invariants\<close>

fun pc_state :: "loop_pc \<Rightarrow> State \<Rightarrow> bool" where
  "pc_state L_acquire st \<longleftrightarrow> st = StateQueued"
| "pc_state (L_control n) st \<longleftrightarrow> st = StateQueued \<or> st = StateWaiting"
| "pc_state (L_attempt n) st \<longleftrightarrow> st = StateForwarding"
| "pc_state (L_await n) st \<longleftrightarrow> st \<in> {StateForwarding, StateBuffering, StateUncertain, StateWaiting}"
| "pc_state (L_manual n) st \<longleftrightarrow> st = StateUncertain"
| "pc_state (L_timer n) st \<longleftrightarrow> st = StateWaiting"
| "pc_state (L_reacquire n) st \<longleftrightarrow> st = StateWaiting"
| "pc_state (L_exit outcome gone) st \<longleftrightarrow>
     outcome = StateRejected \<and> st \<in> {StateQueued, StateWaiting} \<or> outcome = StateSuccessful \<and> st = StateCompleted \<or>
     outcome \<in> {StateFailed, StateExpired} \<and>
       (st \<in> {StateForwarding, StateBuffering, StateDelivering, StateUncertain, StateWaiting} \<or> gone \<and> st = StateQueued)"
| "pc_state L_done st \<longleftrightarrow> True"

text \<open>Where the loop is not allowed to hold a retry signal, and where one is covered by a resolution.\<close>

fun pc_token :: "loop_pc \<Rightarrow> State \<Rightarrow> string \<Rightarrow> bool" where
  "pc_token (L_await n) st res \<longleftrightarrow> st = StateWaiting \<or> res = ''request_compensation''"
| "pc_token (L_manual n) st res \<longleftrightarrow> res = ''request_compensation''"
| "pc_token (L_timer n) st res \<longleftrightarrow> True"
| "pc_token (L_exit outcome gone) st res \<longleftrightarrow> True"
| "pc_token L_done st res \<longleftrightarrow> True"
| "pc_token _ st res \<longleftrightarrow> False"

definition blocked :: "lifecycle_cfg \<Rightarrow> loop \<Rightarrow> bool" where
  "blocked cfg s \<longleftrightarrow> is_uncertain cfg (lp_result s) \<and> \<not> lc_AllowUncertainRetry cfg \<and> \<not> lp_manual s"

fun pc_blocked :: "loop_pc \<Rightarrow> State \<Rightarrow> bool \<Rightarrow> bool" where
  "pc_blocked (L_await n) st b \<longleftrightarrow> (b \<longleftrightarrow> st = StateUncertain)"
| "pc_blocked (L_manual n) st b \<longleftrightarrow> b"
| "pc_blocked (L_timer n) st b \<longleftrightarrow> \<not> b"
| "pc_blocked _ st b \<longleftrightarrow> True"

definition view_ok :: "loop_pc \<Rightarrow> bool \<Rightarrow> State \<times> string \<times> bool \<Rightarrow> bool" where
  "view_ok pc b v \<longleftrightarrow>
     (case v of (st, res, tok) \<Rightarrow>
        pc_state pc st \<and> (tok \<longrightarrow> pc_token pc st res) \<and> pc_blocked pc st b \<and>
        (st \<noteq> StateUncertain \<longrightarrow> res \<in> {[], ''request_compensation''}) \<and>
        (st \<notin> {StateUncertain, StateWaiting} \<longrightarrow> res = []))"

definition at_ok :: "string \<Rightarrow> loop_pc \<Rightarrow> bool \<Rightarrow> registry \<Rightarrow> bool" where
  "at_ok ident pc b r \<longleftrightarrow> pc = L_done \<or> (\<exists>v. view ident r = Some v \<and> view_ok pc b v)"

definition loop_ok :: "lifecycle_cfg \<Rightarrow> string \<Rightarrow> loop \<Rightarrow> bool" where
  "loop_ok cfg ident s \<longleftrightarrow> \<not> lp_unresolved s \<and> at_ok ident (lp_pc s) (blocked cfg s) (lp_registry s)"

text \<open>A retry signal is stale once the wait it was meant to end is over.\<close>

definition stale :: "string \<Rightarrow> loop \<Rightarrow> bool" where
  "stale ident s \<longleftrightarrow> has_token ident s \<and>
     (case lp_pc s of L_reacquire _ \<Rightarrow> True | L_control _ \<Rightarrow> True | L_attempt _ \<Rightarrow> True | _ \<Rightarrow> False)"

inductive fresh_step :: "lifecycle_cfg \<Rightarrow> string \<Rightarrow> loop \<Rightarrow> loop \<Rightarrow> bool" for cfg ident where
  fresh: "loop_step cfg ident s s' \<Longrightarrow> \<not> stale ident s' \<Longrightarrow> fresh_step cfg ident s s'"

lemma token_view: "view ident (lp_registry s) = Some (st, res, tok) \<Longrightarrow> has_token ident s \<longleftrightarrow> tok"
  by (auto simp: has_token_def entry_def view_lookup)

lemma view_ok_admin:
  assumes "view_ok pc b v" "admin_view v v'"
    "\<not> (snd (snd v') \<and> (case pc of L_reacquire _ \<Rightarrow> True | L_control _ \<Rightarrow> True | L_attempt _ \<Rightarrow> True | _ \<Rightarrow> False))"
  shows "view_ok pc b v'"
proof -
  obtain st res tok where v: "v = (st, res, tok)" by (cases v)
  obtain st' res' tok' where v': "v' = (st', res', tok')" by (cases v')
  have eq: "st' = st" using assms(2) by (simp add: v v' admin_view_def)
  show ?thesis
    using assms by (cases pc) (auto simp: v v' eq view_ok_def admin_view_def)
qed

lemma blocked_simps [simp]:
  "blocked cfg (s\<lparr>lp_registry := r\<rparr>) = blocked cfg s" "blocked cfg (s\<lparr>lp_pc := pc\<rparr>) = blocked cfg s"
  "blocked cfg (s\<lparr>lp_unresolved := u\<rparr>) = blocked cfg s"
  by (simp_all add: blocked_def)

text \<open>How a pass of \<open>awaitRetry\<close> ends, on the view.\<close>

lemma await_ok:
  assumes v: "view ident (lp_registry s) = Some (st, res, tok)"
    and st: "st \<in> {StateForwarding, StateBuffering, StateUncertain, StateWaiting}"
    and b: "blocked cfg s \<longrightarrow> st = StateUncertain" and tok: "blocked cfg s \<longrightarrow> tok \<longrightarrow> res = ''request_compensation''"
    and res: "st \<noteq> StateUncertain \<or> \<not> blocked cfg s \<longrightarrow> res \<in> {[], ''request_compensation''}"
      "st \<notin> {StateUncertain, StateWaiting} \<longrightarrow> res = []"
    and u: "\<not> lp_unresolved s"
  shows "loop_ok cfg ident (await_retry cfg ident n env s)"
proof -
  let ?r = "snd (ActivateRetryPolicy ident n (ae_err env) (ae_now env) (lp_registry s))"
  have r: "view ident ?r = Some (st, res, tok)" using v by (simp add: views)
  have exit: "view_ok (L_exit o' False) b' (st, res, tok)" if "o' \<in> {StateFailed, StateExpired}" for o' b'
    using that st res by (auto simp: view_ok_def)
  show ?thesis
  proof (cases "ae_elapsed env")
    case True
    then show ?thesis using u v exit by (auto simp: await_retry_def loop_ok_def at_ok_def views)
  next
    case False
    show ?thesis
    proof (cases "blocked cfg s")
      case True
      then have "view ident (UpdateMessage ident StateUncertain n (ae_reason env) None (ae_now env) ?r) = Some (StateUncertain, res, tok)"
        using view_update [OF r, of StateUncertain] b by (simp add: ValidateTransition_def)
      then show ?thesis
        using True False u tok
        by (simp add: await_retry_def loop_ok_def at_ok_def views case_prod_unfold view_ok_def blocked_def)
    next
      case nb: False
      then have go: "\<not> (is_uncertain cfg (lp_result s) \<and> \<not> lc_AllowUncertainRetry cfg \<and> \<not> lp_manual s)" by (simp add: blocked_def)
      have valid: "ValidateTransition st StateWaiting" using st by (auto simp: ValidateTransition_def)
      have w: "view ident (UpdateMessage ident StateWaiting n (ae_reason env) t (ae_now env) ?r) = Some (StateWaiting, res, tok)" for t
        using view_update [OF r valid] by simp
      have "view_ok (L_timer n) (blocked cfg s) (StateWaiting, res, tok)"
        using nb res by (simp add: view_ok_def)
      then show ?thesis
        using False go u r exit w
        by (auto simp: await_retry_def loop_ok_def at_ok_def views case_prod_unfold Let_def)
    qed
  qed
qed


lemma not_stale_pc:
  assumes "\<not> stale ident s" "view ident (lp_registry s) = Some (st, res, tok)" "tok"
  shows "\<not> (case lp_pc s of L_reacquire _ \<Rightarrow> True | L_control _ \<Rightarrow> True | L_attempt _ \<Rightarrow> True | _ \<Rightarrow> False)"
  using assms token_view [OF assms(2)] by (simp add: stale_def)

lemma attempt_start_ok:
  assumes "loop_ok cfg ident s" "lp_pc s = L_control n" "\<not> stale ident s"
  shows "loop_ok cfg ident (start_attempt ident n err now s)"
proof -
  obtain st res tok where v: "view ident (lp_registry s) = Some (st, res, tok)" "view_ok (L_control n) (blocked cfg s) (st, res, tok)"
    using assms(1,2) by (auto simp: loop_ok_def at_ok_def)
  have tok: "\<not> tok" using not_stale_pc [OF assms(3) v(1)] assms(2) by auto
  have "ValidateTransition st StateForwarding" using v(2) by (auto simp: view_ok_def ValidateTransition_def)
  from view_update [OF v(1) this, of n no_message None now] v(2) tok
  have "view ident (UpdateMessage ident StateForwarding n no_message None now (lp_registry s)) = Some (StateForwarding, [], False)"
    by (auto simp: view_ok_def)
  then show ?thesis
    using assms(1) by (simp add: start_attempt_def Let_def loop_ok_def at_ok_def views view_ok_def)
qed

lemma deliver_ok:
  assumes "loop_ok cfg ident s" "lp_pc s = L_attempt n"
  shows "loop_ok cfg ident (deliver ident n delivered err now s)"
proof -
  obtain tok where v: "view ident (lp_registry s) = Some (StateForwarding, [], tok)"
    using assms(1,2) by (auto simp: loop_ok_def at_ok_def view_ok_def)
  let ?r1 = "SetUpstreamMessage True no_message now (lp_registry s)"
  let ?r2 = "UpdateMessage ident StateBuffering n no_message None now ?r1"
  let ?r3 = "UpdateMessage ident StateDelivering n no_message None now ?r2"
  have "view ident ?r2 = Some (StateBuffering, [], tok)"
    using view_update [of ident ?r1 StateForwarding "[]" tok StateBuffering] v by (simp add: views ValidateTransition_def)
  then have r3: "view ident ?r3 = Some (StateDelivering, [], tok)"
    using view_update [of ident ?r2 StateBuffering "[]" tok StateDelivering] by (simp add: ValidateTransition_def)
  then have "view ident (UpdateMessage ident StateCompleted n no_message None now ?r3) = Some (StateCompleted, [], tok)"
    using view_update [of ident ?r3 StateDelivering "[]" tok StateCompleted] by (simp add: ValidateTransition_def)
  with r3 show ?thesis
    using assms(1) by (simp add: deliver_def Let_def loop_ok_def at_ok_def views view_ok_def)
qed

lemma failed_ok:
  assumes "loop_ok cfg ident s" "lp_pc s = L_attempt n" "\<not> stale ident s" "\<not> lc_AllowUncertainRetry cfg"
  shows "loop_ok cfg ident (attempt_failed cfg ident n res reason err1 err2 stalled now s)"
proof -
  obtain tok where v: "view ident (lp_registry s) = Some (StateForwarding, [], tok)"
    using assms(1,2) by (auto simp: loop_ok_def at_ok_def view_ok_def)
  have tok: "\<not> tok" using not_stale_pc [OF assms(3) v] assms(2) by auto
  have upd: "view ident (UpdateMessage ident status n m None now (lp_registry s)) = Some (status, [], False)"
    if "status \<in> {StateBuffering, StateUncertain}" for status m
    using view_update [OF v, of status n m None now] that tok by (auto simp: ValidateTransition_def)
  show ?thesis
    using assms(1,4) v tok upd
    by (auto simp: attempt_failed_def Let_def loop_ok_def at_ok_def views view_ok_def blocked_def is_uncertain_def)
qed

lemma wait_over_ok:
  assumes "loop_ok cfg ident s" "lp_pc s = L_timer n" "view ident r = Some (StateWaiting, res, tok)"
    "res \<in> {[], ''request_compensation''}" "\<not> stale ident (wait_over ident n err now r s)"
  shows "loop_ok cfg ident (wait_over ident n err now r s)"
proof -
  have "view ident (lp_registry (wait_over ident n err now r s)) = Some (StateWaiting, res, tok)"
    using assms(3) by (simp add: wait_over_def views)
  note tok = not_stale_pc [OF assms(5) this]
  have "lp_pc (wait_over ident n err now r s) \<in> {L_exit StateExpired False, L_reacquire n}"
    by (simp add: wait_over_def)
  then have "view_ok (lp_pc (wait_over ident n err now r s)) (blocked cfg s) (StateWaiting, res, tok)"
    using tok assms(4) by (auto simp: view_ok_def)
  then show ?thesis
    using assms(1,3) by (auto simp: loop_ok_def at_ok_def wait_over_def views)
qed

lemma manual_ok:
  assumes "loop_ok cfg ident s" "lp_pc s = L_manual n" "has_token ident s"
  shows "loop_ok cfg ident (manual_retry cfg ident n env s)"
proof -
  obtain res where v: "view ident (lp_registry s) = Some (StateUncertain, res, True)" "res = ''request_compensation''"
    using assms by (auto simp: loop_ok_def at_ok_def view_ok_def token_view)
  have "view ident (take_signal ident (lp_registry s)) = Some (StateUncertain, res, False)"
    using v by (simp add: view_on_request)
  then show ?thesis
    unfolding manual_retry_def using assms(1) v(2) view_resolution [OF v(1)]
    by (intro await_ok [where st = StateUncertain and res = res and tok = False]) (auto simp: loop_ok_def blocked_def)
qed

lemma resume_await_ok:
  assumes "loop_ok cfg ident s" "lp_pc s = L_await n"
  shows "loop_ok cfg ident (await_retry cfg ident n env s)"
proof -
  obtain st res tok where v: "view ident (lp_registry s) = Some (st, res, tok)" "view_ok (L_await n) (blocked cfg s) (st, res, tok)"
    using assms by (auto simp: loop_ok_def at_ok_def)
  show ?thesis
    using assms(1) v(2) by (intro await_ok [OF v(1)]) (auto simp: view_ok_def loop_ok_def)
qed

lemma same_view_ok:
  "loop_ok cfg ident s \<Longrightarrow> view ident r = view ident (lp_registry s) \<Longrightarrow> loop_ok cfg ident (s\<lparr>lp_registry := r\<rparr>)"
  by (simp add: loop_ok_def at_ok_def)

lemma admin_ok:
  assumes "loop_ok cfg ident s" "admin_step (lp_registry s) r" "\<not> stale ident (s\<lparr>lp_registry := r\<rparr>)"
  shows "loop_ok cfg ident (s\<lparr>lp_registry := r\<rparr>)"
proof (cases "lp_pc s = L_done")
  case False
  then obtain v where v: "view ident (lp_registry s) = Some v" "view_ok (lp_pc s) (blocked cfg s) v"
    using assms(1) by (auto simp: loop_ok_def at_ok_def)
  obtain v' where v': "view ident r = Some v'" "admin_view v v'"
    using admin_step_view [OF assms(2) v(1)] by blast
  obtain st res tok where t: "v' = (st, res, tok)" by (cases v')
  have "view_ok (lp_pc s) (blocked cfg s) v'"
    using not_stale_pc [OF assms(3)] v'(1) t by (intro view_ok_admin [OF v(2) v'(2)]) simp
  then show ?thesis using assms(1) v'(1) by (simp add: loop_ok_def at_ok_def)
qed (use assms(1) in \<open>simp add: loop_ok_def at_ok_def\<close>)

text \<open>Moves of the program counter that leave the view as it is.\<close>

inductive pc_move :: "loop_pc \<Rightarrow> loop_pc \<Rightarrow> bool" where
  "pc_move L_acquire (L_control 1)"
| "pc_move L_acquire (L_exit StateRejected False)"
| "pc_move L_acquire (L_exit StateFailed True)"
| "pc_move (L_control n) (L_exit StateFailed True)"
| "pc_move (L_attempt n) (L_exit StateFailed False)"
| "pc_move (L_manual n) (L_exit StateFailed True)"
| "pc_move (L_manual n) (L_await n)"
| "pc_move (L_timer n) (L_exit StateFailed True)"
| "pc_move (L_timer n) (L_await n)"
| "pc_move (L_reacquire n) (L_control (n + 1))"
| "pc_move (L_reacquire n) (L_exit StateRejected False)"

lemma pc_move_view: "pc_move pc pc' \<Longrightarrow> view_ok pc b (st, res, tok) \<Longrightarrow> view_ok pc' b (st, res, tok)"
  by (induction rule: pc_move.induct) (auto simp: view_ok_def)

lemma move_ok:
  assumes "loop_ok cfg ident s" "pc_move (lp_pc s) pc" "view ident r = view ident (lp_registry s)"
  shows "loop_ok cfg ident (s\<lparr>lp_registry := r, lp_pc := pc\<rparr>)"
proof -
  have "lp_pc s \<noteq> L_done" using assms(2) by (auto elim: pc_move.cases)
  with assms obtain st res tok where "view ident r = Some (st, res, tok)" "view_ok (lp_pc s) (blocked cfg s) (st, res, tok)"
    by (auto simp: loop_ok_def at_ok_def)
  with pc_move_view [OF assms(2) this(2)] assms(1) show ?thesis by (auto simp: loop_ok_def at_ok_def)
qed

lemma jump_ok: "loop_ok cfg ident s \<Longrightarrow> pc_move (lp_pc s) pc \<Longrightarrow> loop_ok cfg ident (s\<lparr>lp_pc := pc\<rparr>)"
  using move_ok [of cfg ident s pc "lp_registry s"] by simp

lemma timer_ok:
  assumes "loop_ok cfg ident s" "lp_pc s = L_timer n" "r = take_signal ident (lp_registry s) \<or> r = lp_registry s"
    "\<not> stale ident (wait_over ident n err now r s)"
  shows "loop_ok cfg ident (wait_over ident n err now r s)"
proof -
  obtain res tok where v: "view ident (lp_registry s) = Some (StateWaiting, res, tok)" "res \<in> {[], ''request_compensation''}"
    using assms(1,2) by (auto simp: loop_ok_def at_ok_def view_ok_def)
  then have "\<exists>tok'. view ident r = Some (StateWaiting, res, tok')"
    using assms(3) by (auto simp: view_on_request)
  then obtain tok' where "view ident r = Some (StateWaiting, res, tok')" ..
  with wait_over_ok [OF assms(1,2) this v(2) assms(4)] show ?thesis by simp
qed

lemma fresh_step_ok:
  assumes "fresh_step cfg ident s s'" "loop_ok cfg ident s" "\<not> stale ident s" "\<not> lc_AllowUncertainRetry cfg"
  shows "loop_ok cfg ident s'"
proof -
  have step: "loop_step cfg ident s s'" and fresh: "\<not> stale ident s'" using assms(1) by (auto elim: fresh_step.cases)
  note jump = jump_ok [OF assms(2)] and move = move_ok [OF assms(2)] and same = same_view_ok [OF assms(2)]
  from step show ?thesis
  proof cases
    case (admin r)
    with fresh show ?thesis using admin_ok [OF assms(2)] by simp
  next
    case (other r)
    then show ?thesis using same by (simp add: view_def)
  next
    case (exit outcome canceled gone deadline err1 err2 now)
    then show ?thesis using assms(2) by (simp add: loop_ok_def at_ok_def)
  next
    case (timer_manual n err now)
    with fresh show ?thesis using timer_ok [OF assms(2)] by simp
  next
    case (timer n err now)
    with fresh show ?thesis using timer_ok [OF assms(2)] by simp
  qed (use assms in \<open>simp_all add: same jump move pc_move.intros view_on_request views attempt_start_ok deliver_ok failed_ok
      resume_await_ok manual_ok\<close>)
qed

interpretation fresh_system: step_system "fresh_step cfg ident" "loop_start ident"
  "\<lambda>s. lc_AllowUncertainRetry cfg \<or> loop_ok cfg ident s \<and> \<not> stale ident s" for cfg ident
proof
  show "lc_AllowUncertainRetry cfg \<or> loop_ok cfg ident s \<and> \<not> stale ident s" if "loop_start ident s" for s
  proof -
    from that obtain t where "lookup (lp_registry s) ident = Some t" "ti_State (tr_info t) = StateQueued" "\<not> tr_retryNow t"
      "ti_UncertainResolution (tr_info t) = []" "lp_pc s = L_acquire" "\<not> lp_unresolved s"
      by (auto simp: loop_start_def entry_def)
    then show ?thesis
      by (auto simp: loop_ok_def at_ok_def stale_def view_at view_ok_def)
  qed
  show "lc_AllowUncertainRetry cfg \<or> loop_ok cfg ident t \<and> \<not> stale ident t"
    if "fresh_step cfg ident s t" "lc_AllowUncertainRetry cfg \<or> loop_ok cfg ident s \<and> \<not> stale ident s" for s t
    using that fresh_step_ok by (auto elim: fresh_step.cases)
qed

lemma Remove_view:
  assumes "view ident r = Some (st, res, tok)"
  shows "ValidateTransition st outcome \<Longrightarrow> lookup (snd (Remove ident outcome None now r)) ident = None"
    "\<not> ValidateTransition st outcome \<Longrightarrow> snd (Remove ident outcome err now r) = r"
  using assms by (auto simp: view_lookup Remove_def finish_removal_def)

lemma exit_view:
  assumes "view ident r = Some (st, res, tok)"
  shows "ValidateTransition st (final_outcome res outcome gone deadline) \<Longrightarrow>
       lookup (exit_request ident outcome gone deadline err1 None now r) ident = None"
    "\<not> ValidateTransition st (final_outcome res outcome gone deadline) \<Longrightarrow>
       view ident (exit_request ident outcome gone deadline err1 err2 now r) = Some (st, res, tok)"
proof -
  define r1 where "r1 = (if res \<noteq> ''confirm_success'' \<and> res \<noteq> ''abandon'' \<and> outcome \<noteq> StateSuccessful \<and>
                   outcome \<noteq> StateRejected \<and> gone then RecordEvent ident err1 now r else r)"
  have v: "view ident (on_request ident call_cancel r1) = Some (st, res, tok)"
    using assms by (simp add: r1_def view_on_request views)
  have eq: "exit_request ident outcome gone deadline err1 e now r =
      snd (Remove ident (final_outcome res outcome gone deadline) e now (on_request ident call_cancel r1))" for e
    using view_resolution [OF assms] by (simp add: exit_request_def Let_def r1_def)
  show "ValidateTransition st (final_outcome res outcome gone deadline) \<Longrightarrow>
       lookup (exit_request ident outcome gone deadline err1 None now r) ident = None"
    using Remove_view(1) [OF v] by (simp add: eq)
  show "\<not> ValidateTransition st (final_outcome res outcome gone deadline) \<Longrightarrow>
       view ident (exit_request ident outcome gone deadline err1 err2 now r) = Some (st, res, tok)"
    using Remove_view(2) [OF v] v by (simp add: eq)
qed

lemma exit_valid:
  assumes "view_ok (L_exit outcome canceled) b (st, res, tok)" "outcome = StateRejected \<longrightarrow> st \<noteq> StateWaiting"
  shows "ValidateTransition st (final_outcome res outcome (gone \<or> canceled) deadline)"
proof (cases "res = ''confirm_success'' \<or> res = ''abandon''")
  case True
  with assms(1) have "st = StateUncertain" by (auto simp: view_ok_def)
  with True show ?thesis by (auto simp: final_outcome_def ValidateTransition_def)
next
  case False
  then have o': "final_outcome res outcome (gone \<or> canceled) deadline =
      (if outcome \<noteq> StateSuccessful \<and> outcome \<noteq> StateRejected \<and> (gone \<or> canceled)
       then (if deadline then StateExpired else StateCanceled) else outcome)"
    by (simp add: final_outcome_def)
  have "pc_state (L_exit outcome canceled) st" using assms(1) by (simp add: view_ok_def)
  then consider "outcome = StateRejected" "st = StateQueued" | "outcome = StateSuccessful" "st = StateCompleted"
    | "outcome \<in> {StateFailed, StateExpired}" "st \<in> {StateForwarding, StateBuffering, StateDelivering, StateUncertain, StateWaiting}"
    | "outcome \<in> {StateFailed, StateExpired}" "canceled" "st = StateQueued"
    using assms(2) by auto
  then show ?thesis
    unfolding o' by cases (auto simp: ValidateTransition_def)
qed

section \<open>Properties\<close>


section \<open>Runs\<close>

definition default_cfg :: lifecycle_cfg where
  "default_cfg = \<lparr>lc_TrackUncertainDelivery = True, lc_AllowUncertainRetry = False\<rparr>"

definition answered :: attempt_result where
  "answered = \<lparr>ar_response = True, ar_wroteRequest = True, ar_permanent = False\<rparr>"

definition unanswered :: attempt_result where
  "unanswered = \<lparr>ar_response = False, ar_wroteRequest = True, ar_permanent = False\<rparr>"

definition first_state :: loop where
  "first_state = \<lparr>lp_registry = sample_added, lp_pc = L_acquire, lp_result = answered, lp_manual = False, lp_unresolved = False\<rparr>"

definition calm :: await_env where
  "calm = \<lparr>ae_elapsed = False, ae_over = False, ae_retryable = True, ae_maxAttempts = 0, ae_now = 20, ae_err = None, ae_err2 = None,
     ae_delay = 5, ae_reason = no_message\<rparr>"

text \<open>The first attempt gets an error from the upstream, and the request waits for its timer.\<close>

definition waiting_state :: loop where
  "waiting_state = await_retry default_cfg ''r1'' 1 calm (attempt_failed default_cfg ''r1'' 1 answered no_message None None False 18
     (start_attempt ''r1'' 1 None 15 (first_state\<lparr>lp_pc := L_control 1\<rparr>)))"

lemma sample_start: "loop_start ''r1'' first_state"
  by (simp add: loop_start_def first_state_def entry_def sample_added_def AddWithIdentityChecked_def new_request_def)

lemma waiting_view: "view ''r1'' (lp_registry waiting_state) = Some (StateWaiting, [], False)" "lp_pc waiting_state = L_timer 1"
  by code_simp+


lemma waiting_steps: "(fresh_step default_cfg ''r1'')\<^sup>*\<^sup>* first_state waiting_state"
proof -
  let ?s1 = "first_state\<lparr>lp_pc := L_control 1\<rparr>"
  let ?s2 = "start_attempt ''r1'' 1 None 15 ?s1"
  let ?s3 = "attempt_failed default_cfg ''r1'' 1 answered no_message None None False 18 ?s2"
  have pcs: "lp_pc first_state = L_acquire" "lp_pc ?s1 = L_control 1" "lp_pc ?s2 = L_attempt 1" "lp_pc ?s3 = L_await 1"
    by code_simp+
  have fresh: "\<not> stale ''r1'' ?s1" "\<not> stale ''r1'' ?s2" "\<not> stale ''r1'' ?s3" "\<not> stale ''r1'' waiting_state"
    by code_simp+
  have "fresh_step default_cfg ''r1'' first_state ?s1" "fresh_step default_cfg ''r1'' ?s1 ?s2"
    "fresh_step default_cfg ''r1'' ?s2 ?s3" "fresh_step default_cfg ''r1'' ?s3 waiting_state"
    unfolding waiting_state_def [symmetric]
    by (rule fresh_step.fresh [OF loop_step.acquired [OF pcs(1)] fresh(1)],
        rule fresh_step.fresh [OF loop_step.attempt [OF pcs(2)] fresh(2)],
        rule fresh_step.fresh [OF loop_step.failed [OF pcs(3)] fresh(3)])
       (use fresh_step.fresh [OF loop_step.await [OF pcs(4), of default_cfg "''r1''" calm], folded waiting_state_def] fresh(4) in blast)
  then show ?thesis by (meson converse_rtranclp_into_rtranclp rtranclp.rtrancl_refl)
qed


text \<open>
  Claim C35: a retry signal can outlive the wait it was meant to end. In this run the first
  attempt fails and its timer fires; while the request still shows as waiting, because the
  gateway is paused or its turn has not come, an operator asks for an immediate retry,
  which is accepted; the second attempt ends with an uncertain delivery, and the old signal
  wakes it: a third attempt starts although nobody resolved the uncertain delivery.
\<close>

theorem stale_signal_retries_uncertain:
  "\<exists>s. (loop_step default_cfg ''r1'')\<^sup>*\<^sup>* first_state s \<and> lp_unresolved s \<and> lp_pc s = L_attempt 3 \<and>
     \<not> lc_AllowUncertainRetry default_cfg \<and> UncertainResolution ''r1'' (lp_registry s) = []"
proof -
  let ?step = "loop_step default_cfg ''r1''"
  define s1 where "s1 = wait_over ''r1'' 1 None 26 (lp_registry waiting_state) waiting_state"
  define s2 where "s2 = s1\<lparr>lp_registry := RecordEvent ''r1'' None 27 (lp_registry s1), lp_pc := L_control 2\<rparr>"
  define s3 where "s3 = s2\<lparr>lp_registry := snd (RetryNowChecked ''r1'' None 28 (lp_registry s2))\<rparr>"
  define s4 where "s4 = start_attempt ''r1'' 2 None 30 s3"
  define s5 where "s5 = attempt_failed default_cfg ''r1'' 2 unanswered no_message None None False 35 s4"
  define s6 where "s6 = await_retry default_cfg ''r1'' 2 calm s5"
  define s7 where "s7 = manual_retry default_cfg ''r1'' 2 calm s6"
  define s8 where "s8 = wait_over ''r1'' 2 None 50 (lp_registry s7) s7"
  define s9 where "s9 = s8\<lparr>lp_registry := RecordEvent ''r1'' None 51 (lp_registry s8), lp_pc := L_control 3\<rparr>"
  define s10 where "s10 = start_attempt ''r1'' 3 None 52 s9"
  note defs = s1_def s2_def s3_def s4_def s5_def s6_def s7_def s8_def s9_def s10_def
  have pcs: "lp_pc waiting_state = L_timer 1" "lp_pc s1 = L_reacquire 1" "lp_pc s3 = L_control 2" "lp_pc s4 = L_attempt 2"
    "lp_pc s5 = L_await 2" "lp_pc s6 = L_manual 2" "has_token ''r1'' s6" "lp_pc s7 = L_timer 2" "lp_pc s8 = L_reacquire 2"
    "lp_pc s9 = L_control 3"
    unfolding defs by code_simp+
  have "?step waiting_state s1" unfolding s1_def by (rule loop_step.timer [OF pcs(1)])
  moreover have "?step s1 s2" unfolding s2_def using loop_step.reacquired [OF pcs(2), of _ _ None 27] by simp
  moreover have "?step s2 s3" unfolding s3_def by (intro loop_step.admin admin_step.retry)
  moreover have "?step s3 s4" unfolding s4_def by (rule loop_step.attempt [OF pcs(3)])
  moreover have "?step s4 s5" unfolding s5_def by (rule loop_step.failed [OF pcs(4)])
  moreover have "?step s5 s6" unfolding s6_def by (rule loop_step.await [OF pcs(5)])
  moreover have "?step s6 s7" unfolding s7_def by (rule loop_step.manual [OF pcs(6,7)])
  moreover have "?step s7 s8" unfolding s8_def by (rule loop_step.timer [OF pcs(8)])
  moreover have "?step s8 s9" unfolding s9_def using loop_step.reacquired [OF pcs(9), of _ _ None 51] by simp
  moreover have "?step s9 s10" unfolding s10_def by (rule loop_step.attempt [OF pcs(10)])
  moreover have "?step\<^sup>*\<^sup>* first_state waiting_state"
    using waiting_steps by (rule rtranclp_mono [THEN predicate2D, rotated]) (auto elim: fresh_step.cases)
  ultimately have "?step\<^sup>*\<^sup>* first_state s10"
    by (meson rtranclp.rtrancl_into_rtrancl)
  moreover have "lp_unresolved s10" "lp_pc s10 = L_attempt 3" "UncertainResolution ''r1'' (lp_registry s10) = []"
    unfolding defs by code_simp+
  moreover have "\<not> lc_AllowUncertainRetry default_cfg" by (simp add: default_cfg_def)
  ultimately show ?thesis by blast
qed

text \<open>
  Claim C37: a request whose retry finds the queue full is never taken out of the registry:
  its handler returns with the outcome \<open>rejected\<close>, to which a waiting request has no
  transition, so the removal is refused without an error, and the request stays listed as
  waiting although nothing serves it any more.
\<close>

theorem rejected_retry_stays_listed:
  assumes "(fresh_step cfg ident)\<^sup>*\<^sup>* s0 s" "loop_start ident s0" "\<not> lc_AllowUncertainRetry cfg" "lp_pc s = L_reacquire n"
  shows "\<exists>s'. (loop_step cfg ident)\<^sup>*\<^sup>* s s' \<and> lp_pc s' = L_done \<and>
     (\<exists>t. entry ident s' = Some t \<and> ti_State (tr_info t) = StateWaiting)"
proof -
  have ok: "loop_ok cfg ident s" using fresh_system.inv_reachable [OF assms(1,2)] assms(3) by blast
  then obtain res tok where v: "view ident (lp_registry s) = Some (StateWaiting, res, tok)" "res \<in> {[], ''request_compensation''}"
    using assms(4) by (auto simp: loop_ok_def at_ok_def view_ok_def)
  let ?s1 = "s\<lparr>lp_pc := L_exit StateRejected False\<rparr>"
  let ?s2 = "?s1\<lparr>lp_registry := exit_request ident StateRejected (False \<or> False) False None None 0 (lp_registry ?s1), lp_pc := L_done\<rparr>"
  have "final_outcome res StateRejected False False = StateRejected" using v(2) by (auto simp: final_outcome_def)
  then have "view ident (lp_registry ?s2) = Some (StateWaiting, res, tok)"
    using exit_view(2) [OF v(1), of StateRejected False False] by (simp add: ValidateTransition_def)
  moreover have "loop_step cfg ident s ?s1" using assms(4) by (rule loop_step.retry_rejected)
  moreover have "loop_step cfg ident ?s1 ?s2" by (rule loop_step.exit) simp
  ultimately show ?thesis
    by (intro exI [of _ ?s2]) (auto simp: view_lookup entry_def)
qed

theorem rejected_retry_stays_listed_witness:
  "\<exists>s' t. lp_pc s' = L_done \<and> entry ''r1'' s' = Some t \<and> ti_State (tr_info t) = StateWaiting"
proof -
  let ?s = "wait_over ''r1'' 1 None 26 (lp_registry waiting_state) waiting_state"
  have pc: "lp_pc ?s = L_reacquire 1" and fresh: "\<not> stale ''r1'' ?s" by code_simp+
  have "fresh_step default_cfg ''r1'' waiting_state ?s"
    by (rule fresh_step.fresh [OF loop_step.timer [OF waiting_view(2)] fresh])
  with waiting_steps have "(fresh_step default_cfg ''r1'')\<^sup>*\<^sup>* first_state ?s" by (rule rtranclp.rtrancl_into_rtrancl)
  from rejected_retry_stays_listed [OF this sample_start _ pc] show ?thesis by (auto simp: default_cfg_def)
qed

end
