(* ===== verification/SettingsFields.thy ===== *)
theory SettingsFields
  imports Prelude
begin

text \<open>
  The text fields of the settings: durations such as \<open>1m30s\<close>, byte sizes such as \<open>64MiB\<close>
  and comma-separated lists (web/src/views/SettingsView.tsx), and the capture timeout of
  web/src/views/CapturesView.tsx, which reads durations with the same pattern.

  Numbers are exact rationals. An amount is printed as a plain decimal with at most six
  places, which is how JavaScript prints the multiples of \<open>10 ^ -6\<close> below \<open>10 ^ 9\<close>.
\<close>

section \<open>The pattern of a number\<close>

definition is_digit :: "char \<Rightarrow> bool" where
  "is_digit c \<longleftrightarrow> digit_of c \<noteq> None"

definition digits_nat :: "string \<Rightarrow> nat" where
  "digits_nat s = (case digits_value 0 s of None \<Rightarrow> 0 | Some n \<Rightarrow> n)"

text \<open>
  \<open>\d+(?:\.\d+)?\<close> at the start of a string, with what follows. The match is the longest
  one: a shorter one would be followed by a digit or a point, which starts no unit.
\<close>

definition match_number :: "string \<Rightarrow> (rat \<times> string) option" where
  "match_number s =
     (let whole = takeWhile is_digit s; rest = dropWhile is_digit s in
      if whole = [] then None
      else case rest of
          [] \<Rightarrow> Some (of_nat (digits_nat whole), rest)
        | c # r \<Rightarrow>
            let places = takeWhile is_digit r
            in if c = CHR ''.'' \<and> places \<noteq> []
               then Some (of_nat (digits_nat whole) + of_nat (digits_nat places) / 10 ^ length places, dropWhile is_digit r)
               else Some (of_nat (digits_nat whole), rest))"

section \<open>Durations\<close>

datatype DurationUnit = Unit_ms | Unit_s | Unit_m | Unit_h

definition durationFactors :: "DurationUnit \<Rightarrow> rat" where
  "durationFactors u = (case u of Unit_ms \<Rightarrow> 1 / 1000 | Unit_s \<Rightarrow> 1 | Unit_m \<Rightarrow> 60 | Unit_h \<Rightarrow> 3600)"

definition unit_text :: "DurationUnit \<Rightarrow> string" where
  "unit_text u = (case u of Unit_ms \<Rightarrow> ''ms'' | Unit_s \<Rightarrow> ''s'' | Unit_m \<Rightarrow> ''m'' | Unit_h \<Rightarrow> ''h'')"

text \<open>\<open>(ms|h|m|s)\<close>, tried in this order.\<close>

definition match_unit :: "string \<Rightarrow> (DurationUnit \<times> string) option" where
  "match_unit s =
     (if prefix ''ms'' s then Some (Unit_ms, drop 2 s)
      else if prefix ''h'' s then Some (Unit_h, drop 1 s)
      else if prefix ''m'' s then Some (Unit_m, drop 1 s)
      else if prefix ''s'' s then Some (Unit_s, drop 1 s)
      else None)"

definition match_duration :: "string \<Rightarrow> (rat \<times> DurationUnit \<times> string) option" where
  "match_duration s =
     (case match_number s of
        None \<Rightarrow> None
      | Some (v, rest) \<Rightarrow> map_option (\<lambda>(u, r). (v, u, r)) (match_unit rest))"

lemma length_match_number:
  assumes "match_number s = Some (v, r)"
  shows "length r < length s"
proof -
  have split: "length s = length (takeWhile is_digit s) + length (dropWhile is_digit s)"
    by (metis length_append takeWhile_dropWhile_id)
  show ?thesis
  proof (cases "dropWhile is_digit s")
    case Nil
    have "r = []" "takeWhile is_digit s \<noteq> []"
      using assms unfolding match_number_def Let_def Nil by (auto split: if_splits)
    then show ?thesis using split by (cases s) auto
  next
    case (Cons c t)
    have "takeWhile is_digit s \<noteq> []" "r = c # t \<or> r = dropWhile is_digit t"
      using assms unfolding match_number_def Let_def Cons by (auto split: if_splits)
    then have "0 < length (takeWhile is_digit s)" "length r \<le> Suc (length t)"
      using length_dropWhile_le [of is_digit t] by auto
    moreover have "length s = length (takeWhile is_digit s) + Suc (length t)" using split Cons by simp
    ultimately show ?thesis by linarith
  qed
qed

lemma length_match_duration: "match_duration s = Some (v, u, r) \<Longrightarrow> length r < length s"
  by (auto simp: match_duration_def match_unit_def dest!: length_match_number split: option.splits if_splits)

text \<open>The matches of \<open>raw.matchAll(pattern)\<close> and how many characters they cover.\<close>

function scan_durations :: "string \<Rightarrow> (rat \<times> DurationUnit) list \<times> nat" where
  "scan_durations s =
     (case match_duration s of
        Some (v, u, r) \<Rightarrow> let (ps, n) = scan_durations r in ((v, u) # ps, length s - length r + n)
      | None \<Rightarrow> (case s of [] \<Rightarrow> ([], 0) | _ # t \<Rightarrow> scan_durations t))"
  by pat_completeness auto
termination
  by (relation "measure length") (auto dest: length_match_duration)

declare scan_durations.simps [simp del]

definition durationSeconds :: "string \<Rightarrow> rat" where
  "durationSeconds raw =
     (let (ps, matched) = scan_durations raw
      in if matched = length raw then sum_list (map (\<lambda>(v, u). v * durationFactors u) ps) else 0)"

text \<open>\<open>x % k === 0\<close> for \<open>x \<ge> 0\<close>.\<close>

definition whole_multiple :: "rat \<Rightarrow> rat \<Rightarrow> bool" where
  "whole_multiple x k \<longleftrightarrow> x = of_int \<lfloor>x / k\<rfloor> * k"

definition durationParts :: "string \<Rightarrow> rat \<times> DurationUnit" where
  "durationParts raw =
     (let seconds = durationSeconds raw in
      if 3600 \<le> seconds \<and> whole_multiple seconds 3600 then (seconds / 3600, Unit_h)
      else if 60 \<le> seconds \<and> whole_multiple seconds 60 then (seconds / 60, Unit_m)
      else if 1 \<le> seconds then (seconds, Unit_s)
      else (seconds * 1000, Unit_ms))"

text \<open>Printing an amount.\<close>

fun frac_digits :: "nat \<Rightarrow> rat \<Rightarrow> nat list" where
  "frac_digits 0 x = []"
| "frac_digits (Suc n) x = (if x = 0 then [] else nat \<lfloor>10 * x\<rfloor> # frac_digits n (10 * x - of_int \<lfloor>10 * x\<rfloor>))"

definition show_decimal :: "rat \<Rightarrow> string" where
  "show_decimal x =
     nat_string (nat \<lfloor>x\<rfloor>) @
     (case frac_digits 6 (x - of_int \<lfloor>x\<rfloor>) of [] \<Rightarrow> [] | ds \<Rightarrow> CHR ''.'' # map digit_char ds)"

text \<open>\<open>update\<close> of \<open>DurationField\<close>.\<close>

definition duration_update :: "rat \<Rightarrow> DurationUnit \<Rightarrow> string" where
  "duration_update nextAmount nextUnit = show_decimal (max 0 nextAmount) @ unit_text nextUnit"

section \<open>Byte sizes\<close>

datatype ByteUnit = Unit_B | Unit_KiB | Unit_MiB | Unit_GiB

definition byte_units :: "ByteUnit list" where
  "byte_units = [Unit_B, Unit_KiB, Unit_MiB, Unit_GiB]"

definition byteFactors :: "ByteUnit \<Rightarrow> rat" where
  "byteFactors u = (case u of Unit_B \<Rightarrow> 1 | Unit_KiB \<Rightarrow> 2 ^ 10 | Unit_MiB \<Rightarrow> 2 ^ 20 | Unit_GiB \<Rightarrow> 2 ^ 30)"

definition byte_unit_text :: "ByteUnit \<Rightarrow> string" where
  "byte_unit_text u = (case u of Unit_B \<Rightarrow> ''B'' | Unit_KiB \<Rightarrow> ''KiB'' | Unit_MiB \<Rightarrow> ''MiB'' | Unit_GiB \<Rightarrow> ''GiB'')"

definition byteSize :: "string \<Rightarrow> rat option" where
  "byteSize raw =
     (case match_number (js_trim raw) of
        None \<Rightarrow> None
      | Some (v, rest) \<Rightarrow>
          map_option (\<lambda>u. v * byteFactors u) (find (\<lambda>u. js_lower (byte_unit_text u) = js_lower rest) byte_units))"

definition byteParts :: "string \<Rightarrow> rat \<times> ByteUnit" where
  "byteParts raw =
     (case byteSize raw of
        None \<Rightarrow> (0, Unit_MiB)
      | Some bytes \<Rightarrow>
          (case find (\<lambda>u. byteFactors u \<le> bytes \<and> whole_multiple bytes (byteFactors u)) (rev byte_units) of
             Some u \<Rightarrow> (bytes / byteFactors u, u)
           | None \<Rightarrow> (bytes, Unit_B)))"

definition byte_update :: "rat \<Rightarrow> ByteUnit \<Rightarrow> string" where
  "byte_update nextAmount nextUnit = show_decimal (max 0 nextAmount) @ byte_unit_text nextUnit"

section \<open>Comma-separated lists\<close>

definition comma_text :: "string list \<Rightarrow> string" where
  "comma_text xs = join_with '', '' xs"

definition comma_parse :: "string \<Rightarrow> string list" where
  "comma_parse s = filter (\<lambda>v. v \<noteq> []) (map js_trim (split_all CHR '','' s))"

section \<open>Capture timeout\<close>

definition minuteFactors :: "DurationUnit \<Rightarrow> rat" where
  "minuteFactors u = (case u of Unit_ms \<Rightarrow> 1 / 60000 | Unit_s \<Rightarrow> 1 / 60 | Unit_m \<Rightarrow> 1 | Unit_h \<Rightarrow> 60)"

definition durationMinutes :: "string \<Rightarrow> int" where
  "durationMinutes raw =
     (let (ps, matched) = scan_durations raw; minutes = sum_list (map (\<lambda>(v, u). v * minuteFactors u) ps)
      in if matched = length raw then min 60 (max 1 \<lceil>minutes\<rceil>) else 10)"

section \<open>Lemmas on numbers\<close>

lemma digit_char_digit [simp]: "d < 10 \<Longrightarrow> is_digit (digit_char d)"
  by (simp add: is_digit_def)

lemma nat_string_all_digits: "c \<in> set (nat_string n) \<Longrightarrow> is_digit c"
  using nat_string_digits by (simp add: is_digit_def)

lemma digits_nat_nat_string [simp]: "digits_nat (nat_string n) = n"
  by (simp add: digits_nat_def digits_value_nat_string)

definition frac_value :: "nat list \<Rightarrow> rat" where
  "frac_value ds = foldr (\<lambda>d v. (of_nat d + v) / 10) ds 0"

lemma frac_value_simps [simp]: "frac_value [] = 0" "frac_value (d # ds) = (of_nat d + frac_value ds) / 10"
  by (simp_all add: frac_value_def)

lemma digits_value_digits:
  "\<forall>d \<in> set ds. d < 10 \<Longrightarrow>
     \<exists>n. digits_value a (map digit_char ds) = Some n \<and> of_nat n / 10 ^ length ds = of_nat a + frac_value ds"
proof (induction ds arbitrary: a)
  case (Cons d ds)
  have "\<forall>d \<in> set ds. d < 10" using Cons.prems by simp
  from Cons.IH [OF this, of "10 * a + d"] obtain n
    where n: "digits_value (10 * a + d) (map digit_char ds) = Some n"
      "(of_nat n :: rat) / 10 ^ length ds = of_nat (10 * a + d) + frac_value ds" by blast
  have "(of_nat n :: rat) / 10 ^ length (d # ds) = (of_nat n / 10 ^ length ds) / 10" by simp
  also have "\<dots> = of_nat a + frac_value (d # ds)" unfolding n(2) by (simp add: field_simps)
  finally show ?case using n(1) Cons.prems by auto
qed simp

lemma digits_nat_digits:
  "\<forall>d \<in> set ds. d < 10 \<Longrightarrow> of_nat (digits_nat (map digit_char ds)) / 10 ^ length ds = frac_value ds"
  using digits_value_digits [of ds 0] by (auto simp: digits_nat_def)

lemma frac_digits_less: "0 \<le> x \<Longrightarrow> x < 1 \<Longrightarrow> \<forall>d \<in> set (frac_digits n x). d < 10"
proof (induction n x rule: frac_digits.induct)
  case (2 n x)
  let ?y = "10 * x - of_int \<lfloor>10 * x\<rfloor>"
  have y: "0 \<le> ?y" "?y < 1" by linarith+
  have "\<lfloor>10 * x\<rfloor> < 10" using 2(3) by (simp add: floor_less_iff)
  then have "nat \<lfloor>10 * x\<rfloor> < 10" by linarith
  moreover have "\<forall>d \<in> set (frac_digits n ?y). d < 10" if "x \<noteq> 0" using 2(1) [OF that y] .
  ultimately show ?case by auto
qed simp

lemma frac_value_frac_digits:
  "0 \<le> x \<Longrightarrow> x < 1 \<Longrightarrow> x * 10 ^ n \<in> \<int> \<Longrightarrow> frac_value (frac_digits n x) = x"
proof (induction n x rule: frac_digits.induct)
  case (1 x)
  then obtain z where "x = of_int z" by (auto elim: Ints_cases)
  with 1 show ?case by simp
next
  case (2 n x)
  let ?y = "10 * x - of_int \<lfloor>10 * x\<rfloor>"
  have y: "0 \<le> ?y" "?y < 1" by linarith+
  have "?y * 10 ^ n = x * 10 ^ Suc n - of_int (\<lfloor>10 * x\<rfloor> * 10 ^ n)" by (simp add: algebra_simps)
  then have "?y * 10 ^ n \<in> \<int>" using 2(4) by (metis Ints_diff Ints_of_int)
  then have "frac_value (frac_digits n ?y) = ?y" if "x \<noteq> 0" using 2(1) [OF that y] by blast
  moreover have "0 \<le> \<lfloor>10 * x\<rfloor>" using 2(2) by simp
  ultimately show ?case by (simp add: of_nat_nat)
qed

text \<open>A printed amount is read back, in front of anything that is no digit and no point.\<close>

lemma match_show_decimal:
  assumes "0 \<le> x" "x * 10 ^ 6 \<in> \<int>" "u \<noteq> []" "\<not> is_digit (hd u)" "hd u \<noteq> CHR ''.''"
  shows "match_number (show_decimal x @ u) = Some (x, u)"
proof -
  let ?n = "nat \<lfloor>x\<rfloor>" and ?f = "x - of_int \<lfloor>x\<rfloor>"
  have n: "(of_nat ?n :: rat) = of_int \<lfloor>x\<rfloor>" using assms(1) by (simp add: of_nat_nat)
  have f: "0 \<le> ?f" "?f < 1" by linarith+
  have "?f * 10 ^ 6 = x * 10 ^ 6 - of_int (\<lfloor>x\<rfloor> * 10 ^ 6)" by (simp add: algebra_simps)
  then have "?f * 10 ^ 6 \<in> \<int>" using assms(2) by (metis Ints_diff Ints_of_int)
  then have val: "frac_value (frac_digits 6 ?f) = ?f" by (rule frac_value_frac_digits [OF f])
  have dig: "\<forall>d \<in> set (frac_digits 6 ?f). d < 10" by (rule frac_digits_less [OF f])
  have take: "takeWhile is_digit (a @ b # c) = a" "dropWhile is_digit (a @ b # c) = b # c"
    if "\<forall>c \<in> set a. is_digit c" "\<not> is_digit b" for a b c
    using that by (simp_all add: takeWhile_append2 dropWhile_append2)
  have point: "\<not> is_digit CHR ''.''" by (simp add: is_digit_def digit_of_def)
  obtain c t where u: "u = c # t" using assms(3) by (cases u) auto
  show ?thesis
  proof (cases "frac_digits 6 ?f")
    case Nil
    then have "x = of_int \<lfloor>x\<rfloor>" using val by simp
    then show ?thesis
      using Nil u assms(4,5) n take [of "nat_string ?n" c t] nat_string_all_digits
      by (auto simp: show_decimal_def match_number_def Let_def nat_string_not_Nil)
  next
    case (Cons d ds)
    let ?ds = "map digit_char (frac_digits 6 ?f)"
    have "of_nat ?n + of_nat (digits_nat ?ds) / 10 ^ length ?ds = x"
      using digits_nat_digits [OF dig] val n by simp
    moreover have "\<forall>c \<in> set ?ds. is_digit c" using dig by auto
    moreover have "show_decimal x @ u = nat_string ?n @ CHR ''.'' # ?ds @ u"
      using Cons by (simp add: show_decimal_def)
    ultimately show ?thesis
      using Cons u assms(4) take [of "nat_string ?n" "CHR ''.''" "?ds @ u"] take [of ?ds c t]
        nat_string_all_digits point
      by (auto simp: match_number_def Let_def nat_string_not_Nil)
  qed
qed

section \<open>Lemmas on the fields\<close>

lemma unit_text_head: "unit_text u \<noteq> []" "\<not> is_digit (hd (unit_text u))" "hd (unit_text u) \<noteq> CHR ''.''"
  by (cases u; simp add: unit_text_def is_digit_def digit_of_def)+

lemma byte_unit_text_head:
  "byte_unit_text u \<noteq> []" "\<not> is_digit (hd (byte_unit_text u))" "hd (byte_unit_text u) \<noteq> CHR ''.''"
  by (cases u; simp add: byte_unit_text_def is_digit_def digit_of_def)+

lemma match_unit_text [simp]: "match_unit (unit_text u) = Some (u, [])"
  by (cases u) (simp_all add: match_unit_def unit_text_def)

lemma scan_Nil [simp]: "scan_durations [] = ([], 0)"
  by (simp add: scan_durations.simps match_duration_def match_number_def)

lemma durationSeconds_update:
  assumes "a * 10 ^ 6 \<in> \<int>"
  shows "durationSeconds (duration_update a u) = max 0 a * durationFactors u"
proof -
  have "max 0 a * 10 ^ 6 \<in> \<int>" using assms by (auto simp: max_def)
  then have "match_number (duration_update a u) = Some (max 0 a, unit_text u)"
    unfolding duration_update_def by (intro match_show_decimal unit_text_head) simp
  then have "match_duration (duration_update a u) = Some (max 0 a, u, [])"
    by (simp add: match_duration_def)
  then have "scan_durations (duration_update a u) = ([(max 0 a, u)], length (duration_update a u))"
    by (subst scan_durations.simps) simp
  then show ?thesis by (simp add: durationSeconds_def)
qed

lemma match_number_nonneg: "match_number s = Some (v, r) \<Longrightarrow> 0 \<le> v"
  by (auto simp: match_number_def Let_def split: if_splits list.splits)

lemma scan_nonneg: "(v, u) \<in> set (fst (scan_durations s)) \<Longrightarrow> 0 \<le> v"
proof (induction s rule: scan_durations.induct)
  case (1 s)
  show ?case
  proof (cases "match_duration s")
    case None
    then show ?thesis
      using 1(3) 1(1) [OF None] by (cases s) (simp_all add: scan_durations.simps [of "_ # _"])
  next
    case (Some p)
    obtain w x r where p: "p = (w, x, r)" by (cases p)
    then have m: "match_duration s = Some (w, x, r)" using Some by simp
    then have "0 \<le> w" by (auto simp: match_duration_def dest: match_number_nonneg split: option.splits)
    then show ?thesis
      using 1(3) 1(2) [OF m refl refl] m
      by (auto simp: scan_durations.simps [of s] case_prod_unfold Let_def)
  qed
qed

lemma durationSeconds_nonneg: "0 \<le> durationSeconds raw"
proof -
  have "0 \<le> v * durationFactors u" if "(v, u) \<in> set (fst (scan_durations raw))" for v u
    using scan_nonneg [OF that] by (cases u) (simp_all add: durationFactors_def)
  then show ?thesis
    by (auto simp: durationSeconds_def case_prod_unfold Let_def intro!: sum_list_nonneg)
qed

lemma whole_multiple_Ints: "k \<noteq> 0 \<Longrightarrow> whole_multiple x k \<Longrightarrow> x / k \<in> \<int>"
  by (metis Ints_of_int nonzero_eq_divide_eq whole_multiple_def)

lemma Ints_scaled: "x \<in> \<int> \<Longrightarrow> x * 10 ^ n \<in> (\<int> :: rat set)"
  by (simp add: Ints_mult Ints_power)

lemma durationParts_exact:
  assumes "durationParts raw = (a, u)" "durationSeconds raw * 10 ^ 6 \<in> \<int>"
  shows "0 \<le> a" "a * durationFactors u = durationSeconds raw" "a * 10 ^ 6 \<in> \<int>"
proof -
  let ?s = "durationSeconds raw"
  have "?s * 1000 * 10 ^ 6 \<in> \<int>" using Ints_mult [OF assms(2), of 1000] by (simp add: algebra_simps)
  then show "a * 10 ^ 6 \<in> \<int>"
    using assms whole_multiple_Ints [of 3600 ?s] whole_multiple_Ints [of 60 ?s]
    by (auto simp: durationParts_def Let_def simp del: Ints_def intro: Ints_scaled split: if_splits)
  show "0 \<le> a" "a * durationFactors u = ?s"
    using assms(1) durationSeconds_nonneg [of raw]
    by (auto simp: durationParts_def Let_def durationFactors_def split: if_splits)
qed

lemma js_trim_id: "s \<noteq> [] \<Longrightarrow> \<not> is_space (hd s) \<Longrightarrow> \<not> is_space (last s) \<Longrightarrow> js_trim s = s"
proof -
  assume s: "s \<noteq> []" "\<not> is_space (hd s)" "\<not> is_space (last s)"
  have "dropWhile is_space t = t" if "t \<noteq> []" "\<not> is_space (hd t)" for t using that by (cases t) auto
  with s show "js_trim s = s" by (simp add: js_trim_def hd_rev)
qed

lemma show_decimal_head: "show_decimal x \<noteq> []" "is_digit (hd (show_decimal x))"
proof -
  have "nat_string n \<noteq> []" "is_digit (hd (nat_string n))" for n
    using nat_string_not_Nil nat_string_all_digits hd_in_set by blast+
  then show "show_decimal x \<noteq> []" "is_digit (hd (show_decimal x))" by (simp_all add: show_decimal_def)
qed

lemma digit_not_space: "is_digit c \<Longrightarrow> \<not> is_space c"
  by (auto simp: is_digit_def is_space_def digit_of_def Let_def)

lemma byte_text_last: "\<not> is_space (last (byte_unit_text u))"
  by (cases u) (simp_all add: byte_unit_text_def is_space_def)

lemma find_byte_unit: "find (\<lambda>w. js_lower (byte_unit_text w) = js_lower (byte_unit_text u)) byte_units = Some u"
  by (cases u) (simp_all add: byte_units_def byte_unit_text_def js_lower_def lower_char_def)

lemma byteSize_update:
  assumes "a * 10 ^ 6 \<in> \<int>"
  shows "byteSize (byte_update a u) = Some (max 0 a * byteFactors u)"
proof -
  have "max 0 a * 10 ^ 6 \<in> \<int>" using assms by (auto simp: max_def)
  then have "match_number (byte_update a u) = Some (max 0 a, byte_unit_text u)"
    unfolding byte_update_def by (intro match_show_decimal byte_unit_text_head) simp
  moreover have "js_trim (byte_update a u) = byte_update a u"
    using show_decimal_head [of "max 0 a"] byte_unit_text_head(1) [of u] byte_text_last [of u] digit_not_space
    by (intro js_trim_id) (auto simp: byte_update_def)
  ultimately show ?thesis by (simp add: byteSize_def find_byte_unit)
qed

lemma byteSize_nonneg: "byteSize raw = Some b \<Longrightarrow> 0 \<le> b"
proof -
  have "0 \<le> byteFactors u" for u by (cases u) (simp_all add: byteFactors_def)
  then show "byteSize raw = Some b \<Longrightarrow> 0 \<le> b"
    by (auto simp: byteSize_def dest: match_number_nonneg split: option.splits)
qed

lemma byteParts_exact:
  assumes "byteParts raw = (a, u)" "byteSize raw = Some b" "b * 10 ^ 6 \<in> \<int>"
  shows "0 \<le> a" "a * byteFactors u = b" "a * 10 ^ 6 \<in> \<int>"
proof -
  have pos: "0 < byteFactors w" for w by (cases w) (simp_all add: byteFactors_def)
  note b = byteSize_nonneg [OF assms(2)]
  have "0 \<le> a \<and> a * byteFactors u = b \<and> a * 10 ^ 6 \<in> \<int>"
  proof (cases "find (\<lambda>u. byteFactors u \<le> b \<and> whole_multiple b (byteFactors u)) (rev byte_units)")
    case None
    then show ?thesis using assms b by (auto simp: byteParts_def byteFactors_def)
  next
    case (Some w)
    then have "whole_multiple b (byteFactors w)" by (auto simp: find_Some_iff)
    then have "b / byteFactors w \<in> \<int>" using pos [of w] by (intro whole_multiple_Ints) simp
    from Ints_scaled [OF this, of 6] show ?thesis
      using assms(1,2) Some b pos [of w] by (auto simp: byteParts_def)
  qed
  then show "0 \<le> a" "a * byteFactors u = b" "a * 10 ^ 6 \<in> \<int>" by blast+
qed

lemma durationMinutes_seconds:
  "durationMinutes raw =
     (if snd (scan_durations raw) = length raw then min 60 (max 1 \<lceil>durationSeconds raw / 60\<rceil>) else 10)"
proof -
  have m: "minuteFactors u = durationFactors u / 60" for u
    by (cases u) (simp_all add: minuteFactors_def durationFactors_def)
  have sums: "sum_list (map (\<lambda>(v, u). v * minuteFactors u) ps) = sum_list (map (\<lambda>(v, u). v * durationFactors u) ps) / 60" for ps
    by (induction ps) (simp_all add: m add_divide_distrib case_prod_unfold)
  show ?thesis by (cases "scan_durations raw") (simp add: durationMinutes_def durationSeconds_def sums)
qed

lemma join_comma_split:
  "\<forall>x \<in> set xs. CHR '','' \<notin> set x \<Longrightarrow> CHR '','' \<notin> set tail \<Longrightarrow>
     split_all CHR '','' (join_with '', '' (x # xs) @ CHR '','' # tail) =
       split_all CHR '','' (join_with '', '' (x # xs)) @ [tail]" if "CHR '','' \<notin> set x"
  using that
proof (induction xs arbitrary: x)
  case Nil
  then show ?case by (simp add: split_all_append split_all_absent)
next
  case (Cons y ys)
  have split: "split_all CHR '','' (x @ '', '' @ r) = x # split_all CHR '','' ('' '' @ r)" for r
    using split_all_append [OF Cons.prems(3), of "'' '' @ r"] by simp
  have space: "split_all c (CHR '' '' # r @ t) = (CHR '' '' # hd (split_all c (r @ t))) # tl (split_all c (r @ t))"
    if "c \<noteq> CHR '' ''" for c r t using that by (auto split: list.splits)
  show ?case
    using split [of "join_with '', '' (y # ys) @ CHR '','' # tail"] split [of "join_with '', '' (y # ys)"]
      space [of "CHR '',''" "join_with '', '' (y # ys)" "CHR '','' # tail"]
      space [of "CHR '',''" "join_with '', '' (y # ys)" "[]"] Cons.IH [of y] Cons.prems
    by (auto split: list.splits)
qed

definition list_entry :: "string \<Rightarrow> bool" where
  "list_entry x \<longleftrightarrow> x \<noteq> [] \<and> CHR '','' \<notin> set x \<and> js_trim x = x"

lemma js_trim_space: "js_trim (CHR '' '' # x) = js_trim x"
  by (simp add: js_trim_def is_space_def)

lemma comma_parse_text:
  assumes "\<forall>x \<in> set xs. list_entry x"
  shows "comma_parse (comma_text xs) = xs"
  using assms
proof (induction xs rule: induct_list012)
  case 1
  then show ?case by (simp add: comma_parse_def comma_text_def js_trim_def)
next
  case (2 x)
  then show ?case by (simp add: comma_parse_def comma_text_def list_entry_def split_all_absent)
next
  case (3 x y ys)
  let ?r = "join_with '', '' (y # ys)"
  have x: "CHR '','' \<notin> set x" "x \<noteq> []" "js_trim x = x" using 3(3) by (simp_all add: list_entry_def)
  obtain p ps where p: "split_all CHR '','' ?r = p # ps" by (cases "split_all CHR '','' ?r") auto
  have "split_all CHR '','' (x @ '', '' @ ?r) = x # (CHR '' '' # p) # ps"
    using split_all_append [OF x(1), of "'' '' @ ?r"] p by simp
  moreover have "comma_parse ?r = y # ys" using 3 by (simp add: comma_text_def)
  ultimately show ?case using x p by (simp add: comma_parse_def comma_text_def js_trim_space split: if_splits)
qed

text \<open>A comma typed at the end of a list field changes nothing, so it disappears as it is typed.\<close>

lemma comma_swallowed:
  assumes "\<forall>x \<in> set xs. list_entry x"
  shows "comma_text (comma_parse (comma_text xs @ '','')) = comma_text xs"
proof (cases xs)
  case Nil
  then show ?thesis by (simp add: comma_parse_def comma_text_def js_trim_def)
next
  case (Cons x ys)
  have "comma_parse (comma_text xs @ '','') = comma_parse (comma_text xs)"
    using join_comma_split [of x ys "[]"] assms Cons
    by (simp add: comma_parse_def comma_text_def list_entry_def js_trim_def)
  then show ?thesis using comma_parse_text [OF assms] by simp
qed

section \<open>Properties\<close>



end
