(* ===== verification/Repeat.thy ===== *)
theory Repeat
  imports ConfigEditing SettingsFields
begin

text \<open>
  Repeating a request: the form of web/src/components/RepeatTaskDialog.tsx and the list of
  web/src/components/RepeatTasksPanel.tsx. The constraints of the form's number fields
  (\<open>min\<close>, \<open>max\<close>, \<open>required\<close>, whole steps) are checked by the browser before it submits a form.
\<close>

section \<open>The form\<close>

record repeat_form =
  rf_interval :: string
  rf_duration :: string
  rf_idempotency :: RepeatTask_idempotency
  rf_forever :: bool
  rf_maxExecutions :: rat
  rf_maxFailures :: rat
  rf_failureThreshold :: rat
  rf_maxTokens :: rat
  rf_busy :: bool

definition new_repeat :: repeat_form where
  "new_repeat = \<lparr>rf_interval = ''60s'', rf_duration = ''1h'', rf_idempotency = RepeatTask_idempotency_Preserve, rf_forever = False,
     rf_maxExecutions = 100, rf_maxFailures = 20, rf_failureThreshold = 5, rf_maxTokens = 100000, rf_busy = False\<rparr>"

definition repeat_intervals :: "string list" where
  "repeat_intervals = [''5s'', ''15s'', ''30s'', ''60s'', ''5m'', ''15m'']"

definition repeat_durations :: "string list" where
  "repeat_durations = [''5m'', ''15m'', ''30m'', ''1h'', ''6h'', ''24h'']"

definition whole_between :: "rat \<Rightarrow> rat \<Rightarrow> rat \<Rightarrow> bool" where
  "whole_between low high x \<longleftrightarrow> low \<le> x \<and> x \<le> high \<and> x = of_int \<lfloor>x\<rfloor>"

definition form_valid :: "repeat_form \<Rightarrow> bool" where
  "form_valid f \<longleftrightarrow> whole_between 1 100000 (rf_maxExecutions f) \<and> whole_between 1 100000 (rf_maxFailures f) \<and>
     whole_between 1 (rf_maxFailures f) (rf_failureThreshold f) \<and> whole_between 1 1000000000000 (rf_maxTokens f)"

definition idempotency_text :: "RepeatTask_idempotency \<Rightarrow> string" where
  "idempotency_text i = (case i of RepeatTask_idempotency_Preserve \<Rightarrow> ''preserve'' | RepeatTask_idempotency_Regenerate \<Rightarrow> ''regenerate'')"

definition repeat_input :: "repeat_form \<Rightarrow> json_object" where
  "repeat_input f =
     [(''interval'', JStr (rf_interval f)), (''duration'', JStr (if rf_forever f then [] else rf_duration f)),
      (''idempotency'', JStr (idempotency_text (rf_idempotency f))), (''confirmForever'', JBool (rf_forever f)),
      (''maxExecutions'', JNum (rf_maxExecutions f)), (''maxFailures'', JNum (rf_maxFailures f)),
      (''failureThreshold'', JNum (rf_failureThreshold f)), (''maxTokens'', JNum (rf_maxTokens f))]"

definition repeat_dialog :: "translate \<Rightarrow> repeat_form \<Rightarrow> ConfirmDialogState" where
  "repeat_dialog tr f =
     \<lparr>cd_title = tr ''requests:repeat.confirmTitle'' [], cd_description = tr ''requests:repeat.confirmDescription'' [],
      cd_confirmLabel = Some (tr ''requests:repeat.confirmAction'' []),
      cd_tone = Some (if rf_forever f \<or> rf_idempotency f = RepeatTask_idempotency_Regenerate then Tone_danger else Tone_default)\<rparr>"

datatype repeat_effect = Rep_call api_call | Rep_refresh | Rep_success string | Rep_error js_error | Rep_close

text \<open>\<open>submit\<close>, fired by the browser on a valid form: the effects with the answer of the confirmation and of the call.\<close>

definition submit_repeat :: "translate \<Rightarrow> string \<Rightarrow> bool \<Rightarrow> unit js_result \<Rightarrow> unit js_result \<Rightarrow> repeat_form \<Rightarrow> repeat_form \<times> repeat_effect list" where
  "submit_repeat tr requestId accepted answer refreshed f =
     (if \<not> form_valid f \<or> rf_busy f \<or> \<not> accepted then (f, [])
      else (f\<lparr>rf_busy := False\<rparr>,
        Rep_call (api_createRepeatTask requestId (JObj (repeat_input f))) #
        (case answer of
           Inl e \<Rightarrow> [Rep_error e]
         | Inr _ \<Rightarrow> Rep_refresh # (case refreshed of
             Inl e \<Rightarrow> [Rep_error e] | Inr _ \<Rightarrow> [Rep_success (tr ''requests:repeat.taskCreated'' []), Rep_close]))))"

inductive form_step :: "repeat_form \<Rightarrow> repeat_form \<Rightarrow> bool" where
  interval: "v \<in> set repeat_intervals \<Longrightarrow> form_step f (f\<lparr>rf_interval := v\<rparr>)"
| duration: "v \<in> set repeat_durations \<Longrightarrow> \<not> rf_forever f \<Longrightarrow> form_step f (f\<lparr>rf_duration := v\<rparr>)"
| idempotency: "form_step f (f\<lparr>rf_idempotency := i\<rparr>)"
| forever: "form_step f (f\<lparr>rf_forever := b\<rparr>)"
| executions: "form_step f (f\<lparr>rf_maxExecutions := x\<rparr>)"
| failures: "form_step f (f\<lparr>rf_maxFailures := x\<rparr>)"
| threshold: "form_step f (f\<lparr>rf_failureThreshold := x\<rparr>)"
| tokens: "form_step f (f\<lparr>rf_maxTokens := x\<rparr>)"

definition form_ok :: "repeat_form \<Rightarrow> bool" where
  "form_ok f \<longleftrightarrow> rf_interval f \<in> set repeat_intervals \<and> rf_duration f \<in> set repeat_durations"

interpretation form_system: step_system form_step "\<lambda>f. f = new_repeat" form_ok
proof unfold_locales
  show "form_ok s" if "s = new_repeat" for s
    using that by (simp add: form_ok_def new_repeat_def repeat_intervals_def repeat_durations_def)
  show "form_ok t" if "form_step s t" "form_ok s" for s t
    using that by (induction rule: form_step.induct) (simp_all add: form_ok_def)
qed

section \<open>The list of tasks\<close>

definition live_task :: "RepeatTask \<Rightarrow> bool" where
  "live_task task \<longleftrightarrow> rtask_state task = RepeatTaskState_Running \<or> rtask_state task = RepeatTaskState_Paused"

definition activeTasks :: "RepeatTask list \<Rightarrow> RepeatTask list" where
  "activeTasks tasks = filter live_task tasks"

definition endedTasks :: "RepeatTask list \<Rightarrow> RepeatTask list" where
  "endedTasks tasks =
     filter (\<lambda>t. rtask_state t \<noteq> RepeatTaskState_Running \<and> rtask_state t \<noteq> RepeatTaskState_Paused) tasks"

text \<open>The buttons of a row, each with the call it makes.\<close>

definition task_calls :: "bool \<Rightarrow> RepeatTask \<Rightarrow> api_call list" where
  "task_calls canOperate task =
     (if canOperate \<and> rtask_state task = RepeatTaskState_Running then [api_repeatTaskAction (rtask_id task) Repeat_Pause] else []) @
     (if canOperate \<and> rtask_state task = RepeatTaskState_Paused then [api_repeatTaskAction (rtask_id task) Repeat_Resume] else []) @
     (if canOperate \<and> live_task task then [api_repeatTaskAction (rtask_id task) Repeat_Run] else []) @
     (if canOperate \<and> live_task task then [api_stopRepeatTask (rtask_id task)] else [])"

definition act_effects :: "api_call \<Rightarrow> unit js_result \<Rightarrow> unit js_result \<Rightarrow> repeat_effect list" where
  "act_effects call answer refreshed =
     Rep_call call #
     (case answer of Inl e \<Rightarrow> [Rep_error e]
      | Inr _ \<Rightarrow> Rep_refresh # (case refreshed of Inl e \<Rightarrow> [Rep_error e] | Inr _ \<Rightarrow> []))"

lemma tasks_partition:
  "set (activeTasks tasks) \<union> set (endedTasks tasks) = set tasks" "set (activeTasks tasks) \<inter> set (endedTasks tasks) = {}"
  "t \<in> set (endedTasks tasks) \<Longrightarrow> task_calls canOperate t = []" "task_calls False t = []"
  by (auto simp: activeTasks_def endedTasks_def live_task_def task_calls_def)

lemma option_seconds:
  "i \<in> set repeat_intervals \<Longrightarrow> 5 \<le> durationSeconds i \<and> durationSeconds i \<le> 900"
  "d \<in> set repeat_durations \<Longrightarrow> 300 \<le> durationSeconds d \<and> durationSeconds d \<le> 86400"
proof -
  have "list_all (\<lambda>i. 5 \<le> durationSeconds i \<and> durationSeconds i \<le> 900) repeat_intervals" by code_simp
  then show "i \<in> set repeat_intervals \<Longrightarrow> 5 \<le> durationSeconds i \<and> durationSeconds i \<le> 900" by (simp add: list_all_iff)
  have "list_all (\<lambda>d. 300 \<le> durationSeconds d \<and> durationSeconds d \<le> 86400) repeat_durations" by code_simp
  then show "d \<in> set repeat_durations \<Longrightarrow> 300 \<le> durationSeconds d \<and> durationSeconds d \<le> 86400" by (simp add: list_all_iff)
qed

section \<open>Properties\<close>

text \<open>
  A repeat task that the dialog creates is bounded, however the form was filled in.
  A call is sent only after a confirmation; it repeats at most every five seconds and at
  least every quarter of an hour; it ends within a day unless it is expressly unending, and
  then the confirmation was marked as dangerous; and its limits are whole numbers in range,
  with the failure threshold within the number of failures.
\<close>

theorem repeat_task_bounded:
  assumes "form_step\<^sup>*\<^sup>* new_repeat f" "Rep_call c \<in> set (snd (submit_repeat tr rid accepted answer refreshed f))"
  shows "accepted \<and> c = api_createRepeatTask rid (JObj (repeat_input f)) \<and>
     5 \<le> durationSeconds (rf_interval f) \<and> durationSeconds (rf_interval f) \<le> 900 \<and>
     (if rf_forever f then cd_tone (repeat_dialog tr f) = Some Tone_danger \<and> prop_of (repeat_input f) ''duration'' = Some (JStr [])
      else prop_of (repeat_input f) ''duration'' = Some (JStr (rf_duration f)) \<and> durationSeconds (rf_duration f) \<le> 86400) \<and>
     whole_between 1 100000 (rf_maxExecutions f) \<and> whole_between 1 (rf_maxFailures f) (rf_failureThreshold f) \<and>
     rf_maxFailures f \<le> 100000"
proof -
  have "form_ok f" using form_system.inv_reachable [OF assms(1)] by blast
  then have opts: "rf_interval f \<in> set repeat_intervals" "rf_duration f \<in> set repeat_durations" by (simp_all add: form_ok_def)
  have sent: "accepted" "form_valid f" "c = api_createRepeatTask rid (JObj (repeat_input f))"
    using assms(2) by (auto simp: submit_repeat_def split: if_splits sum.splits)
  from sent show ?thesis
    using option_seconds(1) [OF opts(1)] option_seconds(2) [OF opts(2)]
    by (simp add: form_valid_def repeat_dialog_def repeat_input_def prop_of_def) (simp add: whole_between_def)
qed

theorem repeat_task_bounded_witness:
  "5 \<le> durationSeconds (rf_interval new_repeat) \<and> whole_between 1 (rf_maxFailures new_repeat) (rf_failureThreshold new_repeat)"
proof -
  have valid: "form_valid new_repeat" by (simp add: form_valid_def new_repeat_def whole_between_def)
  have "Rep_call (api_createRepeatTask ''r1'' (JObj (repeat_input new_repeat))) \<in>
      set (snd (submit_repeat (\<lambda>k a. k) ''r1'' True (Inr ()) (Inr ()) new_repeat))"
    using valid by (simp add: submit_repeat_def new_repeat_def)
  from repeat_task_bounded [OF rtranclp.rtrancl_refl this] show ?thesis by simp
qed

end
