(* ===== verification/RepeatServer.thy ===== *)
theory RepeatServer
  imports Repeat RetryServer
begin

text \<open>
  Repeat tasks on the gateway (internal/repeat/manager.go, helpers.go) and their creation
  through the admin API (internal/admin/repeat_api.go). Each task is served by a goroutine,
  which \<open>rt_pc\<close> follows through the loop of \<open>run\<close>; its wake-up channel of capacity one and its
  context are flags. The clock, identifiers, the outcome \<open>err\<close> of each write to the journal
  and what an execution yields are arguments. The ghost \<open>rt_performed\<close> counts the
  executions that were started. The error that a failed write leaves behind for the health
  report is not kept.
\<close>

section \<open>State\<close>

datatype repeat_state = RepRunning | RepPaused | RepStopped | RepExpired | RepInterrupted

definition terminal :: "repeat_state \<Rightarrow> bool" where
  "terminal s \<longleftrightarrow> s = RepStopped \<or> s = RepExpired \<or> s = RepInterrupted"

record CreateInput =
  ci_Interval :: int
  ci_Duration :: int
  ci_Idempotency :: string
  ci_ConfirmForever :: bool
  ci_MaxExecutions :: int
  ci_MaxFailures :: int
  ci_FailureThreshold :: int
  ci_MaxTokens :: int

record Execution =
  ex_ID :: string
  ex_Success :: bool
  ex_StatusCode :: int
  ex_ErrorCode :: string
  ex_Completed :: time
  ex_DurationMilliseconds :: int
  ex_UsageTokens :: int
  ex_UsageAvailable :: bool

record ExecutionAudit =
  ea_ID :: string
  ea_StartedAt :: time
  ea_Completed :: time
  ea_Success :: bool
  ea_StatusCode :: int
  ea_ErrorCode :: string
  ea_DurationMilliseconds :: int
  ea_UsageTokens :: int
  ea_UsageAvailable :: bool

record Task =
  tk_ID :: string
  tk_SourceRequestID :: string
  tk_Method :: string
  tk_Path :: string
  tk_State :: repeat_state
  tk_Idempotency :: string
  tk_IntervalMilliseconds :: int
  tk_DurationMilliseconds :: int
  tk_StartedAt :: time
  tk_Deadline :: time
  tk_NextRunAt :: time
  tk_LastRunAt :: time
  tk_StoppedAt :: time
  tk_Executions :: int
  tk_Successes :: int
  tk_Failures :: int
  tk_LastOutcome :: string
  tk_LastStatusCode :: int
  tk_LastErrorCode :: string
  tk_LastExecutionID :: string
  tk_InFlight :: bool
  tk_MaxExecutions :: int
  tk_MaxFailures :: int
  tk_FailureThreshold :: int
  tk_ConsecutiveFailures :: int
  tk_CircuitOpen :: bool
  tk_StopReason :: string
  tk_MaxTokens :: int
  tk_TokensUsed :: int
  tk_LastUsageTokens :: int
  tk_TokenUsageMissing :: bool
  tk_ExecutionAudit :: "ExecutionAudit list"

datatype run_pc = R_next | R_wait | R_begin | R_exec | R_dead

record runtimeTask =
  rt_task :: Task
  rt_canceled :: bool
  rt_wake :: bool
  rt_pc :: run_pc
  rt_performed :: int

text \<open>The method and the sanitized path of a registered source; the rest of the template is not inspected.\<close>

record Manager =
  mg_sources :: "string \<rightharpoonup> string \<times> string"
  mg_tasks :: "(string \<times> runtimeTask) list"
  mg_closed :: bool

datatype repeat_error = ErrSourceNotFound | ErrTaskNotFound | ErrTaskExists | ErrInvalidInput | ErrJournal string

section \<open>Creation\<close>

definition validInput :: "CreateInput \<Rightarrow> bool" where
  "validInput i =
     (if ci_Interval i < 5 * Second \<or> ci_Interval i > 24 * Hour then False
      else if ci_Duration i < 0 \<or> ci_Duration i > 24 * Hour then False
      else if ci_Duration i = 0 \<and> \<not> ci_ConfirmForever i then False
      else if ci_MaxExecutions i < 0 \<or> ci_MaxExecutions i > 100000 \<or> ci_MaxFailures i < 0 \<or> ci_MaxFailures i > 100000 \<or>
              ci_FailureThreshold i < 0 \<or> ci_FailureThreshold i > 1000 \<or> ci_MaxTokens i < 0 \<or> ci_MaxTokens i > 1000000000000
      then False
      else if ci_FailureThreshold i > 0 \<and> ci_MaxFailures i > 0 \<and> ci_FailureThreshold i > ci_MaxFailures i then False
      else ci_Idempotency i = ''preserve'' \<or> ci_Idempotency i = ''regenerate'')"

definition task_of :: "Manager \<Rightarrow> string \<Rightarrow> runtimeTask option" where
  "task_of m ident = map_of (mg_tasks m) ident"

definition put_task :: "string \<Rightarrow> runtimeTask \<Rightarrow> Manager \<Rightarrow> Manager" where
  "put_task ident rt m = m\<lparr>mg_tasks := map_set ident rt (mg_tasks m)\<rparr>"

definition hasActiveTaskLocked :: "string \<Rightarrow> Manager \<Rightarrow> bool" where
  "hasActiveTaskLocked sourceID m \<longleftrightarrow>
     list_ex (\<lambda>(k, rt). tk_SourceRequestID (rt_task rt) = sourceID \<and> \<not> terminal (tk_State (rt_task rt))) (mg_tasks m)"

definition new_task :: "string \<Rightarrow> string \<Rightarrow> string \<times> string \<Rightarrow> CreateInput \<Rightarrow> int \<Rightarrow> Task" where
  "new_task ident sourceID template i now =
     \<lparr>tk_ID = ident, tk_SourceRequestID = sourceID, tk_Method = fst template, tk_Path = snd template, tk_State = RepRunning,
      tk_Idempotency = ci_Idempotency i, tk_IntervalMilliseconds = Milliseconds (ci_Interval i),
      tk_DurationMilliseconds = Milliseconds (ci_Duration i), tk_StartedAt = Some now,
      tk_Deadline = (if ci_Duration i > 0 then Some (now + ci_Duration i) else None), tk_NextRunAt = Some now,
      tk_LastRunAt = None, tk_StoppedAt = None, tk_Executions = 0, tk_Successes = 0, tk_Failures = 0, tk_LastOutcome = [],
      tk_LastStatusCode = 0, tk_LastErrorCode = [], tk_LastExecutionID = [], tk_InFlight = False,
      tk_MaxExecutions = ci_MaxExecutions i, tk_MaxFailures = ci_MaxFailures i, tk_FailureThreshold = ci_FailureThreshold i,
      tk_ConsecutiveFailures = 0, tk_CircuitOpen = False, tk_StopReason = [], tk_MaxTokens = ci_MaxTokens i, tk_TokensUsed = 0,
      tk_LastUsageTokens = 0, tk_TokenUsageMissing = False, tk_ExecutionAudit = []\<rparr>"

definition Create ::
  "string \<Rightarrow> string \<Rightarrow> CreateInput \<Rightarrow> string option \<Rightarrow> int \<Rightarrow> Manager \<Rightarrow> (repeat_error + Task) \<times> Manager" where
  "Create ident sourceID i err now m =
     (if \<not> validInput i then (Inl ErrInvalidInput, m)
      else if mg_closed m then (Inl ErrInvalidInput, m)
      else case mg_sources m sourceID of
             None \<Rightarrow> (Inl ErrSourceNotFound, m)
           | Some template \<Rightarrow>
               if hasActiveTaskLocked sourceID m then (Inl ErrTaskExists, m)
               else let task = new_task ident sourceID template i now
                    in case err of
                         Some e \<Rightarrow> (Inl (ErrJournal e), m)
                       | None \<Rightarrow> (Inr task, put_task ident
                            \<lparr>rt_task = task, rt_canceled = False, rt_wake = False, rt_pc = R_next, rt_performed = 0\<rparr> m))"

definition RegisterSource :: "string \<Rightarrow> string \<times> string \<Rightarrow> Manager \<Rightarrow> Manager" where
  "RegisterSource ident template m = m\<lparr>mg_sources := (mg_sources m)(ident \<mapsto> template)\<rparr>"

definition UnregisterSource :: "string \<Rightarrow> Manager \<Rightarrow> Manager" where
  "UnregisterSource ident m = m\<lparr>mg_sources := (mg_sources m)(ident := None)\<rparr>"

section \<open>Control\<close>

text \<open>
  The operations on a live task write their change to the journal and take it back when that
  fails; \<open>change\<close> is the change and \<open>after\<close> what follows a successful write.
\<close>

definition control ::
  "(Task \<Rightarrow> Task) \<Rightarrow> (runtimeTask \<Rightarrow> runtimeTask) \<Rightarrow> string \<Rightarrow> string option \<Rightarrow> Manager \<Rightarrow> (repeat_error + Task) \<times> Manager" where
  "control change after ident err m =
     (case task_of m ident of
        None \<Rightarrow> (Inl ErrTaskNotFound, m)
      | Some rt \<Rightarrow>
          if terminal (tk_State (rt_task rt)) then (Inl ErrTaskNotFound, m)
          else case err of
                 Some e \<Rightarrow> (Inl (ErrJournal e), m)
               | None \<Rightarrow> (Inr (change (rt_task rt)), put_task ident (after (rt\<lparr>rt_task := change (rt_task rt)\<rparr>)) m))"

definition wake_up :: "runtimeTask \<Rightarrow> runtimeTask" where
  "wake_up rt = rt\<lparr>rt_wake := True\<rparr>"

definition cancel_task :: "runtimeTask \<Rightarrow> runtimeTask" where
  "cancel_task rt = rt\<lparr>rt_canceled := True\<rparr>"

definition Pause :: "string \<Rightarrow> string option \<Rightarrow> Manager \<Rightarrow> (repeat_error + Task) \<times> Manager" where
  "Pause = control (\<lambda>t. t\<lparr>tk_State := RepPaused, tk_NextRunAt := None\<rparr>) wake_up"

definition Resume :: "int \<Rightarrow> string \<Rightarrow> string option \<Rightarrow> Manager \<Rightarrow> (repeat_error + Task) \<times> Manager" where
  "Resume now = control (\<lambda>t. t\<lparr>tk_State := RepRunning, tk_CircuitOpen := False, tk_ConsecutiveFailures := 0, tk_StopReason := [],
     tk_TokenUsageMissing := False, tk_NextRunAt := Some now\<rparr>) wake_up"

definition RunNow :: "int \<Rightarrow> string \<Rightarrow> string option \<Rightarrow> Manager \<Rightarrow> (repeat_error + Task) \<times> Manager" where
  "RunNow now = control (\<lambda>t. t\<lparr>tk_State := RepRunning, tk_NextRunAt := Some now, tk_TokenUsageMissing := False\<rparr>) wake_up"

definition end_task :: "repeat_state \<Rightarrow> int \<Rightarrow> Task \<Rightarrow> Task" where
  "end_task s now t = t\<lparr>tk_State := s, tk_StoppedAt := Some now, tk_NextRunAt := None, tk_InFlight := False\<rparr>"

definition Stop :: "int \<Rightarrow> string \<Rightarrow> string option \<Rightarrow> Manager \<Rightarrow> (repeat_error + Task) \<times> Manager" where
  "Stop now = control (end_task RepStopped now) cancel_task"

definition close_one :: "int \<Rightarrow> (string \<Rightarrow> string option) \<Rightarrow> string \<times> runtimeTask \<Rightarrow> string \<times> runtimeTask" where
  "close_one now errs e =
     (case e of (k, rt) \<Rightarrow>
        if terminal (tk_State (rt_task rt)) then (k, rt)
        else (k, cancel_task (if errs k = None then rt\<lparr>rt_task := end_task RepInterrupted now (rt_task rt)\<rparr> else rt)))"

definition Close :: "int \<Rightarrow> (string \<Rightarrow> string option) \<Rightarrow> Manager \<Rightarrow> Manager" where
  "Close now errs m =
     m\<lparr>mg_closed := True, mg_tasks := map (close_one now errs) (mg_tasks m)\<rparr>"

section \<open>The goroutine of a task\<close>

definition finishLocked :: "repeat_state \<Rightarrow> string \<Rightarrow> int \<Rightarrow> runtimeTask \<Rightarrow> runtimeTask" where
  "finishLocked s reason now rt =
     cancel_task (rt\<lparr>rt_task := (end_task s now (rt_task rt))\<lparr>tk_StopReason := reason\<rparr>\<rparr>)"

definition degrade :: "Task \<Rightarrow> Task" where
  "degrade t = t\<lparr>tk_State := RepPaused, tk_StopReason := ''persistence_degraded'', tk_NextRunAt := None\<rparr>"

definition commitLocked :: "Task \<Rightarrow> string option \<Rightarrow> runtimeTask \<Rightarrow> runtimeTask" where
  "commitLocked previous err rt =
     (case err of
        None \<Rightarrow> rt
      | Some e \<Rightarrow> cancel_task (rt\<lparr>rt_task := (degrade previous)\<lparr>tk_InFlight := False\<rparr>\<rparr>))"

definition expireLocked :: "string option \<Rightarrow> int \<Rightarrow> runtimeTask \<Rightarrow> runtimeTask" where
  "expireLocked err now rt = commitLocked (rt_task rt) err (finishLocked RepExpired ''deadline'' now rt)"

definition past_deadline :: "int \<Rightarrow> Task \<Rightarrow> bool" where
  "past_deadline now t = (case tk_Deadline t of None \<Rightarrow> False | Some d \<Rightarrow> \<not> now < d)"

definition run_next :: "string option \<Rightarrow> int \<Rightarrow> runtimeTask \<Rightarrow> runtimeTask" where
  "run_next err now rt =
     (if terminal (tk_State (rt_task rt)) then rt\<lparr>rt_pc := R_dead\<rparr>
      else if tk_State (rt_task rt) = RepPaused then rt\<lparr>rt_pc := R_wait\<rparr>
      else if past_deadline now (rt_task rt) then (expireLocked err now rt)\<lparr>rt_pc := R_dead\<rparr>
      else rt\<lparr>rt_pc := R_wait\<rparr>)"

definition beginExecution :: "string option \<Rightarrow> int \<Rightarrow> runtimeTask \<Rightarrow> runtimeTask" where
  "beginExecution err now rt =
     (let t = rt_task rt
      in if tk_State t \<noteq> RepRunning \<or> tk_InFlight t then rt\<lparr>rt_pc := R_next\<rparr>
         else if tk_MaxExecutions t > 0 \<and> tk_Executions t \<ge> tk_MaxExecutions t
         then (finishLocked RepExpired ''max_executions'' now rt)\<lparr>rt_pc := R_next\<rparr>
         else if past_deadline now t then (expireLocked err now rt)\<lparr>rt_pc := R_next\<rparr>
         else case err of
                Some e \<Rightarrow> (cancel_task (rt\<lparr>rt_task := degrade t\<rparr>))\<lparr>rt_pc := R_next\<rparr>
              | None \<Rightarrow> rt\<lparr>rt_task := t\<lparr>tk_InFlight := True, tk_LastRunAt := Some now, tk_NextRunAt := None\<rparr>,
                          rt_pc := R_exec, rt_performed := rt_performed rt + 1\<rparr>)"

definition audit_of :: "int \<Rightarrow> Execution \<Rightarrow> Task \<Rightarrow> ExecutionAudit" where
  "audit_of now x t =
     \<lparr>ea_ID = ex_ID x, ea_StartedAt = tk_LastRunAt t,
      ea_Completed = (case ex_Completed x of None \<Rightarrow> Some now | Some c \<Rightarrow> Some c), ea_Success = ex_Success x,
      ea_StatusCode = ex_StatusCode x, ea_ErrorCode = ex_ErrorCode x, ea_DurationMilliseconds = ex_DurationMilliseconds x,
      ea_UsageTokens = ex_UsageTokens x, ea_UsageAvailable = ex_UsageAvailable x\<rparr>"

definition maxExecutionAudit :: nat where "maxExecutionAudit = 100"

definition record_execution :: "int \<Rightarrow> Execution \<Rightarrow> Task \<Rightarrow> Task" where
  "record_execution now x t =
     (let t1 = t\<lparr>tk_InFlight := False, tk_Executions := tk_Executions t + 1, tk_LastExecutionID := ex_ID x,
                tk_LastStatusCode := ex_StatusCode x, tk_LastErrorCode := ex_ErrorCode x, tk_LastUsageTokens := ex_UsageTokens x,
                tk_ExecutionAudit :=
                  (let audits = tk_ExecutionAudit t @ [audit_of now x t] in drop (length audits - maxExecutionAudit) audits)\<rparr>
      in if ex_Success x
         then t1\<lparr>tk_Successes := tk_Successes t + 1, tk_LastOutcome := ''successful'', tk_ConsecutiveFailures := 0,
                 tk_CircuitOpen := False, tk_StopReason := []\<rparr>
         else t1\<lparr>tk_Failures := tk_Failures t + 1, tk_LastOutcome := ''failed'',
                 tk_ConsecutiveFailures := tk_ConsecutiveFailures t + 1\<rparr>)"

text \<open>The limits that are checked after an execution that reported its usage, if it had to.\<close>

definition apply_limits :: "int \<Rightarrow> Execution \<Rightarrow> runtimeTask \<Rightarrow> runtimeTask" where
  "apply_limits now x rt =
     (let t = rt_task rt;
          rt1 = (if tk_MaxFailures t > 0 \<and> tk_Failures t \<ge> tk_MaxFailures t then finishLocked RepExpired ''max_failures'' now rt
                 else if \<not> ex_Success x \<and> tk_FailureThreshold t > 0 \<and> tk_ConsecutiveFailures t \<ge> tk_FailureThreshold t
                 then rt\<lparr>rt_task := t\<lparr>tk_State := RepPaused, tk_CircuitOpen := True, tk_StopReason := ''failure_circuit_open'',
                                     tk_NextRunAt := None\<rparr>\<rparr>
                 else if tk_MaxExecutions t > 0 \<and> tk_Executions t \<ge> tk_MaxExecutions t
                 then finishLocked RepExpired ''max_executions'' now rt
                 else rt)
      in if tk_State (rt_task rt1) = RepRunning
         then rt1\<lparr>rt_task := (rt_task rt1)\<lparr>tk_NextRunAt := Some (now + tk_IntervalMilliseconds (rt_task rt1) * Millisecond)\<rparr>\<rparr>
         else rt1)"

definition finishExecution :: "Execution \<Rightarrow> string option \<Rightarrow> int \<Rightarrow> runtimeTask \<Rightarrow> runtimeTask" where
  "finishExecution x err now rt =
     (if terminal (tk_State (rt_task rt)) then rt\<lparr>rt_pc := R_next\<rparr>
      else
        (let previous = rt_task rt; t = record_execution now x previous; rt1 = rt\<lparr>rt_task := t\<rparr>
         in if tk_MaxTokens t > 0 \<and> \<not> ex_UsageAvailable x
            then (commitLocked previous err (rt1\<lparr>rt_task := t\<lparr>tk_TokenUsageMissing := True, tk_LastOutcome := ''usage_missing'',
                    tk_LastErrorCode := ''usage_missing'', tk_State := RepPaused, tk_StopReason := ''usage_missing'',
                    tk_NextRunAt := None\<rparr>\<rparr>))\<lparr>rt_pc := R_next\<rparr>
            else if tk_MaxTokens t > 0
            then (let t2 = t\<lparr>tk_TokenUsageMissing := False, tk_TokensUsed := tk_TokensUsed t + ex_UsageTokens x\<rparr>
                  in if tk_TokensUsed t2 \<ge> tk_MaxTokens t2
                     then (commitLocked previous err (finishLocked RepExpired ''max_tokens'' now (rt1\<lparr>rt_task := t2\<rparr>)))\<lparr>rt_pc := R_next\<rparr>
                     else (commitLocked previous err (apply_limits now x (rt1\<lparr>rt_task := t2\<rparr>)))\<lparr>rt_pc := R_next\<rparr>)
            else (commitLocked previous err (apply_limits now x rt1))\<lparr>rt_pc := R_next\<rparr>))"

section \<open>Steps\<close>

text \<open>\<open>fails\<close> tells whether the journal may refuse a write.\<close>

inductive rt_step :: "bool \<Rightarrow> runtimeTask \<Rightarrow> runtimeTask \<Rightarrow> bool" for fails where
  decides: "rt_pc rt = R_next \<Longrightarrow> err = None \<or> fails \<Longrightarrow> rt_step fails rt (run_next err now rt)"
| canceled: "rt_pc rt = R_wait \<Longrightarrow> rt_canceled rt \<Longrightarrow> rt_step fails rt (rt\<lparr>rt_pc := R_dead\<rparr>)"
| woken: "rt_pc rt = R_wait \<Longrightarrow> rt_wake rt \<Longrightarrow> rt_step fails rt (rt\<lparr>rt_wake := False, rt_pc := R_begin\<rparr>)"
| timer: "rt_pc rt = R_wait \<Longrightarrow> rt_step fails rt (rt\<lparr>rt_pc := R_begin\<rparr>)"
| begins: "rt_pc rt = R_begin \<Longrightarrow> err = None \<or> fails \<Longrightarrow> rt_step fails rt (beginExecution err now rt)"
| finishes: "rt_pc rt = R_exec \<Longrightarrow> err = None \<or> fails \<Longrightarrow> rt_step fails rt (finishExecution x err now rt)"

inductive repeat_step :: "bool \<Rightarrow> Manager \<Rightarrow> Manager \<Rightarrow> bool" for fails where
  create: "ident \<notin> fst ` set (mg_tasks m) \<Longrightarrow> err = None \<or> fails \<Longrightarrow> repeat_step fails m (snd (Create ident src i err now m))"
| registered: "repeat_step fails m (RegisterSource ident template m)"
| unregistered: "repeat_step fails m (UnregisterSource ident m)"
| paused: "err = None \<or> fails \<Longrightarrow> repeat_step fails m (snd (Pause ident err m))"
| resumed: "err = None \<or> fails \<Longrightarrow> repeat_step fails m (snd (Resume now ident err m))"
| run_now: "err = None \<or> fails \<Longrightarrow> repeat_step fails m (snd (RunNow now ident err m))"
| stopped: "err = None \<or> fails \<Longrightarrow> repeat_step fails m (snd (Stop now ident err m))"
| closed: "(\<forall>k. errs k = None) \<or> fails \<Longrightarrow> repeat_step fails m (Close now errs m)"
| goroutine: "task_of m ident = Some rt \<Longrightarrow> rt_step fails rt rt' \<Longrightarrow> repeat_step fails m (put_task ident rt' m)"

definition NewManager :: Manager where
  "NewManager = \<lparr>mg_sources = (\<lambda>_. None), mg_tasks = [], mg_closed = False\<rparr>"

section \<open>How a task evolves\<close>

definition active :: "runtimeTask \<Rightarrow> bool" where
  "active rt \<longleftrightarrow> \<not> terminal (tk_State (rt_task rt))"

text \<open>What no step changes: the source and the limits; and an ended task stays as it ended.\<close>

definition follows :: "runtimeTask \<Rightarrow> runtimeTask \<Rightarrow> bool" where
  "follows rt rt' \<longleftrightarrow> tk_SourceRequestID (rt_task rt') = tk_SourceRequestID (rt_task rt) \<and>
     tk_MaxExecutions (rt_task rt') = tk_MaxExecutions (rt_task rt) \<and> (\<not> active rt \<longrightarrow> rt_task rt' = rt_task rt)"

definition task_ok :: "bool \<Rightarrow> runtimeTask \<Rightarrow> bool" where
  "task_ok fails rt \<longleftrightarrow>
     (let t = rt_task rt
      in 0 \<le> tk_Successes t \<and> 0 \<le> tk_Failures t \<and> tk_Executions t = tk_Successes t + tk_Failures t \<and>
         length (tk_ExecutionAudit t) \<le> maxExecutionAudit \<and>
         (tk_MaxExecutions t > 0 \<longrightarrow> tk_Executions t + (if rt_pc rt = R_exec \<and> active rt then 1 else 0) \<le> tk_MaxExecutions t) \<and>
         (tk_InFlight t \<longrightarrow> rt_pc rt = R_exec \<and> active rt) \<and>
         (\<not> fails \<longrightarrow>
            (active rt \<longrightarrow> \<not> rt_canceled rt \<and> rt_pc rt \<noteq> R_dead \<and>
               rt_performed rt = tk_Executions t + (if rt_pc rt = R_exec then 1 else 0)) \<and>
            (tk_MaxExecutions t > 0 \<longrightarrow> rt_performed rt \<le> tk_MaxExecutions t)))"

lemmas rt_defs = finishLocked_def degrade_def commitLocked_def expireLocked_def end_task_def cancel_task_def wake_up_def

lemma terminal_simps [simp]:
  "terminal RepStopped" "terminal RepExpired" "terminal RepInterrupted" "\<not> terminal RepRunning" "\<not> terminal RepPaused"
  by (simp_all add: terminal_def)

lemma run_next_ok:
  assumes "task_ok fails rt" "rt_pc rt = R_next" "err = None \<or> fails"
  shows "task_ok fails (run_next err now rt) \<and> follows rt (run_next err now rt)"
  using assms
  by (cases err) (auto simp: task_ok_def follows_def run_next_def active_def rt_defs Let_def)

lemma begin_ok:
  assumes "task_ok fails rt" "rt_pc rt = R_begin" "err = None \<or> fails"
  shows "task_ok fails (beginExecution err now rt) \<and> follows rt (beginExecution err now rt)"
  using assms
  by (cases err) (auto simp: task_ok_def follows_def beginExecution_def active_def rt_defs Let_def)

text \<open>What \<open>apply_limits\<close> and \<open>finishLocked\<close> leave alone in the counters.\<close>

definition same_counts :: "Task \<Rightarrow> Task \<Rightarrow> bool" where
  "same_counts t t' \<longleftrightarrow> tk_Successes t' = tk_Successes t \<and> tk_Failures t' = tk_Failures t \<and> tk_Executions t' = tk_Executions t \<and>
     tk_ExecutionAudit t' = tk_ExecutionAudit t \<and> tk_MaxExecutions t' = tk_MaxExecutions t \<and>
     tk_SourceRequestID t' = tk_SourceRequestID t \<and> (tk_InFlight t' \<longrightarrow> tk_InFlight t)"

lemma finishLocked_counts: "same_counts (rt_task rt) (rt_task (finishLocked s r now rt))"
  by (simp add: same_counts_def finishLocked_def end_task_def cancel_task_def)

lemma apply_limits_counts: "same_counts (rt_task rt) (rt_task (apply_limits now x rt))"
  by (simp add: same_counts_def apply_limits_def finishLocked_def end_task_def cancel_task_def Let_def)

lemma limits_canceled:
  "active (apply_limits now x rt) \<Longrightarrow> rt_canceled (apply_limits now x rt) = rt_canceled rt"
  "rt_performed (apply_limits now x rt) = rt_performed rt"
  by (auto simp: apply_limits_def finishLocked_def end_task_def cancel_task_def active_def Let_def split: if_splits)

lemma recorded:
  assumes "task_ok fails rt" "rt_pc rt = R_exec" "active rt"
  shows "0 \<le> tk_Successes (record_execution now x (rt_task rt))" "0 \<le> tk_Failures (record_execution now x (rt_task rt))"
    "tk_Executions (record_execution now x (rt_task rt)) =
       tk_Successes (record_execution now x (rt_task rt)) + tk_Failures (record_execution now x (rt_task rt))"
    "length (tk_ExecutionAudit (record_execution now x (rt_task rt))) \<le> maxExecutionAudit"
    "tk_Executions (record_execution now x (rt_task rt)) = tk_Executions (rt_task rt) + 1"
    "tk_MaxExecutions (record_execution now x (rt_task rt)) = tk_MaxExecutions (rt_task rt)"
    "tk_SourceRequestID (record_execution now x (rt_task rt)) = tk_SourceRequestID (rt_task rt)"
    "\<not> tk_InFlight (record_execution now x (rt_task rt))"
    "tk_State (record_execution now x (rt_task rt)) = tk_State (rt_task rt)"
  using assms by (simp_all add: task_ok_def record_execution_def Let_def)

text \<open>A task whose execution was recorded, with whatever state the limits gave it, and committed.\<close>

lemma commit_ok:
  assumes ok: "task_ok fails rt" "rt_pc rt = R_exec" "active rt" and err: "err = None \<or> fails"
    and counts: "same_counts (record_execution now x (rt_task rt)) (rt_task rt1)"
    and live: "active rt1 \<Longrightarrow> rt_canceled rt1 = rt_canceled rt" "rt_performed rt1 = rt_performed rt"
  shows "task_ok fails ((commitLocked (rt_task rt) err rt1)\<lparr>rt_pc := R_next\<rparr>) \<and>
     follows rt ((commitLocked (rt_task rt) err rt1)\<lparr>rt_pc := R_next\<rparr>)"
proof (cases err)
  case None
  have pc: "active (rt1\<lparr>rt_pc := R_next\<rparr>) = active rt1" by (simp add: active_def)
  show ?thesis
    using ok counts live recorded [OF ok, of now x] None
    by (simp add: task_ok_def follows_def commitLocked_def same_counts_def pc Let_def split: if_splits) auto
next
  case (Some e)
  then have "fails" using err by simp
  with Some ok show ?thesis
    by (auto simp: task_ok_def follows_def commitLocked_def degrade_def cancel_task_def active_def Let_def split: if_splits)
qed

lemma finish_ok:
  assumes "task_ok fails rt" "rt_pc rt = R_exec" "err = None \<or> fails"
  shows "task_ok fails (finishExecution x err now rt) \<and> follows rt (finishExecution x err now rt)"
proof (cases "active rt")
  case False
  with assms show ?thesis
    by (auto simp: finishExecution_def active_def task_ok_def follows_def Let_def)
next
  case True
  define t where "t = record_execution now x (rt_task rt)"
  have limits: "same_counts t (rt_task (apply_limits now x (rt\<lparr>rt_task := u\<rparr>)))" if "same_counts t u" for u
    using that apply_limits_counts [of "rt\<lparr>rt_task := u\<rparr>" now x] by (auto simp: same_counts_def)
  have ended: "same_counts t (rt_task (finishLocked s r now (rt\<lparr>rt_task := u\<rparr>)))" if "same_counts t u" for u s r
    using that finishLocked_counts [of "rt\<lparr>rt_task := u\<rparr>" s r now] by (auto simp: same_counts_def)
  have keep: "same_counts t t" "same_counts t (t\<lparr>tk_TokenUsageMissing := b, tk_TokensUsed := n\<rparr>)"
    "same_counts t (t\<lparr>tk_TokenUsageMissing := b, tk_LastOutcome := o1, tk_LastErrorCode := e1, tk_State := s1,
       tk_StopReason := r1, tk_NextRunAt := nr\<rparr>)" for b n o1 e1 s1 r1 nr
    by (simp_all add: same_counts_def)
  define good where "good r \<longleftrightarrow> task_ok fails ((commitLocked (rt_task rt) err r)\<lparr>rt_pc := R_next\<rparr>) \<and>
      follows rt ((commitLocked (rt_task rt) err r)\<lparr>rt_pc := R_next\<rparr>)" for r
  have commit: "good r" if "same_counts t (rt_task r)" "active r \<Longrightarrow> rt_canceled r = rt_canceled rt" "rt_performed r = rt_performed rt" for r
    unfolding good_def using commit_ok [OF assms(1,2) True assms(3)] that by (simp add: t_def)
  have "good (rt\<lparr>rt_task := u\<rparr>)" "good (apply_limits now x (rt\<lparr>rt_task := u\<rparr>))" "good (finishLocked RepExpired r now (rt\<lparr>rt_task := u\<rparr>))"
    if "same_counts t u" for u r
  proof -
    show "good (rt\<lparr>rt_task := u\<rparr>)" using that by (intro commit) simp_all
    show "good (apply_limits now x (rt\<lparr>rt_task := u\<rparr>))"
      using limits [OF that] limits_canceled [of now x "rt\<lparr>rt_task := u\<rparr>"] by (intro commit) simp_all
    show "good (finishLocked RepExpired r now (rt\<lparr>rt_task := u\<rparr>))"
      using ended [OF that] by (intro commit) (simp_all add: active_def finishLocked_def end_task_def cancel_task_def)
  qed
  note each = this [OF keep(1)] this [OF keep(2)] this [OF keep(3)]
  have "\<not> terminal (tk_State (rt_task rt))" using True by (simp add: active_def)
  then show ?thesis
    using each unfolding finishExecution_def t_def [symmetric] Let_def good_def by simp
qed

lemma rt_step_ok: "rt_step fails rt rt' \<Longrightarrow> task_ok fails rt \<Longrightarrow> task_ok fails rt' \<and> follows rt rt'"
proof (induction rule: rt_step.induct)
  case (canceled rt)
  then show ?case by (auto simp: task_ok_def follows_def active_def Let_def)
next
  case (woken rt)
  then show ?case by (auto simp: task_ok_def follows_def active_def Let_def)
next
  case (timer rt)
  then show ?case by (auto simp: task_ok_def follows_def active_def Let_def)
qed (simp_all add: run_next_ok begin_ok finish_ok)

section \<open>Managers\<close>

definition manager_ok :: "bool \<Rightarrow> Manager \<Rightarrow> bool" where
  "manager_ok fails m \<longleftrightarrow> distinct (map fst (mg_tasks m)) \<and> (\<forall>k rt. task_of m k = Some rt \<longrightarrow> task_ok fails rt) \<and>
     (\<forall>k1 k2 rt1 rt2. task_of m k1 = Some rt1 \<longrightarrow> task_of m k2 = Some rt2 \<longrightarrow> active rt1 \<longrightarrow> active rt2 \<longrightarrow>
        tk_SourceRequestID (rt_task rt1) = tk_SourceRequestID (rt_task rt2) \<longrightarrow> k1 = k2)"

lemma manager_task: "manager_ok fails m \<Longrightarrow> task_of m k = Some rt \<Longrightarrow> task_ok fails rt"
  by (simp add: manager_ok_def)

lemma manager_pair:
  "manager_ok fails m \<Longrightarrow> task_of m k1 = Some rt1 \<Longrightarrow> task_of m k2 = Some rt2 \<Longrightarrow> active rt1 \<Longrightarrow> active rt2 \<Longrightarrow>
     tk_SourceRequestID (rt_task rt1) = tk_SourceRequestID (rt_task rt2) \<Longrightarrow> k1 = k2"
  unfolding manager_ok_def by blast

lemma manager_okI:
  assumes "distinct (map fst (mg_tasks m))" "\<And>k rt. task_of m k = Some rt \<Longrightarrow> task_ok fails rt"
    "\<And>k1 k2 rt1 rt2. task_of m k1 = Some rt1 \<Longrightarrow> task_of m k2 = Some rt2 \<Longrightarrow> active rt1 \<Longrightarrow> active rt2 \<Longrightarrow>
       tk_SourceRequestID (rt_task rt1) = tk_SourceRequestID (rt_task rt2) \<Longrightarrow> k1 = k2"
  shows "manager_ok fails m"
  using assms unfolding manager_ok_def by blast

lemma task_of_put [simp]: "task_of (put_task ident rt m) k = (if k = ident then Some rt else task_of m k)"
  by (simp add: task_of_def put_task_def map_of_map_set)

lemma manager_ok_put:
  assumes "manager_ok fails m" "task_of m ident = Some rt" "task_ok fails rt'" "follows rt rt'"
  shows "manager_ok fails (put_task ident rt' m)"
proof -
  have act: "active rt' \<Longrightarrow> active rt" and src: "tk_SourceRequestID (rt_task rt') = tk_SourceRequestID (rt_task rt)"
    using assms(4) by (auto simp: follows_def active_def)
  have "distinct (map fst (mg_tasks (put_task ident rt' m)))"
    using assms(1) by (simp add: manager_ok_def put_task_def distinct_map_set)
  then show ?thesis
    using assms(1-3) act src unfolding manager_ok_def by (auto split: if_splits)
qed

lemma manager_ok_control:
  assumes ok: "manager_ok fails m"
    and step: "\<And>rt. task_ok fails rt \<Longrightarrow> active rt \<Longrightarrow> task_ok fails (after (rt\<lparr>rt_task := change (rt_task rt)\<rparr>)) \<and>
        follows rt (after (rt\<lparr>rt_task := change (rt_task rt)\<rparr>))"
  shows "manager_ok fails (snd (control change after ident err m))"
proof -
  have "manager_ok fails (put_task ident (after (rt\<lparr>rt_task := change (rt_task rt)\<rparr>)) m)"
    if "task_of m ident = Some rt" "active rt" for rt
    using step [OF manager_task [OF ok that(1)] that(2)] manager_ok_put [OF ok that(1)] by blast
  with ok show ?thesis by (simp add: control_def active_def split: option.split)
qed

lemma controls_ok:
  assumes "manager_ok fails m"
  shows "manager_ok fails (snd (Pause ident err m))" "manager_ok fails (snd (Resume now ident err m))"
    "manager_ok fails (snd (RunNow now ident err m))" "manager_ok fails (snd (Stop now ident err m))"
  unfolding Pause_def Resume_def RunNow_def Stop_def
  by (rule manager_ok_control [OF assms];
      auto simp: task_ok_def follows_def active_def wake_up_def cancel_task_def end_task_def Let_def split: if_splits)+

lemma close_one_ok:
  assumes "task_ok fails rt" "(\<forall>k. errs k = None) \<or> fails"
  shows "task_ok fails (snd (close_one now errs (k, rt))) \<and> follows rt (snd (close_one now errs (k, rt)))"
  using assms
  by (auto simp: close_one_def task_ok_def follows_def active_def cancel_task_def end_task_def Let_def split: if_splits)

lemma fst_close: "fst (close_one now errs (k, rt)) = k"
  by (simp add: close_one_def)

lemma map_of_close:
  "map_of (map (close_one now errs) ts) k = map_option (\<lambda>rt. snd (close_one now errs (k, rt))) (map_of ts k)"
proof (induction ts)
  case (Cons e ts)
  obtain k' rt where e: "e = (k', rt)" by (cases e)
  obtain rt' where "close_one now errs (k', rt) = (k', rt')" using fst_close by (metis prod.collapse)
  with Cons show ?case by (simp add: e)
qed simp

lemma task_of_close: "task_of (Close now errs m) k = map_option (\<lambda>rt. snd (close_one now errs (k, rt))) (task_of m k)"
  unfolding task_of_def Close_def by (simp add: map_of_close)

lemma manager_ok_close:
  assumes ok: "manager_ok fails m" and errs: "(\<forall>k. errs k = None) \<or> fails"
  shows "manager_ok fails (Close now errs m)"
proof -
  have "map (fst \<circ> close_one now errs) ts = map fst ts" for ts by (simp add: fst_close case_prod_beta comp_def close_one_def)
  then have keys: "map fst (mg_tasks (Close now errs m)) = map fst (mg_tasks m)" by (simp add: Close_def)
  have each: "task_ok fails rt \<and> (\<exists>old. task_of m k = Some old \<and> follows old rt)" if "task_of (Close now errs m) k = Some rt" for k rt
    using that close_one_ok [OF manager_task [OF ok] errs] unfolding task_of_close by blast
  have older: "active old \<and> tk_SourceRequestID (rt_task rt) = tk_SourceRequestID (rt_task old)" if "active rt" "follows old rt" for rt old
    using that by (auto simp: follows_def active_def)
  have "k1 = k2" if t: "task_of (Close now errs m) k1 = Some rt1" "task_of (Close now errs m) k2 = Some rt2" "active rt1" "active rt2"
      "tk_SourceRequestID (rt_task rt1) = tk_SourceRequestID (rt_task rt2)" for k1 k2 rt1 rt2
  proof -
    obtain o1 where o1: "task_of m k1 = Some o1" "follows o1 rt1" using each [OF t(1)] by blast
    obtain o2 where o2: "task_of m k2 = Some o2" "follows o2 rt2" using each [OF t(2)] by blast
    show ?thesis
      using older [OF t(3) o1(2)] older [OF t(4) o2(2)] t(5) by (intro manager_pair [OF ok o1(1) o2(1)]) simp_all
  qed
  moreover have "distinct (map fst (mg_tasks (Close now errs m)))" using ok unfolding keys by (simp add: manager_ok_def)
  ultimately show ?thesis using each by (intro manager_okI) blast+
qed

lemma manager_ok_create:
  assumes ok: "manager_ok fails m" and fresh: "ident \<notin> fst ` set (mg_tasks m)"
  shows "manager_ok fails (snd (Create ident src i err now m))"
proof -
  let ?rt = "\<lambda>template. \<lparr>rt_task = new_task ident src template i now, rt_canceled = False, rt_wake = False, rt_pc = R_next, rt_performed = 0\<rparr>"
  have "manager_ok fails (put_task ident (?rt template) m)"
    if none: "\<not> hasActiveTaskLocked src m" and valid: "validInput i" for template
  proof -
    have "0 \<le> ci_MaxExecutions i" using valid by (simp add: validInput_def split: if_splits)
    then have new: "task_ok fails (?rt template)" by (simp add: task_ok_def new_task_def active_def Let_def)
    have other: "tk_SourceRequestID (rt_task rt) \<noteq> src" if "task_of m k = Some rt" "active rt" for k rt
      using none that map_of_SomeD [of "mg_tasks m" k rt]
      by (auto simp: hasActiveTaskLocked_def list_ex_iff task_of_def active_def)
    have src: "tk_SourceRequestID (rt_task (?rt template)) = src" by (simp add: new_task_def)
    have "distinct (map fst (mg_tasks (put_task ident (?rt template) m)))"
      using ok by (simp add: manager_ok_def put_task_def distinct_map_set)
    moreover have "\<forall>k rt. task_of (put_task ident (?rt template) m) k = Some rt \<longrightarrow> task_ok fails rt"
      using new manager_task [OF ok] by auto
    moreover have "k1 = k2" if "task_of (put_task ident (?rt template) m) k1 = Some rt1"
      "task_of (put_task ident (?rt template) m) k2 = Some rt2" "active rt1" "active rt2"
      "tk_SourceRequestID (rt_task rt1) = tk_SourceRequestID (rt_task rt2)" for k1 k2 rt1 rt2
    proof -
      have "k1 \<noteq> ident \<Longrightarrow> task_of m k1 = Some rt1" "k1 = ident \<Longrightarrow> rt1 = ?rt template"
        "k2 \<noteq> ident \<Longrightarrow> task_of m k2 = Some rt2" "k2 = ident \<Longrightarrow> rt2 = ?rt template"
        using that(1,2) by auto
      then show ?thesis
        using that(3-5) other src ok unfolding manager_ok_def by (cases "k1 = ident"; cases "k2 = ident") auto
    qed
    ultimately show ?thesis unfolding manager_ok_def by blast
  qed
  with ok show ?thesis by (simp add: Create_def Let_def split: option.split)
qed

lemma manager_ok_sources:
  "manager_ok fails m \<Longrightarrow> manager_ok fails (RegisterSource ident template m)"
  "manager_ok fails m \<Longrightarrow> manager_ok fails (UnregisterSource ident m)"
  by (simp_all add: manager_ok_def task_of_def RegisterSource_def UnregisterSource_def)

lemma manager_ok_step: "repeat_step fails m m' \<Longrightarrow> manager_ok fails m \<Longrightarrow> manager_ok fails m'"
proof (induction rule: repeat_step.induct)
  case (goroutine m ident rt rt')
  from rt_step_ok [OF goroutine(2) manager_task [OF goroutine(3,1)]] show ?case
    using manager_ok_put [OF goroutine(3,1)] by blast
qed (simp_all add: manager_ok_create controls_ok manager_ok_close manager_ok_sources)

interpretation repeat_system: step_system "repeat_step fails" "\<lambda>m. m = NewManager" "manager_ok fails" for fails
proof unfold_locales
  show "manager_ok fails m" if "m = NewManager" for m
    using that by (simp add: manager_ok_def NewManager_def task_of_def)
  show "manager_ok fails m'" if "repeat_step fails m m'" "manager_ok fails m" for m m'
    using that by (rule manager_ok_step)
qed

text \<open>An ended task stays as it ended, whatever happens after.\<close>

lemma control_follows:
  assumes "task_of m k = Some rt" "\<not> active rt"
  shows "\<exists>rt'. task_of (snd (control change after ident err m)) k = Some rt' \<and> rt_task rt' = rt_task rt"
  using assms by (auto simp: control_def active_def split: option.split)

lemma ended_step:
  assumes "repeat_step fails m m'" "manager_ok fails m" "task_of m k = Some rt" "\<not> active rt"
  shows "\<exists>rt'. task_of m' k = Some rt' \<and> rt_task rt' = rt_task rt"
  using assms
proof (induction rule: repeat_step.induct)
  case (create ident m err src i now)
  then have "k \<noteq> ident" using map_of_SomeD [of "mg_tasks m" k rt] by (force simp: task_of_def)
  then show ?case using create.prems by (simp add: Create_def Let_def split: option.split)
next
  case (closed errs m now)
  then show ?case by (simp add: task_of_close close_one_def active_def)
next
  case (goroutine m ident rt0 rt')
  then show ?case using rt_step_ok [OF goroutine(2) manager_task [OF goroutine(3,1)]] by (auto simp: follows_def)
qed (simp_all add: control_follows Pause_def Resume_def RunNow_def Stop_def RegisterSource_def UnregisterSource_def task_of_def [symmetric],
     simp_all add: task_of_def)

lemma ended_steps:
  assumes "(repeat_step fails)\<^sup>*\<^sup>* m m'" "manager_ok fails m" "task_of m k = Some rt" "\<not> active rt"
  shows "\<exists>rt'. task_of m' k = Some rt' \<and> rt_task rt' = rt_task rt"
  using assms(1)
proof (induction rule: rtranclp_induct)
  case base
  then show ?case using assms(3) by blast
next
  case (step n n')
  then obtain rt' where "task_of n k = Some rt'" "rt_task rt' = rt_task rt" by blast
  then show ?case
    using ended_step [OF step(2) repeat_system.inv_steps [OF step(1) assms(2)], of k rt'] assms(4) by (simp add: active_def)
qed

section \<open>The admin API\<close>

definition repeat_fields :: "string list" where
  "repeat_fields = [''interval'', ''duration'', ''idempotency'', ''confirmForever'', ''maxExecutions'', ''maxFailures'',
     ''failureThreshold'', ''maxTokens'']"

text \<open>The body of a creation, whose times are texts; an absent number is zero.\<close>

definition dec_repeat :: "json_object \<Rightarrow> (string \<times> string \<times> CreateInput) option" where
  "dec_repeat obj =
     (if \<not> known_fields repeat_fields obj then None
      else case (dec_string (prop_of obj ''interval''), dec_string (prop_of obj ''duration''), dec_string (prop_of obj ''idempotency''),
                 dec_bool (prop_of obj ''confirmForever''), dec_int (prop_of obj ''maxExecutions''),
                 dec_int (prop_of obj ''maxFailures''), dec_int (prop_of obj ''failureThreshold''), dec_int (prop_of obj ''maxTokens'')) of
             (Some iv, Some du, Some idem, Some fe, Some me, Some mf, Some ft, Some mt) \<Rightarrow>
               Some (iv, du, \<lparr>ci_Interval = 0, ci_Duration = 0, ci_Idempotency = idem, ci_ConfirmForever = nullish fe False,
                 ci_MaxExecutions = nullish me 0, ci_MaxFailures = nullish mf 0, ci_FailureThreshold = nullish ft 0,
                 ci_MaxTokens = nullish mt 0\<rparr>)
           | _ \<Rightarrow> None)"

fun repeat_status :: "repeat_error \<Rightarrow> int \<times> string" where
  "repeat_status ErrSourceNotFound = (404, ''REPEAT_TASK_NOT_FOUND'')"
| "repeat_status ErrTaskNotFound = (404, ''REPEAT_TASK_NOT_FOUND'')"
| "repeat_status ErrTaskExists = (409, ''REPEAT_TASK_EXISTS'')"
| "repeat_status _ = (400, ''INVALID_REPEAT_TASK'')"

definition writeRepeatError :: "repeat_error \<Rightarrow> 'a reply" where
  "writeRepeatError e = (case repeat_status e of (status, code) \<Rightarrow> Rejected status code)"

definition createRepeatTask ::
  "string \<Rightarrow> string \<Rightarrow> json \<Rightarrow> string option \<Rightarrow> int \<Rightarrow> registry \<Rightarrow> Manager \<Rightarrow> Task reply \<times> Manager" where
  "createRepeatTask ident requestID body err now r m =
     (case RequestInfo_of requestID r of
        None \<Rightarrow> (Rejected 404 ''REQUEST_NOT_FOUND'', m)
      | Some (info, actions) \<Rightarrow>
          if \<not> ra_canRepeat actions then (Rejected 428 ''UNCERTAIN_RESOLUTION_REQUIRED'', m)
          else case (case body of JObj obj \<Rightarrow> dec_repeat obj | _ \<Rightarrow> None) of
                 None \<Rightarrow> (Rejected 400 ''INVALID_REPEAT_TASK'', m)
               | Some (iv, du, input) \<Rightarrow>
                   (case (ParseDuration iv, if du = [] then Some 0 else ParseDuration du) of
                      (Some interval, Some duration) \<Rightarrow>
                        (case Create ident requestID (input\<lparr>ci_Interval := interval, ci_Duration := duration\<rparr>) err now m of
                           (Inl e, m') \<Rightarrow> (writeRepeatError e, m')
                         | (Inr task, m') \<Rightarrow> (Replied task, m'))
                    | _ \<Rightarrow> (writeRepeatError ErrInvalidInput, m)))"


definition trim_slashes :: "string \<Rightarrow> string" where
  "trim_slashes s = rev (dropWhile (\<lambda>c. c = CHR ''/'') (rev (dropWhile (\<lambda>c. c = CHR ''/'') s)))"

text \<open>\<open>path\<close> is what follows \<open>/repeat-tasks/\<close> in the decoded path.\<close>

definition repeatTaskAction :: "string \<Rightarrow> string \<Rightarrow> string option \<Rightarrow> int \<Rightarrow> Manager \<Rightarrow> Task reply \<times> Manager" where
  "repeatTaskAction verb path err now m =
     (let parts = split_all CHR ''/'' (trim_slashes path);
          finish = (\<lambda>res. case res of (Inl e, m') \<Rightarrow> (writeRepeatError e, m') | (Inr task, m') \<Rightarrow> (Replied task, m'))
      in if hd parts = [] then (Rejected 404 ''REPEAT_TASK_NOT_FOUND'', m)
         else if verb = ''DELETE'' \<and> length parts = 1 then finish (Stop now (hd parts) err m)
         else if verb = ''POST'' \<and> length parts = 2 \<and> parts ! 1 = ''pause'' then finish (Pause (hd parts) err m)
         else if verb = ''POST'' \<and> length parts = 2 \<and> parts ! 1 = ''resume'' then finish (Resume now (hd parts) err m)
         else if verb = ''POST'' \<and> length parts = 2 \<and> parts ! 1 = ''run'' then finish (RunNow now (hd parts) err m)
         else (Rejected 404 ''ENDPOINT_NOT_FOUND'', m))"

section \<open>The console's calls on the gateway\<close>

text \<open>The path the gateway sees: decoded, and without the prefix of the route.\<close>

definition route_rest :: "string \<Rightarrow> api_call \<Rightarrow> string" where
  "route_rest route c = drop (length route) (percent_decode (call_path c))"

definition call_verb :: "api_call \<Rightarrow> string" where
  "call_verb c = nullish (init_method (call_init c)) ''GET''"

fun wire_state :: "repeat_state \<Rightarrow> RepeatTaskState" where
  "wire_state RepRunning = RepeatTaskState_Running"
| "wire_state RepPaused = RepeatTaskState_Paused"
| "wire_state RepStopped = RepeatTaskState_Stopped"
| "wire_state RepExpired = RepeatTaskState_Expired"
| "wire_state RepInterrupted = RepeatTaskState_Interrupted"

lemma wire_live:
  "wire_state s = RepeatTaskState_Running \<longleftrightarrow> s = RepRunning" "wire_state s = RepeatTaskState_Paused \<longleftrightarrow> s = RepPaused"
  "terminal s \<longleftrightarrow> s \<noteq> RepRunning \<and> s \<noteq> RepPaused"
  by (cases s; simp)+

lemma decode_component: "percent_decode (encodeURIComponent s @ rest) = s @ percent_decode rest"
proof (induction s)
  case (Cons c s)
  show ?case
  proof (cases "uri_keep c")
    case True
    then have "c \<noteq> CHR ''%''" by (auto simp: uri_keep_def)
    with True Cons show ?thesis by (simp add: encodeURIComponent_def percent_encode_def percent_decode_other)
  next
    case False
    with Cons show ?thesis by (simp add: encodeURIComponent_def percent_encode_def pct_decode)
  qed
qed (simp add: encodeURIComponent_def percent_encode_def)

lemma decode_plain: "CHR ''%'' \<notin> set a \<Longrightarrow> percent_decode (a @ s) = a @ percent_decode s"
  by (induction a) (auto simp: percent_decode_other)

lemma decode_plain': "CHR ''%'' \<notin> set a \<Longrightarrow> percent_decode a = a"
  using decode_plain [of a "[]"] by simp

lemma route_rests:
  "route_rest ''/repeat-tasks/'' (api_stopRepeatTask ident) = ident"
  "route_rest ''/repeat-tasks/'' (api_repeatTaskAction ident action) = ident @ ''/'' @ repeat_action_string action"
proof -
  have plain: "percent_decode (''/'' @ repeat_action_string action) = ''/'' @ repeat_action_string action"
    by (rule decode_plain') (cases action; simp add: repeat_action_string_def)
  have pre: "percent_decode (''/repeat-tasks/'' @ s) = ''/repeat-tasks/'' @ percent_decode s" for s
    by (rule decode_plain) simp
  show "route_rest ''/repeat-tasks/'' (api_stopRepeatTask ident) = ident"
    unfolding route_rest_def api_stopRepeatTask_def api_call.select_convs pre by (simp add: decode_encodeURIComponent)
  show "route_rest ''/repeat-tasks/'' (api_repeatTaskAction ident action) = ident @ ''/'' @ repeat_action_string action"
    unfolding route_rest_def api_repeatTaskAction_def api_call.select_convs pre decode_component plain by simp
qed

lemma call_verbs:
  "call_verb (api_stopRepeatTask ident) = ''DELETE''" "call_verb (api_repeatTaskAction ident a) = ''POST''"
  by (simp_all add: call_verb_def api_stopRepeatTask_def api_repeatTaskAction_def)

definition plain_id :: "string \<Rightarrow> bool" where
  "plain_id ident \<longleftrightarrow> ident \<noteq> [] \<and> CHR ''/'' \<notin> set ident"

lemma trim_plain:
  assumes "s \<noteq> []" "hd s \<noteq> CHR ''/''" "last s \<noteq> CHR ''/''"
  shows "trim_slashes s = s"
proof -
  have "dropWhile (\<lambda>c. c = CHR ''/'') s = s" using assms(1,2) by (cases s) simp_all
  moreover have "dropWhile (\<lambda>c. c = CHR ''/'') (rev s) = rev s"
    using assms(1,3) by (cases s rule: rev_cases) simp_all
  ultimately show ?thesis by (simp add: trim_slashes_def)
qed

lemma action_parts:
  assumes "plain_id ident"
  shows "split_all CHR ''/'' (trim_slashes ident) = [ident]"
    "split_all CHR ''/'' (trim_slashes (ident @ ''/'' @ repeat_action_string a)) = [ident, repeat_action_string a]"
proof -
  have id: "ident \<noteq> []" "CHR ''/'' \<notin> set ident" using assms by (simp_all add: plain_id_def)
  then have ends: "hd ident \<noteq> CHR ''/''" "last ident \<noteq> CHR ''/''" by (metis hd_in_set) (metis id last_in_set)
  then show "split_all CHR ''/'' (trim_slashes ident) = [ident]" using id by (simp add: trim_plain split_all_absent)
  have act: "CHR ''/'' \<notin> set (repeat_action_string a)" "repeat_action_string a \<noteq> []" by (cases a; simp add: repeat_action_string_def)+
  then have "last (repeat_action_string a) \<noteq> CHR ''/''" by (metis last_in_set)
  then have "trim_slashes (ident @ ''/'' @ repeat_action_string a) = ident @ ''/'' @ repeat_action_string a"
    using id ends act by (intro trim_plain) simp_all
  then show "split_all CHR ''/'' (trim_slashes (ident @ ''/'' @ repeat_action_string a)) = [ident, repeat_action_string a]"
    using id act by (simp add: split_all_append split_all_absent)
qed

lemma action_handled:
  assumes "plain_id ident"
  shows "repeatTaskAction ''DELETE'' ident err now m =
      (case Stop now ident err m of (Inl e, m') \<Rightarrow> (writeRepeatError e, m') | (Inr task, m') \<Rightarrow> (Replied task, m'))"
    "repeatTaskAction ''POST'' (ident @ ''/'' @ repeat_action_string a) err now m =
      (case (case a of Repeat_Pause \<Rightarrow> Pause ident err m | Repeat_Resume \<Rightarrow> Resume now ident err m | Repeat_Run \<Rightarrow> RunNow now ident err m) of
         (Inl e, m') \<Rightarrow> (writeRepeatError e, m') | (Inr task, m') \<Rightarrow> (Replied task, m'))"
  using assms unfolding repeatTaskAction_def action_parts [OF assms] Let_def
  by (simp_all add: plain_id_def repeat_action_string_def split: repeat_action.split)

section \<open>Properties\<close>


definition sample_input :: CreateInput where
  "sample_input = \<lparr>ci_Interval = 60 * Second, ci_Duration = Hour, ci_Idempotency = ''preserve'', ci_ConfirmForever = False,
     ci_MaxExecutions = 100, ci_MaxFailures = 20, ci_FailureThreshold = 5, ci_MaxTokens = 0\<rparr>"

definition sample_rt :: runtimeTask where
  "sample_rt = \<lparr>rt_task = new_task ''t1'' ''r1'' (''POST'', ''/v1'') sample_input 0, rt_canceled = False, rt_wake = False,
     rt_pc = R_next, rt_performed = 0\<rparr>"

definition sample_manager :: Manager where
  "sample_manager = put_task ''t1'' sample_rt (RegisterSource ''r1'' (''POST'', ''/v1'') NewManager)"

lemma sample_created:
  "Create ''t1'' ''r1'' sample_input None 0 (RegisterSource ''r1'' (''POST'', ''/v1'') NewManager) =
     (Inr (rt_task sample_rt), sample_manager)"
  by (simp add: Create_def sample_manager_def sample_rt_def sample_input_def validInput_def RegisterSource_def NewManager_def
      hasActiveTaskLocked_def Hour_def Second_def Millisecond_def Let_def)

lemma sample_manager_reachable: "(repeat_step fails)\<^sup>*\<^sup>* NewManager sample_manager"
proof -
  have "repeat_step fails NewManager (RegisterSource ''r1'' (''POST'', ''/v1'') NewManager)" by (rule repeat_step.registered)
  moreover have "repeat_step fails (RegisterSource ''r1'' (''POST'', ''/v1'') NewManager) sample_manager"
    using repeat_step.create [of "''t1''" "RegisterSource ''r1'' (''POST'', ''/v1'') NewManager" None fails "''r1''" sample_input 0]
    by (simp add: sample_created) (simp add: RegisterSource_def NewManager_def)
  ultimately show ?thesis by (meson converse_rtranclp_into_rtranclp rtranclp.rtrancl_refl)
qed

lemma sample_task [simp]: "task_of sample_manager ''t1'' = Some sample_rt"
  by (simp add: sample_manager_def)


text \<open>
  Claim C10: while the journal accepts every write, a task that runs or is paused is served:
  its goroutine has not ended and is not cancelled, so a resume reaches it; and a task never
  starts more executions than its limit allows.
\<close>

theorem live_tasks_served:
  assumes "(repeat_step False)\<^sup>*\<^sup>* NewManager m" "task_of m k = Some rt"
  shows "(active rt \<longrightarrow> \<not> rt_canceled rt \<and> rt_pc rt \<noteq> R_dead \<and> (\<exists>rt'. rt_step False rt rt')) \<and>
     (tk_MaxExecutions (rt_task rt) > 0 \<longrightarrow> rt_performed rt \<le> tk_MaxExecutions (rt_task rt))"
proof -
  have "manager_ok False m" using repeat_system.inv_reachable [OF assms(1)] by blast
  then have ok: "task_ok False rt" using assms(2) by (rule manager_task)
  have "\<exists>rt'. rt_step False rt rt'" if "rt_pc rt \<noteq> R_dead"
    using that rt_step.intros(1) [of rt None False] rt_step.timer [of rt False]
      rt_step.begins [of rt None False] rt_step.finishes [of rt None False]
    by (cases "rt_pc rt") blast+
  with ok show ?thesis by (simp add: task_ok_def Let_def)
qed

theorem live_tasks_served_witness: "\<not> rt_canceled sample_rt \<and> rt_pc sample_rt \<noteq> R_dead"
proof -
  have "active sample_rt" by (simp add: active_def sample_rt_def new_task_def)
  with live_tasks_served [OF sample_manager_reachable sample_task] show ?thesis by blast
qed

text \<open>
  Claim C36: a journal that fails once breaks that promise for good. After a failed write the
  task is paused and its context cancelled, so its goroutine ends; resuming it is accepted
  and reports it as running, a run on demand is accepted too, but nothing executes it.
\<close>

theorem resumed_task_unserved:
  "\<exists>m rt. (repeat_step True)\<^sup>*\<^sup>* NewManager m \<and> task_of m ''t1'' = Some rt \<and> tk_State (rt_task rt) = RepRunning \<and>
     rt_performed rt = 0 \<and> (\<forall>rt'. \<not> rt_step True rt rt') \<and> (\<exists>t. fst (RunNow 9 ''t1'' None m) = Inr t \<and> tk_State t = RepRunning)"
proof -
  define a where "a = run_next None 1 sample_rt"
  define b where "b = a\<lparr>rt_pc := R_begin\<rparr>"
  define c where "c = beginExecution (Some ''disk full'') 1 b"
  define d where "d = run_next None 2 c"
  define e where "e = d\<lparr>rt_pc := R_dead\<rparr>"
  define put where "put rt = put_task ''t1'' rt sample_manager" for rt
  define m where "m = snd (Resume 3 ''t1'' None (put e))"
  have vals: "rt_pc sample_rt = R_next" "rt_pc a = R_wait" "rt_pc b = R_begin" "rt_pc c = R_next" "rt_pc d = R_wait" "rt_canceled d"
    "tk_State (rt_task e) = RepPaused" "rt_performed e = 0"
    by (simp_all add: a_def b_def c_def d_def e_def sample_rt_def run_next_def new_task_def sample_input_def past_deadline_def
        beginExecution_def cancel_task_def degrade_def Hour_def Second_def Millisecond_def Let_def)
  have twice: "put_task ''t1'' y (put x) = put y" for x y
    by (simp add: put_def put_task_def sample_manager_def RegisterSource_def NewManager_def)
  have move: "repeat_step True (put x) (put y)" if "rt_step True x y" for x y
  proof -
    have "task_of (put x) ''t1'' = Some x" by (simp add: put_def)
    from repeat_step.goroutine [OF this that] show ?thesis by (simp add: twice)
  qed
  have first: "put sample_rt = sample_manager"
    by (simp add: put_def sample_manager_def put_task_def RegisterSource_def NewManager_def)
  have "rt_step True sample_rt a" unfolding a_def by (rule rt_step.decides) (simp_all add: vals)
  moreover have "rt_step True a b" unfolding b_def by (rule rt_step.timer) (simp add: vals)
  moreover have "rt_step True b c" unfolding c_def by (rule rt_step.begins) (simp_all add: vals)
  moreover have "rt_step True c d" unfolding d_def by (rule rt_step.decides) (simp_all add: vals)
  moreover have "rt_step True d e" unfolding e_def by (rule rt_step.canceled) (simp_all add: vals)
  ultimately have "(repeat_step True)\<^sup>*\<^sup>* (put sample_rt) (put e)"
    using move by (meson converse_rtranclp_into_rtranclp rtranclp.rtrancl_refl)
  then have "(repeat_step True)\<^sup>*\<^sup>* NewManager (put e)"
    using sample_manager_reachable first by (metis rtranclp_trans)
  moreover have "repeat_step True (put e) m" unfolding m_def by (rule repeat_step.resumed) simp
  ultimately have reach: "(repeat_step True)\<^sup>*\<^sup>* NewManager m" by (rule rtranclp.rtrancl_into_rtrancl)
  define rt where "rt = wake_up (e\<lparr>rt_task := (rt_task e)\<lparr>tk_State := RepRunning, tk_CircuitOpen := False,
     tk_ConsecutiveFailures := 0, tk_StopReason := [], tk_TokenUsageMissing := False, tk_NextRunAt := Some 3\<rparr>\<rparr>)"
  have rt: "task_of m ''t1'' = Some rt" "tk_State (rt_task rt) = RepRunning" "rt_performed rt = 0" "rt_pc rt = R_dead"
    using vals by (simp_all add: m_def Resume_def control_def put_def rt_def wake_up_def) (simp add: e_def)
  have "\<not> rt_step True rt rt'" for rt' using rt(4) by (auto elim: rt_step.cases)
  moreover have "\<exists>t. fst (RunNow 9 ''t1'' None m) = Inr t \<and> tk_State t = RepRunning"
    using rt by (simp add: RunNow_def control_def)
  ultimately show ?thesis using reach rt by blast
qed

text \<open>
  Claim C9: the buttons of the console's list and the gateway agree. For a task of the
  gateway shown with its state, every call that a button makes is accepted and leaves the
  task in the state that the button names, whatever characters the identifier has besides a
  slash; a task that has ended has no button, and the gateway refuses every call on it as
  not found without a change.
\<close>

theorem repeat_buttons_accepted:
  assumes "plain_id ident" "task_of m ident = Some rt" "rtask_id task = ident" "rtask_state task = wire_state (tk_State (rt_task rt))"
  shows "if active rt
     then (\<forall>c \<in> set (task_calls True task). \<exists>t m'. 
             repeatTaskAction (call_verb c) (route_rest ''/repeat-tasks/'' c) None now m = (Replied t, m') \<and>
             map_option rt_task (task_of m' ident) = Some t \<and>
             tk_State t = (if c = api_stopRepeatTask ident then RepStopped
                           else if c = api_repeatTaskAction ident Repeat_Pause then RepPaused else RepRunning)) \<and>
          api_stopRepeatTask ident \<in> set (task_calls True task)
     else task_calls True task = [] \<and>
          (\<forall>c \<in> insert (api_stopRepeatTask ident) (range (api_repeatTaskAction ident)).
             repeatTaskAction (call_verb c) (route_rest ''/repeat-tasks/'' c) None now m = (Rejected 404 ''REPEAT_TASK_NOT_FOUND'', m))"
proof (cases "active rt")
  case True
  then have live: "\<not> terminal (tk_State (rt_task rt))" by (simp add: active_def)
  have neq: "api_repeatTaskAction ident a \<noteq> api_stopRepeatTask ident" for a
    by (simp add: api_stopRepeatTask_def api_repeatTaskAction_def)
  have inj: "api_repeatTaskAction ident a = api_repeatTaskAction ident b \<longleftrightarrow> a = b" for a b
    by (cases a; cases b; simp add: api_repeatTaskAction_def repeat_action_string_def)
  have calls: "c = api_stopRepeatTask ident \<or> (\<exists>a. c = api_repeatTaskAction ident a)" if "c \<in> set (task_calls True task)" for c
    using that assms(3) by (auto simp: task_calls_def)
  have "\<exists>t m'. repeatTaskAction (call_verb c) (route_rest ''/repeat-tasks/'' c) None now m = (Replied t, m') \<and>
             map_option rt_task (task_of m' ident) = Some t \<and>
             tk_State t = (if c = api_stopRepeatTask ident then RepStopped
                           else if c = api_repeatTaskAction ident Repeat_Pause then RepPaused else RepRunning)"
    if "c \<in> set (task_calls True task)" for c
    using calls [OF that]
  proof
    assume "c = api_stopRepeatTask ident"
    then show ?thesis
      using assms(2) live
      by (simp add: call_verbs route_rests action_handled [OF assms(1)] Stop_def control_def end_task_def cancel_task_def)
  next
    assume "\<exists>a. c = api_repeatTaskAction ident a"
    then obtain a where "c = api_repeatTaskAction ident a" by blast
    then show ?thesis
      using assms(2) live
      by (cases a) (simp_all add: call_verbs route_rests action_handled [OF assms(1)] neq inj Pause_def Resume_def RunNow_def
          control_def wake_up_def del: append.simps)
  qed
  moreover have "api_stopRepeatTask ident \<in> set (task_calls True task)"
    using assms(3,4) live by (auto simp: task_calls_def live_task_def wire_live)
  ultimately show ?thesis using True by simp
next
  case False
  then have dead: "terminal (tk_State (rt_task rt))" by (simp add: active_def)
  have "repeatTaskAction (call_verb c) (route_rest ''/repeat-tasks/'' c) None now m = (Rejected 404 ''REPEAT_TASK_NOT_FOUND'', m)"
    if "c \<in> insert (api_stopRepeatTask ident) (range (api_repeatTaskAction ident))" for c
    using that assms(2) dead
    by (auto simp: call_verbs route_rests action_handled [OF assms(1)] Stop_def Pause_def Resume_def RunNow_def control_def
        writeRepeatError_def split: repeat_action.split simp del: append.simps)
  moreover have "task_calls True task = []"
    using assms(4) dead by (auto simp: task_calls_def live_task_def wire_live)
  ultimately show ?thesis using False by simp
qed

theorem repeat_buttons_accepted_witness:
  "\<exists>t m'. repeatTaskAction ''DELETE'' ''t1'' None 5 sample_manager = (Replied t, m') \<and> tk_State t = RepStopped"
proof -
  obtain task :: RepeatTask where task: "rtask_id task = ''t1''" "rtask_state task = wire_state (tk_State (rt_task sample_rt))"
    by (metis RepeatTask.select_convs(1,5))
  have "active sample_rt" by (simp add: active_def sample_rt_def new_task_def)
  moreover have "plain_id ''t1''" by (simp add: plain_id_def)
  ultimately have "\<exists>t m'. repeatTaskAction (call_verb (api_stopRepeatTask ''t1'')) (route_rest ''/repeat-tasks/'' (api_stopRepeatTask ''t1''))
      None 5 sample_manager = (Replied t, m') \<and> tk_State t = RepStopped"
    using repeat_buttons_accepted [OF _ sample_task task, of 5] by auto
  then show ?thesis by (simp add: call_verbs route_rests)
qed

text \<open>The durations that the dialog offers mean the same to the console and to the gateway.\<close>

lemma options_parse:
  "v \<in> set (repeat_intervals @ repeat_durations) \<Longrightarrow> ParseDuration v = Some \<lfloor>durationSeconds v * 1000000000\<rfloor> \<and>
     durationSeconds v = of_int \<lfloor>durationSeconds v\<rfloor> \<and> v \<noteq> []"
proof -
  have "list_all (\<lambda>v. ParseDuration v = Some \<lfloor>durationSeconds v * 1000000000\<rfloor> \<and> durationSeconds v = of_int \<lfloor>durationSeconds v\<rfloor> \<and> v \<noteq> [])
      (repeat_intervals @ repeat_durations)"
    by code_simp
  then show "v \<in> set (repeat_intervals @ repeat_durations) \<Longrightarrow> ?thesis" unfolding list_all_iff by blast
qed

definition seconds_of :: "string \<Rightarrow> int" where
  "seconds_of v = \<lfloor>durationSeconds v\<rfloor>"

lemma option_times:
  "v \<in> set repeat_intervals \<Longrightarrow> ParseDuration v = Some (seconds_of v * Second) \<and> 5 \<le> seconds_of v \<and> seconds_of v \<le> 900"
  "v \<in> set repeat_durations \<Longrightarrow> ParseDuration v = Some (seconds_of v * Second) \<and> 300 \<le> seconds_of v \<and> seconds_of v \<le> 86400 \<and> v \<noteq> []"
proof -
  have parse: "ParseDuration v = Some (seconds_of v * Second)" "of_int (seconds_of v) = durationSeconds v"
    if "v \<in> set (repeat_intervals @ repeat_durations)" for v
  proof -
    note parsed = options_parse [OF that]
    obtain n where n: "durationSeconds v = of_int n" using parsed by metis
    have "\<lfloor>durationSeconds v * 1000000000\<rfloor> = n * 1000000000"
      unfolding n by (metis floor_of_int of_int_mult of_int_numeral)
    then show "ParseDuration v = Some (seconds_of v * Second)"
      using parsed n by (simp add: seconds_of_def Second_def Millisecond_def)
    show "of_int (seconds_of v) = durationSeconds v" by (simp add: seconds_of_def n)
  qed
  show "v \<in> set repeat_intervals \<Longrightarrow> ParseDuration v = Some (seconds_of v * Second) \<and> 5 \<le> seconds_of v \<and> seconds_of v \<le> 900"
    using parse [of v] option_seconds(1) [of v] by (metis Un_iff of_int_le_iff of_int_numeral set_append)
  show "v \<in> set repeat_durations \<Longrightarrow> ParseDuration v = Some (seconds_of v * Second) \<and> 300 \<le> seconds_of v \<and> seconds_of v \<le> 86400 \<and> v \<noteq> []"
    using parse [of v] option_seconds(2) [of v] options_parse [of v] by (metis Un_iff of_int_le_iff of_int_numeral set_append)
qed

text \<open>What the gateway decodes from the body of the dialog.\<close>

definition form_input :: "repeat_form \<Rightarrow> CreateInput" where
  "form_input f =
     \<lparr>ci_Interval = seconds_of (rf_interval f) * Second,
      ci_Duration = (if rf_forever f then 0 else seconds_of (rf_duration f) * Second),
      ci_Idempotency = idempotency_text (rf_idempotency f), ci_ConfirmForever = rf_forever f,
      ci_MaxExecutions = \<lfloor>rf_maxExecutions f\<rfloor>, ci_MaxFailures = \<lfloor>rf_maxFailures f\<rfloor>,
      ci_FailureThreshold = \<lfloor>rf_failureThreshold f\<rfloor>, ci_MaxTokens = \<lfloor>rf_maxTokens f\<rfloor>\<rparr>"

lemma whole_between_int:
  "whole_between (of_int lo) (of_int hi) x \<Longrightarrow> lo \<le> \<lfloor>x\<rfloor> \<and> \<lfloor>x\<rfloor> \<le> hi \<and> x = of_int \<lfloor>x\<rfloor>"
  unfolding whole_between_def by (metis of_int_le_iff)

lemma form_numbers:
  assumes "form_valid f"
  shows "1 \<le> \<lfloor>rf_maxExecutions f\<rfloor> \<and> \<lfloor>rf_maxExecutions f\<rfloor> \<le> 100000" "1 \<le> \<lfloor>rf_maxFailures f\<rfloor> \<and> \<lfloor>rf_maxFailures f\<rfloor> \<le> 100000"
    "1 \<le> \<lfloor>rf_failureThreshold f\<rfloor> \<and> \<lfloor>rf_failureThreshold f\<rfloor> \<le> \<lfloor>rf_maxFailures f\<rfloor>"
    "1 \<le> \<lfloor>rf_maxTokens f\<rfloor> \<and> \<lfloor>rf_maxTokens f\<rfloor> \<le> 1000000000000"
    "rf_maxExecutions f = of_int \<lfloor>rf_maxExecutions f\<rfloor>" "rf_maxFailures f = of_int \<lfloor>rf_maxFailures f\<rfloor>"
    "rf_failureThreshold f = of_int \<lfloor>rf_failureThreshold f\<rfloor>" "rf_maxTokens f = of_int \<lfloor>rf_maxTokens f\<rfloor>"
proof -
  have v: "whole_between (of_int 1) (of_int 100000) (rf_maxExecutions f)" "whole_between (of_int 1) (of_int 100000) (rf_maxFailures f)"
    "whole_between (of_int 1) (of_int 1000000000000) (rf_maxTokens f)" "whole_between 1 (rf_maxFailures f) (rf_failureThreshold f)"
    using assms by (simp_all add: form_valid_def)
  note ints = whole_between_int [OF v(1)] whole_between_int [OF v(2)] whole_between_int [OF v(3)]
  have "whole_between (of_int 1) (of_int \<lfloor>rf_maxFailures f\<rfloor>) (rf_failureThreshold f)" using v(4) ints(2) by (metis of_int_1)
  note th = whole_between_int [OF this]
  show "1 \<le> \<lfloor>rf_maxExecutions f\<rfloor> \<and> \<lfloor>rf_maxExecutions f\<rfloor> \<le> 100000" "1 \<le> \<lfloor>rf_maxFailures f\<rfloor> \<and> \<lfloor>rf_maxFailures f\<rfloor> \<le> 100000"
    "1 \<le> \<lfloor>rf_failureThreshold f\<rfloor> \<and> \<lfloor>rf_failureThreshold f\<rfloor> \<le> \<lfloor>rf_maxFailures f\<rfloor>"
    "1 \<le> \<lfloor>rf_maxTokens f\<rfloor> \<and> \<lfloor>rf_maxTokens f\<rfloor> \<le> 1000000000000"
    "rf_maxExecutions f = of_int \<lfloor>rf_maxExecutions f\<rfloor>" "rf_maxFailures f = of_int \<lfloor>rf_maxFailures f\<rfloor>"
    "rf_failureThreshold f = of_int \<lfloor>rf_failureThreshold f\<rfloor>" "rf_maxTokens f = of_int \<lfloor>rf_maxTokens f\<rfloor>"
    using ints th by blast+
qed

lemma int64_form_value: "0 \<le> n \<Longrightarrow> n \<le> 1000000000000 \<Longrightarrow> int64_ok n"
  by (simp add: int64_ok_def)

lemma dec_repeat_form:
  assumes "form_valid f"
  shows "dec_repeat (repeat_input f) =
     Some (rf_interval f, if rf_forever f then [] else rf_duration f, (form_input f)\<lparr>ci_Interval := 0, ci_Duration := 0\<rparr>)"
proof -
  note nums = form_numbers [OF assms]
  have "known_fields repeat_fields (repeat_input f)" by (simp add: repeat_fields_def repeat_input_def known_append)
  moreover have "int64_ok \<lfloor>rf_maxExecutions f\<rfloor>" "int64_ok \<lfloor>rf_maxFailures f\<rfloor>" "int64_ok \<lfloor>rf_failureThreshold f\<rfloor>" "int64_ok \<lfloor>rf_maxTokens f\<rfloor>"
    using nums(1-4) by (intro int64_form_value; linarith)+
  ultimately show ?thesis
    using nums(5-8) by (simp add: dec_repeat_def repeat_input_def prop_Cons form_input_def nullish_def)
qed

lemma valid_form_input:
  assumes "form_ok f" "form_valid f"
  shows "validInput (form_input f) \<longleftrightarrow> \<lfloor>rf_failureThreshold f\<rfloor> \<le> 1000"
proof -
  have t: "5 \<le> seconds_of (rf_interval f)" "seconds_of (rf_interval f) \<le> 900" "300 \<le> seconds_of (rf_duration f)" "seconds_of (rf_duration f) \<le> 86400"
    using option_times assms(1) by (auto simp: form_ok_def)
  have idem: "idempotency_text i = ''preserve'' \<or> idempotency_text i = ''regenerate''" for i by (cases i) (simp_all add: idempotency_text_def)
  show ?thesis
    using t form_numbers(1-4) [OF assms(2)] idem [of "rf_idempotency f"]
    by (auto simp: validInput_def form_input_def Hour_def Second_def Millisecond_def)
qed

lemma create_from_form:
  assumes "form_ok f" "form_valid f" "RequestInfo_of rid r = Some (info, actions)" "ra_canRepeat actions"
  shows "createRepeatTask ident rid (JObj (repeat_input f)) err now r m =
     (case Create ident rid (form_input f) err now m of (Inl e, m') \<Rightarrow> (writeRepeatError e, m') | (Inr task, m') \<Rightarrow> (Replied task, m'))"
proof -
  have iv: "ParseDuration (rf_interval f) = Some (seconds_of (rf_interval f) * Second)"
    and du: "ParseDuration (rf_duration f) = Some (seconds_of (rf_duration f) * Second)" "rf_duration f \<noteq> []"
    using option_times assms(1) by (simp_all add: form_ok_def)
  show ?thesis
    using assms(3,4) iv du by (simp add: createRepeatTask_def dec_repeat_form [OF assms(2)]) (simp add: form_input_def)
qed

text \<open>
  Claim C8: what the repeat dialog sends is what the gateway runs. For a request that can be
  repeated, whose source is registered and has no active task, every form that the dialog
  submits with a failure threshold of at most 1000 is accepted, and the task has the
  interval, the deadline and the limits the form shows. The dialog also lets a threshold
  between 1001 and the number of failures through, up to 100000, and the gateway refuses
  every one of those as invalid.
\<close>

theorem dialog_task_created:
  assumes "form_step\<^sup>*\<^sup>* new_repeat f"
    "Rep_call (api_createRepeatTask rid body) \<in> set (snd (submit_repeat tr rid agreed answer refreshed f))"
    "RequestInfo_of rid r = Some (info, actions)" "ra_canRepeat actions" "mg_sources m rid = Some template" "\<not> mg_closed m"
    "\<not> hasActiveTaskLocked rid m"
  shows "if rf_failureThreshold f \<le> 1000
     then \<exists>task m'. createRepeatTask ident rid body None now r m = (Replied task, m') \<and>
            map_option rt_task (task_of m' ident) = Some task \<and> tk_State task = RepRunning \<and> tk_SourceRequestID task = rid \<and>
            of_int (tk_IntervalMilliseconds task) = 1000 * durationSeconds (rf_interval f) \<and>
            tk_Deadline task = (if rf_forever f then None else Some (now + \<lfloor>durationSeconds (rf_duration f)\<rfloor> * Second)) \<and>
            of_int (tk_MaxExecutions task) = rf_maxExecutions f \<and> of_int (tk_MaxFailures task) = rf_maxFailures f \<and>
            of_int (tk_FailureThreshold task) = rf_failureThreshold f \<and> of_int (tk_MaxTokens task) = rf_maxTokens f
     else createRepeatTask ident rid body None now r m = (Rejected 400 ''INVALID_REPEAT_TASK'', m)"
proof -
  have ok: "form_ok f" using form_system.inv_reachable [OF assms(1)] by blast
  have valid: "form_valid f" and body: "body = JObj (repeat_input f)"
    using assms(2) by (auto simp: submit_repeat_def api_createRepeatTask_def split: if_splits sum.splits)
  note created = create_from_form [OF ok valid assms(3,4), of ident None now m]
  note nums = form_numbers [OF valid]
  have limit: "rf_failureThreshold f \<le> 1000 \<longleftrightarrow> \<lfloor>rf_failureThreshold f\<rfloor> \<le> 1000"
    using nums(7) by (metis of_int_le_iff of_int_numeral)
  show ?thesis
  proof (cases "rf_failureThreshold f \<le> 1000")
    case True
    then have input: "validInput (form_input f)" using valid_form_input [OF ok valid] limit by simp
    have iv: "rf_interval f \<in> set (repeat_intervals @ repeat_durations)" using ok by (simp add: form_ok_def)
    have secs: "of_int (seconds_of (rf_interval f)) = durationSeconds (rf_interval f)"
      using options_parse [OF iv] by (simp add: seconds_of_def)
    have pos: "0 < seconds_of (rf_duration f) * Second"
      using option_times(2) [of "rf_duration f"] ok by (simp add: form_ok_def Second_def Millisecond_def)
    have ms: "Milliseconds (seconds_of v * Second) = seconds_of v * 1000" if "v \<in> set repeat_intervals" for v
      using option_times(1) [OF that] by (simp add: Milliseconds_def Second_def Millisecond_def)
    have "rf_interval f \<in> set repeat_intervals" using ok by (simp add: form_ok_def)
    note ms = ms [OF this]
    show ?thesis
      using True input assms(5-7) created nums(5-8) secs pos
      by (simp add: body Create_def Let_def new_task_def form_input_def ms) (simp add: seconds_of_def)
  next
    case False
    then have "\<not> validInput (form_input f)" using valid_form_input [OF ok valid] limit by simp
    with False created show ?thesis by (simp add: body Create_def writeRepeatError_def)
  qed
qed

theorem dialog_task_created_witness:
  "\<exists>task m'. createRepeatTask ''t1'' ''r1'' (JObj (repeat_input new_repeat)) None 7 sample_added
       (RegisterSource ''r1'' (''POST'', ''/v1'') NewManager) = (Replied task, m') \<and> tk_Deadline task = Some (7 + 3600 * Second)"
proof -
  have valid: "form_valid new_repeat" by (simp add: form_valid_def new_repeat_def whole_between_def)
  have sent: "Rep_call (api_createRepeatTask ''r1'' (JObj (repeat_input new_repeat))) \<in>
      set (snd (submit_repeat (\<lambda>k a. k) ''r1'' True (Inr ()) (Inr ()) new_repeat))"
    using valid by (simp add: submit_repeat_def new_repeat_def)
  have "\<exists>info. RequestInfo_of ''r1'' sample_added = Some (info, actionsForState StateQueued)"
    by (simp add: RequestInfo_of_def sample_added_def AddWithIdentityChecked_def new_request_def)
  then obtain info where info: "RequestInfo_of ''r1'' sample_added = Some (info, actionsForState StateQueued)" by blast
  have hour: "\<lfloor>durationSeconds ''1h''\<rfloor> = 3600" by code_simp
  have form: "rf_failureThreshold new_repeat \<le> 1000" "\<not> rf_forever new_repeat" "rf_duration new_repeat = ''1h''"
    by (simp_all add: new_repeat_def)
  have "ra_canRepeat (actionsForState StateQueued)" "mg_sources (RegisterSource ''r1'' (''POST'', ''/v1'') NewManager) ''r1'' = Some (''POST'', ''/v1'')"
    "\<not> mg_closed (RegisterSource ''r1'' (''POST'', ''/v1'') NewManager)"
    "\<not> hasActiveTaskLocked ''r1'' (RegisterSource ''r1'' (''POST'', ''/v1'') NewManager)"
    by (simp_all add: actionsForState_def RegisterSource_def NewManager_def hasActiveTaskLocked_def)
  from dialog_task_created [OF rtranclp.rtrancl_refl sent info this, of "''t1''" 7] show ?thesis
    using form hour by auto
qed

end
