(* ===== verification/Markup.thy ===== *)
theory Markup
  imports Format Json
begin

text \<open>
  What the components of the console draw: trees of elements with attributes, children and
  event handlers. A handler maps the value of the control it stands on to an effect of the
  caller's choice, as the callbacks in the properties of a component do. Icons are elements
  without content. The keys and references that React keeps to itself and the sizes of icons are left
  out, an attribute that is \<open>undefined\<close> is absent, and \<open>false\<close>, \<open>null\<close> and the empty text draw nothing.
\<close>

section \<open>Trees\<close>

datatype attr = AStr string | ABool bool | AInt int

datatype 'e node =
    Txt string
  | El string "(string \<times> attr) list" "(string \<times> (string \<Rightarrow> 'e)) list" "'e node list"

definition is_disabled :: "(string \<times> attr) list \<Rightarrow> bool" where
  "is_disabled as \<longleftrightarrow> map_of as ''disabled'' = Some (ABool True)"

text \<open>The handlers a user can reach: a disabled control has none.\<close>

fun handlers :: "'e node \<Rightarrow> (string \<Rightarrow> 'e) list" where
  "handlers (Txt s) = []"
| "handlers (El t as hs cs) = (if is_disabled as then [] else map snd hs) @ concat (map handlers cs)"

text \<open>The effects that a user can cause on a tree, whatever is typed.\<close>

definition offered :: "'e node \<Rightarrow> 'e set" where
  "offered n = (\<Union>h \<in> set (handlers n). range h)"

text \<open>The text that a tree shows, in order.\<close>

fun shown :: "'e node \<Rightarrow> string list" where
  "shown (Txt s) = [s]"
| "shown (El t as hs cs) = concat (map shown cs)"

definition shown_all :: "'e node list \<Rightarrow> string list" where
  "shown_all ns = concat (map shown ns)"

definition offered_all :: "'e node list \<Rightarrow> 'e set" where
  "offered_all ns = (\<Union>n \<in> set ns. offered n)"

section \<open>Building trees\<close>

definition tag :: "string \<Rightarrow> 'e node list \<Rightarrow> 'e node" where
  "tag t cs = El t [] [] cs"

definition ctag :: "string \<Rightarrow> string \<Rightarrow> 'e node list \<Rightarrow> 'e node" where
  "ctag t c cs = El t [(''className'', AStr c)] [] cs"

definition icon :: "string \<Rightarrow> 'e node" where
  "icon name = El name [] [] []"

definition button :: "string \<Rightarrow> (string \<times> attr) list \<Rightarrow> 'e \<Rightarrow> 'e node list \<Rightarrow> 'e node" where
  "button c as e cs = El ''button'' ((''className'', AStr c) # as) [(''onClick'', \<lambda>_. e)] cs"

text \<open>The submission of a form stands on its submit button, which blocks it when it is disabled.\<close>

definition submit_button :: "string \<Rightarrow> bool \<Rightarrow> 'e \<Rightarrow> 'e node list \<Rightarrow> 'e node" where
  "submit_button c disabled e cs = El ''button'' [(''className'', AStr c), (''disabled'', ABool disabled)] [(''onSubmit'', \<lambda>_. e)] cs"

definition control_el :: "string \<Rightarrow> (string \<times> attr) list \<Rightarrow> (string \<Rightarrow> 'e) \<Rightarrow> 'e node list \<Rightarrow> 'e node" where
  "control_el t as h cs = El t as [(''onChange'', h)] cs"

definition when_shown :: "bool \<Rightarrow> 'e node list \<Rightarrow> 'e node list" where
  "when_shown b ns = (if b then ns else [])"

definition text_of :: "string \<Rightarrow> 'e node list" where
  "text_of s = (if s = [] then [] else [Txt s])"

definition dot :: string where
  "dot = [CHR '' '', CHR 0xC2, CHR 0xB7, CHR '' '']"

lemma offered_simps [simp]:
  "offered (Txt s) = {}"
  "offered (El t as hs cs) = (if is_disabled as then {} else \<Union>h \<in> set hs. range (snd h)) \<union> offered_all cs"
  by (auto simp: offered_def offered_all_def)

lemma offered_all_simps [simp]:
  "offered_all [] = {}" "offered_all (n # ns) = offered n \<union> offered_all ns" "offered_all (ms @ ns) = offered_all ms \<union> offered_all ns"
  "offered_all (map f xs) = (\<Union>x \<in> set xs. offered (f x))" "offered_all (concat (map g xs)) = (\<Union>x \<in> set xs. offered_all (g x))"
  by (auto simp: offered_all_def)

lemma is_disabled_simps [simp]:
  "\<not> is_disabled []"
  "is_disabled ((k, v) # as) \<longleftrightarrow> (if k = ''disabled'' then v = ABool True else is_disabled as)"
  by (auto simp: is_disabled_def)

lemma is_disabled_append: "is_disabled (as @ bs) = (if ''disabled'' \<in> fst ` set as then is_disabled as else is_disabled bs)"
proof (cases "''disabled'' \<in> fst ` set as")
  case True
  then obtain v where "map_of as ''disabled'' = Some v" by (metis map_of_eq_None_iff not_None_eq)
  with True show ?thesis by (simp add: is_disabled_def)
next
  case False
  then have "map_of as ''disabled'' = None" by (simp add: map_of_eq_None_iff)
  with False show ?thesis by (simp add: is_disabled_def map_add_def)
qed

lemma build_offered [simp]:
  "offered (tag t cs) = offered_all cs" "offered (ctag t c cs) = offered_all cs" "offered (icon name) = {}"
  "offered (button c as e cs) = (if is_disabled as then {} else {e}) \<union> offered_all cs"
  "offered (control_el t as h cs) = (if is_disabled as then {} else range h) \<union> offered_all cs"
  "offered (submit_button c b e cs) = (if b then {} else {e}) \<union> offered_all cs"
  "offered_all (when_shown b ns) = (if b then offered_all ns else {})" "offered_all (text_of s) = {}"
  by (auto simp: tag_def ctag_def icon_def button_def submit_button_def control_el_def when_shown_def text_of_def)

lemma shown_simps [simp]:
  "shown (tag t cs) = shown_all cs" "shown (ctag t c cs) = shown_all cs" "shown (icon name) = []"
  "shown (button c as e cs) = shown_all cs" "shown (control_el t as h cs) = shown_all cs"
  "shown (submit_button c b e cs) = shown_all cs"
  "shown_all [] = []" "shown_all (n # ns) = shown n @ shown_all ns" "shown_all (ms @ ns) = shown_all ms @ shown_all ns"
  "shown_all (map f xs) = concat (map (shown \<circ> f) xs)"
  by (simp_all add: tag_def ctag_def icon_def button_def submit_button_def control_el_def shown_all_def)

text \<open>A labelled field, and the choice of one of several values.\<close>

definition field :: "string \<Rightarrow> 'e node list \<Rightarrow> 'e node" where
  "field name cs = ctag ''label'' ''field'' (tag ''span'' [Txt name] # cs)"

definition option_el :: "string \<times> string \<Rightarrow> 'e node" where
  "option_el o1 = El ''option'' [(''value'', AStr (fst o1))] [] [Txt (snd o1)]"

definition select_el :: "string \<Rightarrow> (string \<times> attr) list \<Rightarrow> (string \<Rightarrow> 'e) \<Rightarrow> (string \<times> string) list \<Rightarrow> 'e node" where
  "select_el v as h options = control_el ''select'' ((''value'', AStr v) # as) h (map option_el options)"

definition heading :: "string \<Rightarrow> string \<Rightarrow> 'e node" where
  "heading title description = tag ''div'' [tag ''h2'' [Txt title], tag ''p'' [Txt description]]"

lemma field_offered [simp]:
  "offered (field name cs) = offered_all cs" "offered (option_el o1) = {}" "offered (heading title description) = {}"
  "offered (select_el v as h options) = (if is_disabled as then {} else range h)"
  by (auto simp: field_def option_el_def heading_def select_el_def)

section \<open>What drawing needs from the browser\<close>

record render_env =
  en_tr :: translate
  en_clock :: "string \<Rightarrow> int option \<Rightarrow> string"
  en_local_time :: "string \<Rightarrow> int option \<Rightarrow> string"
  en_local :: "string \<Rightarrow> int option \<Rightarrow> string"
  en_ms_of :: "string \<Rightarrow> int option"
  en_utc_year :: "int \<Rightarrow> int"
  en_year :: "string \<Rightarrow> int option"
  en_locale :: string
  en_now :: int
  en_number :: "rat \<Rightarrow> string"
  en_json :: "json \<Rightarrow> string"

definition label :: "render_env \<Rightarrow> string \<Rightarrow> string" where
  "label env key = en_tr env key []"

definition label_with :: "render_env \<Rightarrow> string \<Rightarrow> (string \<times> string) list \<Rightarrow> string" where
  "label_with env key args = en_tr env key args"

text \<open>\<open>t(key, { defaultValue })\<close>\<close>

definition label_or :: "render_env \<Rightarrow> string \<Rightarrow> string \<Rightarrow> string" where
  "label_or env key fallback = en_tr env key [(''defaultValue'', fallback)]"

definition optional_time :: "render_env \<Rightarrow> string option \<Rightarrow> string \<Rightarrow> string" where
  "optional_time env v fallback = formatOptionalTime (en_local_time env) (en_ms_of env) (en_utc_year env) v (en_locale env) fallback"

definition age_text :: "render_env \<Rightarrow> string \<Rightarrow> string" where
  "age_text env v = formatAge (en_tr env) (en_ms_of env) (en_now env) v"

definition time_text :: "render_env \<Rightarrow> string \<Rightarrow> string" where
  "time_text env v = formatTime (en_clock env) (en_ms_of env) (en_locale env) v"

definition duration_text :: "render_env \<Rightarrow> string \<Rightarrow> string option \<Rightarrow> string" where
  "duration_text env start finish = formatDuration (en_tr env) (en_ms_of env) (en_now env) start finish"

text \<open>\<open>new Date(v).toLocaleString(locale)\<close> and \<open>toLocaleTimeString\<close>\<close>

definition local_text :: "render_env \<Rightarrow> string \<Rightarrow> string" where
  "local_text env v = en_local env (en_locale env) (en_ms_of env v)"

definition local_time_text :: "render_env \<Rightarrow> string \<Rightarrow> string" where
  "local_time_text env v = en_local_time env (en_locale env) (en_ms_of env v)"

definition tooltip :: "string \<Rightarrow> (string \<times> attr) list" where
  "tooltip s = [(''data-tooltip'', AStr s), (''aria-label'', AStr s)]"

lemma tooltip_enabled [simp]: "is_disabled (tooltip s @ as) = is_disabled as" "is_disabled (tooltip s) = False"
  by (simp_all add: tooltip_def)

end
