(* ===== verification/RequestsMarkup.thy ===== *)
theory RequestsMarkup
  imports Markup Requests Repeat UncertainDialog
begin

text \<open>
  What the request list draws: web/src/components/RequestsTable.tsx, RepeatTasksPanel.tsx and the
  view around them, web/src/views/RequestsView.tsx, and which of its controls a session can use.
\<close>

section \<open>The table\<close>

record 'e table_events =
  te_toggle :: "string \<Rightarrow> 'e"
  te_toggleAll :: 'e
  te_open :: "string \<Rightarrow> 'e"
  te_retry :: "RequestInfo \<Rightarrow> 'e"
  te_policy :: "RequestInfo \<Rightarrow> 'e"
  te_repeat :: "RequestInfo \<Rightarrow> 'e"
  te_cancel :: "RequestInfo \<Rightarrow> 'e"
  te_resolve :: "(RequestInfo \<Rightarrow> 'e) option"

definition cell :: "render_env \<Rightarrow> string \<Rightarrow> 'e node list \<Rightarrow> 'e node" where
  "cell env key cs = El ''td'' [(''data-label'', AStr (label env key))] [] cs"

definition identity_lines :: "render_env \<Rightarrow> string option \<Rightarrow> string option \<Rightarrow> 'e node list" where
  "identity_lines env taskId clientId =
     when_shown (truthy_string taskId)
       [ctag ''span'' ''subtle client-identity'' [Txt (label env ''requests:identity.task''), Txt '': '', Txt (nullish taskId [])]] @
     when_shown (truthy_string clientId)
       [ctag ''span'' ''subtle client-identity'' [Txt (label env ''requests:identity.client''), Txt '': '', Txt (nullish clientId [])]]"

definition policy_text :: "render_env \<Rightarrow> RetryPolicyInfo \<Rightarrow> 'e node list" where
  "policy_text env policy =
     [tag ''strong'' [Txt (intervalLabel (en_tr env) policy)],
      tag ''span''
       (text_of (if rpi_state policy = RetryPolicyInfo_state_Pending then label env ''requests:retryPolicy.pending''
                 else if truthy_string (rpi_deadline policy)
                 then label_with env ''requests:retryPolicy.until'' [(''time'', optional_time env (rpi_deadline policy) [CHR 0xE2, CHR 0x80, CHR 0x94])]
                 else []) @
        text_of (if or_int (rpi_maxAdditionalAttempts policy) 0 \<noteq> 0
                 then dot @ label_with env ''requests:retryPolicy.remaining'' [(''count'', int_string (or_int (rpi_remainingAdditionalAttempts policy) 0))]
                 else []))]"

definition policy_button :: "render_env \<Rightarrow> 'e table_events \<Rightarrow> bool \<Rightarrow> RequestInfo \<Rightarrow> 'e node" where
  "policy_button env ev canOperate r =
     button ''policy-summary'' [(''disabled'', ABool (\<not> canOperate \<or> \<not> canSetPolicy r))] (te_policy ev r)
       (case policyFor (en_year env) (en_ms_of env) (en_now env) r of
          Some policy \<Rightarrow> policy_text env policy
        | None \<Rightarrow> [tag ''span'' [Txt (label env ''requests:retryPolicy.globalDefault'')]])"

definition resolve_button :: "render_env \<Rightarrow> 'e table_events \<Rightarrow> RequestInfo \<Rightarrow> 'e node list" where
  "resolve_button env ev r =
     (case te_resolve ev of
        None \<Rightarrow> []
      | Some onResolve \<Rightarrow>
          when_shown (isUncertain r)
            [button ''icon-button uncertain-action'' (tooltip (label env ''requests:uncertain.resolveAction'')) (onResolve r) [icon ''ShieldAlert'']])"

definition row_actions :: "render_env \<Rightarrow> 'e table_events \<Rightarrow> bool \<Rightarrow> RequestInfo \<Rightarrow> 'e node" where
  "row_actions env ev canOperate r =
     ctag ''div'' ''row-actions''
       ([button ''icon-button'' (tooltip (label env ''common:actions.openTimeline'')) (te_open ev (req_id r)) [icon ''ListTree'']] @
        resolve_button env ev r @
        when_shown canOperate
          [button ''icon-button'' [(''disabled'', ABool (\<not> canRetry r)),
             (''data-tooltip'', AStr (if canRetry r then label env ''common:actions.retry'' else label env ''requests:retryPolicy.retryUnavailable'')),
             (''aria-label'', AStr (label env ''common:actions.retry''))] (te_retry ev r) [icon ''TimerReset'']] @
        when_shown canOperate
          [button ''icon-button'' ((''disabled'', ABool (\<not> canSetPolicy r)) # tooltip (label env ''requests:retryPolicy.action''))
             (te_policy ev r) [icon ''Settings2'']] @
        when_shown canOperate
          [button ''icon-button'' ((''disabled'', ABool (\<not> canRepeat r)) # tooltip (label env ''requests:repeat.action''))
             (te_repeat ev r) [icon ''Repeat2'']] @
        when_shown canOperate
          [button ''icon-button danger''
             ((''disabled'', ABool (isUncertain r \<or> (case req_actions r of Some a \<Rightarrow> \<not> ra_canCancel a | None \<Rightarrow> False))) #
              tooltip (label env ''common:actions.cancel'')) (te_cancel ev r) [icon ''Square'']])"

definition request_row :: "render_env \<Rightarrow> 'e table_events \<Rightarrow> bool \<Rightarrow> string list \<Rightarrow> RequestInfo \<Rightarrow> 'e node" where
  "request_row env ev canOperate selected r =
     ctag ''tr'' ((if req_id r \<in> set selected then ''selected '' else []) @ (if isUncertain r then ''uncertain-row'' else []))
       (when_shown canOperate
          [El ''td'' [(''className'', AStr ''selection-column''), (''data-label'', AStr (label env ''requests:batch.select''))] []
             [control_el ''input'' [(''type'', AStr ''checkbox''), (''checked'', ABool (req_id r \<in> set selected)),
                (''aria-label'', AStr (label_with env ''requests:batch.selectRequest'' [(''id'', req_id r)]))] (\<lambda>_. te_toggle ev (req_id r)) []]] @
        [El ''td'' [(''className'', AStr ''request-cell''), (''data-label'', AStr (label env ''requests:columns.request''))] []
           ([tag ''strong'' [Txt (req_method r), Txt '' '', Txt (req_path r)], ctag ''span'' ''subtle'' [Txt (req_id r)]] @
            identity_lines env (req_taskId r) (req_clientId r)),
         cell env ''requests:columns.status''
           ([ctag ''span'' (''status '' @ req_state r) [Txt (label_or env (''common:status.'' @ req_state r) (req_state r))]] @
            when_shown (truthy_string (req_lastError r)) [ctag ''span'' ''subtle'' [Txt (nullish (req_lastError r) [])]]),
         cell env ''requests:columns.attempts'' [Txt (int_string (req_attempt r))],
         cell env ''requests:columns.duration'' [Txt (age_text env (req_startedAt r))],
         cell env ''requests:columns.nextRetry'' [Txt (optional_time env (req_nextRetryAt r) (label env ''common:notAvailable''))],
         cell env ''requests:columns.policy'' [policy_button env ev canOperate r],
         cell env ''requests:columns.actions'' [row_actions env ev canOperate r]])"

definition empty_state :: "string \<Rightarrow> string \<Rightarrow> string \<Rightarrow> 'e node" where
  "empty_state c i text = ctag ''div'' c [icon i, tag ''span'' [Txt text]]"

definition RequestsTable :: "render_env \<Rightarrow> 'e table_events \<Rightarrow> bool \<Rightarrow> string list \<Rightarrow> RequestInfo list \<Rightarrow> 'e node" where
  "RequestsTable env ev canOperate selected requests =
     (if requests = [] then empty_state ''empty-state request-empty'' ''Activity'' (label env ''requests:emptyActive'')
      else ctag ''div'' ''table-wrap responsive-table''
        [tag ''table''
          [tag ''thead'' [tag ''tr''
             (when_shown canOperate
                [ctag ''th'' ''selection-column'' [control_el ''input'' [(''type'', AStr ''checkbox''),
                   (''checked'', ABool (\<forall>r \<in> set requests. req_id r \<in> set selected)),
                   (''aria-label'', AStr (label env ''requests:batch.selectAll''))] (\<lambda>_. te_toggleAll ev) []]] @
              map (\<lambda>key. tag ''th'' [Txt (label env (''requests:columns.'' @ key))])
                [''request'', ''status'', ''attempts'', ''duration'', ''nextRetry'', ''policy''] @
              [El ''th'' [(''aria-label'', AStr (label env ''requests:columns.actions''))] [] []])],
           tag ''tbody'' (map (request_row env ev canOperate selected) requests)]])"

text \<open>Exactly the effects that the table offers.\<close>

lemma row_offered:
  "offered (request_row env ev canOperate selected r) =
     {te_open ev (req_id r)} \<union> (case te_resolve ev of Some f \<Rightarrow> if isUncertain r then {f r} else {} | None \<Rightarrow> {}) \<union>
     (if canOperate
      then {te_toggle ev (req_id r)} \<union> (if canRetry r then {te_retry ev r} else {}) \<union> (if canSetPolicy r then {te_policy ev r} else {}) \<union>
           (if canRepeat r then {te_repeat ev r} else {}) \<union> (if canCancel r then {te_cancel ev r} else {})
      else {})"
proof -
  have texts: "offered_all (identity_lines env a b :: 'a node list) = {}" "offered_all (policy_text env p :: 'a node list) = {}" for a b p
    by (simp_all add: identity_lines_def policy_text_def)
  have pol: "offered (policy_button env ev canOperate r) = (if canOperate \<and> canSetPolicy r then {te_policy ev r} else {})"
    by (simp add: policy_button_def texts split: option.split)
  have res: "offered_all (resolve_button env ev r) = (case te_resolve ev of Some f \<Rightarrow> if isUncertain r then {f r} else {} | None \<Rightarrow> {})"
    by (simp add: resolve_button_def split: option.split)
  show ?thesis
    unfolding request_row_def row_actions_def cell_def canCancel_def [of r]
    by (simp add: texts pol res)
qed

theorem table_offered:
  "offered (RequestsTable env ev canOperate selected requests) =
     (\<Union>r \<in> set requests. {te_open ev (req_id r)} \<union> (case te_resolve ev of Some f \<Rightarrow> if isUncertain r then {f r} else {} | None \<Rightarrow> {})) \<union>
     (if canOperate \<and> requests \<noteq> []
      then insert (te_toggleAll ev) (\<Union>r \<in> set requests. {te_toggle ev (req_id r)} \<union> (if canRetry r then {te_retry ev r} else {}) \<union>
             (if canSetPolicy r then {te_policy ev r} else {}) \<union> (if canRepeat r then {te_repeat ev r} else {}) \<union>
             (if canCancel r then {te_cancel ev r} else {}))
      else {})"
  by (cases "requests = []") (auto simp: RequestsTable_def empty_state_def row_offered)

section \<open>Repeat tasks\<close>

text \<open>\<open>act\<close> is what a button of a row does with its call.\<close>

definition repeat_state_text :: "RepeatTaskState \<Rightarrow> string" where
  "repeat_state_text s =
     (case s of RepeatTaskState_Running \<Rightarrow> ''running'' | RepeatTaskState_Paused \<Rightarrow> ''paused'' | RepeatTaskState_Stopped \<Rightarrow> ''stopped''
      | RepeatTaskState_Expired \<Rightarrow> ''expired'' | RepeatTaskState_Interrupted \<Rightarrow> ''interrupted'')"

definition figure :: "string \<Rightarrow> string \<Rightarrow> string \<Rightarrow> 'e node" where
  "figure c name value_text = El ''span'' (if c = [] then [] else [(''className'', AStr c)]) [] [tag ''small'' [Txt name], tag ''strong'' [Txt value_text]]"

definition task_row :: "render_env \<Rightarrow> (api_call \<Rightarrow> 'e) \<Rightarrow> bool \<Rightarrow> RepeatTask \<Rightarrow> 'e node" where
  "task_row env act canOperate task =
     (let running = rtask_state task = RepeatTaskState_Running; paused = rtask_state task = RepeatTaskState_Paused;
          state = repeat_state_text (rtask_state task)
      in tag ''tr''
        [cell env ''requests:repeat.task''
           [tag ''strong'' [Txt (rtask_method task), Txt '' '', Txt (rtask_path task)],
            ctag ''span'' ''subtle''
              ([Txt (rtask_id task), Txt dot, Txt (int_string (js_round (of_int (rtask_intervalMilliseconds task) / 1000))), Txt ''s ''] @
               when_shown (rtask_durationMilliseconds task = 0) [icon ''InfinityIcon''])],
         cell env ''requests:columns.status''
           ([ctag ''span'' (''status repeat-'' @ state) [Txt (label env (''requests:repeat.states.'' @ state))]] @
            when_shown (rtask_inFlight task) [ctag ''span'' ''subtle'' [Txt (label env ''requests:repeat.inFlight'')]] @
            when_shown (rtask_circuitOpen task = Some True)
              [ctag ''span'' ''subtle danger-text'' [Txt (label_with env ''requests:repeat.circuitOpen''
                 [(''count'', case rtask_consecutiveFailures task of Some n \<Rightarrow> int_string n | None \<Rightarrow> ''undefined'')])]] @
            when_shown (truthy_string (rtask_stopReason task) \<and> rtask_circuitOpen task \<noteq> Some True)
              [ctag ''span'' ''subtle'' [Txt (label_or env (''requests:repeat.stopReasons.'' @ nullish (rtask_stopReason task) [])
                 (nullish (rtask_stopReason task) []))]]),
         cell env ''requests:repeat.results'' [ctag ''div'' ''repeat-results''
           [figure [] (label env ''requests:repeat.total'')
              (int_string (rtask_executions task) @
               (if or_int (rtask_maxExecutions task) 0 \<noteq> 0 then '' / '' @ int_string (or_int (rtask_maxExecutions task) 0) else [])),
            figure ''success-text'' (label env ''requests:repeat.success'') (int_string (rtask_successes task)),
            figure ''danger-text'' (label env ''requests:repeat.failure'') (int_string (rtask_failures task)),
            (if or_int (rtask_maxTokens task) 0 \<noteq> 0
             then figure (if rtask_tokenUsageMissing task = Some True then ''danger-text'' else []) (label env ''requests:repeat.tokens'')
                    (int_string (or_int (rtask_tokensUsed task) 0) @ '' / '' @ int_string (or_int (rtask_maxTokens task) 0))
             else figure [] (label env ''requests:repeat.tokens'') (label env ''requests:repeat.unlimited''))]],
         cell env ''requests:repeat.nextRun'' [Txt (optional_time env (rtask_nextRunAt task) [CHR 0xE2, CHR 0x80, CHR 0x94])],
         cell env ''requests:columns.actions'' [ctag ''div'' ''row-actions''
           (when_shown (canOperate \<and> running)
              [button ''icon-button'' (tooltip (label env ''requests:repeat.pause'')) (act (api_repeatTaskAction (rtask_id task) Repeat_Pause)) [icon ''Pause'']] @
            when_shown (canOperate \<and> paused)
              [button ''icon-button'' (tooltip (label env ''requests:repeat.resume'')) (act (api_repeatTaskAction (rtask_id task) Repeat_Resume)) [icon ''Play'']] @
            when_shown (canOperate \<and> (running \<or> paused))
              [button ''icon-button'' (tooltip (label env ''requests:repeat.runNow'')) (act (api_repeatTaskAction (rtask_id task) Repeat_Run)) [icon ''RotateCcw'']] @
            when_shown (canOperate \<and> (running \<or> paused))
              [button ''icon-button danger'' (tooltip (label env ''requests:repeat.stop'')) (act (api_stopRepeatTask (rtask_id task))) [icon ''Square'']])]])"

definition taskTable :: "render_env \<Rightarrow> (api_call \<Rightarrow> 'e) \<Rightarrow> bool \<Rightarrow> RepeatTask list \<Rightarrow> 'e node" where
  "taskTable env act canOperate items =
     ctag ''div'' ''table-wrap responsive-table''
       [tag ''table''
         [tag ''thead'' [tag ''tr''
            (map (\<lambda>key. tag ''th'' [Txt (label env key)]) [''requests:repeat.task'', ''requests:columns.status'', ''requests:repeat.results'', ''requests:repeat.nextRun''] @
             [El ''th'' [(''aria-label'', AStr (label env ''requests:columns.actions''))] [] []])],
          tag ''tbody'' (map (task_row env act canOperate) items)]]"

definition RepeatTasksPanel :: "render_env \<Rightarrow> (api_call \<Rightarrow> 'e) \<Rightarrow> bool \<Rightarrow> RepeatTask list \<Rightarrow> 'e node list" where
  "RepeatTasksPanel env act canOperate tasks =
     (if tasks = [] then []
      else [ctag ''section'' ''content-section repeat-tasks-section''
        ([ctag ''div'' ''section-heading''
            [tag ''div'' [tag ''h2'' [Txt (label env ''requests:repeat.tasksTitle'')], tag ''p'' [Txt (label env ''requests:repeat.tasksDescription'')]],
             tag ''span'' [Txt (label_with env ''requests:repeat.activeCount'' [(''count'', nat_string (length (activeTasks tasks)))])]]] @
         [if activeTasks tasks \<noteq> [] then taskTable env act canOperate (activeTasks tasks)
          else empty_state ''empty-state request-empty'' ''Activity'' (label env ''requests:repeat.noActive'')] @
         when_shown (endedTasks tasks \<noteq> [])
           [ctag ''details'' ''repeat-history''
              [tag ''summary'' [Txt (label_with env ''requests:repeat.endedTasks'' [(''count'', nat_string (length (endedTasks tasks)))])],
               taskTable env act canOperate (endedTasks tasks)]] @
         [ctag ''div'' ''repeat-task-footnote'' [icon ''Activity'', Txt (label env ''requests:repeat.memoryOnly'')]])])"

lemma task_row_offered: "offered (task_row env act canOperate task) = act ` set (task_calls canOperate task)"
  by (auto simp: task_row_def cell_def figure_def task_calls_def live_task_def Let_def)

lemma panel_offered:
  "offered_all (RepeatTasksPanel env act canOperate tasks) = (\<Union>task \<in> set tasks. act ` set (task_calls canOperate task))"
proof -
  have table: "offered (taskTable env act canOperate items) = (\<Union>task \<in> set items. act ` set (task_calls canOperate task))" for items
    by (auto simp: taskTable_def task_row_offered)
  have "offered_all (RepeatTasksPanel env act canOperate tasks) =
      (\<Union>task \<in> set (activeTasks tasks) \<union> set (endedTasks tasks). act ` set (task_calls canOperate task))"
  proof (cases "tasks = []")
    case False
    then show ?thesis by (auto simp: RepeatTasksPanel_def table empty_state_def)
  qed (simp add: RepeatTasksPanel_def activeTasks_def endedTasks_def)
  then show ?thesis by (simp only: tasks_partition(1))
qed

section \<open>The uncertain dialog\<close>

record 'e uncertain_events =
  uv_close :: 'e
  uv_preview :: 'e
  uv_pick :: "UncertainResolutionAction \<Rightarrow> 'e"
  uv_back :: 'e
  uv_reason :: "string \<Rightarrow> 'e"
  uv_resolve :: 'e

definition uncertain_choices :: "UncertainResolutionAction list" where
  "uncertain_choices = [UncertainResolutionAction_ConfirmSuccess, UncertainResolutionAction_Abandon, UncertainResolutionAction_RequestCompensation]"

definition code_columns :: "string list" where
  "code_columns = [''target'', ''domain'', ''hash'', ''phase'', ''category'', ''upstreamRequestId'']"

definition EvidenceAttemptRow :: "render_env \<Rightarrow> string \<Rightarrow> UncertainAttemptEvidence \<Rightarrow> 'e node" where
  "EvidenceAttemptRow env fallback attempt =
     tag ''tr'' (map (\<lambda>(name, v).
         cell env (''requests:uncertain.fields.'' @ name) [if name \<in> set code_columns then tag ''code'' [Txt v] else Txt v])
       (evidence_row (en_tr env) fallback attempt))"

definition EvidenceAttemptTable :: "render_env \<Rightarrow> string \<Rightarrow> UncertainAttemptEvidence list \<Rightarrow> 'e node" where
  "EvidenceAttemptTable env fallback attempts =
     ctag ''div'' ''table-wrap'' [tag ''table''
       [tag ''thead'' [tag ''tr'' (map (\<lambda>column. tag ''th'' [Txt (label env (''requests:uncertain.fields.'' @ column))]) evidence_columns)],
        tag ''tbody'' (map (EvidenceAttemptRow env fallback) attempts)]]"

definition evidence_pair :: "render_env \<Rightarrow> string \<Rightarrow> string \<Rightarrow> 'e node" where
  "evidence_pair env name v = tag ''div'' [tag ''dt'' [Txt (label env (''requests:uncertain.fields.'' @ name))], tag ''dd'' [Txt v]]"

definition EvidencePanel :: "render_env \<Rightarrow> string \<Rightarrow> UncertainPreview \<Rightarrow> 'e node" where
  "EvidencePanel env fallback preview =
     (let evidence = upv_evidence preview
      in El ''section'' [(''className'', AStr ''uncertain-evidence''), (''aria-label'', AStr (label env ''requests:uncertain.evidenceTitle''))] []
        [ctag ''div'' ''uncertain-evidence-meta''
           [tag ''dl'' [evidence_pair env ''state'' (ue_state evidence), evidence_pair env ''attempt'' (int_string (ue_attempt evidence)),
              evidence_pair env ''started'' (optional_time env (Some (ue_startedAt evidence)) fallback),
              evidence_pair env ''uncertainSince'' (optional_time env (Some (ue_uncertainSince evidence)) fallback)],
            tag ''small'' [Txt (label_with env ''requests:uncertain.expires'' [(''time'', optional_time env (Some (upv_expiresAt preview)) fallback)])]],
         ctag ''div'' ''uncertain-attempts''
           [ctag ''div'' ''uncertain-attempts-heading'' [tag ''strong'' [Txt (label env ''requests:uncertain.attemptEvidence'')],
              tag ''span'' [Txt (label env ''requests:uncertain.hashNotice'')]],
            (if ue_attempts evidence \<noteq> [] then EvidenceAttemptTable env fallback (ue_attempts evidence)
             else ctag ''p'' ''uncertain-empty-evidence'' [Txt (label env ''requests:uncertain.noAttemptEvidence'')])]])"

definition action_label :: "render_env \<Rightarrow> UncertainResolutionAction \<Rightarrow> string \<Rightarrow> string" where
  "action_label env a part = label env (''requests:uncertain.actions.'' @ uncertain_action_string a @ part)"

definition uncertain_body :: "render_env \<Rightarrow> 'e uncertain_events \<Rightarrow> bool \<Rightarrow> uncertain_dialog \<Rightarrow> 'e node list" where
  "uncertain_body env ev canOperate d =
     (let close = El ''button'' [(''type'', AStr ''button''), (''className'', AStr ''button'')] [(''onClick'', \<lambda>_. uv_close ev)]
                    [Txt (label env ''common:actions.cancelDialog'')]
      in if \<not> canOperate
         then [ctag ''div'' ''uncertain-readonly'' [tag ''strong'' [Txt (label env ''requests:uncertain.readOnlyTitle'')],
                 tag ''p'' [Txt (label env ''requests:uncertain.readOnlyDescription'')]]]
         else if ud_stage d = Stage_action
         then [tag ''form''
           [ctag ''p'' ''repeat-explanation'' [Txt (label env ''requests:uncertain.description'')],
            El ''div'' [(''className'', AStr ''uncertain-action-picker''), (''role'', AStr ''group''),
                (''aria-label'', AStr (label env ''requests:uncertain.actionLabel''))] []
              (map (\<lambda>candidate. button (if ud_action d = candidate then ''active'' else [])
                   [(''aria-pressed'', ABool (ud_action d = candidate))] (uv_pick ev candidate)
                   [tag ''strong'' [Txt (action_label env candidate ''.label'')], tag ''span'' [Txt (action_label env candidate ''.description'')]])
                uncertain_choices),
            ctag ''div'' ''uncertain-warning'' [icon ''ShieldAlert'', tag ''span'' [Txt (label env ''requests:uncertain.previewWarning'')]],
            tag ''footer'' [close, submit_button ''button primary'' (ud_busy d) (uv_preview ev)
              [Txt (if ud_busy d then label env ''common:loading'' else label env ''requests:uncertain.previewAction'')]]]]
         else [tag ''form''
           ([ctag ''div'' ''uncertain-stage-heading''
               [button ''link-button'' [] (uv_back ev) [icon ''ArrowLeft'', Txt (label env ''requests:uncertain.changeAction'')],
                tag ''span'' [Txt (action_label env (ud_action d) ''.label'')]]] @
            (case ud_preview d of None \<Rightarrow> [] | Some preview \<Rightarrow> [EvidencePanel env (label env ''common:notAvailable'') preview]) @
            [ctag ''label'' ''field uncertain-reason'' [tag ''span'' [Txt (label env ''requests:uncertain.reason'')],
               control_el ''textarea'' [(''value'', AStr (ud_reason d)), (''maxLength'', AInt 500), (''required'', ABool True)] (uv_reason ev) []],
             ctag ''p'' ''uncertain-confirm-note'' [icon ''CheckCircle2'', Txt (label env ''requests:uncertain.confirmNote'')],
             tag ''footer'' [close, submit_button
               (''button '' @ (if ud_action d = UncertainResolutionAction_ConfirmSuccess then ''primary'' else ''danger''))
               (ud_busy d \<or> js_trim (ud_reason d) = []) (uv_resolve ev)
               [Txt (if ud_busy d then label env ''common:loading'' else action_label env (ud_action d) ''.confirm'')]]])])"

definition UncertainResolutionDialog :: "render_env \<Rightarrow> 'e uncertain_events \<Rightarrow> bool \<Rightarrow> RequestInfo \<Rightarrow> uncertain_dialog \<Rightarrow> 'e node" where
  "UncertainResolutionDialog env ev canOperate r d =
     El ''div'' [(''className'', AStr ''confirm-backdrop''), (''role'', AStr ''presentation'')] [(''onMouseDown'', \<lambda>_. uv_close ev)]
       [El ''div'' [(''className'', AStr ''repeat-dialog uncertain-dialog''), (''role'', AStr ''dialog''), (''aria-modal'', ABool True),
            (''aria-labelledby'', AStr ''uncertain-dialog-title'')] []
          (tag ''header''
             [ctag ''span'' ''confirm-icon'' [icon ''ShieldAlert''],
              tag ''div'' [El ''h2'' [(''id'', AStr ''uncertain-dialog-title'')] [] [Txt (label env ''requests:uncertain.title'')],
                tag ''p'' [Txt (req_method r), Txt '' '', Txt (req_path r), Txt dot, Txt (req_id r)]],
              button ''icon-button'' (tooltip (label env ''common:actions.close'')) (uv_close ev) [icon ''X'']] #
           uncertain_body env ev canOperate d)]"

lemma evidence_offered: "offered (EvidencePanel env fallback preview :: 'e node) = {}"
proof -
  have "offered (EvidenceAttemptRow env fallback a :: 'e node) = {}" for a
    by (auto simp: EvidenceAttemptRow_def cell_def split: if_splits)
  then show ?thesis by (simp add: EvidencePanel_def EvidenceAttemptTable_def evidence_pair_def Let_def)
qed

lemma uncertain_offered:
  "offered (UncertainResolutionDialog env ev canOperate r d) =
     {uv_close ev} \<union>
     (if \<not> canOperate then {}
      else if ud_stage d = Stage_action then range (uv_pick ev) \<union> (if ud_busy d then {} else {uv_preview ev})
      else {uv_back ev} \<union> range (uv_reason ev) \<union> (if ud_busy d \<or> js_trim (ud_reason d) = [] then {} else {uv_resolve ev}))"
proof -
  have "range (uv_pick ev) = uv_pick ev ` set uncertain_choices"
    by (rule image_cong) (auto simp: uncertain_choices_def intro: UncertainResolutionAction.exhaust)
  then show ?thesis
    by (auto simp: UncertainResolutionDialog_def uncertain_body_def evidence_offered Let_def split: option.split)
qed

section \<open>The view\<close>

record requests_view =
  rv_query :: string
  rv_state :: string
  rv_selected :: "string list"
  rv_policyTargets :: "RequestInfo list option"
  rv_repeatRequest :: "RequestInfo option"
  rv_uncertainRequest :: "RequestInfo option"
  rv_busy :: bool
  rv_uncertain :: uncertain_dialog

definition new_requests_view :: requests_view where
  "new_requests_view = \<lparr>rv_query = [], rv_state = ''all'', rv_selected = [], rv_policyTargets = None, rv_repeatRequest = None,
     rv_uncertainRequest = None, rv_busy = False, rv_uncertain = open_uncertain\<rparr>"

text \<open>What the view is given: the status, the sparkline of the metrics and the repeat tasks.\<close>

record requests_data =
  rd_status :: Status
  rd_pressure :: "rat list"
  rd_tasks :: "RepeatTask list"

datatype requests_effect =
    RV_query string
  | RV_filter string
  | RV_clear
  | RV_toggle string
  | RV_toggleAll
  | RV_open string
  | RV_retryScope
  | RV_quick Preset
  | RV_custom
  | RV_reset
  | RV_retry RequestInfo
  | RV_policy RequestInfo
  | RV_repeat RequestInfo
  | RV_cancel RequestInfo
  | RV_resolve RequestInfo
  | RV_task api_call
  | RV_policyDialog "RequestInfo list"
  | RV_closePolicy
  | RV_repeatDialog RequestInfo
  | RV_closeRepeat
  | RV_closeUncertain
  | RV_uncertainPreview RequestInfo
  | RV_uncertainPick UncertainResolutionAction
  | RV_uncertainBack
  | RV_uncertainReason string
  | RV_uncertainResolve RequestInfo

definition rv_visible :: "requests_data \<Rightarrow> requests_view \<Rightarrow> RequestInfo list" where
  "rv_visible d s = visible_requests (rv_query s) (rv_state s) (stat_requests (rd_status d))"

definition rv_scope :: "requests_data \<Rightarrow> requests_view \<Rightarrow> RequestInfo list" where
  "rv_scope d s = scopeRequests (rv_selected s) (rv_visible d s) (stat_requests (rd_status d))"

definition table_callbacks :: "requests_effect table_events" where
  "table_callbacks = \<lparr>te_toggle = RV_toggle, te_toggleAll = RV_toggleAll, te_open = RV_open, te_retry = RV_retry, te_policy = RV_policy,
     te_repeat = RV_repeat, te_cancel = RV_cancel, te_resolve = Some RV_resolve\<rparr>"

definition dialog_callbacks :: "RequestInfo \<Rightarrow> requests_effect uncertain_events" where
  "dialog_callbacks r = \<lparr>uv_close = RV_closeUncertain, uv_preview = RV_uncertainPreview r, uv_pick = RV_uncertainPick,
     uv_back = RV_uncertainBack, uv_reason = RV_uncertainReason, uv_resolve = RV_uncertainResolve r\<rparr>"

definition preset_text :: "Preset \<Rightarrow> string" where
  "preset_text p = (case p of Preset_standard \<Rightarrow> ''standard'' | Preset_fast \<Rightarrow> ''fast'' | Preset_conservative \<Rightarrow> ''conservative''
     | Preset_custom \<Rightarrow> ''custom'')"

definition batch_controls :: "render_env \<Rightarrow> requests_data \<Rightarrow> requests_view \<Rightarrow> requests_effect node" where
  "batch_controls env d s =
     (let chosen = selectedRequests (rv_selected s) (stat_requests (rd_status d)); retryable = filter canRetry (rv_scope d s);
          policyCapable = filter canSetPolicy (rv_scope d s); none = policyCapable = [] \<or> rv_busy s
      in ctag ''div'' ''batch-controls''
        (when_shown (chosen \<noteq> [])
           [ctag ''span'' ''selection-count'' [Txt (label_with env ''requests:batch.selected'' [(''count'', nat_string (length chosen))]),
              button ''icon-button compact'' [(''aria-label'', AStr (label env ''requests:batch.clearSelection''))] RV_clear [icon ''X'']]] @
         [button ''button compact'' [(''disabled'', ABool (rv_busy s \<or> retryable = []))] RV_retryScope
            [icon ''TimerReset'', Txt (label_with env ''requests:batch.retry'' [(''count'', nat_string (length retryable))])],
          ctag ''details'' ''policy-quick-menu''
            [El ''summary'' [(''className'', AStr (''button compact '' @ (if none then ''disabled'' else []))), (''aria-disabled'', ABool none)] []
               [icon ''Settings2'', Txt (label env ''requests:batch.policy''), icon ''ChevronDown''],
             ctag ''div'' ''policy-quick-popover''
               (map (\<lambda>preset. button [] [(''disabled'', ABool none)] (RV_quick preset)
                    [Txt (label env (''requests:retryPolicy.presets.'' @ preset_text preset))]) [Preset_standard, Preset_fast, Preset_conservative] @
                [button [] [(''disabled'', ABool none)] RV_custom [Txt (label env ''requests:retryPolicy.presets.custom'')],
                 button [] [(''disabled'', ABool (\<not> (\<exists>r \<in> set policyCapable. hasRetryPolicy (en_year env) r) \<or> rv_busy s))] RV_reset
                   [Txt (label env ''requests:retryPolicy.resetAction'')]])]]))"

definition request_summary :: "render_env \<Rightarrow> requests_data \<Rightarrow> requests_effect node" where
  "request_summary env d =
     El ''div'' [(''className'', AStr ''request-summary''), (''aria-label'', AStr (label env ''overview:queue.title''))] []
       (map (\<lambda>(key, v). tag ''div'' [tag ''span'' [Txt (label env (''requests:summary.'' @ key))], tag ''strong'' [Txt (int_string v)]])
          [(''active'', stat_active (rd_status d)), (''requesting'', stat_requesting (rd_status d)), (''waiting'', stat_waiting (rd_status d)),
           (''queued'', stat_queued (rd_status d))] @
        [ctag ''div'' ''request-pressure''
           [tag ''span'' [Txt (label env ''overview:charts.pressure'')],
            El ''svg'' [(''viewBox'', AStr ''0 0 120 32''), (''role'', AStr ''img''), (''aria-label'', AStr (label env ''overview:charts.pressure''))] []
              [tag ''title'' [Txt (label env ''overview:charts.pressure'')],
               El ''polyline'' [(''points'', AStr (join_with '' '' (map (\<lambda>(x, y). en_number env x @ '','' @ en_number env y)
                 (sparkline_points (if rd_pressure d \<noteq> [] then rd_pressure d else [0, 0])))))] [] []]]])"

definition filter_states :: "string list" where
  "filter_states = [''queued'', ''waiting'', ''requesting'', ''uncertain'', ''buffering'', ''delivering'']"

definition filter_controls :: "render_env \<Rightarrow> requests_view \<Rightarrow> requests_effect node" where
  "filter_controls env s =
     ctag ''div'' ''filter-controls''
       [ctag ''label'' ''search-field'' [ctag ''span'' ''sr-only'' [Txt (label env ''requests:filters.search'')], icon ''Search'',
          control_el ''input'' [(''value'', AStr (rv_query s)), (''placeholder'', AStr (label env ''requests:filters.search''))] RV_query []],
        tag ''label'' [ctag ''span'' ''sr-only'' [Txt (label env ''requests:filters.state'')],
          select_el (rv_state s) [(''className'', AStr ''compact-select'')] RV_filter
            ((''all'', label env ''requests:filters.allStates'') #
             map (\<lambda>v. (v, label_or env (''common:status.'' @ v) v)) filter_states)]]"

definition request_heading :: "render_env \<Rightarrow> requests_data \<Rightarrow> requests_view \<Rightarrow> requests_effect node" where
  "request_heading env d s =
     (let requests = rv_visible d s; uncertain = filter (\<lambda>r. req_state r = ''uncertain'') requests
      in ctag ''div'' ''section-heading request-heading''
        [heading (label env ''overview:queue.title'') (label env ''overview:queue.description''),
         ctag ''div'' ''request-heading-meta''
           ([tag ''span'' [Txt (label_with env ''common:requestCount'' [(''count'', nat_string (length requests))])],
             ctag ''span'' ''retryable-count'' [Txt (label_with env ''requests:batch.retryableCount''
               [(''count'', nat_string (length (filter canRetry (rv_scope d s))))])]] @
            when_shown (uncertain \<noteq> [])
              [ctag ''span'' ''uncertain-count'' [Txt (label_with env ''requests:uncertain.count'' [(''count'', nat_string (length uncertain))])]])])"

text \<open>
  The dialogs for a policy and for repeating are drawn while they are open; what is
  submitted in them is one effect here.
\<close>

definition RequestsView :: "render_env \<Rightarrow> bool \<Rightarrow> requests_data \<Rightarrow> requests_view \<Rightarrow> requests_effect node" where
  "RequestsView env canOperate d s =
     (let live = stat_requests (rd_status d)
      in ctag ''div'' ''page-stack requests-view''
        ([request_summary env d,
          ctag ''section'' ''content-section''
            [request_heading env d s,
             ctag ''div'' ''request-toolbar'' (filter_controls env s # when_shown canOperate [batch_controls env d s]),
             RequestsTable env table_callbacks canOperate (rv_selected s) (rv_visible d s)]] @
         RepeatTasksPanel env RV_task canOperate (rd_tasks d) @
         (case livePolicyTargets live (rv_policyTargets s) of
            None \<Rightarrow> []
          | Some targets \<Rightarrow> [El ''RetryPolicyDialog'' [] [(''onClose'', \<lambda>_. RV_closePolicy), (''submit'', \<lambda>_. RV_policyDialog targets)] []]) @
         (case liveRepeatRequest live (rv_repeatRequest s) of
            None \<Rightarrow> []
          | Some r \<Rightarrow> [El ''RepeatTaskDialog'' [] [(''onClose'', \<lambda>_. RV_closeRepeat), (''submit'', \<lambda>_. RV_repeatDialog r)] []]) @
         (case liveUncertainRequest live (rv_uncertainRequest s) of
            None \<Rightarrow> []
          | Some r \<Rightarrow> [UncertainResolutionDialog env (dialog_callbacks r) canOperate r (rv_uncertain s)])))"

text \<open>What an effect does to the state of the view; its calls go out separately.\<close>

fun rv_apply :: "bool \<Rightarrow> requests_data \<Rightarrow> requests_effect \<Rightarrow> requests_view \<Rightarrow> requests_view" where
  "rv_apply canOperate d (RV_query v) s = s\<lparr>rv_query := v\<rparr>"
| "rv_apply canOperate d (RV_filter v) s = s\<lparr>rv_state := v\<rparr>"
| "rv_apply canOperate d RV_clear s = s\<lparr>rv_selected := []\<rparr>"
| "rv_apply canOperate d (RV_toggle ident) s = s\<lparr>rv_selected := toggle ident (rv_selected s)\<rparr>"
| "rv_apply canOperate d RV_toggleAll s = s\<lparr>rv_selected := toggleAll (rv_visible d s) (rv_selected s)\<rparr>"
| "rv_apply canOperate d RV_custom s = s\<lparr>rv_policyTargets := Some (filter canSetPolicy (rv_scope d s))\<rparr>"
| "rv_apply canOperate d (RV_policy r) s = s\<lparr>rv_policyTargets := Some [r]\<rparr>"
| "rv_apply canOperate d (RV_repeat r) s = (if req_state r \<noteq> ''uncertain'' then s\<lparr>rv_repeatRequest := Some r\<rparr> else s)"
| "rv_apply canOperate d (RV_resolve r) s = (if req_state r = ''uncertain'' then s\<lparr>rv_uncertainRequest := Some r, rv_uncertain := open_uncertain\<rparr> else s)"
| "rv_apply canOperate d RV_closePolicy s = s\<lparr>rv_policyTargets := None\<rparr>"
| "rv_apply canOperate d RV_closeRepeat s = s\<lparr>rv_repeatRequest := None\<rparr>"
| "rv_apply canOperate d RV_closeUncertain s = s\<lparr>rv_uncertainRequest := None\<rparr>"
| "rv_apply canOperate d (RV_uncertainPreview r) s = s\<lparr>rv_uncertain := previewAction canOperate (rv_uncertain s)\<rparr>"
| "rv_apply canOperate d (RV_uncertainPick a) s = s\<lparr>rv_uncertain := (rv_uncertain s)\<lparr>ud_action := a\<rparr>\<rparr>"
| "rv_apply canOperate d RV_uncertainBack s = s\<lparr>rv_uncertain := (rv_uncertain s)\<lparr>ud_stage := Stage_action\<rparr>\<rparr>"
| "rv_apply canOperate d (RV_uncertainReason v) s = s\<lparr>rv_uncertain := (rv_uncertain s)\<lparr>ud_reason := v\<rparr>\<rparr>"
| "rv_apply canOperate d (RV_uncertainResolve r) s = s\<lparr>rv_uncertain := resolve canOperate (rv_uncertain s)\<rparr>"
| "rv_apply canOperate d _ s = s"

text \<open>The call that follows an action, once a confirmation it asks for is given.\<close>

definition action_calls :: "list_action \<Rightarrow> api_call \<Rightarrow> api_call set" where
  "action_calls a c = (case a of Act_none \<Rightarrow> {} | Act_confirm n \<Rightarrow> {c} | Act_call c' \<Rightarrow> {c'})"

text \<open>The calls that an effect can lead to, for every way the dialogs' own forms may be filled in.\<close>

fun rv_calls :: "(string \<Rightarrow> int option) \<Rightarrow> bool \<Rightarrow> requests_data \<Rightarrow> requests_view \<Rightarrow> requests_effect \<Rightarrow> api_call set" where
  "rv_calls year canOperate d s (RV_open ident) = {api_timeline ident}"
| "rv_calls year canOperate d s RV_retryScope =
     action_calls (retryTargets (rv_busy s) (rv_scope d s)) (retry_call (filter canRetry (rv_scope d s)))"
| "rv_calls year canOperate d s (RV_quick preset) =
     (case quickPolicies preset of
        None \<Rightarrow> {}
      | Some p \<Rightarrow> action_calls (applyQuickPolicy (rv_busy s) (filter canSetPolicy (rv_scope d s))) (quick_call p (filter canSetPolicy (rv_scope d s))))"
| "rv_calls year canOperate d s RV_reset =
     (case resetPolicies year (rv_busy s) (filter canSetPolicy (rv_scope d s)) of Act_call c \<Rightarrow> {c} | _ \<Rightarrow> {})"
| "rv_calls year canOperate d s (RV_retry r) = action_calls (retryTargets (rv_busy s) [r]) (retry_call (filter canRetry [r]))"
| "rv_calls year canOperate d s (RV_cancel r) = (case cancelRequest (rv_busy s) r of Act_call c \<Rightarrow> {c} | _ \<Rightarrow> {})"
| "rv_calls year canOperate d s (RV_task c) = {c}"
| "rv_calls year canOperate d s (RV_policyDialog targets) =
     {c. \<exists>form. submit targets form = Submit_send c} \<union> {c. \<exists>form policy. submit_confirmed targets form policy True = Some c} \<union>
     (case reset_policy targets of None \<Rightarrow> {} | Some c \<Rightarrow> {c})"
| "rv_calls year canOperate d s (RV_repeatDialog r) = {c. \<exists>f. form_valid f \<and> c = api_createRepeatTask (req_id r) (JObj (repeat_input f))}"
| "rv_calls year canOperate d s (RV_uncertainPreview r) =
     (if \<not> canOperate \<or> ud_busy (rv_uncertain s) then {} else {preview_call (req_id r) (ud_action (rv_uncertain s))})"
| "rv_calls year canOperate d s (RV_uncertainResolve r) =
     (case resolve_input (rv_uncertain s) of
        None \<Rightarrow> {}
      | Some input \<Rightarrow>
          if \<not> canOperate \<or> ud_busy (rv_uncertain s) \<or> js_trim (ud_reason (rv_uncertain s)) = [] then {}
          else {api_resolveUncertain (req_id r) input})"
| "rv_calls year canOperate d s _ = {}"

definition is_read :: "api_call \<Rightarrow> bool" where
  "is_read c \<longleftrightarrow> init_method (call_init c) = None"

section \<open>What a session can do\<close>

inductive view_step :: "render_env \<Rightarrow> bool \<Rightarrow> requests_data \<times> requests_view \<Rightarrow> requests_data \<times> requests_view \<Rightarrow> bool" for env canOperate where
  user: "e \<in> offered (RequestsView env canOperate d s) \<Longrightarrow> view_step env canOperate (d, s) (d, rv_apply canOperate d e s)"
| data: "view_step env canOperate (d, s) (d', s\<lparr>rv_selected := prune_selection (stat_requests (rd_status d')) (rv_selected s)\<rparr>)"
| busy: "view_step env canOperate (d, s) (d, s\<lparr>rv_busy := b\<rparr>)"
| answers: "ud_step canOperate (rv_uncertain s) u \<Longrightarrow> view_step env canOperate (d, s) (d, s\<lparr>rv_uncertain := u\<rparr>)"

lemma view_offered:
  "offered (RequestsView env canOperate d s) =
     range RV_query \<union> range RV_filter \<union> (if canOperate then offered (batch_controls env d s) else {}) \<union>
     offered (RequestsTable env table_callbacks canOperate (rv_selected s) (rv_visible d s)) \<union>
     (\<Union>task \<in> set (rd_tasks d). RV_task ` set (task_calls canOperate task)) \<union>
     (case livePolicyTargets (stat_requests (rd_status d)) (rv_policyTargets s) of
        None \<Rightarrow> {} | Some targets \<Rightarrow> {RV_closePolicy, RV_policyDialog targets}) \<union>
     (case liveRepeatRequest (stat_requests (rd_status d)) (rv_repeatRequest s) of
        None \<Rightarrow> {} | Some r \<Rightarrow> {RV_closeRepeat, RV_repeatDialog r}) \<union>
     (case liveUncertainRequest (stat_requests (rd_status d)) (rv_uncertainRequest s) of
        None \<Rightarrow> {} | Some r \<Rightarrow> offered (UncertainResolutionDialog env (dialog_callbacks r) canOperate r (rv_uncertain s)))"
proof -
  have plain: "offered (request_summary env d) = {}" "offered (request_heading env d s) = {}"
    "offered (filter_controls env s) = range RV_query \<union> range RV_filter"
    by (simp_all add: request_summary_def request_heading_def filter_controls_def case_prod_unfold Let_def)
  have dialogs: "offered_all (case x of None \<Rightarrow> [] | Some a \<Rightarrow> [f a]) = (case x of None \<Rightarrow> {} | Some a \<Rightarrow> offered (f a))"
    for x :: "'a option" and f :: "'a \<Rightarrow> requests_effect node" by (simp split: option.split)
  show ?thesis
    by (cases "livePolicyTargets (stat_requests (rd_status d)) (rv_policyTargets s)";
        cases "liveRepeatRequest (stat_requests (rd_status d)) (rv_repeatRequest s)")
      (simp_all add: RequestsView_def plain panel_offered dialogs Let_def Un_ac insert_commute)
qed

lemma viewer_offered:
  assumes "rv_policyTargets s = None" "rv_repeatRequest s = None"
  shows "offered (RequestsView env False d s) \<subseteq>
     range RV_query \<union> range RV_filter \<union> range RV_open \<union> range RV_resolve \<union> {RV_closeUncertain}"
  unfolding view_offered using assms
  by (auto simp: table_offered table_callbacks_def uncertain_offered dialog_callbacks_def tasks_partition(4) livePolicyTargets_def
      liveRepeatRequest_def split: option.splits if_splits)

interpretation viewer_system: step_system "view_step env False" "\<lambda>(d, s). s = new_requests_view"
  "\<lambda>(d, s). rv_policyTargets s = None \<and> rv_repeatRequest s = None" for env
proof unfold_locales
  show "case ds of (d, s) \<Rightarrow> rv_policyTargets s = None \<and> rv_repeatRequest s = None" if "case ds of (d, s) \<Rightarrow> s = new_requests_view" for ds
    using that by (auto simp: new_requests_view_def)
  show "case ds' of (d, s) \<Rightarrow> rv_policyTargets s = None \<and> rv_repeatRequest s = None"
    if "view_step env False ds ds'" "case ds of (d, s) \<Rightarrow> rv_policyTargets s = None \<and> rv_repeatRequest s = None" for ds ds'
    using that
  proof (induction rule: view_step.induct)
    case (user e d s)
    then have "e \<in> range RV_query \<union> range RV_filter \<union> range RV_open \<union> range RV_resolve \<union> {RV_closeUncertain}"
      using viewer_offered [of s env d] by auto
    with user show ?case by auto
  qed simp_all
qed

section \<open>Properties\<close>

text \<open>
  The request list of a session that may not operate only reads. However the user
  clicks and types in what is drawn, while the status, the repeat tasks and answers of the
  gateway change underneath, every call that an enabled control can lead to is a read, the
  dialogs for policies and repeating never open, and the dialog of an uncertain request
  offers nothing but to close it.
\<close>

theorem viewer_list_reads:
  assumes "(view_step env False)\<^sup>*\<^sup>* (d0, new_requests_view) (d, s)"
  shows "(\<forall>e \<in> offered (RequestsView env False d s). \<forall>c \<in> rv_calls year False d s e. is_read c) \<and>
     rv_policyTargets s = None \<and> rv_repeatRequest s = None \<and>
     offered (UncertainResolutionDialog env (dialog_callbacks r) False r (rv_uncertain s)) = {RV_closeUncertain}"
proof -
  have inv: "rv_policyTargets s = None" "rv_repeatRequest s = None"
    using viewer_system.inv_reachable [OF assms] by simp_all
  have "is_read c" if "e \<in> offered (RequestsView env False d s)" "c \<in> rv_calls year False d s e" for e c
  proof -
    have "e \<in> range RV_query \<union> range RV_filter \<union> range RV_open \<union> range RV_resolve \<union> {RV_closeUncertain}"
      using viewer_offered [OF inv] that(1) by (rule subsetD)
    with that(2) show ?thesis by (auto simp: is_read_def api_timeline_def no_init_def)
  qed
  with inv show ?thesis by (simp add: uncertain_offered dialog_callbacks_def)
qed

definition empty_status :: Status where
  "empty_status = \<lparr>stat_paused = False, stat_mode = ''running'', stat_active = 1, stat_queued = 0, stat_waiting = 1, stat_requesting = 0,
     stat_totalRequests = 1, stat_successful = 0, stat_failedAttempts = 1, stat_persistenceDegraded = None, stat_persistencePending = None,
     stat_upstream = \<lparr>stat_upstream_state = Status_upstream_state_Unknown, stat_upstream_lastChecked = None, stat_upstream_lastError = None\<rparr>,
     stat_requests = [waiting_request]\<rparr>"

definition sample_data :: requests_data where
  "sample_data = \<lparr>rd_status = empty_status, rd_pressure = [], rd_tasks = []\<rparr>"

definition sample_env :: render_env where
  "sample_env = \<lparr>en_tr = \<lambda>k args. k, en_clock = \<lambda>l t. [], en_local_time = \<lambda>l t. [], en_local = \<lambda>l t. [], en_ms_of = \<lambda>s. None,
     en_utc_year = \<lambda>t. 0, en_year = \<lambda>s. None, en_locale = ''en-US'', en_now = 0, en_number = \<lambda>x. [], en_json = \<lambda>v. []\<rparr>"

lemma sample_visible: "rv_visible sample_data new_requests_view = [waiting_request]"
  by (simp add: rv_visible_def visible_requests_def sample_data_def empty_status_def new_requests_view_def js_trim_def js_lower_def)

theorem viewer_list_reads_witness:
  "RV_open ''r1'' \<in> offered (RequestsView sample_env False sample_data new_requests_view) \<and> is_read (api_timeline ''r1'')"
proof -
  have off: "RV_open ''r1'' \<in> offered (RequestsView sample_env False sample_data new_requests_view)"
    by (simp add: view_offered table_offered sample_visible table_callbacks_def) (simp add: waiting_request_def)
  from viewer_list_reads [OF rtranclp.rtrancl_refl, where env = sample_env and d = sample_data and year = "\<lambda>s. None"] off
  show ?thesis by fastforce
qed

lemma batch_offered:
  "offered (batch_controls env d s) =
     (if selectedRequests (rv_selected s) (stat_requests (rd_status d)) \<noteq> [] then {RV_clear} else {}) \<union>
     (if rv_busy s \<or> filter canRetry (rv_scope d s) = [] then {} else {RV_retryScope}) \<union>
     (if filter canSetPolicy (rv_scope d s) = [] \<or> rv_busy s then {}
      else {RV_quick Preset_standard, RV_quick Preset_fast, RV_quick Preset_conservative, RV_custom}) \<union>
     (if filter (hasRetryPolicy (en_year env)) (filter canSetPolicy (rv_scope d s)) = [] \<or> rv_busy s then {} else {RV_reset})"
proof -
  have "(\<exists>r \<in> set xs. P r) \<longleftrightarrow> filter P xs \<noteq> []" for P and xs :: "RequestInfo list" by (auto simp: filter_empty_conv)
  then show ?thesis
    by (simp add: batch_controls_def Let_def Un_ac del: filter_filter cong: if_cong) (simp only: Un_ac insert_commute)?
qed

lemma batch_effects:
  "RV_retryScope \<in> offered (batch_controls env d s) \<longleftrightarrow> \<not> rv_busy s \<and> filter canRetry (rv_scope d s) \<noteq> []"
  "RV_reset \<in> offered (batch_controls env d s) \<longleftrightarrow> \<not> rv_busy s \<and> filter (hasRetryPolicy (en_year env)) (filter canSetPolicy (rv_scope d s)) \<noteq> []"
  "RV_quick p \<in> offered (batch_controls env d s) \<longleftrightarrow> \<not> rv_busy s \<and> filter canSetPolicy (rv_scope d s) \<noteq> [] \<and> p \<noteq> Preset_custom"
  "e \<in> range RV_retry \<union> range RV_cancel \<union> range RV_task \<Longrightarrow> e \<notin> offered (batch_controls env d s)"
  unfolding batch_offered by (simp_all del: filter_filter) (cases p; auto)+

lemma table_row_effects:
  "RV_retry r \<in> offered (RequestsTable env table_callbacks canOperate selected requests) \<longleftrightarrow> canOperate \<and> r \<in> set requests \<and> canRetry r"
  "RV_cancel r \<in> offered (RequestsTable env table_callbacks canOperate selected requests) \<longleftrightarrow> canOperate \<and> r \<in> set requests \<and> canCancel r"
  "e \<in> {RV_retryScope, RV_reset} \<union> range RV_quick \<union> range RV_task \<Longrightarrow>
     e \<notin> offered (RequestsTable env table_callbacks canOperate selected requests)"
  by (auto simp: table_offered table_callbacks_def split: if_splits)



end
