(* ===== verification/Settings.thy ===== *)
theory Settings
  imports ConfigEditing SettingsFields
begin

text \<open>
  The settings view of web/src/views/SettingsView.tsx over the configuration editor: how a
  field patches its section, which tabs count as changed, when the save button is enabled,
  the governance totals, and the operations on policy drafts, releases, configuration
  versions and test notifications. An operation is the list of its effects, given the
  answers of the confirmation and of the server. What the view draws is in SettingsMarkup.
\<close>

section \<open>Sections and tabs\<close>

datatype Tab = Tab_general | Tab_retry | Tab_traffic | Tab_policy | Tab_continuity | Tab_safety | Tab_capture
  | Tab_notifications | Tab_appearance | Tab_logging

datatype EditableConfigKey = Key_server | Key_upstream | Key_upstreams | Key_localization | Key_retry | Key_stream
  | Key_queue | Key_history | Key_observability | Key_risk | Key_capture | Key_notifications | Key_logging
  | Key_persistence | Key_incidents | Key_lifecycle | Key_managementSecurity | Key_metricsExport | Key_governance
  | Key_egress | Key_slo | Key_trafficPolicy

definition configKeys :: "EditableConfigKey list" where
  "configKeys = [Key_server, Key_upstream, Key_upstreams, Key_localization, Key_retry, Key_stream, Key_queue, Key_history,
     Key_observability, Key_risk, Key_capture, Key_notifications, Key_logging, Key_persistence, Key_incidents,
     Key_lifecycle, Key_managementSecurity, Key_metricsExport, Key_governance, Key_egress, Key_slo, Key_trafficPolicy]"

fun configTabs :: "EditableConfigKey \<Rightarrow> Tab" where
  "configTabs Key_server = Tab_general"
| "configTabs Key_upstream = Tab_general"
| "configTabs Key_upstreams = Tab_general"
| "configTabs Key_localization = Tab_general"
| "configTabs Key_retry = Tab_retry"
| "configTabs Key_stream = Tab_retry"
| "configTabs Key_queue = Tab_traffic"
| "configTabs Key_history = Tab_traffic"
| "configTabs Key_observability = Tab_safety"
| "configTabs Key_risk = Tab_safety"
| "configTabs Key_capture = Tab_capture"
| "configTabs Key_notifications = Tab_notifications"
| "configTabs Key_logging = Tab_logging"
| "configTabs Key_persistence = Tab_continuity"
| "configTabs Key_incidents = Tab_continuity"
| "configTabs Key_lifecycle = Tab_continuity"
| "configTabs Key_managementSecurity = Tab_continuity"
| "configTabs Key_metricsExport = Tab_continuity"
| "configTabs Key_governance = Tab_traffic"
| "configTabs Key_egress = Tab_safety"
| "configTabs Key_slo = Tab_policy"
| "configTabs Key_trafficPolicy = Tab_policy"

text \<open>\<open>JSON.stringify(config[key]) !== JSON.stringify(baseline[key])\<close>.\<close>

fun section_changed :: "Config \<Rightarrow> Config \<Rightarrow> EditableConfigKey \<Rightarrow> bool" where
  "section_changed c b Key_server = (cfg_server c \<noteq> cfg_server b)"
| "section_changed c b Key_upstream = (cfg_upstream c \<noteq> cfg_upstream b)"
| "section_changed c b Key_upstreams = (cfg_upstreams c \<noteq> cfg_upstreams b)"
| "section_changed c b Key_localization = (cfg_localization c \<noteq> cfg_localization b)"
| "section_changed c b Key_retry = (cfg_retry c \<noteq> cfg_retry b)"
| "section_changed c b Key_stream = (cfg_stream c \<noteq> cfg_stream b)"
| "section_changed c b Key_queue = (cfg_queue c \<noteq> cfg_queue b)"
| "section_changed c b Key_history = (cfg_history c \<noteq> cfg_history b)"
| "section_changed c b Key_observability = (cfg_observability c \<noteq> cfg_observability b)"
| "section_changed c b Key_risk = (cfg_risk c \<noteq> cfg_risk b)"
| "section_changed c b Key_capture = (cfg_capture c \<noteq> cfg_capture b)"
| "section_changed c b Key_notifications = (cfg_notifications c \<noteq> cfg_notifications b)"
| "section_changed c b Key_logging = (cfg_logging c \<noteq> cfg_logging b)"
| "section_changed c b Key_persistence = (cfg_persistence c \<noteq> cfg_persistence b)"
| "section_changed c b Key_incidents = (cfg_incidents c \<noteq> cfg_incidents b)"
| "section_changed c b Key_lifecycle = (cfg_lifecycle c \<noteq> cfg_lifecycle b)"
| "section_changed c b Key_managementSecurity = (cfg_managementSecurity c \<noteq> cfg_managementSecurity b)"
| "section_changed c b Key_metricsExport = (cfg_metricsExport c \<noteq> cfg_metricsExport b)"
| "section_changed c b Key_governance = (cfg_governance c \<noteq> cfg_governance b)"
| "section_changed c b Key_egress = (cfg_egress c \<noteq> cfg_egress b)"
| "section_changed c b Key_slo = (cfg_slo c \<noteq> cfg_slo b)"
| "section_changed c b Key_trafficPolicy = (cfg_trafficPolicy c \<noteq> cfg_trafficPolicy b)"

definition changedSections :: "Config \<Rightarrow> Config \<Rightarrow> Tab list" where
  "changedSections config baseline =
     first_by (\<lambda>t. t) (map configTabs (filter (section_changed config baseline) configKeys))"

definition policyDirty :: "Config \<Rightarrow> Config \<Rightarrow> bool" where
  "policyDirty config baseline \<longleftrightarrow> cfg_trafficPolicy config \<noteq> cfg_trafficPolicy baseline"

text \<open>The save and discard buttons; \<open>dirty\<close> and \<open>busy\<close> come from the editor.\<close>

definition save_disabled :: "bool \<Rightarrow> bool \<Rightarrow> Tab list \<Rightarrow> bool" where
  "save_disabled edited busy changed \<longleftrightarrow>
     \<not> edited \<or> (changed \<noteq> [] \<and> \<not> list_ex (\<lambda>t. t \<noteq> Tab_policy) changed) \<or> busy"

definition discard_disabled :: "bool \<Rightarrow> bool \<Rightarrow> bool" where
  "discard_disabled edited busy \<longleftrightarrow> \<not> edited \<or> busy"

section \<open>Patches\<close>

text \<open>\<open>setConfig({ ...config, [key]: { ...config[key], ...value } })\<close>, one constructor per section.\<close>

datatype section_patch =
    Patch_server "Config_server \<Rightarrow> Config_server"
  | Patch_upstream "Config_upstream \<Rightarrow> Config_upstream"
  | Patch_upstreams "Config_upstreams \<Rightarrow> Config_upstreams"
  | Patch_localization "Config_localization \<Rightarrow> Config_localization"
  | Patch_retry "Config_retry \<Rightarrow> Config_retry"
  | Patch_stream "Config_stream \<Rightarrow> Config_stream"
  | Patch_queue "Config_queue \<Rightarrow> Config_queue"
  | Patch_history "Config_history \<Rightarrow> Config_history"
  | Patch_observability "Config_observability \<Rightarrow> Config_observability"
  | Patch_risk "Config_risk \<Rightarrow> Config_risk"
  | Patch_capture "Config_capture \<Rightarrow> Config_capture"
  | Patch_notifications "Config_notifications \<Rightarrow> Config_notifications"
  | Patch_logging "Config_logging \<Rightarrow> Config_logging"
  | Patch_persistence "Config_persistence \<Rightarrow> Config_persistence"
  | Patch_incidents "Config_incidents \<Rightarrow> Config_incidents"
  | Patch_lifecycle "Config_lifecycle \<Rightarrow> Config_lifecycle"
  | Patch_managementSecurity "Config_managementSecurity \<Rightarrow> Config_managementSecurity"
  | Patch_metricsExport "Config_metricsExport \<Rightarrow> Config_metricsExport"
  | Patch_governance "Config_governance \<Rightarrow> Config_governance"
  | Patch_egress "Config_egress \<Rightarrow> Config_egress"
  | Patch_slo "Config_slo \<Rightarrow> Config_slo"
  | Patch_trafficPolicy "Config_trafficPolicy \<Rightarrow> Config_trafficPolicy"

fun patch :: "section_patch \<Rightarrow> Config \<Rightarrow> Config" where
  "patch (Patch_server f) = cfg_server_update f"
| "patch (Patch_upstream f) = cfg_upstream_update f"
| "patch (Patch_upstreams f) = cfg_upstreams_update f"
| "patch (Patch_localization f) = cfg_localization_update f"
| "patch (Patch_retry f) = cfg_retry_update f"
| "patch (Patch_stream f) = cfg_stream_update f"
| "patch (Patch_queue f) = cfg_queue_update f"
| "patch (Patch_history f) = cfg_history_update f"
| "patch (Patch_observability f) = cfg_observability_update f"
| "patch (Patch_risk f) = cfg_risk_update f"
| "patch (Patch_capture f) = cfg_capture_update f"
| "patch (Patch_notifications f) = cfg_notifications_update f"
| "patch (Patch_logging f) = cfg_logging_update f"
| "patch (Patch_persistence f) = cfg_persistence_update f"
| "patch (Patch_incidents f) = cfg_incidents_update f"
| "patch (Patch_lifecycle f) = cfg_lifecycle_update f"
| "patch (Patch_managementSecurity f) = cfg_managementSecurity_update f"
| "patch (Patch_metricsExport f) = cfg_metricsExport_update f"
| "patch (Patch_governance f) = cfg_governance_update f"
| "patch (Patch_egress f) = cfg_egress_update f"
| "patch (Patch_slo f) = cfg_slo_update f"
| "patch (Patch_trafficPolicy f) = cfg_trafficPolicy_update f"

fun patch_key :: "section_patch \<Rightarrow> EditableConfigKey" where
  "patch_key (Patch_server f) = Key_server"
| "patch_key (Patch_upstream f) = Key_upstream"
| "patch_key (Patch_upstreams f) = Key_upstreams"
| "patch_key (Patch_localization f) = Key_localization"
| "patch_key (Patch_retry f) = Key_retry"
| "patch_key (Patch_stream f) = Key_stream"
| "patch_key (Patch_queue f) = Key_queue"
| "patch_key (Patch_history f) = Key_history"
| "patch_key (Patch_observability f) = Key_observability"
| "patch_key (Patch_risk f) = Key_risk"
| "patch_key (Patch_capture f) = Key_capture"
| "patch_key (Patch_notifications f) = Key_notifications"
| "patch_key (Patch_logging f) = Key_logging"
| "patch_key (Patch_persistence f) = Key_persistence"
| "patch_key (Patch_incidents f) = Key_incidents"
| "patch_key (Patch_lifecycle f) = Key_lifecycle"
| "patch_key (Patch_managementSecurity f) = Key_managementSecurity"
| "patch_key (Patch_metricsExport f) = Key_metricsExport"
| "patch_key (Patch_governance f) = Key_governance"
| "patch_key (Patch_egress f) = Key_egress"
| "patch_key (Patch_slo f) = Key_slo"
| "patch_key (Patch_trafficPolicy f) = Key_trafficPolicy"

definition patchOIDC :: "(Config_managementSecurity_oidc \<Rightarrow> Config_managementSecurity_oidc) \<Rightarrow> Config \<Rightarrow> Config" where
  "patchOIDC f = patch (Patch_managementSecurity (managementSecurity_oidc_update f))"

text \<open>\<open>items.map((item, i) => i === index ? { ...item, ...value } : item)\<close>: nothing happens out of range.\<close>

definition map_at :: "nat \<Rightarrow> ('a \<Rightarrow> 'a) \<Rightarrow> 'a list \<Rightarrow> 'a list" where
  "map_at index f xs = map (\<lambda>(i, x). if i = index then f x else x) (enumerate 0 xs)"

definition setTargets :: "Config_upstreams_targets list \<Rightarrow> Config \<Rightarrow> Config" where
  "setTargets targets = patch (Patch_upstreams (upstreams_targets_update (\<lambda>_. targets)))"

definition patchTarget :: "nat \<Rightarrow> (Config_upstreams_targets \<Rightarrow> Config_upstreams_targets) \<Rightarrow> Config \<Rightarrow> Config" where
  "patchTarget index f config = setTargets (map_at index f (upstreams_targets (cfg_upstreams config))) config"

definition addTarget :: "string \<Rightarrow> Config \<Rightarrow> Config" where
  "addTarget baseUrl config =
     (let targets = upstreams_targets (cfg_upstreams config) in
      setTargets (targets @ [\<lparr>upstreams_targets_id = ''relay-'' @ nat_string (length targets + 1),
        upstreams_targets_baseUrl = baseUrl, upstreams_targets_priority = 0, upstreams_targets_weight = 1,
        upstreams_targets_maxActive = 0, upstreams_targets_idempotencyDomain = ''default'',
        upstreams_targets_costMicrosPer1K = 0, upstreams_targets_capabilityScore = 1\<rparr>]) config)"

definition remove_at :: "nat \<Rightarrow> 'a list \<Rightarrow> 'a list" where
  "remove_at index xs = map snd (filter (\<lambda>(i, _). i \<noteq> index) (enumerate 0 xs))"

definition removeTarget :: "nat \<Rightarrow> Config \<Rightarrow> Config" where
  "removeTarget index config = setTargets (remove_at index (upstreams_targets (cfg_upstreams config))) config"

definition patchTrafficPolicy :: "(Config_trafficPolicy \<Rightarrow> Config_trafficPolicy) \<Rightarrow> Config \<Rightarrow> Config" where
  "patchTrafficPolicy f = patch (Patch_trafficPolicy f)"

definition patchRule :: "nat \<Rightarrow> (TrafficPolicyRule \<Rightarrow> TrafficPolicyRule) \<Rightarrow> Config \<Rightarrow> Config" where
  "patchRule index f = patchTrafficPolicy (trafficPolicy_rules_update (map_at index f))"

definition setGovernanceBudgets :: "GovernanceBudgetConfig list \<Rightarrow> Config \<Rightarrow> Config" where
  "setGovernanceBudgets budgets = patch (Patch_governance (governance_budgets_update (\<lambda>_. budgets)))"

definition patchGovernanceBudget :: "nat \<Rightarrow> (GovernanceBudgetConfig \<Rightarrow> GovernanceBudgetConfig) \<Rightarrow> Config \<Rightarrow> Config" where
  "patchGovernanceBudget index f config =
     setGovernanceBudgets (map_at index f (governance_budgets (cfg_governance config))) config"

definition addGovernanceBudget :: "Config \<Rightarrow> Config" where
  "addGovernanceBudget config =
     setGovernanceBudgets (governance_budgets (cfg_governance config) @
       [\<lparr>gbc_scope = ''tenant'', gbc_key = [], gbc_maxConcurrent = 0, gbc_requestsPerMinute = 0, gbc_tokenLimit = 0,
         gbc_costLimitMicros = 0\<rparr>]) config"

definition targetIds :: "Config \<Rightarrow> string list" where
  "targetIds config =
     (let targets = upstreams_targets (cfg_upstreams config)
      in if targets \<noteq> [] then map upstreams_targets_id targets else [''primary''])"

definition toggleEvent :: "string \<Rightarrow> bool \<Rightarrow> Config \<Rightarrow> Config" where
  "toggleEvent eventType enabled =
     patch (Patch_notifications (notifications_eventTypes_update (\<lambda>types.
       if enabled then first_by (\<lambda>t. t) (types @ [eventType]) else filter (\<lambda>v. v \<noteq> eventType) types)))"

definition event_options :: "Config \<Rightarrow> string list" where
  "event_options config =
     first_by (\<lambda>t. t) (notifications_eventTypes (cfg_notifications config) @
       [''stalled'', ''recovered'', ''long_running'', ''many_attempts'', ''auth_errors'', ''queue_pressure'', ''disk_pressure''])"

section \<open>Governance totals\<close>

record governance_totals =
  gt_active :: int
  gt_requests :: int
  gt_tokens :: int
  gt_costMicros :: int
  gt_unknownUsage :: int

definition no_usage :: governance_totals where
  "no_usage = \<lparr>gt_active = 0, gt_requests = 0, gt_tokens = 0, gt_costMicros = 0, gt_unknownUsage = 0\<rparr>"

definition add_usage :: "GovernanceStatus_entries \<Rightarrow> governance_totals \<Rightarrow> governance_totals" where
  "add_usage e t =
     \<lparr>gt_active = gt_active t + gov_entries_active e, gt_requests = gt_requests t + gov_entries_requests e,
      gt_tokens = gt_tokens t + gov_entries_tokens e, gt_costMicros = gt_costMicros t + gov_entries_costMicros e,
      gt_unknownUsage = gt_unknownUsage t + gov_entries_unknownUsage e\<rparr>"

definition measured_entries :: "GovernanceStatus_entries list \<Rightarrow> GovernanceStatus_entries list" where
  "measured_entries es =
     (let measured = filter (\<lambda>e. gov_entries_scope e = [] \<or> gov_entries_scope e = ''principal'') es
      in if measured \<noteq> [] then measured else es)"

definition governanceRuntime :: "GovernanceStatus option \<Rightarrow> governance_totals" where
  "governanceRuntime status =
     fold add_usage (measured_entries (case status of None \<Rightarrow> [] | Some s \<Rightarrow> gov_entries s)) no_usage"

definition tenantRuntimeEntries :: "GovernanceStatus option \<Rightarrow> nat" where
  "tenantRuntimeEntries status =
     length (filter (\<lambda>e. gov_entries_scope e = ''tenant'') (case status of None \<Rightarrow> [] | Some s \<Rightarrow> gov_entries s))"

definition formatGovernanceUtilization :: "int \<Rightarrow> int \<Rightarrow> string" where
  "formatGovernanceUtilization v limit =
     (if limit \<le> 0 then ''-'' else to_fixed 1 (min 999 (of_int v / of_int limit * 100)) @ ''%'')"

section \<open>Operations\<close>

text \<open>
  What an operation does, in order: the calls it makes, reloading the configuration through
  \<open>reload\<close> of App.tsx, and the error it shows.
\<close>

datatype settings_effect = Effect_call api_call | Effect_reload | Effect_error js_error

definition policy_refresh :: "settings_effect list" where
  "policy_refresh = [Effect_call (api_policyStatus 50), Effect_call api_policyReleases]"

definition authentication_rollback :: "ConfigVersion \<Rightarrow> bool" where
  "authentication_rollback version =
     (case ccp_fields (cver_applyPlan version) of
        None \<Rightarrow> False
      | Some fs \<Rightarrow> list_ex (\<lambda>f. ccp_fields_path f = ''management-security.authentication'') fs)"

definition rollback_disabled :: "bool \<Rightarrow> bool \<Rightarrow> string \<Rightarrow> ConfigVersion \<Rightarrow> bool" where
  "rollback_disabled edited canSensitive rollbackBusy version \<longleftrightarrow>
     edited \<or> \<not> cver_valid version \<or> \<not> truthy_string (cver_sha256 version) \<or> rollbackBusy \<noteq> [] \<or>
     (authentication_rollback version \<and> \<not> canSensitive)"

definition rollback_fields :: "translate \<Rightarrow> ConfigVersion \<Rightarrow> string" where
  "rollback_fields tr version =
     (let listed = (case ccp_fields (cver_diff version) of None \<Rightarrow> [] | Some fs \<Rightarrow> join_with '', '' (map ccp_fields_path fs));
          secs = join_with '', '' (ccp_changedSections (cver_diff version))
      in if listed \<noteq> [] then listed else if secs \<noteq> [] then secs else tr ''common:notAvailable'' [])"

definition rollback_dialog :: "translate \<Rightarrow> (string \<Rightarrow> string) \<Rightarrow> ConfigVersion \<Rightarrow> ConfirmDialogState" where
  "rollback_dialog tr local_time version =
     \<lparr>cd_title = tr ''settings:history.confirmTitle'' [],
      cd_description = tr (if authentication_rollback version then ''settings:history.authConfirm'' else ''settings:history.confirm'')
          [(''time'', local_time (cver_modifiedAt version))] @ ''\<newline>'' @ rollback_fields tr version,
      cd_confirmLabel = Some (tr ''settings:history.rollback'' []), cd_tone = Some Tone_danger\<rparr>"

definition rollbackConfig :: "ConfigVersion \<Rightarrow> bool \<Rightarrow> unit js_result \<Rightarrow> settings_effect list" where
  "rollbackConfig version accepted answer =
     (if \<not> accepted then []
      else Effect_call (api_rollbackConfig version (authentication_rollback version)) #
        (case answer of Inl e \<Rightarrow> [Effect_error e] | Inr _ \<Rightarrow> [Effect_reload, Effect_call api_configVersions]))"

definition sendTestNotification :: "unit js_result \<Rightarrow> settings_effect list" where
  "sendTestNotification answer =
     Effect_call api_testNotification #
       (case answer of Inl e \<Rightarrow> [Effect_error e]
        | Inr _ \<Rightarrow> [Effect_call api_notificationStatus, Effect_call (api_notificationDeliveries 20)])"

definition savePolicyDraft :: "(Config_trafficPolicy \<Rightarrow> json) \<Rightarrow> Config \<Rightarrow> PolicyReleaseStatus option \<Rightarrow> unit js_result \<Rightarrow> settings_effect list" where
  "savePolicyDraft to_json config releases answer =
     Effect_call (api_savePolicyDraft (to_json (cfg_trafficPolicy config))
         (nullish (Option.bind releases prs_draftRevision) [])) #
       (case answer of Inl e \<Rightarrow> [Effect_error e] | Inr _ \<Rightarrow> policy_refresh)"

definition stage_string :: "PolicyReleaseRecord_stage \<Rightarrow> string" where
  "stage_string s = (case s of PolicyReleaseRecord_stage_Shadow \<Rightarrow> ''shadow'' | PolicyReleaseRecord_stage_Canary \<Rightarrow> ''canary''
     | PolicyReleaseRecord_stage_Full \<Rightarrow> ''full'')"

definition publish_dialog :: "translate \<Rightarrow> int \<Rightarrow> PolicyReleaseRecord_stage \<Rightarrow> ConfirmDialogState" where
  "publish_dialog tr canaryPercent stage =
     \<lparr>cd_title = tr ''settings:policy.publishConfirmTitle'' [],
      cd_description = tr (''settings:policy.publishConfirm.'' @ stage_string stage) [(''percent'', int_string canaryPercent)],
      cd_confirmLabel = Some (tr (''settings:policy.publish.'' @ stage_string stage) []),
      cd_tone = Some (if stage = PolicyReleaseRecord_stage_Full then Tone_danger else Tone_default)\<rparr>"

text \<open>The body of the publication: the draft by its revision, or the edited policy when there is none.\<close>

definition publish_input ::
  "(Config_trafficPolicy \<Rightarrow> json) \<Rightarrow> ConfigRuntimeState \<Rightarrow> PolicyReleaseStatus option \<Rightarrow> Config \<Rightarrow> int \<Rightarrow> PolicyReleaseRecord_stage \<Rightarrow> json_object" where
  "publish_input to_json cs releases config canaryPercent stage =
     (let draft = Option.bind releases prs_draftRevision in
      [(''configRevision'', JStr (crs_desiredRevision cs))] @
      (case draft of None \<Rightarrow> [] | Some d \<Rightarrow> [(''draftRevision'', JStr d)]) @
      [(''stage'', JStr (stage_string stage)),
       (''canaryPercent'', JNum (of_int (if stage = PolicyReleaseRecord_stage_Canary then canaryPercent else 100)))] @
      (if truthy_string draft then [] else [(''policy'', to_json (cfg_trafficPolicy config))]))"

definition publishPolicy ::
  "(Config_trafficPolicy \<Rightarrow> json) \<Rightarrow> ConfigRuntimeState option \<Rightarrow> PolicyReleaseStatus option \<Rightarrow> Config \<Rightarrow> int \<Rightarrow>
   PolicyReleaseRecord_stage \<Rightarrow> bool \<Rightarrow> unit js_result \<Rightarrow> settings_effect list" where
  "publishPolicy to_json configState releases config canaryPercent stage accepted answer =
     (case configState of
        None \<Rightarrow> []
      | Some cs \<Rightarrow>
          if \<not> accepted then []
          else Effect_call (api_publishPolicy (JObj (publish_input to_json cs releases config canaryPercent stage))) #
            (case answer of Inl e \<Rightarrow> [Effect_error e] | Inr _ \<Rightarrow> Effect_reload # policy_refresh))"

definition rollbackPolicyRelease ::
  "ConfigRuntimeState option \<Rightarrow> PolicyReleaseRecord \<Rightarrow> bool \<Rightarrow> unit js_result \<Rightarrow> settings_effect list" where
  "rollbackPolicyRelease configState release accepted answer =
     (case configState of
        None \<Rightarrow> []
      | Some cs \<Rightarrow>
          if \<not> accepted then []
          else Effect_call (api_rollbackPolicy (crs_desiredRevision cs) (prr_revision release)) #
            (case answer of Inl e \<Rightarrow> [Effect_error e] | Inr _ \<Rightarrow> Effect_reload # policy_refresh))"

definition simulatePolicy :: "json_object \<Rightarrow> PolicyReleaseStatus option \<Rightarrow> unit js_result \<Rightarrow> settings_effect list" where
  "simulatePolicy simulator releases answer =
     Effect_call (api_simulatePolicy (JObj (simulator @ [(''sloHealthy'', JBool True), (''errorBudgetRemaining'', JNum 1)]))
         (truthy_string (Option.bind releases prs_draftRevision))) #
       (case answer of Inl e \<Rightarrow> [Effect_error e] | Inr _ \<Rightarrow> [Effect_call (api_policyStatus 50)])"

text \<open>The effect of an operation on the editor: a reload that succeeds takes the server's configuration.\<close>

definition settings_run :: "Config \<Rightarrow> ConfigRuntimeState \<Rightarrow> settings_effect list \<Rightarrow> edit_state \<Rightarrow> edit_state" where
  "settings_run server cs es st = fold (\<lambda>e st. if e = Effect_reload then reload_done (Inr ()) (Inr (server, cs)) st else st) es st"

section \<open>Lemmas\<close>

lemma configKeys_complete: "key \<in> set configKeys"
  by (cases key) (simp_all add: configKeys_def)

lemma set_changedSections: "set (changedSections c b) = configTabs ` {key. section_changed c b key}"
  using keys_first_by [of "\<lambda>t. t" "map configTabs (filter (section_changed c b) configKeys)"] configKeys_complete
  by (auto simp: changedSections_def)

lemma ordinary_sections:
  assumes "cfg_schemaVersion c = cfg_schemaVersion b"
  shows "ordinaryDirty c (Some b) \<longleftrightarrow> (\<exists>key. key \<noteq> Key_trafficPolicy \<and> section_changed c b key)"
proof
  show "ordinaryDirty c (Some b)" if "\<exists>key. key \<noteq> Key_trafficPolicy \<and> section_changed c b key"
  proof -
    from that obtain key where "key \<noteq> Key_trafficPolicy" "section_changed c b key" by blast
    then show ?thesis unfolding ordinaryDirty_def option.case by (cases key; simp only: section_changed.simps; blast)
  qed
  show "\<exists>key. key \<noteq> Key_trafficPolicy \<and> section_changed c b key" if "ordinaryDirty c (Some b)"
  proof (rule ccontr)
    assume "\<not> ?thesis"
    then have same: "key \<noteq> Key_trafficPolicy \<Longrightarrow> \<not> section_changed c b key" for key by blast
    show False
      using that assms same [of Key_server]
        same [of Key_upstream]
        same [of Key_upstreams]
        same [of Key_localization]
        same [of Key_retry]
        same [of Key_stream]
        same [of Key_queue]
        same [of Key_history]
        same [of Key_observability]
        same [of Key_risk]
        same [of Key_capture]
        same [of Key_notifications]
        same [of Key_logging]
        same [of Key_persistence]
        same [of Key_incidents]
        same [of Key_lifecycle]
        same [of Key_managementSecurity]
        same [of Key_metricsExport]
        same [of Key_governance]
        same [of Key_egress]
        same [of Key_slo]
      by (simp add: ordinaryDirty_def)
  qed
qed

lemma policy_tabs: "configTabs key = Tab_policy \<longleftrightarrow> key = Key_slo \<or> key = Key_trafficPolicy"
  by (cases key) simp_all

lemma section_slo_reset:
  "section_changed (c\<lparr>cfg_slo := cfg_slo b\<rparr>) b key \<longleftrightarrow> key \<noteq> Key_slo \<and> section_changed c b key"
  by (cases key) simp_all

lemma patch_scope: "section_changed (patch p c) c key \<Longrightarrow> key = patch_key p"
  by (cases p; cases key) simp_all

lemma unchanged_sections_eq:
  assumes "cfg_schemaVersion c = cfg_schemaVersion b" "\<forall>key. \<not> section_changed c b key"
  shows "c = b"
  using assms ordinary_sections [OF assms(1)] section_changed.simps(22) [of c b] by (metis config_eqI)

lemma slo_dirty:
  assumes "cfg_schemaVersion c = cfg_schemaVersion b"
  shows "ordinaryDirty (c\<lparr>cfg_slo := cfg_slo b\<rparr>) (Some b) \<Longrightarrow> ordinaryDirty c (Some b)"
proof -
  have "ordinaryDirty (c\<lparr>cfg_slo := cfg_slo b\<rparr>) (Some b) \<longleftrightarrow>
      (\<exists>key. key \<noteq> Key_trafficPolicy \<and> section_changed (c\<lparr>cfg_slo := cfg_slo b\<rparr>) b key)"
    by (rule ordinary_sections) (simp add: assms)
  then show "ordinaryDirty (c\<lparr>cfg_slo := cfg_slo b\<rparr>) (Some b) \<Longrightarrow> ordinaryDirty c (Some b)"
    unfolding ordinary_sections [OF assms] section_slo_reset by blast
qed

lemma save_button_exact:
  assumes "cfg_schemaVersion c = cfg_schemaVersion b"
  shows "save_disabled (c \<noteq> b) busy (changedSections c b) \<longleftrightarrow>
      busy \<or> \<not> ordinaryDirty (c\<lparr>cfg_slo := cfg_slo b\<rparr>) (Some b)"
proof -
  let ?c = "c\<lparr>cfg_slo := cfg_slo b\<rparr>"
  have s: "ordinaryDirty ?c (Some b) \<longleftrightarrow> (\<exists>key. configTabs key \<noteq> Tab_policy \<and> section_changed c b key)"
    using ordinary_sections [of ?c b] assms by (auto simp: section_slo_reset policy_tabs)
  have t: "list_ex (\<lambda>t. t \<noteq> Tab_policy) (changedSections c b) \<longleftrightarrow> ordinaryDirty ?c (Some b)"
    unfolding s list_ex_iff set_changedSections by blast
  have "changedSections c b \<noteq> []" if "c \<noteq> b"
    using unchanged_sections_eq [OF assms] that set_changedSections [of c b] by fastforce
  moreover have "c \<noteq> b" if "ordinaryDirty ?c (Some b)" using that by (auto simp: ordinaryDirty_def)
  ultimately show ?thesis unfolding save_disabled_def t by blast
qed

section \<open>Properties\<close>

text \<open>
  The save button is enabled exactly when nothing is being saved and a section
  other than the traffic policy and the SLO differs from the saved configuration; it never
  offers a save that \<open>save\<close> would refuse.
\<close>

theorem save_button_spec:
  assumes "cfg_schemaVersion c = cfg_schemaVersion b"
  shows "(save_disabled (c \<noteq> b) busy (changedSections c b) \<longleftrightarrow>
      busy \<or> \<not> ordinaryDirty (c\<lparr>cfg_slo := cfg_slo b\<rparr>) (Some b)) \<and>
     (ordinaryDirty (c\<lparr>cfg_slo := cfg_slo b\<rparr>) (Some b) \<longrightarrow> ordinaryDirty c (Some b))"
  using save_button_exact [OF assms] slo_dirty [OF assms] by blast
text \<open>The save button for a configuration in which retries were switched on or off.\<close>

theorem save_button_spec_witness:
  "\<forall>b. \<not> save_disabled (patch (Patch_retry (retry_enabled_update Not)) b \<noteq> b) False
      (changedSections (patch (Patch_retry (retry_enabled_update Not)) b) b)"
proof
  fix b
  let ?c = "patch (Patch_retry (retry_enabled_update Not)) b"
  have "cfg_retry ?c \<noteq> cfg_retry b" by (cases "cfg_retry b") simp
  then have "ordinaryDirty (?c\<lparr>cfg_slo := cfg_slo b\<rparr>) (Some b)" by (simp add: ordinaryDirty_def)
  then show "\<not> save_disabled (?c \<noteq> b) False (changedSections ?c b)"
    using save_button_spec [of ?c b False] by simp
qed

text \<open>
  An edit of the SLO alone cannot be saved. \<open>save\<close> would accept it as an ordinary
  change, but the SLO is on the policy tab and the button stays disabled; publishing a
  policy does not send it either.
\<close>

theorem slo_edit_unsavable:
  "\<exists>p. \<forall>b. patch_key p = Key_slo \<and> patch p b \<noteq> b \<and> ordinaryDirty (patch p b) (Some b) \<and>
     save_disabled True False (changedSections (patch p b) b)"
proof (intro exI allI conjI)
  fix b
  let ?p = "Patch_slo (slo_enabled_update Not)"
  show "patch_key ?p = Key_slo" by simp
  have slo: "cfg_slo (patch ?p b) \<noteq> cfg_slo b" by (cases "cfg_slo b") simp
  then show ne: "patch ?p b \<noteq> b" by (rule contrapos_nn) (erule arg_cong)
  show "ordinaryDirty (patch ?p b) (Some b)" using slo by (simp add: ordinaryDirty_def)
  have "\<not> ordinaryDirty ((patch ?p b)\<lparr>cfg_slo := cfg_slo b\<rparr>) (Some b)" by (simp add: ordinaryDirty_def)
  moreover have "save_disabled (patch ?p b \<noteq> b) False (changedSections (patch ?p b) b) \<longleftrightarrow>
      \<not> ordinaryDirty ((patch ?p b)\<lparr>cfg_slo := cfg_slo b\<rparr>) (Some b)"
    by (simp add: save_button_exact)
  ultimately show "save_disabled True False (changedSections (patch ?p b) b)" using ne by simp
qed

text \<open>
  Publishing or rolling back a policy takes the server's configuration and so
  drops every unsaved edit of the other sections, without the guard that protects them
  when a configuration version is restored.
\<close>

theorem publish_discards_edits:
  "let published = settings_run server cs (publishPolicy to_json (Some k) releases config percent stage True (Inr ())) st;
       restored = settings_run server cs (rollbackPolicyRelease (Some k) release True (Inr ())) st
   in ed_config published = Some server \<and> \<not> dirty published \<and> ed_config restored = Some server \<and> \<not> dirty restored \<and>
      rollback_disabled True canSensitive rollbackBusy version"
  by (simp add: settings_run_def publishPolicy_def rollbackPolicyRelease_def policy_refresh_def reload_done_def dirty_def
      rollback_disabled_def)

end
