(* ===== verification/Charts.thy ===== *)
theory Charts
  imports Json Reachability
begin

text \<open>
  The charts of web/src/components/OperationsCharts.tsx: the options handed to the
  charting library (objects as \<open>json\<close>, a property whose value is \<open>undefined\<close> left out),
  the accessible tables, the choice of the secondary chart, and the life cycle of the
  chart instances. The library itself is not modelled: a chart is a number, and what is
  done to it is a log of calls. A number of the wire may be any double; the finite ones
  are exact rationals.
\<close>

section \<open>Data\<close>

datatype js_num = Num rat | Pos_inf | Neg_inf | Not_a_number

record TimeSeriesPoint =
  tsp_time :: string
  tsp_requests :: js_num
  tsp_successful :: js_num
  tsp_failedAttempts :: js_num

record PressurePoint =
  prp_time :: string
  prp_active :: js_num
  prp_requesting :: "js_num option"
  prp_waiting :: js_num
  prp_queued :: js_num

record ErrorSlice =
  esl_category :: string
  esl_count :: js_num

record RecoveryPoint =
  rcv_bucket :: string
  rcv_count :: js_num

record OperationsChartLabels =
  ocl_reliabilityTitle :: string
  ocl_pressureTitle :: string
  ocl_errorsTitle :: string
  ocl_recoveryTitle :: string
  ocl_empty :: string
  ocl_unavailable :: string
  ocl_requests :: string
  ocl_successRate :: string
  ocl_failedAttempts :: string
  ocl_active :: string
  ocl_requesting :: string
  ocl_waiting :: string
  ocl_queued :: string
  ocl_duration :: string
  ocl_expand :: string
  ocl_collapse :: string

record OperationsChartTheme =
  oct_foreground :: string
  oct_muted :: string
  oct_grid :: string
  oct_success :: string
  oct_warning :: string
  oct_accent :: string
  oct_surface :: string

datatype ChartKey = Chart_reliability | Chart_pressure | Chart_errors | Chart_recovery

text \<open>The data of the props; labels, theme and locale are passed beside it.\<close>

record OperationsChartsProps =
  ocp_reliability :: "TimeSeriesPoint list"
  ocp_pressure :: "PressurePoint list"
  ocp_errors :: "ErrorSlice list"
  ocp_recovery :: "RecoveryPoint list"

definition operationsChartTheme :: "bool \<Rightarrow> OperationsChartTheme" where
  "operationsChartTheme dark =
     (if dark then
        \<lparr>oct_foreground = ''#f2f6f3'', oct_muted = ''#87938b'', oct_grid = ''#2b342f'', oct_success = ''#68e0a0'',
         oct_warning = ''#eab55a'', oct_accent = ''#68bde7'', oct_surface = ''#141917''\<rparr>
      else
        \<lparr>oct_foreground = ''#151b17'', oct_muted = ''#6f7a73'', oct_grid = ''#d9dfda'', oct_success = ''#187b4c'',
         oct_warning = ''#a96b12'', oct_accent = ''#176e9b'', oct_surface = ''#ffffff''\<rparr>)"

definition chartKeys :: "ChartKey list" where
  "chartKeys = [Chart_reliability, Chart_pressure, Chart_errors, Chart_recovery]"

definition secondaryKeys :: "ChartKey list" where
  "secondaryKeys = [Chart_pressure, Chart_errors, Chart_recovery]"

fun safeValue :: "js_num \<Rightarrow> rat" where
  "safeValue (Num x) = max 0 x"
| "safeValue _ = 0"

text \<open>\<open>ms_of\<close> is \<open>new Date(value).getTime()\<close>; \<open>clock\<close> is the hour and minute formatter.\<close>

definition formatTimeLabel :: "(string \<Rightarrow> int option) \<Rightarrow> (int \<Rightarrow> string) \<Rightarrow> string \<Rightarrow> string" where
  "formatTimeLabel ms_of clock v = (case ms_of v of None \<Rightarrow> v | Some ms \<Rightarrow> clock ms)"

section \<open>Option objects\<close>

text \<open>\<open>{ ...a, ...b }\<close>, and leaving a property out.\<close>

definition spread :: "json_object \<Rightarrow> json_object \<Rightarrow> json_object" where
  "spread a b = fold (\<lambda>(k, v) m. map_set k v m) b a"

definition omit :: "string \<Rightarrow> json_object \<Rightarrow> json_object" where
  "omit k obj = filter (\<lambda>p. fst p \<noteq> k) obj"

definition named :: "string option \<Rightarrow> json_object" where
  "named name = (case name of None \<Rightarrow> [] | Some n \<Rightarrow> [(''name'', JStr n)])"

definition colored :: "string \<Rightarrow> json" where
  "colored c = JObj [(''color'', JStr c)]"

definition font_family :: string where
  "font_family = ''\"Source Sans 3\", \"Source Han Sans SC\", sans-serif''"

definition tooltipStyle :: "OperationsChartTheme \<Rightarrow> json_object" where
  "tooltipStyle th =
     [(''backgroundColor'', JStr (oct_surface th)), (''borderColor'', JStr (oct_grid th)), (''borderWidth'', JNum 1),
      (''padding'', JArr [JNum 9, JNum 11]), (''confine'', JBool True),
      (''textStyle'', JObj [(''color'', JStr (oct_foreground th)), (''fontSize'', JNum 11), (''fontFamily'', JStr font_family)]),
      (''extraCssText'', JStr ''box-shadow: 0 16px 48px rgba(0,0,0,.22); border-radius: 6px;'')]"

definition categoryAxis :: "string list \<Rightarrow> OperationsChartTheme \<Rightarrow> string option \<Rightarrow> json_object" where
  "categoryAxis data th name =
     [(''type'', JStr ''category''), (''data'', JArr (map JStr data))] @ named name @
     [(''nameTextStyle'', colored (oct_muted th)), (''axisLine'', JObj [(''lineStyle'', colored (oct_grid th))]),
      (''axisTick'', JObj [(''show'', JBool False)]),
      (''axisLabel'', JObj [(''color'', JStr (oct_muted th)), (''hideOverlap'', JBool True), (''fontSize'', JNum 11)])]"

definition valueAxis :: "OperationsChartTheme \<Rightarrow> string option \<Rightarrow> json_object" where
  "valueAxis th name =
     [(''type'', JStr ''value'')] @ named name @
     [(''minInterval'', JNum 1), (''nameTextStyle'', colored (oct_muted th)),
      (''axisLine'', JObj [(''show'', JBool False)]), (''axisTick'', JObj [(''show'', JBool False)]),
      (''axisLabel'', JObj [(''color'', JStr (oct_muted th)), (''fontSize'', JNum 11)]),
      (''splitLine'', JObj [(''lineStyle'', JObj [(''color'', JStr (oct_grid th)), (''type'', JStr ''dashed''),
         (''opacity'', JNum (72 / 100))])])]"

definition baseCartesian :: "OperationsChartTheme \<Rightarrow> bool \<Rightarrow> json_object" where
  "baseCartesian th animated =
     [(''animation'', JBool animated), (''animationDuration'', JNum 360), (''backgroundColor'', JStr (oct_surface th)),
      (''textStyle'', JObj [(''color'', JStr (oct_foreground th)), (''fontFamily'', JStr font_family), (''fontSize'', JNum 11)]),
      (''tooltip'', JObj (spread
         [(''trigger'', JStr ''axis''),
          (''axisPointer'', JObj [(''type'', JStr ''cross''),
             (''lineStyle'', JObj [(''color'', JStr (oct_muted th)), (''opacity'', JNum (5 / 10))]),
             (''crossStyle'', JObj [(''color'', JStr (oct_muted th)), (''opacity'', JNum (5 / 10))])])]
         (tooltipStyle th))),
      (''legend'', JObj [(''top'', JNum 0), (''left'', JNum 0),
         (''textStyle'', JObj [(''color'', JStr (oct_muted th)), (''fontSize'', JNum 11)]),
         (''itemWidth'', JNum 12), (''itemHeight'', JNum 7), (''itemGap'', JNum 16)]),
      (''grid'', JObj [(''top'', JNum 44), (''right'', JNum 16), (''bottom'', JNum 22), (''left'', JNum 34),
         (''containLabel'', JBool True)])]"

definition success_rate :: "TimeSeriesPoint \<Rightarrow> rat" where
  "success_rate point =
     (let requests = safeValue (tsp_requests point)
      in if 0 < requests then min 100 (safeValue (tsp_successful point) / requests * 100) else 0)"

definition reliabilityOption ::
  "(string \<Rightarrow> string) \<Rightarrow> OperationsChartLabels \<Rightarrow> OperationsChartTheme \<Rightarrow> bool \<Rightarrow> TimeSeriesPoint list \<Rightarrow> json_object" where
  "reliabilityOption time_label labels th animated data =
     spread (baseCartesian th animated)
     [(''xAxis'', JObj (categoryAxis (map (\<lambda>p. time_label (tsp_time p)) data) th None)),
      (''yAxis'', JArr [JObj (valueAxis th None),
         JObj (omit ''minInterval'' (spread (valueAxis th None)
           [(''min'', JNum 0), (''max'', JNum 100),
            (''axisLabel'', JObj [(''color'', JStr (oct_muted th)), (''formatter'', JStr ''{value}%'')])]))]),
      (''series'', JArr [
         JObj [(''name'', JStr (ocl_requests labels)), (''type'', JStr ''bar''),
           (''data'', JArr (map (\<lambda>p. JNum (safeValue (tsp_requests p))) data)),
           (''itemStyle'', JObj [(''color'', JStr (oct_accent th)), (''opacity'', JNum (28 / 100))]), (''barMaxWidth'', JNum 14)],
         JObj [(''name'', JStr (ocl_failedAttempts labels)), (''type'', JStr ''line''),
           (''data'', JArr (map (\<lambda>p. JNum (safeValue (tsp_failedAttempts p))) data)), (''symbol'', JStr ''none''),
           (''lineStyle'', JObj [(''color'', JStr (oct_warning th)), (''width'', JNum 2)])],
         JObj [(''name'', JStr (ocl_successRate labels)), (''type'', JStr ''line''), (''yAxisIndex'', JNum 1),
           (''data'', JArr (map (\<lambda>p. JNum (success_rate p)) data)), (''symbol'', JStr ''none''), (''smooth'', JNum (24 / 100)),
           (''lineStyle'', JObj [(''color'', JStr (oct_success th)), (''width'', JNum (25 / 10))])]])]"

definition pressure_line :: "string \<Rightarrow> string \<Rightarrow> rat list \<Rightarrow> json" where
  "pressure_line name color vs =
     JObj [(''name'', JStr name), (''type'', JStr ''line''), (''stack'', JStr ''load''), (''data'', JArr (map JNum vs)),
       (''symbol'', JStr ''none''), (''smooth'', JNum (22 / 100)),
       (''lineStyle'', JObj [(''color'', JStr color), (''width'', JNum (16 / 10))]),
       (''areaStyle'', JObj [(''color'', JStr color), (''opacity'', JNum (16 / 100))])]"

definition in_request :: "PressurePoint \<Rightarrow> js_num" where
  "in_request p = nullish (prp_requesting p) (prp_active p)"

definition pressureOption ::
  "(string \<Rightarrow> string) \<Rightarrow> OperationsChartLabels \<Rightarrow> OperationsChartTheme \<Rightarrow> bool \<Rightarrow> PressurePoint list \<Rightarrow> json_object" where
  "pressureOption time_label labels th animated data =
     spread (baseCartesian th animated)
     [(''xAxis'', JObj (categoryAxis (map (\<lambda>p. time_label (prp_time p)) data) th None)),
      (''yAxis'', JObj (valueAxis th (Some (ocl_requests labels)))),
      (''series'', JArr [
         pressure_line (ocl_requesting labels) (oct_accent th) (map (\<lambda>p. safeValue (in_request p)) data),
         pressure_line (ocl_waiting labels) (oct_warning th) (map (\<lambda>p. safeValue (prp_waiting p)) data),
         pressure_line (ocl_queued labels) (oct_muted th) (map (\<lambda>p. safeValue (prp_queued p)) data)])]"

text \<open>The sort compares the counts of the kept slices, which are finite and positive.\<close>

definition error_values :: "ErrorSlice list \<Rightarrow> ErrorSlice list" where
  "error_values data = sort_key (\<lambda>s. - safeValue (esl_count s)) (filter (\<lambda>s. 0 < safeValue (esl_count s)) data)"

definition error_colors :: "OperationsChartTheme \<Rightarrow> string list" where
  "error_colors th = [oct_warning th, oct_accent th, oct_muted th, oct_success th]"

definition value_label :: "OperationsChartTheme \<Rightarrow> json" where
  "value_label th = JObj [(''show'', JBool True), (''position'', JStr ''right''), (''color'', JStr (oct_muted th))]"

definition bar_grid :: "rat \<Rightarrow> rat \<Rightarrow> rat \<Rightarrow> json" where
  "bar_grid t r b = JObj [(''top'', JNum t), (''right'', JNum r), (''bottom'', JNum b), (''left'', JNum 18), (''containLabel'', JBool True)]"

definition errorsOption :: "OperationsChartLabels \<Rightarrow> OperationsChartTheme \<Rightarrow> bool \<Rightarrow> ErrorSlice list \<Rightarrow> json_object" where
  "errorsOption labels th animated data =
     (let vs = error_values data; colors = error_colors th in
      spread (baseCartesian th animated)
      [(''legend'', JObj [(''show'', JBool False)]), (''grid'', bar_grid 12 22 24), (''xAxis'', JObj (valueAxis th None)),
       (''yAxis'', JObj (spread (categoryAxis (map esl_category vs) th None) [(''inverse'', JBool True)])),
       (''series'', JArr [JObj [(''name'', JStr (ocl_failedAttempts labels)), (''type'', JStr ''bar''), (''barMaxWidth'', JNum 18),
          (''label'', value_label th),
          (''data'', JArr (map (\<lambda>(i, s). JObj [(''value'', JNum (safeValue (esl_count s))),
             (''itemStyle'', colored (colors ! (i mod length colors)))]) (enumerate 0 vs)))]])])"

definition recoveryOption :: "OperationsChartLabels \<Rightarrow> OperationsChartTheme \<Rightarrow> bool \<Rightarrow> RecoveryPoint list \<Rightarrow> json_object" where
  "recoveryOption labels th animated data =
     spread (baseCartesian th animated)
     [(''legend'', JObj [(''show'', JBool False)]), (''grid'', bar_grid 14 24 22),
      (''xAxis'', JObj (valueAxis th (Some (ocl_requests labels)))),
      (''yAxis'', JObj (spread (categoryAxis (map rcv_bucket data) th (Some (ocl_duration labels))) [(''inverse'', JBool True)])),
      (''series'', JArr [JObj [(''name'', JStr (ocl_requests labels)), (''type'', JStr ''bar''),
         (''data'', JArr (map (\<lambda>p. JNum (safeValue (rcv_count p))) data)), (''itemStyle'', colored (oct_accent th)),
         (''label'', value_label th), (''barMaxWidth'', JNum 18)]])]"

section \<open>Empty charts\<close>

definition chart_empty :: "OperationsChartsProps \<Rightarrow> ChartKey \<Rightarrow> bool" where
  "chart_empty ps key = (case key of
     Chart_reliability \<Rightarrow> list_all (\<lambda>p. safeValue (tsp_requests p) = 0 \<and> safeValue (tsp_successful p) = 0 \<and>
       safeValue (tsp_failedAttempts p) = 0) (ocp_reliability ps)
   | Chart_pressure \<Rightarrow> list_all (\<lambda>p. safeValue (in_request p) = 0 \<and> safeValue (prp_waiting p) = 0 \<and>
       safeValue (prp_queued p) = 0) (ocp_pressure ps)
   | Chart_errors \<Rightarrow> list_all (\<lambda>s. safeValue (esl_count s) = 0) (ocp_errors ps)
   | Chart_recovery \<Rightarrow> list_all (\<lambda>p. safeValue (rcv_count p) = 0) (ocp_recovery ps))"

definition chart_options ::
  "(string \<Rightarrow> string) \<Rightarrow> OperationsChartLabels \<Rightarrow> OperationsChartTheme \<Rightarrow> bool \<Rightarrow> OperationsChartsProps \<Rightarrow> ChartKey \<Rightarrow> json_object option" where
  "chart_options time_label labels th reducedMotion ps key =
     (if chart_empty ps key then None
      else Some (case key of
          Chart_reliability \<Rightarrow> reliabilityOption time_label labels th (\<not> reducedMotion) (ocp_reliability ps)
        | Chart_pressure \<Rightarrow> pressureOption time_label labels th (\<not> reducedMotion) (ocp_pressure ps)
        | Chart_errors \<Rightarrow> errorsOption labels th (\<not> reducedMotion) (ocp_errors ps)
        | Chart_recovery \<Rightarrow> recoveryOption labels th (\<not> reducedMotion) (ocp_recovery ps)))"

section \<open>What the charts show\<close>

fun plotted :: "json \<Rightarrow> rat" where
  "plotted (JNum x) = x"
| "plotted (JObj obj) = (case prop_of obj ''value'' of Some (JNum x) \<Rightarrow> x | _ \<Rightarrow> 0)"
| "plotted _ = 0"

fun array_of :: "json option \<Rightarrow> json list" where
  "array_of (Some (JArr xs)) = xs"
| "array_of _ = []"

fun object_of :: "json option \<Rightarrow> json_object" where
  "object_of (Some (JObj obj)) = obj"
| "object_of _ = []"

definition series_data :: "json_object \<Rightarrow> rat list list" where
  "series_data opt = map (\<lambda>s. map plotted (array_of (prop_of (object_of (Some s)) ''data''))) (array_of (prop_of opt ''series''))"

text \<open>The categories are on the horizontal axis of the two time charts, on the other one of the bars.\<close>

definition categories :: "ChartKey \<Rightarrow> json_object \<Rightarrow> json list" where
  "categories key opt =
     array_of (prop_of (object_of (prop_of opt
       (if key \<in> {Chart_reliability, Chart_pressure} then ''xAxis'' else ''yAxis''))) ''data'')"

lemma safeValue_nonneg [simp]: "0 \<le> safeValue v"
  by (cases v) simp_all

lemma success_rate_bounds [simp]: "0 \<le> success_rate p" "success_rate p \<le> 100"
  by (simp_all add: success_rate_def Let_def)

lemma prop_of_spread: "prop_of (spread a b) k = (case map_of (rev b) k of Some v \<Rightarrow> Some v | None \<Rightarrow> prop_of a k)"
proof (induction b arbitrary: a)
  case (Cons p b)
  obtain k' v where p: "p = (k', v)" by (cases p)
  have "prop_of (spread a (p # b)) k = prop_of (spread (map_set k' v a) b) k"
    by (simp add: spread_def p)
  then show ?case
    unfolding Cons.IH by (simp add: p map_add_def prop_of_def map_of_map_set split: option.splits)
qed (simp add: spread_def)

lemma prop_of_simps: "prop_of [] k = None" "prop_of ((k', v) # obj) k = (if k = k' then Some v else prop_of obj k)"
  by (simp_all add: prop_of_def)

lemmas option_simps = prop_of_spread series_data_def categories_def prop_of_simps categoryAxis_def valueAxis_def named_def

lemma reliability_series:
  "series_data (reliabilityOption lab labels th an data) =
     [map (\<lambda>p. safeValue (tsp_requests p)) data, map (\<lambda>p. safeValue (tsp_failedAttempts p)) data, map success_rate data]"
  "categories Chart_reliability (reliabilityOption lab labels th an data) = map (\<lambda>p. JStr (lab (tsp_time p))) data"
  by (simp_all add: reliabilityOption_def option_simps o_def)

lemma pressure_series:
  "series_data (pressureOption lab labels th an data) =
     [map (\<lambda>p. safeValue (in_request p)) data, map (\<lambda>p. safeValue (prp_waiting p)) data, map (\<lambda>p. safeValue (prp_queued p)) data]"
  "categories Chart_pressure (pressureOption lab labels th an data) = map (\<lambda>p. JStr (lab (prp_time p))) data"
  by (simp_all add: pressureOption_def pressure_line_def option_simps o_def)

lemma recovery_series:
  "series_data (recoveryOption labels th an data) = [map (\<lambda>p. safeValue (rcv_count p)) data]"
  "categories Chart_recovery (recoveryOption labels th an data) = map (\<lambda>p. JStr (rcv_bucket p)) data"
  by (simp_all add: recoveryOption_def option_simps o_def)

lemma map_enumerate_snd: "map (\<lambda>(i, s). f s) (enumerate n xs) = map f xs"
  by (induction xs arbitrary: n) simp_all

lemma errors_series:
  "series_data (errorsOption labels th an data) = [map (\<lambda>s. safeValue (esl_count s)) (error_values data)]"
  "categories Chart_errors (errorsOption labels th an data) = map (\<lambda>s. JStr (esl_category s)) (error_values data)"
proof -
  let ?item = "\<lambda>(i, s). JObj [(''value'', JNum (safeValue (esl_count s))), (''itemStyle'', colored (error_colors th ! (i mod length (error_colors th))))]"
  have item: "plotted \<circ> ?item = (\<lambda>(i, s). safeValue (esl_count s))"
    by (simp add: fun_eq_iff prop_of_simps)
  have "series_data (errorsOption labels th an data) = [map (plotted \<circ> ?item) (enumerate 0 (error_values data))]"
    by (simp add: errorsOption_def option_simps Let_def)
  then show "series_data (errorsOption labels th an data) = [map (\<lambda>s. safeValue (esl_count s)) (error_values data)]"
    by (simp only: item map_enumerate_snd)
  show "categories Chart_errors (errorsOption labels th an data) = map (\<lambda>s. JStr (esl_category s)) (error_values data)"
    by (simp add: errorsOption_def option_simps Let_def o_def)
qed

lemmas chart_series = reliability_series pressure_series recovery_series errors_series

lemma error_values_sorted: "sorted_wrt (\<ge>) (map (\<lambda>s. safeValue (esl_count s)) (error_values data))"
proof -
  have "sorted (map (\<lambda>s. - safeValue (esl_count s)) (error_values data))"
    by (simp add: error_values_def)
  then show ?thesis by (simp add: sorted_wrt_map)
qed

text \<open>
  A chart that is drawn has one category per plotted value; the values are
  never negative, success rates are at most 100, errors are positive and fall from left
  to right; and except for the reliability chart something positive is plotted.
\<close>

theorem charts_plot_safely:
  assumes "chart_options lab labels th rm ps key = Some opt"
  shows "(\<forall>vs \<in> set (series_data opt). length vs = length (categories key opt) \<and> (\<forall>x \<in> set vs. 0 \<le> x)) \<and>
     (key = Chart_reliability \<longrightarrow> (\<forall>x \<in> set (last (series_data opt)). x \<le> 100)) \<and>
     (key = Chart_errors \<longrightarrow> sorted_wrt (\<ge>) (hd (series_data opt)) \<and> (\<forall>x \<in> set (hd (series_data opt)). 0 < x)) \<and>
     (key \<noteq> Chart_reliability \<longrightarrow> (\<exists>vs \<in> set (series_data opt). \<exists>x \<in> set vs. 0 < x))"
proof (cases key)
  case Chart_reliability
  then show ?thesis using assms
    by (auto simp: chart_options_def chart_series split: if_splits)
next
  case Chart_pressure
  then show ?thesis using assms
    by (auto simp: chart_options_def chart_empty_def chart_series list_all_iff less_le split: if_splits)
next
  case Chart_errors
  then have opt: "opt = errorsOption labels th (\<not> rm) (ocp_errors ps)" and
    "\<exists>s \<in> set (ocp_errors ps). safeValue (esl_count s) \<noteq> 0"
    using assms by (auto simp: chart_options_def chart_empty_def list_all_iff split: if_splits)
  then obtain s where "s \<in> set (error_values (ocp_errors ps))"
    by (auto simp: error_values_def less_le)
  moreover have "\<forall>s \<in> set (error_values (ocp_errors ps)). 0 < safeValue (esl_count s)"
    by (auto simp: error_values_def)
  ultimately show ?thesis
    using Chart_errors opt error_values_sorted [of "ocp_errors ps"]
    by (auto simp: chart_series)
next
  case Chart_recovery
  then show ?thesis using assms
    by (auto simp: chart_options_def chart_empty_def chart_series list_all_iff less_le split: if_splits)
qed

definition sample_labels :: OperationsChartLabels where
  "sample_labels =
     \<lparr>ocl_reliabilityTitle = ''Reliability'', ocl_pressureTitle = ''Pressure'', ocl_errorsTitle = ''Errors'',
      ocl_recoveryTitle = ''Recovery'', ocl_empty = ''Empty'', ocl_unavailable = ''Unavailable'',
      ocl_requests = ''Requests'', ocl_successRate = ''Success rate'', ocl_failedAttempts = ''Failed'',
      ocl_active = ''Active'', ocl_requesting = ''Requesting'', ocl_waiting = ''Waiting'', ocl_queued = ''Queued'',
      ocl_duration = ''Duration'', ocl_expand = ''Expand'', ocl_collapse = ''Collapse''\<rparr>"

definition sample_errors :: OperationsChartsProps where
  "sample_errors = \<lparr>ocp_reliability = [], ocp_pressure = [],
     ocp_errors = [\<lparr>esl_category = ''timeout'', esl_count = Num 2\<rparr>, \<lparr>esl_category = ''auth'', esl_count = Pos_inf\<rparr>,
       \<lparr>esl_category = ''http_5xx'', esl_count = Num 7\<rparr>],
     ocp_recovery = []\<rparr>"

theorem charts_plot_safely_witness:
  "\<exists>opt. chart_options (\<lambda>s. s) sample_labels (operationsChartTheme True) False sample_errors Chart_errors = Some opt \<and>
     series_data opt = [[7, 2]] \<and> length (categories Chart_errors opt) = 2 \<and> sorted_wrt (\<ge>) (hd (series_data opt))"
proof -
  let ?opt = "errorsOption sample_labels (operationsChartTheme True) True (ocp_errors sample_errors)"
  have some: "chart_options (\<lambda>s. s) sample_labels (operationsChartTheme True) False sample_errors Chart_errors = Some ?opt"
    by (simp add: chart_options_def chart_empty_def sample_errors_def)
  have data: "series_data ?opt = [[7, 2]]" "length (categories Chart_errors ?opt) = 2"
    by (simp_all add: chart_series error_values_def sample_errors_def)
  with charts_plot_safely [OF some] some show ?thesis by blast
qed

section \<open>Accessible tables\<close>

text \<open>
  The tables read out beside the charts. \<open>percent\<close> is the number formatter of the locale,
  \<open>show\<close> prints a number.
\<close>

definition js_positive :: "js_num \<Rightarrow> bool" where
  "js_positive v = (case v of Num x \<Rightarrow> 0 < x | Pos_inf \<Rightarrow> True | _ \<Rightarrow> False)"

definition accessible_rate :: "TimeSeriesPoint \<Rightarrow> js_num" where
  "accessible_rate p =
     (if js_positive (tsp_requests p) then
        let a = safeValue (tsp_successful p); b = safeValue (tsp_requests p)
        in if b \<noteq> 0 then Num (a / b) else if a = 0 then Not_a_number else Pos_inf
      else Num 0)"

definition accessible_reliability ::
  "(string \<Rightarrow> string) \<Rightarrow> (js_num \<Rightarrow> string) \<Rightarrow> (rat \<Rightarrow> string) \<Rightarrow> TimeSeriesPoint list \<Rightarrow> string list list" where
  "accessible_reliability time_label percent show_num data =
     map (\<lambda>p. [time_label (tsp_time p), show_num (safeValue (tsp_requests p)), percent (accessible_rate p),
                show_num (safeValue (tsp_failedAttempts p))]) data"

definition accessible_pressure :: "(string \<Rightarrow> string) \<Rightarrow> (rat \<Rightarrow> string) \<Rightarrow> PressurePoint list \<Rightarrow> string list list" where
  "accessible_pressure time_label show_num data =
     map (\<lambda>p. [time_label (prp_time p), show_num (safeValue (in_request p)), show_num (safeValue (prp_waiting p)),
                show_num (safeValue (prp_queued p))]) data"

definition accessible_errors :: "(rat \<Rightarrow> string) \<Rightarrow> ErrorSlice list \<Rightarrow> string list list" where
  "accessible_errors show_num data =
     map (\<lambda>s. [esl_category s, show_num (safeValue (esl_count s))]) (filter (\<lambda>s. 0 < safeValue (esl_count s)) data)"

definition accessible_recovery :: "(rat \<Rightarrow> string) \<Rightarrow> RecoveryPoint list \<Rightarrow> string list list" where
  "accessible_recovery show_num data = map (\<lambda>p. [rcv_bucket p, show_num (safeValue (rcv_count p))]) data"

text \<open>The table agrees with the chart on consistent data; it does not cap the rate as the chart does.\<close>

lemma accessible_rate_agrees:
  assumes "tsp_requests p = Num r" "tsp_successful p = Num s" "s \<le> r"
  shows "accessible_rate p = Num (success_rate p / 100)"
proof (cases "0 < r")
  case True
  have "max 0 s / r \<le> 1" using True assms(3) by simp
  then have "max 0 s / r * 100 \<le> 1 * 100" by (rule mult_right_mono) simp
  then have "min 100 (max 0 s / r * 100) = max 0 s / r * 100" by (intro min_absorb2) simp
  then show ?thesis using True assms by (simp add: accessible_rate_def success_rate_def js_positive_def Let_def)
qed (use assms in \<open>simp add: accessible_rate_def success_rate_def js_positive_def\<close>)

lemma accessible_rate_uncapped:
  "\<exists>p. success_rate p = 100 \<and> accessible_rate p = Num 2"
proof (intro exI conjI)
  let ?p = "\<lparr>tsp_time = [], tsp_requests = Num 1, tsp_successful = Num 2, tsp_failedAttempts = Num 0\<rparr>"
  show "success_rate ?p = 100" by (simp add: success_rate_def)
  show "accessible_rate ?p = Num 2" by (simp add: accessible_rate_def js_positive_def)
qed

section \<open>Cards and the secondary chart\<close>

datatype LoadState = Load_loading | Load_ready | Load_failed

definition chart_key_string :: "ChartKey \<Rightarrow> string" where
  "chart_key_string key = (case key of Chart_reliability \<Rightarrow> ''reliability'' | Chart_pressure \<Rightarrow> ''pressure''
     | Chart_errors \<Rightarrow> ''errors'' | Chart_recovery \<Rightarrow> ''recovery'')"

definition card_classes :: "ChartKey \<Rightarrow> bool \<Rightarrow> LoadState \<Rightarrow> bool \<Rightarrow> bool \<Rightarrow> bool \<Rightarrow> string list" where
  "card_classes key blank load active expanded showHeader =
     filter (\<lambda>c. c \<noteq> [])
       [''operations-chart'', ''operations-chart--'' @ chart_key_string key,
        if blank then ''operations-chart--empty'' else [],
        if load = Load_failed then ''operations-chart--unavailable'' else [],
        if active then ''is-active'' else ''is-inactive'',
        if expanded then ''is-expanded'' else [],
        if showHeader then [] else ''operations-chart--headerless'']"

definition card_message :: "OperationsChartLabels \<Rightarrow> bool \<Rightarrow> LoadState \<Rightarrow> string option" where
  "card_message labels blank load =
     (if load = Load_failed then Some (ocl_unavailable labels)
      else if blank then Some (ocl_empty labels) else None)"

definition card_table_shown :: "bool \<Rightarrow> LoadState \<Rightarrow> bool" where
  "card_table_shown blank load \<longleftrightarrow> \<not> blank \<and> load = Load_ready"

datatype expansion = Expand_none | Expand_reliability | Expand_secondary

record chart_deck =
  dk_secondary :: ChartKey
  dk_manual :: bool
  dk_expanded :: expansion

definition preferred_changed :: "ChartKey \<Rightarrow> chart_deck \<Rightarrow> chart_deck" where
  "preferred_changed preferred d = (if dk_manual d then d else d\<lparr>dk_secondary := preferred\<rparr>)"

definition select_secondary :: "ChartKey \<Rightarrow> chart_deck \<Rightarrow> chart_deck" where
  "select_secondary key d = d\<lparr>dk_manual := True, dk_secondary := key\<rparr>"

definition toggle_expanded :: "expansion \<Rightarrow> chart_deck \<Rightarrow> chart_deck" where
  "toggle_expanded e d = d\<lparr>dk_expanded := if dk_expanded d = e then Expand_none else e\<rparr>"

text \<open>A tab chosen by hand is not taken back by a change of the preferred chart.\<close>

lemma manual_choice_stays:
  "dk_secondary (fold preferred_changed ps (select_secondary key d)) = key"
proof -
  have "fold preferred_changed ps e = e" if "dk_manual e" for e
    using that by (induction ps) (simp_all add: preferred_changed_def)
  then show ?thesis by (simp add: select_secondary_def)
qed

section \<open>Life cycle of the chart instances\<close>

datatype chart_op = Set_option json_object | Clear_chart | Resize_chart | Dispose_chart

text \<open>
  The effect that loads the chart runtime: \<open>ch_started\<close> when the import has settled and its
  callback has run, \<open>ch_rejected\<close> while the \<open>catch\<close> callback is still to run. The log has the
  newest call first.
\<close>

record chart_life =
  ch_cancelled :: bool
  ch_started :: bool
  ch_rejected :: bool
  ch_created :: "nat list"
  ch_instances :: "(ChartKey \<times> nat) list"
  ch_log :: "(nat \<times> chart_op) list"
  ch_load :: LoadState

definition initial_charts :: chart_life where
  "initial_charts = \<lparr>ch_cancelled = False, ch_started = False, ch_rejected = False, ch_created = [],
     ch_instances = [], ch_log = [], ch_load = Load_loading\<rparr>"

definition isDisposed :: "chart_life \<Rightarrow> nat \<Rightarrow> bool" where
  "isDisposed st c \<longleftrightarrow> (c, Dispose_chart) \<in> set (ch_log st)"

definition chart_call :: "nat \<Rightarrow> chart_op \<Rightarrow> chart_life \<Rightarrow> chart_life" where
  "chart_call c p st = st\<lparr>ch_log := (c, p) # ch_log st\<rparr>"

definition live_call :: "chart_op \<Rightarrow> nat \<Rightarrow> chart_life \<Rightarrow> chart_life" where
  "live_call p c st = (if isDisposed st c then st else chart_call c p st)"

definition option_call :: "json_object option \<Rightarrow> chart_op" where
  "option_call v = (case v of Some opt \<Rightarrow> Set_option opt | None \<Rightarrow> Clear_chart)"

definition applyOptions :: "(ChartKey \<Rightarrow> json_object option) \<Rightarrow> chart_life \<Rightarrow> chart_life" where
  "applyOptions options st =
     fold (\<lambda>key st. case map_of (ch_instances st) key of None \<Rightarrow> st
             | Some c \<Rightarrow> live_call (option_call (options key)) c st) chartKeys st"

definition resize_charts :: "chart_life \<Rightarrow> chart_life" where
  "resize_charts st = fold (\<lambda>(_, c). live_call Resize_chart c) (ch_instances st) st"

text \<open>\<open>core.init\<close> on the nodes that are mounted; it may throw, and the charts made so far stay created.\<close>

fun init_charts :: "(ChartKey \<Rightarrow> bool) \<Rightarrow> (ChartKey \<Rightarrow> bool) \<Rightarrow> ChartKey list \<Rightarrow> (ChartKey \<times> nat) list \<Rightarrow> nat list \<Rightarrow>
    bool \<times> (ChartKey \<times> nat) list \<times> nat list" where
  "init_charts mounted returns [] insts created = (True, insts, created)"
| "init_charts mounted returns (key # keys) insts created =
     (if \<not> mounted key then init_charts mounted returns keys insts created
      else if \<not> returns key then (False, insts, created)
      else init_charts mounted returns keys (insts @ [(key, length created)]) (created @ [length created]))"

definition runtime_loaded ::
  "(ChartKey \<Rightarrow> bool) \<Rightarrow> (ChartKey \<Rightarrow> bool) \<Rightarrow> bool \<Rightarrow> (ChartKey \<Rightarrow> json_object option) \<Rightarrow> chart_life \<Rightarrow> chart_life" where
  "runtime_loaded mounted returns observing options st =
     (if ch_cancelled st then st\<lparr>ch_started := True\<rparr>
      else case init_charts mounted returns chartKeys [] (ch_created st) of
          (False, _, created) \<Rightarrow> st\<lparr>ch_started := True, ch_created := created, ch_rejected := True\<rparr>
        | (True, insts, created) \<Rightarrow>
            let st' = applyOptions options (st\<lparr>ch_started := True, ch_created := created, ch_instances := insts\<rparr>)
            in if observing then st'\<lparr>ch_load := Load_ready\<rparr> else st'\<lparr>ch_rejected := True\<rparr>)"

definition runtime_failed :: "chart_life \<Rightarrow> chart_life" where
  "runtime_failed st = st\<lparr>ch_started := True, ch_rejected := True\<rparr>"

definition load_caught :: "chart_life \<Rightarrow> chart_life" where
  "load_caught st =
     (let st' = fold (\<lambda>c. chart_call c Dispose_chart) (ch_created st) st
      in st'\<lparr>ch_rejected := False, ch_load := if ch_cancelled st then ch_load st else Load_failed\<rparr>)"

definition charts_cleanup :: "chart_life \<Rightarrow> chart_life" where
  "charts_cleanup st = (fold (live_call Dispose_chart) (ch_created st) (st\<lparr>ch_cancelled := True\<rparr>))\<lparr>ch_instances := []\<rparr>"

inductive chart_step :: "chart_life \<Rightarrow> chart_life \<Rightarrow> bool" where
  loaded: "\<not> ch_started st \<Longrightarrow> chart_step st (runtime_loaded mounted returns observing options st)"
| failed: "\<not> ch_started st \<Longrightarrow> chart_step st (runtime_failed st)"
| caught: "ch_rejected st \<Longrightarrow> chart_step st (load_caught st)"
| options: "\<not> ch_cancelled st \<Longrightarrow> chart_step st (applyOptions opts st)"
| resized: "\<not> ch_cancelled st \<Longrightarrow> chart_step st (resize_charts st)"
| unmounted: "\<not> ch_cancelled st \<Longrightarrow> chart_step st (charts_cleanup st)"

text \<open>Nothing is done to a chart once it is disposed, except disposing it again.\<close>

fun log_ok :: "(nat \<times> chart_op) list \<Rightarrow> bool" where
  "log_ok [] = True"
| "log_ok ((c, p) # later) = (log_ok later \<and> (p = Dispose_chart \<or> (c, Dispose_chart) \<notin> set later))"

definition chart_ok :: "chart_life \<Rightarrow> bool" where
  "chart_ok st \<longleftrightarrow> log_ok (ch_log st) \<and> (ch_rejected st \<longrightarrow> ch_started st) \<and> (\<not> ch_started st \<longrightarrow> ch_created st = [] \<and> ch_load st = Load_loading) \<and>
     (ch_cancelled st \<or> ch_load st = Load_failed \<longrightarrow> list_all (isDisposed st) (ch_created st))"

text \<open>What every call on a chart keeps.\<close>

definition chart_frame :: "chart_life \<Rightarrow> chart_life \<Rightarrow> bool" where
  "chart_frame st st' \<longleftrightarrow> ch_cancelled st' = ch_cancelled st \<and> ch_started st' = ch_started st \<and> ch_rejected st' = ch_rejected st \<and>
     ch_created st' = ch_created st \<and> ch_load st' = ch_load st \<and> set (ch_log st) \<subseteq> set (ch_log st') \<and>
     (log_ok (ch_log st) \<longrightarrow> log_ok (ch_log st'))"

lemma frame_refl [intro]: "chart_frame st st"
  by (simp add: chart_frame_def)

lemma frame_trans [trans]: "chart_frame a b \<Longrightarrow> chart_frame b c \<Longrightarrow> chart_frame a c"
  by (auto simp: chart_frame_def)

lemma frame_fold: "(\<And>x st. x \<in> set xs \<Longrightarrow> chart_frame st (f x st)) \<Longrightarrow> chart_frame st (fold f xs st)"
proof (induction xs arbitrary: st)
  case (Cons x xs)
  have "chart_frame st (f x st)" by (simp add: Cons.prems)
  also have "chart_frame (f x st) (fold f xs (f x st))" using Cons.prems by (intro Cons.IH) simp
  finally show ?case by simp
qed auto

lemma frame_live_call: "chart_frame st (live_call p c st)"
  by (auto simp: chart_frame_def live_call_def chart_call_def isDisposed_def)

lemma frame_dispose: "chart_frame st (chart_call c Dispose_chart st)"
  by (auto simp: chart_frame_def chart_call_def)

lemma frame_applyOptions: "chart_frame st (applyOptions options st)"
  unfolding applyOptions_def by (intro frame_fold) (auto split: option.splits intro: frame_live_call)

lemma frame_resize: "chart_frame st (resize_charts st)"
  unfolding resize_charts_def by (intro frame_fold) (auto intro: frame_live_call)

lemma disposed_fold:
  assumes "\<And>c st. chart_frame st (f c st)" "\<And>c st. isDisposed (f c st) c"
  shows "list_all (isDisposed (fold f cs st)) cs"
proof (induction cs arbitrary: st)
  case (Cons c cs)
  have "chart_frame (f c st) (fold f cs (f c st))" using assms(1) by (intro frame_fold)
  then have "isDisposed (fold f cs (f c st)) c"
    using assms(2) [of c st] by (auto simp: chart_frame_def isDisposed_def)
  with Cons show ?case by simp
qed simp

lemma chart_ok_frame: "chart_ok st \<Longrightarrow> chart_frame st st' \<Longrightarrow> chart_ok st'"
  by (auto simp: chart_ok_def chart_frame_def isDisposed_def list_all_iff)

lemma chart_ok_loaded:
  assumes "chart_ok st" "\<not> ch_started st"
  shows "chart_ok (runtime_loaded mounted returns observing options st)"
proof (cases "ch_cancelled st")
  case False
  obtain ok insts created where i: "init_charts mounted returns chartKeys [] (ch_created st) = (ok, insts, created)"
    by (metis prod_cases3)
  let ?st = "st\<lparr>ch_started := True, ch_created := created, ch_instances := insts\<rparr>"
  have fresh: "ch_load st = Load_loading" "log_ok (ch_log st)" using assms by (auto simp: chart_ok_def)
  have "chart_frame ?st (applyOptions options ?st)" by (rule frame_applyOptions)
  then show ?thesis
    using False fresh i
    by (cases ok) (auto simp: runtime_loaded_def chart_ok_def chart_frame_def Let_def)
qed (use assms in \<open>auto simp: runtime_loaded_def chart_ok_def isDisposed_def\<close>)

lemma chart_ok_caught:
  assumes "chart_ok st" "ch_rejected st" shows "chart_ok (load_caught st)"
proof -
  let ?st = "fold (\<lambda>c. chart_call c Dispose_chart) (ch_created st) st"
  have frame: "chart_frame st ?st" by (intro frame_fold frame_dispose)
  have "list_all (isDisposed ?st) (ch_created st)"
    by (rule disposed_fold [OF frame_dispose]) (simp add: isDisposed_def chart_call_def)
  with chart_ok_frame [OF assms(1) frame] frame assms(2) show ?thesis
    by (auto simp: load_caught_def chart_ok_def chart_frame_def isDisposed_def Let_def list_all_iff)
qed

lemma chart_ok_cleanup:
  assumes "chart_ok st" shows "chart_ok (charts_cleanup st)"
proof -
  let ?st = "st\<lparr>ch_cancelled := True\<rparr>" and ?st' = "fold (live_call Dispose_chart) (ch_created st) (st\<lparr>ch_cancelled := True\<rparr>)"
  have frame: "chart_frame ?st ?st'" by (intro frame_fold frame_live_call)
  have "list_all (isDisposed ?st') (ch_created st)"
    by (rule disposed_fold [OF frame_live_call]) (simp add: isDisposed_def live_call_def chart_call_def)
  with assms frame show ?thesis
    by (auto simp: charts_cleanup_def chart_ok_def chart_frame_def isDisposed_def list_all_iff)
qed

lemma chart_ok_step: "chart_step st st' \<Longrightarrow> chart_ok st \<Longrightarrow> chart_ok st'"
proof (induction rule: chart_step.induct)
  case (failed st)
  then show ?case by (auto simp: runtime_failed_def chart_ok_def isDisposed_def)
qed (auto intro: chart_ok_loaded chart_ok_caught chart_ok_cleanup chart_ok_frame frame_applyOptions frame_resize)

interpretation chart_system: step_system chart_step "\<lambda>st. st = initial_charts" chart_ok
proof
  show "chart_ok s" if "s = initial_charts" for s using that by (simp add: chart_ok_def initial_charts_def)
  show "chart_ok t" if "chart_step s t" "chart_ok s" for s t using that by (rule chart_ok_step)
qed

text \<open>
  Claim C30: charts are neither leaked nor used after disposal. However the import of the
  chart runtime, its failures, new options, resizes and the unmount interleave, nothing is
  done to a disposed chart except disposing it again, and once the view is unmounted or
  the runtime has been reported as failed every chart that was created is disposed.
\<close>

theorem charts_never_leak:
  assumes "chart_step\<^sup>*\<^sup>* initial_charts st"
  shows "log_ok (ch_log st) \<and>
     (ch_cancelled st \<or> ch_load st = Load_failed \<longrightarrow> (\<forall>c \<in> set (ch_created st). (c, Dispose_chart) \<in> set (ch_log st)))"
  using chart_system.inv_reachable [OF assms refl] by (auto simp: chart_ok_def isDisposed_def list_all_iff)

theorem charts_never_leak_witness:
  "\<exists>st. chart_step\<^sup>*\<^sup>* initial_charts st \<and> ch_created st = [0, 1] \<and> ch_cancelled st \<and>
     (\<forall>c \<in> set (ch_created st). (c, Dispose_chart) \<in> set (ch_log st))"
proof -
  let ?a = "runtime_loaded (\<lambda>_. True) (\<lambda>key. key \<noteq> Chart_errors) True (\<lambda>_. None) initial_charts"
  have a: "chart_step initial_charts ?a" by (rule chart_step.loaded) (simp add: initial_charts_def)
  have c: "ch_created ?a = [0, 1]" "\<not> ch_cancelled ?a"
    by (simp_all add: runtime_loaded_def initial_charts_def chartKeys_def)
  have b: "chart_step ?a (charts_cleanup ?a)" using c by (intro chart_step.unmounted)
  have r: "chart_step\<^sup>*\<^sup>* initial_charts (charts_cleanup ?a)"
    by (rule converse_rtranclp_into_rtranclp [OF a r_into_rtranclp [of chart_step, OF b]])
  have "chart_frame (?a\<lparr>ch_cancelled := True\<rparr>)
      (fold (live_call Dispose_chart) (ch_created ?a) (?a\<lparr>ch_cancelled := True\<rparr>))"
    by (intro frame_fold frame_live_call)
  then have "ch_created (charts_cleanup ?a) = [0, 1]" "ch_cancelled (charts_cleanup ?a)"
    using c by (simp_all add: charts_cleanup_def chart_frame_def)
  with charts_never_leak [OF r] r show ?thesis by blast
qed

end
