(* ===== verification/Topology.thy ===== *)
theory Topology
  imports Charts RequestTypes
begin

text \<open>
  The signal view of the overview: web/src/components/SignalTopology.tsx and the scene it
  mounts, web/src/components/signalTopologyScene.ts. The drawing library is not modelled;
  a geometry or material is its name, a mesh is the pair it is made of, and what a frame
  sets on the objects is a record of reals. Browser answers (the parsed date, the computed
  style, random numbers) are arguments.
\<close>

section \<open>Data\<close>

datatype SignalUpstreamState = Signal_unknown | Signal_healthy | Signal_degraded

record SignalTopologyLabels =
  stl_ariaLabel :: string
  stl_codex :: string
  stl_relay :: string
  stl_cpa :: string
  stl_healthy :: string
  stl_degraded :: string
  stl_unknown :: string
  stl_active :: string
  stl_waiting :: string
  stl_nextRetry :: string
  stl_retryNow :: string
  stl_staticFallback :: string
  stl_stateLabels :: "((string \<times> string) list) option"

record SignalTopologyTheme =
  stt_foreground :: string
  stt_muted :: string
  stt_relay :: string
  stt_healthy :: string
  stt_degraded :: string
  stt_unknown :: string
  stt_signal :: string

record TopologySnapshot =
  tsn_upstreamState :: SignalUpstreamState
  tsn_active :: int
  tsn_waiting :: int
  tsn_nextRetryAt :: "string option"

datatype RenderState = Render_loading | Render_ready | Render_fallback | Render_compact

definition fallbackTheme :: SignalTopologyTheme where
  "fallbackTheme = \<lparr>stt_foreground = ''#e8edf2'', stt_muted = ''#718096'', stt_relay = ''#10b981'', stt_healthy = ''#34d399'',
     stt_degraded = ''#f59e0b'', stt_unknown = ''#7e8b99'', stt_signal = ''#34d399''\<rparr>"

definition safeCount :: "js_num \<Rightarrow> int" where
  "safeCount v = (case v of Num x \<Rightarrow> max 0 \<lfloor>x + 1 / 2\<rfloor> | _ \<Rightarrow> 0)"

definition stateColor :: "SignalUpstreamState \<Rightarrow> SignalTopologyTheme \<Rightarrow> string" where
  "stateColor s th = (if s = Signal_healthy then stt_healthy th else if s = Signal_degraded then stt_degraded th else stt_unknown th)"

text \<open>\<open>supplied?.[key] || styles.getPropertyValue(...).trim() || fallbackTheme[key]\<close>.\<close>

definition resolve_color :: "string option \<Rightarrow> string \<Rightarrow> string \<Rightarrow> string" where
  "resolve_color supplied style fallback =
     (if truthy_string supplied then nullish supplied []
      else if js_trim style \<noteq> [] then js_trim style else fallback)"

definition resolveTheme :: "(string \<Rightarrow> string) \<Rightarrow> (string \<Rightarrow> string option) \<Rightarrow> SignalTopologyTheme" where
  "resolveTheme styles supplied =
     (let pick = (\<lambda>key. resolve_color (supplied key) (styles (''--signal-topology-'' @ key))) in
      \<lparr>stt_foreground = pick ''foreground'' (stt_foreground fallbackTheme), stt_muted = pick ''muted'' (stt_muted fallbackTheme),
       stt_relay = pick ''relay'' (stt_relay fallbackTheme), stt_healthy = pick ''healthy'' (stt_healthy fallbackTheme),
       stt_degraded = pick ''degraded'' (stt_degraded fallbackTheme), stt_unknown = pick ''unknown'' (stt_unknown fallbackTheme),
       stt_signal = pick ''signal'' (stt_signal fallbackTheme)\<rparr>)"

section \<open>Objects of the scene\<close>

datatype geometry = NodeGeometry | RelayGeometry | SignalGeometry | HaloGeometry | OuterHaloGeometry | DustGeometry
  | ConnectionGeometry nat

datatype shape = Icosahedron rat nat | Octahedron rat nat | Sphere rat nat nat | Torus rat rat nat nat
  | Polyline "(rat \<times> rat \<times> rat) list"

definition geometry_shape :: "geometry \<Rightarrow> shape" where
  "geometry_shape g = (case g of
     NodeGeometry \<Rightarrow> Icosahedron (48 / 100) 3
   | RelayGeometry \<Rightarrow> Octahedron (68 / 100) 2
   | SignalGeometry \<Rightarrow> Sphere (65 / 1000) 12 12
   | HaloGeometry \<Rightarrow> Torus (72 / 100) (15 / 1000) 16 64
   | OuterHaloGeometry \<Rightarrow> Torus (92 / 100) (2 / 100) 16 64
   | DustGeometry \<Rightarrow> Sphere (2 / 100) 6 6
   | ConnectionGeometry i \<Rightarrow>
       if i = 0 then Polyline [(- 28 / 10, 0, 0), (- 65 / 100, 0, 0)] else Polyline [(65 / 100, 0, 0), (28 / 10, 0, 0)])"

datatype material = CodexMaterial | CodexHaloMaterial | RelayMaterial | RelayHaloMaterial | CpaMaterial | CpaHaloMaterial
  | SignalMaterial | RetryMaterial | DustMaterial | ConnectionMaterial nat

text \<open>Colour, opacity of a transparent material, roughness and metalness of a lit one.\<close>

definition material_look :: "SignalTopologyTheme \<Rightarrow> material \<Rightarrow> string \<times> rat option \<times> (rat \<times> rat) option" where
  "material_look th m = (case m of
     CodexMaterial \<Rightarrow> (stt_foreground th, None, Some (25 / 100, 25 / 100))
   | CodexHaloMaterial \<Rightarrow> (stt_foreground th, Some (35 / 100), None)
   | RelayMaterial \<Rightarrow> (stt_relay th, None, Some (15 / 100, 4 / 10))
   | RelayHaloMaterial \<Rightarrow> (stt_relay th, Some (65 / 100), None)
   | CpaMaterial \<Rightarrow> (stt_unknown th, None, Some (25 / 100, 25 / 100))
   | CpaHaloMaterial \<Rightarrow> (stt_unknown th, Some (45 / 100), None)
   | SignalMaterial \<Rightarrow> (stt_signal th, Some (95 / 100), None)
   | RetryMaterial \<Rightarrow> (stt_degraded th, Some (75 / 100), None)
   | DustMaterial \<Rightarrow> (stt_signal th, Some (25 / 100), None)
   | ConnectionMaterial _ \<Rightarrow> (stt_muted th, Some (45 / 100), None))"

record mesh =
  mesh_geometry :: geometry
  mesh_material :: material
  mesh_position :: "real \<times> real \<times> real"

datatype resource = Resource_geometry geometry | Resource_material material

datatype scene_child = Child_mesh mesh | Child_line geometry material
  | Child_light string rat "(rat \<times> rat \<times> rat) option"

record TopologyObjects =
  tob_codex :: mesh
  tob_codexHalo :: mesh
  tob_relay :: mesh
  tob_relayRingOuter :: mesh
  tob_relayRingInner :: mesh
  tob_cpa :: mesh
  tob_cpaHalo :: mesh
  tob_cpaMaterial :: material
  tob_connections :: "material list"
  tob_retryRing :: mesh
  tob_retryMaterial :: material
  tob_signalMaterial :: material
  tob_signals :: "mesh list"
  tob_ambientParticles :: "mesh list"
  tob_resources :: "resource list"

definition mesh_at :: "real \<Rightarrow> geometry \<Rightarrow> material \<Rightarrow> mesh" where
  "mesh_at x g m = \<lparr>mesh_geometry = g, mesh_material = m, mesh_position = (x, 0, 0)\<rparr>"

text \<open>The objects and the children added to the scene; \<open>rnd i\<close> gives the three random numbers of particle \<open>i\<close>.\<close>

definition createTopologyObjects :: "(nat \<Rightarrow> real \<times> real \<times> real) \<Rightarrow> TopologyObjects \<times> scene_child list" where
  "createTopologyObjects rnd =
     (let connections = map ConnectionMaterial [0, 1];
          connectionGeometries = map ConnectionGeometry [0, 1];
          lights = [Child_light ''#10b981'' (35 / 10) (Some (0, 2, 3)), Child_light ''#3b82f6'' 2 (Some (- 3, - 1, 2)),
            Child_light ''#ffffff'' (65 / 100) None];
          codex = mesh_at (- 32 / 10) NodeGeometry CodexMaterial;
          codexHalo = mesh_at (- 32 / 10) HaloGeometry CodexHaloMaterial;
          relay = mesh_at 0 RelayGeometry RelayMaterial;
          relayRingInner = mesh_at 0 HaloGeometry RelayHaloMaterial;
          relayRingOuter = mesh_at 0 OuterHaloGeometry RelayHaloMaterial;
          cpa = mesh_at (32 / 10) NodeGeometry CpaMaterial;
          cpaHalo = mesh_at (32 / 10) HaloGeometry CpaHaloMaterial;
          signals = replicate 16 (mesh_at 0 SignalGeometry SignalMaterial);
          ambientParticles = map (\<lambda>i. case rnd i of (a, b, c) \<Rightarrow>
            \<lparr>mesh_geometry = DustGeometry, mesh_material = DustMaterial,
             mesh_position = ((a - 1 / 2) * 8, (b - 1 / 2) * 4, (c - 1 / 2) * 3)\<rparr>) [0..<24];
          retryRing = mesh_at 0 OuterHaloGeometry RetryMaterial
      in (\<lparr>tob_codex = codex, tob_codexHalo = codexHalo, tob_relay = relay, tob_relayRingOuter = relayRingOuter,
           tob_relayRingInner = relayRingInner, tob_cpa = cpa, tob_cpaHalo = cpaHalo, tob_cpaMaterial = CpaMaterial,
           tob_connections = connections, tob_retryRing = retryRing, tob_retryMaterial = RetryMaterial,
           tob_signalMaterial = SignalMaterial, tob_signals = signals, tob_ambientParticles = ambientParticles,
           tob_resources = map Resource_geometry ([NodeGeometry, RelayGeometry, SignalGeometry, HaloGeometry, OuterHaloGeometry,
               DustGeometry] @ connectionGeometries) @
             map Resource_material ([CodexMaterial, CodexHaloMaterial, RelayMaterial, RelayHaloMaterial, CpaMaterial,
               CpaHaloMaterial, SignalMaterial, RetryMaterial, DustMaterial] @ connections)\<rparr>,
          lights @ map Child_mesh [codex, codexHalo, relay, relayRingInner, relayRingOuter, cpa, cpaHalo] @
          map2 Child_line connectionGeometries connections @ map Child_mesh signals @ map Child_mesh ambientParticles @
          [Child_mesh retryRing]))"

fun child_resources :: "scene_child \<Rightarrow> resource list" where
  "child_resources (Child_mesh m) = [Resource_geometry (mesh_geometry m), Resource_material (mesh_material m)]"
| "child_resources (Child_line g m) = [Resource_geometry g, Resource_material m]"
| "child_resources (Child_light _ _ _) = []"

section \<open>A frame\<close>

record signal_frame =
  sgf_visible :: bool
  sgf_x :: real
  sgf_y :: real
  sgf_scale :: real

record scene_frame =
  scf_signals :: "signal_frame list"
  scf_relayRotation :: "real \<times> real"
  scf_ringInnerRotation :: "real \<times> real"
  scf_ringOuterRotation :: "real \<times> real"
  scf_codexHaloRotation :: real
  scf_cpaHaloRotation :: real
  scf_particleHeights :: "real list"
  scf_relayScale :: real
  scf_retryVisible :: bool
  scf_retryRotation :: real
  scf_cpaColor :: string
  scf_connectionColor :: string
  scf_connectionOpacity :: real
  scf_signalOpacity :: real

text \<open>\<open>x % 1\<close>, with the sign of \<open>x\<close>.\<close>

definition js_mod1 :: "real \<Rightarrow> real" where
  "js_mod1 x = (if 0 \<le> x then x - of_int \<lfloor>x\<rfloor> else x + of_int \<lfloor>- x\<rfloor>)"

definition active_signals :: "nat \<Rightarrow> TopologySnapshot \<Rightarrow> int" where
  "active_signals n snapshot = min (int n) (safeCount (Num (of_int (tsn_active snapshot))))"

definition signal_speed :: "TopologySnapshot \<Rightarrow> real \<Rightarrow> bool \<Rightarrow> real" where
  "signal_speed snapshot elapsed motionAllowed =
     (if motionAllowed then elapsed * (28 / 100 + of_int (min (tsn_active snapshot) 24) * (15 / 1000)) else 4 / 10)"

definition signal_at :: "nat \<Rightarrow> TopologySnapshot \<Rightarrow> real \<Rightarrow> bool \<Rightarrow> nat \<Rightarrow> signal_frame" where
  "signal_at n snapshot elapsed motionAllowed index =
     (let activeSignals = active_signals n snapshot;
          progress = js_mod1 (signal_speed snapshot elapsed motionAllowed + of_nat index / of_int (max 1 activeSignals))
      in \<lparr>sgf_visible = (int index < activeSignals \<or> (index = 0 \<and> tsn_active snapshot = 0)),
          sgf_x = - 28 / 10 + progress * (56 / 10), sgf_y = sin (progress * pi * 2) * (8 / 100),
          sgf_scale = 7 / 10 + sin (progress * pi) * (1 / 2)\<rparr>)"

definition retrying :: "TopologySnapshot \<Rightarrow> bool" where
  "retrying snapshot \<longleftrightarrow> 0 < tsn_waiting snapshot \<or> truthy_string (tsn_nextRetryAt snapshot)"

definition updateScene :: "TopologySnapshot \<Rightarrow> SignalTopologyTheme \<Rightarrow> real \<Rightarrow> bool \<Rightarrow> scene_frame \<Rightarrow> scene_frame" where
  "updateScene snapshot th elapsed motionAllowed f =
     (let n = length (scf_signals f);
          moved = (if motionAllowed then
            f\<lparr>scf_relayRotation := (elapsed * (35 / 100), elapsed * (65 / 100)),
              scf_ringInnerRotation := (elapsed * (8 / 10), elapsed * (4 / 10)),
              scf_ringOuterRotation := (elapsed * (2 / 10), - elapsed * (6 / 10)),
              scf_codexHaloRotation := elapsed * (4 / 10), scf_cpaHaloRotation := - elapsed * (4 / 10),
              scf_particleHeights := map (\<lambda>(i, y). y + sin (elapsed + of_nat i) * (15 / 10000))
                (enumerate 0 (scf_particleHeights f))\<rparr> else f);
          pulse = (if motionAllowed then 1 + sin (elapsed * 4) * (5 / 100) else 1);
          color = stateColor (tsn_upstreamState snapshot) th
      in moved\<lparr>scf_signals := map (signal_at n snapshot elapsed motionAllowed) [0..<n],
           scf_relayScale := (if retrying snapshot then pulse * (108 / 100) else pulse),
           scf_retryVisible := retrying snapshot,
           scf_retryRotation := (if motionAllowed then elapsed * (8 / 10) else 0),
           scf_cpaColor := color, scf_connectionColor := color,
           scf_connectionOpacity := (if tsn_upstreamState snapshot = Signal_healthy then 85 / 100 else 45 / 100),
           scf_signalOpacity := (if tsn_upstreamState snapshot = Signal_degraded then 65 / 100 else 95 / 100)\<rparr>)"

text \<open>Width and height set on the renderer, aspect and distance of the camera.\<close>

definition resize_camera :: "int \<Rightarrow> int \<Rightarrow> int \<times> int \<times> real \<times> real" where
  "resize_camera clientWidth clientHeight =
     (let width = max 1 clientWidth; height = max 1 clientHeight; aspect = of_int width / of_int height
      in (width, height, aspect, max (92 / 10) (108 / 10 / aspect)))"

section \<open>The view\<close>

definition formatRetry :: "(string \<Rightarrow> int option) \<Rightarrow> (int \<Rightarrow> string) \<Rightarrow> int \<Rightarrow> string \<Rightarrow> string \<Rightarrow> string" where
  "formatRetry ms_of clock now retryNow nextRetryAt =
     (case ms_of nextRetryAt of None \<Rightarrow> nextRetryAt | Some ms \<Rightarrow> if ms \<le> now then retryNow else clock ms)"

definition visibleRequests :: "RequestInfo list \<Rightarrow> RequestInfo list" where
  "visibleRequests requests = take 3 requests"

definition overflow_count :: "RequestInfo list \<Rightarrow> nat" where
  "overflow_count requests = length requests - length (visibleRequests requests)"

definition stateLabel :: "SignalTopologyLabels \<Rightarrow> SignalUpstreamState \<Rightarrow> string" where
  "stateLabel labels s = (if s = Signal_healthy then stl_healthy labels else if s = Signal_degraded then stl_degraded labels else stl_unknown labels)"

definition upstream_string :: "SignalUpstreamState \<Rightarrow> string" where
  "upstream_string s = (case s of Signal_unknown \<Rightarrow> ''unknown'' | Signal_healthy \<Rightarrow> ''healthy'' | Signal_degraded \<Rightarrow> ''degraded'')"

definition topology_classes :: "TopologySnapshot \<Rightarrow> RenderState \<Rightarrow> string option \<Rightarrow> string \<Rightarrow> string list" where
  "topology_classes snapshot rs selectedRequestId className =
     filter (\<lambda>c. c \<noteq> [])
       [''signal-topology'', ''signal-topology--'' @ upstream_string (tsn_upstreamState snapshot),
        if 0 < tsn_active snapshot then ''signal-topology--active'' else [],
        if 0 < tsn_waiting snapshot then ''signal-topology--waiting'' else [],
        if truthy_string (tsn_nextRetryAt snapshot) then ''signal-topology--retry-scheduled'' else [],
        if rs = Render_fallback \<or> rs = Render_compact then ''signal-topology--static'' else [],
        if truthy_string selectedRequestId then ''signal-topology--focused'' else [],
        className]"

section \<open>Animation frames and cleanup\<close>

text \<open>
  The closure of \<open>mountThreeScene\<close>. A pending animation frame is its identifier; \<open>sc_released\<close>
  are the resources disposed so far; \<open>sc_renders\<close> counts the frames drawn. \<open>busy\<close> says that
  the snapshot has active or waiting requests.
\<close>

record scene_state =
  sc_disposed :: bool
  sc_available :: bool
  sc_cleaned :: bool
  sc_motionAllowed :: bool
  sc_hidden :: bool
  sc_frame :: nat
  sc_next :: nat
  sc_pending :: "nat list"
  sc_lastRender :: real
  sc_renders :: nat
  sc_released :: "resource list"

definition new_scene :: "bool \<Rightarrow> bool \<Rightarrow> scene_state" where
  "new_scene motionAllowed hidden = \<lparr>sc_disposed = False, sc_available = True, sc_cleaned = False,
     sc_motionAllowed = motionAllowed, sc_hidden = hidden, sc_frame = 0, sc_next = 1, sc_pending = [],
     sc_lastRender = 0, sc_renders = 0, sc_released = []\<rparr>"

definition request_frame :: "scene_state \<Rightarrow> scene_state" where
  "request_frame st = st\<lparr>sc_frame := sc_next st, sc_next := sc_next st + 1, sc_pending := sc_next st # sc_pending st\<rparr>"

definition cancel_frame :: "scene_state \<Rightarrow> scene_state" where
  "cancel_frame st = st\<lparr>sc_pending := filter (\<lambda>i. i \<noteq> sc_frame st) (sc_pending st)\<rparr>"

definition draw :: "real \<Rightarrow> bool \<Rightarrow> scene_state \<Rightarrow> scene_state" where
  "draw timestamp busy st =
     (if sc_disposed st \<or> \<not> sc_available st then st
      else if sc_motionAllowed st \<and> timestamp - sc_lastRender st < 32 then request_frame st
      else let drawn = st\<lparr>sc_lastRender := timestamp, sc_renders := sc_renders st + 1\<rparr>
           in if sc_motionAllowed st \<and> \<not> sc_hidden st \<and> busy then request_frame drawn else drawn)"

definition start :: "real \<Rightarrow> bool \<Rightarrow> scene_state \<Rightarrow> scene_state" where
  "start now busy st =
     (let quiet = cancel_frame st
      in if sc_available quiet then draw (if sc_motionAllowed quiet then now else 0) busy quiet else quiet)"

definition onVisibility :: "bool \<Rightarrow> real \<Rightarrow> bool \<Rightarrow> scene_state \<Rightarrow> scene_state" where
  "onVisibility hidden now busy st =
     (let st' = st\<lparr>sc_hidden := hidden\<rparr> in if hidden then cancel_frame st' else start now busy st')"

definition onMotion :: "bool \<Rightarrow> real \<Rightarrow> bool \<Rightarrow> scene_state \<Rightarrow> scene_state" where
  "onMotion reduced now busy st = start now busy (st\<lparr>sc_motionAllowed := \<not> reduced\<rparr>)"

definition scene_cleanup :: "resource list \<Rightarrow> scene_state \<Rightarrow> scene_state" where
  "scene_cleanup resources st =
     (if sc_cleaned st then st
      else cancel_frame (st\<lparr>sc_cleaned := True, sc_disposed := True, sc_released := sc_released st @ resources\<rparr>))"

definition onContextLost :: "resource list \<Rightarrow> scene_state \<Rightarrow> scene_state" where
  "onContextLost resources st = (if sc_cleaned st then st else scene_cleanup resources (st\<lparr>sc_available := False\<rparr>))"

definition frame_fired :: "nat \<Rightarrow> real \<Rightarrow> bool \<Rightarrow> scene_state \<Rightarrow> scene_state" where
  "frame_fired i timestamp busy st = draw timestamp busy (st\<lparr>sc_pending := filter (\<lambda>j. j \<noteq> i) (sc_pending st)\<rparr>)"

inductive scene_step :: "resource list \<Rightarrow> scene_state \<Rightarrow> scene_state \<Rightarrow> bool" for resources where
  fired: "i \<in> set (sc_pending st) \<Longrightarrow> scene_step resources st (frame_fired i timestamp busy st)"
| rendered: "scene_step resources st (start now busy st)"
| visibility: "scene_step resources st (onVisibility hidden now busy st)"
| motion: "scene_step resources st (onMotion reduced now busy st)"
| disposed: "scene_step resources st (scene_cleanup resources st)"
| lost: "scene_step resources st (onContextLost resources st)"

definition scene_ok :: "resource list \<Rightarrow> scene_state \<Rightarrow> bool" where
  "scene_ok resources st \<longleftrightarrow>
     (sc_pending st = [] \<or> sc_pending st = [sc_frame st]) \<and> sc_cleaned st = sc_disposed st \<and>
     (sc_cleaned st \<longrightarrow> sc_pending st = []) \<and> sc_released st = (if sc_cleaned st then resources else [])"

lemma new_scene_ok: "scene_ok resources (new_scene m h)"
  by (simp add: scene_ok_def new_scene_def)

lemma draw_ok: "scene_ok resources st \<Longrightarrow> sc_pending st = [] \<Longrightarrow> scene_ok resources (draw timestamp busy st)"
  by (auto simp: scene_ok_def draw_def request_frame_def Let_def)

lemma cancel_frame_ok:
  "scene_ok resources st \<Longrightarrow> scene_ok resources (cancel_frame st)" "scene_ok resources st \<Longrightarrow> sc_pending (cancel_frame st) = []"
  by (auto simp: scene_ok_def cancel_frame_def)

lemma start_ok: "scene_ok resources st \<Longrightarrow> scene_ok resources (start now busy st)"
  using cancel_frame_ok [of resources st] by (auto simp: start_def Let_def intro: draw_ok)

lemma scene_cleanup_ok: "scene_ok resources st \<Longrightarrow> scene_ok resources (scene_cleanup resources st)"
  by (auto simp: scene_ok_def scene_cleanup_def cancel_frame_def)

lemma scene_cleanup_cleaned: "sc_cleaned (scene_cleanup resources st)"
  by (simp add: scene_cleanup_def cancel_frame_def)

lemma scene_step_ok: "scene_step resources st st' \<Longrightarrow> scene_ok resources st \<Longrightarrow> scene_ok resources st'"
proof (induction rule: scene_step.induct)
  case (fired i st timestamp busy)
  then have "scene_ok resources (st\<lparr>sc_pending := filter (\<lambda>j. j \<noteq> i) (sc_pending st)\<rparr>)"
    "filter (\<lambda>j. j \<noteq> i) (sc_pending st) = []" by (auto simp: scene_ok_def)
  then show ?case by (simp add: frame_fired_def draw_ok)
next
  case (visibility st hidden now busy)
  then have "scene_ok resources (st\<lparr>sc_hidden := x\<rparr>)" for x by (simp add: scene_ok_def)
  then show ?case by (simp add: onVisibility_def Let_def cancel_frame_ok start_ok)
next
  case (motion st reduced now busy)
  then have "scene_ok resources (st\<lparr>sc_motionAllowed := \<not> reduced\<rparr>)" by (simp add: scene_ok_def)
  then show ?case by (simp add: onMotion_def start_ok)
next
  case (lost st)
  then have "scene_ok resources (st\<lparr>sc_available := False\<rparr>)" by (simp add: scene_ok_def)
  with lost show ?case by (simp add: onContextLost_def scene_cleanup_ok)
qed (simp_all add: start_ok scene_cleanup_ok)

interpretation scene_system: step_system "scene_step resources" "\<lambda>st. \<exists>m h. st = new_scene m h" "scene_ok resources"
  for resources
  by unfold_locales (auto simp: new_scene_ok intro: scene_step_ok)

section \<open>The mounting effect\<close>

text \<open>
  One run of the effect of \<open>SignalTopology\<close> that mounts a scene: the promise of
  \<open>mountThreeScene\<close> settles, its control is delivered, and the effect may be cleaned up at
  any point in between.
\<close>

record topology_effect =
  te_cancelled :: bool
  te_settled :: bool
  te_delivered :: bool
  te_scene :: "scene_state option"
  te_render :: RenderState

definition new_effect :: topology_effect where
  "new_effect = \<lparr>te_cancelled = False, te_settled = False, te_delivered = False, te_scene = None, te_render = Render_loading\<rparr>"

definition report :: "RenderState \<Rightarrow> topology_effect \<Rightarrow> topology_effect" where
  "report r te = (if te_cancelled te then te else te\<lparr>te_render := r\<rparr>)"

definition scene_mounted :: "real \<Rightarrow> bool \<Rightarrow> bool \<Rightarrow> bool \<Rightarrow> topology_effect \<Rightarrow> topology_effect" where
  "scene_mounted now motionAllowed hidden busy te =
     report Render_ready (te\<lparr>te_settled := True, te_scene := Some (start now busy (new_scene motionAllowed hidden))\<rparr>)"

definition mount_failed :: "topology_effect \<Rightarrow> topology_effect" where
  "mount_failed te = report Render_fallback (te\<lparr>te_settled := True\<rparr>)"

definition control_delivered :: "resource list \<Rightarrow> topology_effect \<Rightarrow> topology_effect" where
  "control_delivered resources te =
     te\<lparr>te_delivered := True,
        te_scene := (if te_cancelled te then map_option (scene_cleanup resources) (te_scene te) else te_scene te)\<rparr>"

definition effect_cleanup :: "resource list \<Rightarrow> topology_effect \<Rightarrow> topology_effect" where
  "effect_cleanup resources te =
     te\<lparr>te_cancelled := True,
        te_scene := (if te_delivered te then map_option (scene_cleanup resources) (te_scene te) else te_scene te)\<rparr>"

inductive effect_step :: "resource list \<Rightarrow> topology_effect \<Rightarrow> topology_effect \<Rightarrow> bool" for resources where
  mounted: "\<not> te_settled te \<Longrightarrow> effect_step resources te (scene_mounted now m h busy te)"
| mount_rejected: "\<not> te_settled te \<Longrightarrow> effect_step resources te (mount_failed te)"
| delivered: "te_scene te \<noteq> None \<Longrightarrow> \<not> te_delivered te \<Longrightarrow> effect_step resources te (control_delivered resources te)"
| scene_moved: "te_scene te = Some s \<Longrightarrow> scene_step resources s s' \<Longrightarrow> effect_step resources te (te\<lparr>te_scene := Some s'\<rparr>)"
| context_lost: "te_scene te = Some s \<Longrightarrow> \<not> sc_cleaned s \<Longrightarrow>
    effect_step resources te (report Render_fallback (te\<lparr>te_scene := Some (onContextLost resources s)\<rparr>))"
| unmounted: "\<not> te_cancelled te \<Longrightarrow> effect_step resources te (effect_cleanup resources te)"

definition effect_ok :: "resource list \<Rightarrow> topology_effect \<Rightarrow> bool" where
  "effect_ok resources te \<longleftrightarrow> (te_delivered te \<longrightarrow> te_settled te) \<and> (te_scene te \<noteq> None \<longrightarrow> te_settled te) \<and>
     (\<forall>s. te_scene te = Some s \<longrightarrow> scene_ok resources s \<and> (te_cancelled te \<and> te_delivered te \<longrightarrow> sc_cleaned s))"

lemma scene_step_cleaned: "scene_step resources s s' \<Longrightarrow> sc_cleaned s \<Longrightarrow> sc_cleaned s'"
  by (induction rule: scene_step.induct)
     (auto simp: frame_fired_def draw_def start_def onVisibility_def onMotion_def onContextLost_def scene_cleanup_def
        cancel_frame_def request_frame_def Let_def)

lemma effect_step_ok: "effect_step resources te te' \<Longrightarrow> effect_ok resources te \<Longrightarrow> effect_ok resources te'"
proof (induction rule: effect_step.induct)
  case (mounted te now m h busy)
  have "scene_ok resources (start now busy (new_scene m h))" by (intro start_ok new_scene_ok)
  with mounted show ?case by (auto simp: effect_ok_def scene_mounted_def report_def)
next
  case (scene_moved te s s')
  then show ?case using scene_step_ok scene_step_cleaned by (auto simp: effect_ok_def)
next
  case (context_lost te s)
  have "scene_step resources s (onContextLost resources s)" by (rule scene_step.lost)
  with context_lost show ?case
    using scene_step_ok scene_step_cleaned by (fastforce simp: effect_ok_def report_def)
qed (auto simp: effect_ok_def mount_failed_def report_def control_delivered_def effect_cleanup_def scene_cleanup_ok
    scene_cleanup_cleaned split: if_splits)

interpretation effect_system: step_system "effect_step resources" "\<lambda>te. te = new_effect" "effect_ok resources"
  for resources
proof
  show "effect_ok resources te" if "te = new_effect" for te
    using that by (simp add: effect_ok_def new_effect_def)
  show "effect_ok resources t" if "effect_step resources s t" "effect_ok resources s" for s t
    using that by (rule effect_step_ok)
qed

section \<open>Lemmas on frames\<close>

lemma js_mod1_bounds: "0 \<le> x \<Longrightarrow> 0 \<le> js_mod1 x \<and> js_mod1 x < 1"
  unfolding js_mod1_def by simp linarith

lemma safeCount_int [simp]: "safeCount (Num (of_int n)) = max 0 n"
proof -
  have "\<lfloor>(of_int n + 1 / 2 :: rat)\<rfloor> = n" by linarith
  then show ?thesis by (simp add: safeCount_def)
qed

lemma signal_progress:
  assumes "0 \<le> tsn_active snapshot" "0 \<le> elapsed"
  shows "\<exists>p. 0 \<le> p \<and> p < 1 \<and> sgf_x (signal_at n snapshot elapsed m i) = - 28 / 10 + p * (56 / 10) \<and>
     sgf_y (signal_at n snapshot elapsed m i) = sin (p * pi * 2) * (8 / 100) \<and>
     sgf_scale (signal_at n snapshot elapsed m i) = 7 / 10 + sin (p * pi) * (1 / 2)"
proof -
  have "0 \<le> signal_speed snapshot elapsed m + of_nat i / of_int (max 1 (active_signals n snapshot))"
    using assms by (auto simp: signal_speed_def)
  from js_mod1_bounds [OF this] show ?thesis by (auto simp: signal_at_def Let_def)
qed

lemma filter_upt_less: "filter (\<lambda>i. i < k) [0..<n] = [0..<min n k]"
proof (induction n)
  case (Suc n)
  then show ?case by (cases "n < k") (simp_all add: min_def)
qed simp

lemma visible_signals:
  assumes "0 \<le> tsn_active snapshot" "0 < n"
  shows "length (filter sgf_visible (map (signal_at n snapshot elapsed m) [0..<n])) =
     (if tsn_active snapshot = 0 then 1 else min n (nat (tsn_active snapshot)))"
proof -
  let ?k = "if tsn_active snapshot = 0 then 1 else min n (nat (tsn_active snapshot))"
  have "sgf_visible (signal_at n snapshot elapsed m i) \<longleftrightarrow> i < ?k" if "i < n" for i
    using assms that by (auto simp: signal_at_def active_signals_def Let_def)
  then have "filter (\<lambda>i. sgf_visible (signal_at n snapshot elapsed m i)) [0..<n] = filter (\<lambda>i. i < ?k) [0..<n]"
    by (intro filter_cong) auto
  then show ?thesis using assms(2) by (simp add: filter_map o_def filter_upt_less del: min.bounded_iff)
qed

lemma scene_resources:
  "\<forall>child \<in> set (snd (createTopologyObjects rnd)).
     set (child_resources child) \<subseteq> set (tob_resources (fst (createTopologyObjects rnd)))"
  by (auto simp: createTopologyObjects_def Let_def mesh_at_def split: prod.splits)

section \<open>Properties\<close>



text \<open>
  The signals stay on the line. For a count of active requests that is not
  negative every signal lies between the two end points and near the axis, its scale is
  between 0.7 and 1.2, and as many of the sixteen are visible as there are active requests,
  one when there are none.
\<close>

theorem signals_stay_on_line:
  assumes "0 \<le> tsn_active snapshot" "0 \<le> elapsed" "length (scf_signals f) = 16"
  shows "(\<forall>g \<in> set (scf_signals (updateScene snapshot th elapsed m f)).
        - 28 / 10 \<le> sgf_x g \<and> sgf_x g \<le> 28 / 10 \<and> \<bar>sgf_y g\<bar> \<le> 8 / 100 \<and>
        7 / 10 \<le> sgf_scale g \<and> sgf_scale g \<le> 12 / 10) \<and>
     length (filter sgf_visible (scf_signals (updateScene snapshot th elapsed m f))) =
        (if tsn_active snapshot = 0 then 1 else min 16 (nat (tsn_active snapshot)))"
proof -
  have signals: "scf_signals (updateScene snapshot th elapsed m f) = map (signal_at 16 snapshot elapsed m) [0..<16]"
    using assms(3) by (simp add: updateScene_def Let_def)
  have "- 28 / 10 \<le> sgf_x g \<and> sgf_x g \<le> 28 / 10 \<and> \<bar>sgf_y g\<bar> \<le> 8 / 100 \<and> 7 / 10 \<le> sgf_scale g \<and> sgf_scale g \<le> 12 / 10"
    if "g = signal_at 16 snapshot elapsed m i" for g i
  proof -
    obtain p where p: "0 \<le> p" "p < 1" "sgf_x g = - 28 / 10 + p * (56 / 10)" "sgf_y g = sin (p * pi * 2) * (8 / 100)"
      "sgf_scale g = 7 / 10 + sin (p * pi) * (1 / 2)"
      using signal_progress [OF assms(1,2), of 16 m i] \<open>g = _\<close> by blast
    have "0 \<le> sin (p * pi)" using p(1,2) by (intro sin_ge_zero) simp_all
    moreover have "\<bar>sgf_y g\<bar> \<le> 8 / 100" using abs_sin_le_one [of "p * pi * 2"] by (simp add: p(4) abs_mult)
    moreover have "sgf_scale g \<le> 12 / 10" using sin_le_one [of "p * pi"] unfolding p(5) by linarith
    ultimately show ?thesis using p(1,2) by (simp add: p(3,5))
  qed
  then show ?thesis
    unfolding signals using visible_signals [OF assms(1), of 16 elapsed m] by auto
qed

definition still_frame :: scene_frame where
  "still_frame = \<lparr>scf_signals = replicate 16 \<lparr>sgf_visible = False, sgf_x = 0, sgf_y = 0, sgf_scale = 1\<rparr>,
     scf_relayRotation = (0, 0), scf_ringInnerRotation = (0, 0), scf_ringOuterRotation = (0, 0), scf_codexHaloRotation = 0,
     scf_cpaHaloRotation = 0, scf_particleHeights = [], scf_relayScale = 1, scf_retryVisible = False, scf_retryRotation = 0,
     scf_cpaColor = [], scf_connectionColor = [], scf_connectionOpacity = 1, scf_signalOpacity = 1\<rparr>"

theorem signals_stay_on_line_witness:
  "length (filter sgf_visible (scf_signals (updateScene
     \<lparr>tsn_upstreamState = Signal_healthy, tsn_active = 3, tsn_waiting = 0, tsn_nextRetryAt = None\<rparr> fallbackTheme 5 True still_frame))) = 3"
  using signals_stay_on_line [of "\<lparr>tsn_upstreamState = Signal_healthy, tsn_active = 3, tsn_waiting = 0, tsn_nextRetryAt = None\<rparr>"
      5 still_frame fallbackTheme True]
  by (simp add: still_frame_def)

end
