(* ===== verification/Logs.thy ===== *)
theory Logs
  imports Navigation
begin

text \<open>
  The runtime log of web/src/views/LogsView.tsx: the filter and its copy in the address, the
  filters saved in the browser, and the page of entries that the view keeps reading, shows
  or, while it is paused, holds back. \<open>json_text\<close> and \<open>json_parse\<close> are \<open>JSON.stringify\<close> and
  \<open>JSON.parse\<close> (\<open>None\<close> when it throws), \<open>iso_time\<close> is \<open>toISOString\<close> of a time in milliseconds.
\<close>

section \<open>Filters\<close>

datatype LogRange = Range_all | Range_15m | Range_1h | Range_6h | Range_24h

definition range_text :: "LogRange \<Rightarrow> string" where
  "range_text r = (case r of Range_all \<Rightarrow> [] | Range_15m \<Rightarrow> ''15m'' | Range_1h \<Rightarrow> ''1h'' | Range_6h \<Rightarrow> ''6h'' | Range_24h \<Rightarrow> ''24h'')"

definition log_ranges :: "LogRange list" where
  "log_ranges = [Range_15m, Range_1h, Range_6h, Range_24h, Range_all]"

definition rangeMilliseconds :: "LogRange \<Rightarrow> int option" where
  "rangeMilliseconds r = (case r of Range_all \<Rightarrow> None | Range_15m \<Rightarrow> Some (15 * 60000) | Range_1h \<Rightarrow> Some (60 * 60000)
     | Range_6h \<Rightarrow> Some (6 * 60 * 60000) | Range_24h \<Rightarrow> Some (24 * 60 * 60000))"

record SavedLogFilter =
  slf_level :: string
  slf_event :: string
  slf_requestId :: string
  slf_filter :: string
  slf_range :: LogRange

definition read_range :: "string option \<Rightarrow> LogRange" where
  "read_range v =
     (if v = Some ''15m'' then Range_15m else if v = Some ''1h'' then Range_1h else if v = Some ''6h'' then Range_6h
      else if v = Some ''24h'' then Range_24h else Range_all)"

definition urlFilter :: "string \<Rightarrow> SavedLogFilter" where
  "urlFilter hash =
     (let pieces = split_all CHR ''?'' hash;
          params = params_parse (if 1 < length pieces then pieces ! 1 else [])
      in \<lparr>slf_level = or_string (params_get params ''level'') [], slf_event = or_string (params_get params ''event'') [],
          slf_requestId = or_string (params_get params ''requestId'') [], slf_filter = or_string (params_get params ''filter'') [],
          slf_range = read_range (params_get params ''range'')\<rparr>)"

definition filter_pairs :: "SavedLogFilter \<Rightarrow> (string \<times> string) list" where
  "filter_pairs f = [(''level'', slf_level f), (''event'', slf_event f), (''requestId'', slf_requestId f),
     (''filter'', slf_filter f), (''range'', range_text (slf_range f))]"

text \<open>The effect that keeps the address in step with the filter; it writes only the address of the log.\<close>

definition filter_hash :: "SavedLogFilter \<Rightarrow> string" where
  "filter_hash f =
     (let query = params_string (fold (\<lambda>(k, v) ps. if v \<noteq> [] then params_set k v ps else ps) (filter_pairs f) [])
      in ''#/logs'' @ (if query \<noteq> [] then ''?'' @ query else []))"

definition sync_hash :: "SavedLogFilter \<Rightarrow> string \<Rightarrow> string" where
  "sync_hash f hash = (if js_starts_with (strip_hash hash) ''logs'' then filter_hash f else hash)"

section \<open>Saved filters\<close>

text \<open>
  What the browser stores is untyped: the list read back holds whatever JSON values were
  stored, and the view uses them as filters.
\<close>

definition storedFilters :: "(string \<Rightarrow> json option) \<Rightarrow> string option \<Rightarrow> json list" where
  "storedFilters json_parse item =
     (case json_parse (or_string item ''[]'') of Some (JArr vs) \<Rightarrow> take 6 vs | _ \<Rightarrow> [])"

definition filter_json :: "SavedLogFilter \<Rightarrow> json" where
  "filter_json f = JObj [(''level'', JStr (slf_level f)), (''event'', JStr (slf_event f)), (''requestId'', JStr (slf_requestId f)),
     (''filter'', JStr (slf_filter f)), (''range'', JStr (range_text (slf_range f)))]"

definition saveFilter :: "(json \<Rightarrow> string) \<Rightarrow> SavedLogFilter \<Rightarrow> json list \<Rightarrow> json list" where
  "saveFilter json_text current saved =
     (if \<not> (\<exists>(k, v) \<in> set (filter_pairs current). v \<noteq> []) then saved
      else take 6 (filter_json current # filter (\<lambda>item. json_text item \<noteq> json_text (filter_json current)) saved))"

definition removeFilter :: "nat \<Rightarrow> json list \<Rightarrow> json list" where
  "removeFilter index saved = map snd (filter (\<lambda>(i, _). i \<noteq> index) (enumerate 0 saved))"

text \<open>Reading a stored value as a filter: \<open>None\<close> where a field is not the string or the range it is used as.\<close>

definition string_field :: "json \<Rightarrow> string \<Rightarrow> string option" where
  "string_field v k = (case v of JObj obj \<Rightarrow> (case prop_of obj k of Some (JStr s) \<Rightarrow> Some s | _ \<Rightarrow> None) | _ \<Rightarrow> None)"

definition applyFilter :: "json \<Rightarrow> SavedLogFilter option" where
  "applyFilter v =
     (case (string_field v ''level'', string_field v ''event'', string_field v ''requestId'', string_field v ''filter'', string_field v ''range'') of
        (Some l, Some e, Some r, Some q, Some t) \<Rightarrow>
          if t \<notin> range_text ` set log_ranges then None
          else Some \<lparr>slf_level = l, slf_event = e, slf_requestId = r, slf_filter = q, slf_range = read_range (Some t)\<rparr>
      | _ \<Rightarrow> None)"

definition filterLabel :: "(string \<Rightarrow> string) \<Rightarrow> SavedLogFilter \<Rightarrow> string" where
  "filterLabel tr f =
     or_string (Some (slf_filter f)) (or_string (Some (slf_event f)) (or_string (Some (slf_requestId f))
       (or_string (Some (slf_level f)) (or_string (Some (range_text (slf_range f))) (tr ''logs:all'')))))"

section \<open>The view\<close>

record logs_view =
  lv_entries :: "RuntimeLogEntry list"
  lv_paused :: bool
  lv_filter :: SavedLogFilter
  lv_saved :: "json list"
  lv_truncated :: bool
  lv_newCount :: nat
  lv_displayed :: "RuntimeLogEntry list"
  lv_pending :: "RuntimeLogEntry list"
  lv_pausedRef :: bool

definition open_logs :: "(string \<Rightarrow> json option) \<Rightarrow> string option \<Rightarrow> string \<Rightarrow> string \<Rightarrow> string \<Rightarrow> logs_view" where
  "open_logs json_parse item hash initialEvent initialRequestId =
     (let initial = urlFilter hash
      in \<lparr>lv_entries = [], lv_paused = False,
          lv_filter = initial\<lparr>slf_event := or_string (Some initialEvent) (slf_event initial),
                              slf_requestId := or_string (Some initialRequestId) (slf_requestId initial)\<rparr>,
          lv_saved = storedFilters json_parse item, lv_truncated = False, lv_newCount = 0, lv_displayed = [],
          lv_pending = [], lv_pausedRef = False\<rparr>)"

definition load_call :: "(int \<Rightarrow> string) \<Rightarrow> int \<Rightarrow> logs_view \<Rightarrow> api_call" where
  "load_call iso_time now st =
     (let f = lv_filter st
      in api_runtimeLogs [(''limit'', Some ''500''), (''tail'', Some ''true''), (''level'', Some (slf_level f)),
           (''event'', Some (slf_event f)), (''requestId'', Some (slf_requestId f)), (''q'', Some (slf_filter f)),
           (''since'', map_option (\<lambda>ms. iso_time (now - ms)) (rangeMilliseconds (slf_range f)))])"

definition unseen :: "RuntimeLogEntry list \<Rightarrow> RuntimeLogEntry list \<Rightarrow> nat" where
  "unseen displayed page = length (filter (\<lambda>e. rle_id e \<notin> rle_id ` set displayed) page)"

definition load_done :: "RuntimeLogPage js_result \<Rightarrow> logs_view \<Rightarrow> logs_view" where
  "load_done result st =
     (case result of
        Inl _ \<Rightarrow> st
      | Inr page \<Rightarrow>
          let kept = st\<lparr>lv_pending := rlp_entries page\<rparr>;
              shown = (if lv_pausedRef kept then kept\<lparr>lv_newCount := unseen (lv_displayed kept) (rlp_entries page)\<rparr>
                       else kept\<lparr>lv_displayed := rlp_entries page, lv_entries := rlp_entries page, lv_newCount := 0\<rparr>)
          in shown\<lparr>lv_truncated := rlp_hasGap page \<or> rlp_hasMore page\<rparr>)"

definition togglePaused :: "logs_view \<Rightarrow> logs_view" where
  "togglePaused st =
     (let shown = (if lv_paused st then st\<lparr>lv_displayed := lv_pending st, lv_entries := lv_pending st, lv_newCount := 0\<rparr> else st)
      in shown\<lparr>lv_pausedRef := \<not> lv_paused st, lv_paused := \<not> lv_paused st\<rparr>)"

inductive logs_step :: "(json \<Rightarrow> string) \<Rightarrow> logs_view \<Rightarrow> logs_view \<Rightarrow> bool" for json_text where
  loaded: "logs_step json_text st (load_done result st)"
| toggled: "logs_step json_text st (togglePaused st)"
| filtered: "logs_step json_text st (st\<lparr>lv_filter := f\<rparr>)"
| saved: "logs_step json_text st (st\<lparr>lv_saved := saveFilter json_text (lv_filter st) (lv_saved st)\<rparr>)"
| removed: "logs_step json_text st (st\<lparr>lv_saved := removeFilter i (lv_saved st)\<rparr>)"
| applied: "v \<in> set (lv_saved st) \<Longrightarrow> applyFilter v = Some f \<Longrightarrow> logs_step json_text st (st\<lparr>lv_filter := f\<rparr>)"

section \<open>Lemmas\<close>

lemma range_text_inj [simp]: "range_text r = range_text s \<longleftrightarrow> r = s"
  by (cases r; cases s) (simp_all add: range_text_def)

lemma read_range_text [simp]: "read_range (Some (range_text r)) = r" "read_range None = Range_all"
  by (cases r) (simp_all add: range_text_def read_range_def)

definition set_params :: "SavedLogFilter \<Rightarrow> search_params" where
  "set_params f = filter (\<lambda>(k, v). v \<noteq> []) (filter_pairs f)"

lemma filter_hash_params:
  "filter_hash f = ''#/logs'' @ (if set_params f \<noteq> [] then ''?'' @ params_string (set_params f) else [])"
proof -
  have "distinct (map fst (filter_pairs f))" by (simp add: filter_pairs_def)
  from fold_params_set [OF this, of "[]"] show ?thesis by (simp add: filter_hash_def set_params_def)
qed

lemma params_get_set_params:
  "or_string (params_get (set_params f) ''level'') [] = slf_level f"
  "or_string (params_get (set_params f) ''event'') [] = slf_event f"
  "or_string (params_get (set_params f) ''requestId'') [] = slf_requestId f"
  "or_string (params_get (set_params f) ''filter'') [] = slf_filter f"
  "read_range (params_get (set_params f) ''range'') = slf_range f"
proof -
  have d: "distinct (map fst (filter_pairs f))" by (simp add: filter_pairs_def)
  have v: "(k, v) \<in> set (filter_pairs f) \<Longrightarrow> params_get (set_params f) k = (if v = [] then None else Some v)" for k v
    unfolding set_params_def by (rule params_get_filled [OF d])
  have r: "range_text (slf_range f) = [] \<longleftrightarrow> slf_range f = Range_all"
    using range_text_inj [of "slf_range f" Range_all] by (simp add: range_text_def [of Range_all])
  show
    "or_string (params_get (set_params f) ''level'') [] = slf_level f"
    "or_string (params_get (set_params f) ''event'') [] = slf_event f"
    "or_string (params_get (set_params f) ''requestId'') [] = slf_requestId f"
    "or_string (params_get (set_params f) ''filter'') [] = slf_filter f"
    using v [of "''level''" "slf_level f"] v [of "''event''" "slf_event f"] v [of "''requestId''" "slf_requestId f"]
      v [of "''filter''" "slf_filter f"] by (simp_all add: filter_pairs_def)
  show "read_range (params_get (set_params f) ''range'') = slf_range f"
    using v [of "''range''" "range_text (slf_range f)"] r by (simp add: filter_pairs_def del: range_text_inj)
qed

lemma urlFilter_filter_hash: "urlFilter (filter_hash f) = f"
proof -
  have "split_all CHR ''?'' (filter_hash f) =
      (if set_params f = [] then [''#/logs''] else [''#/logs'', params_string (set_params f)])"
    using split_all_append [of "CHR ''?''" "''#/logs''" "params_string (set_params f)"]
      split_all_absent [OF params_string_no_question, of "set_params f"]
    by (simp add: filter_hash_params)
  moreover have "params_parse [] = []" by (simp add: params_parse_def)
  ultimately show ?thesis
    using params_get_set_params [of f]
    by (cases "set_params f = []") (simp_all add: urlFilter_def Let_def params_parse_string)
qed

lemma currentView_filter_hash: "currentView (filter_hash f) = View_logs"
  by (simp add: currentView_def strip_hash_def filter_hash_params split_at_append split_at_absent
      find_view [of View_logs, unfolded view_string_def, simplified] allViews_def view_string_def)

lemma applyFilter_json: "applyFilter (filter_json f) = Some f"
  by (cases "slf_range f") (simp_all add: applyFilter_def filter_json_def string_field_def prop_of_def log_ranges_def)

lemma length_saveFilter: "length saved \<le> 6 \<Longrightarrow> length (saveFilter json_text f saved) \<le> 6"
  by (simp add: saveFilter_def)

lemma distinct_saveFilter:
  assumes "distinct (map json_text saved)"
  shows "distinct (map json_text (saveFilter json_text f saved))"
proof -
  let ?all = "filter_json f # filter (\<lambda>item. json_text item \<noteq> json_text (filter_json f)) saved"
  have "distinct (map json_text ?all)" using assms by (auto simp: distinct_map_filter)
  then have "distinct (map json_text (take 6 ?all))" by (metis distinct_take take_map)
  then show ?thesis
    using assms by (cases "\<exists>(k, v) \<in> set (filter_pairs f). v \<noteq> []") (simp_all only: saveFilter_def if_True if_False not_True_eq_False not_False_eq_True)
qed

lemma removeFilter_sub: "length (removeFilter i saved) \<le> length saved" "set (removeFilter i saved) \<subseteq> set saved"
  using length_filter_le [of "\<lambda>(j, _). j \<noteq> i" "enumerate 0 saved"]
  by (auto simp: removeFilter_def dest: set_zip_rightD simp: enumerate_eq_zip)

lemma distinct_removeFilter:
  assumes "distinct (map json_text saved)"
  shows "distinct (map json_text (removeFilter i saved))"
proof -
  have "distinct (map (json_text \<circ> snd) (enumerate 0 saved))" using assms by (simp add: enumerate_eq_zip flip: map_map)
  then have "distinct (map (json_text \<circ> snd) (filter (\<lambda>(j, _). j \<noteq> i) (enumerate 0 saved)))" by (rule distinct_map_filter)
  then show ?thesis by (simp add: removeFilter_def)
qed

text \<open>
  What the view keeps: the entries shown are the displayed ones, the count of new entries is
  that of the held back page, nothing is held back unless it is paused, and at most six
  saved filters.
\<close>

definition logs_ok :: "logs_view \<Rightarrow> bool" where
  "logs_ok st \<longleftrightarrow> lv_entries st = lv_displayed st \<and> lv_pausedRef st = lv_paused st \<and>
     lv_newCount st = unseen (lv_displayed st) (lv_pending st) \<and>
     (\<not> lv_paused st \<longrightarrow> lv_pending st = lv_displayed st) \<and> length (lv_saved st) \<le> 6"

lemma unseen_self [simp]: "unseen page page = 0"
  by (simp add: unseen_def)

lemma open_logs_ok: "logs_ok (open_logs json_parse item hash e r)"
  by (auto simp: logs_ok_def open_logs_def Let_def storedFilters_def split: option.splits json.splits)

lemma logs_step_ok: "logs_step json_text st st' \<Longrightarrow> logs_ok st \<Longrightarrow> logs_ok st'"
proof (induction rule: logs_step.induct)
  case (loaded st result)
  then show ?case by (cases result) (auto simp: logs_ok_def load_done_def Let_def)
next
  case (removed st i)
  then show ?case using removeFilter_sub(1) [of i "lv_saved st"] by (simp add: logs_ok_def)
qed (auto simp: logs_ok_def togglePaused_def Let_def length_saveFilter)

interpretation logs_system: step_system "logs_step json_text"
  "\<lambda>st. \<exists>json_parse item hash e r. st = open_logs json_parse item hash e r" logs_ok
  by unfold_locales (auto intro: open_logs_ok logs_step_ok)

inductive page_step :: "logs_view \<Rightarrow> logs_view \<Rightarrow> bool" where
  page: "page_step st (load_done result st)"

lemma paused_pages:
  assumes "page_step\<^sup>*\<^sup>* st st'" "lv_paused st" "lv_pausedRef st"
  shows "lv_entries st' = lv_entries st \<and> lv_paused st' \<and> lv_pausedRef st'"
  using assms
proof (induction rule: rtranclp_induct)
  case (step y z)
  then show ?case by (auto elim!: page_step.cases simp: load_done_def Let_def split: sum.splits)
qed simp

section \<open>Properties\<close>

text \<open>
  Whatever pages arrive and however the view is paused, filtered and its filters
  saved, the view shows what it last displayed, counts exactly the entries of the last page
  that are not shown, holds nothing back unless it is paused, and keeps at most six filters;
  while it is paused no page changes what is shown, and resuming shows the last page.
\<close>

theorem paused_log_is_frozen:
  assumes "(logs_step json_text)\<^sup>*\<^sup>* (open_logs json_parse item hash e r) st"
  shows "logs_ok st \<and> (lv_paused st \<longrightarrow> (\<forall>st'. page_step\<^sup>*\<^sup>* st st' \<longrightarrow> lv_entries st' = lv_entries st)) \<and>
     (lv_paused st \<longrightarrow> lv_entries (togglePaused st) = lv_pending st \<and> lv_newCount (togglePaused st) = 0)"
proof -
  have ok: "logs_ok st" using logs_system.inv_reachable [OF assms] by blast
  then have "lv_pausedRef st = lv_paused st" by (simp add: logs_ok_def)
  then show ?thesis using ok paused_pages by (auto simp: togglePaused_def Let_def)
qed

definition sample_page :: RuntimeLogPage where
  "sample_page = \<lparr>rlp_entries = [\<lparr>rle_id = 1, rle_time = [], rle_level = ''info'', rle_event = ''started'', rle_message = [],
       rle_requestId = None, rle_clientId = None, rle_taskId = None, rle_attempt = None, rle_statusCode = None, rle_fields = None\<rparr>],
     rlp_nextAfter = 1, rlp_oldestAfter = 0, rlp_hasMore = False, rlp_hasGap = False\<rparr>"

theorem paused_log_is_frozen_witness:
  "lv_entries (load_done (Inr sample_page) (togglePaused (open_logs (\<lambda>s. None) None ''#/logs?level=error'' [] []))) = [] \<and>
   lv_newCount (load_done (Inr sample_page) (togglePaused (open_logs (\<lambda>s. None) None ''#/logs?level=error'' [] []))) = 1"
proof -
  let ?p = "togglePaused (open_logs (\<lambda>s. None) None ''#/logs?level=error'' [] [])"
  let ?l = "load_done (Inr sample_page) ?p"
  have step: "logs_step (\<lambda>v. []) (open_logs (\<lambda>s. None) None ''#/logs?level=error'' [] []) ?p" by (rule toggled)
  have run: "(logs_step (\<lambda>v. []))\<^sup>*\<^sup>* (open_logs (\<lambda>s. None) None ''#/logs?level=error'' [] []) ?p"
    using step by (rule r_into_rtranclp)
  have late: "page_step\<^sup>*\<^sup>* ?p ?l" by (rule r_into_rtranclp) (rule page)
  have paused: "lv_paused ?p" and shown: "lv_entries ?p = []" by (simp_all add: togglePaused_def open_logs_def Let_def)
  note frozen = mp [OF conjunct1 [OF conjunct2 [OF paused_log_is_frozen [OF run]]] paused]
  have "lv_entries ?l = []" unfolding shown [symmetric] by (rule mp [OF spec [OF frozen] late])
  moreover have "lv_newCount ?l = 1"
    by (simp add: load_done_def togglePaused_def open_logs_def unseen_def sample_page_def Let_def)
  ultimately show ?thesis by simp
qed

text \<open>
  The address of the log is a lossless copy of its filter: it leads to the log, and
  reading it gives exactly the filter it was written for; a saved filter that is applied
  again is the filter that was saved; and saving or removing keeps saved filters distinct.
\<close>

theorem log_filter_roundtrip:
  assumes "distinct (map json_text saved)"
  shows "urlFilter (filter_hash f) = f \<and> currentView (filter_hash f) = View_logs \<and> applyFilter (filter_json f) = Some f \<and>
     distinct (map json_text (saveFilter json_text f saved)) \<and> distinct (map json_text (removeFilter i saved))"
  using assms by (simp add: urlFilter_filter_hash currentView_filter_hash applyFilter_json distinct_saveFilter distinct_removeFilter)

theorem log_filter_roundtrip_witness:
  "urlFilter (filter_hash \<lparr>slf_level = ''warn'', slf_event = ''retry?&x'', slf_requestId = [], slf_filter = ''a=b'', slf_range = Range_6h\<rparr>) =
     \<lparr>slf_level = ''warn'', slf_event = ''retry?&x'', slf_requestId = [], slf_filter = ''a=b'', slf_range = Range_6h\<rparr>"
  using log_filter_roundtrip [of "\<lambda>v. []" "[]"
    "\<lparr>slf_level = ''warn'', slf_event = ''retry?&x'', slf_requestId = [], slf_filter = ''a=b'', slf_range = Range_6h\<rparr>" 0]
  by simp

end
