(* ===== verification/Captures.thy ===== *)
theory Captures
  imports ConfigEditing SettingsFields
begin

text \<open>
  The capture controls of web/src/views/CapturesView.tsx: the periodic load, starting and
  stopping a capture, downloads, deletion, the rewrapping of keys and the removal of expired
  captures. A handler is split where it waits: its call, after the confirmation it asks for,
  and what it does with the answer. Each part gives the state and the effects it has, in
  order.
\<close>

record captures_view =
  cv_status :: "CaptureStatus option"
  cv_records :: "CaptureRecord list"
  cv_keys :: "CaptureKeyStatus option"
  cv_preview :: "CapturePreview option"
  cv_requestLimit :: int
  cv_timeoutMinutes :: int
  cv_busy :: bool

datatype capture_effect = Cap_call api_call | Cap_download string bool | Cap_failed js_error | Cap_notice string

type_synonym capture_run = "captures_view \<times> capture_effect list"

definition open_captures :: "Config \<Rightarrow> captures_view" where
  "open_captures config =
     \<lparr>cv_status = None, cv_records = [], cv_keys = None, cv_preview = None,
      cv_requestLimit = capture_defaultRequestLimit (cfg_capture config),
      cv_timeoutMinutes = durationMinutes (capture_activationTimeout (cfg_capture config)), cv_busy = False\<rparr>"

section \<open>Handlers\<close>

definition load_calls :: "capture_effect list" where
  "load_calls = [Cap_call api_captureStatus, Cap_call api_captures, Cap_call api_captureKeyStatus]"

definition load_answered :: "(CaptureStatus \<times> CaptureRecord list \<times> CaptureKeyStatus) js_result \<Rightarrow> captures_view \<Rightarrow> capture_run" where
  "load_answered answer st =
     (case answer of
        Inl e \<Rightarrow> (st, [Cap_failed e])
      | Inr (status, records, keys) \<Rightarrow> (st\<lparr>cv_status := Some status, cv_records := records, cv_keys := Some keys\<rparr>, []))"

definition preview_answered :: "CapturePreview js_result \<Rightarrow> captures_view \<Rightarrow> capture_run" where
  "preview_answered answer st = (case answer of Inl e \<Rightarrow> (st, [Cap_failed e]) | Inr p \<Rightarrow> (st\<lparr>cv_preview := Some p\<rparr>, []))"

definition select_preview :: "string option \<Rightarrow> capture_effect list" where
  "select_preview selectedId = (case selectedId of None \<Rightarrow> [] | Some i \<Rightarrow> if i = [] then [] else [Cap_call (api_capturePreview i)])"

definition start_capture :: "captures_view \<Rightarrow> capture_run" where
  "start_capture st =
     (st\<lparr>cv_busy := True\<rparr>, [Cap_call (api_startCapture (cv_requestLimit st) (int_string (cv_timeoutMinutes st) @ ''m''))])"

definition start_answered :: "translate \<Rightarrow> CaptureStatus js_result \<Rightarrow> captures_view \<Rightarrow> capture_run" where
  "start_answered tr answer st =
     (case answer of
        Inl e \<Rightarrow> (st\<lparr>cv_busy := False\<rparr>, [Cap_failed e])
      | Inr status \<Rightarrow> (st\<lparr>cv_status := Some status, cv_busy := False\<rparr>, [Cap_notice (tr ''captures:started'' [])]))"

definition stop_capture :: "captures_view \<Rightarrow> capture_run" where
  "stop_capture st = (st\<lparr>cv_busy := True\<rparr>, [Cap_call api_stopCapture])"

definition stop_answered :: "translate \<Rightarrow> CaptureStatus js_result \<Rightarrow> captures_view \<Rightarrow> capture_run" where
  "stop_answered tr answer st =
     (case answer of
        Inl e \<Rightarrow> (st\<lparr>cv_busy := False\<rparr>, [Cap_failed e])
      | Inr status \<Rightarrow> (st\<lparr>cv_status := Some status, cv_busy := False\<rparr>, [Cap_notice (tr ''captures:stopped'' [])]))"

definition capture_dialog :: "translate \<Rightarrow> string \<Rightarrow> string \<Rightarrow> string \<Rightarrow> dialog_tone option \<Rightarrow> ConfirmDialogState" where
  "capture_dialog tr title description label tone =
     \<lparr>cd_title = tr title [], cd_description = tr description [], cd_confirmLabel = Some (tr label []), cd_tone = tone\<rparr>"

definition download_dialog :: "translate \<Rightarrow> bool \<Rightarrow> ConfirmDialogState option" where
  "download_dialog tr raw =
     (if raw then Some (capture_dialog tr ''captures:rawConfirmTitle'' ''captures:rawConfirm'' ''captures:rawDownload'' (Some Tone_danger))
      else None)"

definition download_capture :: "translate \<Rightarrow> CaptureRecord \<Rightarrow> bool \<Rightarrow> bool \<Rightarrow> unit js_result \<Rightarrow> capture_effect list" where
  "download_capture tr r raw accepted answer =
     (if raw \<and> \<not> accepted then []
      else Cap_download (cr_id r) raw #
        (case answer of Inl e \<Rightarrow> [Cap_failed e] | Inr _ \<Rightarrow> [Cap_notice (tr ''captures:downloaded'' [])]))"

definition remove_dialog :: "translate \<Rightarrow> ConfirmDialogState" where
  "remove_dialog tr = capture_dialog tr ''captures:deleteConfirmTitle'' ''captures:deleteConfirm'' ''captures:delete'' (Some Tone_danger)"

definition remove_capture :: "CaptureRecord \<Rightarrow> bool \<Rightarrow> capture_effect list" where
  "remove_capture r accepted = (if accepted then [Cap_call (api_deleteCapture (cr_id r))] else [])"

text \<open>\<open>captured\<close> is the preview open when the handler was called.\<close>

definition remove_answered :: "CapturePreview option \<Rightarrow> CaptureRecord \<Rightarrow> unit js_result \<Rightarrow> captures_view \<Rightarrow> capture_run" where
  "remove_answered captured r answer st =
     (case answer of
        Inl e \<Rightarrow> (st, [Cap_failed e])
      | Inr _ \<Rightarrow>
          (if map_option (\<lambda>p. cr_id (cpv_record p)) captured = Some (cr_id r) then st\<lparr>cv_preview := None\<rparr> else st, load_calls))"

definition rewrap_dialog :: "translate \<Rightarrow> ConfirmDialogState" where
  "rewrap_dialog tr = capture_dialog tr ''captures:keys.rewrapConfirmTitle'' ''captures:keys.rewrapConfirm'' ''captures:keys.rewrap'' None"

definition rewrapKeys :: "bool \<Rightarrow> captures_view \<Rightarrow> capture_run" where
  "rewrapKeys accepted st = (if accepted then (st\<lparr>cv_busy := True\<rparr>, [Cap_call api_rewrapCaptureKeys]) else (st, []))"

text \<open>\<open>busy\<close> is released when the load that follows has been answered as well.\<close>

definition rewrap_answered :: "translate \<Rightarrow> CaptureKeyRewrapResult js_result \<Rightarrow>
    (CaptureStatus \<times> CaptureRecord list \<times> CaptureKeyStatus) js_result \<Rightarrow> captures_view \<Rightarrow> capture_run" where
  "rewrap_answered tr answer loaded st =
     (case answer of
        Inl e \<Rightarrow> (st\<lparr>cv_busy := False\<rparr>, [Cap_failed e])
      | Inr result \<Rightarrow>
          let (st', failed) = load_answered loaded st
          in (st'\<lparr>cv_busy := False\<rparr>,
              Cap_notice (tr ''captures:keys.rewrapped'' [(''count'', int_string (ckrr_updated result))]) # load_calls @ failed))"

definition clean_dialog :: "translate \<Rightarrow> ConfirmDialogState" where
  "clean_dialog tr = capture_dialog tr ''captures:cleanupConfirmTitle'' ''captures:cleanupConfirm'' ''captures:cleanupExpired'' (Some Tone_danger)"

definition cleanExpired :: "bool \<Rightarrow> captures_view \<Rightarrow> capture_run" where
  "cleanExpired accepted st = (if accepted then (st\<lparr>cv_busy := True\<rparr>, [Cap_call api_deleteExpiredCaptures]) else (st, []))"

definition clean_answered :: "translate \<Rightarrow> int js_result \<Rightarrow>
    (CaptureStatus \<times> CaptureRecord list \<times> CaptureKeyStatus) js_result \<Rightarrow> captures_view \<Rightarrow> capture_run" where
  "clean_answered tr answer loaded st =
     (case answer of
        Inl e \<Rightarrow> (st\<lparr>cv_busy := False\<rparr>, [Cap_failed e])
      | Inr deleted \<Rightarrow>
          let (st', failed) = load_answered loaded st
          in (st'\<lparr>cv_busy := False\<rparr>,
              Cap_notice (tr ''captures:cleanedExpired'' [(''count'', int_string deleted)]) # load_calls @ failed))"

text \<open>The share of the storage in use, in percent.\<close>

definition capture_usage :: "CaptureStatus option \<Rightarrow> rat" where
  "capture_usage status =
     (case status of
        None \<Rightarrow> 0
      | Some s \<Rightarrow> if cst_maxTotalBytes s > 0 then min 100 (of_int (cst_storageBytes s) / of_int (cst_maxTotalBytes s) * 100) else 0)"

section \<open>Lemmas\<close>

lemma show_decimal_int: "show_decimal (of_nat n) = nat_string n"
  by (simp add: show_decimal_def eval_nat_numeral)

lemma timeout_text_seconds:
  assumes "0 \<le> n"
  shows "durationSeconds (int_string n @ ''m'') = 60 * of_int n"
proof -
  obtain k where n: "n = int k" using assms nonneg_int_cases by blast
  have "int_string n @ ''m'' = duration_update (of_nat k) Unit_m"
    by (simp add: n duration_update_def show_decimal_int int_string_def unit_text_def)
  moreover have "(of_nat k * 10 ^ 6 :: rat) \<in> \<int>" by (intro Ints_mult Ints_of_nat) simp
  ultimately show ?thesis by (simp add: durationSeconds_update durationFactors_def n)
qed

lemma timeout_text_minutes: "1 \<le> n \<Longrightarrow> n \<le> 60 \<Longrightarrow> durationMinutes (int_string n @ ''m'') = n"
proof -
  assume n: "1 \<le> n" "n \<le> 60"
  have secs: "durationSeconds (int_string n @ ''m'') = 60 * of_int n" using n by (intro timeout_text_seconds) simp
  then have "snd (scan_durations (int_string n @ ''m'')) = length (int_string n @ ''m'')"
    using n by (auto simp: durationSeconds_def case_prod_unfold Let_def split: if_splits)
  with secs n show ?thesis by (simp add: durationMinutes_seconds)
qed

text \<open>A text that is not a duration counts as no time at all, and is replaced by ten minutes.\<close>

lemma durationMinutes_cases:
  "durationMinutes raw = min 60 (max 1 \<lceil>durationSeconds raw / 60\<rceil>) \<or> durationSeconds raw = 0 \<and> durationMinutes raw = 10"
  by (simp add: durationMinutes_seconds) (simp add: durationSeconds_def case_prod_unfold Let_def)

lemma durationMinutes_range: "1 \<le> durationMinutes raw" "durationMinutes raw \<le> 60"
  by (simp_all add: durationMinutes_seconds)

text \<open>Nothing is deleted, rewrapped or downloaded raw without a confirmation, and \<open>busy\<close> is released.\<close>

lemma captures_ask_first:
  "\<not> accepted \<Longrightarrow> download_capture tr r True accepted u = [] \<and> remove_capture r accepted = [] \<and>
     rewrapKeys accepted st = (st, []) \<and> cleanExpired accepted st = (st, [])"
  by (simp add: download_capture_def remove_capture_def rewrapKeys_def cleanExpired_def)

lemma load_answered_busy: "cv_busy (fst (load_answered a st)) = cv_busy st" "cv_preview (fst (load_answered a st)) = cv_preview st"
  by (auto simp: load_answered_def split: sum.splits)

lemma captures_settle:
  "\<not> cv_busy (fst (start_answered tr a st))" "\<not> cv_busy (fst (stop_answered tr a st))"
  "\<not> cv_busy (fst (rewrap_answered tr b l st))" "\<not> cv_busy (fst (clean_answered tr c l st))"
  by (auto simp: start_answered_def stop_answered_def rewrap_answered_def clean_answered_def case_prod_unfold Let_def
      split: sum.splits)

text \<open>A deleted capture is no longer previewed, if it was not opened while the deletion was running.\<close>

lemma removed_not_previewed:
  assumes "cv_preview st = captured"
  shows "map_option (\<lambda>p. cr_id (cpv_record p)) (cv_preview (fst (remove_answered captured r (Inr ()) st))) \<noteq> Some (cr_id r)"
  using assms by (auto simp: remove_answered_def)

lemma capture_usage_range: "\<forall>s. status = Some s \<longrightarrow> 0 \<le> cst_storageBytes s \<Longrightarrow> 0 \<le> capture_usage status \<and> capture_usage status \<le> 100"
  by (auto simp: capture_usage_def split: option.splits)

section \<open>Properties\<close>

text \<open>
  A capture that is started with the settings the view opens with asks for the
  configured number of requests and for a timeout between one minute and an hour, written so
  that reading it back gives the same number of minutes; the timeout is the configured one,
  rounded up to a minute and forced into this range, or ten minutes if there is none.
\<close>

theorem capture_start_spec:
  "\<exists>n. snd (start_capture (open_captures config)) =
       [Cap_call (api_startCapture (capture_defaultRequestLimit (cfg_capture config)) (int_string n @ ''m''))] \<and>
     1 \<le> n \<and> n \<le> 60 \<and> durationMinutes (int_string n @ ''m'') = n \<and> durationSeconds (int_string n @ ''m'') = 60 * of_int n \<and>
     (let s = durationSeconds (capture_activationTimeout (cfg_capture config))
      in n = min 60 (max 1 \<lceil>s / 60\<rceil>) \<or> s = 0 \<and> n = 10)"
proof -
  let ?raw = "capture_activationTimeout (cfg_capture config)"
  let ?n = "durationMinutes ?raw"
  have "durationMinutes (int_string ?n @ ''m'') = ?n" by (intro timeout_text_minutes durationMinutes_range)
  moreover have "durationSeconds (int_string ?n @ ''m'') = 60 * of_int ?n"
    using durationMinutes_range(1) [of ?raw] by (intro timeout_text_seconds) simp
  moreover have "snd (start_capture (open_captures config)) =
      [Cap_call (api_startCapture (capture_defaultRequestLimit (cfg_capture config)) (int_string ?n @ ''m''))]"
    by (simp add: start_capture_def open_captures_def)
  ultimately show ?thesis using durationMinutes_range [of ?raw] by (intro exI [of _ ?n]) (simp add: Let_def durationMinutes_cases)
qed

end
