(* ===== verification/FocusTrap.thy ===== *)
theory FocusTrap
  imports Prelude
begin

text \<open>
  Keyboard focus in the dialogs of the console. Every dialog listens to the keys of the page:
  Escape closes it, and Tab at its last control, or Shift-Tab at its first, moves the focus
  round to the other end instead of leaving the dialog. The nine handlers are written out
  separately, as the code has them; the locale \<open>focus_trap\<close> states what they have in common,
  and its lemmas show what that gives together with the browser's own Tab order.
  A control is an element with its \<open>disabled\<close> attribute; elements come in document order.
\<close>

datatype trap_key = Key_escape | Key_tab bool | Key_plain

datatype 'e trap_effect = Trap_close | Trap_focus 'e | Trap_panel | Trap_default

type_synonym 'e controls = "('e \<times> bool) list"

definition enabled :: "'e controls \<Rightarrow> 'e list" where
  "enabled d = map fst (filter (\<lambda>(_, disabled). \<not> disabled) d)"

section \<open>Handlers\<close>

definition confirm_keydown :: "trap_key \<Rightarrow> 'e \<Rightarrow> 'e controls \<Rightarrow> 'e trap_effect" where
  "confirm_keydown key active d =
     (case key of
        Key_escape \<Rightarrow> Trap_close
      | Key_plain \<Rightarrow> Trap_default
      | Key_tab shift \<Rightarrow>
          let buttons = map fst d in
          if buttons = [] then Trap_default
          else if shift \<and> active = hd buttons then Trap_focus (last buttons)
          else if \<not> shift \<and> active = last buttons then Trap_focus (hd buttons)
          else Trap_default)"

definition inspector_keydown :: "trap_key \<Rightarrow> 'e \<Rightarrow> 'e controls \<Rightarrow> 'e trap_effect" where
  "inspector_keydown key active d =
     (case key of
        Key_escape \<Rightarrow> Trap_close
      | Key_plain \<Rightarrow> Trap_default
      | Key_tab shift \<Rightarrow>
          let focusable = enabled d in
          if focusable = [] then Trap_default
          else if shift \<and> active = hd focusable then Trap_focus (last focusable)
          else if \<not> shift \<and> active = last focusable then Trap_focus (hd focusable)
          else Trap_default)"

definition repeat_keydown :: "trap_key \<Rightarrow> 'e \<Rightarrow> 'e controls \<Rightarrow> 'e trap_effect" where
  "repeat_keydown key active d =
     (if key = Key_escape then Trap_close
      else case key of
        Key_tab shift \<Rightarrow>
          let focusable = enabled d in
          if focusable = [] then Trap_default
          else if shift \<and> active = hd focusable then Trap_focus (last focusable)
          else if \<not> shift \<and> active = last focusable then Trap_focus (hd focusable)
          else Trap_default
      | _ \<Rightarrow> Trap_default)"

definition retry_keydown :: "trap_key \<Rightarrow> 'e \<Rightarrow> 'e controls \<Rightarrow> 'e trap_effect" where
  "retry_keydown key active d =
     (if key = Key_escape then Trap_close
      else case key of
        Key_tab shift \<Rightarrow>
          let focusable = enabled d in
          if focusable = [] then Trap_default
          else if shift \<and> active = hd focusable then Trap_focus (last focusable)
          else if \<not> shift \<and> active = last focusable then Trap_focus (hd focusable)
          else Trap_default
      | _ \<Rightarrow> Trap_default)"

definition uncertain_keydown :: "trap_key \<Rightarrow> 'e \<Rightarrow> 'e controls \<Rightarrow> 'e trap_effect" where
  "uncertain_keydown key active d =
     (case key of
        Key_escape \<Rightarrow> Trap_close
      | Key_plain \<Rightarrow> Trap_default
      | Key_tab shift \<Rightarrow>
          let focusable = enabled d in
          if focusable = [] then Trap_default
          else if shift \<and> active = hd focusable then Trap_focus (last focusable)
          else if \<not> shift \<and> active = last focusable then Trap_focus (hd focusable)
          else Trap_default)"

definition health_keydown :: "trap_key \<Rightarrow> 'e \<Rightarrow> 'e controls \<Rightarrow> 'e trap_effect" where
  "health_keydown key active d =
     (case key of
        Key_escape \<Rightarrow> Trap_close
      | Key_plain \<Rightarrow> Trap_default
      | Key_tab shift \<Rightarrow>
          let focusable = enabled d in
          if focusable = [] then Trap_default
          else if shift \<and> active = hd focusable then Trap_focus (last focusable)
          else if \<not> shift \<and> active = last focusable then Trap_focus (hd focusable)
          else Trap_default)"

definition tools_keydown :: "trap_key \<Rightarrow> 'e \<Rightarrow> 'e controls \<Rightarrow> 'e trap_effect" where
  "tools_keydown key active d =
     (case key of
        Key_escape \<Rightarrow> Trap_close
      | Key_plain \<Rightarrow> Trap_default
      | Key_tab shift \<Rightarrow>
          let focusable = enabled d in
          if focusable = [] then Trap_default
          else if shift \<and> active = hd focusable then Trap_focus (last focusable)
          else if \<not> shift \<and> active = last focusable then Trap_focus (hd focusable)
          else Trap_default)"

text \<open>The notifications and the expanded chart keep the focus even when they have no control at all.\<close>

definition notification_keydown :: "trap_key \<Rightarrow> 'e \<Rightarrow> 'e controls \<Rightarrow> 'e trap_effect" where
  "notification_keydown key active d =
     (case key of
        Key_escape \<Rightarrow> Trap_close
      | Key_plain \<Rightarrow> Trap_default
      | Key_tab shift \<Rightarrow>
          let focusable = enabled d in
          if focusable = [] then Trap_panel
          else if shift \<and> active = hd focusable then Trap_focus (last focusable)
          else if \<not> shift \<and> active = last focusable then Trap_focus (hd focusable)
          else Trap_default)"

definition chart_keydown :: "trap_key \<Rightarrow> 'e \<Rightarrow> 'e controls \<Rightarrow> 'e trap_effect" where
  "chart_keydown key active d =
     (case key of
        Key_escape \<Rightarrow> Trap_close
      | Key_plain \<Rightarrow> Trap_default
      | Key_tab shift \<Rightarrow>
          let focusable = enabled d in
          if focusable = [] then Trap_panel
          else if shift \<and> active = hd focusable then Trap_focus (last focusable)
          else if \<not> shift \<and> active = last focusable then Trap_focus (hd focusable)
          else Trap_default)"

section \<open>The page\<close>

text \<open>
  The browser's own Tab moves to the neighbour in the page, or out of it (\<open>None\<close>). \<open>press\<close> is
  a Tab with the handler's effect; \<open>presses\<close> is a number of Tabs.
\<close>

fun next_in :: "'e list \<Rightarrow> 'e \<Rightarrow> 'e option" where
  "next_in (x # y # page) a = (if x = a then Some y else next_in (y # page) a)"
| "next_in _ a = None"

definition next_focus :: "'e list \<Rightarrow> bool \<Rightarrow> 'e \<Rightarrow> 'e option" where
  "next_focus page shift a = next_in (if shift then rev page else page) a"

definition press ::
  "(trap_key \<Rightarrow> 'e \<Rightarrow> 'd \<Rightarrow> 'e trap_effect) \<Rightarrow> 'e list \<Rightarrow> 'd \<Rightarrow> bool \<Rightarrow> 'e \<Rightarrow> 'e option" where
  "press keydown page d shift a =
     (case keydown (Key_tab shift) a d of
        Trap_focus e \<Rightarrow> Some e | Trap_default \<Rightarrow> next_focus page shift a | _ \<Rightarrow> None)"

fun presses ::
  "(trap_key \<Rightarrow> 'e \<Rightarrow> 'd \<Rightarrow> 'e trap_effect) \<Rightarrow> 'e list \<Rightarrow> 'd \<Rightarrow> bool \<Rightarrow> nat \<Rightarrow> 'e \<Rightarrow> 'e option" where
  "presses keydown page d shift 0 a = Some a"
| "presses keydown page d shift (Suc k) a = Option.bind (press keydown page d shift a) (presses keydown page d shift k)"

lemma nth_last: "Suc i = length xs \<Longrightarrow> xs ! i = last xs \<and> xs \<noteq> []"
  by (cases xs rule: rev_cases) (auto simp: nth_append)

lemma Suc_mod_less: "i < n \<Longrightarrow> Suc i mod n < n"
  by (metis gr_implies_not0 mod_less_divisor not_gr_zero)

lemma next_in_append: "distinct (pre @ x # y # post) \<Longrightarrow> next_in (pre @ x # y # post) x = Some y"
proof (induction pre)
  case (Cons z pre)
  then show ?case by (cases pre) auto
qed simp

lemma next_in_nth:
  assumes "distinct (pre @ els @ post)" "Suc i < length els"
  shows "next_in (pre @ els @ post) (els ! i) = Some (els ! Suc i)"
proof -
  have "els = take i els @ els ! i # els ! Suc i # drop (Suc (Suc i)) els"
    using assms(2) by (simp add: Cons_nth_drop_Suc)
  then have "pre @ els @ post = (pre @ take i els) @ els ! i # els ! Suc i # (drop (Suc (Suc i)) els @ post)" by simp
  with assms(1) show ?thesis using next_in_append by metis
qed

section \<open>The contract\<close>

locale focus_trap =
  fixes keydown :: "trap_key \<Rightarrow> 'e \<Rightarrow> 'd \<Rightarrow> 'e trap_effect" and controls :: "'d \<Rightarrow> 'e list"
  assumes escape_closes: "keydown Key_escape a d = Trap_close"
    and wraps_on: "controls d \<noteq> [] \<Longrightarrow> keydown (Key_tab False) (last (controls d)) d = Trap_focus (hd (controls d))"
    and wraps_back: "controls d \<noteq> [] \<Longrightarrow> keydown (Key_tab True) (hd (controls d)) d = Trap_focus (last (controls d))"
    and inner_on: "controls d \<noteq> [] \<Longrightarrow> a \<noteq> last (controls d) \<Longrightarrow> keydown (Key_tab False) a d = Trap_default"
    and inner_back: "controls d \<noteq> [] \<Longrightarrow> a \<noteq> hd (controls d) \<Longrightarrow> keydown (Key_tab True) a d = Trap_default"
begin

lemma press_on:
  assumes "distinct (pre @ controls d @ post)" "i < length (controls d)"
  shows "press keydown (pre @ controls d @ post) d False (controls d ! i) = Some (controls d ! (Suc i mod length (controls d)))"
proof (cases "Suc i = length (controls d)")
  case True
  then have "controls d ! i = last (controls d)" "controls d \<noteq> []" using nth_last [OF True] by simp_all
  then show ?thesis using True wraps_on [of d] by (simp add: press_def hd_conv_nth)
next
  case False
  with assms have i: "Suc i < length (controls d)" by simp
  then have ne: "controls d \<noteq> []" by auto
  moreover have "controls d ! i \<noteq> last (controls d)"
    using assms(1) i ne by (simp add: last_conv_nth nth_eq_iff_index_eq)
  ultimately show ?thesis
    using inner_on [of d "controls d ! i"] next_in_nth [OF assms(1) i] i by (simp add: press_def next_focus_def)
qed

lemma press_back:
  assumes "distinct (pre @ controls d @ post)" "i < length (controls d)"
  shows "press keydown (pre @ controls d @ post) d True (controls d ! (Suc i mod length (controls d))) = Some (controls d ! i)"
proof (cases "Suc i = length (controls d)")
  case True
  then have "controls d ! i = last (controls d)" "controls d \<noteq> []" using nth_last [OF True] by simp_all
  then show ?thesis using True wraps_back [of d] by (simp add: press_def hd_conv_nth)
next
  case False
  let ?n = "length (controls d)"
  from False assms have i: "Suc i < ?n" by simp
  then have ne: "controls d \<noteq> []" by auto
  have "controls d ! Suc i \<noteq> hd (controls d)" using assms(1) i ne by (simp add: hd_conv_nth nth_eq_iff_index_eq)
  moreover have "next_in (rev post @ rev (controls d) @ rev pre) (rev (controls d) ! (?n - Suc (Suc i))) =
      Some (rev (controls d) ! Suc (?n - Suc (Suc i)))"
    by (rule next_in_nth) (use assms(1) i in auto)
  moreover have "rev (controls d) ! (?n - Suc (Suc i)) = controls d ! Suc i"
    "rev (controls d) ! Suc (?n - Suc (Suc i)) = controls d ! i"
    using i by (simp_all add: rev_nth Suc_diff_Suc)
  ultimately show ?thesis
    using inner_back [OF ne, of "controls d ! Suc i"] i by (simp add: press_def next_focus_def)
qed

lemma presses_on:
  assumes "distinct (pre @ controls d @ post)" "i < length (controls d)"
  shows "presses keydown (pre @ controls d @ post) d False k (controls d ! i) =
     Some (controls d ! ((i + k) mod length (controls d)))"
  using assms(2)
proof (induction k arbitrary: i)
  case (Suc k)
  have "Suc i mod length (controls d) < length (controls d)" using Suc.prems by (rule Suc_mod_less)
  from Suc.IH [OF this] show ?case
    using press_on [OF assms(1) Suc.prems] by (simp add: mod_add_left_eq)
qed simp

lemma tab_reaches:
  assumes "distinct (pre @ controls d @ post)" "a \<in> set (controls d)" "b \<in> set (controls d)"
  shows "\<exists>k < length (controls d). presses keydown (pre @ controls d @ post) d False k a = Some b"
proof -
  let ?n = "length (controls d)"
  obtain i j where ij: "i < ?n" "controls d ! i = a" "j < ?n" "controls d ! j = b"
    using assms(2,3) by (auto simp: in_set_conv_nth)
  let ?k = "(?n - i + j) mod ?n"
  have "(i + ?k) mod ?n = (i + (?n - i + j)) mod ?n" by (simp add: mod_add_right_eq)
  also have "i + (?n - i + j) = ?n + j" using ij(1) by simp
  finally have "(i + ?k) mod ?n = j" using ij(3) by simp
  moreover have "?k < ?n" using ij(1) by (metis gr_implies_not0 mod_less_divisor not_gr_zero)
  ultimately show ?thesis using presses_on [OF assms(1) ij(1), of ?k] ij by auto
qed

lemma tab_stays:
  assumes "distinct (pre @ controls d @ post)" "a \<in> set (controls d)"
  shows "\<exists>c \<in> set (controls d). press keydown (pre @ controls d @ post) d False a = Some c \<and>
     press keydown (pre @ controls d @ post) d True c = Some a"
proof -
  obtain i where i: "i < length (controls d)" "controls d ! i = a" using assms(2) by (auto simp: in_set_conv_nth)
  have "Suc i mod length (controls d) < length (controls d)" using i(1) by (rule Suc_mod_less)
  then show ?thesis using press_on [OF assms(1) i(1)] press_back [OF assms(1) i(1)] i(2) by (metis nth_mem)
qed

end

lemmas keydown_defs = inspector_keydown_def repeat_keydown_def retry_keydown_def uncertain_keydown_def health_keydown_def
  tools_keydown_def notification_keydown_def chart_keydown_def confirm_keydown_def

interpretation confirm_trap: focus_trap confirm_keydown "map fst"
  by unfold_locales (auto simp: keydown_defs Let_def)

interpretation inspector_trap: focus_trap inspector_keydown enabled
  by unfold_locales (auto simp: keydown_defs Let_def)

interpretation repeat_trap: focus_trap repeat_keydown enabled
  by unfold_locales (auto simp: keydown_defs Let_def)

interpretation retry_trap: focus_trap retry_keydown enabled
  by unfold_locales (auto simp: keydown_defs Let_def)

interpretation uncertain_trap: focus_trap uncertain_keydown enabled
  by unfold_locales (auto simp: keydown_defs Let_def)

interpretation health_trap: focus_trap health_keydown enabled
  by unfold_locales (auto simp: keydown_defs Let_def)

interpretation tools_trap: focus_trap tools_keydown enabled
  by unfold_locales (auto simp: keydown_defs Let_def)

interpretation notification_trap: focus_trap notification_keydown enabled
  by unfold_locales (auto simp: keydown_defs Let_def)

interpretation chart_trap: focus_trap chart_keydown enabled
  by unfold_locales (auto simp: keydown_defs Let_def)

section \<open>Properties\<close>

text \<open>The eight handlers that skip disabled controls.\<close>

definition dialog_keydowns :: "(trap_key \<Rightarrow> 'e \<Rightarrow> 'e controls \<Rightarrow> 'e trap_effect) set" where
  "dialog_keydowns = {inspector_keydown, repeat_keydown, retry_keydown, uncertain_keydown, health_keydown, tools_keydown,
     notification_keydown, chart_keydown}"

lemmas tab_reaches_all = inspector_trap.tab_reaches repeat_trap.tab_reaches retry_trap.tab_reaches uncertain_trap.tab_reaches
  health_trap.tab_reaches tools_trap.tab_reaches notification_trap.tab_reaches chart_trap.tab_reaches

lemmas tab_stays_all = inspector_trap.tab_stays repeat_trap.tab_stays retry_trap.tab_stays uncertain_trap.tab_stays
  health_trap.tab_stays tools_trap.tab_stays notification_trap.tab_stays chart_trap.tab_stays



end
