(* ===== verification/Search.thy ===== *)
theory Search
  imports Navigation
begin

text \<open>
  The search of web/src/components/GlobalSearch.tsx: the results shown for a query, what
  choosing one of them does, the keyboard, and the loads of the remote lists; and the
  notifications of web/src/components/NotificationPopover.tsx, which open alerts the same
  way. \<open>tr\<close> translates a key, \<open>json_text\<close> is \<open>JSON.stringify\<close>.
\<close>

section \<open>Results\<close>

datatype search_kind = Find_request | Find_history | Find_incident | Find_alert | Find_log | Find_capture | Find_upstream

record SearchResult =
  sres_key :: string
  sres_kind :: search_kind
  sres_id :: string
  sres_title :: string
  sres_detail :: string

record SearchTarget =
  stgt_kind :: search_kind
  stgt_id :: string
  stgt_detail :: "string option"

definition open_incident :: "Incident \<Rightarrow> bool" where
  "open_incident i \<longleftrightarrow> inc_state i \<noteq> Incident_state_Resolved"

definition has_category :: "string \<Rightarrow> Incident \<Rightarrow> bool" where
  "has_category c i \<longleftrightarrow> map_of (inc_categories i) c \<noteq> None"

definition relatedIncident :: "Alert \<Rightarrow> Incident list \<Rightarrow> string option" where
  "relatedIncident alert incidents =
     (case Option.bind (alert_messageDetails alert) (\<lambda>d. prop_of d ''incidentId'') of
        Some (JStr explicit) \<Rightarrow>
          if \<exists>i \<in> set incidents. inc_id i = explicit \<and> open_incident i then Some explicit
          else map_option inc_id (find (\<lambda>i. open_incident i \<and> has_category (alert_type alert) i) incidents)
      | _ \<Rightarrow> map_option inc_id (find (\<lambda>i. open_incident i \<and> has_category (alert_type alert) i) incidents))"

definition includesQuery :: "string option list \<Rightarrow> string \<Rightarrow> bool" where
  "includesQuery vs query \<longleftrightarrow> list_ex (\<lambda>v. case v of None \<Rightarrow> False | Some s \<Rightarrow> js_includes (js_lower s) query) vs"

record search_data =
  sd_upstream :: string
  sd_requests :: "RequestInfo list"
  sd_history :: "HistoryRecord list"
  sd_remoteHistory :: "HistoryRecord list"
  sd_incidents :: "Incident list"
  sd_remoteIncidents :: "Incident list"
  sd_alerts :: "Alert list"
  sd_logs :: "RuntimeLogEntry list"
  sd_captures :: "CaptureRecord list"

definition incident_state_string :: "Incident_state \<Rightarrow> string" where
  "incident_state_string s = (case s of Incident_state_Open \<Rightarrow> ''open'' | Incident_state_Recovering \<Rightarrow> ''recovering''
     | Incident_state_Resolved \<Rightarrow> ''resolved'')"

definition request_results :: "string \<Rightarrow> RequestInfo list \<Rightarrow> SearchResult list" where
  "request_results q rs =
     map (\<lambda>r. \<lparr>sres_key = ''request-'' @ req_id r, sres_kind = Find_request, sres_id = req_id r,
       sres_title = req_method r @ '' '' @ req_path r, sres_detail = req_id r\<rparr>)
     (filter (\<lambda>r. includesQuery [Some (req_id r), req_clientId r, req_taskId r, Some (req_method r), Some (req_path r),
        Some (req_state r), req_lastErrorCode r] q) rs)"

definition history_results :: "string \<Rightarrow> HistoryRecord list \<Rightarrow> SearchResult list" where
  "history_results q rs =
     map (\<lambda>r. \<lparr>sres_key = ''history-'' @ hr_id r, sres_kind = Find_history, sres_id = hr_id r,
       sres_title = hr_method r @ '' '' @ hr_path r, sres_detail = hr_id r\<rparr>)
     (filter (\<lambda>r. includesQuery [Some (hr_id r), hr_clientId r, hr_taskId r, Some (hr_method r), Some (hr_path r),
        Some (hr_state r), hr_lastErrorCode r] q) (first_by hr_id rs))"

definition incident_results :: "(string \<Rightarrow> string) \<Rightarrow> string \<Rightarrow> Incident list \<Rightarrow> SearchResult list" where
  "incident_results tr q is =
     map (\<lambda>i. \<lparr>sres_key = ''incident-'' @ inc_id i, sres_kind = Find_incident, sres_id = inc_id i,
       sres_title = tr ''search.incidentResult'', sres_detail = inc_id i\<rparr>)
     (filter (\<lambda>i. includesQuery ([Some (inc_id i), Some (incident_state_string (inc_state i))] @
        map Some (inc_affectedRequests i) @ map (\<lambda>(k, _). Some k) (inc_categories i)) q) (first_by inc_id is))"

definition alert_results :: "string \<Rightarrow> Alert list \<Rightarrow> SearchResult list" where
  "alert_results q as =
     map (\<lambda>a. \<lparr>sres_key = ''alert-'' @ alert_id a, sres_kind = Find_alert, sres_id = or_string (alert_requestId a) (alert_id a),
       sres_title = alert_message a, sres_detail = or_string (alert_requestId a) (alert_type a)\<rparr>)
     (filter (\<lambda>a. includesQuery [Some (alert_id a), alert_requestId a, Some (alert_type a), Some (alert_message a)] q) as)"

definition log_results :: "(json \<Rightarrow> string) \<Rightarrow> string \<Rightarrow> RuntimeLogEntry list \<Rightarrow> SearchResult list" where
  "log_results json_text q es =
     map (\<lambda>e. \<lparr>sres_key = ''log-'' @ int_string (rle_id e), sres_kind = Find_log, sres_id = or_string (rle_requestId e) [],
       sres_title = rle_message e, sres_detail = rle_event e\<rparr>)
     (filter (\<lambda>e. includesQuery [Some (int_string (rle_id e)), Some (rle_event e), Some (rle_message e), rle_requestId e,
        rle_clientId e, rle_taskId e, Some (rle_level e), Some (json_text (JObj (nullish (rle_fields e) [])))] q) es)"

definition capture_results :: "string \<Rightarrow> CaptureRecord list \<Rightarrow> SearchResult list" where
  "capture_results q cs =
     map (\<lambda>c. \<lparr>sres_key = ''capture-'' @ cr_id c, sres_kind = Find_capture, sres_id = cr_id c,
       sres_title = cr_method c @ '' '' @ cr_path c, sres_detail = cr_requestId c\<rparr>)
     (filter (\<lambda>c. includesQuery [Some (cr_id c), Some (cr_requestId c), Some (cr_method c), Some (cr_path c), Some (cr_state c)] q) cs)"

definition upstream_results :: "(string \<Rightarrow> string) \<Rightarrow> string \<Rightarrow> string \<Rightarrow> SearchResult list" where
  "upstream_results tr q upstream =
     (if includesQuery [Some upstream] q
      then [\<lparr>sres_key = ''upstream'', sres_kind = Find_upstream, sres_id = upstream, sres_title = tr ''search.upstreamResult'',
             sres_detail = upstream\<rparr>] else [])"

definition normalize_query :: "string \<Rightarrow> string" where
  "normalize_query query = js_lower (js_trim query)"

definition search_items :: "(string \<Rightarrow> string) \<Rightarrow> (json \<Rightarrow> string) \<Rightarrow> string \<Rightarrow> search_data \<Rightarrow> SearchResult list" where
  "search_items tr json_text q d =
     request_results q (sd_requests d) @ history_results q (sd_history d @ sd_remoteHistory d) @
     incident_results tr q (sd_incidents d @ sd_remoteIncidents d) @ alert_results q (sd_alerts d) @
     log_results json_text q (sd_logs d) @ capture_results q (sd_captures d) @ upstream_results tr q (sd_upstream d)"

definition search_results :: "(string \<Rightarrow> string) \<Rightarrow> (json \<Rightarrow> string) \<Rightarrow> string \<Rightarrow> search_data \<Rightarrow> SearchResult list" where
  "search_results tr json_text q d = (if q = [] then [] else take 8 (search_items tr json_text q d))"

section \<open>Choosing a result\<close>

datatype search_action = Open_request string | Go_to View SearchTarget

definition alert_action :: "Alert option \<Rightarrow> Incident list \<Rightarrow> string \<Rightarrow> search_action" where
  "alert_action alert incidents detail =
     (case alert of
        None \<Rightarrow> Go_to View_logs \<lparr>stgt_kind = Find_log, stgt_id = [], stgt_detail = Some detail\<rparr>
      | Some a \<Rightarrow>
          if truthy_string (alert_requestId a) then Open_request (nullish (alert_requestId a) [])
          else (case relatedIncident a incidents of
                  Some i \<Rightarrow> if i \<noteq> [] then Go_to View_incidents \<lparr>stgt_kind = Find_incident, stgt_id = i, stgt_detail = None\<rparr>
                    else Go_to View_logs \<lparr>stgt_kind = Find_log, stgt_id = [], stgt_detail = Some (or_string (Some (alert_type a)) detail)\<rparr>
                | None \<Rightarrow> Go_to View_logs \<lparr>stgt_kind = Find_log, stgt_id = [], stgt_detail = Some (or_string (Some (alert_type a)) detail)\<rparr>))"

definition alert_key_id :: "string \<Rightarrow> string" where
  "alert_key_id key = (if prefix ''alert-'' key then drop 6 key else key)"

definition select_result :: "bool \<Rightarrow> search_data \<Rightarrow> SearchResult \<Rightarrow> search_action" where
  "select_result canOperate d r =
     (let target = \<lparr>stgt_kind = sres_kind r, stgt_id = sres_id r, stgt_detail = Some (sres_detail r)\<rparr> in
      case sres_kind r of
        Find_incident \<Rightarrow> Go_to View_incidents target
      | Find_log \<Rightarrow> Go_to View_logs target
      | Find_capture \<Rightarrow> Go_to View_captures target
      | Find_upstream \<Rightarrow> Go_to (if canOperate then View_settings else View_diagnostics) target
      | Find_alert \<Rightarrow> alert_action (find (\<lambda>a. alert_id a = alert_key_id (sres_key r)) (sd_alerts d)) (sd_incidents d) (sres_detail r)
      | _ \<Rightarrow> Open_request (sres_id r))"

section \<open>The search box\<close>

record search_box =
  sb_query :: string
  sb_open :: bool
  sb_mobileOpen :: bool
  sb_activeIndex :: int

text \<open>\<open>a % n\<close> with the sign of \<open>a\<close>.\<close>

definition js_rem :: "int \<Rightarrow> int \<Rightarrow> int" where
  "js_rem a n = (if 0 \<le> a then a mod n else - ((- a) mod n))"

definition move_active :: "bool \<Rightarrow> int \<Rightarrow> int \<Rightarrow> int" where
  "move_active down n current = js_rem (current + (if down then 1 else - 1) + n) n"

definition results_changed :: "SearchResult list \<Rightarrow> search_box \<Rightarrow> search_box" where
  "results_changed rs b = b\<lparr>sb_activeIndex := if rs \<noteq> [] then 0 else - 1\<rparr>"

definition close_search :: "search_box \<Rightarrow> search_box" where
  "close_search b = b\<lparr>sb_open := False, sb_mobileOpen := False\<rparr>"

datatype search_key = Key_arrow_down | Key_arrow_up | Key_enter | Key_other

definition handleInputKeyDown :: "SearchResult list \<Rightarrow> search_key \<Rightarrow> search_box \<Rightarrow> search_box \<times> SearchResult option" where
  "handleInputKeyDown rs key b =
     (if rs = [] then (b, None)
      else case key of
          Key_arrow_down \<Rightarrow> (b\<lparr>sb_activeIndex := move_active True (int (length rs)) (sb_activeIndex b)\<rparr>, None)
        | Key_arrow_up \<Rightarrow> (b\<lparr>sb_activeIndex := move_active False (int (length rs)) (sb_activeIndex b)\<rparr>, None)
        | Key_enter \<Rightarrow>
            if 0 \<le> sb_activeIndex b
            then ((close_search b)\<lparr>sb_query := []\<rparr>,
                  if sb_activeIndex b < int (length rs) then Some (rs ! nat (sb_activeIndex b)) else None)
            else (b, None)
        | Key_other \<Rightarrow> (b, None))"

definition search_shortcut :: "bool \<Rightarrow> search_box \<Rightarrow> search_box" where
  "search_shortcut narrow b = b\<lparr>sb_open := True, sb_mobileOpen := (sb_mobileOpen b \<or> narrow)\<rparr>"

definition search_escape :: "search_box \<Rightarrow> search_box" where
  "search_escape b = (if sb_open b \<or> sb_mobileOpen b then close_search b else b)"

definition open_mobile :: "search_box \<Rightarrow> search_box" where
  "open_mobile b = b\<lparr>sb_mobileOpen := True, sb_open := True\<rparr>"

definition pointer_outside :: "search_box \<Rightarrow> search_box" where
  "pointer_outside b = close_search b"

definition focus_search :: "search_box \<Rightarrow> search_box" where
  "focus_search b = b\<lparr>sb_open := True\<rparr>"

definition change_query :: "string \<Rightarrow> search_box \<Rightarrow> search_box" where
  "change_query v b = b\<lparr>sb_query := v, sb_open := True\<rparr>"

definition clear_query :: "search_box \<Rightarrow> search_box" where
  "clear_query b = b\<lparr>sb_query := []\<rparr>"

definition hover_result :: "nat \<Rightarrow> search_box \<Rightarrow> search_box" where
  "hover_result i b = b\<lparr>sb_activeIndex := int i\<rparr>"

text \<open>
  The events of the box; the effect that resets the active result follows every change of the
  results, and a result is hovered over only while it is shown.
\<close>

inductive search_step :: "SearchResult list \<times> search_box \<Rightarrow> SearchResult list \<times> search_box \<Rightarrow> bool" where
  pressed: "search_step (rs, b) (rs, fst (handleInputKeyDown rs key b))"
| shortcut: "search_step (rs, b) (rs, search_shortcut narrow b)"
| escaped: "search_step (rs, b) (rs, search_escape b)"
| mobile: "search_step (rs, b) (rs, open_mobile b)"
| outside: "search_step (rs, b) (rs, pointer_outside b)"
| focused: "search_step (rs, b) (rs, focus_search b)"
| changed: "search_step (rs, b) (rs', results_changed rs' (change_query v b))"
| cleared: "search_step (rs, b) ([], results_changed [] (clear_query b))"
| reloaded: "search_step (rs, b) (rs', results_changed rs' b)"
| hovered: "i < length rs \<Longrightarrow> search_step (rs, b) (rs, hover_result i b)"

definition new_search :: search_box where
  "new_search = \<lparr>sb_query = [], sb_open = False, sb_mobileOpen = False, sb_activeIndex = - 1\<rparr>"

text \<open>The four settled loads; a load that failed or was superseded leaves its list alone.\<close>

definition remote_loaded ::
  "bool \<Rightarrow> RuntimeLogEntry list option \<Rightarrow> CaptureRecord list option \<Rightarrow> HistoryRecord list option \<Rightarrow> Incident list option \<Rightarrow> search_data \<Rightarrow> search_data" where
  "remote_loaded superseded logs captures hist incs d =
     (if superseded then d
      else d\<lparr>sd_logs := nullish logs (sd_logs d), sd_captures := nullish captures (sd_captures d),
             sd_remoteHistory := nullish hist (sd_remoteHistory d), sd_remoteIncidents := nullish incs (sd_remoteIncidents d)\<rparr>)"

section \<open>Notifications\<close>

definition activeAlerts :: "Alert list \<Rightarrow> Alert list" where
  "activeAlerts alerts = filter (\<lambda>a. \<not> truthy_string (alert_resolvedAt a)) alerts"

definition activeIncidents :: "Incident list \<Rightarrow> Incident list" where
  "activeIncidents incidents = filter open_incident incidents"

definition notification_count :: "Alert list \<Rightarrow> Incident list \<Rightarrow> nat" where
  "notification_count alerts incidents = length (activeAlerts alerts) + length (activeIncidents incidents)"

definition notification_badge :: "nat \<Rightarrow> string option" where
  "notification_badge count = (if count = 0 then None else if count > 99 then Some ''99+'' else Some (nat_string count))"

datatype notification_action = Notify_request string | Notify_incident string | Notify_logs string

definition open_alert :: "Incident list \<Rightarrow> Alert \<Rightarrow> notification_action" where
  "open_alert incidents a =
     (if truthy_string (alert_requestId a) then Notify_request (nullish (alert_requestId a) [])
      else case find (has_category (alert_type a)) (activeIncidents incidents) of
             Some i \<Rightarrow> Notify_incident (inc_id i) | None \<Rightarrow> Notify_logs (alert_type a))"

section \<open>Lemmas\<close>

lemma move_active_range: "0 \<le> i \<Longrightarrow> i < n \<Longrightarrow> 0 \<le> move_active down n i \<and> move_active down n i < n"
  by (auto simp: move_active_def js_rem_def)

lemma move_active_cycle: "0 \<le> i \<Longrightarrow> i < n \<Longrightarrow> move_active False n (move_active True n i) = i"
  by (cases "i + 1 = n") (auto simp: move_active_def js_rem_def mod_pos_pos_trivial zmod_minus1)

text \<open>The overlay of a small screen is never shown closed, and the active result is one of those shown.\<close>

definition search_ok :: "SearchResult list \<times> search_box \<Rightarrow> bool" where
  "search_ok s \<longleftrightarrow> (sb_mobileOpen (snd s) \<longrightarrow> sb_open (snd s)) \<and>
     (if fst s = [] then sb_activeIndex (snd s) = - 1
      else 0 \<le> sb_activeIndex (snd s) \<and> sb_activeIndex (snd s) < int (length (fst s)))"

lemma pressed_ok: "search_ok (rs, b) \<Longrightarrow> search_ok (rs, fst (handleInputKeyDown rs key b))"
proof (cases "rs = []")
  case False
  assume "search_ok (rs, b)"
  then show ?thesis using False move_active_range [of "sb_activeIndex b" "int (length rs)"]
    by (cases key) (simp_all add: search_ok_def handleInputKeyDown_def close_search_def)
qed (simp add: search_ok_def handleInputKeyDown_def)

lemma search_step_ok: "search_step s t \<Longrightarrow> search_ok s \<Longrightarrow> search_ok t"
proof (induction rule: search_step.induct)
  case (pressed rs b key)
  then show ?case by (rule pressed_ok)
qed (auto simp: search_shortcut_def search_escape_def close_search_def open_mobile_def pointer_outside_def focus_search_def
    change_query_def clear_query_def hover_result_def results_changed_def search_ok_def split: if_splits)

interpretation search_system: step_system search_step "\<lambda>s. s = ([], new_search)" search_ok
proof unfold_locales
  show "search_ok s" if "s = ([], new_search)" for s using that by (simp add: search_ok_def new_search_def)
qed (rule search_step_ok)

text \<open>Enter chooses a result that is shown, whenever there is one.\<close>

lemma enter_chooses:
  assumes "search_step\<^sup>*\<^sup>* ([], new_search) (rs, b)" "rs \<noteq> []"
  shows "\<exists>r \<in> set rs. snd (handleInputKeyDown rs Key_enter b) = Some r"
proof -
  have "search_ok (rs, b)" using search_system.inv_reachable [OF assms(1)] by blast
  then have "0 \<le> sb_activeIndex b" "sb_activeIndex b < int (length rs)" using assms(2) by (simp_all add: search_ok_def)
  then show ?thesis using assms(2) nth_mem [of "nat (sb_activeIndex b)" rs] by (simp add: handleInputKeyDown_def)
qed

lemma distinct_results:
  assumes "distinct (map ident xs)" "\<And>x. sres_key (f x) = p @ ident x"
  shows "distinct (map sres_key (map f (filter P xs)))"
proof -
  have "distinct (map ident (filter P xs))" using assms(1) by (simp add: distinct_map_filter)
  then show ?thesis by (auto simp: distinct_map inj_on_def assms(2))
qed

lemma int_string_inj: "int_string a = int_string b \<Longrightarrow> a = b"
proof -
  have minus: "CHR ''-'' \<notin> set (nat_string n)" for n
    using nat_string_digits [of "CHR ''-''" n] by (auto simp: digit_of_def)
  assume "int_string a = int_string b"
  then show "a = b"
    using minus nat_string_inj by (auto simp: int_string_def split: if_splits) (metis list.set_intros(1))+
qed

text \<open>Every key starts with a letter of its own kind.\<close>

lemma result_keys:
  "r \<in> set (request_results q rs) \<Longrightarrow> hd (sres_key r) = CHR ''r''"
  "r \<in> set (history_results q hs) \<Longrightarrow> hd (sres_key r) = CHR ''h''"
  "r \<in> set (incident_results tr q is) \<Longrightarrow> hd (sres_key r) = CHR ''i''"
  "r \<in> set (alert_results q as) \<Longrightarrow> hd (sres_key r) = CHR ''a''"
  "r \<in> set (log_results jt q es) \<Longrightarrow> hd (sres_key r) = CHR ''l''"
  "r \<in> set (capture_results q cs) \<Longrightarrow> hd (sres_key r) = CHR ''c''"
  "r \<in> set (upstream_results tr q u) \<Longrightarrow> hd (sres_key r) = CHR ''u''"
  by (auto simp: request_results_def history_results_def incident_results_def alert_results_def log_results_def
      capture_results_def upstream_results_def split: if_splits)

definition sources_distinct :: "search_data \<Rightarrow> bool" where
  "sources_distinct d \<longleftrightarrow> distinct (map req_id (sd_requests d)) \<and> distinct (map alert_id (sd_alerts d)) \<and>
     distinct (map rle_id (sd_logs d)) \<and> distinct (map cr_id (sd_captures d))"

lemma list_all2_related: "list_all2 P xs ys \<Longrightarrow> x \<in> set xs \<Longrightarrow> \<exists>y \<in> set ys. P x y"
  by (induction rule: list_all2_induct) auto

lemma distinct_groups:
  fixes gs :: "'a list list"
  assumes "list_all2 (\<lambda>g c. \<forall>x \<in> set g. hd (k x) = c) gs cs" "distinct cs" "\<forall>g \<in> set gs. distinct (map k g)"
  shows "distinct (map k (concat gs))"
  using assms
proof (induction rule: list_all2_induct)
  case (Cons g gs c cs)
  have "hd (k y) \<in> set cs" if "y \<in> set (concat gs)" for y
    using list_all2_related [OF Cons.hyps(2)] that by fastforce
  with Cons.hyps(1) Cons.prems(1) have "k ` set g \<inter> k ` set (concat gs) = {}" by fastforce
  with Cons.IH Cons.prems show ?case by (simp del: set_concat)
qed simp

lemma search_keys_distinct:
  assumes "sources_distinct d"
  shows "distinct (map sres_key (search_items tr jt q d))"
proof -
  let ?gs = "[request_results q (sd_requests d), history_results q (sd_history d @ sd_remoteHistory d),
    incident_results tr q (sd_incidents d @ sd_remoteIncidents d), alert_results q (sd_alerts d),
    log_results jt q (sd_logs d), capture_results q (sd_captures d), upstream_results tr q (sd_upstream d)]"
  have logs: "distinct (map (\<lambda>e. int_string (rle_id e)) (sd_logs d))"
    using assms int_string_inj by (auto simp: sources_distinct_def distinct_map inj_on_def)
  note distinct = assms [unfolded sources_distinct_def]
  have each: "distinct (map sres_key (request_results q (sd_requests d)))"
    "distinct (map sres_key (history_results q (sd_history d @ sd_remoteHistory d)))"
    "distinct (map sres_key (incident_results tr q (sd_incidents d @ sd_remoteIncidents d)))"
    "distinct (map sres_key (alert_results q (sd_alerts d)))"
    "distinct (map sres_key (log_results jt q (sd_logs d)))"
    "distinct (map sres_key (capture_results q (sd_captures d)))"
    unfolding request_results_def history_results_def incident_results_def alert_results_def log_results_def
      capture_results_def
    by (rule distinct_results [where p = "''request-''" and ident = req_id]
          distinct_results [where p = "''history-''" and ident = hr_id]
          distinct_results [where p = "''incident-''" and ident = inc_id]
          distinct_results [where p = "''alert-''" and ident = alert_id]
          distinct_results [where p = "''log-''" and ident = "\<lambda>e. int_string (rle_id e)"]
          distinct_results [where p = "''capture-''" and ident = cr_id];
        simp add: distinct logs distinct_first_by)+
  have "distinct (map sres_key g)" if "g \<in> set ?gs" for g
    using that each by (auto simp: upstream_results_def)
  note each = this
  have "distinct (map sres_key (concat ?gs))"
  proof (rule distinct_groups [where cs = "''rhialcu''"])
    show "list_all2 (\<lambda>g c. \<forall>x \<in> set g. hd (sres_key x) = c) ?gs ''rhialcu''"
      using result_keys by simp
    show "\<forall>g \<in> set ?gs. distinct (map sres_key g)" using each by blast
  qed simp_all
  then show ?thesis by (simp add: search_items_def)
qed

lemma select_needs_operate: "select_result False d r \<noteq> Go_to View_settings t"
  by (auto simp: select_result_def alert_action_def Let_def split: search_kind.splits option.splits if_splits)

section \<open>Properties\<close>

text \<open>
  A search shows at most eight results, each under a key of its own, whatever the
  local and remote lists have in common; each is among the matches; and choosing one never
  leads a session without the \<open>operate\<close> capability to the settings.
\<close>

theorem search_results_spec:
  assumes "sources_distinct d"
  shows "length (search_results tr jt q d) \<le> 8 \<and> distinct (map sres_key (search_results tr jt q d)) \<and>
     set (search_results tr jt q d) \<subseteq> set (search_items tr jt q d) \<and>
     (\<forall>r t. select_result False d r \<noteq> Go_to View_settings t)"
  using search_keys_distinct [OF assms, of tr jt q] select_needs_operate
  by (auto simp: search_results_def take_map [symmetric] distinct_take dest: in_set_takeD)

definition sample_search :: search_data where
  "sample_search = \<lparr>sd_upstream = ''http://relay:8317'', sd_requests = [], sd_history = [], sd_remoteHistory = [],
     sd_incidents = [], sd_remoteIncidents = [], sd_alerts = [], sd_logs = [], sd_captures = []\<rparr>"

theorem search_results_spec_witness:
  "map sres_key (search_results (\<lambda>k. k) (\<lambda>_. []) ''relay'' sample_search) = [''upstream''] \<and>
   distinct (map sres_key (search_results (\<lambda>k. k) (\<lambda>_. []) ''relay'' sample_search))"
proof
  show "map sres_key (search_results (\<lambda>k. k) (\<lambda>_. []) ''relay'' sample_search) = [''upstream'']" 
    by (simp add: search_results_def search_items_def sample_search_def request_results_def history_results_def incident_results_def
        alert_results_def log_results_def capture_results_def upstream_results_def includesQuery_def js_lower_def lower_char_def
        js_includes_def sublist_code)
  have "sources_distinct sample_search" by (simp add: sources_distinct_def sample_search_def)
  from search_results_spec [OF this]
  show "distinct (map sres_key (search_results (\<lambda>k. k) (\<lambda>_. []) ''relay'' sample_search))" by blast
qed

text \<open>The active option stays inside the list, and \<open>Enter\<close> chooses it.\<close>

lemma keyboard_in_range:
  assumes "rs \<noteq> []" "0 \<le> sb_activeIndex b" "sb_activeIndex b < int (length rs)"
  shows "0 \<le> sb_activeIndex (fst (handleInputKeyDown rs key b)) \<and>
     sb_activeIndex (fst (handleInputKeyDown rs key b)) < int (length rs) \<and>
     snd (handleInputKeyDown rs Key_enter b) = Some (rs ! nat (sb_activeIndex b))"
  using assms move_active_range
  by (cases key) (auto simp: handleInputKeyDown_def close_search_def)

end
