(* ===== verification/Overview.thy ===== *)
theory Overview
  imports Search RetryPolicy Format
begin

text \<open>
  The overview: the values that web/src/views/OverviewView.tsx derives from the status, the
  health summary and the metrics, the figures of web/src/components/OverviewMetrics.tsx, and
  the panel of web/src/components/OverviewPriorityPanel.tsx that says what needs attention
  first. Numbers are exact; \<open>short_form\<close>, \<open>decimals\<close> and \<open>hours\<close> are the number formats of the locale,
  \<open>js_string\<close> is \<open>String\<close>.
\<close>

section \<open>Health values\<close>

definition healthKey :: "string \<Rightarrow> string" where
  "healthKey name = map (\<lambda>c. if c = CHR '':'' \<or> c = CHR ''-'' then CHR ''_'' else c) name"

definition formatHealthValue ::
  "(rat \<Rightarrow> string) \<Rightarrow> (rat \<Rightarrow> string) \<Rightarrow> (json \<Rightarrow> string) \<Rightarrow> string \<Rightarrow> string \<Rightarrow> string \<Rightarrow> json option \<Rightarrow> string" where
  "formatHealthValue short_form decimals js_string tick cross key v =
     (case v of
        Some (JBool b) \<Rightarrow> if b then tick else cross
      | Some (JNum x) \<Rightarrow> if js_includes (js_lower key) ''bytes'' then short_form x @ ''B'' else decimals x
      | None \<Rightarrow> ''-'' | Some JNull \<Rightarrow> ''-''
      | Some w \<Rightarrow> js_string w)"

text \<open>\<open>toFixed\<close> of a number of either sign.\<close>

definition signed_fixed :: "nat \<Rightarrow> rat \<Rightarrow> string" where
  "signed_fixed d x = (if x < 0 then CHR ''-'' # to_fixed d (- x) else to_fixed d x)"

definition formatRatio :: "json option \<Rightarrow> string" where
  "formatRatio v = (case v of Some (JNum x) \<Rightarrow> signed_fixed 2 (x * 100) @ ''%'' | _ \<Rightarrow> ''-'')"

definition formatNumber :: "json option \<Rightarrow> string" where
  "formatNumber v = (case v of Some (JNum x) \<Rightarrow> signed_fixed 2 x | _ \<Rightarrow> ''-'')"

definition healthNumber :: "json option \<Rightarrow> rat option" where
  "healthNumber v = (case v of Some (JNum x) \<Rightarrow> Some x | _ \<Rightarrow> None)"

definition overview_age :: "(rat \<Rightarrow> string) \<Rightarrow> rat \<Rightarrow> string" where
  "overview_age hours seconds =
     (if seconds < 60 then int_string (max 0 (js_round seconds)) @ ''s''
      else if seconds < 3600 then int_string (js_round (seconds / 60)) @ ''m''
      else hours (seconds / 3600) @ ''h'')"

definition find_component :: "HealthSummary option \<Rightarrow> string \<Rightarrow> HealthComponent option" where
  "find_component summary name = Option.bind summary (\<lambda>s. find (\<lambda>c. hc_name c = name) (hs_components s))"

definition health_detail :: "HealthComponent option \<Rightarrow> string \<Rightarrow> rat option" where
  "health_detail c k = healthNumber (Option.bind (Option.bind c hc_details) (\<lambda>d. prop_of d k))"

definition uncertainOpen :: "HealthSummary option \<Rightarrow> Status \<Rightarrow> rat" where
  "uncertainOpen summary status =
     nullish (health_detail (find_component summary ''uncertain-delivery'') ''open'')
       (of_nat (length (filter (\<lambda>r. req_state r = ''uncertain'') (stat_requests status))))"

section \<open>Derived values\<close>

text \<open>The order of \<open>sort()\<close> on strings, by character codes.\<close>

fun string_le :: "string \<Rightarrow> string \<Rightarrow> bool" where
  "string_le [] t \<longleftrightarrow> True"
| "string_le (c # s) [] \<longleftrightarrow> False"
| "string_le (c # s) (d # t) \<longleftrightarrow>
     (of_char c :: nat) < of_char d \<or> (of_char c :: nat) = of_char d \<and> string_le s t"

fun insert_string :: "string \<Rightarrow> string list \<Rightarrow> string list" where
  "insert_string x [] = [x]"
| "insert_string x (y # ys) = (if string_le x y then x # y # ys else y # insert_string x ys)"

definition sort_strings :: "string list \<Rightarrow> string list" where
  "sort_strings xs = foldr insert_string xs []"

definition nextRetryAt :: "RequestInfo list \<Rightarrow> string option" where
  "nextRetryAt requests =
     (case sort_strings (map (\<lambda>r. nullish (req_nextRetryAt r) []) (filter (\<lambda>r. truthy_string (req_nextRetryAt r)) requests)) of
        [] \<Rightarrow> None | t # _ \<Rightarrow> Some t)"

definition dominantError :: "MetricsErrors option \<Rightarrow> string option" where
  "dominantError errors =
     map_option merr_categories_code (Option.bind errors (\<lambda>e. find (\<lambda>c. merr_categories_count c > 0) (merr_categories e)))"

definition retry_amplification :: "MetricsSnapshot_totals \<Rightarrow> string" where
  "retry_amplification m =
     (if msnap_totals_requests m \<noteq> 0 then signed_fixed 2 (of_int (msnap_totals_attempts m) / of_int (msnap_totals_requests m))
      else ''0.00'') @ ''x''"

definition failover_rate :: "MetricsSnapshot_totals \<Rightarrow> string" where
  "failover_rate m =
     (if msnap_totals_requests m \<noteq> 0
      then signed_fixed 1 (of_int (msnap_totals_failovers m) / of_int (msnap_totals_requests m) * 100) @ ''%'' else ''0.0%'')"

text \<open>The figures of the head line; \<open>dash\<close> stands where there is no value.\<close>

definition success_text :: "string \<Rightarrow> MetricsSnapshot option \<Rightarrow> string" where
  "success_text dash metrics =
     (case metrics of
        None \<Rightarrow> dash
      | Some m \<Rightarrow>
          let totals = msnap_totals m; rate = msnap_totals_successRate totals
          in if msnap_totals_requests totals > 0 then signed_fixed (if rate < 100 then 1 else 0) rate @ ''%'' else dash)"

definition recovery_text :: "string \<Rightarrow> MetricsSnapshot option \<Rightarrow> string" where
  "recovery_text dash metrics =
     (case metrics of
        None \<Rightarrow> dash
      | Some m \<Rightarrow>
          let ms = msnap_totals_averageRecoveryMilliseconds (msnap_totals m)
          in if ms > 0 then signed_fixed 1 (ms / 1000) @ ''s'' else dash)"

definition overview_items :: "string \<Rightarrow> Status \<Rightarrow> MetricsSnapshot option \<Rightarrow> (string \<times> string) list" where
  "overview_items dash status metrics =
     [(''active'', int_string (stat_active status)),
      (''recovering'', int_string (stat_waiting status + stat_queued status)),
      (''successRate'', success_text dash metrics),
      (''recoveryTime'', recovery_text dash metrics),
      (''failedAttempts'', int_string (case metrics of Some m \<Rightarrow> msnap_totals_failedAttempts (msnap_totals m)
         | None \<Rightarrow> stat_failedAttempts status))]"

text \<open>Choosing a request in the topology: the choice of the view, and the request to open.\<close>

definition select_request :: "string \<Rightarrow> string option \<times> string" where
  "select_request ident = (if ident = [] then (None, []) else (Some ident, ident))"

definition current_selected :: "string option \<Rightarrow> string option \<Rightarrow> string option" where
  "current_selected activeSelectedId selectedRequestId =
     (if truthy_string activeSelectedId then activeSelectedId else selectedRequestId)"

section \<open>The priority panel\<close>

record priority_input =
  pri_alerts :: "Alert list"
  pri_incidents :: "Incident list"
  pri_requests :: "RequestInfo list"
  pri_paused :: bool
  pri_selectedId :: "string option"

datatype priority_state = Pri_request | Pri_paused | Pri_incident | Pri_waiting | Pri_alert | Pri_stable

definition pri_incident :: "priority_input \<Rightarrow> Incident option" where
  "pri_incident p = find open_incident (pri_incidents p)"

definition pri_selected :: "priority_input \<Rightarrow> RequestInfo option" where
  "pri_selected p =
     (if truthy_string (pri_selectedId p) then find (\<lambda>r. Some (req_id r) = pri_selectedId p) (pri_requests p) else None)"

definition pri_activeAlerts :: "priority_input \<Rightarrow> Alert list" where
  "pri_activeAlerts p = take 2 (filter (\<lambda>a. \<not> truthy_string (alert_resolvedAt a)) (pri_alerts p))"

definition pri_waiting :: "priority_input \<Rightarrow> RequestInfo option" where
  "pri_waiting p = find (\<lambda>r. req_state r = ''waiting'' \<or> req_state r = ''queued'') (pri_requests p)"

definition pri_shown_request :: "priority_input \<Rightarrow> RequestInfo option" where
  "pri_shown_request p =
     (case pri_selected p of Some r \<Rightarrow> Some r
      | None \<Rightarrow> (case pri_waiting p of Some r \<Rightarrow> Some r
          | None \<Rightarrow> (case pri_requests p of [] \<Rightarrow> None | r # _ \<Rightarrow> Some r)))"

text \<open>\<open>sort\<close> by descending counts is stable.\<close>

fun insert_category :: "string \<times> int \<Rightarrow> (string \<times> int) list \<Rightarrow> (string \<times> int) list" where
  "insert_category x [] = [x]"
| "insert_category x (y # ys) = (if snd y \<le> snd x then x # y # ys else y # insert_category x ys)"

definition pri_categories :: "priority_input \<Rightarrow> (string \<times> int) list" where
  "pri_categories p = (case pri_incident p of None \<Rightarrow> [] | Some i \<Rightarrow> take 3 (foldr insert_category (inc_categories i) []))"

definition pri_state :: "priority_input \<Rightarrow> priority_state" where
  "pri_state p =
     (if pri_selected p \<noteq> None then Pri_request
      else if pri_paused p then Pri_paused
      else if pri_incident p \<noteq> None then Pri_incident
      else if pri_waiting p \<noteq> None then Pri_waiting
      else if pri_shown_request p \<noteq> None then Pri_request
      else if pri_activeAlerts p \<noteq> [] then Pri_alert
      else Pri_stable)"

record generated_event =
  gev_type :: string
  gev_message :: string
  gev_time :: string
  gev_attempt :: "int option"

definition generatedEvents :: "(string \<Rightarrow> string) \<Rightarrow> RequestInfo option \<Rightarrow> generated_event list" where
  "generatedEvents tr selected =
     (case selected of
        None \<Rightarrow> []
      | Some r \<Rightarrow>
          let updated = or_string (Some (req_updatedAt r)) (req_startedAt r) in
          [\<lparr>gev_type = ''received'', gev_message = tr ''overview:priority.receivedRequest'', gev_time = req_startedAt r, gev_attempt = None\<rparr>,
           \<lparr>gev_type = ''attempt_started'', gev_message = tr ''overview:priority.sendingToUpstream'', gev_time = updated,
             gev_attempt = Some (req_attempt r)\<rparr>] @
          (if truthy_string (req_lastError r)
           then [\<lparr>gev_type = ''attempt_failed'', gev_message = nullish (req_lastError r) [], gev_time = updated,
                   gev_attempt = Some (req_attempt r)\<rparr>] else []))"

text \<open>The sections of the body, in the order of the markup, each with its own condition.\<close>

datatype priority_section = Sec_timeline RequestInfo | Sec_paused | Sec_incident Incident | Sec_request RequestInfo
  | Sec_alert Alert | Sec_stable

definition priority_body :: "priority_input \<Rightarrow> priority_section list" where
  "priority_body p =
     (let none = pri_selected p = None; state = pri_state p in
      (case pri_selected p of Some r \<Rightarrow> [Sec_timeline r] | None \<Rightarrow> []) @
      (if none \<and> state = Pri_paused then [Sec_paused] else []) @
      (if none \<and> state = Pri_incident then (case pri_incident p of Some i \<Rightarrow> [Sec_incident i] | None \<Rightarrow> []) else []) @
      (if none \<and> (state = Pri_waiting \<or> state = Pri_request)
       then (case pri_shown_request p of Some r \<Rightarrow> [Sec_request r] | None \<Rightarrow> []) else []) @
      (if none \<and> state = Pri_alert then (case pri_activeAlerts p of a # _ \<Rightarrow> [Sec_alert a] | [] \<Rightarrow> []) else []) @
      (if none \<and> state = Pri_stable then [Sec_stable] else []))"

section \<open>Lemmas\<close>

lemma string_le_refl [simp]: "string_le s s"
  by (induction s) auto

lemma string_le_total: "string_le s t \<or> string_le t s"
  by (induction s t rule: string_le.induct) auto

lemma string_le_trans: "string_le s t \<Longrightarrow> string_le t u \<Longrightarrow> string_le s u"
proof (induction s t arbitrary: u rule: string_le.induct)
  case (3 c s d t)
  then show ?case by (cases u) auto
qed simp_all

lemma set_insert_string [simp]: "set (insert_string x ys) = insert x (set ys)"
  by (induction ys) auto

lemma set_sort_strings [simp]: "set (sort_strings xs) = set xs"
  by (induction xs) (simp_all add: sort_strings_def)

lemma sorted_insert_string: "sorted_wrt string_le ys \<Longrightarrow> sorted_wrt string_le (insert_string x ys)"
proof (induction ys)
  case (Cons y ys)
  then show ?case using string_le_total [of x y] by (auto intro: string_le_trans)
qed simp

lemma sorted_sort_strings: "sorted_wrt string_le (sort_strings xs)"
  by (induction xs) (simp_all add: sort_strings_def sorted_insert_string)

text \<open>The next retry shown is the earliest of the scheduled ones.\<close>

lemma nextRetryAt_Some:
  assumes "nextRetryAt rs = Some t" "r \<in> set rs" "truthy_string (req_nextRetryAt r)"
  shows "(\<exists>r' \<in> set rs. req_nextRetryAt r' = Some t) \<and> string_le t (nullish (req_nextRetryAt r) [])"
proof -
  let ?ts = "map (\<lambda>r. nullish (req_nextRetryAt r) []) (filter (\<lambda>r. truthy_string (req_nextRetryAt r)) rs)"
  obtain rest where sorted: "sort_strings ?ts = t # rest"
    using assms(1) by (auto simp: nextRetryAt_def split: list.splits)
  then have "t \<in> set ?ts" using set_sort_strings [of ?ts] by (metis list.set_intros(1))
  moreover have "nullish (req_nextRetryAt r) [] \<in> set (t # rest)"
    using assms(2,3) set_sort_strings [of ?ts] unfolding sorted by auto
  ultimately show ?thesis using sorted_sort_strings [of ?ts] unfolding sorted
    by (auto simp: truthy_string_def nullish_def split: option.splits)
qed

lemma sorted_insert_category:
  "sorted_wrt (\<lambda>a b. snd b \<le> snd a) ys \<Longrightarrow> sorted_wrt (\<lambda>a b. snd b \<le> snd a) (insert_category x ys)"
proof (induction ys)
  case (Cons y ys)
  have "set (insert_category x ys) = insert x (set ys)" by (induction ys) auto
  with Cons show ?case by fastforce
qed simp

lemma pri_categories_sorted: "sorted_wrt (\<lambda>a b. snd b \<le> snd a) (pri_categories p)" "length (pri_categories p) \<le> 3"
proof -
  have "sorted_wrt (\<lambda>a b. snd b \<le> snd a) (foldr insert_category cs [])" for cs
    by (induction cs) (simp_all add: sorted_insert_category)
  then show "sorted_wrt (\<lambda>a b. snd b \<le> snd a) (pri_categories p)" "length (pri_categories p) \<le> 3"
    by (auto simp: pri_categories_def sorted_wrt_take split: option.splits)
qed

text \<open>Ages below a minute are rounded to seconds, so that the last half second shows as sixty.\<close>

lemma overview_age_rounds: "overview_age hours (597 / 10) = ''60s''"
proof -
  have "js_round (597 / 10) = 60" by (simp add: js_round_def floor_eq_iff)
  then show ?thesis by (simp add: overview_age_def int_string_def nat_string.simps digit_char_def char_of_def bit_0)
qed

section \<open>Properties\<close>

text \<open>
  The priority panel always says exactly one thing, and the most urgent one. Its
  body has one section: the request that is selected if it exists; else that the gateway is
  paused; else the first open incident; else a waiting or queued request, or the first one;
  else the first active alert. It says that all is stable only when there is none of these.
\<close>

theorem priority_panel_spec:
  "priority_body p =
     [case pri_selected p of Some r \<Rightarrow> Sec_timeline r
      | None \<Rightarrow> if pri_paused p then Sec_paused
          else case pri_incident p of Some i \<Rightarrow> Sec_incident i
          | None \<Rightarrow> case pri_shown_request p of Some r \<Rightarrow> Sec_request r
            | None \<Rightarrow> case pri_activeAlerts p of a # _ \<Rightarrow> Sec_alert a | [] \<Rightarrow> Sec_stable] \<and>
   (priority_body p = [Sec_stable] \<longleftrightarrow> \<not> pri_paused p \<and> activeIncidents (pri_incidents p) = [] \<and> pri_requests p = [] \<and>
      activeAlerts (pri_alerts p) = [])"
proof -
  have waiting: "pri_shown_request p \<noteq> None" if "pri_waiting p \<noteq> None" "pri_selected p = None"
    using that by (auto simp: pri_shown_request_def)
  have body: "priority_body p =
     [case pri_selected p of Some r \<Rightarrow> Sec_timeline r
      | None \<Rightarrow> if pri_paused p then Sec_paused
          else case pri_incident p of Some i \<Rightarrow> Sec_incident i
          | None \<Rightarrow> case pri_shown_request p of Some r \<Rightarrow> Sec_request r
            | None \<Rightarrow> case pri_activeAlerts p of a # _ \<Rightarrow> Sec_alert a | [] \<Rightarrow> Sec_stable]"
    using waiting
    by (auto simp: priority_body_def pri_state_def Let_def split: option.splits list.splits)
  have incident: "pri_incident p = None \<longleftrightarrow> activeIncidents (pri_incidents p) = []"
    by (auto simp: pri_incident_def activeIncidents_def find_None_iff filter_empty_conv)
  have alerts: "pri_activeAlerts p = [] \<longleftrightarrow> activeAlerts (pri_alerts p) = []"
    by (simp add: pri_activeAlerts_def activeAlerts_def)
  have request: "pri_shown_request p = None \<longleftrightarrow> pri_requests p = []"
    by (auto simp: pri_shown_request_def pri_selected_def pri_waiting_def split: option.splits list.splits)
  have selected: "pri_selected p = None" if "pri_requests p = []"
    using that by (simp add: pri_selected_def)
  show ?thesis
    unfolding body using incident alerts request selected by (auto split: option.splits list.splits)
qed

end
