(* ===== verification/ListViews.thy ===== *)
theory ListViews
  imports Navigation
begin

text \<open>
  The history and incident views, web/src/views/HistoryView.tsx and IncidentsView.tsx: the
  date filters, the window buttons, the event track, and the detail that an incident opens.
  \<open>parse_date\<close> is the time of \<open>new Date(text)\<close> in milliseconds, \<open>None\<close> for an invalid date;
  \<open>iso_time\<close> is \<open>toISOString\<close>; \<open>offset\<close> is \<open>getTimezoneOffset\<close> in minutes. \<open>toISOString\<close> throws
  a \<open>RangeError\<close> on an invalid date, which is \<open>None\<close> of the result.
\<close>

section \<open>Date filters\<close>

definition localDateTime :: "(string \<Rightarrow> int option) \<Rightarrow> (int \<Rightarrow> string) \<Rightarrow> (int \<Rightarrow> int) \<Rightarrow> string \<Rightarrow> string option" where
  "localDateTime parse_date iso_time offset value =
     (if value = [] then Some []
      else map_option (\<lambda>t. take 16 (iso_time (t - offset t * 60000))) (parse_date value))"

definition apiDateTime :: "(string \<Rightarrow> int option) \<Rightarrow> (int \<Rightarrow> string) \<Rightarrow> string \<Rightarrow> string option" where
  "apiDateTime parse_date iso_time value = (if value = [] then Some [] else map_option iso_time (parse_date value))"

text \<open>Submitting the form: the filters to apply, or the error of an invalid date.\<close>

definition submit_filters :: "(string \<Rightarrow> int option) \<Rightarrow> (int \<Rightarrow> string) \<Rightarrow> ListFilters \<Rightarrow> ListFilters option" where
  "submit_filters parse_date iso_time draft =
     (case (apiDateTime parse_date iso_time (lf_from draft), apiDateTime parse_date iso_time (lf_to draft)) of
        (Some a, Some b) \<Rightarrow> Some (draft\<lparr>lf_from := a, lf_to := b\<rparr>) | _ \<Rightarrow> None)"

definition windowMilliseconds :: "MetricsWindow \<Rightarrow> int" where
  "windowMilliseconds w = (case w of MetricsWindow_15m \<Rightarrow> 15 * 60000 | MetricsWindow_1h \<Rightarrow> 60 * 60000
     | MetricsWindow_6h \<Rightarrow> 6 * 60 * 60000 | MetricsWindow_24h \<Rightarrow> 24 * 60 * 60000)"

definition selectWindow :: "(int \<Rightarrow> string) \<Rightarrow> int \<Rightarrow> ListFilters \<Rightarrow> MetricsWindow \<Rightarrow> MetricsWindow \<times> ListFilters" where
  "selectWindow iso_time now filters value =
     (value, filters\<lparr>lf_from := iso_time (now - windowMilliseconds value), lf_to := []\<rparr>)"

text \<open>The two date fields of the form, which are drawn with the view.\<close>

definition date_fields :: "(string \<Rightarrow> int option) \<Rightarrow> (int \<Rightarrow> string) \<Rightarrow> (int \<Rightarrow> int) \<Rightarrow> ListFilters \<Rightarrow> (string \<times> string) option" where
  "date_fields parse_date iso_time offset draft =
     (case (localDateTime parse_date iso_time offset (lf_from draft), localDateTime parse_date iso_time offset (lf_to draft)) of
        (Some a, Some b) \<Rightarrow> Some (a, b) | _ \<Rightarrow> None)"

section \<open>The event track\<close>

definition event_marker :: "string \<Rightarrow> string" where
  "event_marker code =
     (if js_includes code ''failure'' \<or> js_includes code ''failed'' \<or> js_includes code ''rejected'' then ''failure''
      else if js_includes code ''recover'' \<or> js_includes code ''succeeded'' then ''recovery'' else [])"

definition event_track :: "MonitoringEvent list \<Rightarrow> MonitoringEvent list" where
  "event_track events = rev (slice_last 20 events)"

section \<open>Incident details\<close>

record incidents_view =
  iv_expandedId :: "string option"
  iv_detail :: "IncidentDetail option"
  iv_loadError :: string

definition closed_incidents :: incidents_view where
  "closed_incidents = \<lparr>iv_expandedId = None, iv_detail = None, iv_loadError = []\<rparr>"

definition toggleDetail :: "string \<Rightarrow> incidents_view \<Rightarrow> incidents_view \<times> api_call option" where
  "toggleDetail ident st =
     (if iv_expandedId st = Some ident then (st\<lparr>iv_expandedId := None\<rparr>, None)
      else (st\<lparr>iv_expandedId := Some ident, iv_loadError := []\<rparr>, Some (api_incident ident)))"

definition detail_answered :: "(string \<Rightarrow> string) \<Rightarrow> IncidentDetail js_result \<Rightarrow> incidents_view \<Rightarrow> incidents_view" where
  "detail_answered tr answer st =
     (case answer of
        Inl e \<Rightarrow> st\<lparr>iv_detail := None, iv_loadError := errorMessage tr e ''generic''\<rparr>
      | Inr d \<Rightarrow> st\<lparr>iv_detail := Some d\<rparr>)"

text \<open>The detail shown under an incident: only its own.\<close>

definition shown_detail :: "incidents_view \<Rightarrow> string \<Rightarrow> IncidentDetail option" where
  "shown_detail st ident =
     (if iv_expandedId st = Some ident
      then (case iv_detail st of Some d \<Rightarrow> if inc_id (idet_incident d) = ident then Some d else None | None \<Rightarrow> None)
      else None)"

definition shown_error :: "incidents_view \<Rightarrow> string \<Rightarrow> string option" where
  "shown_error st ident = (if iv_expandedId st = Some ident \<and> iv_loadError st \<noteq> [] then Some (iv_loadError st) else None)"

text \<open>The note that the requests were cut off does not look at whose detail it is.\<close>

definition shown_truncated :: "incidents_view \<Rightarrow> string \<Rightarrow> bool" where
  "shown_truncated st ident \<longleftrightarrow> iv_expandedId st = Some ident \<and> map_option idet_affectedRequestsTruncated (iv_detail st) = Some True"

section \<open>Lemmas\<close>

lemma shown_detail_own: "shown_detail st ident = Some d \<Longrightarrow> iv_expandedId st = Some ident \<and> inc_id (idet_incident d) = ident"
  by (auto simp: shown_detail_def split: if_splits option.splits)

text \<open>An incident opened after one with a long list is marked as cut off until its own detail arrives.\<close>

lemma truncated_note_leaks:
  assumes "a \<noteq> b" "idet_affectedRequestsTruncated d"
  shows "shown_truncated (fst (toggleDetail b (detail_answered tr (Inr d) (fst (toggleDetail a closed_incidents))))) b"
  using assms by (simp add: shown_truncated_def toggleDetail_def closed_incidents_def detail_answered_def)

lemma length_event_track: "length (event_track events) \<le> 20" "set (event_track events) \<subseteq> set events"
  using set_slice_last [of 20 events] by (simp_all add: event_track_def length_slice_last)

text \<open>Submitting what was submitted changes nothing, when dates are read back as they are written.\<close>

lemma submit_idem:
  assumes "\<And>t. parse_date (iso_time t) = Some t" "\<And>t. iso_time t \<noteq> []" "submit_filters parse_date iso_time draft = Some f"
  shows "submit_filters parse_date iso_time f = Some f"
  using assms(3)
  by (auto simp: submit_filters_def apiDateTime_def assms(1,2) split: if_splits option.splits)

section \<open>Properties\<close>

text \<open>
  The date of a filter that comes from the address is used unchecked. An address of
  the history or incident view whose \<open>from\<close> is not a date is read back into the filters as it
  is, and drawing the date fields, as well as submitting the form, then throws; with dates,
  or with none, neither does.
\<close>

theorem bad_date_breaks_view:
  assumes "lf_from f \<noteq> []" "parse_date (lf_from f) = None" "parse_date good \<noteq> None"
  shows "date_fields parse_date iso_time offset (filtersFromHash (viewHash v (Some f)) v) = None \<and>
     submit_filters parse_date iso_time (filtersFromHash (viewHash v (Some f)) v) = None \<and>
     date_fields parse_date iso_time offset (f\<lparr>lf_from := good, lf_to := []\<rparr>) \<noteq> None"
  using assms
  by (auto simp: filtersFromHash_viewHash submit_filters_def apiDateTime_def date_fields_def localDateTime_def)

theorem bad_date_breaks_view_witness:
  "date_fields (\<lambda>s. if s = ''0'' then Some 0 else None) (\<lambda>t. ''1970-01-01T00:00:00.000Z'') (\<lambda>t. 0)
     (filtersFromHash (viewHash View_history (Some \<lparr>lf_q = [], lf_state = [], lf_from = ''soon'', lf_to = []\<rparr>)) View_history) = None"
  using bad_date_breaks_view [of "\<lparr>lf_q = [], lf_state = [], lf_from = ''soon'', lf_to = []\<rparr>" "\<lambda>s. if s = ''0'' then Some 0 else None" "''0''"
      "\<lambda>t. ''1970-01-01T00:00:00.000Z''" "\<lambda>t. 0" View_history]
  by simp

text \<open>
  The answer of an earlier incident is not dropped. Opening one incident and then
  another while the first is still loading leaves, when the first answer comes last, the
  second incident open without the detail that had arrived for it; and when the first load
  fails, its error is shown under the second incident. What is shown as a detail is never
  that of another incident.
\<close>

theorem late_detail_lost:
  assumes "a \<noteq> b" "inc_id (idet_incident da) = a" "inc_id (idet_incident db) = b" "errorMessage tr e ''generic'' \<noteq> []"
  shows "let opened = fst (toggleDetail b (fst (toggleDetail a closed_incidents)));
             loaded = detail_answered tr (Inr db) opened
         in shown_detail loaded b = Some db \<and> shown_detail (detail_answered tr (Inr da) loaded) b = None \<and>
            shown_error (detail_answered tr (Inl e) loaded) b = Some (errorMessage tr e ''generic'') \<and>
            (\<forall>st i d. shown_detail st i = Some d \<longrightarrow> inc_id (idet_incident d) = i)"
proof -
  let ?opened = "fst (toggleDetail b (fst (toggleDetail a closed_incidents)))"
  let ?loaded = "detail_answered tr (Inr db) ?opened"
  have b: "iv_expandedId ?opened = Some b" using assms(1) by (simp add: toggleDetail_def closed_incidents_def)
  have "shown_detail ?loaded b = Some db" using b assms(3) by (simp add: detail_answered_def shown_detail_def)
  moreover have "shown_detail (detail_answered tr (Inr da) ?loaded) b = None"
    using b assms(1,2) by (simp add: detail_answered_def shown_detail_def)
  moreover have "shown_error (detail_answered tr (Inl e) ?loaded) b = Some (errorMessage tr e ''generic'')"
    using b assms(4) by (simp add: detail_answered_def shown_error_def)
  ultimately show ?thesis using shown_detail_own by (simp add: Let_def)
qed

definition sample_detail :: "string \<Rightarrow> IncidentDetail" where
  "sample_detail ident =
     \<lparr>idet_incident = \<lparr>inc_id = ident, inc_state = Incident_state_Open, inc_startedAt = [], inc_lastFailureAt = [],
        inc_recoveryStartedAt = None, inc_resolvedAt = None, inc_affectedRequests = [], inc_failedAttempts = 1,
        inc_categories = [], inc_statusCodes = []\<rparr>,
      idet_requests = [], idet_timeline = [], idet_affectedRequestsTruncated = False\<rparr>"

theorem late_detail_lost_witness:
  "shown_detail (detail_answered (\<lambda>k. []) (Inr (sample_detail ''i1'')) (detail_answered (\<lambda>k. []) (Inr (sample_detail ''i2''))
     (fst (toggleDetail ''i2'' (fst (toggleDetail ''i1'' closed_incidents)))))) ''i2'' = None"
proof -
  have "errorMessage (\<lambda>k. []) (PlainError ''timeout'') ''generic'' \<noteq> []" by (simp add: errorMessage_def)
  from late_detail_lost [OF _ _ _ this, of "''i1''" "''i2''" "sample_detail ''i1''" "sample_detail ''i2''"]
  show ?thesis by (simp add: sample_detail_def Let_def)
qed

end
