(* ===== verification/Appearance.thy ===== *)
theory Appearance
  imports ConfigTypes Reachability
begin

text \<open>
  The look and language of the console: web/src/theme.ts with the selector of
  web/src/components/ThemeSelector.tsx, and the choice of the language in
  web/src/i18n/index.ts. The stored item of the browser is an optional string; \<open>dark\<close> is what
  \<open>matchMedia\<close> says of the system's colours, \<open>None\<close> in a browser without it.
\<close>

section \<open>Theme\<close>

datatype ThemeMode = Mode_system | Mode_light | Mode_dark

datatype ResolvedTheme = Theme_light | Theme_dark

definition mode_text :: "ThemeMode \<Rightarrow> string" where
  "mode_text m = (case m of Mode_system \<Rightarrow> ''system'' | Mode_light \<Rightarrow> ''light'' | Mode_dark \<Rightarrow> ''dark'')"

definition theme_modes :: "ThemeMode list" where
  "theme_modes = [Mode_system, Mode_light, Mode_dark]"

definition storedTheme :: "string option \<Rightarrow> ThemeMode" where
  "storedTheme item = (if item = Some ''light'' then Mode_light else if item = Some ''dark'' then Mode_dark else Mode_system)"

definition systemTheme :: "bool option \<Rightarrow> ResolvedTheme" where
  "systemTheme dark = (if dark = Some True then Theme_dark else Theme_light)"

definition resolveMode :: "bool option \<Rightarrow> ThemeMode \<Rightarrow> ResolvedTheme" where
  "resolveMode dark m = (case m of Mode_system \<Rightarrow> systemTheme dark | Mode_light \<Rightarrow> Theme_light | Mode_dark \<Rightarrow> Theme_dark)"

text \<open>What \<open>applyTheme\<close> writes to the document: its mode, its theme, its colour scheme, and the theme colour.\<close>

record page_theme =
  pt_mode :: ThemeMode
  pt_theme :: ResolvedTheme
  pt_colorScheme :: ResolvedTheme
  pt_color :: string

definition applyTheme :: "bool option \<Rightarrow> ThemeMode \<Rightarrow> page_theme" where
  "applyTheme dark m =
     (let resolved = resolveMode dark m
      in \<lparr>pt_mode = m, pt_theme = resolved, pt_colorScheme = resolved,
          pt_color = (if resolved = Theme_dark then ''#0d100e'' else ''#eef1ed'')\<rparr>)"

record theme_state =
  ts_mode :: ThemeMode
  ts_resolved :: ResolvedTheme
  ts_item :: "string option"
  ts_dark :: "bool option"
  ts_page :: "page_theme option"

text \<open>The first render, and the effect that follows it and every change of the mode.\<close>

definition first_theme :: "string option \<Rightarrow> bool option \<Rightarrow> theme_state" where
  "first_theme item dark =
     \<lparr>ts_mode = storedTheme item, ts_resolved = resolveMode dark (storedTheme item), ts_item = item, ts_dark = dark, ts_page = None\<rparr>"

definition mode_effect :: "theme_state \<Rightarrow> theme_state" where
  "mode_effect st =
     (let page = applyTheme (ts_dark st) (ts_mode st)
      in st\<lparr>ts_page := Some page, ts_resolved := pt_theme page,
            ts_item := (if ts_mode st = Mode_system then None else Some (mode_text (ts_mode st)))\<rparr>)"

definition setMode :: "ThemeMode \<Rightarrow> theme_state \<Rightarrow> theme_state" where
  "setMode m st = (if m = ts_mode st then st else mode_effect (st\<lparr>ts_mode := m\<rparr>))"

definition system_changed :: "bool \<Rightarrow> theme_state \<Rightarrow> theme_state" where
  "system_changed d st =
     (let seen = st\<lparr>ts_dark := Some d\<rparr>
      in if ts_mode st \<noteq> Mode_system then seen
         else let page = applyTheme (Some d) Mode_system in seen\<lparr>ts_page := Some page, ts_resolved := pt_theme page\<rparr>)"

definition next_mode :: "ThemeMode \<Rightarrow> ThemeMode" where
  "next_mode m = (case find (\<lambda>i. theme_modes ! i = m) [0..<length theme_modes] of
      Some i \<Rightarrow> theme_modes ! ((i + 1) mod length theme_modes) | None \<Rightarrow> theme_modes ! 0)"

inductive theme_step :: "theme_state \<Rightarrow> theme_state \<Rightarrow> bool" where
  mode_set: "theme_step st (setMode m st)"
| system: "ts_dark st \<noteq> None \<Longrightarrow> theme_step st (system_changed d st)"

section \<open>Language\<close>

definition ui_locale_text :: "Locale \<Rightarrow> string" where
  "ui_locale_text l = (case l of Locale_ZhCN \<Rightarrow> ''zh-CN'' | Locale_EnUS \<Rightarrow> ''en-US'')"

definition normalizeLocale :: "string option \<Rightarrow> Locale" where
  "normalizeLocale value =
     (case value of None \<Rightarrow> Locale_EnUS | Some v \<Rightarrow> if js_starts_with (js_lower v) ''zh'' then Locale_ZhCN else Locale_EnUS)"

definition initialLocale :: "string option \<Rightarrow> string \<Rightarrow> Locale" where
  "initialLocale item language = normalizeLocale (Some (or_string item language))"

text \<open>The language of the document and the stored item.\<close>

definition applyLocale :: "string \<Rightarrow> string \<times> string option" where
  "applyLocale value = (let text = ui_locale_text (normalizeLocale (Some value)) in (text, Some text))"

section \<open>Lemmas\<close>

lemma stored_mode: "storedTheme (if m = Mode_system then None else Some (mode_text m)) = m"
  by (cases m) (simp_all add: storedTheme_def mode_text_def)

lemma next_mode_cycle: "next_mode Mode_system = Mode_light" "next_mode Mode_light = Mode_dark" "next_mode Mode_dark = Mode_system"
  by (simp_all add: next_mode_def theme_modes_def upt_rec)

lemma normalizeLocale_text: "normalizeLocale (Some (ui_locale_text l)) = l"
  by (cases l) (simp_all add: normalizeLocale_def ui_locale_text_def js_starts_with_def js_lower_def lower_char_def)

text \<open>The choice of a language survives a reload, whatever the browser's own language.\<close>

lemma locale_survives_reload: "initialLocale (snd (applyLocale value)) language = normalizeLocale (Some value)"
proof -
  have "ui_locale_text l \<noteq> []" for l by (cases l) (simp_all add: ui_locale_text_def)
  then show ?thesis by (simp add: initialLocale_def applyLocale_def Let_def normalizeLocale_text)
qed

definition theme_ok :: "theme_state \<Rightarrow> bool" where
  "theme_ok st \<longleftrightarrow> ts_page st = Some (applyTheme (ts_dark st) (ts_mode st)) \<and> ts_resolved st = resolveMode (ts_dark st) (ts_mode st) \<and>
     storedTheme (ts_item st) = ts_mode st"

lemma mode_effect_ok: "theme_ok (mode_effect st)"
  using stored_mode [of "ts_mode st"] by (simp add: theme_ok_def mode_effect_def applyTheme_def Let_def)

lemma theme_step_ok: "theme_step st st' \<Longrightarrow> theme_ok st \<Longrightarrow> theme_ok st'"
proof (induction rule: theme_step.induct)
  case (mode_set st m)
  then show ?case by (simp add: setMode_def mode_effect_ok)
next
  case (system st d)
  then show ?case
    by (cases "ts_mode st") (auto simp: theme_ok_def system_changed_def applyTheme_def resolveMode_def Let_def)
qed

interpretation theme_system: step_system theme_step "\<lambda>st. \<exists>item dark. st = mode_effect (first_theme item dark)" theme_ok
  by unfold_locales (auto intro: mode_effect_ok theme_step_ok)

section \<open>Properties\<close>

text \<open>
  The theme on the page is always the one chosen: whatever modes are chosen and
  however the system's colours change, the document carries the chosen mode with the theme
  it resolves to, and reading the stored item again, as a reload does, gives the same mode
  and the same page.
\<close>

theorem theme_survives_reload:
  assumes "theme_step\<^sup>*\<^sup>* (mode_effect (first_theme item dark)) st"
  shows "ts_page st = Some (applyTheme (ts_dark st) (ts_mode st)) \<and> ts_resolved st = resolveMode (ts_dark st) (ts_mode st) \<and>
     ts_mode (mode_effect (first_theme (ts_item st) (ts_dark st))) = ts_mode st \<and>
     ts_page (mode_effect (first_theme (ts_item st) (ts_dark st))) = ts_page st"
proof -
  have "theme_ok st" using theme_system.inv_reachable [OF assms] by blast
  then show ?thesis by (simp add: theme_ok_def mode_effect_def first_theme_def Let_def)
qed

theorem theme_survives_reload_witness:
  "ts_page (mode_effect (first_theme (ts_item (setMode Mode_dark (mode_effect (first_theme None (Some False))))) (Some False))) =
     Some \<lparr>pt_mode = Mode_dark, pt_theme = Theme_dark, pt_colorScheme = Theme_dark, pt_color = ''#0d100e''\<rparr>"
proof -
  let ?o = "mode_effect (first_theme None (Some False))"
  have run: "theme_step\<^sup>*\<^sup>* ?o (setMode Mode_dark ?o)" by (rule r_into_rtranclp) (rule mode_set)
  have "ts_dark (setMode Mode_dark ?o) = Some False" "ts_mode (setMode Mode_dark ?o) = Mode_dark"
    by (simp_all add: setMode_def mode_effect_def first_theme_def storedTheme_def Let_def)
  with theme_survives_reload [OF run] show ?thesis by (simp add: applyTheme_def resolveMode_def)
qed

end
