(* ===== verification/ShellMarkup.thy ===== *)
theory ShellMarkup
  imports Markup AppState Search Appearance RetryPolicy
begin

text \<open>
  What the frame of the console draws: the components of web/src/components that every view has
  around it. The rail (AppNavigation.tsx with EnvironmentIdentity.tsx, ThemeSelector.tsx and LanguageSelector.tsx),
  the header (WorkspaceHeader.tsx with GlobalSearch.tsx and NotificationPopover.tsx), the inspector
  (InspectorShell.tsx, TimelinePanel.tsx), the confirmation (ConfirmDialog.tsx), the list of alerts
  (AlertsList.tsx) and the error boundary (ViewErrorBoundary.tsx). Callbacks are arguments. Keys of
  translations carry the namespace that the component asks for.
\<close>

section \<open>Small parts\<close>

definition dash :: string where
  "dash = [CHR 0xE2, CHR 0x80, CHR 0x94]"

definition status_mark :: "render_env \<Rightarrow> string \<Rightarrow> 'e node" where
  "status_mark env state = ctag ''span'' (''status '' @ state) [Txt (label_or env (''common:status.'' @ state) state)]"

definition upstreamHost :: "(string \<Rightarrow> string option) \<Rightarrow> string \<Rightarrow> string" where
  "upstreamHost url_host baseUrl = (case url_host baseUrl of Some h \<Rightarrow> h | None \<Rightarrow> if baseUrl = [] then dash else baseUrl)"

definition EnvironmentIdentity :: "render_env \<Rightarrow> (string \<Rightarrow> string option) \<Rightarrow> string \<Rightarrow> RuntimeInfo option \<Rightarrow> bool \<Rightarrow> 'e node" where
  "EnvironmentIdentity env url_host baseUrl runtimeInfo narrow =
     (let target = upstreamHost url_host baseUrl;
          environment = or_string (map_option rinfo_platform runtimeInfo) (label env ''common:environment.local'')
      in El ''div'' [(''className'', AStr (''environment-identity'' @ (if narrow then '' compact'' else []))),
             (''title'', AStr (environment @ dot @ target))] []
           [ctag ''span'' ''environment-icon'' [icon ''ServerCog''],
            ctag ''span'' ''environment-copy''
              [tag ''small'' [Txt (label env ''common:environment.label'')], tag ''strong'' [Txt environment],
               tag ''span'' (tag ''i'' [] # text_of target)]])"

definition LanguageSelector :: "render_env \<Rightarrow> (string \<Rightarrow> 'e) \<Rightarrow> string option \<Rightarrow> bool \<Rightarrow> 'e node" where
  "LanguageSelector env changeLanguage resolvedLanguage narrow =
     ctag ''label'' (''language-selector '' @ (if narrow then ''compact'' else []))
       [icon ''Languages'', ctag ''span'' ''sr-only'' [Txt (label env ''common:language.label'')],
        select_el (ui_locale_text (normalizeLocale resolvedLanguage)) [(''aria-label'', AStr (label env ''common:language.label''))] changeLanguage
          [(''zh-CN'', label env ''common:language.zhCN''), (''en-US'', label env ''common:language.enUS'')]]"

definition theme_icon :: "ThemeMode \<Rightarrow> string" where
  "theme_icon m = (case m of Mode_system \<Rightarrow> ''Monitor'' | Mode_light \<Rightarrow> ''Sun'' | Mode_dark \<Rightarrow> ''Moon'')"

definition ThemeSelector :: "render_env \<Rightarrow> (ThemeMode \<Rightarrow> 'e) \<Rightarrow> ThemeMode \<Rightarrow> bool \<Rightarrow> 'e node" where
  "ThemeSelector env onChange mode narrow =
     (if narrow
      then ctag ''div'' ''theme-selector compact''
        [button ''active'' [(''aria-label'', AStr (label env ''common:theme.label'' @ '': '' @ label env (''common:theme.'' @ mode_text mode))),
            (''data-tooltip'', AStr (label env (''common:theme.'' @ mode_text mode)))]
           (onChange (next_mode mode)) [icon (theme_icon mode)]]
      else El ''div'' [(''className'', AStr ''theme-selector''), (''role'', AStr ''group''), (''aria-label'', AStr (label env ''common:theme.label''))] []
        (map (\<lambda>v. button (if mode = v then ''active'' else [])
             [(''aria-pressed'', ABool (mode = v)), (''aria-label'', AStr (label env (''common:theme.'' @ mode_text v)))]
             (onChange v) [icon (theme_icon v), tag ''span'' [Txt (label env (''common:theme.'' @ mode_text v))]])
           theme_modes))"

definition AlertsList :: "render_env \<Rightarrow> Alert list \<Rightarrow> 'e node" where
  "AlertsList env alerts =
     (if alerts = []
      then ctag ''div'' ''empty-state compact'' [icon ''ShieldCheck'', tag ''span'' [Txt (label env ''overview:alerts.empty'')]]
      else ctag ''div'' ''alert-list''
        (map (\<lambda>alert. ctag ''div'' (''alert-row '' @ (if truthy_string (alert_resolvedAt alert) then ''resolved'' else []))
             [ctag ''span'' ''alert-icon'' [icon ''TriangleAlert''],
              tag ''div'' [tag ''strong'' [Txt (alert_message alert)],
                tag ''span'' (Txt (age_text env (alert_createdAt alert)) #
                  text_of (if truthy_string (alert_resolvedAt alert) then dot @ label env ''overview:alerts.resolved'' else []))]])
           (take 6 alerts)))"

definition ViewErrorBoundary :: "render_env \<Rightarrow> 'e \<Rightarrow> bool \<Rightarrow> 'e node list \<Rightarrow> 'e node list" where
  "ViewErrorBoundary env reload failed children =
     (if \<not> failed then children
      else [El ''section'' [(''className'', AStr ''view-error''), (''role'', AStr ''alert'')] []
        [tag ''h2'' [Txt (label env ''common:viewError.title'')], tag ''p'' [Txt (label env ''common:viewError.description'')],
         button ''button primary'' [] reload [Txt (label env ''common:viewError.reload'')]]])"

section \<open>The rail\<close>

record 'e rail_events =
  rl_theme :: "ThemeMode \<Rightarrow> 'e"
  rl_language :: "string \<Rightarrow> 'e"
  rl_select :: "View \<Rightarrow> 'e"
  rl_collapse :: 'e
  rl_logout :: 'e

definition group_text :: "nav_group \<Rightarrow> string" where
  "group_text g = (case g of Group_monitoring \<Rightarrow> ''monitoring'' | Group_forensics \<Rightarrow> ''forensics'' | Group_maintenance \<Rightarrow> ''maintenance'')"

definition iconForView :: "View \<Rightarrow> string" where
  "iconForView v =
     (case v of View_overview \<Rightarrow> ''Activity'' | View_requests \<Rightarrow> ''Clock3'' | View_incidents \<Rightarrow> ''ShieldAlert'' | View_history \<Rightarrow> ''Archive''
      | View_logs \<Rightarrow> ''ScrollText'' | View_captures \<Rightarrow> ''FileLock2'' | View_diagnostics \<Rightarrow> ''Stethoscope'' | View_settings \<Rightarrow> ''Settings2'')"

definition role_text :: "SessionInfo_role \<Rightarrow> string" where
  "role_text r = (case r of SessionInfo_role_Viewer \<Rightarrow> ''viewer'' | SessionInfo_role_Operator \<Rightarrow> ''operator'' | SessionInfo_role_Sensitive \<Rightarrow> ''sensitive'')"

definition nav_label :: "render_env \<Rightarrow> View \<Rightarrow> string" where
  "nav_label env v = label env (''common:nav.'' @ view_string v)"

definition current_page :: "bool \<Rightarrow> (string \<times> attr) list" where
  "current_page b = (if b then [(''aria-current'', AStr ''page'')] else [])"

definition rail_item :: "render_env \<Rightarrow> (View \<Rightarrow> 'e) \<Rightarrow> bool \<Rightarrow> View \<Rightarrow> View \<Rightarrow> 'e node" where
  "rail_item env onSelect collapsed view itemView =
     button (if view = itemView then ''active'' else [])
       ([(''aria-label'', AStr (nav_label env itemView)), (''title'', AStr (nav_label env itemView))] @ current_page (view = itemView) @
        (if collapsed then [(''data-tooltip'', AStr (nav_label env itemView))] else []))
       (onSelect itemView) [icon (iconForView itemView), ctag ''span'' ''rail-label'' [Txt (nav_label env itemView)]]"

definition AppNavigation ::
  "render_env \<Rightarrow> (string \<Rightarrow> string option) \<Rightarrow> 'e rail_events \<Rightarrow> View \<Rightarrow> bool \<Rightarrow> SessionInfo \<Rightarrow> string \<Rightarrow> RuntimeInfo option \<Rightarrow> ThemeMode \<Rightarrow> string option
     \<Rightarrow> 'e node" where
  "AppNavigation env url_host ev view collapsed session baseUrl runtimeInfo themeMode language =
     ctag ''div'' ''app-rail-container''
       [El ''aside'' [(''className'', AStr ''app-rail''), (''aria-label'', AStr (label env ''common:brandSubtitle''))] []
         [button ''rail-identity'' [(''aria-label'', AStr ''Relay-Lifeline'')] (rl_select ev View_overview)
            [ctag ''span'' ''rail-brand'' [icon ''HeartPulse''],
             ctag ''span'' ''rail-copy'' [tag ''strong'' [Txt ''Relay-Lifeline''], tag ''small'' [Txt (label env ''common:brandSubtitle'')]]],
          tag ''nav''
            (map (\<lambda>(group, items). El ''section'' [(''className'', AStr ''rail-group''), (''aria-labelledby'', AStr (''rail-'' @ group_text group))] []
                (El ''h2'' [(''id'', AStr (''rail-'' @ group_text group))] [] [Txt (label env (''common:navGroups.'' @ group_text group))] #
                 map (rail_item env (rl_select ev) collapsed view) items))
              (rail_sections (SessionInfo_capabilities_Operate \<in> set (si_capabilities session)))),
          ctag ''div'' ''rail-footer''
            [EnvironmentIdentity env url_host baseUrl runtimeInfo collapsed,
             ctag ''div'' ''rail-user''
               [tag ''span'' [icon ''UserRound''],
                ctag ''div'' ''rail-label'' [tag ''strong'' [Txt (label env (''common:roles.'' @ role_text (si_role session)))],
                  tag ''small'' [Txt (label env ''common:account.session'')]]],
             ctag ''div'' ''rail-utilities''
               [ThemeSelector env (rl_theme ev) themeMode True, LanguageSelector env (rl_language ev) language True,
                button ''rail-action'' [(''aria-label'', AStr (label env ''common:actions.logout'')), (''data-tooltip'', AStr (label env ''common:actions.logout''))]
                  (rl_logout ev) [icon ''LogOut'']],
             button ''rail-collapse''
               [(''aria-label'', AStr (if collapsed then label env ''common:actions.expandNav'' else label env ''common:actions.collapseNav''))]
               (rl_collapse ev)
               [icon (if collapsed then ''PanelLeftOpen'' else ''PanelLeftClose''), ctag ''span'' ''rail-label'' [Txt (label env ''common:actions.collapseNav'')]]]]]"

section \<open>The header\<close>

definition key_of :: "string \<Rightarrow> search_key" where
  "key_of k = (if k = ''ArrowDown'' then Key_arrow_down else if k = ''ArrowUp'' then Key_arrow_up else if k = ''Enter'' then Key_enter else Key_other)"

definition kind_text :: "search_kind \<Rightarrow> string" where
  "kind_text k =
     (case k of Find_request \<Rightarrow> ''request'' | Find_history \<Rightarrow> ''history'' | Find_incident \<Rightarrow> ''incident'' | Find_alert \<Rightarrow> ''alert''
      | Find_log \<Rightarrow> ''log'' | Find_capture \<Rightarrow> ''capture'' | Find_upstream \<Rightarrow> ''upstream'')"

definition kind_icon :: "search_kind \<Rightarrow> string" where
  "kind_icon k =
     (case k of Find_request \<Rightarrow> ''Clock3'' | Find_history \<Rightarrow> ''Archive'' | Find_log \<Rightarrow> ''ScrollText'' | Find_capture \<Rightarrow> ''FileLock2''
      | Find_upstream \<Rightarrow> ''Server'' | _ \<Rightarrow> ''ShieldAlert'')"

record 'e search_events =
  se_focus :: 'e
  se_change :: "string \<Rightarrow> 'e"
  se_key :: "search_key \<Rightarrow> 'e"
  se_clear :: 'e
  se_hover :: "nat \<Rightarrow> 'e"
  se_choose :: "SearchResult \<Rightarrow> 'e"

definition search_option :: "render_env \<Rightarrow> 'e search_events \<Rightarrow> search_box \<Rightarrow> nat \<times> SearchResult \<Rightarrow> 'e node" where
  "search_option env ev b = (\<lambda>(index, r).
     El ''button'' [(''id'', AStr (''global-search-option-'' @ nat_string index)), (''role'', AStr ''option''),
         (''aria-selected'', ABool (sb_activeIndex b = int index))]
       [(''onMouseEnter'', \<lambda>_. se_hover ev index), (''onClick'', \<lambda>_. se_choose ev r)]
       [tag ''span'' [icon (kind_icon (sres_kind r))],
        tag ''div'' [tag ''strong'' (text_of (sres_title r)),
          tag ''small'' ([Txt (label env (''common:search.kind.'' @ kind_text (sres_kind r))), Txt dot] @ text_of (sres_detail r))]])"

definition GlobalSearch :: "render_env \<Rightarrow> 'e search_events \<Rightarrow> SearchResult list \<Rightarrow> search_box \<Rightarrow> 'e node" where
  "GlobalSearch env ev results b =
     (let normalized = normalize_query (sb_query b)
      in El ''div'' [(''className'', AStr (''global-search'' @ (if sb_mobileOpen b then '' mobile-open'' else []))), (''role'', AStr ''search'')] []
        ([icon ''Search'',
          El ''input'' ([(''type'', AStr ''search''), (''value'', AStr (sb_query b)), (''aria-expanded'', ABool (sb_open b \<and> normalized \<noteq> [])),
              (''aria-controls'', AStr ''global-search-results'')] @
              (if sb_activeIndex b \<ge> 0 then [(''aria-activedescendant'', AStr (''global-search-option-'' @ int_string (sb_activeIndex b)))] else []) @
              [(''role'', AStr ''combobox''), (''aria-autocomplete'', AStr ''list''), (''aria-label'', AStr (label env ''common:search.label'')),
               (''placeholder'', AStr (label env ''common:search.placeholder''))])
            [(''onFocus'', \<lambda>_. se_focus ev), (''onChange'', se_change ev), (''onKeyDown'', \<lambda>k. se_key ev (key_of k))] [],
          (if sb_query b \<noteq> [] then button ''search-clear'' [(''aria-label'', AStr (label env ''common:search.clear''))] (se_clear ev) [icon ''X'']
           else tag ''kbd'' [Txt ([CHR 0xE2, CHR 0x8C, CHR 0x98] @ ''K'')])] @
         when_shown (sb_open b \<and> normalized \<noteq> [])
           [El ''div'' [(''className'', AStr ''search-results''), (''id'', AStr ''global-search-results''), (''role'', AStr ''listbox''),
               (''aria-label'', AStr (label env ''common:search.results''))] []
             ([tag ''header'' [tag ''span'' [Txt (label env ''common:search.results'')], tag ''b'' [Txt (nat_string (length results))]]] @
              map (search_option env ev b) (enumerate 0 results) @
              when_shown (results = []) [tag ''p'' [Txt (label env ''common:search.empty'')]])]))"

record 'e bell_events =
  bl_toggle :: 'e
  bl_incident :: "Incident \<Rightarrow> 'e"
  bl_alert :: "Alert \<Rightarrow> 'e"

definition notice_button :: "string \<Rightarrow> string \<Rightarrow> 'e \<Rightarrow> string \<Rightarrow> string \<Rightarrow> 'e node" where
  "notice_button c name e title small =
     El ''button'' [] [(''onClick'', \<lambda>_. e)]
       [ctag ''span'' c [icon name], tag ''div'' [tag ''strong'' [Txt title], tag ''small'' [Txt small]], icon ''ChevronRight'']"

definition NotificationPopover :: "render_env \<Rightarrow> 'e bell_events \<Rightarrow> Alert list \<Rightarrow> Incident list \<Rightarrow> bool \<Rightarrow> 'e node" where
  "NotificationPopover env ev alerts incidents isopen =
     (let count = notification_count alerts incidents
      in ctag ''div'' ''notification-center''
        ([button ''icon-button notification-trigger''
            [(''aria-label'', AStr (label env ''common:notifications.label'')), (''aria-expanded'', ABool isopen), (''aria-controls'', AStr ''notification-popover'')]
            (bl_toggle ev) (icon ''Bell'' # (case notification_badge count of None \<Rightarrow> [] | Some s \<Rightarrow> [tag ''span'' [Txt s]]))] @
         when_shown isopen
           [El ''div'' [(''className'', AStr ''notification-popover''), (''id'', AStr ''notification-popover''), (''role'', AStr ''dialog''),
               (''aria-modal'', ABool True), (''aria-label'', AStr (label env ''common:notifications.title'')), (''tabIndex'', AInt (- 1))] []
             [tag ''header'' [tag ''div'' [tag ''strong'' [Txt (label env ''common:notifications.title'')],
                  tag ''span'' [Txt (label_with env ''common:notifications.active'' [(''count'', nat_string count)])]],
                ctag ''i'' (if count \<noteq> 0 then ''attention'' else []) []],
              ctag ''div'' ''notification-list''
                (map (\<lambda>incident. notice_button ''notification-icon incident'' ''ShieldAlert'' (bl_incident ev incident)
                     (label env ''common:notifications.incident'') (inc_id incident @ dot @ age_text env (inc_lastFailureAt incident)))
                   (activeIncidents incidents) @
                 map (\<lambda>alert. notice_button ''notification-icon'' ''TriangleAlert'' (bl_alert ev alert)
                     (alert_message alert) (age_text env (alert_createdAt alert)))
                   (activeAlerts alerts) @
                 when_shown (count = 0)
                   [ctag ''div'' ''notification-empty'' [icon ''Bell'', tag ''p'' [Txt (label env ''common:notifications.empty'')]]])]]))"

record 'e header_events =
  hd_search :: "'e search_events"
  hd_bell :: "'e bell_events"
  hd_window :: "MetricsWindow \<Rightarrow> 'e"
  hd_refresh :: 'e
  hd_pause :: 'e
  hd_drain :: 'e
  hd_maintenance :: 'e
  hd_tools :: 'e

definition metric_windows :: "MetricsWindow list" where
  "metric_windows = [MetricsWindow_15m, MetricsWindow_1h, MetricsWindow_6h, MetricsWindow_24h]"

definition window_control :: "string \<Rightarrow> string \<Rightarrow> (MetricsWindow \<Rightarrow> string) \<Rightarrow> (MetricsWindow \<Rightarrow> 'e) \<Rightarrow> MetricsWindow \<Rightarrow> 'e node" where
  "window_control c name text onSelect selected =
     El ''div'' [(''className'', AStr c), (''role'', AStr ''group''), (''aria-label'', AStr name)] []
       (map (\<lambda>w. button (if selected = w then ''active'' else []) [(''aria-pressed'', ABool (selected = w))] (onSelect w) [Txt (text w)]) metric_windows)"

definition upstream_state_text :: "Status_upstream_state \<Rightarrow> string" where
  "upstream_state_text s =
     (case s of Status_upstream_state_Unknown \<Rightarrow> ''unknown'' | Status_upstream_state_Healthy \<Rightarrow> ''healthy'' | Status_upstream_state_Degraded \<Rightarrow> ''degraded'')"

definition upstreamLabel :: "Status_upstream_state \<Rightarrow> string" where
  "upstreamLabel s = (if s = Status_upstream_state_Healthy then ''upstreamHealthy'' else if s = Status_upstream_state_Degraded then ''upstreamDegraded''
     else ''upstreamUnknown'')"

definition connection :: "string \<Rightarrow> string \<Rightarrow> 'e node" where
  "connection c text = ctag ''span'' (''connection'' @ c) [tag ''i'' [], Txt text]"

definition control_actions :: "render_env \<Rightarrow> 'e header_events \<Rightarrow> bool \<Rightarrow> Status \<Rightarrow> 'e node list" where
  "control_actions env ev operate status =
     (let act = (if stat_paused status then label env ''common:actions.resume'' else label env ''common:actions.pause'')
      in when_shown operate
        (if stat_mode status = ''draining'' \<or> stat_mode status = ''maintenance''
         then [button ''button primary pause-action'' [] (hd_pause ev) [icon ''CirclePlay'', tag ''span'' [Txt (label env ''common:actions.resume'')]]]
         else [button (''button pause-action '' @ (if stat_paused status then ''primary'' else [])) [(''aria-label'', AStr act)] (hd_pause ev)
                 [icon (if stat_paused status then ''CirclePlay'' else ''CirclePause''), tag ''span'' [Txt act]],
               button ''button control-mode-action'' [] (hd_drain ev) [icon ''CircleStop'', tag ''span'' [Txt (label env ''common:actions.drain'')]],
               button ''icon-button control-mode-action''
                 [(''aria-label'', AStr (label env ''common:actions.maintenance'')), (''data-tooltip'', AStr (label env ''common:actions.maintenance''))]
                 (hd_maintenance ev) [icon ''Wrench'']]))"

record header_data =
  hx_view :: View
  hx_status :: Status
  hx_health :: "HealthSummary option"
  hx_role :: SessionInfo_role
  hx_alerts :: "Alert list"
  hx_incidents :: "Incident list"
  hx_window :: MetricsWindow
  hx_canOperate :: bool
  hx_tools :: bool
  hx_results :: "SearchResult list"
  hx_box :: search_box
  hx_bell :: bool

definition WorkspaceHeader :: "render_env \<Rightarrow> 'e header_events \<Rightarrow> header_data \<Rightarrow> 'e node" where
  "WorkspaceHeader env ev d =
     (let view = hx_view d; status = hx_status d; state = stat_upstream_state (stat_upstream status)
      in ctag ''header'' ''workspace-header''
        [ctag ''div'' ''mobile-topbar'' [ctag ''span'' ''rail-brand'' [icon ''HeartPulse''],
           tag ''div'' [tag ''strong'' [Txt ''Relay-Lifeline''], tag ''span'' [Txt (nav_label env view)]]],
         ctag ''div'' ''desktop-heading''
           [ctag ''span'' ''workspace-eyebrow'' [Txt ''Relay-Lifeline / '', Txt (nav_label env view)],
            ctag ''div'' ''workspace-title-row''
              [tag ''h1'' [Txt (label env (''common:title.'' @ view_string view))],
               ctag ''div'' ''health-row''
                 ([connection [] (label env ''common:status.gatewayOnline''),
                   connection ('' upstream-'' @ upstream_state_text state) (label env (''common:status.'' @ upstreamLabel state))] @
                  (case hx_health d of None \<Rightarrow> []
                   | Some h \<Rightarrow> [connection ('' health-'' @ hs_overall h) (label_or env (''common:health.'' @ hs_overall h) (hs_overall h))]) @
                  [ctag ''span'' ''mode'' [Txt (label env (''common:roles.'' @ role_text (hx_role d)))]])]],
         GlobalSearch env (hd_search ev) (hx_results d) (hx_box d),
         ctag ''div'' ''header-actions''
           (when_shown (view = View_overview \<or> view = View_history)
              [window_control ''header-window segmented-control'' (label env ''overview:charts.window'') window_string (hd_window ev) (hx_window d)] @
            [NotificationPopover env (hd_bell ev) (hx_alerts d) (hx_incidents d) (hx_bell d),
             El ''button'' [(''id'', AStr ''mobile-tools-trigger''), (''className'', AStr ''icon-button mobile-tools-toggle''),
                 (''aria-label'', AStr (label env ''common:tools'')), (''aria-expanded'', ABool (hx_tools d)), (''aria-controls'', AStr ''mobile-tools-panel''),
                 (''data-tooltip'', AStr (label env ''common:tools''))] [(''onClick'', \<lambda>_. hd_tools ev)] [icon ''Menu''],
             button ''icon-button header-refresh'' (tooltip (label env ''common:actions.refresh'')) (hd_refresh ev) [icon ''RefreshCw'']] @
            control_actions env ev (hx_canOperate d) status)])"

section \<open>The inspector and the confirmation\<close>

text \<open>A title that is a plain text is also the label of the inspector.\<close>

fun title_label :: "'e node list \<Rightarrow> (string \<times> attr) list" where
  "title_label [Txt s] = [(''aria-label'', AStr s)]"
| "title_label _ = []"

definition InspectorShell ::
  "render_env \<Rightarrow> 'e option \<Rightarrow> 'e node list \<Rightarrow> 'e node list \<Rightarrow> 'e node list \<Rightarrow> 'e node list \<Rightarrow> 'e node list \<Rightarrow> bool \<Rightarrow> bool \<Rightarrow> string \<Rightarrow> 'e node list" where
  "InspectorShell env onClose title subtitle status children footer wide modal className =
     (case onClose of
        Some e \<Rightarrow> when_shown modal [button ''inspector-backdrop'' [(''aria-label'', AStr (label env ''common:actions.close''))] e []]
      | None \<Rightarrow> []) @
     [El ''aside''
       ([(''className'', AStr (''inspector-shell'' @ (if wide then '' inspector-wide'' else []) @
            (if modal then '' inspector-modal'' else '' inspector-persistent'') @ '' '' @ className)),
         (''role'', AStr (if modal then ''dialog'' else ''complementary''))] @
        (if modal then [(''aria-modal'', ABool True)] else []) @ title_label title) []
       ([ctag ''header'' ''inspector-header''
          (tag ''div'' (status @ when_shown (subtitle \<noteq> []) [tag ''span'' subtitle] @ [tag ''h2'' title]) #
           (case onClose of Some e \<Rightarrow> [button ''icon-button'' [(''aria-label'', AStr (label env ''common:actions.close''))] e [icon ''X'']] | None \<Rightarrow> [])),
         ctag ''div'' ''inspector-body'' children] @
        when_shown (footer \<noteq> []) [ctag ''footer'' ''inspector-actions'' footer])]"

definition EventIcon :: "string \<Rightarrow> string" where
  "EventIcon type =
     (if type = ''completed'' then ''CheckCircle2''
      else if type = ''attempt_failed'' \<or> type = ''delivery_failed'' then ''XCircle''
      else if type = ''waiting'' then ''Clock3''
      else if type = ''retry_resumed'' \<or> type = ''retry_requested'' then ''RotateCcw''
      else if type \<in> set [''retry_rescheduled'', ''retry_policy_updated'', ''retry_policy_activated'', ''retry_policy_reset''] then ''Settings2''
      else if type = ''retry_attempts_exhausted'' \<or> type = ''retry_window_expired'' then ''ShieldAlert''
      else if type = ''risk_warning'' then ''ShieldAlert''
      else if type = ''canceled'' \<or> type = ''cancel_requested'' then ''Ban''
      else if type = ''attempt_started'' then ''Send'' else ''Inbox'')"

definition EventMeta :: "render_env \<Rightarrow> TimelineEvent \<Rightarrow> 'e node list" where
  "EventMeta env event =
     (let details = join_with dot (filter (\<lambda>s. s \<noteq> [])
            [if or_int (te_attempt event) 0 \<noteq> 0 then label_with env ''common:time.attempt'' [(''count'', int_string (or_int (te_attempt event) 0))] else [],
             if or_int (te_statusCode event) 0 \<noteq> 0 then label_with env ''common:httpError'' [(''status'', int_string (or_int (te_statusCode event) 0))] else []])
      in when_shown (details \<noteq> []) [tag ''span'' [Txt details]] @
         when_shown (or_int (te_waitMilliseconds event) 0 \<noteq> 0)
           [tag ''span'' [Txt (label_with env ''common:time.waitSeconds''
              [(''count'', int_string (js_round (of_int (or_int (te_waitMilliseconds event) 0) / 1000)))])]])"

definition detail_entry :: "render_env \<Rightarrow> string \<Rightarrow> string option \<Rightarrow> (string \<times> string) list" where
  "detail_entry env key v = (if truthy_string v then [(label env (''requests:errorDetail.'' @ key), nullish v [])] else [])"

definition error_metadata :: "render_env \<Rightarrow> ErrorDetail \<Rightarrow> (string \<times> string) list" where
  "error_metadata env d =
     detail_entry env ''type'' (ed_type d) @ detail_entry env ''code'' (ed_code d) @ detail_entry env ''requestId'' (ed_upstreamRequestId d) @
     detail_entry env ''retryAfter'' (ed_retryAfter d) @
     (case ed_responseBytes d of Some n \<Rightarrow> [(label env ''requests:errorDetail.responseBytes'', formatBytes n)] | None \<Rightarrow> [])"

definition SafeErrorDetail :: "render_env \<Rightarrow> ErrorDetail \<Rightarrow> 'e node" where
  "SafeErrorDetail env d =
     ctag ''div'' ''safe-error-detail''
       ([tag ''strong'' [Txt (label env ''requests:errorDetail.title'')],
         tag ''p'' [Txt (if ed_parsed d then or_string (ed_message d) (label env ''requests:errorDetail.structured'') else label env ''requests:errorDetail.unparsed'')]] @
        when_shown (error_metadata env d \<noteq> [])
          [tag ''dl'' (map (\<lambda>(name, v). tag ''div'' [tag ''dt'' [Txt name], tag ''dd'' [Txt v]]) (error_metadata env d))])"

definition named_value :: "render_env \<Rightarrow> string \<Rightarrow> string \<Rightarrow> 'e node" where
  "named_value env key v = tag ''span'' [Txt (label env key), Txt '' '', tag ''strong'' [Txt v]]"

definition TimelinePanel :: "render_env \<Rightarrow> 'e \<Rightarrow> HistoryRecord \<Rightarrow> 'e node list" where
  "TimelinePanel env onClose r =
     InspectorShell env (Some onClose) [Txt (hr_method r @ '' '' @ hr_path r)] (text_of (hr_id r)) [status_mark env (hr_state r)]
       ([ctag ''div'' ''timeline-summary''
           ([named_value env ''requests:timeline.attempts'' (int_string (hr_attempt r)),
             named_value env ''requests:timeline.duration'' (duration_text env (hr_startedAt r) (hr_completedAt r))] @
            when_shown (truthy_string (hr_taskId r)) [named_value env ''requests:identity.task'' (nullish (hr_taskId r) [])] @
            when_shown (truthy_string (hr_clientId r)) [named_value env ''requests:identity.client'' (nullish (hr_clientId r) [])])] @
        when_shown (hr_eventsTruncated r = Some True)
          [El ''div'' [(''className'', AStr ''warning-banner page-banner''), (''role'', AStr ''status'')] []
             [Txt (label_with env ''requests:timeline.truncated'' [(''count'', int_string (or_int (hr_droppedEvents r) 0))])]] @
        [ctag ''div'' ''timeline-list''
           (map (\<lambda>event. ctag ''div'' (''timeline-event '' @ te_type event)
                [ctag ''span'' ''event-icon'' [icon (EventIcon (te_type event))],
                 tag ''div'' ([ctag ''div'' ''event-heading'' [tag ''strong'' (text_of (te_message event)), tag ''time'' [Txt (time_text env (te_time event))]],
                     ctag ''div'' ''event-meta'' (EventMeta env event)] @
                   (case te_errorDetail event of Some d \<Rightarrow> [SafeErrorDetail env d] | None \<Rightarrow> []))])
              (hr_events r))])
       [] False True ''timeline-inspector''"

definition ConfirmDialog :: "render_env \<Rightarrow> (bool \<Rightarrow> 'e) \<Rightarrow> ConfirmDialogState \<Rightarrow> 'e node" where
  "ConfirmDialog env onAnswer d =
     (let danger = cd_tone d = Some Tone_danger
      in El ''div'' [(''className'', AStr ''confirm-backdrop''), (''role'', AStr ''presentation'')] [(''onMouseDown'', \<lambda>_. onAnswer False)]
        [El ''div'' [(''className'', AStr (''confirm-dialog tone-'' @ (if danger then ''danger'' else ''default''))), (''role'', AStr ''alertdialog''),
            (''aria-modal'', ABool True), (''aria-labelledby'', AStr ''confirm-title''), (''aria-describedby'', AStr ''confirm-description'')] []
          [ctag ''span'' ''confirm-icon'' [icon (if danger then ''AlertTriangle'' else ''ShieldCheck'')],
           tag ''div'' [El ''h2'' [(''id'', AStr ''confirm-title'')] [] (text_of (cd_title d)),
             El ''p'' [(''id'', AStr ''confirm-description'')] [] (text_of (cd_description d))],
           tag ''footer'' [button ''button'' [] (onAnswer False) [Txt (label env ''common:actions.cancelDialog'')],
             button (''button '' @ (if danger then ''danger'' else ''primary'')) [] (onAnswer True)
               [Txt (or_string (cd_confirmLabel d) (label env ''common:actions.confirm''))]]]])"

section \<open>What the frame offers\<close>

lemma small_offered [simp]:
  "offered (status_mark env state) = {}"
  "offered (EnvironmentIdentity env url_host baseUrl runtimeInfo narrow) = {}"
  "offered (LanguageSelector env changeLanguage language narrow) = range changeLanguage"
  "offered (AlertsList env alerts) = {}"
  "offered_all (ViewErrorBoundary env reload failed children) = (if failed then {reload} else offered_all children)"
  by (simp_all add: status_mark_def EnvironmentIdentity_def LanguageSelector_def AlertsList_def ViewErrorBoundary_def Let_def)

lemma theme_offered: "offered (ThemeSelector env onChange mode narrow) \<subseteq> range onChange"
  by (auto simp: ThemeSelector_def)

declare is_disabled_append [simp]

lemma rail_item_offered [simp]: "offered (rail_item env onSelect collapsed view item) = {onSelect item}"
  by (simp add: rail_item_def current_page_def)

lemma rail_views: "(\<Union>s \<in> set (rail_sections operate). set (snd s)) = {v. operate \<or> v \<noteq> View_settings}"
proof -
  have "v = View_overview \<or> v = View_requests \<or> v = View_history \<or> v = View_incidents \<or> v = View_logs \<or> v = View_captures \<or>
      v = View_diagnostics \<or> v = View_settings" for v by (cases v) simp_all
  then show ?thesis by (cases operate) (auto simp: rail_sections_def navigation_def)
qed

lemma rail_offered:
  "offered (AppNavigation env url_host ev view collapsed session baseUrl runtimeInfo themeMode language) \<subseteq>
     range (rl_theme ev) \<union> range (rl_language ev) \<union> {rl_collapse ev, rl_logout ev} \<union>
     rl_select ev ` {v. SessionInfo_capabilities_Operate \<in> set (si_capabilities session) \<or> v \<noteq> View_settings}"
proof -
  let ?may = "SessionInfo_capabilities_Operate \<in> set (si_capabilities session)"
  have "(\<Union>s \<in> set (rail_sections ?may). rl_select ev ` set (snd s)) = rl_select ev ` {v. ?may \<or> v \<noteq> View_settings}"
    by (simp add: rail_views flip: image_UN)
  moreover have "rl_select ev View_overview \<in> rl_select ev ` {v. ?may \<or> v \<noteq> View_settings}" by simp
  moreover have "offered (AppNavigation env url_host ev view collapsed session baseUrl runtimeInfo themeMode language) =
      insert (rl_select ev View_overview) ((\<Union>s \<in> set (rail_sections ?may). rl_select ev ` set (snd s)) \<union>
        offered (ThemeSelector env (rl_theme ev) themeMode True) \<union> range (rl_language ev) \<union> {rl_logout ev, rl_collapse ev})"
    by (auto simp: AppNavigation_def split_beta)
  ultimately show ?thesis using theme_offered [of env "rl_theme ev" themeMode True] by auto
qed

lemma search_offered:
  "offered (GlobalSearch env ev results b) \<subseteq> {se_focus ev, se_clear ev} \<union> range (se_change ev) \<union> range (se_key ev) \<union> range (se_hover ev) \<union>
     se_choose ev ` set results"
  by (auto simp: GlobalSearch_def Let_def search_option_def in_set_enumerate_eq split: if_splits)

lemma bell_offered:
  "offered (NotificationPopover env ev alerts incidents isopen) \<subseteq>
     insert (bl_toggle ev) (bl_incident ev ` set (activeIncidents incidents) \<union> bl_alert ev ` set (activeAlerts alerts))"
  by (auto simp: NotificationPopover_def Let_def notice_button_def split: option.splits if_splits)

lemma window_offered [simp]: "offered (window_control c name text onSelect selected) = range onSelect"
proof -
  have "UNIV = set metric_windows" by (auto simp: metric_windows_def intro: MetricsWindow.exhaust)
  then show ?thesis by (auto simp: window_control_def)
qed

lemma header_offered:
  "offered (WorkspaceHeader env ev d) \<subseteq>
     offered (GlobalSearch env (hd_search ev) (hx_results d) (hx_box d)) \<union>
     offered (NotificationPopover env (hd_bell ev) (hx_alerts d) (hx_incidents d) (hx_bell d)) \<union>
     range (hd_window ev) \<union> {hd_refresh ev, hd_tools ev} \<union> (if hx_canOperate d then {hd_pause ev, hd_drain ev, hd_maintenance ev} else {})"
  by (auto simp: WorkspaceHeader_def Let_def connection_def control_actions_def split: option.splits if_splits)

lemma shell_offered:
  "offered_all (InspectorShell env onClose title subtitle status children footer wide modal c) =
     set_option onClose \<union> offered_all title \<union> offered_all subtitle \<union> offered_all status \<union> offered_all children \<union> offered_all footer"
  by (cases onClose) (auto simp: InspectorShell_def)

lemma timeline_part_offered [simp]:
  "offered_all (EventMeta env event) = {}" "offered (SafeErrorDetail env d) = {}" "offered (named_value env key v) = {}"
  by (simp_all add: EventMeta_def SafeErrorDetail_def named_value_def Let_def split_beta)

lemma timeline_offered [simp]: "offered_all (TimelinePanel env onClose r) = {onClose}"
  by (auto simp: TimelinePanel_def shell_offered split: option.splits)

lemma confirm_offered [simp]: "offered (ConfirmDialog env onAnswer d) = range onAnswer"
  by (auto simp: ConfirmDialog_def Let_def UNIV_bool)

end
