(* ===== verification/ChartsMarkup.thy ===== *)
theory ChartsMarkup
  imports Markup Charts
begin

text \<open>
  What web/src/components/OperationsCharts.tsx draws around its canvases: the card of the reliability
  chart, the deck of the other three with its tabs, and the tables that are read out in their
  place. \<open>percent\<close> is the number formatter of the locale.
\<close>

datatype chart_effect = CH_secondary ChartKey | CH_toggle expansion | CH_collapse

definition chart_apply :: "chart_effect \<Rightarrow> chart_deck \<Rightarrow> chart_deck" where
  "chart_apply e d =
     (case e of CH_secondary key \<Rightarrow> select_secondary key d | CH_toggle x \<Rightarrow> toggle_expanded x d | CH_collapse \<Rightarrow> d\<lparr>dk_expanded := Expand_none\<rparr>)"

definition chart_title :: "OperationsChartLabels \<Rightarrow> ChartKey \<Rightarrow> string" where
  "chart_title labels key =
     (case key of Chart_reliability \<Rightarrow> ocl_reliabilityTitle labels | Chart_pressure \<Rightarrow> ocl_pressureTitle labels
      | Chart_errors \<Rightarrow> ocl_errorsTitle labels | Chart_recovery \<Rightarrow> ocl_recoveryTitle labels)"

fun table_cells :: "string list \<Rightarrow> 'e node list" where
  "table_cells [] = []"
| "table_cells (x # xs) = tag ''th'' [Txt x] # map (\<lambda>v. tag ''td'' [Txt v]) xs"

definition chart_table :: "string \<Rightarrow> string list \<Rightarrow> string list list \<Rightarrow> 'e node" where
  "chart_table caption names rows =
     tag ''table'' [tag ''caption'' [Txt caption], tag ''thead'' [tag ''tr'' (map (\<lambda>n. tag ''th'' [Txt n]) names)],
       tag ''tbody'' (map (\<lambda>cells. tag ''tr'' (table_cells cells)) rows)]"

definition accessible_content ::
  "render_env \<Rightarrow> (js_num \<Rightarrow> string) \<Rightarrow> OperationsChartLabels \<Rightarrow> OperationsChartsProps \<Rightarrow> ChartKey \<Rightarrow> 'e node" where
  "accessible_content env percent labels p key =
     (let time = formatTimeLabel (en_ms_of env) (\<lambda>ms. en_clock env (en_locale env) (Some ms))
      in case key of
        Chart_reliability \<Rightarrow> chart_table (ocl_reliabilityTitle labels)
          [ocl_duration labels, ocl_requests labels, ocl_successRate labels, ocl_failedAttempts labels]
          (accessible_reliability time percent (en_number env) (ocp_reliability p))
      | Chart_pressure \<Rightarrow> chart_table (ocl_pressureTitle labels)
          [ocl_duration labels, ocl_requesting labels, ocl_waiting labels, ocl_queued labels]
          (accessible_pressure time (en_number env) (ocp_pressure p))
      | Chart_errors \<Rightarrow> chart_table (ocl_errorsTitle labels) [ocl_errorsTitle labels, ocl_failedAttempts labels]
          (accessible_errors (en_number env) (ocp_errors p))
      | Chart_recovery \<Rightarrow> chart_table (ocl_recoveryTitle labels) [ocl_duration labels, ocl_requests labels]
          (accessible_recovery (en_number env) (ocp_recovery p)))"

definition dialog_attrs :: "bool \<Rightarrow> string \<Rightarrow> (string \<times> attr) list" where
  "dialog_attrs expanded title =
     (if expanded then [(''role'', AStr ''dialog''), (''aria-modal'', ABool True), (''aria-label'', AStr title), (''tabIndex'', AInt (- 1))] else [])"

definition ChartCard ::
  "ChartKey \<Rightarrow> string \<Rightarrow> bool \<Rightarrow> LoadState \<Rightarrow> OperationsChartLabels \<Rightarrow> bool \<Rightarrow> bool \<Rightarrow> 'e option \<Rightarrow> bool \<Rightarrow> 'e node \<Rightarrow> 'e node" where
  "ChartCard key title blank load labels active expanded onToggleExpand showHeader content =
     El ''article''
       ([(''className'', AStr (join_with '' '' (card_classes key blank load active expanded showHeader))),
         (''aria-busy'', ABool (load = Load_loading)), (''aria-hidden'', ABool (\<not> active))] @ dialog_attrs expanded title) []
       (when_shown showHeader
          [ctag ''header'' ''operations-chart__header'' (tag ''h3'' [Txt title] #
             (case onToggleExpand of
                None \<Rightarrow> []
              | Some e \<Rightarrow> [button ''chart-expand'' [(''aria-label'', AStr (if expanded then ocl_collapse labels else ocl_expand labels))] e
                  [icon (if expanded then ''X'' else ''Maximize2'')]]))] @
        [ctag ''div'' ''operations-chart__body''
           ([El ''div'' [(''className'', AStr ''operations-chart__canvas''), (''aria-hidden'', AStr ''true'')] [] []] @
            when_shown (card_table_shown blank load) [ctag ''div'' ''sr-only'' [content]] @
            (case card_message labels blank load of
               None \<Rightarrow> []
             | Some m \<Rightarrow> [ctag ''p'' (''operations-chart__message operations-chart__message--'' @ (if load = Load_failed then ''unavailable'' else ''empty''))
                 [Txt m]]))])"

definition OperationsCharts ::
  "render_env \<Rightarrow> (js_num \<Rightarrow> string) \<Rightarrow> OperationsChartLabels \<Rightarrow> OperationsChartsProps \<Rightarrow> string \<Rightarrow> LoadState \<Rightarrow> chart_deck \<Rightarrow> chart_effect node list" where
  "OperationsCharts env percent labels p className load d =
     (let wide = dk_expanded d = Expand_secondary;
          card = (\<lambda>key. ChartCard key (chart_title labels key) (chart_empty p key) load labels)
      in [ctag ''div'' (join_with '' '' (filter (\<lambda>c. c \<noteq> [])
             [''operations-charts'', className, if dk_expanded d \<noteq> Expand_none then ''has-expanded-chart'' else []]))
           [card Chart_reliability True (dk_expanded d = Expand_reliability) (Some (CH_toggle Expand_reliability)) True
              (accessible_content env percent labels p Chart_reliability),
            El ''article'' ((''className'', AStr (''operations-chart-deck'' @ (if wide then '' is-expanded'' else []))) #
                dialog_attrs wide (chart_title labels (dk_secondary d))) []
              [ctag ''header'' ''operations-chart-deck__header''
                 [El ''div'' [(''className'', AStr ''chart-tabs''), (''role'', AStr ''tablist''), (''aria-label'', AStr (ocl_pressureTitle labels))] []
                    (map (\<lambda>key. button (if dk_secondary d = key then ''active'' else [])
                         [(''role'', AStr ''tab''), (''aria-selected'', ABool (dk_secondary d = key))] (CH_secondary key) [Txt (chart_title labels key)])
                       secondaryKeys),
                  button ''chart-expand'' [(''aria-label'', AStr (if wide then ocl_collapse labels else ocl_expand labels))] (CH_toggle Expand_secondary)
                    [icon (if wide then ''X'' else ''Maximize2'')]],
               ctag ''div'' ''operations-chart-deck__body''
                 (map (\<lambda>key. card key (dk_secondary d = key) False None False (accessible_content env percent labels p key)) secondaryKeys)]]] @
         when_shown (dk_expanded d \<noteq> Expand_none)
           [button ''chart-focus-backdrop'' [(''aria-label'', AStr (ocl_collapse labels))] CH_collapse []])"

lemma table_offered_none [simp]: "offered_all (table_cells cells) = {}" "offered (chart_table caption names rows) = {}"
proof -
  show cells: "offered_all (table_cells cells) = {}" for cells :: "string list" by (cases cells) simp_all
  show "offered (chart_table caption names rows) = {}" by (simp add: chart_table_def cells)
qed

lemma content_offered [simp]: "offered (accessible_content env percent labels p key) = {}"
  by (cases key) (simp_all add: accessible_content_def Let_def)

lemma card_offered [simp]:
  "offered (ChartCard key title blank load labels active expanded onToggle showHeader content) =
     (if showHeader then set_option onToggle else {}) \<union> (if card_table_shown blank load then offered content else {})"
  by (auto simp: ChartCard_def is_disabled_append dialog_attrs_def split: option.splits)

lemma charts_offered:
  "offered_all (OperationsCharts env percent labels p className load d) =
     CH_secondary ` set secondaryKeys \<union> {CH_toggle Expand_reliability, CH_toggle Expand_secondary} \<union>
     (if dk_expanded d \<noteq> Expand_none then {CH_collapse} else {})"
  by (auto simp: OperationsCharts_def Let_def dialog_attrs_def)

end
