(* ===== verification/PagesMarkup.thy ===== *)
theory PagesMarkup
  imports ShellMarkup ChartsMarkup RequestsMarkup ListViews Logs Captures
begin

text \<open>
  What the views of history, incidents, logs, captures and diagnostics draw: HistoryView.tsx,
  IncidentsView.tsx, LogsView.tsx, CapturesView.tsx and DiagnosticsView.tsx under web/src/views. A view
  whose drawing can throw, because a date in its filter cannot be read, is \<open>None\<close> then.
\<close>

section \<open>Shared parts\<close>

record date_env =
  de_parse :: "string \<Rightarrow> int option"
  de_iso :: "int \<Rightarrow> string"
  de_offset :: "int \<Rightarrow> int"

datatype filter_effect =
    FE_q string
  | FE_state string
  | FE_from string
  | FE_to string
  | FE_submit
  | FE_reset

definition apply_draft :: "filter_effect \<Rightarrow> ListFilters \<Rightarrow> ListFilters" where
  "apply_draft e f =
     (case e of FE_q v \<Rightarrow> f\<lparr>lf_q := v\<rparr> | FE_state v \<Rightarrow> f\<lparr>lf_state := v\<rparr> | FE_from v \<Rightarrow> f\<lparr>lf_from := v\<rparr> | FE_to v \<Rightarrow> f\<lparr>lf_to := v\<rparr> | _ \<Rightarrow> f)"

definition filter_form ::
  "render_env \<Rightarrow> date_env \<Rightarrow> (filter_effect \<Rightarrow> 'e) \<Rightarrow> string \<Rightarrow> (string \<times> string) list \<Rightarrow> ListFilters \<Rightarrow> 'e node option" where
  "filter_form env de ev ns states draft =
     (case date_fields (de_parse de) (de_iso de) (de_offset de) draft of
        None \<Rightarrow> None
      | Some (from, to) \<Rightarrow> Some (ctag ''form'' ''server-list-filters''
          [field (label env (ns @ ''filters.search'')) [control_el ''input'' [(''value'', AStr (lf_q draft))] (\<lambda>v. ev (FE_q v)) []],
           field (label env (ns @ ''filters.state'')) [select_el (lf_state draft) [] (\<lambda>v. ev (FE_state v)) ((([]), label env (ns @ ''filters.allStates'')) # states)],
           field (label env (ns @ ''filters.from''))
             [control_el ''input'' [(''type'', AStr ''datetime-local''), (''value'', AStr from)] (\<lambda>v. ev (FE_from v)) []],
           field (label env (ns @ ''filters.to''))
             [control_el ''input'' [(''type'', AStr ''datetime-local''), (''value'', AStr to)] (\<lambda>v. ev (FE_to v)) []],
           ctag ''div'' ''server-list-filter-actions''
             [submit_button ''button primary'' False (ev FE_submit) [icon ''Filter'', Txt (label env (ns @ ''filters.apply''))],
              button ''icon-button'' (tooltip (label env (ns @ ''filters.reset''))) (ev FE_reset) [icon ''RotateCcw'']]]))"

definition banner :: "string \<Rightarrow> string \<Rightarrow> string \<Rightarrow> 'e node" where
  "banner c role text = El ''div'' ((''className'', AStr c) # (if role = [] then [] else [(''role'', AStr role)])) [] [Txt text]"

definition load_more :: "string \<Rightarrow> 'e \<Rightarrow> bool \<Rightarrow> 'e node list" where
  "load_more text e hasMore = when_shown hasMore [ctag ''div'' ''list-load-more'' [button ''button'' [] e [Txt text]]]"

lemma part_offered [simp]:
  "offered (banner c role text) = {}" "offered_all (load_more text e hasMore) = (if hasMore then {e} else {})" "offered (cell env key cs) = offered_all cs"
  by (simp_all add: banner_def load_more_def cell_def)

lemma form_offered: "filter_form env de ev ns states draft = Some n \<Longrightarrow> offered n \<subseteq> range ev"
  by (auto simp: filter_form_def split: option.splits)

section \<open>Diagnostics\<close>

datatype diagnostics_effect = DG_download | DG_run

definition CheckIcon :: "DiagnosticCheck_status \<Rightarrow> 'e node" where
  "CheckIcon s = icon (case s of DiagnosticCheck_status_Pass \<Rightarrow> ''CircleCheck'' | DiagnosticCheck_status_Warn \<Rightarrow> ''TriangleAlert''
     | DiagnosticCheck_status_Fail \<Rightarrow> ''CircleX'')"

definition check_text :: "DiagnosticCheck_status \<Rightarrow> string" where
  "check_text s = (case s of DiagnosticCheck_status_Pass \<Rightarrow> ''pass'' | DiagnosticCheck_status_Warn \<Rightarrow> ''warn'' | DiagnosticCheck_status_Fail \<Rightarrow> ''fail'')"

definition process_cell :: "render_env \<Rightarrow> string \<Rightarrow> string \<Rightarrow> string \<Rightarrow> string \<Rightarrow> 'e node" where
  "process_cell env name key v small = tag ''div'' [icon name, tag ''span'' [Txt (label env (''diagnostics:process.'' @ key))], tag ''strong'' [Txt v], tag ''small'' [Txt small]]"

definition process_snapshot :: "render_env \<Rightarrow> RuntimeInfo_process \<Rightarrow> 'e node" where
  "process_snapshot env p =
     (let detail = (\<lambda>key args. label_with env (''diagnostics:process.'' @ key) args)
      in El ''section'' [(''className'', AStr ''process-snapshot''), (''aria-labelledby'', AStr ''process-snapshot-title'')] []
        [ctag ''div'' ''section-heading''
           [tag ''div'' [El ''h2'' [(''id'', AStr ''process-snapshot-title'')] [] [Txt (label env ''diagnostics:process.title'')],
              tag ''p'' [Txt (label env ''diagnostics:process.description'')]],
            ctag ''span'' ''process-sampled'' [Txt (detail ''sampledAt'' [(''time'', time_text env (rinfo_process_sampledAt p))])]],
         ctag ''div'' ''process-grid''
           [process_cell env ''Cpu'' ''pid'' (int_string (rinfo_process_pid p)) (detail ''parentPid'' [(''pid'', int_string (rinfo_process_parentPid p))]),
            process_cell env ''Cpu'' ''scheduler'' (int_string (rinfo_process_goroutines p))
              (detail ''schedulerDetail'' [(''cpu'', int_string (rinfo_process_cpuCount p)), (''gomaxprocs'', int_string (rinfo_process_gomaxprocs p))]),
            process_cell env ''MemoryStick'' ''heap'' (formatBytes (rinfo_process_heapAllocBytes p))
              (detail ''heapInuse'' [(''value'', formatBytes (rinfo_process_heapInuseBytes p))]),
            process_cell env ''MemoryStick'' ''systemMemory'' (formatBytes (rinfo_process_systemMemoryBytes p))
              (detail ''gcCycles'' [(''count'', int_string (rinfo_process_gcCycles p))])]])"

definition diagnostic_report :: "render_env \<Rightarrow> DiagnosticReport \<Rightarrow> 'e node list" where
  "diagnostic_report env r =
     [ctag ''div'' (''diagnostic-summary '' @ (if dr_healthy r then ''healthy'' else ''unhealthy''))
        [tag ''strong'' [Txt (if dr_healthy r then label env ''diagnostics:healthy'' else label env ''diagnostics:unhealthy'')],
         tag ''span'' [Txt (label_with env ''diagnostics:summary'' [(''version'', dr_version r), (''uptime'', formatSeconds (en_tr env) (dr_uptimeSeconds r))])]],
      ctag ''div'' ''section-heading'' [heading (label env ''diagnostics:pathTitle'') (label env ''diagnostics:pathDescription''), icon ''Route''],
      El ''div'' [(''className'', AStr ''diagnostic-path''), (''role'', AStr ''list'')] []
        (map (\<lambda>c. El ''div'' [(''className'', AStr (''diagnostic-node '' @ check_text (dc_status c))), (''role'', AStr ''listitem'')] []
             [CheckIcon (dc_status c), tag ''strong'' (text_of (dc_name c))]) (dr_checks r)),
      ctag ''div'' ''check-list''
        (map (\<lambda>c. ctag ''div'' (''check-row '' @ check_text (dc_status c))
             [tag ''span'' [CheckIcon (dc_status c)], tag ''div'' [tag ''strong'' (text_of (dc_name c)), tag ''p'' (text_of (dc_message c))]]) (dr_checks r))]"

definition DiagnosticsView :: "render_env \<Rightarrow> RuntimeInfo option \<Rightarrow> DiagnosticReport option \<Rightarrow> bool \<Rightarrow> bool \<Rightarrow> diagnostics_effect node" where
  "DiagnosticsView env runtimeInfo report busy operate =
     ctag ''section'' ''content-section''
       ([ctag ''div'' ''section-heading diagnostics-heading''
           [heading (label env ''diagnostics:title'') (label env ''diagnostics:description''),
            ctag ''div'' ''header-actions''
              (button ''button'' [] DG_download [icon ''Download'', Txt (label env ''diagnostics:export'')] #
               when_shown operate
                 [button ''button primary'' [(''disabled'', ABool busy)] DG_run
                    [icon ''Play'', Txt (if busy then label env ''diagnostics:running'' else label env ''diagnostics:start'')]])]] @
        (case runtimeInfo of None \<Rightarrow> [] | Some info \<Rightarrow> [process_snapshot env (rinfo_process info)]) @
        (case report of None \<Rightarrow> [ctag ''div'' ''empty-state'' [icon ''Stethoscope'', tag ''span'' [Txt (label env ''diagnostics:empty'')]]]
         | Some r \<Rightarrow> diagnostic_report env r))"

lemma diagnostics_offered: "offered (DiagnosticsView env info report busy operate) = insert DG_download (if operate \<and> \<not> busy then {DG_run} else {})"
proof -
  have "offered (process_snapshot env p :: 'e node) = {}" for p by (simp add: process_snapshot_def process_cell_def Let_def)
  moreover have "offered_all (diagnostic_report env r :: 'e node list) = {}" for r by (simp add: diagnostic_report_def CheckIcon_def)
  ultimately show ?thesis by (cases info; cases report) (auto simp: DiagnosticsView_def process_snapshot_def process_cell_def diagnostic_report_def CheckIcon_def Let_def)
qed

section \<open>History\<close>

datatype history_effect =
    HV_filter filter_effect
  | HV_window MetricsWindow
  | HV_open HistoryRecord
  | HV_more
  | HV_charts chart_effect

fun map_effect :: "('a \<Rightarrow> 'b) \<Rightarrow> 'a node \<Rightarrow> 'b node" where
  "map_effect f (Txt s) = Txt s"
| "map_effect f (El t as hs cs) = El t as (map (\<lambda>(name, h). (name, f \<circ> h)) hs) (map (map_effect f) cs)"

definition chart_labels :: "render_env \<Rightarrow> OperationsChartLabels" where
  "chart_labels env =
     (let t = (\<lambda>key. label env (''overview:charts.'' @ key))
      in \<lparr>ocl_reliabilityTitle = t ''reliability'', ocl_pressureTitle = t ''pressure'', ocl_errorsTitle = t ''errors'', ocl_recoveryTitle = t ''recovery'',
          ocl_empty = t ''empty'', ocl_unavailable = t ''unavailable'', ocl_requests = t ''requests'', ocl_successRate = t ''successRate'',
          ocl_failedAttempts = t ''failedAttempts'', ocl_active = t ''active'', ocl_requesting = t ''requesting'', ocl_waiting = t ''waiting'',
          ocl_queued = t ''queued'', ocl_duration = t ''duration'', ocl_expand = t ''expand'', ocl_collapse = t ''collapse''\<rparr>)"

definition whole :: "int \<Rightarrow> js_num" where
  "whole n = Num (of_int n)"

definition chart_props :: "render_env \<Rightarrow> MetricsSnapshot option \<Rightarrow> MetricsErrors option \<Rightarrow> OperationsChartsProps" where
  "chart_props env metrics errors =
     (let series = (case metrics of None \<Rightarrow> [] | Some m \<Rightarrow> msnap_series m)
      in \<lparr>ocp_reliability = map (\<lambda>p. \<lparr>tsp_time = mpt_time p, tsp_requests = whole (mpt_requests p), tsp_successful = whole (mpt_successful p),
             tsp_failedAttempts = whole (mpt_failedAttempts p)\<rparr>) series,
          ocp_pressure = map (\<lambda>p. \<lparr>prp_time = mpt_time p, prp_active = whole (mpt_active p), prp_requesting = Some (whole (mpt_requesting p)),
             prp_waiting = whole (mpt_waiting p), prp_queued = whole (mpt_queued p)\<rparr>) series,
          ocp_errors = map (\<lambda>c. \<lparr>esl_category = label_or env (''overview:errorCategories.'' @ merr_categories_code c) (merr_categories_code c),
             esl_count = whole (merr_categories_count c)\<rparr>) (case errors of None \<Rightarrow> [] | Some e \<Rightarrow> merr_categories e),
          ocp_recovery = map (\<lambda>b. \<lparr>rcv_bucket = label_or env (''overview:recoveryBuckets.'' @ mb_bucket b) (mb_bucket b), rcv_count = whole (mb_count b)\<rparr>)
             (case metrics of None \<Rightarrow> [] | Some m \<Rightarrow> msnap_recovery_durationBuckets (msnap_recovery m))\<rparr>)"

definition history_row :: "render_env \<Rightarrow> HistoryRecord \<Rightarrow> history_effect node" where
  "history_row env r =
     tag ''tr''
       [cell env ''requests:columns.request''
          ([tag ''strong'' [Txt (hr_method r), Txt '' '', Txt (hr_path r)], ctag ''span'' ''subtle'' [Txt (hr_id r)]] @ identity_lines env (hr_taskId r) (hr_clientId r)),
        cell env ''requests:columns.result'' [status_mark env (hr_state r)],
        cell env ''requests:columns.attempts'' [Txt (int_string (hr_attempt r))],
        cell env ''requests:columns.duration'' [Txt (duration_text env (hr_startedAt r) (hr_completedAt r))],
        cell env ''requests:columns.lastError'' [ctag ''span'' ''subtle history-error'' [Txt (or_string (hr_lastError r) (label env ''common:notAvailable''))]],
        cell env ''requests:columns.actions'' [ctag ''div'' ''row-actions''
          [button ''icon-button'' (tooltip (label env ''common:actions.openTimeline'')) (HV_open r) [icon ''ListTree'']]]]"

definition event_article :: "render_env \<Rightarrow> MonitoringEvent \<Rightarrow> 'e node" where
  "event_article env e =
     ctag ''article'' (''event-marker '' @ event_marker (mev_code e))
       [tag ''i'' [], tag ''div'' [tag ''strong'' [Txt (label_or env (''requests:events.'' @ mev_code e) (mev_code e))], tag ''time'' [Txt (local_time_text env (mev_time e))]]]"

definition history_states :: "render_env \<Rightarrow> (string \<times> string) list" where
  "history_states env = map (\<lambda>s. (s, label env (''common:status.'' @ s))) [''successful'', ''failed'', ''canceled'', ''uncertain'']"

record history_data =
  hd_records :: "HistoryRecord list"
  hd_draft :: ListFilters
  hd_metrics :: "MetricsSnapshot option"
  hd_errors :: "MetricsErrors option"
  hd_events :: "MonitoringEvent list"
  hd_selected :: MetricsWindow
  hd_hasMore :: bool
  hd_load :: LoadState
  hd_deck :: chart_deck

definition HistoryView :: "render_env \<Rightarrow> date_env \<Rightarrow> (js_num \<Rightarrow> string) \<Rightarrow> history_data \<Rightarrow> history_effect node option" where
  "HistoryView env de percent d =
     (case filter_form env de HV_filter ''requests:'' (history_states env) (hd_draft d) of
        None \<Rightarrow> None
      | Some form \<Rightarrow> Some (ctag ''div'' ''page-stack history-view''
          [ctag ''section'' ''content-section''
             (ctag ''div'' ''section-heading'' [heading (label env ''requests:history.title'') (label env ''requests:history.description''),
                window_control ''segmented-control'' (label env ''requests:history.window'') (\<lambda>w. label env (''requests:windowLabels.'' @ window_string w))
                  HV_window (hd_selected d)] #
              map (map_effect HV_charts)
                (OperationsCharts env percent (chart_labels env) (chart_props env (hd_metrics d) (hd_errors d)) ''history-chart-system'' (hd_load d) (hd_deck d))),
           form,
           ctag ''section'' ''content-section''
             [ctag ''div'' ''section-heading'' [heading (label env ''requests:history.events'') (label env ''requests:history.description'')],
              (if hd_events d \<noteq> [] then ctag ''div'' ''event-track'' (map (event_article env) (event_track (hd_events d)))
               else ctag ''div'' ''empty-state compact'' [Txt (label env ''requests:history.eventsEmpty'')])],
           ctag ''section'' ''content-section''
             ([ctag ''div'' ''section-heading'' [heading (label env ''requests:history.title'') (label env ''requests:history.description''),
                 tag ''span'' [Txt (label_with env ''common:recordCount'' [(''count'', nat_string (length (hd_records d)))])]],
               (if hd_records d = [] then ctag ''div'' ''empty-state'' [icon ''Archive'', tag ''span'' [Txt (label env ''requests:history.empty'')]]
                else ctag ''div'' ''table-wrap history-table responsive-table''
                  [tag ''table''
                    [tag ''thead'' [tag ''tr''
                       (map (\<lambda>key. tag ''th'' [Txt (label env (''requests:columns.'' @ key))]) [''request'', ''result'', ''attempts'', ''duration'', ''lastError''] @
                        [El ''th'' [(''aria-label'', AStr (label env ''requests:columns.actions''))] [] []])],
                     tag ''tbody'' (map (history_row env) (hd_records d))]])] @
              load_more (label env ''requests:history.loadMore'') HV_more (hd_hasMore d))]))"

lemma map_effect_offered [simp]: "offered (map_effect f n) = f ` offered n"
proof (induction n)
  case (El t as hs cs)
  then have "offered_all (map (map_effect f) cs) = f ` offered_all cs" by (auto simp: offered_all_def)
  then show ?case by (auto simp: split_beta image_comp)
qed simp

lemma history_offered:
  assumes "HistoryView env de percent d = Some n"
  shows "offered n \<subseteq> range HV_filter \<union> range HV_window \<union> range HV_charts \<union> {HV_more} \<union> HV_open ` set (hd_records d)"
proof -
  have "offered (history_row env r) = {HV_open r}" for r by (auto simp: history_row_def identity_lines_def)
  moreover have "offered (event_article env e :: history_effect node) = {}" for e by (simp add: event_article_def)
  ultimately show ?thesis
    using assms form_offered [of env de HV_filter "''requests:''" "history_states env" "hd_draft d"]
    by (auto simp: HistoryView_def split: option.splits if_splits)
qed

section \<open>Incidents\<close>

datatype incidents_effect =
    IV_filter filter_effect
  | IV_toggle string
  | IV_open HistoryRecord
  | IV_none
  | IV_more

definition pair_entry :: "render_env \<Rightarrow> string \<Rightarrow> 'e node list \<Rightarrow> 'e node" where
  "pair_entry env key cs = tag ''div'' [tag ''dt'' [Txt (label env (''incidents:'' @ key))], tag ''dd'' cs]"

definition times :: string where
  "times = [CHR 0xC3, CHR 0x97]"

definition incident_event :: "render_env \<Rightarrow> HistoryRecord list \<Rightarrow> IncidentDetail_timeline \<Rightarrow> incidents_effect node" where
  "incident_event env requests e =
     ctag ''article'' (''incident-timeline-event '' @ (if js_starts_with (idet_timeline_type e) ''incident_'' then ''lifecycle'' else ''request''))
       [tag ''i'' [],
        tag ''div''
          ([tag ''strong'' [Txt (or_string (Some (idet_timeline_message e)) (idet_timeline_type e))], tag ''time'' [Txt (local_text env (idet_timeline_time e))]] @
           when_shown (truthy_string (idet_timeline_requestId e))
             [button ''link-button'' []
                (case find (\<lambda>r. Some (hr_id r) = idet_timeline_requestId e) requests of Some r \<Rightarrow> IV_open r | None \<Rightarrow> IV_none)
                [Txt (nullish (idet_timeline_requestId e) [])]] @
           [tag ''small'' (text_of (join_with dot (filter (\<lambda>s. s \<noteq> [])
              [if or_int (idet_timeline_attempt e) 0 \<noteq> 0 then ''#'' @ int_string (or_int (idet_timeline_attempt e) 0) else [],
               if or_int (idet_timeline_statusCode e) 0 \<noteq> 0 then ''HTTP '' @ int_string (or_int (idet_timeline_statusCode e) 0) else [],
               nullish (idet_timeline_category e) [], nullish (idet_timeline_attemptPhase e) []])))])]"

definition incident_requests :: "render_env \<Rightarrow> incidents_view \<Rightarrow> string \<Rightarrow> incidents_effect node list" where
  "incident_requests env st ident =
     when_shown (iv_expandedId st = Some ident)
       [ctag ''div'' ''incident-requests''
         ((case shown_error st ident of None \<Rightarrow> [] | Some e \<Rightarrow> [ctag ''div'' ''error-banner'' [Txt e]]) @
          (case shown_detail st ident of
             None \<Rightarrow> []
           | Some d \<Rightarrow>
               [El ''section'' [(''className'', AStr ''incident-timeline''), (''aria-label'', AStr (label env ''incidents:timeline.title''))] []
                  (tag ''h3'' [Txt (label env ''incidents:timeline.title'')] # map (incident_event env (idet_requests d)) (idet_timeline d))] @
               (if idet_requests d \<noteq> []
                then map (\<lambda>r. El ''button'' [] [(''onClick'', \<lambda>_. IV_open r)]
                    [icon ''ListTree'', tag ''span'' [tag ''strong'' [Txt (hr_method r), Txt '' '', Txt (hr_path r)], tag ''small'' [Txt (hr_id r)]],
                     status_mark env (hr_state r)]) (idet_requests d)
                else [ctag ''div'' ''empty-state compact'' [Txt (label env ''incidents:requestsUnavailable'')]])) @
          when_shown (shown_truncated st ident) [ctag ''small'' ''subtle'' [Txt (label env ''incidents:requestsTruncated'')]])]"

definition incident_row :: "render_env \<Rightarrow> incidents_view \<Rightarrow> string option \<Rightarrow> Incident \<Rightarrow> incidents_effect node" where
  "incident_row env st selectedId i =
     (let state = incident_state_string (inc_state i);
          joined = (\<lambda>xs. or_string (Some (join_with dot xs)) ''-'')
      in El ''article'' [(''id'', AStr (''incident-'' @ inc_id i)), (''tabIndex'', AInt (- 1)),
          (''className'', AStr (''incident-row state-'' @ state @ (if selectedId = Some (inc_id i) then '' selected'' else [])))] []
        ([ctag ''div'' ''incident-row__heading''
            [tag ''span'' [icon ''ShieldAlert''], tag ''div'' [tag ''strong'' [Txt (label env (''incidents:state.'' @ state))], tag ''code'' [Txt (inc_id i)]],
             tag ''time'' [Txt (local_text env (inc_startedAt i))]],
          tag ''dl''
            ([pair_entry env ''failedAttempts'' [Txt (int_string (inc_failedAttempts i))],
              pair_entry env ''affectedRequests'' [button ''link-button'' [] (IV_toggle (inc_id i))
                [Txt (nat_string (length (inc_affectedRequests i))), Txt dot, Txt (label env ''incidents:viewRequests'')]],
              pair_entry env ''lastFailure'' [Txt (local_text env (inc_lastFailureAt i))],
              pair_entry env ''categories'' [Txt (joined (map (\<lambda>(name, n). label_or env (''overview:errorCategories.'' @ name) name @ '' '' @ int_string n) (inc_categories i)))],
              pair_entry env ''statusCodes'' [Txt (joined (map (\<lambda>(code, n). ''HTTP '' @ code @ '' '' @ times @ '' '' @ int_string n) (inc_statusCodes i)))]] @
             when_shown (truthy_string (inc_resolvedAt i)) [pair_entry env ''resolvedAt'' [Txt (local_text env (nullish (inc_resolvedAt i) []))]])] @
         incident_requests env st (inc_id i)))"

definition incident_states :: "render_env \<Rightarrow> (string \<times> string) list" where
  "incident_states env = map (\<lambda>s. (s, label env (''incidents:state.'' @ s))) [''open'', ''recovering'', ''resolved'']"

definition IncidentsView ::
  "render_env \<Rightarrow> date_env \<Rightarrow> Incident list \<Rightarrow> ListFilters \<Rightarrow> string option \<Rightarrow> bool \<Rightarrow> incidents_view \<Rightarrow> incidents_effect node option" where
  "IncidentsView env de incidents draft selectedId hasMore st =
     (case filter_form env de IV_filter ''incidents:'' (incident_states env) draft of
        None \<Rightarrow> None
      | Some form \<Rightarrow> Some (ctag ''div'' ''page-stack incidents-view''
          [form,
           ctag ''section'' ''content-section''
             ([ctag ''div'' ''section-heading'' [heading (label env ''incidents:title'') (label env ''incidents:description''),
                 tag ''span'' [Txt (label_with env ''incidents:count'' [(''count'', nat_string (length incidents))])]],
               (if incidents = [] then ctag ''div'' ''empty-state'' [icon ''CircleCheck'', tag ''span'' [Txt (label env ''incidents:empty'')]]
                else ctag ''div'' ''incident-list'' (map (incident_row env st selectedId) incidents))] @
              load_more (label env ''incidents:loadMore'') IV_more hasMore)]))"

lemma incident_row_offered: "offered (incident_row env st selectedId i) \<subseteq> {IV_toggle (inc_id i), IV_none} \<union> range IV_open"
proof -
  have event: "offered (incident_event env rs e) \<subseteq> {IV_none} \<union> range IV_open" for rs e
    by (auto simp: incident_event_def split: option.splits if_splits)
  have "offered_all (incident_requests env st (inc_id i)) \<subseteq> {IV_none} \<union> range IV_open"
  proof (cases "shown_detail st (inc_id i)")
    case None
    then show ?thesis by (auto simp: incident_requests_def split: option.splits)
  next
    case (Some d)
    have "(\<Union>e \<in> set (idet_timeline d). offered (incident_event env (idet_requests d) e)) \<subseteq> {IV_none} \<union> range IV_open"
      using event by blast
    with Some show ?thesis by (auto simp: incident_requests_def split: option.splits if_splits)
  qed
  then show ?thesis by (auto simp: incident_row_def pair_entry_def Let_def)
qed

lemma incidents_offered:
  assumes "IncidentsView env de incidents draft selectedId hasMore st = Some n"
  shows "offered n \<subseteq> range IV_filter \<union> {IV_more, IV_none} \<union> range IV_open \<union> range IV_toggle"
proof -
  obtain form where form: "filter_form env de IV_filter ''incidents:'' (incident_states env) draft = Some form"
    using assms by (auto simp: IncidentsView_def split: option.splits)
  have "offered n \<subseteq> offered form \<union> {IV_more} \<union> (\<Union>i \<in> set incidents. offered (incident_row env st selectedId i))"
    using assms by (auto simp: IncidentsView_def form split: if_splits)
  then show ?thesis using form_offered [OF form] incident_row_offered [of env st selectedId] by blast
qed

section \<open>Logs\<close>

datatype logs_effect =
    LV_load
  | LV_pause
  | LV_download
  | LV_text string
  | LV_level string
  | LV_event string
  | LV_request string
  | LV_save
  | LV_range LogRange
  | LV_apply SavedLogFilter
  | LV_remove nat

definition log_article :: "render_env \<Rightarrow> RuntimeLogEntry \<Rightarrow> 'e node" where
  "log_article env e =
     (let number = (\<lambda>before v. if or_int v 0 \<noteq> 0 then dot @ before @ int_string (or_int v 0) else []);
          task = truthy_string (rle_taskId e); client = truthy_string (rle_clientId e)
      in ctag ''article'' (''log-entry '' @ rle_level e)
        ([tag ''time'' [Txt (time_text env (rle_time e))],
          ctag ''span'' ''log-level'' [Txt (label_or env (''logs:levels.'' @ rle_level e) (rle_level e))],
          tag ''div''
            ([tag ''strong'' (text_of (rle_event e)), tag ''p'' (text_of (rle_message e))] @
             when_shown (truthy_string (rle_requestId e))
               [tag ''code'' ([Txt (nullish (rle_requestId e) [])] @ text_of (number ''#'' (rle_attempt e)) @ text_of (number ''HTTP '' (rle_statusCode e)))] @
             when_shown (task \<or> client)
               [tag ''code'' (when_shown task [Txt (label env ''requests:identity.task'' @ '': '' @ nullish (rle_taskId e) [])] @
                  text_of (if task \<and> client then dot else []) @
                  when_shown client [Txt (label env ''requests:identity.client'' @ '': '' @ nullish (rle_clientId e) [])])])] @
         (case rle_fields e of None \<Rightarrow> [] | Some fs \<Rightarrow> [tag ''pre'' [Txt (en_json env (JObj fs))]])))"

definition saved_filter :: "render_env \<Rightarrow> nat \<times> SavedLogFilter \<Rightarrow> logs_effect node" where
  "saved_filter env = (\<lambda>(index, v).
     tag ''span''
       [El ''button'' [] [(''onClick'', \<lambda>_. LV_apply v)] [Txt (filterLabel (label env) v)],
        button ''icon-button'' [(''aria-label'', AStr (label_with env ''logs:removeFilter'' [(''name'', filterLabel (label env) v)]))] (LV_remove index) [icon ''X'']])"

text \<open>The saved filters are drawn as the type \<open>SavedLogFilter\<close> says they are.\<close>

definition LogsView :: "render_env \<Rightarrow> SavedLogFilter list \<Rightarrow> logs_view \<Rightarrow> logs_effect node" where
  "LogsView env saved st =
     (let f = lv_filter st; count = [(''count'', nat_string (length (lv_entries st)))]
      in ctag ''section'' ''content-section''
        ([ctag ''div'' ''section-heading logs-heading''
            [heading (label env ''logs:title'') (label_with env ''logs:summary'' count),
             ctag ''div'' ''header-actions''
               [button ''icon-button'' (tooltip (label env ''common:actions.refresh'')) LV_load [icon ''RefreshCw''],
                button ''button'' [] LV_pause [icon (if lv_paused st then ''Play'' else ''Pause''),
                  Txt (if lv_paused st then label_with env ''logs:resumeWithCount'' [(''count'', nat_string (lv_newCount st))] else label env ''logs:pause'')],
                button ''button'' [] LV_download [icon ''Download'', Txt (label env ''logs:download'')]]],
          ctag ''div'' ''log-filters''
            [field (label env ''logs:filter'') [control_el ''input'' [(''value'', AStr (slf_filter f)), (''placeholder'', AStr (label env ''logs:filterPlaceholder''))] LV_text []],
             field (label env ''logs:level'') [select_el (slf_level f) [] LV_level
               (([], label env ''logs:all'') # map (\<lambda>l. (l, label env (''logs:levels.'' @ l))) [''info'', ''warn'', ''error''])],
             field (label env ''logs:event'') [control_el ''input'' [(''value'', AStr (slf_event f)), (''placeholder'', AStr (label env ''logs:eventPlaceholder''))] LV_event []],
             field (label env ''logs:requestId'') [control_el ''input'' [(''value'', AStr (slf_requestId f))] LV_request []],
             button ''icon-button log-save-filter'' (tooltip (label env ''logs:saveFilter'')) LV_save [icon ''BookmarkPlus'']],
          ctag ''div'' ''log-query-tools''
            (El ''div'' [(''className'', AStr ''segmented-control''), (''role'', AStr ''group''), (''aria-label'', AStr (label env ''logs:range''))] []
               (map (\<lambda>r. button (if slf_range f = r then ''active'' else []) [(''aria-pressed'', ABool (slf_range f = r))] (LV_range r)
                    [Txt (or_string (Some (range_text r)) (label env ''logs:allTime''))]) log_ranges) #
             when_shown (saved \<noteq> [])
               [El ''div'' [(''className'', AStr ''saved-log-filters''), (''aria-label'', AStr (label env ''logs:savedFilters''))] []
                  (map (saved_filter env) (enumerate 0 saved))])] @
         when_shown (lv_truncated st) [banner ''warning-banner page-banner'' ''status'' (label_with env ''logs:truncated'' count)] @
         when_shown (lv_paused st \<and> lv_newCount st > 0)
           [banner ''log-new-count'' ''status'' (label_with env ''logs:newCount'' [(''count'', nat_string (lv_newCount st))])] @
         [if lv_entries st = [] then ctag ''div'' ''empty-state'' [icon ''ScrollText'', Txt (label env ''logs:empty'')]
          else El ''div'' [(''className'', AStr ''runtime-log''), (''aria-live'', AStr (if lv_paused st then ''off'' else ''polite''))] []
            (map (log_article env) (lv_entries st))]))"

section \<open>Captures\<close>

datatype captures_effect =
    CV_load
  | CV_clean
  | CV_stop
  | CV_start
  | CV_limit string
  | CV_timeout string
  | CV_preview string
  | CV_download CaptureRecord bool
  | CV_remove CaptureRecord
  | CV_rewrap
  | CV_close

definition capture_controls :: "render_env \<Rightarrow> captures_view \<Rightarrow> captures_effect node" where
  "capture_controls env st =
     (let bytes = (\<lambda>f. formatBytes (case cv_status st of None \<Rightarrow> 0 | Some s \<Rightarrow> f s))
      in ctag ''div'' ''capture-controls''
        [field (label env ''captures:requestLimit'')
           [control_el ''input'' [(''type'', AStr ''number''), (''min'', AStr ''1''), (''max'', AStr ''100''), (''value'', AInt (cv_requestLimit st))] CV_limit []],
         field (label env ''captures:timeout'') [ctag ''div'' ''compound-input''
           [control_el ''input'' [(''type'', AStr ''number''), (''min'', AStr ''1''), (''max'', AStr ''60''), (''value'', AInt (cv_timeoutMinutes st))] CV_timeout [],
            ctag ''span'' ''unit-label'' [Txt (label env ''captures:minutes'')]]],
         ctag ''div'' ''capture-usage''
           [tag ''span'' [Txt (label env ''captures:storage'')], tag ''strong'' [Txt (bytes cst_storageBytes), Txt '' / '', Txt (bytes cst_maxTotalBytes)],
            El ''progress'' [(''max'', AStr ''100''), (''value'', AStr (en_number env (capture_usage (cv_status st)))), (''aria-label'', AStr (label env ''captures:storage''))] [] []]])"

definition capture_row :: "render_env \<Rightarrow> bool \<Rightarrow> bool \<Rightarrow> CaptureRecord \<Rightarrow> captures_effect node" where
  "capture_row env operate sensitive r =
     (let act = (\<lambda>c key e name. button c (tooltip (label env (''captures:'' @ key))) e [icon name])
      in tag ''tr''
        [cell env ''captures:request'' [tag ''strong'' [Txt (cr_method r), Txt '' '', Txt (cr_path r)], ctag ''code'' ''subtle'' [Txt (cr_requestId r)]],
         cell env ''captures:state'' [status_mark env (cr_state r)],
         cell env ''captures:attempts'' [Txt (nat_string (length (cr_attempts r)))],
         cell env ''captures:size'' [Txt (formatBytes (cr_capturedBytes r))],
         cell env ''captures:expires'' [Txt (local_text env (cr_expiresAt r))],
         cell env ''captures:actions'' [ctag ''div'' ''row-actions''
           ([act ''icon-button'' ''preview'' (CV_preview (cr_id r)) ''Eye'', act ''icon-button'' ''filteredDownload'' (CV_download r False) ''Download''] @
            when_shown sensitive [act ''icon-button sensitive'' ''rawDownload'' (CV_download r True) ''FileLock2''] @
            when_shown operate [act ''icon-button danger'' ''delete'' (CV_remove r) ''Trash2''])]])"

definition key_grid :: "render_env \<Rightarrow> CaptureKeyStatus \<Rightarrow> 'e node" where
  "key_grid env keys =
     (let entry = (\<lambda>key v. tag ''div'' [tag ''span'' [Txt (label env (''captures:keys.'' @ key))], tag ''strong'' [Txt v]])
      in ctag ''div'' ''capture-key-grid''
        [entry ''active'' (cks_activeId keys),
         entry ''configured'' (or_string (Some (join_with '', '' (cks_configured keys))) (label env ''common:notAvailable'')),
         entry ''records'' (or_string (Some (join_with '', '' (map (\<lambda>(i, n). i @ '': '' @ int_string n) (cks_recordsById keys)))) ''0''),
         entry ''unresolved'' (int_string (cks_unresolved keys))])"

definition part_name :: "render_env \<Rightarrow> CapturePreviewPart \<Rightarrow> string" where
  "part_name env p =
     (case cpp_name p of
        CapturePreviewPart_name_Attempt \<Rightarrow> label_with env ''captures:attemptPart'' (case cpp_attempt p of None \<Rightarrow> [] | Some n \<Rightarrow> [(''count'', int_string n)])
      | CapturePreviewPart_name_Request \<Rightarrow> label env ''captures:requestPart''
      | CapturePreviewPart_name_Final \<Rightarrow> label env ''captures:finalPart'')"

definition headers_json :: "(string \<times> string list) list option \<Rightarrow> json" where
  "headers_json hs = JObj (map (\<lambda>(k, vs). (k, JArr (map JStr vs))) (nullish hs []))"

definition capture_part :: "render_env \<Rightarrow> CapturePreviewPart \<Rightarrow> 'e node" where
  "capture_part env p =
     tag ''section''
       [tag ''div'' [tag ''strong'' [Txt (part_name env p)],
          tag ''span'' (Txt (formatBytes (cpp_originalBytes p)) # text_of (if cpp_truncated p then dot @ label env ''captures:truncated'' else []))],
        tag ''details'' [tag ''summary'' [Txt (label env ''captures:headers'')], tag ''pre'' [Txt (en_json env (headers_json (cpp_headers p)))]],
        ctag ''pre'' ''capture-body'' (text_of (cpp_body p))]"

definition capture_heading :: "render_env \<Rightarrow> bool \<Rightarrow> captures_view \<Rightarrow> captures_effect node" where
  "capture_heading env operate st =
     (let active = (case cv_status st of None \<Rightarrow> False | Some s \<Rightarrow> cst_active s);
          unavailable = (case cv_status st of None \<Rightarrow> False | Some s \<Rightarrow> \<not> cst_available s)
      in ctag ''div'' ''section-heading captures-heading''
        [heading (label env ''captures:controlTitle'')
           (case cv_status st of
              Some s \<Rightarrow> if cst_active s then label_with env ''captures:activeSummary'' [(''count'', int_string (cst_remainingRequests s))] else label env ''captures:idleSummary''
            | None \<Rightarrow> label env ''captures:idleSummary''),
         ctag ''div'' ''header-actions''
           ([button ''icon-button'' (tooltip (label env ''common:actions.refresh'')) CV_load [icon ''RefreshCw'']] @
            when_shown operate
              [button ''button'' [(''disabled'', ABool (cv_busy st \<or> cv_records st = []))] CV_clean [icon ''Trash2'', Txt (label env ''captures:cleanupExpired'')]] @
            when_shown operate
              [if active then button ''button'' [(''disabled'', ABool (cv_busy st))] CV_stop [icon ''Square'', Txt (label env ''captures:stop'')]
               else button ''button primary'' [(''disabled'', ABool (cv_busy st \<or> unavailable))] CV_start [icon ''Play'', Txt (label env ''captures:start'')]])])"

definition capture_warnings :: "render_env \<Rightarrow> captures_view \<Rightarrow> 'e node list" where
  "capture_warnings env st =
     (case cv_status st of
        None \<Rightarrow> []
      | Some s \<Rightarrow>
          if \<not> cst_available s then [ctag ''div'' ''error-banner page-banner'' [Txt (or_string (cst_unavailableReason s) (label env ''captures:unavailable''))]]
          else when_shown (\<not> cst_persistenceHealthy s)
            [banner ''warning-banner page-banner'' ''status'' (label_with env ''captures:persistenceDegraded''
               [(''stage'', or_string (cst_failedStage s) (label env ''common:notAvailable'')), (''count'', int_string (or_int (cst_failureCount s) 0))])])"

definition CapturesView :: "render_env \<Rightarrow> bool \<Rightarrow> bool \<Rightarrow> captures_view \<Rightarrow> captures_effect node" where
  "CapturesView env operate sensitive st =
     ctag ''div'' ''capture-shell''
       ([ctag ''section'' ''content-section'' ([capture_heading env operate st] @ capture_warnings env st @ when_shown operate [capture_controls env st]),
         ctag ''section'' ''content-section spaced''
           [ctag ''div'' ''section-heading''
              [heading (label env ''captures:recordsTitle'') (label_with env ''captures:recordsSummary'' [(''count'', nat_string (length (cv_records st)))])],
            (if cv_records st = [] then ctag ''div'' ''empty-state'' [icon ''FileLock2'', Txt (label env ''captures:empty'')]
             else ctag ''div'' ''table-wrap capture-table responsive-table''
               [tag ''table''
                 [tag ''thead'' [tag ''tr'' (map (\<lambda>key. tag ''th'' [Txt (label env (''captures:'' @ key))]) [''request'', ''state'', ''attempts'', ''size'', ''expires''] @ [tag ''th'' []])],
                  tag ''tbody'' (map (capture_row env operate sensitive) (cv_records st))]])],
         ctag ''section'' ''content-section spaced''
           ([ctag ''div'' ''section-heading''
               (heading (label env ''captures:keys.title'') (label env ''captures:keys.summary'') #
                when_shown operate
                  [button ''button'' [(''disabled'', ABool (cv_busy st \<or> cv_keys st = None))] CV_rewrap [icon ''FileLock2'', Txt (label env ''captures:keys.rewrap'')]]),
             (case cv_keys st of None \<Rightarrow> ctag ''div'' ''empty-state compact'' [Txt (label env ''common:loading'')] | Some keys \<Rightarrow> key_grid env keys)] @
            (case cv_keys st of
               None \<Rightarrow> []
             | Some keys \<Rightarrow> when_shown (cks_unresolved keys > 0)
                 [banner ''warning-banner page-banner'' ''status'' (label_with env ''captures:keys.unresolvedWarning'' [(''count'', int_string (cks_unresolved keys))])]))] @
        (case cv_preview st of
           None \<Rightarrow> []
         | Some p \<Rightarrow>
             let r = cpv_record p
             in InspectorShell env (Some CV_close) [Txt (cr_method r @ '' '' @ cr_path r)] (text_of (cr_requestId r)) [status_mark env (cr_state r)]
               [ctag ''div'' ''capture-parts'' (map (capture_part env) (cpv_parts p))] [] True True []))"

text \<open>What an effect of the view sends, when a confirmation it asks for is answered with \<open>agreed\<close>.\<close>

fun cv_sends :: "translate \<Rightarrow> bool \<Rightarrow> unit js_result \<Rightarrow> captures_view \<Rightarrow> captures_effect \<Rightarrow> capture_effect list" where
  "cv_sends tr agreed answer st CV_load = load_calls"
| "cv_sends tr agreed answer st CV_clean = snd (cleanExpired agreed st)"
| "cv_sends tr agreed answer st CV_stop = snd (stop_capture st)"
| "cv_sends tr agreed answer st CV_start = snd (start_capture st)"
| "cv_sends tr agreed answer st (CV_preview ident) = [Cap_call (api_capturePreview ident)]"
| "cv_sends tr agreed answer st (CV_download r raw) = download_capture tr r raw agreed answer"
| "cv_sends tr agreed answer st (CV_remove r) = remove_capture r agreed"
| "cv_sends tr agreed answer st CV_rewrap = snd (rewrapKeys agreed st)"
| "cv_sends tr agreed answer st _ = []"

lemma capture_part_offered [simp]:
  "offered (key_grid env keys) = {}" "offered_all (capture_warnings env st) = {}" "offered (capture_part env p) = {}"
  by (simp_all add: key_grid_def capture_warnings_def capture_part_def Let_def split: option.split)

lemma capture_row_offered [simp]:
  "offered (capture_row env operate sensitive r) =
     {CV_preview (cr_id r), CV_download r False} \<union> (if sensitive then {CV_download r True} else {}) \<union> (if operate then {CV_remove r} else {})"
  by (auto simp: capture_row_def Let_def)

lemma captures_offered:
  "offered (CapturesView env operate sensitive st) \<subseteq>
     {CV_load, CV_close} \<union> (\<Union>r \<in> set (cv_records st). {CV_preview (cr_id r), CV_download r False} \<union> (if sensitive then {CV_download r True} else {})) \<union>
     (if operate then {CV_clean, CV_stop, CV_start, CV_rewrap} \<union> range CV_limit \<union> range CV_timeout \<union> CV_remove ` set (cv_records st) else {})"
proof -
  have "offered (capture_heading env operate st) \<subseteq> {CV_load} \<union> (if operate then {CV_clean, CV_stop, CV_start} else {})"
    by (auto simp: capture_heading_def Let_def split: if_splits)
  moreover have "offered (capture_controls env st) = range CV_limit \<union> range CV_timeout" by (auto simp: capture_controls_def Let_def)
  ultimately show ?thesis
    by (auto simp: CapturesView_def Let_def shell_offered split: option.splits if_splits)
qed

end
