(* ===== verification/OverviewMarkup.thy ===== *)
theory OverviewMarkup
  imports PagesMarkup Overview Topology
begin

text \<open>
  What the overview draws: web/src/views/OverviewView.tsx with web/src/components/OverviewMetrics.tsx,
  SignalTopology.tsx and OverviewPriorityPanel.tsx, and how a request is selected there. Inline
  styles are left out. The scene is the element that Topology fills.
\<close>

record number_env =
  ne_compact :: "rat \<Rightarrow> string"
  ne_decimals :: "rat \<Rightarrow> string"
  ne_hours :: "rat \<Rightarrow> string"
  ne_string :: "json \<Rightarrow> string"

text \<open>The fallbacks that the source gives for three keys, in Chinese.\<close>

definition recovery_fallback :: string where
  "recovery_fallback = [CHR 0xE5, CHR 0xB9, CHR 0xB3, CHR 0xE5, CHR 0x9D, CHR 0x87, CHR 0xE6, CHR 0x81, CHR 0xA2, CHR 0xE5, CHR 0xA4, CHR 0x8D, CHR 0xE8,
       CHR 0x80, CHR 0x97, CHR 0xE6, CHR 0x97, CHR 0xB6]"

definition event_fallback :: "string \<Rightarrow> string" where
  "event_fallback key =
     (if key = ''overview:priority.receivedRequest'' then [CHR 0xE6, CHR 0x94, CHR 0xB6, CHR 0xE5, CHR 0x88, CHR 0xB0, CHR 0xE8, CHR 0xAF, CHR 0xB7,
       CHR 0xE6, CHR 0xB1, CHR 0x82]
      else [CHR 0xE5, CHR 0xBC, CHR 0x80, CHR 0xE5, CHR 0xA7, CHR 0x8B, CHR 0xE5, CHR 0x90, CHR 0x91] @ '' CPA '' @ [CHR 0xE5, CHR 0x8F, CHR 0x91,
       CHR 0xE9, CHR 0x80, CHR 0x81, CHR 0xE8, CHR 0xAF, CHR 0xB7, CHR 0xE6, CHR 0xB1, CHR 0x82])"

section \<open>Figures\<close>

definition OverviewMetrics :: "render_env \<Rightarrow> Status \<Rightarrow> MetricsSnapshot option \<Rightarrow> MetricsWindow \<Rightarrow> 'e node" where
  "OverviewMetrics env status metrics window =
     (let looks = [(''Activity'', ''active''), (''RotateCcw'', ''warning''), (''ShieldCheck'', ''success''), (''Clock'', ''active''), (''TriangleAlert'', ''danger'')]
      in El ''section'' [(''className'', AStr ''overview-metrics''), (''aria-label'', AStr (label env ''overview:cockpit.title''))] []
        (map (\<lambda>((key, v), (name, tone)).
             let live = key \<in> set [''active'', ''recovering'']
             in ctag ''article'' (''metric-card tone-'' @ tone)
               [tag ''header'' [tag ''span'' [Txt (label_or env (''overview:stats.'' @ key) (if key = ''recoveryTime'' then recovery_fallback else key))], tag ''i'' [icon name]],
                ctag ''div'' ''metric-reading'' [tag ''strong'' [Txt v],
                  ctag ''span'' (if live then ''live'' else [])
                    [Txt (if live then label env ''overview:stats.live'' else label env (''overview:charts.windows.'' @ window_string window))]]])
           (zip (overview_items dash status metrics) looks)))"

section \<open>The topology\<close>

definition topology_labels :: "render_env \<Rightarrow> SignalTopologyLabels" where
  "topology_labels env =
     (let t = (\<lambda>key. label env (''overview:signal.'' @ key)); s = (\<lambda>key. (key, label env (''common:status.'' @ key)))
      in \<lparr>stl_ariaLabel = t ''topologyLabel'', stl_codex = t ''codex'', stl_relay = t ''relay'', stl_cpa = t ''cpa'', stl_healthy = t ''healthy'',
          stl_degraded = t ''degraded'', stl_unknown = t ''unknown'', stl_active = t ''active'', stl_waiting = t ''waiting'', stl_nextRetry = t ''nextRetry'',
          stl_retryNow = t ''retryNow'', stl_staticFallback = t ''staticFallback'',
          stl_stateLabels = Some [s ''requesting'', s ''waiting'', s ''queued'', s ''running'']\<rparr>)"

definition state_label :: "SignalTopologyLabels \<Rightarrow> string \<Rightarrow> string" where
  "state_label labels state = or_string (Option.bind (stl_stateLabels labels) (\<lambda>m. map_of m state)) state"

definition flow_card :: "SignalTopologyLabels \<Rightarrow> (string \<Rightarrow> 'e) \<Rightarrow> string option \<Rightarrow> RequestInfo \<Rightarrow> 'e node" where
  "flow_card labels onSelect selectedId r =
     button (''request-flow-card state-'' @ req_state r @ (if selectedId = Some (req_id r) then '' selected'' else []))
       [(''aria-label'', AStr (req_method r @ '' '' @ req_path r @ dot @ state_label labels (req_state r)))] (onSelect (req_id r))
       [ctag ''div'' ''card-top'' [tag ''code'' [Txt (take 8 (req_id r))], ctag ''i'' (''status-indicator '' @ req_state r) []],
        ctag ''div'' ''card-bottom'' [tag ''strong'' [Txt (req_path r)], tag ''small'' [Txt (req_method r), Txt dot, Txt (state_label labels (req_state r))]]]"

text \<open>A click on the scene beside the cards selects nothing.\<close>

definition SignalTopology ::
  "render_env \<Rightarrow> SignalTopologyLabels \<Rightarrow> (string \<Rightarrow> 'e) \<Rightarrow> TopologySnapshot \<Rightarrow> RequestInfo list \<Rightarrow> RenderState \<Rightarrow> string option \<Rightarrow> 'e node" where
  "SignalTopology env labels onSelect snapshot requests rs selectedId =
     (let state = tsn_upstreamState snapshot; visible = visibleRequests requests;
          entry = (\<lambda>name v. tag ''div'' [tag ''dt'' [Txt name], tag ''dd'' v]);
          count = (\<lambda>n. [Txt (int_string (safeCount (Num (of_int n))))])
      in El ''section'' [(''className'', AStr (join_with '' '' (topology_classes snapshot rs selectedId []))), (''aria-label'', AStr (stl_ariaLabel labels))]
          [(''onClick'', \<lambda>_. onSelect [])]
        ([El ''div'' [(''className'', AStr ''signal-topology__scene''), (''aria-hidden'', AStr ''true'')] [] [],
          ctag ''ol'' ''signal-topology__nodes''
            (map (\<lambda>(name, text). ctag ''li'' (''signal-topology__node signal-topology__node--'' @ name) [tag ''strong'' [Txt text]])
               [(''codex'', stl_codex labels), (''relay'', stl_relay labels), (''cpa'', stl_cpa labels)])] @
         when_shown (visible \<noteq> [])
           [El ''div'' [(''className'', AStr ''signal-topology__request-stack''), (''aria-label'', AStr (stl_active labels))] []
              (map (flow_card labels onSelect selectedId) visible @
               when_shown (overflow_count requests > 0) [ctag ''span'' ''request-flow-overflow'' [Txt ''+'', Txt (nat_string (overflow_count requests))]])] @
         [ctag ''div'' ''signal-topology__summary''
            [El ''span'' [(''className'', AStr (''signal-topology__state signal-topology__state--'' @ upstream_string state)), (''role'', AStr ''status'')] []
               [Txt (stateLabel labels state)],
             ctag ''dl'' ''signal-topology__metrics''
               ([entry (stl_active labels) (count (tsn_active snapshot)), entry (stl_waiting labels) (count (tsn_waiting snapshot))] @
                when_shown (truthy_string (tsn_nextRetryAt snapshot))
                  (let due = nullish (tsn_nextRetryAt snapshot) []
                   in [entry (stl_nextRetry labels) [El ''time'' [(''dateTime'', AStr due)] []
                        [Txt (formatRetry (en_ms_of env) (\<lambda>ms. en_clock env (en_locale env) (Some ms)) (en_now env) (stl_retryNow labels) due)]]]))]] @
         when_shown (rs = Render_fallback) [ctag ''p'' ''signal-topology__fallback'' [Txt (stl_staticFallback labels)]]))"

section \<open>The priority panel\<close>

record 'e panel_events =
  pe_open :: "string \<Rightarrow> 'e"
  pe_clear :: 'e
  pe_incidents :: 'e

definition TimelineEventIcon :: "string \<Rightarrow> string" where
  "TimelineEventIcon type =
     (if type = ''completed'' then ''CheckCircle2''
      else if type = ''attempt_failed'' \<or> type = ''delivery_failed'' then ''XCircle''
      else if type = ''waiting'' then ''Clock3''
      else if type = ''retry_resumed'' \<or> type = ''retry_requested'' then ''RotateCcw''
      else if type = ''risk_warning'' then ''ShieldAlert''
      else if type = ''canceled'' \<or> type = ''cancel_requested'' then ''Ban''
      else if type = ''attempt_started'' then ''Send'' else ''Inbox'')"

definition priority_text :: "priority_state \<Rightarrow> string" where
  "priority_text s = (case s of Pri_request \<Rightarrow> ''request'' | Pri_paused \<Rightarrow> ''paused'' | Pri_incident \<Rightarrow> ''incident'' | Pri_waiting \<Rightarrow> ''waiting''
     | Pri_alert \<Rightarrow> ''alert'' | Pri_stable \<Rightarrow> ''stable'')"

definition priority_entry :: "render_env \<Rightarrow> string \<Rightarrow> 'e node list \<Rightarrow> 'e node" where
  "priority_entry env key cs = tag ''div'' [tag ''dt'' [Txt (label env (''overview:priority.'' @ key))], tag ''dd'' cs]"

definition priority_message :: "render_env \<Rightarrow> string \<Rightarrow> string \<Rightarrow> string \<Rightarrow> 'e node" where
  "priority_message env c name key =
     ctag ''div'' c [ctag ''span'' ''priority-icon'' [icon name], tag ''strong'' [Txt (label env (''overview:priority.'' @ key @ ''Headline''))],
       tag ''p'' [Txt (label env (''overview:priority.'' @ key @ ''Description''))]]"

definition timeline_link :: "render_env \<Rightarrow> 'e \<Rightarrow> 'e node" where
  "timeline_link env e = button ''priority-link'' [] e [Txt (label env ''common:actions.openTimeline''), icon ''ArrowUpRight'']"

fun section_node :: "render_env \<Rightarrow> 'e panel_events \<Rightarrow> priority_input \<Rightarrow> priority_section \<Rightarrow> 'e node" where
  "section_node env ev p (Sec_timeline r) =
     ctag ''div'' ''priority-timeline-embedded''
       ([ctag ''div'' ''timeline-summary'' [named_value env ''requests:timeline.attempts'' (int_string (req_attempt r)),
           named_value env ''requests:timeline.duration'' (duration_text env (req_startedAt r) (Some (req_updatedAt r)))],
         ctag ''div'' ''timeline-list''
           (map (\<lambda>event. ctag ''div'' (''timeline-event '' @ gev_type event)
                [ctag ''span'' ''event-icon'' [icon (TimelineEventIcon (gev_type event))],
                 tag ''div'' (ctag ''div'' ''event-heading'' [tag ''strong'' [Txt (gev_message event)], tag ''time'' [Txt (time_text env (gev_time event))]] #
                   (case gev_attempt event of
                      None \<Rightarrow> []
                    | Some n \<Rightarrow> if n = 0 then [Txt ''0''] else [ctag ''div'' ''event-meta'' [Txt (label_with env ''common:time.attempt'' [(''count'', int_string n)])]]))])
              (generatedEvents (\<lambda>key. label_or env key (event_fallback key)) (Some r)))] @
        when_shown (truthy_string (req_lastError r))
          [ctag ''div'' ''safe-error-detail'' [tag ''strong'' [Txt (or_string (req_lastErrorCode r) ''ERROR'')], tag ''p'' [Txt (nullish (req_lastError r) [])]]])"
| "section_node env ev p Sec_paused = priority_message env ''priority-stable priority-paused'' ''CirclePause'' ''paused''"
| "section_node env ev p (Sec_incident i) =
     (let state = incident_state_string (inc_state i)
      in ctag ''article'' (''priority-incident state-'' @ state)
        ([ctag ''span'' ''priority-icon'' [icon ''ShieldAlert''],
          ctag ''div'' ''priority-copy'' [tag ''span'' [Txt (label env (''incidents:state.'' @ state))],
            tag ''strong'' [Txt (label env ''overview:priority.incidentHeadline'')], tag ''code'' [Txt (inc_id i)]],
          ctag ''dl'' ''priority-metrics''
            [priority_entry env ''affected'' [Txt (nat_string (length (inc_affectedRequests i)))],
             priority_entry env ''attempts'' [Txt (int_string (inc_failedAttempts i))],
             priority_entry env ''lastFailure'' [Txt (age_text env (inc_lastFailureAt i))]]] @
         when_shown (pri_categories p \<noteq> [])
           [El ''div'' [(''className'', AStr ''priority-categories''), (''aria-label'', AStr (label env ''overview:priority.categories''))] []
              (map (\<lambda>(c, n). tag ''span'' [Txt (label_or env (''overview:errorCategories.'' @ c) c), tag ''b'' [Txt (int_string n)]]) (pri_categories p))] @
         [El ''a'' [(''className'', AStr ''priority-link''), (''href'', AStr ''#/incidents'')] [(''onClick'', \<lambda>_. pe_incidents ev)]
            [Txt (label env ''overview:priority.openIncidents''), icon ''ArrowUpRight'']]))"
| "section_node env ev p (Sec_request r) =
     ctag ''article'' ''priority-request''
       [ctag ''span'' ''priority-icon'' [icon ''ListTree''],
        ctag ''div'' ''priority-copy'' [tag ''span'' [Txt (label env ''overview:priority.latestRequest'')],
          tag ''strong'' [Txt (req_method r), Txt '' '', Txt (req_path r)], tag ''code'' [Txt (req_id r)]],
        ctag ''dl'' ''priority-metrics''
          [priority_entry env ''requestState'' [status_mark env (req_state r)], priority_entry env ''attempts'' [Txt (int_string (req_attempt r))],
           priority_entry env ''started'' [Txt (age_text env (req_startedAt r))]],
        timeline_link env (pe_open ev (req_id r))]"
| "section_node env ev p (Sec_alert a) =
     ctag ''article'' ''priority-request priority-alert''
       ([ctag ''span'' ''priority-icon'' [icon ''TriangleAlert''],
         ctag ''div'' ''priority-copy'' [tag ''span'' [Txt (label env ''overview:priority.alert'')], tag ''strong'' [Txt (alert_message a)], tag ''code'' [Txt (alert_id a)]]] @
        when_shown (truthy_string (alert_requestId a)) [timeline_link env (pe_open ev (nullish (alert_requestId a) []))])"
| "section_node env ev p Sec_stable = priority_message env ''priority-stable'' ''ShieldCheck'' ''stable''"

definition OverviewPriorityPanel :: "render_env \<Rightarrow> 'e panel_events \<Rightarrow> string \<Rightarrow> priority_input \<Rightarrow> 'e node" where
  "OverviewPriorityPanel env ev idSuffix p =
     (let state = priority_text (pri_state p); titleId = ''priority-title-'' @ idSuffix; alerts = pri_activeAlerts p
      in El ''section'' [(''className'', AStr (''overview-priority glass-panel-floating priority-mode-'' @ state)), (''aria-labelledby'', AStr titleId)] []
        [ctag ''header'' ''priority-heading''
           (case pri_selected p of
              Some r \<Rightarrow>
                [tag ''div'' [ctag ''span'' ''panel-kicker'' [Txt (label env ''overview:priority.latestRequest'')],
                   El ''h2'' [(''id'', AStr titleId)] [] [Txt (req_method r @ '' '' @ req_path r)]],
                 tag ''div'' [ctag ''span'' (''status '' @ req_state r) [tag ''i'' [], Txt (label_or env (''common:status.'' @ req_state r) (req_state r))],
                   button ''icon-button'' [(''aria-label'', AStr ''Close'')] (pe_clear ev) [icon ''X'']]]
            | None \<Rightarrow>
                [tag ''div'' [ctag ''span'' ''panel-kicker'' [Txt (label env ''overview:priority.kicker'')],
                   El ''h2'' [(''id'', AStr titleId)] [] [Txt (label env ''overview:priority.title'')]],
                 tag ''div'' [ctag ''span'' (''priority-state state-'' @ state) [tag ''i'' [], Txt (label env (''overview:priority.'' @ state))]]]),
         ctag ''div'' ''priority-body'' (map (section_node env ev p) (priority_body p)),
         ctag ''footer'' ''priority-alerts''
           ([ctag ''div'' ''priority-advice'' [tag ''span'' [icon ''Lightbulb'', Txt (label env ''overview:priority.adviceTitle'')],
               tag ''p'' [Txt (label env (''overview:priority.advice.'' @ state))], tag ''small'' [Txt (label env ''overview:priority.ruleBased'')]],
             ctag ''div'' ''priority-alerts-heading'' [tag ''span'' [Txt (label env ''overview:priority.alerts'')], tag ''b'' [Txt (nat_string (length alerts))]]] @
            (if alerts \<noteq> []
             then map (\<lambda>a. tag ''article'' [icon ''TriangleAlert'', tag ''div'' [tag ''strong'' [Txt (alert_message a)],
                 El ''time'' [(''dateTime'', AStr (alert_createdAt a))] [] [Txt (local_time_text env (alert_createdAt a))]]]) alerts
             else [tag ''p'' [Txt (label env ''overview:alerts.empty'')]]))])"

lemma section_offered: "offered (section_node env ev p s) \<subseteq> range (pe_open ev) \<union> {pe_incidents ev}"
  by (cases s) (auto simp: priority_message_def priority_entry_def timeline_link_def Let_def split_beta split: option.splits if_splits)

lemma panel_offered_events: "offered (OverviewPriorityPanel env ev idSuffix p) \<subseteq> range (pe_open ev) \<union> {pe_incidents ev, pe_clear ev}"
proof -
  have "(\<Union>s \<in> set (priority_body p). offered (section_node env ev p s)) \<subseteq> range (pe_open ev) \<union> {pe_incidents ev}"
    using section_offered [of env ev p] by blast
  then show ?thesis by (auto simp: OverviewPriorityPanel_def Let_def split: option.splits if_splits)
qed

lemma topology_offered: "offered (SignalTopology env labels onSelect snapshot requests rs selectedId) \<subseteq> range onSelect"
  by (auto simp: SignalTopology_def flow_card_def Let_def split: if_splits)

section \<open>Health\<close>

datatype overview_effect =
    OV_select string
  | OV_health HealthComponent
  | OV_closeHealth
  | OV_open string
  | OV_clear
  | OV_incidents
  | OV_charts chart_effect

definition health_value :: "number_env \<Rightarrow> string \<Rightarrow> json \<Rightarrow> string" where
  "health_value ne key v = formatHealthValue (ne_compact ne) (ne_decimals ne) (ne_string ne) [CHR 0xE2, CHR 0x9C, CHR 0x93] [CHR 0xC3, CHR 0x97] key (Some v)"

definition detail_label :: "render_env \<Rightarrow> string \<Rightarrow> string" where
  "detail_label env key = label_or env (''overview:health.details.'' @ key) key"

definition plain_value :: "json \<Rightarrow> bool" where
  "plain_value v = (case v of JNum _ \<Rightarrow> True | JStr _ \<Rightarrow> True | _ \<Rightarrow> False)"

definition component_label :: "render_env \<Rightarrow> HealthComponent \<Rightarrow> string" where
  "component_label env c = label_or env (''overview:health.components.'' @ healthKey (hc_name c)) (hc_name c)"

definition health_state :: "render_env \<Rightarrow> string \<Rightarrow> string" where
  "health_state env state = label_or env (''common:health.'' @ state) state"

definition health_item :: "render_env \<Rightarrow> number_env \<Rightarrow> HealthComponent \<Rightarrow> overview_effect node" where
  "health_item env ne c =
     button (''health-summary-item '' @ (if hc_healthy c then ''healthy'' else ''degraded'')) [] (OV_health c)
       ([tag ''span'' [tag ''i'' [], Txt (component_label env c)], tag ''strong'' [Txt (health_state env (hc_state c))]] @
        (case hc_details c of
           None \<Rightarrow> []
         | Some details \<Rightarrow> [tag ''small'' (text_of (join_with dot
             (map (\<lambda>(key, v). detail_label env key @ '': '' @ health_value ne key v) (take 2 (filter (\<lambda>(key, v). plain_value v) details)))))]))"

definition health_panel :: "render_env \<Rightarrow> number_env \<Rightarrow> HealthSummary \<Rightarrow> overview_effect node" where
  "health_panel env ne h =
     El ''section'' [(''className'', AStr (''health-summary-panel '' @ hs_overall h)), (''aria-labelledby'', AStr ''health-summary-title'')] []
       ([ctag ''div'' ''section-heading''
           [tag ''div'' [ctag ''span'' ''section-kicker'' [Txt (label env ''overview:health.kicker'')],
              El ''h2'' [(''id'', AStr ''health-summary-title'')] [] [Txt (label env ''overview:health.title'')],
              tag ''p'' [Txt (label_with env ''overview:health.updated'' [(''time'', local_time_text env (hs_generatedAt h))])]],
            ctag ''span'' (''status '' @ hs_overall h) [Txt (health_state env (hs_overall h))]],
         ctag ''div'' ''health-summary-grid'' (map (health_item env ne) (hs_components h))] @
        when_shown (nullish (hs_actions h) [] \<noteq> [])
          [ctag ''div'' ''health-summary-actions''
             (map (\<lambda>a. tag ''span'' [Txt (label_or env (''overview:health.actions.'' @ a) a)]) (nullish (hs_actions h) []))])"

definition figure_pair :: "string \<Rightarrow> string \<Rightarrow> 'e node" where
  "figure_pair name v = tag ''div'' [tag ''span'' [Txt name], tag ''strong'' [Txt v]]"

definition slo_strip :: "render_env \<Rightarrow> HealthSummary option \<Rightarrow> 'e node list" where
  "slo_strip env summary =
     (case find_component summary ''slo'' of
        None \<Rightarrow> []
      | Some slo \<Rightarrow> (case hc_details slo of
          None \<Rightarrow> []
        | Some d \<Rightarrow> [El ''section'' [(''className'', AStr (''slo-overview-strip '' @ (if hc_healthy slo then ''healthy'' else ''degraded''))),
              (''aria-label'', AStr (label env ''overview:slo.title''))] []
            [figure_pair (label env ''overview:health.details.availability'') (formatRatio (prop_of d ''availability'')),
             figure_pair (label env ''overview:health.details.errorBudgetRemaining'') (formatRatio (prop_of d ''errorBudgetRemaining'')),
             figure_pair (label env ''overview:health.details.burnRate'') (formatNumber (prop_of d ''burnRate'') @ ''x''),
             figure_pair (label env ''overview:health.components.slo'') (health_state env (hc_state slo))]]))"

definition health_drawer :: "render_env \<Rightarrow> number_env \<Rightarrow> HealthComponent \<Rightarrow> overview_effect node" where
  "health_drawer env ne c =
     El ''div'' [(''className'', AStr ''health-detail-backdrop''), (''role'', AStr ''presentation'')] [(''onMouseDown'', \<lambda>_. OV_closeHealth)]
       [El ''aside'' [(''tabIndex'', AInt (- 1)), (''className'', AStr ''health-detail-drawer''), (''role'', AStr ''dialog''), (''aria-modal'', ABool True),
           (''aria-labelledby'', AStr ''health-detail-title'')] []
         [tag ''header'' [tag ''div'' [tag ''span'' [Txt (label env ''overview:health.kicker'')],
              El ''h2'' [(''id'', AStr ''health-detail-title'')] [] [Txt (component_label env c)]],
            button ''icon-button'' [(''aria-label'', AStr (label env ''common:actions.close''))] OV_closeHealth [icon ''X'']],
          tag ''dl'' (map (\<lambda>(key, v). tag ''div'' [tag ''dt'' [Txt (detail_label env key)], tag ''dd'' [Txt (health_value ne key v)]]) (nullish (hc_details c) []))]]"

definition rate_strip :: "render_env \<Rightarrow> MetricsSnapshot \<Rightarrow> 'e node" where
  "rate_strip env m =
     (let totals = msnap_totals m; t = (\<lambda>key. label env (''overview:health.'' @ key))
      in El ''section'' [(''className'', AStr ''operational-rate-strip''), (''aria-label'', AStr (t ''ratesTitle''))] []
        [figure_pair (t ''retryAmplification'') (retry_amplification totals), figure_pair (t ''failoverRate'') (failover_rate totals),
         figure_pair (t ''uncertain'') (int_string (msnap_totals_uncertain totals)),
         figure_pair (t ''persistenceFailures'') (int_string (msnap_totals_persistenceFailures totals)),
         figure_pair (t ''captureFailures'') (int_string (msnap_totals_captureFailures totals))])"

definition control_card :: "render_env \<Rightarrow> string \<Rightarrow> string \<Rightarrow> string \<Rightarrow> (string \<times> string) list \<Rightarrow> 'e node list \<Rightarrow> 'e node" where
  "control_card env c key v entries footer =
     ctag ''article'' (''overview-control-card '' @ c)
       ([tag ''header'' [tag ''span'' [Txt (label env (''overview:control.'' @ key))], tag ''strong'' [Txt v]],
         tag ''dl'' (map (\<lambda>(name, x). tag ''div'' [tag ''dt'' [Txt (label env (''overview:control.'' @ name))], tag ''dd'' [Txt x]]) entries)] @ footer)"

definition uncertain_card :: "render_env \<Rightarrow> number_env \<Rightarrow> HealthSummary option \<Rightarrow> Status \<Rightarrow> 'e node" where
  "uncertain_card env ne summary status =
     (let count = uncertainOpen summary status; age = (\<lambda>key. case health_detail (find_component summary ''uncertain-delivery'') key of
            Some x \<Rightarrow> overview_age (ne_hours ne) x | None \<Rightarrow> label env ''common:notAvailable'')
      in control_card env (''uncertain'' @ (if count > 0 then '' warning'' else '' healthy'')) ''uncertain'' (en_number env count)
           [(''uncertainOldest'', age ''oldestSeconds''), (''uncertainTarget'', age ''targetSeconds'')]
           [tag ''small'' [Txt (if count > 0 then label env ''overview:control.uncertainOpen'' else label env ''overview:control.uncertainClear'')]])"

definition governance_card :: "render_env \<Rightarrow> GovernanceStatus option \<Rightarrow> 'e node" where
  "governance_card env g =
     (let t = (\<lambda>key. label env (''overview:control.'' @ key)); missing = label env ''common:notAvailable'';
          soft = (case g of None \<Rightarrow> False | Some s \<Rightarrow> gov_softThreshold s)
      in control_card env (''governance'' @ (if soft then '' warning'' else [])) ''governance''
           (case g of None \<Rightarrow> t ''unavailable'' | Some s \<Rightarrow> if gov_mode s = ''enforce'' then t ''enforce'' else t ''observe'')
           [(''governancePrincipals'', case g of None \<Rightarrow> missing | Some s \<Rightarrow> int_string (gov_principals s)),
            (''governanceReservations'', case g of None \<Rightarrow> missing | Some s \<Rightarrow> int_string (gov_reservations s)),
            (''governanceThreshold'', case g of None \<Rightarrow> missing | Some s \<Rightarrow> if gov_softThreshold s then t ''active'' else t ''clear''),
            (''governanceForecast'', case Option.bind g gov_estimatedExhaustionMinutes of
               Some x \<Rightarrow> if x > 0 then label_with env ''overview:control.forecastMinutes'' [(''minutes'', signed_fixed 1 x)] else t ''forecastUnavailable''
             | None \<Rightarrow> t ''forecastUnavailable'')] [])"

definition adaptive_card :: "render_env \<Rightarrow> PolicyStatus option \<Rightarrow> 'e node" where
  "adaptive_card env p =
     (let t = (\<lambda>key. label env (''overview:control.'' @ key)); missing = label env ''common:notAvailable'';
          stopped = (case p of None \<Rightarrow> False | Some s \<Rightarrow> pst_adaptiveStopped s)
      in control_card env (''adaptive'' @ (if stopped then '' warning'' else [])) ''adaptive''
           (case p of None \<Rightarrow> t ''unavailable'' | Some s \<Rightarrow> if pst_adaptiveStopped s then t ''stopped'' else t ''running'')
           [(''adaptiveSwitches'', case p of None \<Rightarrow> missing | Some s \<Rightarrow> int_string (pst_adaptiveSwitches s)),
            (''adaptiveTarget'', or_string (Option.bind p pst_adaptiveLastTargetId) missing),
            (''adaptiveScore'', case Option.bind p pst_adaptiveLastScore of Some x \<Rightarrow> signed_fixed 3 x | None \<Rightarrow> missing)]
           [tag ''small'' [Txt (case p of
              None \<Rightarrow> t ''unavailable''
            | Some s \<Rightarrow> if pst_adaptiveStopped s then label_with env ''overview:control.stoppedReason'' [(''reason'', or_string (pst_adaptiveStopReason s) missing)]
                else t ''runningDescription'')]])"

section \<open>The view\<close>

record overview_data =
  od_status :: Status
  od_health :: "HealthSummary option"
  od_metrics :: "MetricsSnapshot option"
  od_errors :: "MetricsErrors option"
  od_alerts :: "Alert list"
  od_incidents :: "Incident list"
  od_window :: MetricsWindow
  od_incident :: bool
  od_governance :: "GovernanceStatus option"
  od_policy :: "PolicyStatus option"

record overview_view =
  ov_selected :: "string option"
  ov_component :: "HealthComponent option"
  ov_render :: RenderState
  ov_load :: LoadState
  ov_deck :: chart_deck

text \<open>The input of the priority panel for a selection.\<close>

definition panel_input :: "overview_data \<Rightarrow> string option \<Rightarrow> priority_input" where
  "panel_input d selected = \<lparr>pri_alerts = od_alerts d, pri_incidents = od_incidents d, pri_requests = stat_requests (od_status d),
     pri_paused = stat_paused (od_status d), pri_selectedId = selected\<rparr>"

definition signal_state :: "Status_upstream_state \<Rightarrow> SignalUpstreamState" where
  "signal_state s = (case s of Status_upstream_state_Unknown \<Rightarrow> Signal_unknown | Status_upstream_state_Healthy \<Rightarrow> Signal_healthy
     | Status_upstream_state_Degraded \<Rightarrow> Signal_degraded)"

definition topology_snapshot :: "Status \<Rightarrow> TopologySnapshot" where
  "topology_snapshot status = \<lparr>tsn_upstreamState = signal_state (stat_upstream_state (stat_upstream status)), tsn_active = stat_active status,
     tsn_waiting = stat_waiting status, tsn_nextRetryAt = nextRetryAt (stat_requests status)\<rparr>"

definition overview_panel :: "overview_effect panel_events" where
  "overview_panel = \<lparr>pe_open = OV_open, pe_clear = OV_clear, pe_incidents = OV_incidents\<rparr>"

definition OverviewView ::
  "render_env \<Rightarrow> number_env \<Rightarrow> (js_num \<Rightarrow> string) \<Rightarrow> overview_data \<Rightarrow> string option \<Rightarrow> overview_view \<Rightarrow> overview_effect node" where
  "OverviewView env ne percent d selectedRequestId st =
     (let status = od_status d; current = current_selected (ov_selected st) selectedRequestId;
          state = upstream_state_text (stat_upstream_state (stat_upstream status))
      in ctag ''div'' ''overview-view''
        ([OverviewMetrics env status (od_metrics d) (od_window d),
          ctag ''div'' ''overview-health-band''
            ((case od_health d of None \<Rightarrow> [] | Some h \<Rightarrow> [health_panel env ne h]) @ slo_strip env (od_health d) @
             (case ov_component st of None \<Rightarrow> [] | Some c \<Rightarrow> [health_drawer env ne c]) @
             (case od_metrics d of None \<Rightarrow> [] | Some m \<Rightarrow> [rate_strip env m]) @
             [El ''section'' [(''className'', AStr ''overview-control-panel''), (''aria-label'', AStr (label env ''overview:control.title''))] []
                [uncertain_card env ne (od_health d) status, governance_card env (od_governance d), adaptive_card env (od_policy d)]]),
          ctag ''section'' (''signal-hero'' @ (if od_incident d then '' incident'' else []))
            [ctag ''div'' ''signal-hero-copy''
               [ctag ''span'' ''signal-kicker'' [icon ''RadioTower'', Txt (label env ''overview:signal.kicker'')],
                tag ''h2'' [Txt (label env (''overview:signal.'' @ state @ ''Title''))], tag ''p'' [Txt (label env (''overview:signal.'' @ state @ ''Description''))]],
             SignalTopology env (topology_labels env) OV_select (topology_snapshot status) (stat_requests status) (ov_render st) current,
             El ''div'' [(''className'', AStr ''signal-context''), (''aria-hidden'', AStr ''true'')] []
               [tag ''span'' [Txt (label env ''overview:incident.dominant'')],
                tag ''strong'' [Txt (case dominantError (od_errors d) of
                  None \<Rightarrow> label env ''overview:incident.stable''
                | Some e \<Rightarrow> if e = [] then label env ''overview:incident.stable'' else label_or env (''overview:errorCategories.'' @ e) e)]]],
          OverviewPriorityPanel env overview_panel ''main'' (panel_input d current)] @
         map (map_effect OV_charts)
           (OperationsCharts env percent (chart_labels env) (chart_props env (od_metrics d) (od_errors d)) ''overview-chart-system'' (ov_load st) (ov_deck st))))"

text \<open>
  What an effect does: first to the selection that the console keeps, to which the view reports
  the requests that are opened, then to the view.
\<close>

fun ov_apply :: "overview_effect \<Rightarrow> string option \<times> overview_view \<Rightarrow> string option \<times> overview_view" where
  "ov_apply (OV_select ident) (app, st) = (Some (snd (select_request ident)), st\<lparr>ov_selected := fst (select_request ident)\<rparr>)"
| "ov_apply (OV_open ident) (app, st) = (Some ident, st)"
| "ov_apply OV_clear (app, st) = (app, st\<lparr>ov_selected := None\<rparr>)"
| "ov_apply (OV_health c) (app, st) = (app, st\<lparr>ov_component := Some c\<rparr>)"
| "ov_apply OV_closeHealth (app, st) = (app, st\<lparr>ov_component := None\<rparr>)"
| "ov_apply (OV_charts e) (app, st) = (app, st\<lparr>ov_deck := chart_apply e (ov_deck st)\<rparr>)"
| "ov_apply OV_incidents (app, st) = (app, st)"

definition main_panel :: "overview_data \<Rightarrow> string option \<times> overview_view \<Rightarrow> priority_input" where
  "main_panel d s = panel_input d (current_selected (ov_selected (snd s)) (fst s))"

lemma health_part_offered [simp]:
  "offered (health_drawer env ne c) = {OV_closeHealth}" "offered_all (slo_strip env summary) = {}" "offered (rate_strip env m) = {}"
  "offered (control_card env cl key v entries footer) = offered_all footer" "offered (health_item env ne c) = {OV_health c}"
  "offered (OverviewMetrics env status metrics window) = {}"
  by (auto simp: health_drawer_def slo_strip_def rate_strip_def control_card_def health_item_def OverviewMetrics_def figure_pair_def Let_def split_beta
      split: option.split)

lemma health_panel_offered [simp]: "offered (health_panel env ne h) = OV_health ` set (hs_components h)"
  by (auto simp: health_panel_def)

lemma card_none_offered [simp]:
  "offered (uncertain_card env ne summary status) = {}" "offered (governance_card env g) = {}" "offered (adaptive_card env p) = {}"
  by (simp_all add: uncertain_card_def governance_card_def adaptive_card_def Let_def)

lemma overview_offered:
  "offered (OverviewView env ne percent d selectedRequestId st) \<subseteq>
     range OV_select \<union> range OV_health \<union> range OV_open \<union> range OV_charts \<union> {OV_closeHealth, OV_clear, OV_incidents}"
proof -
  let ?panel = "OverviewPriorityPanel env overview_panel ''main'' (panel_input d (current_selected (ov_selected st) selectedRequestId))"
  let ?top = "SignalTopology env (topology_labels env) OV_select (topology_snapshot (od_status d)) (stat_requests (od_status d)) (ov_render st)
      (current_selected (ov_selected st) selectedRequestId)"
  have "offered ?panel \<subseteq> range OV_open \<union> {OV_incidents, OV_clear}"
    using panel_offered_events [of env overview_panel] by (simp add: overview_panel_def)
  moreover have "offered ?top \<subseteq> range OV_select" by (rule topology_offered)
  moreover have "offered (OverviewView env ne percent d selectedRequestId st) \<subseteq>
      offered ?panel \<union> offered ?top \<union> range OV_health \<union> {OV_closeHealth} \<union> range OV_charts"
    by (auto simp: OverviewView_def Let_def split: option.splits)
  ultimately show ?thesis by blast
qed

lemma selected_found:
  assumes "r \<in> set (stat_requests (od_status d))" "req_id r \<noteq> []"
  shows "map_option req_id (pri_selected (panel_input d (Some (req_id r)))) = Some (req_id r)"
proof -
  let ?find = "find (\<lambda>x. req_id x = req_id r) (stat_requests (od_status d))"
  have "?find \<noteq> None" using assms(1) by (auto simp: find_None_iff)
  then obtain q where q: "?find = Some q" by blast
  have "req_id q = req_id r" using q by (auto simp: find_Some_iff)
  moreover have "pri_selected (panel_input d (Some (req_id r))) = Some q"
    using q assms(2) by (simp add: pri_selected_def panel_input_def truthy_string_def)
  ultimately show ?thesis by simp
qed

section \<open>Properties\<close>

text \<open>
  Claim C40: the close button of the priority panel in the overview does not close. Once a request
  was chosen in the topology, the panel shows it and offers the button, and after any number
  of presses of that button the panel still shows it, because the button clears the selection of the
  view and not the copy that the console was told; the close button of the panel beside the
  view clears only that copy, and the view still shows the request.
\<close>

theorem priority_close_stuck:
  assumes "r \<in> set (stat_requests (od_status d))" "req_id r \<noteq> []"
  shows "let chosen = ov_apply (OV_select (req_id r)) s; pressed = (ov_apply OV_clear ^^ n) chosen
     in map_option req_id (pri_selected (main_panel d pressed)) = Some (req_id r) \<and>
        OV_clear \<in> offered (OverviewView env ne percent d (fst pressed) (snd pressed)) \<and>
        map_option req_id (pri_selected (main_panel d (None, snd chosen))) = Some (req_id r)"
proof -
  define chosen where "chosen = ov_apply (OV_select (req_id r)) s"
  define pressed where "pressed = (ov_apply OV_clear ^^ n) chosen"
  obtain q where q: "pri_selected (panel_input d (Some (req_id r))) = Some q" "req_id q = req_id r"
    using selected_found [OF assms] by auto
  have start: "chosen = (Some (req_id r), (snd s)\<lparr>ov_selected := Some (req_id r)\<rparr>)"
    using assms(2) by (cases s) (simp add: chosen_def select_request_def)
  have "(ov_apply OV_clear ^^ k) (app, v) = (app, if k = 0 then v else v\<lparr>ov_selected := None\<rparr>)" for k app v
    by (induction k) auto
  then have later: "current_selected (ov_selected (snd pressed)) (fst pressed) = Some (req_id r)"
    using assms(2) by (simp add: pressed_def start current_selected_def truthy_string_def)
  have "OV_clear \<in> offered (OverviewView env ne percent d (fst pressed) (snd pressed))"
    using q(1) by (simp add: OverviewView_def later Let_def OverviewPriorityPanel_def overview_panel_def)
  moreover have "map_option req_id (pri_selected (main_panel d pressed)) = Some (req_id r)"
    using q by (simp add: main_panel_def later)
  moreover have "map_option req_id (pri_selected (main_panel d (None, snd chosen))) = Some (req_id r)"
    using q assms(2) by (simp add: main_panel_def start current_selected_def truthy_string_def)
  ultimately show ?thesis by (simp add: Let_def chosen_def pressed_def)
qed

definition quiet_overview :: overview_data where
  "quiet_overview = \<lparr>od_status = empty_status, od_health = None, od_metrics = None, od_errors = None, od_alerts = [], od_incidents = [],
     od_window = MetricsWindow_1h, od_incident = False, od_governance = None, od_policy = None\<rparr>"

definition new_overview :: overview_view where
  "new_overview = \<lparr>ov_selected = None, ov_component = None, ov_render = Render_loading, ov_load = Load_loading,
     ov_deck = \<lparr>dk_secondary = Chart_pressure, dk_manual = False, dk_expanded = Expand_none\<rparr>\<rparr>"

theorem priority_close_stuck_witness:
  "waiting_request \<in> set (stat_requests (od_status quiet_overview)) \<and> req_id waiting_request \<noteq> [] \<and>
   map_option req_id (pri_selected (main_panel quiet_overview
     (ov_apply OV_clear (ov_apply (OV_select (req_id waiting_request)) (None, new_overview))))) = Some (req_id waiting_request)"
proof -
  have known: "waiting_request \<in> set (stat_requests (od_status quiet_overview))" "req_id waiting_request \<noteq> []"
    by (simp_all add: quiet_overview_def empty_status_def waiting_request_def)
  show ?thesis
    using known priority_close_stuck [OF known, where s = "(None, new_overview)" and n = 1] by (simp add: Let_def)
qed

end
