(* ===== verification/ConsoleMarkup.thy ===== *)
theory ConsoleMarkup
  imports OverviewMarkup
begin

text \<open>
  The screen of the console: what \<open>App\<close> and \<open>Login\<close> of web/src/App.tsx draw, put together from the frame
  and the views, and the calls that each control can lead to. The settings view is drawn only
  for sessions that may operate; its tree is an argument, so that everything here holds for any.
\<close>

section \<open>Effects\<close>

datatype 's console_effect =
    CE_theme ThemeMode
  | CE_language string
  | CE_token string
  | CE_login string
  | CE_oidc
  | CE_reload
  | CE_view View
  | CE_jump View
  | CE_collapse
  | CE_logout
  | CE_tools
  | CE_openSearch
  | CE_searchFocus
  | CE_searchChange string
  | CE_searchKey search_key
  | CE_searchClear
  | CE_searchHover nat
  | CE_choose SearchResult
  | CE_bell
  | CE_incident Incident
  | CE_alert Alert
  | CE_window MetricsWindow
  | CE_refresh
  | CE_pause
  | CE_mode control_mode
  | CE_overview overview_effect
  | CE_inspect overview_effect
  | CE_requests requests_effect
  | CE_history history_effect
  | CE_incidents incidents_effect
  | CE_logs logs_effect
  | CE_captures captures_effect
  | CE_diagnostics diagnostics_effect
  | CE_settings 's
  | CE_closeTimeline
  | CE_answer bool
  | CE_none

section \<open>Signing in\<close>

record login_form =
  lg_token :: string
  lg_error :: string
  lg_busy :: bool
  lg_render :: RenderState

definition login_visual :: "render_env \<Rightarrow> RenderState \<Rightarrow> 's console_effect node" where
  "login_visual env rs =
     ctag ''section'' ''login-visual''
       [ctag ''div'' ''login-wordmark'' [ctag ''span'' ''rail-brand'' [icon ''HeartPulse''], tag ''span'' [Txt ''Relay-Lifeline'']],
        ctag ''div'' ''login-topology''
          [SignalTopology env ((topology_labels env)\<lparr>stl_stateLabels := None\<rparr>) (\<lambda>_. CE_none)
             \<lparr>tsn_upstreamState = Signal_unknown, tsn_active = 0, tsn_waiting = 0, tsn_nextRetryAt = None\<rparr> [] rs None],
        ctag ''div'' ''login-statement'' [tag ''h1'' [Txt ''Relay-Lifeline''], tag ''strong'' [Txt (label env ''auth:statement'')],
          tag ''p'' [Txt (label env ''auth:statementDetail'')]]]"

definition local_login :: "render_env \<Rightarrow> LoginOptions option \<Rightarrow> bool \<Rightarrow> login_form \<Rightarrow> 's console_effect node" where
  "local_login env options sessionExpired f =
     ctag ''form'' ''break-glass-login''
       ([tag ''strong'' [Txt (if (case options of None \<Rightarrow> False | Some o1 \<Rightarrow> lo_oidc_enabled (lo_oidc o1)) then label env ''auth:breakGlass'' else label env ''auth:localAccess'')],
         El ''input'' [(''className'', AStr ''sr-only''), (''type'', AStr ''text''), (''name'', AStr ''username''), (''value'', AStr ''relay-lifeline-admin''),
           (''autoComplete'', AStr ''username''), (''tabIndex'', AInt (- 1)), (''aria-hidden'', AStr ''true''), (''readOnly'', ABool True)] [] [],
         field (label env ''auth:adminKey'') [control_el ''input'' [(''name'', AStr ''admin-key''), (''type'', AStr ''password''), (''value'', AStr (lg_token f)),
           (''autoComplete'', AStr ''current-password''), (''autoFocus'', ABool True), (''required'', ABool True)] CE_token []]] @
        when_shown (lg_error f \<noteq> [] \<or> sessionExpired)
          [banner ''error-banner'' ''alert'' (or_string (Some (lg_error f)) (label env ''auth:sessionExpired''))] @
        [submit_button ''button primary'' (lg_busy f \<or> lg_token f = []) (CE_login (lg_token f))
           [icon ''ShieldCheck'', Txt (if lg_busy f then label env ''auth:verifying'' else label env ''auth:enter'')]])"

definition Login ::
  "render_env \<Rightarrow> LoginOptions option \<Rightarrow> ThemeMode \<Rightarrow> string option \<Rightarrow> bool \<Rightarrow> bool \<Rightarrow> login_form \<Rightarrow> 's console_effect node" where
  "Login env options themeMode language sessionExpired oidcFailed f =
     ctag ''main'' ''login-shell''
       [login_visual env (lg_render f),
        ctag ''section'' ''login-access''
          [ctag ''div'' ''login-language'' [LanguageSelector env CE_language language False, ThemeSelector env CE_theme themeMode True],
           ctag ''div'' ''login-panel''
             ([tag ''h2'' [Txt (label env ''auth:title'')], tag ''p'' [Txt (label env ''auth:description'')]] @
              (case options of
                 None \<Rightarrow> []
               | Some o1 \<Rightarrow> when_shown (lo_oidc_enabled (lo_oidc o1))
                   [button ''button primary oidc-login'' [(''disabled'', ABool (\<not> lo_oidc_available (lo_oidc o1)))] CE_oidc
                      [icon ''ShieldCheck'', Txt (if lo_oidc_available (lo_oidc o1) then label env ''auth:sso'' else label env ''auth:ssoUnavailable'')]]) @
              when_shown oidcFailed [banner ''error-banner'' ''alert'' (label env ''auth:ssoFailed'')] @
              when_shown (case options of None \<Rightarrow> True | Some o1 \<Rightarrow> lo_localEnabled o1) [local_login env options sessionExpired f])]]"

section \<open>The state that the screen is drawn from\<close>

text \<open>What \<open>App\<close> and the views keep beside the state of AppState.\<close>

record console_shell =
  sh_login :: login_form
  sh_collapsed :: bool
  sh_theme :: ThemeMode
  sh_language :: "string option"
  sh_window :: MetricsWindow
  sh_target :: "SearchTarget option"
  sh_overviewSelected :: "string option"
  sh_error :: bool
  sh_diagnosticBusy :: bool
  sh_search :: search_box
  sh_remote :: search_data
  sh_bell :: bool
  sh_failed :: bool
  sh_overview :: overview_view
  sh_requests :: requests_view
  sh_historyDraft :: ListFilters
  sh_historyLoad :: LoadState
  sh_historyDeck :: chart_deck
  sh_incidentDraft :: ListFilters
  sh_incidents :: incidents_view
  sh_logs :: logs_view
  sh_savedLogs :: "SavedLogFilter list"
  sh_captures :: captures_view

text \<open>What drawing asks of the browser.\<close>

record screen_env =
  sv_env :: render_env
  sv_numbers :: number_env
  sv_dates :: date_env
  sv_percent :: "js_num \<Rightarrow> string"
  sv_host :: "string \<Rightarrow> string option"
  sv_oidcFailed :: bool

text \<open>What the search looks through: the lists of the console and the last answers to its own calls.\<close>

definition search_sources :: "app \<Rightarrow> Status \<Rightarrow> Config \<Rightarrow> console_shell \<Rightarrow> search_data" where
  "search_sources a status config s =
     (sh_remote s)\<lparr>sd_upstream := upstream_baseUrl (cfg_upstream config), sd_requests := stat_requests status,
        sd_history := ls_history (app_lists a), sd_incidents := ls_incidents (app_lists a), sd_alerts := app_alerts a\<rparr>"

definition requests_pressure :: "MetricsSnapshot option \<Rightarrow> rat list" where
  "requests_pressure metrics =
     map (\<lambda>p. of_int (mpt_active p + mpt_waiting p + mpt_queued p)) (slice_last 30 (case metrics of None \<Rightarrow> [] | Some m \<Rightarrow> msnap_series m))"

definition request_list_data :: "app \<Rightarrow> Status \<Rightarrow> requests_data" where
  "request_list_data a status = requests_data.make status (requests_pressure (app_metrics a)) (app_repeatTasks a)"

definition target_id :: "search_kind \<Rightarrow> SearchTarget option \<Rightarrow> string option" where
  "target_id k target = (case target of Some t \<Rightarrow> if stgt_kind t = k then Some (stgt_id t) else None | None \<Rightarrow> None)"

definition overview_input :: "screen_env \<Rightarrow> app \<Rightarrow> Status \<Rightarrow> console_shell \<Rightarrow> overview_data" where
  "overview_input sv a status s =
     \<lparr>od_status = status, od_health = app_healthSummary a, od_metrics = app_metrics a, od_errors = app_metricErrors a, od_alerts = app_alerts a,
      od_incidents = ls_incidents (app_lists a), od_window = sh_window s,
      od_incident = incident_mode (en_ms_of (sv_env sv)) (en_now (sv_env sv)) status, od_governance = app_governanceStatus a, od_policy = app_policyStatus a\<rparr>"

definition history_input :: "app \<Rightarrow> console_shell \<Rightarrow> history_data" where
  "history_input a s =
     \<lparr>hd_records = ls_history (app_lists a), hd_draft = sh_historyDraft s, hd_metrics = app_metrics a, hd_errors = app_metricErrors a,
      hd_events = feed_events (app_feed a), hd_selected = sh_window s, hd_hasMore = ls_historyHasMore (app_lists a), hd_load = sh_historyLoad s,
      hd_deck = sh_historyDeck s\<rparr>"

text \<open>The view inside the error boundary; \<open>None\<close> when its drawing throws.\<close>

definition view_content :: "screen_env \<Rightarrow> app \<Rightarrow> Status \<Rightarrow> console_shell \<Rightarrow> 's node \<Rightarrow> 's console_effect node list option" where
  "view_content sv a status s settings =
     (let env = sv_env sv
      in case nav_view (app_nav a) of
        View_overview \<Rightarrow> Some [map_effect CE_overview (OverviewView env (sv_numbers sv) (sv_percent sv) (overview_input sv a status s) (sh_overviewSelected s) (sh_overview s))]
      | View_requests \<Rightarrow> Some [map_effect CE_requests (RequestsView env (canOperate a) (request_list_data a status) (sh_requests s))]
      | View_history \<Rightarrow> map_option (\<lambda>n. [map_effect CE_history n]) (HistoryView env (sv_dates sv) (sv_percent sv) (history_input a s))
      | View_incidents \<Rightarrow> map_option (\<lambda>n. [map_effect CE_incidents n])
          (IncidentsView env (sv_dates sv) (ls_incidentResults (app_lists a)) (sh_incidentDraft s) (target_id Find_incident (sh_target s))
             (ls_incidentsHaveMore (app_lists a)) (sh_incidents s))
      | View_logs \<Rightarrow> Some [map_effect CE_logs (LogsView env (sh_savedLogs s) (sh_logs s))]
      | View_captures \<Rightarrow> Some [map_effect CE_captures (CapturesView env (canOperate a) (canSensitive a) (sh_captures s))]
      | View_diagnostics \<Rightarrow> Some [map_effect CE_diagnostics
          (DiagnosticsView env (app_runtimeInfo a) (app_diagnostics a) (sh_diagnosticBusy s) (canOperate a))]
      | View_settings \<Rightarrow> Some (when_shown (canOperate a) [map_effect CE_settings settings]))"

section \<open>The frame around the view\<close>

definition rail_callbacks :: "'s console_effect rail_events" where
  "rail_callbacks = \<lparr>rl_theme = CE_theme, rl_language = CE_language, rl_select = CE_view, rl_collapse = CE_collapse, rl_logout = CE_logout\<rparr>"

definition header_callbacks :: "'s console_effect header_events" where
  "header_callbacks =
     \<lparr>hd_search = \<lparr>se_focus = CE_searchFocus, se_change = CE_searchChange, se_key = CE_searchKey, se_clear = CE_searchClear, se_hover = CE_searchHover,
        se_choose = CE_choose\<rparr>,
      hd_bell = \<lparr>bl_toggle = CE_bell, bl_incident = CE_incident, bl_alert = CE_alert\<rparr>,
      hd_window = CE_window, hd_refresh = CE_refresh, hd_pause = CE_pause, hd_drain = CE_mode Mode_drain, hd_maintenance = CE_mode Mode_maintenance,
      hd_tools = CE_tools\<rparr>"

definition found :: "screen_env \<Rightarrow> app \<Rightarrow> Status \<Rightarrow> Config \<Rightarrow> console_shell \<Rightarrow> SearchResult list" where
  "found sv a status config s =
     search_results (label (sv_env sv)) (en_json (sv_env sv)) (normalize_query (sb_query (sh_search s))) (search_sources a status config s)"

definition console_header :: "screen_env \<Rightarrow> app \<Rightarrow> Status \<Rightarrow> Config \<Rightarrow> SessionInfo \<Rightarrow> console_shell \<Rightarrow> 's console_effect node" where
  "console_header sv a status config session s =
     WorkspaceHeader (sv_env sv) header_callbacks
       \<lparr>hx_view = nav_view (app_nav a), hx_status = status, hx_health = app_healthSummary a, hx_role = si_role session, hx_alerts = app_alerts a,
        hx_incidents = ls_incidents (app_lists a), hx_window = sh_window s, hx_canOperate = canOperate a, hx_tools = nav_mobileTools (app_nav a),
        hx_results = found sv a status config s, hx_box = sh_search s, hx_bell = sh_bell s\<rparr>"

definition pending_restart :: "render_env \<Rightarrow> ConfigRuntimeState option \<Rightarrow> 's console_effect node list" where
  "pending_restart env state =
     (case state of
        None \<Rightarrow> []
      | Some c \<Rightarrow>
          let plan = crs_pendingRestart c;
              paths = join_with '', '' (map ccp_fields_path (filter (\<lambda>f. ccp_fields_applyMode f = ConfigChangePlan_fields_applyMode_Restart) (nullish (ccp_fields plan) [])))
          in when_shown (ccp_restartRequired plan)
            [El ''div'' [(''className'', AStr ''warning-banner page-banner pending-restart-global''), (''role'', AStr ''status'')] []
               [tag ''strong'' [Txt (label env ''settings:pendingRestart.title'')],
                tag ''span'' [Txt (label_with env ''settings:pendingRestart.revisions'' [(''active'', crs_activeRevision c), (''desired'', crs_desiredRevision c)])],
                tag ''small'' (text_of (or_string (Some paths) (join_with '', '' (ccp_restartSections plan)))),
                button ''link-button'' [] (CE_jump View_settings) [Txt (label env ''settings:pendingRestart.openSettings'')]]])"

definition page_banners :: "screen_env \<Rightarrow> app \<Rightarrow> Status \<Rightarrow> console_shell \<Rightarrow> 's console_effect node list" where
  "page_banners sv a status s =
     when_shown (app_message a \<noteq> []) [banner (if sh_error s then ''error-banner page-banner'' else ''success-banner page-banner'') ''status'' (app_message a)] @
     pending_restart (sv_env sv) (ed_configState (app_edit a)) @
     when_shown (stat_persistenceDegraded status = Some True)
       [banner ''error-banner page-banner'' ''alert''
          (label_with (sv_env sv) ''common:persistenceDegraded'' [(''count'', int_string (or_int (stat_persistencePending status) 0))])]"

definition mobile_nav :: "render_env \<Rightarrow> app \<Rightarrow> 's console_effect node" where
  "mobile_nav env a =
     (let views = mobileNavigation (canOperate a); view = nav_view (app_nav a)
      in El ''nav'' [(''className'', AStr (''mobile-bottom-nav items-'' @ nat_string (length views))), (''aria-label'', AStr (label env ''common:brandSubtitle''))] []
        (map (\<lambda>v. button (if view = v then ''active'' else []) (current_page (view = v)) (CE_view v) [icon (iconForView v), tag ''span'' [Txt (nav_label env v)]]) views))"

definition mobile_tools :: "render_env \<Rightarrow> app \<Rightarrow> console_shell \<Rightarrow> 's console_effect node" where
  "mobile_tools env a s =
     El ''div'' [(''id'', AStr ''mobile-tools-panel''), (''className'', AStr ''mobile-tools''), (''role'', AStr ''dialog''), (''aria-modal'', ABool True),
         (''aria-label'', AStr (label env ''common:tools'')), (''hidden'', ABool (\<not> nav_mobileTools (app_nav a)))] []
       [button ''button mobile-search-action'' [] CE_openSearch [icon ''Search'', Txt (label env ''common:search.label'')],
        ctag ''div'' ''mobile-tools-row mobile-tools-nav''
          (map (\<lambda>v. button ''button'' [] (CE_jump v) [icon (iconForView v), Txt (nav_label env v)]) [View_incidents, View_logs, View_captures]),
        ThemeSelector env CE_theme (sh_theme s) False,
        ctag ''div'' ''mobile-tools-row'' [LanguageSelector env CE_language (sh_language s) False,
          button ''button'' [] CE_logout [icon ''LogOut'', Txt (label env ''common:actions.logout'')]]]"

definition inspector_callbacks :: "'s console_effect panel_events" where
  "inspector_callbacks = \<lparr>pe_open = (\<lambda>i. CE_inspect (OV_open i)), pe_clear = CE_inspect OV_clear, pe_incidents = CE_inspect OV_incidents\<rparr>"

definition overview_inspector :: "screen_env \<Rightarrow> app \<Rightarrow> Status \<Rightarrow> console_shell \<Rightarrow> 's console_effect node list" where
  "overview_inspector sv a status s =
     when_shown (nav_view (app_nav a) = View_overview)
       [El ''aside'' [(''className'', AStr ''desktop-overview-inspector''), (''aria-label'', AStr (label (sv_env sv) ''overview:priority.title''))] []
          [OverviewPriorityPanel (sv_env sv) inspector_callbacks ''inspector'' (panel_input (overview_input sv a status s) (sh_overviewSelected s))]]"

definition console_frame ::
  "screen_env \<Rightarrow> app \<Rightarrow> Status \<Rightarrow> Config \<Rightarrow> SessionInfo \<Rightarrow> console_shell \<Rightarrow> 's node \<Rightarrow> 's console_effect node" where
  "console_frame sv a status config session s settings =
     (let env = sv_env sv; view = view_string (nav_view (app_nav a)); content = view_content sv a status s settings
      in ctag ''div'' (''app-shell view-'' @ view @ (if sh_collapsed s then '' rail-collapsed'' else []) @ (if app_timeline a \<noteq> None then '' inspector-open'' else []) @
            (if incident_mode (en_ms_of env) (en_now env) status then '' incident-mode'' else []))
        ([AppNavigation env (sv_host sv) rail_callbacks (nav_view (app_nav a)) (sh_collapsed s) session (upstream_baseUrl (cfg_upstream config))
            (app_runtimeInfo a) (sh_theme s) (sh_language s),
          ctag ''main'' (''workspace workspace-'' @ view)
            (console_header sv a status config session s # page_banners sv a status s @
             ViewErrorBoundary env CE_reload (sh_failed s \<or> content = None) (nullish content []))] @
         overview_inspector sv a status s @ [mobile_nav env a, mobile_tools env a s] @
         (case app_timeline a of None \<Rightarrow> [] | Some r \<Rightarrow> TimelinePanel env CE_closeTimeline r) @
         (case cf_dialog (app_confirm a) of None \<Rightarrow> [] | Some (d, _) \<Rightarrow> [ConfirmDialog env CE_answer d])))"

definition App :: "screen_env \<Rightarrow> app \<Rightarrow> console_shell \<Rightarrow> 's node \<Rightarrow> 's console_effect node" where
  "App sv a s settings =
     (let env = sv_env sv
      in if \<not> app_authenticated a
         then Login env (app_loginOptions a) (sh_theme s) (sh_language s) (app_authReason a = Some Auth_expired) (sv_oidcFailed sv) (sh_login s)
         else if app_bootstrapError a \<noteq> []
         then ctag ''main'' ''bootstrap-error'' [ctag ''span'' ''rail-brand'' [icon ''HeartPulse''], tag ''h1'' [Txt (label env ''common:connectionError.title'')],
                tag ''p'' [Txt (app_bootstrapError a)],
                button ''button primary'' [] CE_reload [icon ''ShieldCheck'', Txt (label env ''common:connectionError.retry'')]]
         else case (app_status a, ed_config (app_edit a), ed_savedConfig (app_edit a), app_session a) of
           (Some status, Some config, Some saved, Some session) \<Rightarrow> console_frame sv a status config session s settings
         | _ \<Rightarrow> ctag ''div'' ''loading'' [tag ''span'' [icon ''HeartPulse'', Txt (label env ''common:loading'')]])"

section \<open>What the controls send\<close>

datatype console_send = Send api_call | Fetch download_request

text \<open>The loads that follow a change of the view and those of the view that appears; a change
  to the settings is refused to a session that may not operate.\<close>

definition monitoring_calls :: "app \<Rightarrow> MetricsWindow \<Rightarrow> api_call set" where
  "monitoring_calls a w = {api_metrics w, api_metricErrors w, api_runtimeInfo, api_policyStatus 50} \<union> {api_events n k | n k. True}"

definition view_calls :: "app \<Rightarrow> console_shell \<Rightarrow> View \<Rightarrow> api_call set" where
  "view_calls a s v =
     (if v = View_settings \<and> \<not> canOperate a \<or> v = nav_view (app_nav a) then {}
      else if v = View_history then insert (loadHistory_call (app_lists a) None) (monitoring_calls a (sh_window s))
      else if v = View_incidents then {loadIncidents_call (app_lists a) None}
      else if v = View_logs then range api_runtimeLogs
      else if v = View_captures then {api_captureStatus, api_captures, api_captureKeyStatus} \<union> range api_capturePreview else {})"

definition action_sends :: "app \<Rightarrow> console_shell \<Rightarrow> search_action \<Rightarrow> api_call set" where
  "action_sends a s x = (case x of Open_request i \<Rightarrow> {api_timeline i} | Go_to v t \<Rightarrow> view_calls a s v)"

definition search_calls :: "string \<Rightarrow> api_call set" where
  "search_calls query =
     (let q = normalize_query query
      in if length q < 2 then {}
         else {api_runtimeLogs [(''limit'', Some ''200''), (''tail'', Some ''true'')], api_captures,
           api_history [(''q'', Some q), (''limit'', Some ''50'')], api_incidents [(''q'', Some q), (''limit'', Some ''50'')]})"

definition current_sources :: "app \<Rightarrow> console_shell \<Rightarrow> search_data" where
  "current_sources a s =
     (case (app_status a, ed_config (app_edit a)) of (Some status, Some config) \<Rightarrow> search_sources a status config s | _ \<Rightarrow> sh_remote s)"

definition notice_sends :: "app \<Rightarrow> console_shell \<Rightarrow> notification_action \<Rightarrow> api_call set" where
  "notice_sends a s x =
     (case x of Notify_request i \<Rightarrow> {api_timeline i} | Notify_incident i \<Rightarrow> view_calls a s View_incidents | Notify_logs e \<Rightarrow> view_calls a s View_logs)"

definition refresh_sends :: "app \<Rightarrow> console_shell \<Rightarrow> api_call set" where
  "refresh_sends a s = set refresh_calls \<union> monitoring_calls a (sh_window s)"

definition capture_send :: "client \<Rightarrow> capture_effect \<Rightarrow> console_send set" where
  "capture_send cl c = (case c of Cap_call x \<Rightarrow> {Send x} | Cap_download i raw \<Rightarrow> {Fetch (downloadCapture cl i raw)} | _ \<Rightarrow> {})"

definition filter_calls :: "date_env \<Rightarrow> (ListFilters \<Rightarrow> api_call) \<Rightarrow> ListFilters \<Rightarrow> filter_effect \<Rightarrow> api_call set" where
  "filter_calls de call draft e =
     (case e of
        FE_submit \<Rightarrow> (case submit_filters (de_parse de) (de_iso de) draft of Some f \<Rightarrow> {call f} | None \<Rightarrow> {})
      | FE_reset \<Rightarrow> {call empty_filters}
      | _ \<Rightarrow> {})"

fun history_sends :: "screen_env \<Rightarrow> app \<Rightarrow> console_shell \<Rightarrow> history_effect \<Rightarrow> api_call set" where
  "history_sends sv a s (HV_filter e) = filter_calls (sv_dates sv) (\<lambda>f. snd (applyHistoryFilters_start f (app_lists a))) (sh_historyDraft s) e"
| "history_sends sv a s (HV_window w) =
     insert (snd (applyHistoryFilters_start (snd (selectWindow (de_iso (sv_dates sv)) (en_now (sv_env sv)) (ls_historyFilters (app_lists a)) w)) (app_lists a)))
       (monitoring_calls a w)"
| "history_sends sv a s HV_more = {loadHistory_call (app_lists a) (ls_historyCursor (app_lists a))}"
| "history_sends sv a s _ = {}"

fun incidents_sends :: "screen_env \<Rightarrow> app \<Rightarrow> console_shell \<Rightarrow> incidents_effect \<Rightarrow> api_call set" where
  "incidents_sends sv a s (IV_filter e) = filter_calls (sv_dates sv) (\<lambda>f. snd (applyIncidentFilters_start f (app_lists a))) (sh_incidentDraft s) e"
| "incidents_sends sv a s (IV_toggle i) = set_option (snd (toggleDetail i (sh_incidents s)))"
| "incidents_sends sv a s IV_more = {loadIncidents_call (app_lists a) (ls_incidentCursor (app_lists a))}"
| "incidents_sends sv a s _ = {}"

text \<open>
  Every effect with all it can lead to: the confirmation it may ask for given or refused, and
  the loads that follow it. A change of the filter of the log loads the log.
\<close>

fun console_sends :: "screen_env \<Rightarrow> client \<Rightarrow> ('s \<Rightarrow> console_send set) \<Rightarrow> app \<Rightarrow> console_shell \<Rightarrow> 's console_effect \<Rightarrow> console_send set" where
  "console_sends sv cl st a s (CE_login k) = {Send (api_login k)}"
| "console_sends sv cl st a s (CE_view v) = Send ` view_calls a s v"
| "console_sends sv cl st a s (CE_jump v) = Send ` view_calls a s v"
| "console_sends sv cl st a s CE_logout = {Send api_logout}"
| "console_sends sv cl st a s (CE_choose r) = Send ` action_sends a s (select_result (canOperate a) (current_sources a s) r)"
| "console_sends sv cl st a s (CE_searchKey k) = Send ` (\<Union>r. action_sends a s (select_result (canOperate a) (current_sources a s) r))"
| "console_sends sv cl st a s (CE_searchChange q) = Send ` search_calls q"
| "console_sends sv cl st a s CE_searchFocus = Send ` search_calls (sb_query (sh_search s))"
| "console_sends sv cl st a s CE_openSearch = Send ` search_calls (sb_query (sh_search s))"
| "console_sends sv cl st a s (CE_incident i) = Send ` view_calls a s View_incidents"
| "console_sends sv cl st a s (CE_alert x) = Send ` notice_sends a s (open_alert (ls_incidents (app_lists a)) x)"
| "console_sends sv cl st a s (CE_window w) = Send ` monitoring_calls a w"
| "console_sends sv cl st a s CE_refresh = Send ` (refresh_sends a s \<union> {loadHistory_call (app_lists a) None})"
| "console_sends sv cl st a s CE_pause = Send ` (refresh_sends a s \<union> {togglePause (app_status a)})"
| "console_sends sv cl st a s (CE_mode m) = Send ` (refresh_sends a s \<union> set_option (setControlMode m True))"
| "console_sends sv cl st a s (CE_overview e) = (if e = OV_incidents then Send ` view_calls a s View_incidents else {})"
| "console_sends sv cl st a s (CE_inspect e) =
     (case e of OV_open i \<Rightarrow> {Send (api_timeline i)} | OV_incidents \<Rightarrow> Send ` view_calls a s View_incidents | _ \<Rightarrow> {})"
| "console_sends sv cl st a s (CE_requests e) =
     (case app_status a of
        None \<Rightarrow> {}
      | Some status \<Rightarrow> Send ` rv_calls (en_year (sv_env sv)) (canOperate a) (request_list_data a status) (sh_requests s) e)"
| "console_sends sv cl st a s (CE_history e) = Send ` history_sends sv a s e"
| "console_sends sv cl st a s (CE_incidents e) = Send ` incidents_sends sv a s e"
| "console_sends sv cl st a s (CE_logs e) =
     (if e = LV_download then {Fetch (downloadRuntimeLogs cl)} else {Send (load_call (de_iso (sv_dates sv)) (en_now (sv_env sv)) l) | l. True})"
| "console_sends sv cl st a s (CE_captures e) =
     (\<Union>agreed. \<Union>answer. \<Union>c \<in> set (cv_sends (en_tr (sv_env sv)) agreed answer (sh_captures s) e). capture_send cl c)"
| "console_sends sv cl st a s (CE_diagnostics e) =
     (case e of DG_download \<Rightarrow> {Fetch (downloadDiagnostics cl)} | DG_run \<Rightarrow> Send ` insert api_runDiagnostics (set refresh_calls))"
| "console_sends sv cl st a s (CE_settings e) = st e"
| "console_sends sv cl st a s _ = {}"

definition reads_only :: "console_send \<Rightarrow> bool" where
  "reads_only c = (case c of Send x \<Rightarrow> is_read x | Fetch d \<Rightarrow> True)"

lemma read_calls [simp]:
  "is_read (api_timeline i)" "is_read (api_metrics w)" "is_read (api_metricErrors w)" "is_read api_runtimeInfo" "is_read (api_policyStatus n)"
  "is_read (api_events n k)" "is_read (loadHistory_call ls c)" "is_read (loadIncidents_call ls c)" "is_read (snd (applyHistoryFilters_start f ls))"
  "is_read (snd (applyIncidentFilters_start f ls))" "is_read (load_call to_iso now l)" "is_read (api_incident i)" "is_read (api_capturePreview i)"
  "is_read api_captureStatus" "is_read api_captures" "is_read api_captureKeyStatus" "is_read (api_runtimeLogs fs)"
  by (simp_all add: is_read_def no_init_def api_timeline_def api_metrics_def api_metricErrors_def api_runtimeInfo_def api_policyStatus_def api_events_def
      loadHistory_call_def loadIncidents_call_def api_history_def api_incidents_def applyHistoryFilters_start_def applyIncidentFilters_start_def
      load_call_def api_runtimeLogs_def api_incident_def api_capturePreview_def api_captureStatus_def api_captures_def api_captureKeyStatus_def Let_def)

lemma read_refresh: "c \<in> set refresh_calls \<Longrightarrow> is_read c"
  by (auto simp: refresh_calls_def is_read_def no_init_def api_status_def api_healthSummary_def api_alerts_def refresh_incidents_call_def api_incidents_def
      api_repeatTasks_def api_upstreamStatus_def api_governanceStatus_def api_telemetryStatus_def)

lemma read_monitoring: "c \<in> monitoring_calls a w \<Longrightarrow> is_read c"
  by (auto simp: monitoring_calls_def)

lemma read_view: "c \<in> view_calls a s v \<Longrightarrow> is_read c"
  by (auto simp: view_calls_def intro: read_monitoring split: if_splits)

lemma read_search: "c \<in> search_calls q \<Longrightarrow> is_read c"
  by (auto simp: search_calls_def is_read_def api_runtimeLogs_def api_captures_def api_history_def api_incidents_def no_init_def Let_def split: if_splits)

lemma read_actions:
  "c \<in> action_sends a s x \<Longrightarrow> is_read c" "c \<in> notice_sends a s y \<Longrightarrow> is_read c" "c \<in> refresh_sends a s \<Longrightarrow> is_read c"
  by (auto simp: action_sends_def notice_sends_def refresh_sends_def intro: read_refresh read_view read_monitoring
      split: search_action.splits notification_action.splits)

lemmas reads = read_monitoring read_view read_search read_actions read_refresh

lemma read_history: "c \<in> history_sends sv a s e \<Longrightarrow> is_read c"
  by (cases e) (auto simp: filter_calls_def intro: read_monitoring split: filter_effect.splits option.splits)

lemma read_incidents: "c \<in> incidents_sends sv a s e \<Longrightarrow> is_read c"
  by (cases e) (auto simp: filter_calls_def toggleDetail_def split: filter_effect.splits option.splits if_splits)

text \<open>Only these effects of the captures view do more than read.\<close>

lemma captures_reads:
  assumes "e \<notin> {CV_clean, CV_stop, CV_start, CV_rewrap} \<union> range CV_remove" "c \<in> set (cv_sends tr agreed answer v e)" "x \<in> capture_send cl c"
  shows "reads_only x"
  using assms by (cases e) (auto simp: capture_send_def load_calls_def download_capture_def reads_only_def split: if_splits sum.splits)

section \<open>What a session that may not operate can cause\<close>

text \<open>The effects that more than read, apart from signing in and out.\<close>

definition acting :: "'s console_effect set" where
  "acting = {CE_pause} \<union> range CE_mode \<union> range CE_settings \<union>
     CE_captures ` ({CV_clean, CV_stop, CV_start, CV_rewrap} \<union> range CV_remove) \<union> {CE_diagnostics DG_run}"

lemma passive_reads:
  assumes "e \<notin> acting \<union> {CE_logout} \<union> range CE_login \<union> range CE_requests" "c \<in> console_sends sv cl st a s e"
  shows "reads_only c"
  using assms
proof (cases e)
  case (CE_captures x)
  with assms show ?thesis by (auto simp: acting_def intro: captures_reads)
next
  case (CE_diagnostics x)
  with assms show ?thesis by (cases x) (auto simp: acting_def reads_only_def)
qed (auto simp: acting_def reads_only_def intro: reads read_history read_incidents split: if_splits overview_effect.splits)

lemma requests_offered_reads:
  assumes "x \<in> offered (RequestsView env False d v)" "rv_policyTargets v = None" "rv_repeatRequest v = None"
    "c \<in> rv_calls year False d v x"
  shows "is_read c"
proof -
  have "x \<in> range RV_query \<union> range RV_filter \<union> range RV_open \<union> range RV_resolve \<union> {RV_closeUncertain}"
    using viewer_offered [OF assms(2,3)] assms(1) by blast
  with assms(4) show ?thesis by auto
qed

text \<open>The effects that neither act nor sign in nor belong to the request list.\<close>

definition quiet :: "'s console_effect set" where
  "quiet = UNIV - (acting \<union> range CE_login \<union> range CE_requests)"

lemma quiet_simps [simp]:
  "CE_theme m \<in> quiet" "CE_language l \<in> quiet" "CE_token t \<in> quiet" "CE_oidc \<in> quiet" "CE_reload \<in> quiet" "CE_view v \<in> quiet" "CE_jump v \<in> quiet"
  "CE_collapse \<in> quiet" "CE_logout \<in> quiet" "CE_tools \<in> quiet" "CE_openSearch \<in> quiet" "CE_searchFocus \<in> quiet" "CE_searchChange q \<in> quiet"
  "CE_searchKey k \<in> quiet" "CE_searchClear \<in> quiet" "CE_searchHover n \<in> quiet" "CE_choose r \<in> quiet" "CE_bell \<in> quiet" "CE_incident i \<in> quiet"
  "CE_alert x \<in> quiet" "CE_window w \<in> quiet" "CE_refresh \<in> quiet" "CE_overview oe \<in> quiet" "CE_inspect oe \<in> quiet" "CE_history he \<in> quiet"
  "CE_incidents ie \<in> quiet" "CE_logs le \<in> quiet" "CE_closeTimeline \<in> quiet" "CE_answer b \<in> quiet" "CE_none \<in> quiet"
  "CE_captures ce \<in> quiet \<longleftrightarrow> ce \<notin> {CV_clean, CV_stop, CV_start, CV_rewrap} \<union> range CV_remove"
  "CE_diagnostics de \<in> quiet \<longleftrightarrow> de \<noteq> DG_run"
  by (auto simp: quiet_def acting_def)

lemma login_quiet: "offered (Login env options mode language lapsed failed f) \<subseteq> quiet \<union> range CE_login"
proof -
  have "offered (login_visual env (lg_render f)) \<subseteq> {CE_none}"
    using topology_offered [where onSelect = "\<lambda>_. CE_none"] by (fastforce simp: login_visual_def)
  moreover have "offered (local_login env options lapsed f) \<subseteq> quiet \<union> range CE_login" by (auto simp: local_login_def)
  moreover have "offered (ThemeSelector env CE_theme mode True) \<subseteq> quiet" using theme_offered [of env CE_theme] by force
  ultimately show ?thesis by (auto simp: Login_def split: option.splits if_splits)
qed

lemma rail_quiet: "offered (AppNavigation env host rail_callbacks view collapsed session url info mode language) \<subseteq> quiet"
  using rail_offered [of env host rail_callbacks] by (fastforce simp: rail_callbacks_def)

lemma header_quiet:
  assumes "\<not> canOperate a"
  shows "offered (console_header sv a status config session s :: 's console_effect node) \<subseteq> quiet"
proof -
  let ?ev = "header_callbacks :: 's console_effect header_events"
  have "offered (GlobalSearch env (hd_search ?ev) results b) \<subseteq> quiet" for env results b
    using search_offered [of env "hd_search header_callbacks"] by (fastforce simp: header_callbacks_def)
  moreover have "offered (NotificationPopover env (hd_bell ?ev) alerts incidents isopen) \<subseteq> quiet" for env alerts incidents isopen
    using bell_offered [of env "hd_bell header_callbacks"] by (fastforce simp: header_callbacks_def)
  moreover have "range (hd_window ?ev) \<union> {hd_refresh ?ev, hd_tools ?ev} \<subseteq> quiet"
    by (auto simp: header_callbacks_def)
  ultimately show ?thesis
    unfolding console_header_def using assms by (intro order_trans [OF header_offered]) simp
qed

lemma banners_quiet: "offered_all (page_banners sv a status s) \<subseteq> quiet"
  by (auto simp: page_banners_def pending_restart_def Let_def split: option.splits)

lemma mobile_quiet: "offered (mobile_nav env a) \<subseteq> quiet" "offered (mobile_tools env a s) \<subseteq> quiet"
proof -
  show "offered (mobile_nav env a) \<subseteq> quiet" by (auto simp: mobile_nav_def current_page_def Let_def)
  have "offered (ThemeSelector env CE_theme (sh_theme s) False) \<subseteq> quiet" using theme_offered [of env CE_theme] by force
  then show "offered (mobile_tools env a s) \<subseteq> quiet" by (auto simp: mobile_tools_def)
qed

lemma inspector_quiet: "offered_all (overview_inspector sv a status s :: 's console_effect node list) \<subseteq> quiet"
proof -
  have "offered (OverviewPriorityPanel env (inspector_callbacks :: 's console_effect panel_events) suffix p) \<subseteq> quiet" for env suffix p
    using panel_offered_events [of env inspector_callbacks] by (fastforce simp: inspector_callbacks_def)
  then show ?thesis by (simp add: overview_inspector_def)
qed

lemma content_quiet:
  assumes "\<not> canOperate a" "view_content sv a status s settings = Some ns"
  shows "offered_all ns \<subseteq> quiet \<union> CE_requests ` offered (RequestsView (sv_env sv) False (request_list_data a status) (sh_requests s))"
proof -
  let ?captures = "offered (CapturesView (sv_env sv) False (canSensitive a) (sh_captures s))"
  have "?captures \<subseteq> - ({CV_clean, CV_stop, CV_start, CV_rewrap} \<union> range CV_remove)"
    by (rule order_trans [OF captures_offered]) (auto split: if_splits)
  then have captures: "CV_clean \<notin> ?captures" "CV_stop \<notin> ?captures" "CV_start \<notin> ?captures" "CV_rewrap \<notin> ?captures" "CV_remove r \<notin> ?captures" for r
    by blast+
  show ?thesis
    using assms(2)
    by (cases "nav_view (app_nav a)") (auto simp: view_content_def assms(1) Let_def diagnostics_offered captures)
qed

lemma frame_quiet:
  assumes "\<not> canOperate a"
  shows "offered (console_frame sv a status config session s settings) \<subseteq>
     quiet \<union> CE_requests ` offered (RequestsView (sv_env sv) False (request_list_data a status) (sh_requests s))"
proof -
  let ?all = "quiet \<union> CE_requests ` offered (RequestsView (sv_env sv) False (request_list_data a status) (sh_requests s))"
  have boundary: "offered_all (ViewErrorBoundary env CE_reload (b \<or> view_content sv a status s settings = None) (nullish (view_content sv a status s settings) [])) \<subseteq> ?all"
    for env b
  proof (cases "view_content sv a status s settings")
    case (Some ns)
    then show ?thesis using content_quiet [OF assms Some] by simp
  qed simp
  have timeline: "offered_all (case app_timeline a of None \<Rightarrow> [] | Some r \<Rightarrow> TimelinePanel (sv_env sv) CE_closeTimeline r) \<subseteq> ?all" by (simp split: option.split)
  have dialog: "offered_all (case cf_dialog (app_confirm a) of None \<Rightarrow> [] | Some (d, _) \<Rightarrow> [ConfirmDialog (sv_env sv) CE_answer d]) \<subseteq> ?all"
    by (auto split: option.split)
  show ?thesis
    unfolding console_frame_def Let_def build_offered offered_all_simps
    by (intro Un_least empty_subsetI boundary timeline dialog le_supI1 [OF rail_quiet] le_supI1 [OF header_quiet [OF assms]] le_supI1 [OF banners_quiet]
        le_supI1 [OF mobile_quiet(1)] le_supI1 [OF mobile_quiet(2)] le_supI1 [OF inspector_quiet])
qed

text \<open>Every effect that the screen offers such a session, and where it comes from.\<close>

lemma app_offered:
  assumes "\<not> canOperate a" "e \<in> offered (App sv a s settings)"
  shows "e \<in> quiet \<or> (\<not> app_authenticated a \<and> e \<in> range CE_login) \<or>
    (\<exists>status x. app_status a = Some status \<and> e = CE_requests x \<and> x \<in> offered (RequestsView (sv_env sv) False (request_list_data a status) (sh_requests s)))"
proof (cases "app_authenticated a")
  case False
  with assms(2) show ?thesis using login_quiet by (fastforce simp: App_def)
next
  case True
  show ?thesis
  proof (cases "app_bootstrapError a = [] \<and> app_screen a = Screen_console")
    case False
    with True have "offered (App sv a s settings) \<subseteq> {CE_reload}"
      by (auto simp: App_def app_screen_def Let_def split: option.splits)
    with assms(2) show ?thesis by auto
  next
    case screen: True
    then obtain status config saved session where parts: "app_status a = Some status" "ed_config (app_edit a) = Some config"
        "ed_savedConfig (app_edit a) = Some saved" "app_session a = Some session"
      by (auto simp: app_screen_def split: if_splits)
    with screen True assms(2) have "e \<in> offered (console_frame sv a status config session s settings)" by (simp add: App_def Let_def)
    with parts show ?thesis using frame_quiet [OF assms(1)] by blast
  qed
qed

text \<open>
  The steps of a console whose session may not operate: a step of the request list, the list
  opened anew, or anything at all that leaves the list alone.
\<close>

inductive console_step :: "screen_env \<Rightarrow> app \<times> console_shell \<Rightarrow> app \<times> console_shell \<Rightarrow> bool" for sv where
  listed: "view_step (sv_env sv) False (d, sh_requests s) (d', sh_requests s') \<Longrightarrow> \<not> canOperate a' \<Longrightarrow> console_step sv (a, s) (a', s')"
| opened: "sh_requests s' = new_requests_view \<Longrightarrow> \<not> canOperate a' \<Longrightarrow> console_step sv (a, s) (a', s')"
| elsewhere: "sh_requests s' = sh_requests s \<Longrightarrow> \<not> canOperate a' \<Longrightarrow> console_step sv (a, s) (a', s')"

definition no_dialogs :: "app \<times> console_shell \<Rightarrow> bool" where
  "no_dialogs x \<longleftrightarrow> \<not> canOperate (fst x) \<and> rv_policyTargets (sh_requests (snd x)) = None \<and> rv_repeatRequest (sh_requests (snd x)) = None"

interpretation viewer_console: step_system "console_step sv" "\<lambda>(a, s). \<not> canOperate a \<and> sh_requests s = new_requests_view" no_dialogs for sv
proof unfold_locales
  show "no_dialogs x" if "case x of (a, s) \<Rightarrow> \<not> canOperate a \<and> sh_requests s = new_requests_view" for x
    using that by (auto simp: no_dialogs_def new_requests_view_def)
  show "no_dialogs y" if "console_step sv x y" "no_dialogs x" for x y
    using that
  proof (induction rule: console_step.induct)
    case (listed d s d' s' a' a)
    then show ?case using viewer_system.inv_step [OF listed(1)] by (simp add: no_dialogs_def)
  qed (simp_all add: no_dialogs_def new_requests_view_def)
qed

section \<open>Properties\<close>

text \<open>
  Claim C12: a session that may not operate only reads. Whatever such a user does in any view, and
  whatever arrives meanwhile, every call that an enabled control on the screen can lead to is a
  read or a download, with two exceptions: the button that signs out, and the login form, which is
  there only when nobody is signed in. The settings are never drawn.
\<close>

theorem viewer_console_reads:
  assumes "(console_step sv)\<^sup>*\<^sup>* (a0, s0) (a, s)" "\<not> canOperate a0" "sh_requests s0 = new_requests_view"
    and "e \<in> offered (App sv a s settings)" "c \<in> console_sends sv cl st a s e"
  shows "(reads_only c \<or> e = CE_logout \<and> c = Send api_logout \<or> (\<exists>k. \<not> app_authenticated a \<and> e = CE_login k \<and> c = Send (api_login k))) \<and>
    e \<notin> range CE_settings"
proof -
  have inv: "\<not> canOperate a" "rv_policyTargets (sh_requests s) = None" "rv_repeatRequest (sh_requests s) = None"
    using viewer_console.inv_reachable [OF assms(1)] assms(2,3) by (auto simp: no_dialogs_def)
  consider "e \<in> quiet" | k where "\<not> app_authenticated a" "e = CE_login k"
    | status x where "app_status a = Some status" "e = CE_requests x" "x \<in> offered (RequestsView (sv_env sv) False (request_list_data a status) (sh_requests s))"
    using app_offered [OF inv(1) assms(4)] by blast
  then show ?thesis
  proof cases
    case 1
    then have none: "e \<notin> range CE_settings" by (auto simp: quiet_def acting_def)
    show ?thesis
    proof (cases "e = CE_logout")
      case False
      with 1 have "e \<notin> acting \<union> {CE_logout} \<union> range CE_login \<union> range CE_requests" by (auto simp: quiet_def)
      then show ?thesis using passive_reads [OF _ assms(5)] none by blast
    qed (use assms(5) in auto)
  next
    case 2
    with assms(5) show ?thesis by auto
  next
    case 3
    with assms(5) inv(1) obtain call where "c = Send call" "call \<in> rv_calls (en_year (sv_env sv)) False (request_list_data a status) (sh_requests s) x"
      by auto
    with requests_offered_reads [OF 3(3) inv(2,3)] 3(2) show ?thesis by (auto simp: reads_only_def)
  qed
qed

definition viewer_app :: "Config \<Rightarrow> app" where
  "viewer_app config =
     (initial_app ''#/captures'')\<lparr>app_authenticated := True, app_bootstrapError := [], app_status := Some empty_status,
        app_session := Some \<lparr>si_authenticated = True, si_role = SessionInfo_role_Viewer, si_capabilities = [SessionInfo_capabilities_View], si_csrfToken = None,
          si_authMethod = None\<rparr>,
        app_edit := \<lparr>ed_config = Some config, ed_savedConfig = Some config, ed_configState = None, ed_saving = False\<rparr>\<rparr>"

definition sample_screen :: screen_env where
  "sample_screen = \<lparr>sv_env = sample_env, sv_numbers = \<lparr>ne_compact = \<lambda>x. [], ne_decimals = \<lambda>x. [], ne_hours = \<lambda>x. [], ne_string = \<lambda>x. []\<rparr>,
     sv_dates = \<lparr>de_parse = \<lambda>s. None, de_iso = \<lambda>t. [], de_offset = \<lambda>t. 0\<rparr>, sv_percent = \<lambda>x. [], sv_host = \<lambda>s. None, sv_oidcFailed = False\<rparr>"

definition sample_shell :: "Config \<Rightarrow> console_shell" where
  "sample_shell config =
     (let deck = ov_deck new_overview
      in \<lparr>sh_login = \<lparr>lg_token = [], lg_error = [], lg_busy = False, lg_render = Render_loading\<rparr>, sh_collapsed = False, sh_theme = Mode_system, sh_language = None,
          sh_window = MetricsWindow_1h, sh_target = None, sh_overviewSelected = None, sh_error = False, sh_diagnosticBusy = False, sh_search = new_search,
          sh_remote = sample_search, sh_bell = False, sh_failed = False, sh_overview = new_overview, sh_requests = new_requests_view,
          sh_historyDraft = empty_filters, sh_historyLoad = Load_loading, sh_historyDeck = deck, sh_incidentDraft = empty_filters, sh_incidents = closed_incidents,
          sh_logs = open_logs (\<lambda>s. None) None [] [] [], sh_savedLogs = [], sh_captures = open_captures config\<rparr>)"

lemma viewer_cannot_operate: "\<not> canOperate (viewer_app config)"
  by (simp add: canOperate_def has_capability_def viewer_app_def)

theorem viewer_console_reads_witness:
  "\<forall>config. CE_refresh \<in> offered (App sample_screen (viewer_app config) (sample_shell config) (Txt [] :: unit node)) \<and>
     Send api_status \<in> console_sends sample_screen (new_client Locale_EnUS) (\<lambda>_ :: unit. {}) (viewer_app config) (sample_shell config) CE_refresh \<and> reads_only (Send api_status)"
proof
  fix config
  let ?a = "viewer_app config" and ?s = "sample_shell config"
  have "CE_refresh \<in> offered (console_header sv ?a status c session ?s :: unit console_effect node)" for sv status c session
    by (simp add: console_header_def WorkspaceHeader_def header_callbacks_def Let_def)
  then have offered: "CE_refresh \<in> offered (App sample_screen ?a ?s (Txt [] :: unit node))"
    by (simp add: App_def console_frame_def viewer_app_def Let_def)
  have sent: "Send api_status \<in> console_sends sample_screen (new_client Locale_EnUS) (\<lambda>_ :: unit. {}) ?a ?s CE_refresh"
    by (simp add: refresh_sends_def refresh_calls_def)
  have "sh_requests ?s = new_requests_view" by (simp add: sample_shell_def Let_def)
  from viewer_console_reads [OF rtranclp.rtrancl_refl viewer_cannot_operate this offered sent]
  have "reads_only (Send api_status)" by simp
  with offered sent show "CE_refresh \<in> offered (App sample_screen ?a ?s (Txt [] :: unit node)) \<and>
     Send api_status \<in> console_sends sample_screen (new_client Locale_EnUS) (\<lambda>_ :: unit. {}) ?a ?s CE_refresh \<and> reads_only (Send api_status)"
    by blast
qed

text \<open>
  The banner about a pending restart is drawn for everybody. For a session that may not operate
  its button leads nowhere: the change of the view is refused without a word.
\<close>

lemma restart_button_dead:
  assumes "ccp_restartRequired (crs_pendingRestart c)"
  shows "CE_jump View_settings \<in> offered_all (pending_restart env (Some c))"
    and "selectView_start False dirtied View_settings True st = (st, Nav_refused)"
  using assms by (simp_all add: pending_restart_def selectView_start_def Let_def)

end
