(* ===== verification/SettingsForms.thy ===== *)
theory SettingsForms
  imports ConsoleMarkup Settings
begin

text \<open>
  The forms of the settings, web/src/views/SettingsView.tsx: the fields and the tabs for the service,
  retries, traffic, captures, appearance and the log. A field calls \<open>setConfig\<close> with the configuration it
  makes of the one that is drawn. A number field whose text is not a number of the field's type
  (\<open>NaN\<close>, or a fraction where the configuration has whole numbers) stores a value outside of the
  types of the model; its effect is \<open>SE_untyped\<close> then.
\<close>

section \<open>Effects\<close>

record policy_probe =
  pp_method :: string
  pp_path :: string
  pp_model :: string
  pp_principal :: string

datatype settings_event =
    SE_tab Tab
  | SE_config Config
  | SE_untyped
  | SE_draft
  | SE_publish PolicyReleaseRecord_stage
  | SE_canary int
  | SE_probe policy_probe
  | SE_simulate
  | SE_release PolicyReleaseRecord
  | SE_versions
  | SE_rollback ConfigVersion
  | SE_test
  | SE_theme ThemeMode
  | SE_discard
  | SE_reload
  | SE_save

text \<open>\<open>patch(section, { field: value })\<close> on the configuration that is drawn.\<close>

definition setting :: "Config \<Rightarrow> ('r \<Rightarrow> section_patch) \<Rightarrow> (('v \<Rightarrow> 'v) \<Rightarrow> 'r) \<Rightarrow> 'v \<Rightarrow> settings_event" where
  "setting c sec upd v = SE_config (patch (sec (upd (\<lambda>_. v))) c)"

section \<open>Fields\<close>

text \<open>The change of a check box turns over what is drawn.\<close>

definition Toggle :: "render_env \<Rightarrow> string \<Rightarrow> bool \<Rightarrow> bool \<Rightarrow> bool \<Rightarrow> (bool \<Rightarrow> 'e) \<Rightarrow> 'e node" where
  "Toggle env name checked restart disabled h =
     ctag ''label'' (''toggle'' @ (if disabled then '' disabled'' else []))
       [control_el ''input'' [(''type'', AStr ''checkbox''), (''checked'', ABool checked), (''disabled'', ABool disabled)] (\<lambda>_. h (\<not> checked)) [],
        ctag ''span'' ''toggle-track'' [],
        ctag ''span'' ''toggle-copy'' (Txt name # when_shown restart [tag ''small'' [Txt (label env ''settings:restartHint'')]])]"

definition restart_hint :: "render_env \<Rightarrow> 'e node" where
  "restart_hint env = ctag ''small'' ''field-hint'' [Txt (label env ''settings:restartHint'')]"

definition text_input :: "(string \<times> attr) list \<Rightarrow> string \<Rightarrow> (string \<Rightarrow> 'e) \<Rightarrow> 'e node" where
  "text_input as v h = control_el ''input'' (as @ [(''value'', AStr v)]) h []"

definition whole_number :: "string \<Rightarrow> int option" where
  "whole_number s = (case js_number s of Some r \<Rightarrow> if r = of_int \<lfloor>r\<rfloor> then Some \<lfloor>r\<rfloor> else None | None \<Rightarrow> None)"

definition typed :: "('v \<Rightarrow> settings_event) \<Rightarrow> 'v option \<Rightarrow> settings_event" where
  "typed h v = (case v of Some x \<Rightarrow> h x | None \<Rightarrow> SE_untyped)"

definition number_input :: "(string \<times> attr) list \<Rightarrow> int \<Rightarrow> (int \<Rightarrow> settings_event) \<Rightarrow> settings_event node" where
  "number_input as v h = control_el ''input'' ((''type'', AStr ''number'') # as @ [(''value'', AInt v)]) (\<lambda>s. typed h (whole_number s)) []"

definition show_number :: "rat \<Rightarrow> string" where
  "show_number v = (if v < 0 then ''-'' @ show_decimal (- v) else show_decimal v)"

definition ratio_input :: "(string \<times> attr) list \<Rightarrow> rat \<Rightarrow> (rat \<Rightarrow> settings_event) \<Rightarrow> settings_event node" where
  "ratio_input as v h = control_el ''input'' ((''type'', AStr ''number'') # as @ [(''value'', AStr (show_number v))]) (\<lambda>s. typed h (js_number s)) []"

text \<open>A choice among the values of a union, with their texts and labels.\<close>

definition text_for :: "(string \<times> 'v) list \<Rightarrow> 'v \<Rightarrow> string" where
  "text_for vs v = (case find (\<lambda>p. snd p = v) vs of Some p \<Rightarrow> fst p | None \<Rightarrow> [])"

definition choice_input ::
  "(string \<times> attr) list \<Rightarrow> (string \<times> 'v) list \<Rightarrow> string list \<Rightarrow> 'v \<Rightarrow> ('v \<Rightarrow> settings_event) \<Rightarrow> settings_event node" where
  "choice_input as vs labels v h = select_el (text_for vs v) as (\<lambda>s. typed h (map_of vs s)) (zip (map fst vs) labels)"

definition minimum :: "string \<Rightarrow> (string \<times> attr) list" where
  "minimum lo = [(''min'', AStr lo)]"

definition between :: "string \<Rightarrow> string \<Rightarrow> (string \<times> attr) list" where
  "between lo hi = [(''min'', AStr lo), (''max'', AStr hi)]"

definition stepped :: "string \<Rightarrow> string option \<Rightarrow> string \<Rightarrow> (string \<times> attr) list" where
  "stepped lo hi s = (''min'', AStr lo) # (case hi of Some h \<Rightarrow> [(''max'', AStr h)] | None \<Rightarrow> []) @ [(''step'', AStr s)]"

definition text_field :: "render_env \<Rightarrow> string \<Rightarrow> string \<Rightarrow> (string \<Rightarrow> 'e) \<Rightarrow> 'e node" where
  "text_field env key v h = field (label env key) [text_input [] v h]"

definition number_field :: "render_env \<Rightarrow> string \<Rightarrow> (string \<times> attr) list \<Rightarrow> int \<Rightarrow> (int \<Rightarrow> settings_event) \<Rightarrow> settings_event node" where
  "number_field env key as v h = field (label env key) [number_input as v h]"

definition ratio_field :: "render_env \<Rightarrow> string \<Rightarrow> (string \<times> attr) list \<Rightarrow> rat \<Rightarrow> (rat \<Rightarrow> settings_event) \<Rightarrow> settings_event node" where
  "ratio_field env key as v h = field (label env key) [ratio_input as v h]"

definition wide_field :: "render_env \<Rightarrow> string \<Rightarrow> 'e node list \<Rightarrow> 'e node" where
  "wide_field env key cs = ctag ''label'' ''field wide'' (tag ''span'' [Txt (label env key)] # cs)"

text \<open>\<open>update(Number(event.target.value), unit)\<close> of the fields with a unit; a text that is no number becomes \<open>NaN\<close>.\<close>

definition amount_text :: "string \<Rightarrow> string \<Rightarrow> string" where
  "amount_text s u = (case js_number s of Some x \<Rightarrow> show_decimal (max 0 x) | None \<Rightarrow> ''NaN'') @ u"

definition DurationField :: "render_env \<Rightarrow> string \<Rightarrow> string \<Rightarrow> bool \<Rightarrow> (string \<Rightarrow> 'e) \<Rightarrow> 'e node" where
  "DurationField env name v restart h =
     (let (amount, u) = durationParts v
      in ctag ''label'' ''field''
        ([tag ''span'' [Txt name],
          ctag ''div'' ''compound-input''
            [control_el ''input'' [(''type'', AStr ''number''), (''min'', AStr ''0''), (''step'', AInt (if u = Unit_ms then 100 else 1)),
                (''value'', AStr (show_decimal amount))] (\<lambda>s. h (amount_text s (unit_text u))) [],
             select_el (unit_text u) [(''aria-label'', AStr (label env ''settings:units.unit''))] (\<lambda>s. h (show_decimal (max 0 amount) @ s))
               [(''ms'', label env ''settings:units.milliseconds''), (''s'', label env ''settings:units.seconds''),
                (''m'', label env ''settings:units.minutes''), (''h'', label env ''settings:units.hours'')]]] @
         when_shown restart [restart_hint env]))"

definition ByteSizeField :: "render_env \<Rightarrow> string \<Rightarrow> string \<Rightarrow> bool \<Rightarrow> (string \<Rightarrow> 'e) \<Rightarrow> 'e node" where
  "ByteSizeField env name v disabled h =
     (let (amount, u) = byteParts v
      in ctag ''label'' ''field''
        [tag ''span'' [Txt name],
         ctag ''div'' ''compound-input''
           [control_el ''input'' [(''type'', AStr ''number''), (''min'', AStr ''0''), (''value'', AStr (show_decimal amount)), (''disabled'', ABool disabled)]
              (\<lambda>s. h (amount_text s (byte_unit_text u))) [],
            select_el (byte_unit_text u) [(''aria-label'', AStr (label env ''settings:units.unit'')), (''disabled'', ABool disabled)]
              (\<lambda>s. h (show_decimal (max 0 amount) @ s)) (map (\<lambda>w. (byte_unit_text w, byte_unit_text w)) byte_units)]])"

definition LocaleField :: "render_env \<Rightarrow> string \<Rightarrow> Locale \<Rightarrow> (Locale \<Rightarrow> settings_event) \<Rightarrow> settings_event node" where
  "LocaleField env name v h =
     field name [choice_input [] [(''zh-CN'', Locale_ZhCN), (''en-US'', Locale_EnUS)] [label env ''common:language.zhCN'', label env ''common:language.enUS''] v h]"

text \<open>A section with its heading, what stands beside the heading, and its body.\<close>

definition settings_section :: "render_env \<Rightarrow> string \<Rightarrow> 'e node list \<Rightarrow> 'e node list \<Rightarrow> 'e node" where
  "settings_section env name beside body =
     tag ''section'' (ctag ''div'' ''section-heading'' (heading (label env (''settings:sections.'' @ name @ ''.title''))
       (label env (''settings:sections.'' @ name @ ''.description'')) # beside) # body)"

definition form_grid :: "'e node list \<Rightarrow> 'e node" where
  "form_grid cs = ctag ''div'' ''form-grid'' cs"

definition labelled :: "render_env \<Rightarrow> string \<Rightarrow> 'e node list \<Rightarrow> 'e node" where
  "labelled env key cs = tag ''div'' [tag ''dt'' [Txt (label env key)], tag ''dd'' cs]"

definition marked_figure :: "render_env \<Rightarrow> string \<Rightarrow> bool \<Rightarrow> 'e node list \<Rightarrow> 'e node" where
  "marked_figure env key good cs = tag ''div'' [tag ''dt'' [Txt (label env key)], ctag ''dd'' (if good then ''success-text'' else ''danger-text'') cs]"

definition delete_button :: "render_env \<Rightarrow> bool \<Rightarrow> 'e \<Rightarrow> 'e node" where
  "delete_button env hint e =
     button ''icon-button'' ((''type'', AStr ''button'') # (''aria-label'', AStr (label env ''common:actions.delete'')) #
       (if hint then [(''data-tooltip'', AStr (label env ''common:actions.delete''))] else [])) e [icon ''Trash2'']"

definition aria :: "render_env \<Rightarrow> string \<Rightarrow> (string \<times> attr) list" where
  "aria env key = [(''aria-label'', AStr (label env key))]"

section \<open>The service\<close>

definition service_section :: "render_env \<Rightarrow> Config \<Rightarrow> settings_event node" where
  "service_section env c =
     (let u = cfg_upstream c
      in settings_section env ''service'' [] [form_grid
        [field (label env ''settings:fields.listen'') [text_input [(''required'', ABool True)] (server_listen (cfg_server c))
             (setting c Patch_server server_listen_update), restart_hint env],
         ByteSizeField env (label env ''settings:fields.requestBodyLimit'') (server_maxRequestBody (cfg_server c)) False
           (setting c Patch_server server_maxRequestBody_update),
         wide_field env ''settings:fields.configBackupDir'' [text_input [(''placeholder'', AStr (label env ''settings:fields.configBackupDefault''))]
             (server_configBackupDir (cfg_server c)) (setting c Patch_server server_configBackupDir_update)],
         wide_field env ''settings:fields.upstreamBaseUrl'' [text_input [(''required'', ABool True), (''type'', AStr ''url'')] (upstream_baseUrl u)
             (setting c Patch_upstream upstream_baseUrl_update)],
         DurationField env (label env ''settings:fields.connectTimeout'') (upstream_connectTimeout u) False
           (setting c Patch_upstream upstream_connectTimeout_update),
         DurationField env (label env ''settings:fields.responseHeaderTimeout'') (upstream_responseHeaderTimeout u) False
           (setting c Patch_upstream upstream_responseHeaderTimeout_update),
         DurationField env (label env ''settings:fields.responseBodyIdleTimeout'') (upstream_responseBodyIdleTimeout u) False
           (setting c Patch_upstream upstream_responseBodyIdleTimeout_update)]])"

definition target_row :: "render_env \<Rightarrow> Config \<Rightarrow> nat \<Rightarrow> Config_upstreams_targets \<Rightarrow> settings_event node" where
  "target_row env c i t =
     (let change = (\<lambda>f. SE_config (patchTarget i f c))
      in ctag ''div'' ''upstream-target-row''
        [text_input (aria env ''settings:upstreams.id'') (upstreams_targets_id t) (\<lambda>v. change (upstreams_targets_id_update (\<lambda>_. v))),
         text_input (aria env ''settings:upstreams.url'' @ [(''type'', AStr ''url'')]) (upstreams_targets_baseUrl t)
           (\<lambda>v. change (upstreams_targets_baseUrl_update (\<lambda>_. v))),
         number_input (aria env ''settings:upstreams.priority'' @ minimum ''0'') (upstreams_targets_priority t)
           (\<lambda>v. change (upstreams_targets_priority_update (\<lambda>_. v))),
         number_input (aria env ''settings:upstreams.weight'' @ minimum ''0'') (upstreams_targets_weight t)
           (\<lambda>v. change (upstreams_targets_weight_update (\<lambda>_. v))),
         number_input (aria env ''settings:upstreams.maxActive'' @ minimum ''0'') (upstreams_targets_maxActive t)
           (\<lambda>v. change (upstreams_targets_maxActive_update (\<lambda>_. v))),
         text_input (aria env ''settings:upstreams.domain'') (upstreams_targets_idempotencyDomain t)
           (\<lambda>v. change (upstreams_targets_idempotencyDomain_update (\<lambda>_. v))),
         number_input (aria env ''settings:upstreams.cost'' @ minimum ''0'') (upstreams_targets_costMicrosPer1K t)
           (\<lambda>v. change (upstreams_targets_costMicrosPer1K_update (\<lambda>_. v))),
         ratio_input (aria env ''settings:upstreams.capability'' @ stepped ''0'' (Some ''1'') ''0.05'') (upstreams_targets_capabilityScore t)
           (\<lambda>v. change (upstreams_targets_capabilityScore_update (\<lambda>_. v))),
         delete_button env True (SE_config (removeTarget i c))])"

definition circuit_text :: "UpstreamPoolStatus_targets_circuitState \<Rightarrow> string" where
  "circuit_text s = (case s of UpstreamPoolStatus_targets_circuitState_Closed \<Rightarrow> ''closed'' | UpstreamPoolStatus_targets_circuitState_Open \<Rightarrow> ''open''
     | UpstreamPoolStatus_targets_circuitState_HalfOpen \<Rightarrow> ''half-open'')"

definition upstream_runtime :: "render_env \<Rightarrow> UpstreamPoolStatus_targets \<Rightarrow> 'e node" where
  "upstream_runtime env t =
     tag ''div''
       ([tag ''strong'' [Txt (upstreams_targets_id (ups_targets_target t))],
         ctag ''span'' (''status '' @ circuit_text (ups_targets_circuitState t))
           [Txt (label env (''settings:upstreams.circuit.'' @ circuit_text (ups_targets_circuitState t)))],
         tag ''span'' [Txt (label_with env ''settings:upstreams.active'' [(''count'', int_string (ups_targets_active t))])],
         tag ''span'' [Txt (label_with env ''settings:upstreams.results''
           [(''success'', int_string (ups_targets_successCount t)), (''failed'', int_string (ups_targets_failureCount t))])]] @
        (case ups_targets_lastLatencyMilliseconds t of None \<Rightarrow> [] | Some ms \<Rightarrow> [tag ''span'' [Txt (int_string ms), Txt '' ms'']]))"

definition strategies :: "(string \<times> Config_upstreams_strategy) list" where
  "strategies = [(''primary-only'', Config_upstreams_strategy_PrimaryOnly), (''weighted-priority'', Config_upstreams_strategy_WeightedPriority)]"

definition pool_section :: "render_env \<Rightarrow> Config \<Rightarrow> UpstreamPoolStatus option \<Rightarrow> settings_event node" where
  "pool_section env c status =
     (let targets = upstreams_targets (cfg_upstreams c)
      in settings_section env ''upstreamPool''
        [button ''button compact'' [(''type'', AStr ''button'')] (SE_config (addTarget (upstream_baseUrl (cfg_upstream c)) c))
           [icon ''Plus'', Txt (label env ''settings:upstreams.add'')]]
        ([field (label env ''settings:upstreams.strategy'') [choice_input [] strategies
             [label env ''settings:upstreams.primaryOnly'', label env ''settings:upstreams.weightedPriority''] (upstreams_strategy (cfg_upstreams c))
             (setting c Patch_upstreams upstreams_strategy_update)],
          ctag ''div'' ''upstream-target-list''
            (if targets = [] then [ctag ''p'' ''subtle'' [Txt (label env ''settings:upstreams.legacy'')]]
             else map (\<lambda>p. target_row env c (fst p) (snd p)) (enumerate 0 targets))] @
         (case status of
            None \<Rightarrow> []
          | Some s \<Rightarrow> [El ''div'' [(''className'', AStr ''upstream-runtime-status''), (''aria-live'', AStr ''polite'')] [] (map (upstream_runtime env) (ups_targets s))])))"

definition runtime_section :: "render_env \<Rightarrow> Config \<Rightarrow> RuntimeInfo option \<Rightarrow> 'e node" where
  "runtime_section env c info =
     (let none = label env ''common:notAvailable''; text = (\<lambda>f. or_string (map_option f info) none); code = (\<lambda>s. [tag ''code'' [Txt s]])
      in settings_section env ''runtime'' []
        [ctag ''dl'' ''runtime-info''
          ([labelled env ''settings:runtime.version'' [Txt (text rinfo_version)],
            labelled env ''settings:runtime.revision'' (code (text rinfo_revision)),
            labelled env ''settings:runtime.builtAt'' [Txt (text rinfo_builtAt)],
            labelled env ''settings:runtime.startedAt'' [Txt (case info of None \<Rightarrow> none | Some i \<Rightarrow> local_text env (rinfo_startedAt i))],
            labelled env ''settings:runtime.platform'' [Txt (case info of None \<Rightarrow> none | Some i \<Rightarrow> rinfo_platform i @ dot @ rinfo_goVersion i)],
            labelled env ''settings:runtime.contract'' [Txt (case info of
                None \<Rightarrow> ''Config v'' @ int_string (cfg_schemaVersion c)
              | Some i \<Rightarrow> ''API v'' @ rinfo_adminApiVersion i @ dot @ ''Config v'' @ int_string (rinfo_configSchemaVersion i))]] @
           (case Option.bind info rinfo_imageRef of
              Some path \<Rightarrow> when_shown (path \<noteq> []) [labelled env ''settings:runtime.image'' (code path)]
            | None \<Rightarrow> []))])"

definition localization_section :: "render_env \<Rightarrow> Config \<Rightarrow> settings_event node" where
  "localization_section env c =
     settings_section env ''localization'' [] [form_grid
       [LocaleField env (label env ''settings:fields.defaultLocale'') (localization_defaultLocale (cfg_localization c))
          (setting c Patch_localization localization_defaultLocale_update),
        LocaleField env (label env ''settings:fields.fallbackLocale'') (localization_fallbackLocale (cfg_localization c))
          (setting c Patch_localization localization_fallbackLocale_update)]]"

definition general_tab :: "render_env \<Rightarrow> Config \<Rightarrow> UpstreamPoolStatus option \<Rightarrow> RuntimeInfo option \<Rightarrow> settings_event node list" where
  "general_tab env c status info = [service_section env c, pool_section env c status, runtime_section env c info, localization_section env c]"

section \<open>Retries\<close>

definition retry_modes :: "(string \<times> Config_retry_mode) list" where
  "retry_modes = [(''all-errors'', Config_retry_mode_AllErrors), (''transient-errors'', Config_retry_mode_TransientErrors)]"

definition retry_tab :: "render_env \<Rightarrow> Config \<Rightarrow> settings_event node list" where
  "retry_tab env c =
     (let r = cfg_retry c; s = cfg_stream c
      in [settings_section env ''retry''
            [Toggle env (label env ''settings:fields.enableRetry'') (retry_enabled r) False False (setting c Patch_retry retry_enabled_update)]
            [form_grid
              [field (label env ''settings:fields.errorScope'') [choice_input [] retry_modes
                 [label env ''settings:fields.allErrors'', label env ''settings:fields.transientErrors''] (retry_mode r)
                 (setting c Patch_retry retry_mode_update)],
               number_field env ''settings:fields.maxAttempts'' (minimum ''0'') (retry_maxAttempts r) (setting c Patch_retry retry_maxAttempts_update),
               DurationField env (label env ''settings:fields.minWait'') (retry_minInterval r) False (setting c Patch_retry retry_minInterval_update),
               DurationField env (label env ''settings:fields.maxWait'') (retry_maxInterval r) False (setting c Patch_retry retry_maxInterval_update)],
             Toggle env (label env ''settings:fields.honorRetryAfter'') (retry_honorRetryAfter r) False False
               (setting c Patch_retry retry_honorRetryAfter_update)],
          settings_section env ''stream'' [] [form_grid
            [DurationField env (label env ''settings:fields.heartbeat'') (stream_heartbeatInterval s) False
               (setting c Patch_stream stream_heartbeatInterval_update),
             ByteSizeField env (label env ''settings:fields.memoryLimit'') (stream_memoryLimit s) False (setting c Patch_stream stream_memoryLimit_update),
             ByteSizeField env (label env ''settings:fields.maxResponseBody'') (stream_maxResponseBody s) False
               (setting c Patch_stream stream_maxResponseBody_update),
             ByteSizeField env (label env ''settings:fields.maxTotalCache'') (stream_maxTotalCache s) False
               (setting c Patch_stream stream_maxTotalCache_update),
             wide_field env ''settings:fields.tempDir'' [text_input [(''placeholder'', AStr (label env ''settings:fields.systemDefault''))]
               (stream_tempDir s) (setting c Patch_stream stream_tempDir_update)]]]])"

section \<open>Traffic\<close>

definition queue_section :: "render_env \<Rightarrow> Config \<Rightarrow> settings_event node" where
  "queue_section env c =
     (let q = cfg_queue c; h = cfg_history c
      in settings_section env ''traffic'' [] [form_grid
        [number_field env ''settings:fields.maxActive'' (minimum ''1'') (queue_maxActive q) (setting c Patch_queue queue_maxActive_update),
         number_field env ''settings:fields.maxWaiting'' (minimum ''0'') (queue_maxWaiting q) (setting c Patch_queue queue_maxWaiting_update),
         DurationField env (label env ''settings:fields.recoverySpacing'') (queue_recoverySpacing q) False
           (setting c Patch_queue queue_recoverySpacing_update),
         number_field env ''settings:fields.historyLimit'' (minimum ''1'') (history_maxItems h) (setting c Patch_history history_maxItems_update),
         DurationField env (label env ''settings:fields.historyRetention'') (history_retention h) False
           (setting c Patch_history history_retention_update)]])"

definition governance_modes :: "(string \<times> Config_governance_mode) list" where
  "governance_modes = [(''observe'', Config_governance_mode_Observe), (''enforce'', Config_governance_mode_Enforce)]"

definition unknown_policies :: "(string \<times> Config_governance_unknownUsagePolicy) list" where
  "unknown_policies = [(''observe'', Config_governance_unknownUsagePolicy_Observe), (''deny'', Config_governance_unknownUsagePolicy_Deny)]"

definition governance_form :: "render_env \<Rightarrow> Config \<Rightarrow> settings_event node" where
  "governance_form env c =
     (let g = cfg_governance c; key = (\<lambda>s. ''settings:governance.'' @ s)
      in form_grid
        [field (label env (key ''mode'')) [choice_input [] governance_modes [label env (key ''observe''), label env (key ''enforce'')] (governance_mode g)
           (setting c Patch_governance governance_mode_update)],
         field (label env (key ''unknownUsagePolicy'')) [choice_input [] unknown_policies [label env (key ''unknownObserve''), label env (key ''unknownDeny'')]
           (governance_unknownUsagePolicy g) (setting c Patch_governance governance_unknownUsagePolicy_update)],
         number_field env (key ''concurrent'') (minimum ''0'') (governance_maxConcurrent g) (setting c Patch_governance governance_maxConcurrent_update),
         number_field env (key ''rpm'') (minimum ''0'') (governance_requestsPerMinute g) (setting c Patch_governance governance_requestsPerMinute_update),
         number_field env (key ''tokens'') (minimum ''0'') (governance_tokenLimit g) (setting c Patch_governance governance_tokenLimit_update),
         number_field env (key ''cost'') (minimum ''0'') (governance_costLimitMicros g) (setting c Patch_governance governance_costLimitMicros_update),
         number_field env (key ''tokenReservation'') (minimum ''0'') (governance_tokenReservation g)
           (setting c Patch_governance governance_tokenReservation_update),
         number_field env (key ''costReservation'') (minimum ''0'') (governance_costReservationMicros g)
           (setting c Patch_governance governance_costReservationMicros_update),
         number_field env (key ''reservationMinTokens'') (minimum ''0'') (governance_reservationMinTokens g)
           (setting c Patch_governance governance_reservationMinTokens_update),
         number_field env (key ''reservationMaxTokens'') (minimum ''0'') (governance_reservationMaxTokens g)
           (setting c Patch_governance governance_reservationMaxTokens_update),
         number_field env (key ''reservationMinCost'') (minimum ''0'') (governance_reservationMinCostMicros g)
           (setting c Patch_governance governance_reservationMinCostMicros_update),
         number_field env (key ''reservationMaxCost'') (minimum ''0'') (governance_reservationMaxCostMicros g)
           (setting c Patch_governance governance_reservationMaxCostMicros_update),
         number_field env (key ''softThresholdPercent'') (between ''0'' ''100'') (governance_softThresholdPercent g)
           (setting c Patch_governance governance_softThresholdPercent_update),
         DurationField env (label env (key ''forecastWindow'')) (governance_forecastWindow g) False
           (setting c Patch_governance governance_forecastWindow_update)])"

definition removeGovernanceBudget :: "nat \<Rightarrow> Config \<Rightarrow> Config" where
  "removeGovernanceBudget index config = setGovernanceBudgets (remove_at index (governance_budgets (cfg_governance config))) config"

definition budget_row :: "render_env \<Rightarrow> Config \<Rightarrow> nat \<Rightarrow> GovernanceBudgetConfig \<Rightarrow> settings_event node" where
  "budget_row env c i b =
     (let change = (\<lambda>f. SE_config (patchGovernanceBudget i f c)); key = (\<lambda>s. ''settings:governance.'' @ s)
      in ctag ''div'' ''governance-budget-row''
        [select_el (gbc_scope b) (aria env (key ''scope'')) (\<lambda>v. change (gbc_scope_update (\<lambda>_. v)))
           [(''principal'', label env (key ''scopePrincipal'')), (''tenant'', label env (key ''scopeTenant'')), (''model'', label env (key ''scopeModel'')),
            (''upstream'', label env (key ''scopeUpstream''))],
         text_input (aria env (key ''key'') @ [(''placeholder'', AStr (label env (key ''keyPlaceholder'')))]) (gbc_key b) (\<lambda>v. change (gbc_key_update (\<lambda>_. v))),
         number_input (aria env (key ''budgetConcurrent'') @ minimum ''0'') (gbc_maxConcurrent b) (\<lambda>v. change (gbc_maxConcurrent_update (\<lambda>_. v))),
         number_input (aria env (key ''budgetRpm'') @ minimum ''0'') (gbc_requestsPerMinute b) (\<lambda>v. change (gbc_requestsPerMinute_update (\<lambda>_. v))),
         number_input (aria env (key ''budgetTokens'') @ minimum ''0'') (gbc_tokenLimit b) (\<lambda>v. change (gbc_tokenLimit_update (\<lambda>_. v))),
         number_input (aria env (key ''budgetCost'') @ minimum ''0'') (gbc_costLimitMicros b) (\<lambda>v. change (gbc_costLimitMicros_update (\<lambda>_. v))),
         delete_button env True (SE_config (removeGovernanceBudget i c))])"

definition tenant_context :: "render_env \<Rightarrow> Config \<Rightarrow> GovernanceStatus option \<Rightarrow> 'e node" where
  "tenant_context env c status =
     (let key = (\<lambda>s. ''settings:governance.'' @ s); tenant = list_ex (\<lambda>b. gbc_scope b = ''tenant'') (governance_budgets (cfg_governance c))
      in ctag ''div'' ''governance-tenant-context''
        [tag ''div'' [tag ''strong'' [Txt (label env (key ''tenantContext''))], tag ''p'' [Txt (label env (key ''tenantContextDescription''))],
           tag ''small'' [Txt (label_with env (key ''tenantRuntimeEntries'') [(''count'', nat_string (tenantRuntimeEntries status))])]],
         ctag ''span'' (''status '' @ (if tenant then ''healthy'' else ''neutral''))
           [Txt (label env (key (if tenant then ''tenantConfigured'' else ''tenantNotConfigured'')))]])"

definition usage_card :: "render_env \<Rightarrow> string \<Rightarrow> int \<Rightarrow> int \<Rightarrow> 'e node" where
  "usage_card env name used limit =
     tag ''div'' [tag ''span'' [Txt (label env (''settings:governance.utilization.'' @ name))], tag ''strong'' [Txt (formatGovernanceUtilization used limit)],
       tag ''small'' [Txt (en_number env (of_int used)), Txt '' / '', Txt (if limit > 0 then en_number env (of_int limit) else ''--'')]]"

definition entry_row :: "render_env \<Rightarrow> GovernanceStatus_entries \<Rightarrow> 'e node" where
  "entry_row env e =
     ctag ''div'' ''governance-entry-row''
       [tag ''strong'' [Txt (or_string (Some (gov_entries_scope e)) ''principal'' @ '':'' @
          or_string (Some (gov_entries_key e)) (or_string (Some (gov_entries_principal e)) (label env ''common:notAvailable'')))],
        tag ''span'' [Txt (label_with env ''settings:governance.entryActive'' [(''count'', int_string (gov_entries_active e))])],
        tag ''span'' [Txt (label_with env ''settings:governance.entryRequests'' [(''count'', int_string (gov_entries_requests e))])],
        tag ''span'' [Txt (en_number env (of_int (gov_entries_tokens e))), Txt '' '', Txt (label env ''settings:governance.entryTokens'')],
        tag ''span'' [Txt (en_number env (of_int (gov_entries_costMicros e))), Txt '' '', Txt (label env ''settings:governance.entryCost'')]]"

definition governance_figures :: "render_env \<Rightarrow> GovernanceStatus \<Rightarrow> 'e node" where
  "governance_figures env g =
     (let key = (\<lambda>s. ''settings:governance.'' @ s); counters = gov_counters g; healthy = gov_ledger_healthy (gov_ledger g);
          minutes = nullish (gov_estimatedExhaustionMinutes g) 0
      in ctag ''dl'' ''operational-health''
        [labelled env (key ''runtimePrincipals'') [Txt (int_string (gov_principals g))],
         labelled env (key ''runtimeReservations'') [Txt (int_string (gov_reservations g))],
         labelled env (key ''settlements'') [Txt (int_string (gov_counters_settlements counters))],
         labelled env (key ''unknownSettlements'') [Txt (int_string (gov_counters_unknownSettlements counters))],
         labelled env (key ''persistenceFailures'') [Txt (int_string (gov_counters_persistenceFailures counters))],
         marked_figure env (key ''ledger'') healthy [Txt (label env (if healthy then ''settings:health.healthy'' else ''settings:health.degraded''))],
         marked_figure env (key ''softThreshold'') (\<not> gov_softThreshold g)
           [Txt (label env (key (if gov_softThreshold g then ''softThresholdActive'' else ''softThresholdClear'')))],
         labelled env (key ''forecast'') [Txt (if minutes > 0 then label_with env (key ''forecastMinutes'') [(''minutes'', to_fixed 1 minutes)]
           else label env (key ''forecastUnavailable''))]])"

definition governance_runtime :: "render_env \<Rightarrow> Config \<Rightarrow> GovernanceStatus \<Rightarrow> 'e node list" where
  "governance_runtime env c g =
     (let totals = governanceRuntime (Some g); conf = cfg_governance c
      in [governance_figures env g,
          ctag ''div'' ''governance-runtime-summary''
            [tag ''strong'' [Txt (label env ''settings:governance.runtimeUtilization'')],
             ctag ''div'' ''governance-utilization-grid''
               [usage_card env ''active'' (gt_active totals) (governance_maxConcurrent conf),
                usage_card env ''requests'' (gt_requests totals) (governance_requestsPerMinute conf),
                usage_card env ''tokens'' (gt_tokens totals) (governance_tokenLimit conf),
                usage_card env ''costMicros'' (gt_costMicros totals) (governance_costLimitMicros conf)]],
          ctag ''div'' ''governance-entry-list''
            (if gov_entries g = [] then [ctag ''p'' ''subtle'' [Txt (label env ''settings:governance.noRuntimeEntries'')]]
             else map (entry_row env) (gov_entries g))])"

definition traffic_tab :: "render_env \<Rightarrow> Config \<Rightarrow> GovernanceStatus option \<Rightarrow> settings_event node list" where
  "traffic_tab env c status =
     (let budgets = governance_budgets (cfg_governance c)
      in [queue_section env c,
          settings_section env ''governance'' []
            ([governance_form env c,
              ctag ''div'' ''governance-budget-heading''
                [tag ''div'' [tag ''strong'' [Txt (label env ''settings:governance.budgetsTitle'')],
                   tag ''p'' [Txt (label env ''settings:governance.budgetsDescription'')]],
                 button ''button compact'' [(''type'', AStr ''button'')] (SE_config (addGovernanceBudget c))
                   [icon ''Plus'', Txt (label env ''settings:governance.addBudget'')]],
              ctag ''div'' ''governance-budget-list''
                (if budgets = [] then [ctag ''p'' ''subtle'' [Txt (label env ''settings:governance.noBudgets'')]]
                 else map (\<lambda>p. budget_row env c (fst p) (snd p)) (enumerate 0 budgets)),
              tenant_context env c status] @
             (case status of None \<Rightarrow> [] | Some g \<Rightarrow> governance_runtime env c g))])"

section \<open>Captures, appearance and the log\<close>

definition capture_tab :: "render_env \<Rightarrow> Config \<Rightarrow> settings_event node list" where
  "capture_tab env c =
     (let k = cfg_capture c
      in [settings_section env ''capture''
        [Toggle env (label env ''settings:fields.captureOnStartup'') (capture_enabled k) False False (setting c Patch_capture capture_enabled_update)]
        [form_grid
          [wide_field env ''settings:fields.captureStorageDir''
             [text_input [] (capture_storageDir k) (setting c Patch_capture capture_storageDir_update), restart_hint env],
           DurationField env (label env ''settings:fields.captureRetention'') (capture_retention k) False (setting c Patch_capture capture_retention_update),
           number_field env ''settings:fields.captureRequestLimit'' (between ''1'' ''100'') (capture_defaultRequestLimit k)
             (setting c Patch_capture capture_defaultRequestLimit_update),
           DurationField env (label env ''settings:fields.captureActivationTimeout'') (capture_activationTimeout k) False
             (setting c Patch_capture capture_activationTimeout_update),
           ByteSizeField env (label env ''settings:fields.captureBodyLimit'') (capture_maxBodySize k) False (setting c Patch_capture capture_maxBodySize_update),
           ByteSizeField env (label env ''settings:fields.captureTotalLimit'') (capture_maxTotalSize k) False
             (setting c Patch_capture capture_maxTotalSize_update),
           number_field env ''settings:fields.captureAttemptLimit'' (between ''1'' ''1000'') (capture_maxAttemptsPerRequest k)
             (setting c Patch_capture capture_maxAttemptsPerRequest_update),
           ByteSizeField env (label env ''settings:fields.captureMinimumDisk'') (capture_minimumFreeDisk k) False
             (setting c Patch_capture capture_minimumFreeDisk_update),
           number_field env ''settings:fields.runtimeLogLimit'' (between ''100'' ''100000'') (capture_logMaxItems k)
             (setting c Patch_capture capture_logMaxItems_update),
           DurationField env (label env ''settings:fields.runtimeLogRetention'') (capture_logRetention k) False
             (setting c Patch_capture capture_logRetention_update)]]])"

definition appearance_tab :: "render_env \<Rightarrow> ThemeMode \<Rightarrow> settings_event node list" where
  "appearance_tab env mode =
     [settings_section env ''appearance'' []
       [ThemeSelector env SE_theme mode False,
        ctag ''dl'' ''font-stack-summary''
          [labelled env ''settings:fonts.interface'' [Txt (''Source Sans 3'' @ dot @ ''Source Han Sans SC'')],
           labelled env ''settings:fonts.technical'' [Txt ''Source Code Pro''],
           labelled env ''settings:fonts.delivery'' [Txt (label env ''settings:fonts.selfHosted'')]]]]"

definition logging_tab :: "render_env \<Rightarrow> Config \<Rightarrow> settings_event node list" where
  "logging_tab env c =
     [settings_section env ''logging'' [] [form_grid
       [field (label env ''settings:fields.logLevel'') [select_el (logging_level (cfg_logging c)) [] (setting c Patch_logging logging_level_update)
           (map (\<lambda>l. (l, label env (''settings:logLevels.'' @ l))) [''debug'', ''info'', ''warn'', ''error'']), restart_hint env],
        LocaleField env (label env ''settings:fields.loggingLocale'') (logging_locale (cfg_logging c)) (setting c Patch_logging logging_locale_update)]]]"

end
