(* ===== verification/SettingsMarkup.thy ===== *)
theory SettingsMarkup
  imports SettingsForms
begin

text \<open>
  The settings, web/src/views/SettingsView.tsx: the tabs for policies, continuity, safety and
  notifications, the view around all tabs, what its controls lead to, and that a session without
  the sensitive capability cannot change through them how the console authenticates.
\<close>

section \<open>State and properties\<close>

record settings_view =
  sw_tab :: Tab
  sw_notificationStatus :: "NotificationStatus option"
  sw_deliveries :: "NotificationDelivery list"
  sw_notificationBusy :: bool
  sw_notificationError :: string
  sw_versions :: "ConfigVersion list"
  sw_historyError :: string
  sw_rollbackBusy :: string
  sw_policyStatus :: "PolicyStatus option"
  sw_releases :: "PolicyReleaseStatus option"
  sw_decision :: "PolicyDecision option"
  sw_policyError :: string
  sw_policyBusy :: string
  sw_canaryPercent :: int
  sw_probe :: policy_probe

record settings_data =
  sx_config :: Config
  sx_baseline :: Config
  sx_runtimeInfo :: "RuntimeInfo option"
  sx_configState :: "ConfigRuntimeState option"
  sx_canSensitive :: bool
  sx_upstream :: "UpstreamPoolStatus option"
  sx_governance :: "GovernanceStatus option"
  sx_telemetry :: "TelemetryStatus option"
  sx_dirty :: bool
  sx_busy :: bool
  sx_theme :: ThemeMode

definition open_settings :: settings_view where
  "open_settings =
     \<lparr>sw_tab = Tab_general, sw_notificationStatus = None, sw_deliveries = [], sw_notificationBusy = False, sw_notificationError = [],
      sw_versions = [], sw_historyError = [], sw_rollbackBusy = [], sw_policyStatus = None, sw_releases = None, sw_decision = None, sw_policyError = [],
      sw_policyBusy = [], sw_canaryPercent = 10,
      sw_probe = \<lparr>pp_method = ''POST'', pp_path = ''/v1/responses'', pp_model = [], pp_principal = ''anonymous''\<rparr>\<rparr>"

section \<open>Safety\<close>

definition egress_section :: "render_env \<Rightarrow> Config \<Rightarrow> settings_event node" where
  "egress_section env c =
     settings_section env ''egress''
       [Toggle env (label env ''settings:fields.denyPrivateNetworks'') (egress_denyPrivateNetworks (cfg_egress c)) False False
          (setting c Patch_egress egress_denyPrivateNetworks_update)]
       [wide_field env ''settings:fields.allowedHosts'' [text_input [] (comma_text (egress_allowedHosts (cfg_egress c)))
          (\<lambda>s. setting c Patch_egress egress_allowedHosts_update (comma_parse s))]]"

definition detail_modes :: "(string \<times> Config_observability_errorDetails) list" where
  "detail_modes = [(''safe'', Config_observability_errorDetails_Safe), (''off'', Config_observability_errorDetails_Off)]"

definition observability_section :: "render_env \<Rightarrow> Config \<Rightarrow> settings_event node" where
  "observability_section env c =
     (let o1 = cfg_observability c
      in settings_section env ''observability'' [] [form_grid
        [field (label env ''settings:fields.collectionMode'') [choice_input [] detail_modes
           [label env ''settings:fields.safeExtraction'', label env ''settings:fields.off''] (observability_errorDetails o1)
           (setting c Patch_observability observability_errorDetails_update)],
         ByteSizeField env (label env ''settings:fields.detailLimit'') (observability_maxErrorDetail o1)
           (observability_errorDetails o1 = Config_observability_errorDetails_Off) (setting c Patch_observability observability_maxErrorDetail_update)]])"

definition telemetry_protocols :: "(string \<times> Config_observability_telemetry_protocol) list" where
  "telemetry_protocols = [(''grpc'', Config_observability_telemetry_protocol_Grpc), (''http/protobuf'', Config_observability_telemetry_protocol_HttpProtobuf),
     (''stdout'', Config_observability_telemetry_protocol_Stdout)]"

definition telemetry_setting ::
  "Config \<Rightarrow> (('v \<Rightarrow> 'v) \<Rightarrow> Config_observability_telemetry \<Rightarrow> Config_observability_telemetry) \<Rightarrow> 'v \<Rightarrow> settings_event" where
  "telemetry_setting c upd = setting c Patch_observability (\<lambda>f. observability_telemetry_update (upd f))"

definition telemetry_figures :: "render_env \<Rightarrow> TelemetryStatus \<Rightarrow> 'e node" where
  "telemetry_figures env t =
     (let health = (\<lambda>b. label env (if b then ''settings:health.healthy'' else ''settings:health.degraded''))
      in ctag ''dl'' ''operational-health''
        [marked_figure env ''settings:telemetry.runtime'' (tel_healthy t) [Txt (if tel_enabled t then health (tel_healthy t) else label env ''settings:health.disabled'')],
         labelled env ''settings:telemetry.traces'' [Txt (health (tel_traceHealthy t))],
         labelled env ''settings:telemetry.metrics'' [Txt (health (tel_metricHealthy t))],
         labelled env ''settings:telemetry.traceFailures'' [Txt (int_string (tel_traceExportFailures t))],
         labelled env ''settings:telemetry.metricFailures'' [Txt (int_string (tel_metricExportFailures t))],
         labelled env ''settings:telemetry.lastSuccess''
           [Txt (if truthy_string (tel_lastSuccessAt t) then local_text env (nullish (tel_lastSuccessAt t) []) else label env ''common:notAvailable'')]])"

definition telemetry_section :: "render_env \<Rightarrow> Config \<Rightarrow> TelemetryStatus option \<Rightarrow> settings_event node" where
  "telemetry_section env c status =
     (let t = observability_telemetry (cfg_observability c)
      in settings_section env ''telemetry''
        [Toggle env (label env ''settings:fields.telemetryEnabled'') (observability_telemetry_enabled t) True False
           (telemetry_setting c observability_telemetry_enabled_update)]
        (form_grid
          [field (label env ''settings:fields.telemetryProtocol'') [choice_input [] telemetry_protocols [''gRPC'', ''HTTP/Protobuf'', ''stdout'']
             (observability_telemetry_protocol t) (telemetry_setting c observability_telemetry_protocol_update), restart_hint env],
           wide_field env ''settings:fields.telemetryEndpoint''
             [text_input [(''disabled'', ABool (observability_telemetry_protocol t = Config_observability_telemetry_protocol_Stdout))]
                (observability_telemetry_endpoint t) (telemetry_setting c observability_telemetry_endpoint_update), restart_hint env],
           Toggle env (label env ''settings:fields.telemetryInsecure'') (observability_telemetry_insecure t) True False
             (telemetry_setting c observability_telemetry_insecure_update),
           field (label env ''settings:fields.telemetrySampleRatio'') [ratio_input (stepped ''0'' (Some ''1'') ''0.05'') (observability_telemetry_sampleRatio t)
             (telemetry_setting c observability_telemetry_sampleRatio_update), restart_hint env],
           field (label env ''settings:fields.telemetryServiceName'') [text_input [] (observability_telemetry_serviceName t)
             (telemetry_setting c observability_telemetry_serviceName_update), restart_hint env],
           field (label env ''settings:fields.telemetryEnvironment'') [text_input [] (observability_telemetry_environment t)
             (telemetry_setting c observability_telemetry_environment_update), restart_hint env],
           DurationField env (label env ''settings:fields.telemetryExportTimeout'') (observability_telemetry_exportTimeout t) True
             (telemetry_setting c observability_telemetry_exportTimeout_update),
           DurationField env (label env ''settings:fields.telemetryMetricInterval'') (observability_telemetry_metricInterval t) True
             (telemetry_setting c observability_telemetry_metricInterval_update)] #
         (case status of None \<Rightarrow> [] | Some s \<Rightarrow> [telemetry_figures env s])))"

definition risk_section :: "render_env \<Rightarrow> Config \<Rightarrow> settings_event node" where
  "risk_section env c =
     (let r = cfg_risk c
      in settings_section env ''risk'' [] [form_grid
        [DurationField env (label env ''settings:fields.warningAfter'') (risk_warningAfter r) False (setting c Patch_risk risk_warningAfter_update),
         number_field env ''settings:fields.warningAttempts'' (minimum ''1'') (risk_warningAttempts r) (setting c Patch_risk risk_warningAttempts_update),
         number_field env ''settings:fields.authErrorAttempts'' (minimum ''1'') (risk_authErrorAttempts r)
           (setting c Patch_risk risk_authErrorAttempts_update),
         number_field env ''settings:fields.queueWarningPercent'' (between ''1'' ''100'') (risk_queueWarningPercent r)
           (setting c Patch_risk risk_queueWarningPercent_update),
         ByteSizeField env (label env ''settings:fields.minimumFreeDisk'') (risk_minimumFreeDisk r) False
           (setting c Patch_risk risk_minimumFreeDisk_update)]])"

definition safety_tab :: "render_env \<Rightarrow> Config \<Rightarrow> TelemetryStatus option \<Rightarrow> settings_event node list" where
  "safety_tab env c status = [egress_section env c, observability_section env c, telemetry_section env c status, risk_section env c]"

section \<open>Notifications\<close>

definition outcome_text :: "NotificationDelivery_outcome \<Rightarrow> string" where
  "outcome_text r = (case r of NotificationDelivery_outcome_Delivered \<Rightarrow> ''delivered'' | NotificationDelivery_outcome_Failed \<Rightarrow> ''failed''
     | NotificationDelivery_outcome_Dropped \<Rightarrow> ''dropped'')"

definition delivery_row :: "render_env \<Rightarrow> NotificationDelivery \<Rightarrow> 'e node" where
  "delivery_row env d =
     tag ''div'' [icon ''Activity'', tag ''strong'' [Txt (ndel_eventType d)],
       ctag ''span'' (''status '' @ outcome_text (ndel_outcome d)) [Txt (label env (''settings:notifications.outcome.'' @ outcome_text (ndel_outcome d)))],
       tag ''time'' [Txt (local_text env (ndel_completedAt d))]]"

definition notification_figures :: "render_env \<Rightarrow> NotificationStatus \<Rightarrow> 'e node" where
  "notification_figures env n =
     (let key = (\<lambda>s. ''settings:notifications.'' @ s)
      in ctag ''dl'' ''notification-health''
        [labelled env (key ''queue'') [Txt (int_string (nst_queueDepth n)), Txt '' / '', Txt (int_string (nst_queueCapacity n))],
         labelled env (key ''delivered'') [Txt (int_string (nst_delivered n))],
         labelled env (key ''failed'') [Txt (int_string (nst_failed n))],
         labelled env (key ''dropped'') [Txt (int_string (nst_dropped n))],
         labelled env (key ''lastFailure'')
           [Txt (if truthy_string (nst_lastFailureAt n) then local_text env (nullish (nst_lastFailureAt n) []) else label env ''common:notAvailable'')],
         labelled env (key ''signing'')
           (Txt (label env (key (if nst_signingConfigured n then ''signingConfigured'' else ''signingMissing''))) #
            when_shown (truthy_string (nst_signingKeyId n)) [ctag ''small'' ''subtle'' [Txt (nullish (nst_signingKeyId n) [])]])])"

definition test_disabled :: "settings_view \<Rightarrow> bool" where
  "test_disabled st \<longleftrightarrow>
     sw_notificationBusy st \<or> (case sw_notificationStatus st of None \<Rightarrow> True | Some n \<Rightarrow> \<not> nst_configured n \<or> \<not> nst_signingConfigured n)"

definition notifications_tab :: "render_env \<Rightarrow> Config \<Rightarrow> settings_view \<Rightarrow> settings_event node list" where
  "notifications_tab env c st =
     (let n = cfg_notifications c
      in [settings_section env ''notifications''
        [button ''button compact'' [(''disabled'', ABool (test_disabled st))] SE_test [icon ''Send'', Txt (label env ''settings:notifications.test'')]]
        [form_grid
          [DurationField env (label env ''settings:fields.stalledAfter'') (notifications_stalledAfter n) False
             (setting c Patch_notifications notifications_stalledAfter_update),
           number_field env ''settings:fields.deliveryAttempts'' (between ''1'' ''10'') (notifications_deliveryAttempts n)
             (setting c Patch_notifications notifications_deliveryAttempts_update),
           DurationField env (label env ''settings:fields.deliveryBackoff'') (notifications_deliveryBackoff n) False
             (setting c Patch_notifications notifications_deliveryBackoff_update),
           LocaleField env (label env ''settings:fields.notificationLocale'') (notifications_locale n)
             (setting c Patch_notifications notifications_locale_update),
           wide_field env ''settings:fields.webhook'' [text_input [(''type'', AStr ''url''), (''placeholder'', AStr ''https://'')] (notifications_webhookUrl n)
             (setting c Patch_notifications notifications_webhookUrl_update)]],
         ctag ''div'' ''event-options''
           (map (\<lambda>e. Toggle env (label_or env (''settings:events.'' @ e) e) (e \<in> set (notifications_eventTypes n)) False False
              (\<lambda>on. SE_config (toggleEvent e on c))) (event_options c)),
         Toggle env (label env ''settings:fields.notifyOnRecovery'') (notifications_notifyOnRecovery n) False False
           (setting c Patch_notifications notifications_notifyOnRecovery_update),
         El ''div'' [(''className'', AStr ''notification-operations''), (''aria-live'', AStr ''polite'')] []
           (when_shown (sw_notificationError st \<noteq> []) [ctag ''div'' ''error-banner'' [Txt (sw_notificationError st)]] @
            (case sw_notificationStatus st of None \<Rightarrow> [] | Some s \<Rightarrow> [notification_figures env s]) @
            when_shown (sw_deliveries st \<noteq> []) [ctag ''div'' ''notification-deliveries'' (map (delivery_row env) (take 10 (sw_deliveries st)))])]])"

section \<open>Continuity\<close>

definition persistence_section :: "render_env \<Rightarrow> Config \<Rightarrow> settings_event node" where
  "persistence_section env c =
     (let p = cfg_persistence c
      in settings_section env ''persistence''
        [Toggle env (label env ''settings:fields.persistenceEnabled'') (persistence_enabled p) True False (setting c Patch_persistence persistence_enabled_update)]
        [form_grid
          [wide_field env ''settings:fields.persistenceDirectory''
             [text_input [] (persistence_directory p) (setting c Patch_persistence persistence_directory_update), restart_hint env],
           DurationField env (label env ''settings:fields.persistenceRetention'') (persistence_retention p) True
             (setting c Patch_persistence persistence_retention_update),
           Toggle env (label env ''settings:fields.syncWrites'') (persistence_syncWrites p) True False
             (setting c Patch_persistence persistence_syncWrites_update)]])"

definition disconnect_policies :: "(string \<times> Config_lifecycle_clientDisconnectPolicy) list" where
  "disconnect_policies = [(''cancel'', Config_lifecycle_clientDisconnectPolicy_Cancel), (''finish-attempt'', Config_lifecycle_clientDisconnectPolicy_FinishAttempt)]"

definition lifecycle_section :: "render_env \<Rightarrow> Config \<Rightarrow> settings_event node" where
  "lifecycle_section env c =
     (let l = cfg_lifecycle c; key = (\<lambda>s. ''settings:fields.'' @ s);
          switch = (\<lambda>name v upd. Toggle env (label env (key name)) v False False (setting c Patch_lifecycle upd))
      in settings_section env ''lifecycle'' [] [form_grid
        [switch ''trackUncertainDelivery'' (lifecycle_trackUncertainDelivery l) lifecycle_trackUncertainDelivery_update,
         switch ''preserveIdempotencyKey'' (lifecycle_preserveIdempotencyKey l) lifecycle_preserveIdempotencyKey_update,
         switch ''generateIdempotencyKey'' (lifecycle_generateIdempotencyKey l) lifecycle_generateIdempotencyKey_update,
         switch ''allowUncertainRetry'' (lifecycle_allowUncertainRetry l) lifecycle_allowUncertainRetry_update,
         switch ''allowCrossDomainFailover'' (lifecycle_allowCrossDomainFailover l) lifecycle_allowCrossDomainFailover_update,
         DurationField env (label env (key ''maxRequestDuration'')) (lifecycle_maxRequestDuration l) False
           (setting c Patch_lifecycle lifecycle_maxRequestDuration_update),
         DurationField env (label env (key ''uncertainResolutionTarget'')) (lifecycle_uncertainResolutionTarget l) False
           (setting c Patch_lifecycle lifecycle_uncertainResolutionTarget_update),
         field (label env (key ''clientDisconnectPolicy'')) [choice_input [] disconnect_policies [label env (key ''cancel''), label env (key ''finishAttempt'')]
           (lifecycle_clientDisconnectPolicy l) (setting c Patch_lifecycle lifecycle_clientDisconnectPolicy_update)]]])"

definition incidents_section :: "render_env \<Rightarrow> Config \<Rightarrow> settings_event node" where
  "incidents_section env c =
     (let i = cfg_incidents c
      in settings_section env ''incidents''
        [Toggle env (label env ''settings:fields.incidentsEnabled'') (incidents_enabled i) False False (setting c Patch_incidents incidents_enabled_update)]
        [form_grid
          [DurationField env (label env ''settings:fields.correlationWindow'') (incidents_correlationWindow i) False
             (setting c Patch_incidents incidents_correlationWindow_update),
           DurationField env (label env ''settings:fields.recoveryStableWindow'') (incidents_recoveryStableWindow i) False
             (setting c Patch_incidents incidents_recoveryStableWindow_update),
           DurationField env (label env ''settings:fields.incidentRetention'') (incidents_retention i) False
             (setting c Patch_incidents incidents_retention_update),
           number_field env ''settings:fields.incidentLimit'' (between ''1'' ''100000'') (incidents_maxItems i)
             (setting c Patch_incidents incidents_maxItems_update)]])"

text \<open>\<open>patchOIDC\<close>\<close>

definition oidc_setting ::
  "Config \<Rightarrow> (('v \<Rightarrow> 'v) \<Rightarrow> Config_managementSecurity_oidc \<Rightarrow> Config_managementSecurity_oidc) \<Rightarrow> 'v \<Rightarrow> settings_event" where
  "oidc_setting c upd v = SE_config (patchOIDC (upd (\<lambda>_. v)) c)"

definition oidc_text :: "render_env \<Rightarrow> bool \<Rightarrow> (string \<times> attr) list \<Rightarrow> string \<Rightarrow> (string \<Rightarrow> 'e) \<Rightarrow> 'e node list" where
  "oidc_text env sensitive as v h = [text_input ((''disabled'', ABool (\<not> sensitive)) # as) v h, restart_hint env]"

definition oidc_list :: "render_env \<Rightarrow> bool \<Rightarrow> string \<Rightarrow> string list \<Rightarrow> (string list \<Rightarrow> 'e) \<Rightarrow> 'e node" where
  "oidc_list env sensitive name vs h =
     field (label env (''settings:fields.'' @ name)) (oidc_text env sensitive [] (comma_text vs) (\<lambda>s. h (comma_parse s)))"

definition security_section :: "render_env \<Rightarrow> Config \<Rightarrow> bool \<Rightarrow> settings_event node" where
  "security_section env c sensitive =
     (let m = cfg_managementSecurity c; o1 = managementSecurity_oidc m; key = (\<lambda>s. ''settings:fields.'' @ s)
      in settings_section env ''managementSecurity'' []
        (form_grid
          [Toggle env (label env (key ''localAccessEnabled'')) (managementSecurity_localAccessEnabled m) True (\<not> sensitive)
             (setting c Patch_managementSecurity managementSecurity_localAccessEnabled_update),
           number_field env (key ''loginFailuresPerMinute'') (between ''1'' ''100'') (managementSecurity_loginFailuresPerMinute m)
             (setting c Patch_managementSecurity managementSecurity_loginFailuresPerMinute_update),
           DurationField env (label env (key ''loginCooldown'')) (managementSecurity_loginCooldown m) False
             (setting c Patch_managementSecurity managementSecurity_loginCooldown_update),
           DurationField env (label env (key ''sessionIdleTimeout'')) (managementSecurity_sessionIdleTimeout m) False
             (setting c Patch_managementSecurity managementSecurity_sessionIdleTimeout_update),
           DurationField env (label env (key ''sessionMaxLifetime'')) (managementSecurity_sessionMaxLifetime m) False
             (setting c Patch_managementSecurity managementSecurity_sessionMaxLifetime_update),
           Toggle env (label env (key ''oidcEnabled'')) (managementSecurity_oidc_enabled o1) True (\<not> sensitive)
             (oidc_setting c managementSecurity_oidc_enabled_update),
           wide_field env (key ''oidcIssuer'') (oidc_text env sensitive [(''type'', AStr ''url'')] (managementSecurity_oidc_issuerUrl o1)
             (oidc_setting c managementSecurity_oidc_issuerUrl_update)),
           field (label env (key ''oidcClientId'')) (oidc_text env sensitive [] (managementSecurity_oidc_clientId o1)
             (oidc_setting c managementSecurity_oidc_clientId_update)),
           wide_field env (key ''oidcRedirect'') (oidc_text env sensitive [(''type'', AStr ''url'')] (managementSecurity_oidc_redirectUrl o1)
             (oidc_setting c managementSecurity_oidc_redirectUrl_update)),
           field (label env (key ''oidcRoleClaim'')) (oidc_text env sensitive [] (managementSecurity_oidc_roleClaim o1)
             (oidc_setting c managementSecurity_oidc_roleClaim_update)),
           oidc_list env sensitive ''viewerValues'' (managementSecurity_oidc_viewerValues o1) (oidc_setting c managementSecurity_oidc_viewerValues_update),
           oidc_list env sensitive ''operatorValues'' (managementSecurity_oidc_operatorValues o1) (oidc_setting c managementSecurity_oidc_operatorValues_update),
           oidc_list env sensitive ''sensitiveValues'' (managementSecurity_oidc_sensitiveValues o1)
             (oidc_setting c managementSecurity_oidc_sensitiveValues_update)] #
         when_shown (\<not> sensitive) [ctag ''p'' ''field-hint'' [Txt (label env ''settings:oidc.sensitiveRequired'')]]))"

definition metrics_section :: "render_env \<Rightarrow> Config \<Rightarrow> settings_event node" where
  "metrics_section env c =
     settings_section env ''metrics''
       [Toggle env (label env ''settings:fields.metricsEnabled'') (metricsExport_enabled (cfg_metricsExport c)) True False
          (setting c Patch_metricsExport metricsExport_enabled_update)]
       [form_grid [field (label env ''settings:fields.metricsPath'') [text_input [] (metricsExport_path (cfg_metricsExport c))
          (setting c Patch_metricsExport metricsExport_path_update), restart_hint env]]]"

definition version_row :: "render_env \<Rightarrow> bool \<Rightarrow> bool \<Rightarrow> string \<Rightarrow> ConfigVersion \<Rightarrow> settings_event node" where
  "version_row env sensitive edited rollbackBusy v =
     (let key = (\<lambda>s. ''settings:history.'' @ s); changed = join_with '', '' (ccp_changedSections (cver_diff v))
      in tag ''article''
        [tag ''div'' [tag ''strong'' [Txt (local_text env (cver_modifiedAt v))], tag ''code'' (text_of (take 12 (nullish (cver_sha256 v) []))),
           tag ''small'' [Txt (label_with env (key ''schema'') (case cver_schemaVersion v of None \<Rightarrow> [] | Some n \<Rightarrow> [(''version'', int_string n)])), Txt dot,
             Txt (label_with env (key ''size'') [(''size'', int_string (cver_sizeBytes v))])]],
         ctag ''div'' ''config-version-diff''
           [tag ''span'' [Txt (label env (key ''changed''))], tag ''strong'' [Txt (or_string (Some changed) (label env (key ''noChanges'')))],
            tag ''small'' [Txt (label env (key (if ccp_restartRequired (cver_applyPlan v) then ''restartRequired'' else ''hotReload'')))]],
         button ''button compact'' [(''type'', AStr ''button''), (''disabled'', ABool (rollback_disabled edited sensitive rollbackBusy v))] (SE_rollback v)
           [icon ''History'', Txt (label env (if rollbackBusy = cver_name v then ''common:loading'' else key ''rollback''))]])"

definition versions_section :: "render_env \<Rightarrow> bool \<Rightarrow> bool \<Rightarrow> settings_view \<Rightarrow> settings_event node" where
  "versions_section env sensitive edited st =
     settings_section env ''configHistory''
       [button ''icon-button'' ((''type'', AStr ''button'') # tooltip (label env ''common:actions.refresh'')) SE_versions [icon ''RotateCcw'']]
       (when_shown (sw_historyError st \<noteq> []) [ctag ''div'' ''error-banner'' [Txt (sw_historyError st)]] @
        when_shown edited [ctag ''div'' ''warning-banner'' [Txt (label env ''settings:history.unsavedBlocked'')]] @
        [if sw_versions st = [] then ctag ''div'' ''empty-state compact'' [icon ''History'', Txt (label env ''settings:history.empty'')]
         else ctag ''div'' ''config-version-list'' (map (version_row env sensitive edited (sw_rollbackBusy st)) (sw_versions st))])"

definition continuity_tab :: "render_env \<Rightarrow> Config \<Rightarrow> bool \<Rightarrow> bool \<Rightarrow> settings_view \<Rightarrow> settings_event node list" where
  "continuity_tab env c sensitive edited st =
     [persistence_section env c, lifecycle_section env c, incidents_section env c, security_section env c sensitive, metrics_section env c,
      versions_section env sensitive edited st]"

section \<open>Policies\<close>

definition slo_section :: "render_env \<Rightarrow> Config \<Rightarrow> settings_event node" where
  "slo_section env c =
     (let s = cfg_slo c
      in settings_section env ''slo''
        [Toggle env (label env ''settings:policy.sloEnabled'') (slo_enabled s) False False (setting c Patch_slo slo_enabled_update)]
        [form_grid
          [ratio_field env ''settings:policy.availabilityTarget'' (stepped ''0'' (Some ''1'') ''0.001'') (slo_availabilityTarget s)
             (setting c Patch_slo slo_availabilityTarget_update),
           DurationField env (label env ''settings:policy.recoveryTarget'') (slo_recoveryLatencyTarget s) False
             (setting c Patch_slo slo_recoveryLatencyTarget_update),
           DurationField env (label env ''settings:policy.sloWindow'') (slo_window s) False (setting c Patch_slo slo_window_update)]])"

definition release_stage_text :: "Config_trafficPolicy_releaseStage \<Rightarrow> string" where
  "release_stage_text s = (case s of Config_trafficPolicy_releaseStage_Draft \<Rightarrow> ''draft'' | Config_trafficPolicy_releaseStage_Shadow \<Rightarrow> ''shadow''
     | Config_trafficPolicy_releaseStage_Canary \<Rightarrow> ''canary'' | Config_trafficPolicy_releaseStage_Full \<Rightarrow> ''full'')"

definition publish_button :: "render_env \<Rightarrow> bool \<Rightarrow> string \<Rightarrow> string \<Rightarrow> PolicyReleaseRecord_stage \<Rightarrow> settings_event node" where
  "publish_button env busy c ic stage =
     button c [(''disabled'', ABool busy), (''type'', AStr ''button'')] (SE_publish stage)
       [icon ic, Txt (label env (''settings:policy.publish.'' @ stage_string stage))]"

definition release_section :: "render_env \<Rightarrow> Config \<Rightarrow> settings_view \<Rightarrow> settings_event node" where
  "release_section env c st =
     (let busy = sw_policyBusy st \<noteq> []; stopped = (case sw_policyStatus st of None \<Rightarrow> False | Some p \<Rightarrow> pst_adaptiveStopped p);
          key = (\<lambda>s. ''settings:policy.'' @ s); none = label env ''common:notAvailable'';
          stage = or_string (map_option prs_currentStage (sw_releases st)) (release_stage_text (trafficPolicy_releaseStage (cfg_trafficPolicy c)));
          active = or_string (map_option prs_currentRevision (sw_releases st)) (or_string (trafficPolicy_revision (cfg_trafficPolicy c)) none)
      in ctag ''section'' ''policy-release-panel''
        [ctag ''div'' ''section-heading''
           [heading (label env ''settings:sections.policyRelease.title'') (label env ''settings:sections.policyRelease.description''),
            ctag ''span'' (''status '' @ (if stopped then ''degraded'' else ''healthy'')) [Txt (label env (key (''stage.'' @ stage)))]],
         ctag ''div'' ''policy-release-actions''
           [button ''button compact'' [(''disabled'', ABool busy), (''type'', AStr ''button'')] SE_draft
              [icon ''Save'', Txt (label env (key (if sw_policyBusy st = ''draft'' then ''saving'' else ''saveDraft'')))],
            publish_button env busy ''button compact'' ''GitCompareArrows'' PolicyReleaseRecord_stage_Shadow,
            ctag ''label'' ''field compact-field'' [tag ''span'' [Txt (label env (key ''canaryPercent''))],
              number_input (between ''1'' ''100'') (sw_canaryPercent st) SE_canary],
            publish_button env busy ''button compact'' ''Rocket'' PolicyReleaseRecord_stage_Canary,
            publish_button env busy ''button compact danger'' ''Rocket'' PolicyReleaseRecord_stage_Full],
         ctag ''dl'' ''operational-health''
           [labelled env (key ''activeRevision'') [tag ''code'' [Txt active]],
            labelled env (key ''draftRevision'') [tag ''code'' [Txt (or_string (Option.bind (sw_releases st) prs_draftRevision) none)]],
            marked_figure env (key ''adaptiveState'') (\<not> stopped)
              [Txt (if stopped then label_with env (key ''adaptiveStopped'') [(''reason'', nullish (Option.bind (sw_policyStatus st) pst_adaptiveStopReason) [])]
                else label env (key ''adaptiveRunning''))]]])"

text \<open>A choice of a target: the identifiers are their own labels.\<close>

definition target_select :: "(string \<times> attr) list \<Rightarrow> string \<Rightarrow> 'e node list \<Rightarrow> string list \<Rightarrow> (string \<Rightarrow> 'e) \<Rightarrow> 'e node" where
  "target_select as v first ids h =
     control_el ''select'' ((''value'', AStr v) # as) h (first @ map (\<lambda>i. tag ''option'' [Txt i]) ids)"

definition rule_actions :: "(string \<times> TrafficPolicyRule_action) list" where
  "rule_actions = [(''route'', TrafficPolicyRule_action_Route), (''deny'', TrafficPolicyRule_action_Deny)]"

definition rule_row :: "render_env \<Rightarrow> Config \<Rightarrow> nat \<Rightarrow> TrafficPolicyRule \<Rightarrow> settings_event node" where
  "rule_row env c i r =
     (let change = (\<lambda>f. SE_config (patchRule i f c)); key = (\<lambda>s. ''settings:policy.'' @ s)
      in ctag ''div'' ''policy-rule-row''
        [Toggle env (or_string (Some (tpr_id r)) (label env (key ''newRule''))) (tpr_enabled r) False False (\<lambda>v. change (tpr_enabled_update (\<lambda>_. v))),
         text_input (aria env (key ''ruleId'')) (tpr_id r) (\<lambda>v. change (tpr_id_update (\<lambda>_. v))),
         text_input (aria env (key ''pathPrefix'')) (tpr_pathPrefix r) (\<lambda>v. change (tpr_pathPrefix_update (\<lambda>_. v))),
         text_input (aria env (key ''model'')) (tpr_model r) (\<lambda>v. change (tpr_model_update (\<lambda>_. v))),
         choice_input (aria env (key ''action'')) rule_actions [label env (key ''route''), label env (key ''deny'')] (tpr_action r)
           (\<lambda>v. change (tpr_action_update (\<lambda>_. v))),
         target_select (aria env (key ''target'') @ [(''disabled'', ABool (tpr_action r = TrafficPolicyRule_action_Deny))]) (tpr_targetId r) [] (targetIds c)
           (\<lambda>v. change (tpr_targetId_update (\<lambda>_. v))),
         delete_button env False (SE_config (patchTrafficPolicy (trafficPolicy_rules_update (remove_at i)) c))])"

definition new_rule :: "Config \<Rightarrow> TrafficPolicyRule" where
  "new_rule c =
     (let rules = trafficPolicy_rules (cfg_trafficPolicy c)
      in \<lparr>tpr_id = ''policy-'' @ nat_string (length rules + 1), tpr_enabled = True, tpr_priority = int (length rules), tpr_method = ''POST'',
          tpr_pathPrefix = ''/v1/'', tpr_model = [], tpr_principalPrefix = [], tpr_action = TrafficPolicyRule_action_Route, tpr_targetId = hd (targetIds c)\<rparr>)"

definition policy_modes :: "(string \<times> Config_trafficPolicy_mode) list" where
  "policy_modes = [(''observe'', Config_trafficPolicy_mode_Observe), (''enforce'', Config_trafficPolicy_mode_Enforce)]"

definition rules_section :: "render_env \<Rightarrow> Config \<Rightarrow> settings_event node" where
  "rules_section env c =
     (let p = cfg_trafficPolicy c
      in settings_section env ''policy''
        [Toggle env (label env ''settings:policy.enabled'') (trafficPolicy_enabled p) False False (setting c Patch_trafficPolicy trafficPolicy_enabled_update)]
        [form_grid [field (label env ''settings:policy.mode'') [choice_input [] policy_modes
           [label env ''settings:governance.observe'', label env ''settings:governance.enforce''] (trafficPolicy_mode p)
           (setting c Patch_trafficPolicy trafficPolicy_mode_update)]],
         ctag ''div'' ''policy-rule-list'' (map (\<lambda>q. rule_row env c (fst q) (snd q)) (enumerate 0 (trafficPolicy_rules p))),
         button ''button compact'' [(''type'', AStr ''button'')] (SE_config (patchTrafficPolicy (trafficPolicy_rules_update (\<lambda>rs. rs @ [new_rule c])) c))
           [icon ''Plus'', Txt (label env ''settings:policy.addRule'')]])"

definition shadow_setting ::
  "Config \<Rightarrow> (('v \<Rightarrow> 'v) \<Rightarrow> Config_trafficPolicy_shadow \<Rightarrow> Config_trafficPolicy_shadow) \<Rightarrow> 'v \<Rightarrow> settings_event" where
  "shadow_setting c upd = setting c Patch_trafficPolicy (\<lambda>f. trafficPolicy_shadow_update (upd f))"

definition shadow_section :: "render_env \<Rightarrow> Config \<Rightarrow> settings_event node" where
  "shadow_section env c =
     (let s = trafficPolicy_shadow (cfg_trafficPolicy c); key = (\<lambda>s. ''settings:policy.'' @ s)
      in settings_section env ''shadow''
        [Toggle env (label env (key ''shadowEnabled'')) (trafficPolicy_shadow_enabled s) False False (shadow_setting c trafficPolicy_shadow_enabled_update)]
        [form_grid
          [field (label env (key ''target'')) [target_select [] (trafficPolicy_shadow_targetId s) [] (targetIds c)
             (shadow_setting c trafficPolicy_shadow_targetId_update)],
           number_field env (key ''samplePercent'') (between ''0'' ''100'') (trafficPolicy_shadow_samplePercent s)
             (shadow_setting c trafficPolicy_shadow_samplePercent_update),
           number_field env (key ''shadowConcurrent'') (minimum ''1'') (trafficPolicy_shadow_maxConcurrent s)
             (shadow_setting c trafficPolicy_shadow_maxConcurrent_update),
           ByteSizeField env (label env (key ''shadowBodyLimit'')) (trafficPolicy_shadow_maxRequestBody s) False
             (shadow_setting c trafficPolicy_shadow_maxRequestBody_update),
           number_field env (key ''requestBudget'') (minimum ''0'') (trafficPolicy_shadow_requestBudgetPerHour s)
             (shadow_setting c trafficPolicy_shadow_requestBudgetPerHour_update),
           number_field env (key ''costBudget'') (minimum ''0'') (trafficPolicy_shadow_costBudgetMicrosPerHour s)
             (shadow_setting c trafficPolicy_shadow_costBudgetMicrosPerHour_update),
           number_field env (key ''costReservation'') (minimum ''0'') (trafficPolicy_shadow_costReservationMicros s)
             (shadow_setting c trafficPolicy_shadow_costReservationMicros_update),
           Toggle env (label env (key ''requireIdempotency'')) (trafficPolicy_shadow_requireIdempotency s) False False
             (shadow_setting c trafficPolicy_shadow_requireIdempotency_update)]])"

definition adaptive_setting ::
  "Config \<Rightarrow> (('v \<Rightarrow> 'v) \<Rightarrow> Config_trafficPolicy_adaptive \<Rightarrow> Config_trafficPolicy_adaptive) \<Rightarrow> 'v \<Rightarrow> settings_event" where
  "adaptive_setting c upd = setting c Patch_trafficPolicy (\<lambda>f. trafficPolicy_adaptive_update (upd f))"

definition adaptive_section :: "render_env \<Rightarrow> Config \<Rightarrow> settings_event node" where
  "adaptive_section env c =
     (let a = trafficPolicy_adaptive (cfg_trafficPolicy c); key = (\<lambda>s. ''settings:policy.'' @ s)
      in settings_section env ''adaptive''
        [Toggle env (label env (key ''adaptiveEnabled'')) (trafficPolicy_adaptive_enabled a) False False (adaptive_setting c trafficPolicy_adaptive_enabled_update)]
        [form_grid
          [ratio_field env (key ''errorBudgetFloor'') (stepped ''0'' (Some ''1'') ''0.05'') (trafficPolicy_adaptive_errorBudgetFloor a)
             (adaptive_setting c trafficPolicy_adaptive_errorBudgetFloor_update),
           number_field env (key ''minimumObservations'') (minimum ''1'') (trafficPolicy_adaptive_minimumObservations a)
             (adaptive_setting c trafficPolicy_adaptive_minimumObservations_update),
           number_field env (key ''maximumLatency'') (minimum ''1'') (trafficPolicy_adaptive_maximumLatencyMilliseconds a)
             (adaptive_setting c trafficPolicy_adaptive_maximumLatencyMilliseconds_update),
           ratio_field env (key ''latencyWeight'') (stepped ''0'' None ''0.05'') (trafficPolicy_adaptive_latencyWeight a)
             (adaptive_setting c trafficPolicy_adaptive_latencyWeight_update),
           ratio_field env (key ''errorWeight'') (stepped ''0'' None ''0.05'') (trafficPolicy_adaptive_errorRateWeight a)
             (adaptive_setting c trafficPolicy_adaptive_errorRateWeight_update),
           ratio_field env (key ''costWeight'') (stepped ''0'' None ''0.05'') (trafficPolicy_adaptive_costWeight a)
             (adaptive_setting c trafficPolicy_adaptive_costWeight_update),
           ratio_field env (key ''capabilityWeight'') (stepped ''0'' None ''0.05'') (trafficPolicy_adaptive_capabilityWeight a)
             (adaptive_setting c trafficPolicy_adaptive_capabilityWeight_update),
           DurationField env (label env (key ''switchCooldown'')) (trafficPolicy_adaptive_switchCooldown a) False
             (adaptive_setting c trafficPolicy_adaptive_switchCooldown_update),
           field (label env (key ''fallbackTarget'')) [target_select [] (trafficPolicy_adaptive_fallbackTargetId a)
             [El ''option'' [(''value'', AStr [])] [] [Txt (label env (key ''default''))]] (targetIds c) (adaptive_setting c trafficPolicy_adaptive_fallbackTargetId_update)],
           ratio_field env (key ''autoStopBurnRate'') (stepped ''0'' None ''0.1'') (trafficPolicy_adaptive_autoStopBurnRate a)
             (adaptive_setting c trafficPolicy_adaptive_autoStopBurnRate_update),
           ratio_field env (key ''autoStopFailureRate'') (stepped ''0'' (Some ''1'') ''0.05'') (trafficPolicy_adaptive_autoStopFailureRate a)
             (adaptive_setting c trafficPolicy_adaptive_autoStopFailureRate_update)]])"

definition decision_panel :: "render_env \<Rightarrow> PolicyDecision \<Rightarrow> 'e node list" where
  "decision_panel env d =
     (let key = (\<lambda>s. ''settings:policy.'' @ s); none = label env ''common:notAvailable''
      in [ctag ''dl'' ''operational-health''
            [labelled env (key ''result'') [Txt (if pd_denied d then label env (key ''deny'') else or_string (pd_targetId d) (label env (key ''default'')))],
             labelled env (key ''matchedRule'') [Txt (or_string (pd_matchedRuleId d) none)],
             labelled env (key ''enforced'') [Txt (label env (if pd_enforced d then ''settings:governance.enforce'' else ''settings:governance.observe''))],
             labelled env (key ''shadow'') (text_of (if pd_shadowEligible d then nullish (pd_shadowTargetId d) [] else label env (key ''notEligible''))),
             labelled env (key ''score'') [Txt (or_string (map_option (signed_fixed 4) (pd_adaptiveScore d)) none)]],
          ctag ''ol'' ''decision-explanation'' (map (\<lambda>x. tag ''li'' [Txt x]) (nullish (pd_explanation d) []))])"

definition simulator_section :: "render_env \<Rightarrow> settings_view \<Rightarrow> settings_event node" where
  "simulator_section env st =
     (let s = sw_probe st; key = (\<lambda>s. ''settings:policy.'' @ s)
      in settings_section env ''simulator''
        [button ''button compact'' [(''type'', AStr ''button'')] SE_simulate [icon ''Zap'', Txt (label env (key ''simulate''))]]
        (form_grid
          [field (label env (key ''method'')) [target_select [] (pp_method s) [] [''POST'', ''GET'', ''DELETE''] (\<lambda>v. SE_probe (s\<lparr>pp_method := v\<rparr>))],
           wide_field env (key ''path'') [text_input [] (pp_path s) (\<lambda>v. SE_probe (s\<lparr>pp_path := v\<rparr>))],
           text_field env (key ''model'') (pp_model s) (\<lambda>v. SE_probe (s\<lparr>pp_model := v\<rparr>)),
           text_field env (key ''principal'') (pp_principal s) (\<lambda>v. SE_probe (s\<lparr>pp_principal := v\<rparr>))] #
         when_shown (sw_policyError st \<noteq> []) [ctag ''div'' ''error-banner'' [Txt (sw_policyError st)]] @
         (case sw_decision st of None \<Rightarrow> [] | Some d \<Rightarrow> decision_panel env d) @
         (case sw_policyStatus st of
            None \<Rightarrow> []
          | Some p \<Rightarrow> [ctag ''p'' ''subtle'' [Txt (label_with env (key ''runtimeSummary'')
              [(''decisions'', int_string (pst_decisions p)), (''routed'', int_string (pst_routed p)), (''denied'', int_string (pst_denied p)),
               (''shadows'', int_string (pst_shadowSent p))])]])))"

definition release_row :: "render_env \<Rightarrow> bool \<Rightarrow> string \<Rightarrow> PolicyReleaseRecord \<Rightarrow> settings_event node" where
  "release_row env busy current r =
     ctag ''article'' ''config-history-item''
       [tag ''div''
          [tag ''strong'' [Txt (label env (''settings:policy.stage.'' @ stage_string (prr_stage r))), Txt dot, tag ''code'' [Txt (prr_revision r)]],
           tag ''span'' [Txt (local_text env (prr_createdAt r)), Txt dot, Txt (or_string (prr_actor r) (label env ''common:notAvailable''))]],
        button ''button compact'' [(''type'', AStr ''button''), (''disabled'', ABool (busy \<or> prr_revision r = current))] (SE_release r)
          [icon ''Undo2'', Txt (label env ''settings:policy.rollback'')]]"

definition releases_section :: "render_env \<Rightarrow> settings_view \<Rightarrow> settings_event node" where
  "releases_section env st =
     settings_section env ''policyHistory'' [] [ctag ''div'' ''config-history-list''
       (case sw_releases st of
          None \<Rightarrow> [ctag ''p'' ''subtle'' [Txt (label env ''settings:policy.noHistory'')]]
        | Some p \<Rightarrow>
            if prs_history p = [] then [ctag ''p'' ''subtle'' [Txt (label env ''settings:policy.noHistory'')]]
            else map (release_row env (sw_policyBusy st \<noteq> []) (prs_currentRevision p)) (rev (prs_history p)))]"

definition policy_tab :: "render_env \<Rightarrow> Config \<Rightarrow> settings_view \<Rightarrow> settings_event node list" where
  "policy_tab env c st =
     [slo_section env c, release_section env c st, rules_section env c, shadow_section env c, adaptive_section env c, simulator_section env st,
      releases_section env st]"

section \<open>The view\<close>

definition all_tabs :: "Tab list" where
  "all_tabs = [Tab_general, Tab_retry, Tab_traffic, Tab_policy, Tab_continuity, Tab_safety, Tab_capture, Tab_notifications, Tab_appearance, Tab_logging]"

definition tab_text :: "Tab \<Rightarrow> string" where
  "tab_text t = (case t of Tab_general \<Rightarrow> ''general'' | Tab_retry \<Rightarrow> ''retry'' | Tab_traffic \<Rightarrow> ''traffic'' | Tab_policy \<Rightarrow> ''policy''
     | Tab_continuity \<Rightarrow> ''continuity'' | Tab_safety \<Rightarrow> ''safety'' | Tab_capture \<Rightarrow> ''capture'' | Tab_notifications \<Rightarrow> ''notifications''
     | Tab_appearance \<Rightarrow> ''appearance'' | Tab_logging \<Rightarrow> ''logging'')"

definition tab_content :: "render_env \<Rightarrow> settings_data \<Rightarrow> settings_view \<Rightarrow> settings_event node list" where
  "tab_content env d st =
     (let c = sx_config d
      in case sw_tab st of
        Tab_general \<Rightarrow> general_tab env c (sx_upstream d) (sx_runtimeInfo d)
      | Tab_retry \<Rightarrow> retry_tab env c
      | Tab_traffic \<Rightarrow> traffic_tab env c (sx_governance d)
      | Tab_policy \<Rightarrow> policy_tab env c st
      | Tab_continuity \<Rightarrow> continuity_tab env c (sx_canSensitive d) (sx_dirty d) st
      | Tab_safety \<Rightarrow> safety_tab env c (sx_telemetry d)
      | Tab_capture \<Rightarrow> capture_tab env c
      | Tab_notifications \<Rightarrow> notifications_tab env c st
      | Tab_appearance \<Rightarrow> appearance_tab env (sx_theme d)
      | Tab_logging \<Rightarrow> logging_tab env c)"

definition restart_banner :: "render_env \<Rightarrow> ConfigRuntimeState option \<Rightarrow> 'e node list" where
  "restart_banner env state =
     (case state of
        None \<Rightarrow> []
      | Some c \<Rightarrow>
          let plan = crs_pendingRestart c;
              paths = join_with '', '' (map ccp_fields_path (filter (\<lambda>f. ccp_fields_applyMode f = ConfigChangePlan_fields_applyMode_Restart) (nullish (ccp_fields plan) [])))
          in when_shown (ccp_restartRequired plan)
            [El ''div'' [(''className'', AStr ''pending-restart-banner''), (''role'', AStr ''status'')] []
               [tag ''strong'' [Txt (label env ''settings:pendingRestart.title'')],
                tag ''span'' [Txt (label_with env ''settings:pendingRestart.revisions'' [(''active'', crs_activeRevision c), (''desired'', crs_desiredRevision c)])],
                tag ''small'' (text_of (or_string (Some paths) (join_with '', '' (ccp_restartSections plan))))]])"

definition diff_summary :: "render_env \<Rightarrow> settings_data \<Rightarrow> 'e node" where
  "diff_summary env d =
     (let changed = changedSections (sx_config d) (sx_baseline d)
      in El ''div'' [(''className'', AStr (''settings-diff'' @ (if sx_dirty d then '' dirty'' else []))), (''aria-live'', AStr ''polite'')] []
        ([tag ''strong'' [Txt (if sx_dirty d then label_with env ''settings:changeSummary'' [(''count'', nat_string (length changed))]
            else label env ''settings:noConfigChanges'')]] @
         when_shown (sx_dirty d) [tag ''span'' [Txt (label_with env ''settings:changeSections''
           [(''sections'', join_with '', '' (map (\<lambda>t. label_or env (''settings:tabs.'' @ tab_text t) (tab_text t)) changed))])]] @
         when_shown (policyDirty (sx_config d) (sx_baseline d)) [ctag ''small'' ''policy-draft-hint'' [Txt (label env ''settings:policy.draftHint'')]]))"

definition settings_actions :: "render_env \<Rightarrow> settings_data \<Rightarrow> settings_event node" where
  "settings_actions env d =
     ctag ''div'' ''settings-actions''
       [button ''button'' [(''disabled'', ABool (discard_disabled (sx_dirty d) (sx_busy d)))] SE_discard [icon ''Undo2'', Txt (label env ''common:actions.discard'')],
        button ''button'' [(''disabled'', ABool (sx_busy d))] SE_reload [icon ''RotateCcw'', Txt (label env ''common:actions.reload'')],
        button ''button primary'' [(''disabled'', ABool (save_disabled (sx_dirty d) (sx_busy d) (changedSections (sx_config d) (sx_baseline d))))] SE_save
          [icon ''Save'', Txt (label env (if sx_busy d then ''common:loading'' else ''common:actions.save''))]]"

definition SettingsView :: "render_env \<Rightarrow> settings_data \<Rightarrow> settings_view \<Rightarrow> settings_event node" where
  "SettingsView env d st =
     ctag ''div'' ''settings-shell''
       ([El ''div'' [(''className'', AStr ''settings-tabs''), (''role'', AStr ''tablist'')] []
           (map (\<lambda>t. button (if sw_tab st = t then ''active'' else []) [(''role'', AStr ''tab''), (''aria-selected'', ABool (sw_tab st = t))] (SE_tab t)
              [Txt (label env (''settings:tabs.'' @ tab_text t))]) all_tabs)] @
        when_shown (sx_dirty d) [ctag ''div'' ''unsaved-banner''
          [Txt (label env (if policyDirty (sx_config d) (sx_baseline d) then ''settings:policy.unsavedHint'' else ''settings:unsaved''))]] @
        restart_banner env (sx_configState d) @
        [ctag ''div'' ''settings-stack''
           (ctag ''div'' ''settings-apply-legend''
              [tag ''span'' [icon ''Zap'', Txt (label env ''settings:hotReload'')], tag ''span'' [icon ''Power'', Txt (label env ''settings:restartApply'')]] #
            tab_content env d st),
         diff_summary env d,
         settings_actions env d])"

section \<open>What a field may change\<close>

text \<open>What the gateway compares to see whether authentication changes (\<open>Diff\<close> of internal/config/config.go).\<close>

definition authentication_of :: "Config \<Rightarrow> bool \<times> Config_managementSecurity_oidc" where
  "authentication_of c = (managementSecurity_localAccessEnabled (cfg_managementSecurity c), managementSecurity_oidc (cfg_managementSecurity c))"

text \<open>
  The effects allowed on a tab: an edit patches one section of the tab, and without the
  sensitive capability \<open>s\<close> neither an edit nor a rollback touches authentication.
\<close>

definition own :: "Tab \<Rightarrow> bool \<Rightarrow> Config \<Rightarrow> settings_event set" where
  "own t s c =
     {e. (\<forall>c'. e = SE_config c' \<longrightarrow> (\<exists>p. configTabs (patch_key p) = t \<and> c' = patch p c) \<and> (s \<or> authentication_of c' = authentication_of c)) \<and>
         (\<forall>v. e = SE_rollback v \<longrightarrow> s \<or> \<not> authentication_rollback v)}"

lemma authentication_updates [simp]:
  "authentication_of (cfg_server_update f0 c) = authentication_of c" "authentication_of (cfg_upstream_update f1 c) = authentication_of c"
  "authentication_of (cfg_upstreams_update f2 c) = authentication_of c" "authentication_of (cfg_localization_update f3 c) = authentication_of c"
  "authentication_of (cfg_retry_update f4 c) = authentication_of c" "authentication_of (cfg_stream_update f5 c) = authentication_of c"
  "authentication_of (cfg_queue_update f6 c) = authentication_of c" "authentication_of (cfg_history_update f7 c) = authentication_of c"
  "authentication_of (cfg_observability_update f8 c) = authentication_of c" "authentication_of (cfg_risk_update f9 c) = authentication_of c"
  "authentication_of (cfg_capture_update f10 c) = authentication_of c" "authentication_of (cfg_notifications_update f11 c) = authentication_of c"
  "authentication_of (cfg_logging_update f12 c) = authentication_of c" "authentication_of (cfg_persistence_update f13 c) = authentication_of c"
  "authentication_of (cfg_incidents_update f14 c) = authentication_of c" "authentication_of (cfg_lifecycle_update f15 c) = authentication_of c"
  "authentication_of (cfg_metricsExport_update f16 c) = authentication_of c" "authentication_of (cfg_governance_update f17 c) = authentication_of c"
  "authentication_of (cfg_egress_update f18 c) = authentication_of c" "authentication_of (cfg_slo_update f19 c) = authentication_of c"
  "authentication_of (cfg_trafficPolicy_update f20 c) = authentication_of c" "authentication_of (cfg_managementSecurity_update (managementSecurity_loginFailuresPerMinute_update g0) c) = authentication_of c"
  "authentication_of (cfg_managementSecurity_update (managementSecurity_loginCooldown_update g1) c) = authentication_of c" "authentication_of (cfg_managementSecurity_update (managementSecurity_sessionIdleTimeout_update g2) c) = authentication_of c"
  "authentication_of (cfg_managementSecurity_update (managementSecurity_sessionMaxLifetime_update g3) c) = authentication_of c"
  by (simp_all add: authentication_of_def)

lemma own_patch:
  "configTabs (patch_key p) = t \<Longrightarrow> s \<or> authentication_of (patch p c) = authentication_of c \<Longrightarrow> SE_config (patch p c) \<in> own t s c"
  by (auto simp: own_def)

lemma own_setting [simp]:
  "configTabs (patch_key (sec (upd (\<lambda>_. v)))) = t \<Longrightarrow> s \<or> authentication_of (patch (sec (upd (\<lambda>_. v))) c) = authentication_of c \<Longrightarrow>
   setting c sec upd v \<in> own t s c"
  unfolding setting_def by (rule own_patch)

lemma own_quiet [simp]:
  "SE_tab x \<in> own t s c" "SE_untyped \<in> own t s c" "SE_draft \<in> own t s c" "SE_publish x2 \<in> own t s c" "SE_canary n \<in> own t s c"
  "SE_probe p \<in> own t s c" "SE_simulate \<in> own t s c" "SE_release r \<in> own t s c" "SE_versions \<in> own t s c" "SE_test \<in> own t s c"
  "SE_theme m \<in> own t s c" "SE_discard \<in> own t s c" "SE_reload \<in> own t s c" "SE_save \<in> own t s c"
  "SE_rollback v \<in> own t s c \<longleftrightarrow> s \<or> \<not> authentication_rollback v"
  by (auto simp: own_def)

lemma own_patches [simp]:
  "SE_config (patchTarget i f c) \<in> own Tab_general s c" "SE_config (removeTarget i c) \<in> own Tab_general s c"
  "SE_config (addTarget u c) \<in> own Tab_general s c"
  "SE_config (patchGovernanceBudget i g c) \<in> own Tab_traffic s c" "SE_config (removeGovernanceBudget i c) \<in> own Tab_traffic s c"
  "SE_config (addGovernanceBudget c) \<in> own Tab_traffic s c"
  "SE_config (patchRule i h c) \<in> own Tab_policy s c" "SE_config (patchTrafficPolicy k c) \<in> own Tab_policy s c"
  "SE_config (toggleEvent e on c) \<in> own Tab_notifications s c"
  "s \<Longrightarrow> SE_config (patchOIDC m c) \<in> own Tab_continuity s c"
  unfolding patchTarget_def removeTarget_def addTarget_def setTargets_def patchGovernanceBudget_def removeGovernanceBudget_def addGovernanceBudget_def
    setGovernanceBudgets_def patchRule_def patchTrafficPolicy_def toggleEvent_def patchOIDC_def Let_def
  by (rule own_patch; simp)+

lemma disabled_listed: "is_disabled as \<Longrightarrow> ''disabled'' \<in> fst ` set as"
  unfolding is_disabled_def by (force dest: map_of_SomeD)

text \<open>A field whose handler is allowed is allowed.\<close>

lemma input_own [simp]:
  "is_disabled as \<or> (\<forall>v. h v \<in> own t s c) \<Longrightarrow> offered (text_input as x h) \<subseteq> own t s c"
  "is_disabled as \<or> (\<forall>v. g v \<in> own t s c) \<Longrightarrow> offered (number_input as n g) \<subseteq> own t s c"
  "is_disabled as \<or> (\<forall>v. k v \<in> own t s c) \<Longrightarrow> offered (ratio_input as r k) \<subseteq> own t s c"
  "is_disabled as \<or> (\<forall>v. f v \<in> own t s c) \<Longrightarrow> offered (choice_input as vs ls y f) \<subseteq> own t s c"
  "is_disabled as \<or> (\<forall>v. h v \<in> own t s c) \<Longrightarrow> offered (select_el x as h os) \<subseteq> own t s c"
  "is_disabled as \<or> (\<forall>v. h v \<in> own t s c) \<Longrightarrow> offered_all first = {} \<Longrightarrow> offered (target_select as x first ids h) \<subseteq> own t s c"
  "disabled \<or> (\<forall>b. l b \<in> own t s c) \<Longrightarrow> offered (Toggle env name checked restart disabled l) \<subseteq> own t s c"
  by (auto simp: text_input_def number_input_def ratio_input_def choice_input_def target_select_def Toggle_def typed_def tag_def dest: disabled_listed split: option.splits)

lemma unit_own [simp]:
  "(\<And>v. h v \<in> own t s c) \<Longrightarrow> offered (DurationField env name x restart h) \<subseteq> own t s c"
  "(\<And>v. h v \<in> own t s c) \<Longrightarrow> offered (ByteSizeField env name x disabled h) \<subseteq> own t s c"
  by (auto simp: DurationField_def ByteSizeField_def restart_hint_def split_beta)

lemma locale_own [simp]: "(\<And>l. g l \<in> own t s c) \<Longrightarrow> offered (LocaleField env name y g) \<subseteq> own t s c"
  unfolding LocaleField_def by simp

lemma frame_own [simp]:
  "offered (text_field env key x h) = offered (text_input [] x h)" "offered (number_field env key as n g) = offered (number_input as n g)"
  "offered (ratio_field env key as r k) = offered (ratio_input as r k)" "offered (wide_field env key cs) = offered_all cs"
  "offered (settings_section env name beside body) = offered_all beside \<union> offered_all body" "offered (form_grid cs) = offered_all cs"
  "offered (labelled env key cs) = offered_all cs" "offered (marked_figure env key good cs) = offered_all cs"
  "offered (delete_button env hint e) = {e}" "offered (restart_hint env) = {}" "\<not> is_disabled (aria env key)"
  "\<not> is_disabled (minimum lo)" "\<not> is_disabled (between lo hi)" "\<not> is_disabled (stepped lo hi2 w)"
  by (auto simp: text_field_def number_field_def ratio_field_def wide_field_def settings_section_def form_grid_def labelled_def marked_figure_def
      delete_button_def restart_hint_def aria_def minimum_def between_def stepped_def split: option.splits if_splits)

text \<open>Every tab, section by section.\<close>

lemma general_own: "offered_all (general_tab env c status info) \<subseteq> own Tab_general s c"
proof -
  have rows: "offered (target_row env c i x) \<subseteq> own Tab_general s c" for i x
    by (simp add: target_row_def Let_def)
  have figures: "offered (upstream_runtime env x :: settings_event node) = {}" for x
    by (simp add: upstream_runtime_def split: option.split)
  have "offered (service_section env c) \<subseteq> own Tab_general s c" by (simp add: service_section_def Let_def)
  moreover have "offered (pool_section env c status) \<subseteq> own Tab_general s c"
    using rows figures by (auto simp: pool_section_def Let_def UN_subset_iff split: option.split)
  moreover have "offered (runtime_section env c info :: settings_event node) = {}"
    by (simp add: runtime_section_def Let_def split: option.split)
  moreover have "offered (localization_section env c) \<subseteq> own Tab_general s c" by (simp add: localization_section_def)
  ultimately show ?thesis by (simp add: general_tab_def)
qed

lemma retry_own: "offered_all (retry_tab env c) \<subseteq> own Tab_retry s c"
  by (simp add: retry_tab_def Let_def)

lemma traffic_own: "offered_all (traffic_tab env c status) \<subseteq> own Tab_traffic s c"
proof -
  have rows: "offered (budget_row env c i b) \<subseteq> own Tab_traffic s c" for i b by (simp add: budget_row_def Let_def image_subset_iff)
  have form: "offered (governance_form env c) \<subseteq> own Tab_traffic s c" by (simp add: governance_form_def Let_def)
  have queue: "offered (queue_section env c) \<subseteq> own Tab_traffic s c" by (simp add: queue_section_def Let_def)
  have "offered_all (governance_runtime env c g :: settings_event node list) = {}" "offered (tenant_context env c status :: settings_event node) = {}" for g
    by (simp_all add: governance_runtime_def governance_figures_def tenant_context_def usage_card_def entry_row_def Let_def)
  with rows form queue show ?thesis
    by (simp add: traffic_tab_def Let_def UN_subset_iff split: option.split)
qed

lemma capture_own: "offered_all (capture_tab env c) \<subseteq> own Tab_capture s c"
  by (simp add: capture_tab_def Let_def)

lemma logging_own: "offered_all (logging_tab env c) \<subseteq> own Tab_logging s c"
  by (simp add: logging_tab_def image_subset_iff)

lemma appearance_own: "offered_all (appearance_tab env m) \<subseteq> own t s c"
  by (simp add: appearance_tab_def ThemeSelector_def UN_subset_iff)

lemma safety_own: "offered_all (safety_tab env c status) \<subseteq> own Tab_safety s c"
proof -
  have "telemetry_setting c upd v \<in> own Tab_safety s c" for upd :: "('v \<Rightarrow> 'v) \<Rightarrow> _" and v by (simp add: telemetry_setting_def)
  note this [simp]
  have "offered (telemetry_figures env x :: settings_event node) = {}" for x by (simp add: telemetry_figures_def Let_def)
  then have "offered (telemetry_section env c status) \<subseteq> own Tab_safety s c" by (simp add: telemetry_section_def Let_def split: option.split)
  moreover have "offered (egress_section env c) \<subseteq> own Tab_safety s c" by (simp add: egress_section_def)
  moreover have "offered (observability_section env c) \<subseteq> own Tab_safety s c" by (simp add: observability_section_def Let_def)
  moreover have "offered (risk_section env c) \<subseteq> own Tab_safety s c" by (simp add: risk_section_def Let_def)
  ultimately show ?thesis by (simp add: safety_tab_def)
qed

lemma notifications_own: "offered_all (notifications_tab env c st) \<subseteq> own Tab_notifications s c"
proof -
  have "offered (notification_figures env n :: settings_event node) = {}" "offered (delivery_row env d :: settings_event node) = {}" for n d
    by (simp_all add: notification_figures_def delivery_row_def Let_def)
  then show ?thesis by (simp add: notifications_tab_def Let_def UN_subset_iff split: option.split)
qed

lemma policy_own: "offered_all (policy_tab env c st) \<subseteq> own Tab_policy s c"
proof -
  have "shadow_setting c u v \<in> own Tab_policy s c" "adaptive_setting c w x \<in> own Tab_policy s c"
    for u :: "('v \<Rightarrow> 'v) \<Rightarrow> _" and v and w :: "('w \<Rightarrow> 'w) \<Rightarrow> _" and x
    by (simp_all add: shadow_setting_def adaptive_setting_def)
  note this [simp]
  have rows: "offered (rule_row env c i r) \<subseteq> own Tab_policy s c" for i r by (simp add: rule_row_def Let_def)
  have "offered (publish_button env busy k ic stage) \<subseteq> own Tab_policy s c" for busy k ic stage by (simp add: publish_button_def)
  then have "offered (release_section env c st) \<subseteq> own Tab_policy s c" by (simp add: release_section_def Let_def)
  moreover have "offered (slo_section env c) \<subseteq> own Tab_policy s c" by (simp add: slo_section_def Let_def)
  moreover have "offered (rules_section env c) \<subseteq> own Tab_policy s c" using rows by (simp add: rules_section_def Let_def UN_subset_iff)
  moreover have "offered (shadow_section env c) \<subseteq> own Tab_policy s c" by (simp add: shadow_section_def Let_def)
  moreover have "offered (adaptive_section env c) \<subseteq> own Tab_policy s c" by (simp add: adaptive_section_def Let_def)
  moreover have "offered_all (decision_panel env d :: settings_event node list) = {}" for d by (simp add: decision_panel_def Let_def)
  then have "offered (simulator_section env st) \<subseteq> own Tab_policy s c" by (simp add: simulator_section_def Let_def split: option.split)
  moreover have "offered (release_row env busy current r) \<subseteq> own Tab_policy s c" for busy current r by (simp add: release_row_def)
  then have "offered (releases_section env st) \<subseteq> own Tab_policy s c" by (simp add: releases_section_def UN_subset_iff split: option.split)
  ultimately show ?thesis by (simp add: policy_tab_def)
qed

lemma oidc_own [simp]:
  "oidc_setting c upd x \<in> own Tab_continuity True c"
  "s \<Longrightarrow> \<forall>v. h v \<in> own t s c \<Longrightarrow> offered_all (oidc_text env s as v h) \<subseteq> own t s c"
  "offered_all (oidc_text env False as v k) = {}"
  by (simp_all add: oidc_setting_def oidc_text_def) (simp add: text_input_def)

lemma security_own: "offered (security_section env c s) \<subseteq> own Tab_continuity s c"
  by (cases s) (simp_all add: security_section_def oidc_list_def Let_def)

lemma continuity_own: "offered_all (continuity_tab env c s edited st) \<subseteq> own Tab_continuity s c"
proof -
  have "offered (version_row env s edited busy v) \<subseteq> own Tab_continuity s c" for busy v
    by (auto simp: version_row_def rollback_disabled_def Let_def)
  then have "offered (versions_section env s edited st) \<subseteq> own Tab_continuity s c" by (simp add: versions_section_def UN_subset_iff)
  moreover have "offered (persistence_section env c) \<subseteq> own Tab_continuity s c" by (simp add: persistence_section_def Let_def)
  moreover have "offered (lifecycle_section env c) \<subseteq> own Tab_continuity s c" by (simp add: lifecycle_section_def Let_def)
  moreover have "offered (incidents_section env c) \<subseteq> own Tab_continuity s c" by (simp add: incidents_section_def Let_def)
  moreover have "offered (metrics_section env c) \<subseteq> own Tab_continuity s c" by (simp add: metrics_section_def)
  ultimately show ?thesis using security_own by (simp add: continuity_tab_def)
qed

lemma settings_own: "offered (SettingsView env d st) \<subseteq> own (sw_tab st) (sx_canSensitive d) (sx_config d)"
proof -
  have "offered_all (tab_content env d st) \<subseteq> own (sw_tab st) (sx_canSensitive d) (sx_config d)"
    using general_own retry_own traffic_own policy_own continuity_own safety_own capture_own notifications_own appearance_own logging_own
    by (cases "sw_tab st") (simp_all add: tab_content_def)
  moreover have "offered_all (restart_banner env x :: settings_event node list) = {}" "offered (diff_summary env d :: settings_event node) = {}" for x
    by (simp_all add: restart_banner_def diff_summary_def Let_def split: option.split)
  moreover have "offered (settings_actions env d) \<subseteq> own (sw_tab st) (sx_canSensitive d) (sx_config d)" by (simp add: settings_actions_def)
  ultimately show ?thesis by (simp add: SettingsView_def UN_subset_iff)
qed

section \<open>What the controls lead to\<close>

definition settings_input :: "app \<Rightarrow> console_shell \<Rightarrow> Config \<Rightarrow> Config \<Rightarrow> settings_data" where
  "settings_input a s config saved =
     \<lparr>sx_config = config, sx_baseline = saved, sx_runtimeInfo = app_runtimeInfo a, sx_configState = ed_configState (app_edit a),
      sx_canSensitive = canSensitive a, sx_upstream = app_upstreamStatus a, sx_governance = app_governanceStatus a, sx_telemetry = app_telemetryStatus a,
      sx_dirty = dirty (app_edit a), sx_busy = ed_saving (app_edit a), sx_theme = sh_theme s\<rparr>"

definition probe_json :: "policy_probe \<Rightarrow> json_object" where
  "probe_json p = [(''method'', JStr (pp_method p)), (''path'', JStr (pp_path p)), (''model'', JStr (pp_model p)), (''principal'', JStr (pp_principal p))]"

definition tab_calls :: "Tab \<Rightarrow> api_call set" where
  "tab_calls t =
     (case t of
        Tab_continuity \<Rightarrow> {api_configVersions}
      | Tab_notifications \<Rightarrow> {api_notificationStatus, api_notificationDeliveries 20}
      | Tab_policy \<Rightarrow> {api_policyStatus 50, api_policyReleases}
      | _ \<Rightarrow> {})"

definition settings_reload :: "(rat \<Rightarrow> string) \<Rightarrow> app \<Rightarrow> console_shell \<Rightarrow> api_call set" where
  "settings_reload num a s = {api_reloadConfig, api_config num, api_configState} \<union> monitoring_calls a (sh_window s)"

definition effect_calls :: "api_call set \<Rightarrow> settings_effect list \<Rightarrow> api_call set" where
  "effect_calls reload es = {c. Effect_call c \<in> set es} \<union> (if Effect_reload \<in> set es then reload else {})"

text \<open>Every effect with all it can lead to, whatever the confirmation and the server answer.\<close>

fun settings_calls ::
  "(Config \<Rightarrow> json) \<Rightarrow> (Config_trafficPolicy \<Rightarrow> json) \<Rightarrow> translate \<Rightarrow> api_call set \<Rightarrow> api_call set \<Rightarrow> settings_data \<Rightarrow> settings_view \<Rightarrow> edit_state \<Rightarrow>
   settings_event \<Rightarrow> api_call set" where
  "settings_calls cj pj tr reload monitor d st ed (SE_tab t) = tab_calls t"
| "settings_calls cj pj tr reload monitor d st ed SE_draft = (\<Union>r. effect_calls reload (savePolicyDraft pj (sx_config d) (sw_releases st) r))"
| "settings_calls cj pj tr reload monitor d st ed (SE_publish g) =
     (\<Union>ok. \<Union>r. effect_calls reload (publishPolicy pj (sx_configState d) (sw_releases st) (sx_config d) (sw_canaryPercent st) g ok r))"
| "settings_calls cj pj tr reload monitor d st ed SE_simulate = (\<Union>r. effect_calls reload (simulatePolicy (probe_json (sw_probe st)) (sw_releases st) r))"
| "settings_calls cj pj tr reload monitor d st ed (SE_release x) = (\<Union>ok. \<Union>r. effect_calls reload (rollbackPolicyRelease (sx_configState d) x ok r))"
| "settings_calls cj pj tr reload monitor d st ed SE_versions = {api_configVersions}"
| "settings_calls cj pj tr reload monitor d st ed (SE_rollback v) = (\<Union>ok. \<Union>r. effect_calls reload (rollbackConfig v ok r))"
| "settings_calls cj pj tr reload monitor d st ed SE_test = (\<Union>r. effect_calls reload (sendTestNotification r))"
| "settings_calls cj pj tr reload monitor d st ed SE_reload = reload"
| "settings_calls cj pj tr reload monitor d st ed SE_save = (\<Union>an. set (so_calls (save cj tr an ed))) \<union> monitor"
| "settings_calls cj pj tr reload monitor d st ed _ = {}"

section \<open>Editing with the view\<close>

text \<open>
  The steps of the editor for a session without the sensitive capability: an edit by an
  enabled control, discarding, leaving the settings, a reload with whatever the server
  holds, and a save with any answers. An edit made while a save is awaited commutes with its end, which
  does not touch \<open>config\<close>; a reload that overtakes a save is not covered.
\<close>

inductive settings_step :: "render_env \<Rightarrow> (Config \<Rightarrow> json) \<Rightarrow> translate \<Rightarrow> edit_state \<Rightarrow> edit_state \<Rightarrow> bool" for env cj tr where
  edited: "SE_config c' \<in> offered (SettingsView env d v) \<Longrightarrow> \<not> sx_canSensitive d \<Longrightarrow> ed_config st = Some (sx_config d) \<Longrightarrow>
    settings_step env cj tr st (st\<lparr>ed_config := Some c'\<rparr>)"
| discarded: "settings_step env cj tr st (discard st)"
| leaving: "settings_step env cj tr st (snd (confirmSettingsLeave agreed st))"
| reloaded: "settings_step env cj tr st (reload_done result answer st)"
| saved: "settings_step env cj tr st (save_end (save cj tr an st) st)"

definition same_authentication :: "edit_state \<Rightarrow> bool" where
  "same_authentication st \<longleftrightarrow> map_option authentication_of (ed_savedConfig st) = map_option authentication_of (ed_config st)"

lemma edit_confined:
  assumes "SE_config c' \<in> offered (SettingsView env d v)"
  obtains p where "configTabs (patch_key p) = sw_tab v" "c' = patch p (sx_config d)"
    "sx_canSensitive d \<or> authentication_of c' = authentication_of (sx_config d)"
proof -
  have "SE_config c' \<in> own (sw_tab v) (sx_canSensitive d) (sx_config d)" using assms settings_own by blast
  then show thesis using that by (auto simp: own_def)
qed

lemma saved_payload: "so_savedConfig (save cj tr an st) = Some p \<Longrightarrow> \<exists>c. ed_config st = Some c \<and> p = configForGlobalSave c (ed_savedConfig st)"
  by (auto simp: save_def nothing_done_def Let_def split: option.splits if_splits sum.splits)

lemma global_save_authentication [simp]: "authentication_of (configForGlobalSave c s) = authentication_of c"
  by (simp add: authentication_of_def configForGlobalSave_def)

interpretation settings_editor: step_system "settings_step env cj tr" "\<lambda>st. ed_config st = ed_savedConfig st" same_authentication for env cj tr
proof unfold_locales
  show "same_authentication st" if "ed_config st = ed_savedConfig st" for st using that by (simp add: same_authentication_def)
  show "same_authentication y" if "settings_step env cj tr x y" "same_authentication x" for x y
    using that
  proof (induction rule: settings_step.induct)
    case (edited c' d v st)
    then show ?case by (elim edit_confined) (simp add: same_authentication_def)
  next
    case (saved st an)
    then show ?case using saved_payload [of cj tr an st]
      by (cases "so_savedConfig (save cj tr an st)") (auto simp: same_authentication_def save_end_def)
  qed (auto simp: same_authentication_def discard_def confirmSettingsLeave_def reload_done_def split: sum.splits)
qed

text \<open>In the console the settings are drawn for sessions that may operate, and only in their own view.\<close>

lemma settings_drawn:
  assumes "view_content sv a status s (SettingsView env d v) = Some ns" "CE_settings e \<in> offered_all ns"
  shows "nav_view (app_nav a) = View_settings \<and> canOperate a \<and> e \<in> offered (SettingsView env d v)"
  using assms by (cases "nav_view (app_nav a)") (auto simp: view_content_def Let_def when_shown_def split: if_splits)

section \<open>Properties\<close>

text \<open>
  Claim C22: a tab of the settings edits nothing that belongs to another tab. Whatever is typed or chosen in
  an enabled control of the tab that is shown, the configuration it makes differs from the drawn one at most
  in sections that the summary of changes lists under that tab.
\<close>

theorem settings_tab_scope:
  assumes "SE_config c' \<in> offered (SettingsView env d v)" "section_changed c' (sx_config d) key"
  shows "configTabs key = sw_tab v"
  using assms(1)
proof (rule edit_confined)
  fix p
  assume p: "configTabs (patch_key p) = sw_tab v" "c' = patch p (sx_config d)"
  with assms(2) have "key = patch_key p" by (simp add: patch_scope)
  with p(1) show ?thesis by simp
qed

definition sample_settings :: "Config \<Rightarrow> settings_data" where
  "sample_settings c =
     \<lparr>sx_config = c, sx_baseline = c, sx_runtimeInfo = None, sx_configState = None, sx_canSensitive = False, sx_upstream = None, sx_governance = None,
      sx_telemetry = None, sx_dirty = False, sx_busy = False, sx_theme = Mode_system\<rparr>"

definition log_tab_open :: settings_view where
  "log_tab_open = open_settings\<lparr>sw_tab := Tab_logging\<rparr>"

definition with_level :: "string \<Rightarrow> Config \<Rightarrow> Config" where
  "with_level level = patch (Patch_logging (logging_level_update (\<lambda>_. level)))"

lemma level_offered: "SE_config (with_level level c) \<in> offered (SettingsView env (sample_settings c) log_tab_open)"
  by (auto simp: SettingsView_def tab_content_def logging_tab_def log_tab_open_def sample_settings_def with_level_def setting_def)

lemma level_changed: "section_changed (with_level ''debug'' (with_level ''info'' c)) (with_level ''info'' c) Key_logging"
  by (auto simp: with_level_def dest: arg_cong [of _ _ logging_level])

theorem settings_tab_scope_witness:
  "\<forall>c. section_changed (with_level ''debug'' (with_level ''info'' c)) (with_level ''info'' c) Key_logging \<and>
     configTabs Key_logging = sw_tab log_tab_open"
proof
  fix c
  have "sx_config (sample_settings (with_level ''info'' c)) = with_level ''info'' c" by (simp add: sample_settings_def)
  then show "section_changed (with_level ''debug'' (with_level ''info'' c)) (with_level ''info'' c) Key_logging \<and> configTabs Key_logging = sw_tab log_tab_open"
    using settings_tab_scope [OF level_offered [where env = sample_env and level = "''debug''" and c = "with_level ''info'' c"], of Key_logging] level_changed by simp
qed

text \<open>
  Claim C13: without the sensitive capability the settings never change how users authenticate. However the
  forms are edited, discarded, reloaded and saved, every configuration that a save validates or sends has
  the authentication settings of the saved one, in the sense in which the gateway compares
  them, and no version that changes them can be rolled back to.
\<close>

theorem authentication_needs_sensitive:
  assumes "(settings_step env cj tr)\<^sup>*\<^sup>* st0 st" "ed_config st0 = ed_savedConfig st0" "call \<in> set (so_calls (save cj tr an st))"
  shows "(\<exists>c s. ed_config st = Some c \<and> ed_savedConfig st = Some s \<and> authentication_of (configForGlobalSave c (Some s)) = authentication_of s \<and>
       (call = api_configState \<or> call = api_validateConfig (cj (configForGlobalSave c (Some s))) \<or>
        (\<exists>b. call = api_saveConfig (cj (configForGlobalSave c (Some s))) b))) \<and>
     (\<forall>d v x. SE_rollback x \<in> offered (SettingsView env d v) \<longrightarrow> sx_canSensitive d \<or> \<not> authentication_rollback x)"
proof
  have same: "same_authentication st" using settings_editor.inv_reachable [OF assms(1)] assms(2) by blast
  from assms(3) obtain c s where parts: "ed_config st = Some c" "ed_savedConfig st = Some s"
      "call = api_configState \<or> call = api_validateConfig (cj (configForGlobalSave c (Some s))) \<or>
       (\<exists>b. call = api_saveConfig (cj (configForGlobalSave c (Some s))) b)"
    by (rule save_calls) blast
  with same show "\<exists>c s. ed_config st = Some c \<and> ed_savedConfig st = Some s \<and> authentication_of (configForGlobalSave c (Some s)) = authentication_of s \<and>
       (call = api_configState \<or> call = api_validateConfig (cj (configForGlobalSave c (Some s))) \<or>
        (\<exists>b. call = api_saveConfig (cj (configForGlobalSave c (Some s))) b))"
    by (simp add: same_authentication_def)
  show "\<forall>d v x. SE_rollback x \<in> offered (SettingsView env d v) \<longrightarrow> sx_canSensitive d \<or> \<not> authentication_rollback x"
  proof (intro allI impI)
    fix d v x
    assume "SE_rollback x \<in> offered (SettingsView env d v)"
    then have "SE_rollback x \<in> own (sw_tab v) (sx_canSensitive d) (sx_config d)" using settings_own by blast
    then show "sx_canSensitive d \<or> \<not> authentication_rollback x" by simp
  qed
qed

definition editor_of :: "Config \<Rightarrow> Config \<Rightarrow> edit_state" where
  "editor_of c s = \<lparr>ed_config = Some c, ed_savedConfig = Some s, ed_configState = None, ed_saving = False\<rparr>"

definition version_json :: "Config \<Rightarrow> json" where
  "version_json c = JNum (of_int (cfg_schemaVersion c))"

theorem authentication_needs_sensitive_witness:
  "\<forall>c. api_validateConfig (version_json c) \<in>
      set (so_calls (save version_json (\<lambda>k xs. k) rejecting_answers (editor_of (with_level ''debug'' (with_level ''info'' c)) (with_level ''info'' c)))) \<and>
     authentication_of (with_level ''debug'' (with_level ''info'' c)) = authentication_of (with_level ''info'' c)"
proof
  fix c
  let ?s = "with_level ''info'' c" and ?c = "with_level ''debug'' (with_level ''info'' c)" and ?tr = "\<lambda>k xs. k :: string"
  have step: "settings_step sample_env version_json ?tr (editor_of ?s ?s) (editor_of ?s ?s\<lparr>ed_config := Some ?c\<rparr>)"
    by (rule settings_step.edited [OF level_offered]) (simp_all add: sample_settings_def editor_of_def)
  have steps: "(settings_step sample_env version_json ?tr)\<^sup>*\<^sup>* (editor_of ?s ?s) (editor_of ?c ?s)"
    using r_into_rtranclp [of "settings_step sample_env version_json ?tr", OF step] by (simp add: editor_of_def)
  have changed: "section_changed ?c ?s Key_logging" by (rule level_changed)
  have "ordinaryDirty ?c (Some ?s)"
    using ordinary_sections [of ?c ?s] changed by (auto simp: with_level_def)
  then have call: "api_validateConfig (version_json c) \<in> set (so_calls (save version_json ?tr rejecting_answers (editor_of ?c ?s)))"
    by (simp add: save_def editor_of_def rejecting_answers_def nothing_done_def version_json_def configForGlobalSave_def with_level_def Let_def)
  from authentication_needs_sensitive [OF steps _ this] have "authentication_of ?c = authentication_of ?s"
    by (simp add: editor_of_def)
  with call show "api_validateConfig (version_json c) \<in> set (so_calls (save version_json ?tr rejecting_answers (editor_of ?c ?s))) \<and>
      authentication_of ?c = authentication_of ?s" by blast
qed

end
