(* ===== verification/Spec2Isabelle.thy ===== *)
theory Spec2Isabelle
  imports AppState Requests UncertainServer GatewayLoop RepeatServer RequestsMarkup Settings Topology Logs Captures FocusTrap Repeat Overview ListViews Appearance SettingsMarkup
begin

text \<open>
  \<^bold>\<open>Relay-Lifeline: the operator console and the parts of the gateway it operates.\<close>

  Relay-Lifeline is a gateway that keeps retrying requests to an upstream relay. Its Go part
  (cmd/, internal/) proxies, journals, captures and retries; its console (web/src/, TypeScript)
  shows the state of the gateway and edits its configuration through the admin API. This
  development models the console and, of the gateway, what the console drives: the event
  ring behind its feed, the registry of requests with its retry policies, the loop that retries a
  request, and the admin API for retries, uncertain deliveries and repeat tasks.

  \<^bold>\<open>How the parts interact.\<close> \<open>App.tsx\<close> owns the state: the session, the configuration being
  edited, the lists and the feed, the confirmation dialog. It calls the admin API through
  \<open>api.ts\<close>, which builds the requests, checks the answers and reports lost sessions; the views
  get the state and callbacks, keep the state of their own forms and make their own calls.
  Answers arrive later and in any order, so handlers are split where they await an answer,
  and the components whose steps interleave are step relations with an invariant. On the
  other side, the handlers of internal/admin act on the registry (internal/state) and on the
  repeat manager (internal/repeat), while the loop of internal/proxy runs one request and wakes
  up on the signals that the registry leaves for it.

  \<^bold>\<open>Theories.\<close>

  \<^item> \<open>Prelude\<close>: JavaScript arrays, maps, strings and numbers as lists, association lists, strings,
    integers and rationals, and the collections \<open>js_array\<close> and \<open>js_text\<close> of their lemmas.
    \<open>Json\<close>: JSON values. \<open>Reachability\<close>: the locale \<open>step_system\<close> of a state machine with an invariant,
    which every step relation interprets. \<open>Format\<close>: src/web/src/format.ts.

  \<^item> \<open>ConfigTypes\<close>, \<open>PolicyTypes\<close>, \<open>RequestTypes\<close>, \<open>OperationsTypes\<close>, \<open>MonitorTypes\<close>, \<open>AdminTypes\<close>: every
    interface and union of src/web/src/types.ts as a record or datatype; optional fields are
    options.

  \<^item> \<open>ApiContracts\<close>, \<open>UrlCodec\<close>, \<open>ApiClient\<close>: src/web/src/api.ts. Errors, validators and
    normalisation; URL encoding and query strings; request building, every endpoint, answers,
    the subscription and the downloads. Shown: CSRF tokens on exactly the calls with a method,
    one notification per lost session, identifiers stay path segments, what normalisation
    guarantees.

  \<^item> \<open>MonitoringRing\<close>: src/internal/monitoring/events.go and the handler \<open>securityEvents\<close> of
    src/internal/admin/operations_api.go, a ring that refines a bounded list. \<open>EventFeed\<close>:
    src/web/src/eventFeed.ts and \<open>refreshEvents\<close>. Shown: a refresh returns and brings the console
    in step with the ring whatever is recorded meanwhile; the reader ends against any server
    whose cursors are bounded.

  \<^item> \<open>HistoryPages\<close>, \<open>Navigation\<close>, \<open>Confirmation\<close>, \<open>ConfigEditing\<close>, \<open>AppState\<close>: the parts of
    src/web/src/App.tsx with historyPagination.ts, AppNavigation.tsx and ConfirmDialog.tsx. Shown: lists
    never repeat an item, addresses lead back to their view, settings stay closed to sessions
    that may not operate, confirmations are answered exactly once, a save never carries an
    edited policy, the end of a session is final.

  \<^item> \<open>RetryPolicy\<close>, \<open>Requests\<close>, \<open>UncertainDialog\<close>, \<open>Repeat\<close>: RetryPolicyDialog.tsx, RequestsView.tsx,
    RequestsTable.tsx, UncertainResolutionDialog.tsx, RepeatTaskDialog.tsx and RepeatTasksPanel.tsx. Shown: what
    is sent is within its bounds and scope, confirmed where it must be, and a policy survives
    opening and submitting its form.

  \<^item> \<open>SettingsFields\<close>, \<open>Settings\<close>, \<open>Captures\<close>: SettingsView.tsx and CapturesView.tsx. Shown: fields write back
    the value they show, the save button, capture timeouts; and which edits are lost.

  \<^item> \<open>Charts\<close>, \<open>Topology\<close>: OperationsCharts.tsx, SignalTopology.tsx and signalTopologyScene.ts. Shown: what is
    drawn is in range, and charts and scene resources are released exactly once.

  \<^item> \<open>Search\<close>, \<open>Logs\<close>, \<open>ListViews\<close>, \<open>Overview\<close>, \<open>Appearance\<close>, \<open>FocusTrap\<close>: GlobalSearch.tsx and
    NotificationPopover.tsx; LogsView.tsx; HistoryView.tsx and IncidentsView.tsx; OverviewView.tsx, OverviewMetrics.tsx and
    OverviewPriorityPanel.tsx; theme.ts, i18n/index.ts and ThemeSelector.tsx; the key handlers of the nine
    dialogs, whose contract is the locale \<open>focus_trap\<close>.

  \<^item> \<open>Lifecycle\<close>, \<open>RetrySpec\<close>, \<open>Registry\<close>: internal/lifecycle/state.go, internal/state/retry_policy.go, the
    waits of internal/proxy/retry_schedule.go and internal/state/registry.go with its controller. Shown: the
    invariant of the registry, that the actions it offers are the ones it accepts, that nothing
    but a resolution touches an uncertain delivery, that channels are closed once.

  \<^item> \<open>RetryServer\<close>, \<open>UncertainServer\<close>, \<open>RepeatServer\<close>: internal/admin/retry_api.go, uncertain_api.go and
    repeat_api.go with internal/repeat. Shown, with the dialogs of the console at the other end: a
    policy or a repeat task means the same on both sides, the estimate of the dialog bounds
    the retries, a resolution needs the token of its preview, tasks keep their limits and are
    served while the journal works.

  \<^item> \<open>GatewayLoop\<close>: the attempt loop of internal/proxy/gateway.go as a step relation over the registry. Shown:
    when an uncertain delivery is retried, and the two ways in which the loop departs from that.

  \<^item> \<open>Markup\<close>, \<open>RequestsMarkup\<close>, \<open>ShellMarkup\<close>, \<open>ChartsMarkup\<close>, \<open>PagesMarkup\<close>, \<open>OverviewMarkup\<close>, \<open>ConsoleMarkup\<close>: what the
    components draw, as trees of elements whose handlers yield effects, put together as App.tsx
    does, with the calls that an effect can lead to. Shown: a session that may not operate only
    reads, wherever it clicks; the enabled controls of an operator act; a button that does not close.

  \<^item> \<open>SettingsForms\<close>, \<open>SettingsMarkup\<close>: the fields and tabs of SettingsView.tsx and the calls of its controls. Shown: a
    tab edits only its own sections, and without the sensitive capability nothing that is
    done in the settings changes what the gateway counts as authentication.

  This theory adds what spans the search, the state of the console and the log view.

  \<^bold>\<open>Conventions.\<close> A thrown error is \<open>Inl\<close> of \<open>js_result\<close>, or \<open>None\<close> where the code does not catch
  it. The translation function, dates, number formats, \<open>JSON.stringify\<close>, \<open>fetch\<close> and the answers of
  the server are arguments; where a property relies on them it says how. Strings are lists of
  8-bit characters. JavaScript numbers are exact: integers, or rationals and, where a chart
  can meet them, infinities and \<open>NaN\<close>. Identifiers of events stay below the horizon \<open>2^53\<close> up to which
  doubles are exact, and the Go cursors below \<open>2^64\<close>; amounts in the settings fields are
  multiples of \<open>10^-6\<close>, which covers the milliseconds of durations, and are printed with at
  most six decimals. On the Go side a time or a duration is an integer of nanoseconds, with
  the range of \<open>int64\<close> checked where a value comes from outside; the outcome of a write to the
  journal or timeline, the time, random numbers and the choice of a \<open>select\<close> are arguments of
  each step. In a tree, a disabled control has no handlers, and the text shown is the one of
  the translation function.

  \<^bold>\<open>Bounds.\<close> The reader of the feed is the only loop that may not end. It is a partial function,
  and the properties of the feed say that it returns. Every other recursion is structural or
  has a termination proof.

  \<^bold>\<open>Not modelled.\<close> The layout of the forms of the retry and repeat dialogs, whose state and submission
  are modelled; styles; timers, which only repeat the modelled loads; React
  itself, whose state updates are the steps of the model; ECharts, three.js and i18next,
  third-party libraries; of the gateway the transport, captures, the journal and its replay,
  governance and traffic policies, notifications, configuration and the other handlers; built
  assets, shell scripts and the checks of translations and release versions.
\<close>

section \<open>From the search to the log\<close>

text \<open>
  What \<open>App.tsx\<close> hands to the log view: the request and the event of the search target, if it is
  one for the log.
\<close>

definition log_target :: "SearchTarget option \<Rightarrow> string \<times> string" where
  "log_target target =
     (case target of
        Some t \<Rightarrow> if stgt_kind t = Find_log then (stgt_id t, nullish (stgt_detail t) []) else ([], [])
      | None \<Rightarrow> ([], []))"

definition navigate :: "search_action \<Rightarrow> (View \<times> SearchTarget) option" where
  "navigate a = (case a of Go_to v t \<Rightarrow> Some (v, t) | Open_request _ \<Rightarrow> None)"

lemma log_result_target:
  assumes "r \<in> set (log_results json_text q es)"
  shows "\<exists>e \<in> set es. sres_kind r = Find_log \<and> sres_id r = or_string (rle_requestId e) [] \<and> sres_detail r = rle_event e"
  using assms by (auto simp: log_results_def)

text \<open>
  A log entry found by the search can be seen where the search leads. Choosing it
  opens the log view, and the view, whatever its address was and whatever filters are
  stored, opens with the event and the request of that entry as its filter; where the entry
  has none, that part of the filter is the one of the address.
\<close>

theorem search_opens_log:
  assumes "r \<in> set (log_results json_text q es)"
  shows "\<exists>e \<in> set es. \<exists>target. navigate (select_result operate d r) = Some (View_logs, target) \<and>
     log_target (Some target) = (or_string (rle_requestId e) [], rle_event e) \<and>
     (let view = open_logs json_parse item hash (snd (log_target (Some target))) (fst (log_target (Some target)))
      in slf_event (lv_filter view) = or_string (Some (rle_event e)) (slf_event (urlFilter hash)) \<and>
         slf_requestId (lv_filter view) = or_string (rle_requestId e) (slf_requestId (urlFilter hash)))"
proof -
  obtain e where e: "e \<in> set es" "sres_kind r = Find_log" "sres_id r = or_string (rle_requestId e) []"
      "sres_detail r = rle_event e"
    using log_result_target [OF assms] by blast
  let ?target = "\<lparr>stgt_kind = Find_log, stgt_id = or_string (rle_requestId e) [], stgt_detail = Some (rle_event e)\<rparr>"
  have "navigate (select_result operate d r) = Some (View_logs, ?target)"
    using e by (simp add: navigate_def select_result_def Let_def)
  moreover have "or_string (Some (or_string (rle_requestId e) [])) s = or_string (rle_requestId e) s" for s
    by (cases "rle_requestId e") (simp_all add: or_string_def)
  ultimately show ?thesis
    using e(1) by (intro bexI [of _ e] exI [of _ ?target]) (simp_all add: log_target_def open_logs_def Let_def)
qed

definition sample_entry :: RuntimeLogEntry where
  "sample_entry = \<lparr>rle_id = 7, rle_time = [], rle_level = ''warn'', rle_event = ''attempt_failed'', rle_message = ''HTTP 502'',
     rle_requestId = Some ''req-1'', rle_clientId = None, rle_taskId = None, rle_attempt = None, rle_statusCode = None, rle_fields = None\<rparr>"

theorem search_opens_log_witness:
  "\<exists>r target. r \<in> set (log_results (\<lambda>v. []) ''attempt'' [sample_entry]) \<and>
     navigate (select_result False sample_search r) = Some (View_logs, target) \<and> log_target (Some target) = (''req-1'', ''attempt_failed'')"
proof -
  have q: "js_includes (js_lower ''attempt_failed'') ''attempt''" by code_simp
  have "log_results (\<lambda>v. []) ''attempt'' [sample_entry] \<noteq> []"
    using q by (simp add: log_results_def includesQuery_def sample_entry_def)
  then obtain r where r: "r \<in> set (log_results (\<lambda>v. []) ''attempt'' [sample_entry])" by (meson list.set_sel(1))
  from search_opens_log [OF r, of False sample_search "\<lambda>s. None" None "[]"] r show ?thesis
    by (auto simp: sample_entry_def)
qed

end
